(* ===== verification/Prelude.thy ===== *)
theory Prelude
  imports Main "HOL-Library.Word"
begin

text \<open>
  Shared vocabulary of the development: the machine types of the Go sources, the error values
  of every package as one datatype with Go's \<open>errors.Is\<close>, caller contexts as the sequence of
  answers that \<open>ctx.Err()\<close> gives, slices with their nil value, and the lemma collections
  that the component theories fill.
\<close>

section \<open>Lemma collections\<close>

named_theorems op_defs "definitions of the operations of a component, for case analysis"
named_theorems ctx_simps "evaluation of caller contexts"
named_theorems inv_intros "preservation of a component invariant by one operation"
named_theorems frame_simps "parts of a state that an operation does not write"

section \<open>Machine types\<close>

type_synonym uint64 = "64 word"

text \<open>
  A \<open>time.Time\<close> is an instant in nanoseconds counted from Go's zero time, so that
  \<open>IsZero\<close> is the test for 0.
\<close>

type_synonym gotime = int

definition IsZero :: "gotime \<Rightarrow> bool" where
  "IsZero t \<longleftrightarrow> t = 0"

lemma uint64_inc_neq [simp]: "(v :: uint64) + 1 \<noteq> v"
  by simp

lemma uint64_neq_inc [simp]: "(v :: uint64) \<noteq> v + 1"
  by (metis uint64_inc_neq)

lemma unat_uint64_inc: "(v :: uint64) + 1 \<noteq> 0 \<Longrightarrow> unat (v + 1) = Suc (unat v)"
  by (metis unatSuc add.commute)

section \<open>Errors\<close>

text \<open>
  The sentinel errors of the packages, an anonymous \<open>fmt.Errorf\<close> text, and the error that
  wraps two others (\<open>fmt.Errorf("%w: %w", a, b)\<close>).
\<close>

datatype err =
    ErrExists | ErrNotFound | ErrConflict | ErrCommitOutcomeUnknown
  | ErrInvalidWorkTransition
  | ErrInvalidContext
  | RunErrStaleEpoch | RunErrTerminal
  | SessionErrStaleEpoch | SessionErrSequence | SessionErrRuntimeNotOwner
  | RecoveryErrStaleEpoch | RecoveryErrRecoveryMode | RecoveryErrAlreadyRecovering
  | RecoveryErrReconciliationRequired
  | ErrInvalidTransition | ErrDenied | ErrOperationExists | ErrOperationAbsent
  | ErrIdempotencyConflict | ErrExternalEffectUnresolved
  | ErrActionNotAllowed | ErrInvalidRiskClass | ErrRunSessionEpochMismatch
  | ErrIdentity | ErrLease | ErrRecovery | ErrInactive | ErrPaused
  | ErrHypothesisNotFound | ErrEvidenceRequired
  | OutboxErrLeaseLost | OutboxErrNoHandler | OutboxErrRiskClass | OutboxErrRecoveryBlocked
  | OutboxErrOutcomeUnknown
  | ErrNoRows | ErrPolicy
  | CtxCanceled | CtxDeadlineExceeded
  | ErrText string
  | ErrWrap err err

fun errors_Is :: "err \<Rightarrow> err \<Rightarrow> bool" where
  "errors_Is (ErrWrap a b) t \<longleftrightarrow> ErrWrap a b = t \<or> errors_Is a t \<or> errors_Is b t"
| "errors_Is e t \<longleftrightarrow> e = t"

lemma errors_Is_refl [simp]: "errors_Is e e"
  by (cases e) auto

text \<open>The text of an error, as \<open>err.Error()\<close> or the verb \<open>%v\<close> prints it.\<close>

fun Error :: "err \<Rightarrow> string" where
  "Error ErrExists = ''record already exists''"
| "Error ErrNotFound = ''record not found''"
| "Error ErrConflict = ''optimistic concurrency conflict''"
| "Error ErrCommitOutcomeUnknown = ''authority commit outcome unknown; exact readback required''"
| "Error ErrInvalidWorkTransition = ''invalid work state transition''"
| "Error ErrInvalidContext = ''invalid context reference''"
| "Error RunErrStaleEpoch = ''stale execution epoch''"
| "Error RunErrTerminal = ''run is terminal''"
| "Error SessionErrStaleEpoch = ''stale session epoch''"
| "Error SessionErrSequence = ''steering sequence must increase''"
| "Error SessionErrRuntimeNotOwner = ''runtime no longer owns session writes''"
| "Error RecoveryErrStaleEpoch = ''stale recovery epoch''"
| "Error RecoveryErrRecoveryMode =
     ''mutating external actions are blocked during recovery reconciliation''"
| "Error RecoveryErrAlreadyRecovering = ''recovery reconciliation is already active''"
| "Error RecoveryErrReconciliationRequired =
     ''reconciliation must be confirmed before leaving recovery mode''"
| "Error ErrInvalidTransition = ''invalid external operation transition''"
| "Error ErrDenied = ''action denied''"
| "Error ErrOperationExists = ''operation already exists''"
| "Error ErrOperationAbsent = ''operation not found''"
| "Error ErrIdempotencyConflict = ''idempotency key reused for different request''"
| "Error ErrExternalEffectUnresolved =
     ''external Action effect unresolved; exact readback required''"
| "Error ErrActionNotAllowed = ''action is not allowed by frozen task contract''"
| "Error ErrInvalidRiskClass = ''invalid action risk class''"
| "Error ErrRunSessionEpochMismatch = ''run/session execution identity mismatch''"
| "Error ErrIdentity = ''worker input identity mismatch''"
| "Error ErrLease = ''worker lease is absent, expired or superseded''"
| "Error ErrRecovery = ''worker admission blocked by recovery''"
| "Error ErrInactive = ''run is terminal or no longer runtime-owned''"
| "Error ErrPaused = ''run or session is paused; defer without revoking intent''"
| "Error ErrHypothesisNotFound = ''hypothesis not found''"
| "Error ErrEvidenceRequired = ''confirmation requires evidence''"
| "Error OutboxErrLeaseLost = ''outbox lease lost''"
| "Error OutboxErrNoHandler = ''outbox topic has no handler''"
| "Error OutboxErrRiskClass = ''outbox risk classification is missing or mismatched''"
| "Error OutboxErrRecoveryBlocked = ''outbox dispatch blocked by recovery authority''"
| "Error OutboxErrOutcomeUnknown = ''outbox recipient outcome requires reconciliation''"
| "Error ErrNoRows = ''no rows in result set''"
| "Error ErrPolicy = ''invalid offline sandbox policy''"
| "Error CtxCanceled = ''context canceled''"
| "Error CtxDeadlineExceeded = ''context deadline exceeded''"
| "Error (ErrText s) = s"
| "Error (ErrWrap a b) = Error a @ '': '' @ Error b"

section \<open>Caller contexts\<close>

text \<open>
  A context is what its successive \<open>ctx.Err()\<close> calls answer: entry \<open>i\<close> is the answer to the
  \<open>i\<close>-th of them. A callee that is entered after \<open>k\<close> checks gets the rest of the sequence.
  Theorems quantify over all contexts, so cancellation may arrive between any two checks.
\<close>

type_synonym ctx = "nat \<Rightarrow> err option"

definition ctx_from :: "nat \<Rightarrow> ctx \<Rightarrow> ctx" where
  "ctx_from k c = (\<lambda>i. c (k + i))"

definition background :: ctx where
  "background = (\<lambda>_. None)"

lemma ctx_from_apply [simp, ctx_simps]: "ctx_from k c i = c (k + i)"
  by (simp add: ctx_from_def)

lemma background_apply [simp, ctx_simps]: "background i = None"
  by (simp add: background_def)

lemma ctx_from_background [simp, ctx_simps]: "ctx_from k background = background"
  by (simp add: ctx_from_def background_def)

section \<open>Results\<close>

type_synonym 'a result = "err + 'a"

definition is_ok :: "'a result \<Rightarrow> bool" where
  "is_ok r \<longleftrightarrow> (\<exists>x. r = Inr x)"

lemma is_ok_simps [simp]: "is_ok (Inr x)" "\<not> is_ok (Inl e)"
  by (auto simp: is_ok_def)

text \<open>A check that answers an optional error, then the rest of the function body.\<close>

definition unless_err :: "err option \<Rightarrow> 'a result \<Rightarrow> 'a result" where
  "unless_err e k = (case e of Some x \<Rightarrow> Inl x | None \<Rightarrow> k)"

definition unless :: "bool \<Rightarrow> err \<Rightarrow> 'a result \<Rightarrow> 'a result" where
  "unless b e k = (if b then Inl e else k)"

definition rbind :: "'a result \<Rightarrow> ('a \<Rightarrow> 'b result) \<Rightarrow> 'b result" where
  "rbind r f = (case r of Inl e \<Rightarrow> Inl e | Inr x \<Rightarrow> f x)"

lemma unless_err_simps [simp]:
  "unless_err None k = k" "unless_err (Some e) k = Inl e"
  by (simp_all add: unless_err_def)

lemma unless_simps [simp]:
  "unless True e k = Inl e" "unless False e k = k"
  by (simp_all add: unless_def)

lemma rbind_simps [simp]:
  "rbind (Inl e) f = Inl e" "rbind (Inr x) f = f x"
  by (simp_all add: rbind_def)

lemma unless_err_Inr [simp]: "unless_err e k = Inr x \<longleftrightarrow> e = None \<and> k = Inr x"
  by (cases e) auto

lemma unless_Inr [simp]: "unless b e k = Inr x \<longleftrightarrow> \<not> b \<and> k = Inr x"
  by (cases b) auto

lemma rbind_Inr [simp]: "rbind r f = Inr y \<longleftrightarrow> (\<exists>x. r = Inr x \<and> f x = Inr y)"
  by (cases r) auto

lemma unless_Inl: "unless b e k = Inl e' \<longleftrightarrow> (b \<and> e' = e) \<or> (\<not> b \<and> k = Inl e')"
  by (cases b) auto

lemma rbind_Inl: "rbind r f = Inl e \<longleftrightarrow> r = Inl e \<or> (\<exists>x. r = Inr x \<and> f x = Inl e)"
  by (cases r) auto

text \<open>
  An operation on a shared state answers an error, leaving the state alone, or writes the new
  state. \<open>attempt\<close> gives the answer together with the state after the call.
\<close>

definition attempt :: "'s \<Rightarrow> 's result \<Rightarrow> err option \<times> 's" where
  "attempt s r = (case r of Inl e \<Rightarrow> (Some e, s) | Inr s' \<Rightarrow> (None, s'))"

lemma attempt_simps [simp]:
  "attempt s (Inl e) = (Some e, s)" "attempt s (Inr s') = (None, s')"
  by (simp_all add: attempt_def)

lemma attempt_None [simp]: "attempt s r = (None, s') \<longleftrightarrow> r = Inr s'"
  by (cases r) auto

lemma attempt_Some [simp]: "attempt s r = (Some e, s') \<longleftrightarrow> r = Inl e \<and> s' = s"
  by (cases r) auto

text \<open>The lookup in a Go map that turns a missing key into an error.\<close>

definition lookup_or :: "err \<Rightarrow> ('k \<rightharpoonup> 'v) \<Rightarrow> 'k \<Rightarrow> 'v result" where
  "lookup_or e m k = (case m k of None \<Rightarrow> Inl e | Some v \<Rightarrow> Inr v)"

lemma lookup_or_Inr [simp]: "lookup_or e m k = Inr v \<longleftrightarrow> m k = Some v"
  by (auto simp: lookup_or_def split: option.splits)

lemma lookup_or_Inl [simp]: "lookup_or e m k = Inl e' \<longleftrightarrow> m k = None \<and> e' = e"
  by (auto simp: lookup_or_def split: option.splits)

lemma lookup_or_Some [simp]: "m k = Some v \<Longrightarrow> lookup_or e m k = Inr v"
  by simp

lemma lookup_or_None [simp]: "m k = None \<Longrightarrow> lookup_or e m k = Inl e"
  by simp

section \<open>Slices\<close>

text \<open>
  A slice field that is marshalled without \<open>omitempty\<close> keeps its nil value apart from the empty
  slice, since the two have different JSON texts. Other slices are lists.
\<close>

datatype 'a slice = NilSlice | Slice "'a list"

primrec elems :: "'a slice \<Rightarrow> 'a list" where
  "elems NilSlice = []"
| "elems (Slice xs) = xs"

text \<open>The copy \<open>append([]T(nil), xs...)\<close>, which is nil when there is nothing to copy.\<close>

definition copy_slice :: "'a slice \<Rightarrow> 'a slice" where
  "copy_slice s = (if elems s = [] then NilSlice else Slice (elems s))"

lemma elems_copy_slice [simp]: "elems (copy_slice s) = elems s"
  by (cases s) (auto simp: copy_slice_def)

section \<open>Write-once maps\<close>

text \<open>
  Most of the records kept by the store are never overwritten. One map extends another when
  it keeps every entry.
\<close>

definition extends :: "('k \<rightharpoonup> 'v) \<Rightarrow> ('k \<rightharpoonup> 'v) \<Rightarrow> bool" where
  "extends m m' \<longleftrightarrow> (\<forall>k v. m k = Some v \<longrightarrow> m' k = Some v)"

lemma extends_refl [simp, intro]: "extends m m"
  by (simp add: extends_def)

lemma extends_trans: "extends a b \<Longrightarrow> extends b c \<Longrightarrow> extends a c"
  by (simp add: extends_def)

lemma extends_upd_fresh [intro]: "m k = None \<Longrightarrow> extends m (m(k \<mapsto> v))"
  by (auto simp: extends_def)

lemma extends_upd_same [intro]: "m k = Some v \<Longrightarrow> extends m (m(k \<mapsto> v))"
  by (auto simp: extends_def)

lemma extendsD: "extends m m' \<Longrightarrow> m k = Some v \<Longrightarrow> m' k = Some v"
  by (simp add: extends_def)

section \<open>Duplicate detection\<close>

text \<open>
  The loop \<open>for x { if x == "" || seen[x] { fail }; seen[x] = true }\<close>, over the keys of a list.
\<close>

fun all_fresh :: "('a \<Rightarrow> bool) \<Rightarrow> 'a set \<Rightarrow> 'a list \<Rightarrow> bool" where
  "all_fresh ok seen [] \<longleftrightarrow> True"
| "all_fresh ok seen (x # xs) \<longleftrightarrow> ok x \<and> x \<notin> seen \<and> all_fresh ok (insert x seen) xs"

lemma all_fresh_iff:
  "all_fresh ok seen xs \<longleftrightarrow> distinct xs \<and> set xs \<inter> seen = {} \<and> (\<forall>x \<in> set xs. ok x)"
  by (induction xs arbitrary: seen) auto

end
