(* ===== verification/GoStrings.thy ===== *)
theory GoStrings
  imports Prelude
begin

text \<open>
  The parts of Go's \<open>strings\<close>, \<open>strconv\<close>, \<open>unicode/utf8\<close> and \<open>regexp\<close> packages that the
  sources use. A Go string is a sequence of bytes, which is what a \<open>string\<close> (a list of 8-bit
  characters) is here; text literals of the sources are ASCII.
\<close>

section \<open>Bytes\<close>

abbreviation byte :: "char \<Rightarrow> nat" where
  "byte c \<equiv> of_char c"

definition byte_in :: "nat \<Rightarrow> nat \<Rightarrow> char \<Rightarrow> bool" where
  "byte_in lo hi c \<longleftrightarrow> lo \<le> byte c \<and> byte c \<le> hi"

definition is_digit :: "char \<Rightarrow> bool" where
  "is_digit = byte_in 48 57"

definition is_lower_hex :: "char \<Rightarrow> bool" where
  "is_lower_hex c \<longleftrightarrow> is_digit c \<or> byte_in 97 102 c"

definition is_hex :: "char \<Rightarrow> bool" where
  "is_hex c \<longleftrightarrow> is_lower_hex c \<or> byte_in 65 70 c"

definition is_alnum :: "char \<Rightarrow> bool" where
  "is_alnum c \<longleftrightarrow> is_digit c \<or> byte_in 65 90 c \<or> byte_in 97 122 c"

section \<open>Searching\<close>

definition HasPrefix :: "string \<Rightarrow> string \<Rightarrow> bool" where
  "HasPrefix s p \<longleftrightarrow> take (length p) s = p"

fun Contains :: "string \<Rightarrow> string \<Rightarrow> bool" where
  "Contains [] sub \<longleftrightarrow> sub = []"
| "Contains (c # s) sub \<longleftrightarrow> HasPrefix (c # s) sub \<or> Contains s sub"

definition ContainsAny :: "string \<Rightarrow> string \<Rightarrow> bool" where
  "ContainsAny s chars \<longleftrightarrow> list_ex (\<lambda>c. c \<in> set chars) s"

lemma HasPrefix_iff: "HasPrefix s p \<longleftrightarrow> (\<exists>t. s = p @ t)"
  unfolding HasPrefix_def by (metis append_eq_conv_conj append_take_drop_id)

lemma Contains_iff: "Contains s sub \<longleftrightarrow> (\<exists>a b. s = a @ sub @ b)"
proof (induction s)
  case Nil
  then show ?case by auto
next
  case (Cons c s)
  have "(\<exists>a b. c # s = a @ sub @ b) \<longleftrightarrow> HasPrefix (c # s) sub \<or> (\<exists>a b. s = a @ sub @ b)"
    by (metis HasPrefix_iff append_Cons append_Nil append_eq_Cons_conv)
  with Cons.IH show ?case by simp
qed

section \<open>Case mapping\<close>

text \<open>
  \<open>strings.ToUpper\<close> and \<open>strings.ToLower\<close> work on code points. The results are only compared
  with, or searched for, ASCII text, so what matters of a code point outside ASCII is whether it
  maps into ASCII: upper case sends U+0131 to I and U+017F to S, lower case sends U+0130 to i and
  U+212A to k, and no other code point does. All other bytes outside ASCII stay as they are here.
\<close>

definition upper_char :: "char \<Rightarrow> char" where
  "upper_char c = (if byte_in 97 122 c then char_of (byte c - 32) else c)"

definition lower_char :: "char \<Rightarrow> char" where
  "lower_char c = (if byte_in 65 90 c then char_of (byte c + 32) else c)"

fun ToUpper :: "string \<Rightarrow> string" where
  "ToUpper [] = []"
| "ToUpper (a # s) =
     (case s of
        [] \<Rightarrow> [upper_char a]
      | b # t \<Rightarrow>
          if byte a = 0xC4 \<and> byte b = 0xB1 then CHR ''I'' # ToUpper t
          else if byte a = 0xC5 \<and> byte b = 0xBF then CHR ''S'' # ToUpper t
          else upper_char a # ToUpper s)"

fun ToLower :: "string \<Rightarrow> string" where
  "ToLower [] = []"
| "ToLower (a # s) =
     (case s of
        b # t \<Rightarrow>
          if byte a = 0xC4 \<and> byte b = 0xB0 then CHR ''i'' # ToLower t
          else if byte a = 0xE2 \<and> byte b = 0x84 \<and> t \<noteq> [] \<and> byte (hd t) = 0xAA
          then CHR ''k'' # ToLower (tl t)
          else lower_char a # ToLower s
      | [] \<Rightarrow> [lower_char a])"

section \<open>White space\<close>

text \<open>The UTF-8 encodings of the code points for which \<open>unicode.IsSpace\<close> holds.\<close>

definition space_encodings :: "string list" where
  "space_encodings =
     map (map char_of)
       ([[9], [10], [11], [12], [13], [32], [0xC2, 0x85], [0xC2, 0xA0], [0xE1, 0x9A, 0x80]]
        @ map (\<lambda>n. [0xE2, 0x80, 0x80 + n]) [0..<11]
        @ [[0xE2, 0x80, 0xA8], [0xE2, 0x80, 0xA9], [0xE2, 0x80, 0xAF], [0xE2, 0x81, 0x9F],
           [0xE3, 0x80, 0x80 :: nat]])"

fun strip_front :: "string list \<Rightarrow> nat \<Rightarrow> string \<Rightarrow> string" where
  "strip_front encs 0 s = s"
| "strip_front encs (Suc n) s =
     (case find (\<lambda>e. HasPrefix s e) encs of
        None \<Rightarrow> s
      | Some e \<Rightarrow> strip_front encs n (drop (length e) s))"

text \<open>
  UTF-8 is self-synchronising, so a trailing code point is a space exactly when the bytes end in
  one of the encodings. Each round drops at least one byte: as many rounds as bytes suffice.
\<close>

definition TrimSpace :: "string \<Rightarrow> string" where
  "TrimSpace s =
     (let t = strip_front space_encodings (length s) s
      in rev (strip_front (map rev space_encodings) (length t) (rev t)))"

text \<open>The bound shared by many validations: nonempty, at most \<open>limit\<close> bytes, no outer space.\<close>

definition bounded :: "string \<Rightarrow> nat \<Rightarrow> bool" where
  "bounded value limit \<longleftrightarrow> value \<noteq> [] \<and> length value \<le> limit \<and> TrimSpace value = value"

lemma strip_front_length: "length (strip_front encs n s) \<le> length s"
proof (induction n arbitrary: s)
  case 0
  show ?case by simp
next
  case (Suc n)
  show ?case
  proof (cases "find (\<lambda>e. HasPrefix s e) encs")
    case None
    then show ?thesis by simp
  next
    case (Some e)
    then have "length (strip_front encs n (drop (length e) s)) \<le> length (drop (length e) s)"
      by (intro Suc.IH)
    with Some show ?thesis by simp
  qed
qed

lemma strip_front_enough:
  assumes "\<forall>e \<in> set encs. e \<noteq> []" and "length s \<le> n" and "e \<in> set encs"
  shows "strip_front encs n s = [] \<or> \<not> HasPrefix (strip_front encs n s) e"
  using assms(2)
proof (induction n arbitrary: s)
  case 0
  then show ?case by simp
next
  case (Suc n)
  show ?case
  proof (cases "find (\<lambda>e. HasPrefix s e) encs")
    case None
    with assms(3) have "\<not> HasPrefix s e" by (auto simp: find_None_iff)
    with None show ?thesis by simp
  next
    case (Some d)
    with assms(1) have "d \<noteq> []" by (auto simp: find_Some_iff)
    with Suc.prems have "length (drop (length d) s) \<le> n" by (cases d) auto
    with Some show ?thesis using Suc.IH by simp
  qed
qed

text \<open>A string whose outer bytes are visible ASCII has nothing to trim.\<close>

definition graphic :: "char \<Rightarrow> bool" where
  "graphic = byte_in 0x21 0x7F"

lemma space_encoding_ends:
  "e \<in> set space_encodings \<Longrightarrow> e \<noteq> [] \<and> \<not> graphic (hd e) \<and> \<not> graphic (last e)"
  by (auto simp: space_encodings_def graphic_def byte_in_def)

lemma strip_front_graphic:
  assumes "s \<noteq> []" and "graphic (hd s)" and "\<forall>e \<in> set encs. e \<noteq> [] \<and> \<not> graphic (hd e)"
  shows "strip_front encs n s = s"
proof (cases n)
  case 0
  then show ?thesis by simp
next
  case (Suc m)
  have "\<not> HasPrefix s e" if "e \<in> set encs" for e
    using assms that by (cases e) (auto simp: HasPrefix_iff)
  then have "find (HasPrefix s) encs = None" by (auto simp: find_None_iff)
  with Suc show ?thesis by simp
qed

lemma TrimSpace_graphic:
  assumes "s \<noteq> []" and "graphic (hd s)" and "graphic (last s)"
  shows "TrimSpace s = s"
proof -
  have "strip_front space_encodings (length s) s = s"
    using assms space_encoding_ends by (intro strip_front_graphic) auto
  moreover have "strip_front (map rev space_encodings) (length s) (rev s) = rev s"
    using assms space_encoding_ends by (intro strip_front_graphic) (auto simp: hd_rev)
  ultimately show ?thesis by (simp add: TrimSpace_def Let_def)
qed

section \<open>Anchored patterns\<close>

text \<open>
  \<open>^[A][B]{0,n}$\<close>: one byte of the first class, then at most \<open>n\<close> of the second. Go's \<open>$\<close>
  without the multi-line flag matches at the end of the text only.
\<close>

fun match_class :: "(char \<Rightarrow> bool) \<Rightarrow> (char \<Rightarrow> bool) \<Rightarrow> nat \<Rightarrow> string \<Rightarrow> bool" where
  "match_class first rest n [] \<longleftrightarrow> False"
| "match_class first rest n (c # s) \<longleftrightarrow> first c \<and> length s \<le> n \<and> list_all rest s"

definition match_exactly :: "(char \<Rightarrow> bool) \<Rightarrow> nat \<Rightarrow> string \<Rightarrow> bool" where
  "match_exactly cls n s \<longleftrightarrow> length s = n \<and> list_all cls s"

section \<open>Decimal numbers\<close>

fun dec_nat :: "nat \<Rightarrow> string" where
  "dec_nat n = (if n < 10 then [char_of (48 + n)] else dec_nat (n div 10) @ [char_of (48 + n mod 10)])"

declare dec_nat.simps [simp del]

definition dec_int :: "int \<Rightarrow> string" where
  "dec_int i = (if i < 0 then CHR ''-'' # dec_nat (nat (- i)) else dec_nat (nat i))"

section \<open>UTF-8\<close>

definition is_cont :: "char \<Rightarrow> bool" where
  "is_cont = byte_in 0x80 0xBF"

text \<open>Bytes of the well-formed code point at the front, 0 where \<open>DecodeRune\<close> reports an error.\<close>

fun rune_len :: "string \<Rightarrow> nat" where
  "rune_len [] = 0"
| "rune_len (a # s) =
     (if byte a < 0x80 then 1
      else if byte_in 0xC2 0xDF a then (if s \<noteq> [] \<and> is_cont (hd s) then 2 else 0)
      else if byte_in 0xE0 0xEF a then
        (if 2 \<le> length s \<and> is_cont (s ! 0) \<and> is_cont (s ! 1)
            \<and> (byte a = 0xE0 \<longrightarrow> 0xA0 \<le> byte (s ! 0))
            \<and> (byte a = 0xED \<longrightarrow> byte (s ! 0) \<le> 0x9F)
         then 3 else 0)
      else if byte_in 0xF0 0xF4 a then
        (if 3 \<le> length s \<and> is_cont (s ! 0) \<and> is_cont (s ! 1) \<and> is_cont (s ! 2)
            \<and> (byte a = 0xF0 \<longrightarrow> 0x90 \<le> byte (s ! 0))
            \<and> (byte a = 0xF4 \<longrightarrow> byte (s ! 0) \<le> 0x8F)
         then 4 else 0)
      else 0)"

section \<open>Quoting\<close>

text \<open>
  The verb \<open>%q\<close> of error texts: the escapes of \<open>strconv.Quote\<close> for ASCII; other bytes are printed
  as they are. The texts are only shown, never compared.
\<close>

definition quote_hex :: "nat \<Rightarrow> char" where
  "quote_hex n = (if n < 10 then char_of (48 + n) else char_of (87 + n))"

definition quote_char :: "char \<Rightarrow> string" where
  "quote_char c =
     (if c = CHR 0x22 \<or> c = CHR 0x5C then [CHR 0x5C, c]
      else if byte c = 7 then [CHR 0x5C, CHR ''a''] else if byte c = 8 then [CHR 0x5C, CHR ''b'']
      else if byte c = 12 then [CHR 0x5C, CHR ''f''] else if byte c = 10 then [CHR 0x5C, CHR ''n'']
      else if byte c = 13 then [CHR 0x5C, CHR ''r''] else if byte c = 9 then [CHR 0x5C, CHR ''t'']
      else if byte c = 11 then [CHR 0x5C, CHR ''v'']
      else if byte c < 32 \<or> byte c = 127
      then [CHR 0x5C, CHR ''x'', quote_hex (byte c div 16), quote_hex (byte c mod 16)]
      else [c])"

definition Quote :: "string \<Rightarrow> string" where
  "Quote s = CHR 0x22 # concat (map quote_char s) @ [CHR 0x22]"

end
