(* ===== verification/Canonical.thy ===== *)
theory Canonical
  imports GoStrings
begin

unbundle bit_operations_syntax

text \<open>
  Package \<open>canonical\<close>: the digest of a value is the SHA-256 of its \<open>encoding/json\<close> text,
  written \<open>sha256:\<close> and 64 lower-case hex digits. The standard library's marshaller and hash are
  written out, so digests are computable functions of the records. The marshaller cannot fail on
  the records digested here (no floats, maps, channels or times), so \<open>Digest\<close> returns the text alone.
\<close>

section \<open>JSON texts\<close>

datatype json =
    JNull
  | JBool bool
  | JInt int
  | JStr string
  | JArr "json list"
  | JObj "(string \<times> json) list"

definition hex_digit :: "nat \<Rightarrow> char" where
  "hex_digit n = (if n < 10 then char_of (48 + n) else char_of (87 + n))"

definition escape_char :: "char \<Rightarrow> string" where
  "escape_char c =
     (if byte c = 0x22 \<or> byte c = 0x5C then [CHR 0x5C, c]
      else if byte c = 8 then [CHR 0x5C, CHR ''b'']
      else if byte c = 12 then [CHR 0x5C, CHR ''f'']
      else if byte c = 10 then [CHR 0x5C, CHR ''n'']
      else if byte c = 13 then [CHR 0x5C, CHR ''r'']
      else if byte c = 9 then [CHR 0x5C, CHR ''t'']
      else if byte c < 0x20 \<or> c = CHR ''<'' \<or> c = CHR ''>'' \<or> c = CHR ''&''
      then [CHR 0x5C, CHR ''u'', CHR ''0'', CHR ''0'',
            hex_digit (byte c div 16), hex_digit (byte c mod 16)]
      else [c])"

text \<open>
  The string encoder with HTML escaping, as \<open>json.Marshal\<close> runs it: bytes that are not
  well-formed UTF-8 become U+FFFD, and U+2028 and U+2029 are escaped.
\<close>

function json_chars :: "string \<Rightarrow> string" where
  "json_chars [] = []"
| "json_chars (c # s) =
     (if byte c < 0x80 then escape_char c @ json_chars s
      else let n = rune_len (c # s) in
        if n = 0 then CHR 0x5C # ''ufffd'' @ json_chars s
        else if n = 3 \<and> byte c = 0xE2 \<and> byte (s ! 0) = 0x80 \<and> byte (s ! 1) \<in> {0xA8, 0xA9}
        then CHR 0x5C # ''u202'' @ [hex_digit (byte (s ! 1) mod 16)] @ json_chars (drop (n - 1) s)
        else take n (c # s) @ json_chars (drop (n - 1) s))"
  by pat_completeness auto
termination
  by (relation "measure length") auto

definition json_string :: "string \<Rightarrow> string" where
  "json_string s = CHR 0x22 # json_chars s @ [CHR 0x22]"

definition comma_join :: "string list \<Rightarrow> string" where
  "comma_join xs = concat (case xs of [] \<Rightarrow> [] | x # rest \<Rightarrow> x # map (\<lambda>y. CHR '','' # y) rest)"

fun json_encode :: "json \<Rightarrow> string" where
  "json_encode JNull = ''null''"
| "json_encode (JBool b) = (if b then ''true'' else ''false'')"
| "json_encode (JInt i) = dec_int i"
| "json_encode (JStr s) = json_string s"
| "json_encode (JArr xs) = CHR ''['' # comma_join (map json_encode xs) @ '']''"
| "json_encode (JObj fs) =
     CHR ''{'' # comma_join (map (\<lambda>(k, v). json_string k @ CHR '':'' # json_encode v) fs) @ ''}''"

text \<open>Struct fields: plain, and with \<open>omitempty\<close>.\<close>

definition str_field :: "string \<Rightarrow> string \<Rightarrow> (string \<times> json) list" where
  "str_field k v = [(k, JStr v)]"

definition str_opt :: "string \<Rightarrow> string \<Rightarrow> (string \<times> json) list" where
  "str_opt k v = (if v = [] then [] else [(k, JStr v)])"

definition u64_field :: "string \<Rightarrow> uint64 \<Rightarrow> (string \<times> json) list" where
  "u64_field k v = [(k, JInt (uint v))]"

definition int_field :: "string \<Rightarrow> int \<Rightarrow> (string \<times> json) list" where
  "int_field k v = [(k, JInt v)]"

definition int_opt :: "string \<Rightarrow> int \<Rightarrow> (string \<times> json) list" where
  "int_opt k v = (if v = 0 then [] else [(k, JInt v)])"

definition bool_field :: "string \<Rightarrow> bool \<Rightarrow> (string \<times> json) list" where
  "bool_field k v = [(k, JBool v)]"

definition slice_field :: "string \<Rightarrow> ('a \<Rightarrow> json) \<Rightarrow> 'a slice \<Rightarrow> (string \<times> json) list" where
  "slice_field k f s = [(k, case s of NilSlice \<Rightarrow> JNull | Slice xs \<Rightarrow> JArr (map f xs))]"

definition list_opt :: "string \<Rightarrow> ('a \<Rightarrow> json) \<Rightarrow> 'a list \<Rightarrow> (string \<times> json) list" where
  "list_opt k f xs = (if xs = [] then [] else [(k, JArr (map f xs))])"

section \<open>SHA-256\<close>

type_synonym u32 = "32 word"

text \<open>
  The round constants: the first 32 bits of the fractional parts of the cube roots of the first
  64 primes, written in decimal.
\<close>

definition sha_k :: "u32 list" where
  "sha_k =
    [1116352408, 1899447441, 3049323471, 3921009573, 961987163, 1508970993, 2453635748, 2870763221,
     3624381080, 310598401, 607225278, 1426881987, 1925078388, 2162078206, 2614888103, 3248222580,
     3835390401, 4022224774, 264347078, 604807628, 770255983, 1249150122, 1555081692, 1996064986,
     2554220882, 2821834349, 2952996808, 3210313671, 3336571891, 3584528711, 113926993, 338241895,
     666307205, 773529912, 1294757372, 1396182291, 1695183700, 1986661051, 2177026350, 2456956037,
     2730485921, 2820302411, 3259730800, 3345764771, 3516065817, 3600352804, 4094571909, 275423344,
     430227734, 506948616, 659060556, 883997877, 958139571, 1322822218, 1537002063, 1747873779,
     1955562222, 2024104815, 2227730452, 2361852424, 2428436474, 2756734187, 3204031479, 3329325298]"

definition rotr :: "nat \<Rightarrow> u32 \<Rightarrow> u32" where
  "rotr n w = drop_bit n w OR push_bit (32 - n) w"

datatype sha_state = ShaState u32 u32 u32 u32 u32 u32 u32 u32

definition sha_init :: sha_state where
  "sha_init = ShaState 1779033703 3144134277 1013904242 2773480762
                       1359893119 2600822924 528734635 1541459225"

fun sha_round :: "u32 \<times> u32 \<Rightarrow> sha_state \<Rightarrow> sha_state" where
  "sha_round (k, w) (ShaState a b c d e f g h) =
     (let s1 = rotr 6 e XOR rotr 11 e XOR rotr 25 e;
          ch = (e AND f) XOR (NOT e AND g);
          t1 = h + s1 + ch + k + w;
          s0 = rotr 2 a XOR rotr 13 a XOR rotr 22 a;
          maj = (a AND b) XOR (a AND c) XOR (b AND c)
      in ShaState (t1 + s0 + maj) a b c (d + t1) e f g)"

text \<open>The message schedule: the window holds the last sixteen words, oldest first.\<close>

definition sha_next :: "u32 list \<Rightarrow> u32" where
  "sha_next win =
     (let a = win ! 1; b = win ! 14
      in win ! 0 + (rotr 7 a XOR rotr 18 a XOR drop_bit 3 a) + win ! 9
         + (rotr 17 b XOR rotr 19 b XOR drop_bit 10 b))"

fun sha_schedule :: "nat \<Rightarrow> u32 list \<Rightarrow> u32 list" where
  "sha_schedule 0 win = []"
| "sha_schedule (Suc n) win = hd win # sha_schedule n (tl win @ [sha_next win])"

fun sha_add :: "sha_state \<Rightarrow> sha_state \<Rightarrow> sha_state" where
  "sha_add (ShaState a b c d e f g h) (ShaState a' b' c' d' e' f' g' h') =
     ShaState (a + a') (b + b') (c + c') (d + d') (e + e') (f + f') (g + g') (h + h')"

definition sha_block :: "sha_state \<Rightarrow> u32 list \<Rightarrow> sha_state" where
  "sha_block st ws = sha_add st (fold sha_round (zip sha_k (sha_schedule 64 ws)) st)"

text \<open>Padding: the byte 0x80, zeros up to 56 modulo 64, and the bit length in eight bytes.\<close>

definition be_bytes :: "nat \<Rightarrow> nat \<Rightarrow> nat list" where
  "be_bytes k n = map (\<lambda>i. (n div 256 ^ (k - 1 - i)) mod 256) [0..<k]"

definition sha_pad :: "nat list \<Rightarrow> nat list" where
  "sha_pad m =
     m @ 0x80 # replicate ((119 - length m mod 64) mod 64) 0 @ be_bytes 8 (8 * length m)"

fun sha_words :: "nat list \<Rightarrow> u32 list" where
  "sha_words (a # b # c # d # r) =
     word_of_nat (((a * 256 + b) * 256 + c) * 256 + d) # sha_words r"
| "sha_words r = []"

function sha_blocks :: "u32 list \<Rightarrow> u32 list list" where
  "sha_blocks ws = (if ws = [] then [] else take 16 ws # sha_blocks (drop 16 ws))"
  by pat_completeness auto
termination
  by (relation "measure length") auto

declare sha_blocks.simps [simp del]

definition sha256 :: "string \<Rightarrow> sha_state" where
  "sha256 s = fold (\<lambda>b st. sha_block st b) (sha_blocks (sha_words (sha_pad (map byte s)))) sha_init"

definition hex_word :: "u32 \<Rightarrow> string" where
  "hex_word w = map (\<lambda>i. hex_digit (unat (drop_bit (28 - 4 * i) w AND 15))) [0..<8]"

fun hex_state :: "sha_state \<Rightarrow> string" where
  "hex_state (ShaState a b c d e f g h) =
     concat (map hex_word [a, b, c, d, e, f, g, h])"

section \<open>Digests\<close>

definition BytesDigest :: "string \<Rightarrow> string" where
  "BytesDigest data = ''sha256:'' @ hex_state (sha256 data)"

definition Digest :: "json \<Rightarrow> string" where
  "Digest v = BytesDigest (json_encode v)"

definition ValidDigest :: "string \<Rightarrow> bool" where
  "ValidDigest value \<longleftrightarrow>
     HasPrefix value ''sha256:'' \<and> match_exactly is_lower_hex 64 (drop 7 value)"

section \<open>Every digest is valid\<close>

lemma hex_digit_lower: "n < 16 \<Longrightarrow> is_lower_hex (hex_digit n)"
  by (auto simp: hex_digit_def is_lower_hex_def is_digit_def byte_in_def)

lemma hex_word_shape: "length (hex_word w) = 8 \<and> list_all is_lower_hex (hex_word w)"
proof -
  have "unat (x AND (15 :: u32)) < 16" for x
  proof -
    have "unat (x AND 15) \<le> unat (15 :: u32)"
      by (rule word_and_le1 [THEN word_le_nat_alt [THEN iffD1]])
    then show ?thesis by simp
  qed
  then show ?thesis by (auto simp: hex_word_def list_all_iff intro!: hex_digit_lower)
qed

lemma hex_state_shape: "match_exactly is_lower_hex 64 (hex_state st)"
  by (cases st) (simp add: match_exactly_def hex_word_shape)

lemma ValidDigest_BytesDigest [simp]: "ValidDigest (BytesDigest b)"
  by (simp add: ValidDigest_def BytesDigest_def HasPrefix_def hex_state_shape)

lemma ValidDigest_Digest [simp]: "ValidDigest (Digest v)"
  by (simp add: Digest_def)

lemma ValidDigest_nonempty: "ValidDigest d \<Longrightarrow> d \<noteq> []"
  by (auto simp: ValidDigest_def HasPrefix_def)

lemma Digest_nonempty [simp]: "Digest v \<noteq> []"
  using ValidDigest_nonempty ValidDigest_Digest by blast

lemma length_ValidDigest: "ValidDigest d \<Longrightarrow> length d = 71"
  by (auto simp: ValidDigest_def HasPrefix_def match_exactly_def)

end
