(* ===== verification/CoreModel.thy ===== *)
theory CoreModel
  imports Canonical "HOL-Library.List_Lexorder" "HOL-Library.Char_ord" "HOL-Library.Product_Lexorder"
    "HOL-Library.Multiset"
begin

text \<open>
  Package \<open>core\<close>: the work item and its lifecycle, the frozen task contract, context references
  and run inputs, and the receipts of delivery, evidence and closure. A Go struct is a record
  whose fields carry a short prefix; a string type with named constants is a datatype with one
  constructor per constant and one for any other text a client may send.
\<close>

section \<open>Work items\<close>

datatype WorkState =
    WorkDraft | WorkReady | WorkExecuting | WorkVerifying | WorkReviewing | WorkClosed | WorkCancelled
  | WorkOther string

record WorkItem =
  work_ID :: string
  work_Title :: string
  work_SourceRef :: string
  work_HumanOwner :: string
  work_TargetID :: string
  work_AssuranceClass :: string
  work_ActiveTaskContractDigest :: string
  work_ActiveRunID :: string
  work_State :: WorkState
  work_Version :: uint64
  work_CreatedAt :: gotime

definition work_allowed :: "WorkState \<Rightarrow> WorkState \<Rightarrow> bool" where
  "work_allowed from to =
     (case from of
        WorkDraft \<Rightarrow> to = WorkReady \<or> to = WorkCancelled
      | WorkReady \<Rightarrow> to = WorkExecuting \<or> to = WorkCancelled
      | WorkExecuting \<Rightarrow> to = WorkVerifying \<or> to = WorkCancelled
      | WorkVerifying \<Rightarrow> to = WorkReviewing \<or> to = WorkCancelled
      | WorkReviewing \<Rightarrow> to = WorkClosed \<or> to = WorkCancelled
      | _ \<Rightarrow> False)"

definition Transition :: "WorkItem \<Rightarrow> WorkState \<Rightarrow> WorkItem result" where
  "Transition w to =
     (if work_State w = to then Inr w
      else unless (\<not> work_allowed (work_State w) to) ErrInvalidWorkTransition
             (Inr (w\<lparr>work_State := to\<rparr>)))"

section \<open>Task contracts\<close>

record TaskContract =
  task_ID :: string
  task_WorkItemID :: string
  task_TaskType :: string
  task_CapabilityIDs :: "string slice"
  task_SkillIDs :: "string slice"
  task_SkillContractDigest :: string
  task_SkillGuidanceVersion :: int
  task_Repository :: string
  task_BaseCommit :: string
  task_TargetID :: string
  task_TargetPlatform :: string
  task_AcceptanceCriteria :: "string slice"
  task_AllowedActions :: "string list"
  task_ExpectedOutputs :: "string list"
  task_VerificationPlanID :: string
  task_VerificationPlanDigest :: string
  task_Revision :: uint64

definition TaskContract_json :: "TaskContract \<Rightarrow> json" where
  "TaskContract_json t = JObj
     (str_field ''task_contract_id'' (task_ID t)
      @ str_field ''work_item_id'' (task_WorkItemID t)
      @ str_field ''task_type'' (task_TaskType t)
      @ slice_field ''capability_ids'' JStr (task_CapabilityIDs t)
      @ slice_field ''skill_ids'' JStr (task_SkillIDs t)
      @ str_opt ''skill_contract_digest'' (task_SkillContractDigest t)
      @ int_opt ''skill_guidance_version'' (task_SkillGuidanceVersion t)
      @ str_field ''repository'' (task_Repository t)
      @ str_field ''base_commit'' (task_BaseCommit t)
      @ str_opt ''target_id'' (task_TargetID t)
      @ str_opt ''target_platform'' (task_TargetPlatform t)
      @ slice_field ''acceptance_criteria'' JStr (task_AcceptanceCriteria t)
      @ list_opt ''allowed_actions'' JStr (task_AllowedActions t)
      @ list_opt ''expected_outputs'' JStr (task_ExpectedOutputs t)
      @ str_field ''verification_plan_id'' (task_VerificationPlanID t)
      @ str_field ''verification_plan_digest'' (task_VerificationPlanDigest t)
      @ u64_field ''revision'' (task_Revision t))"

definition TaskContract_Digest :: "TaskContract \<Rightarrow> string" where
  "TaskContract_Digest t = Digest (TaskContract_json t)"

section \<open>Context references\<close>

record ContextRef =
  ref_Source :: string
  ref_Type :: string
  ref_Version :: string
  ref_Digest :: string
  ref_Trust :: string

definition contextSource :: "string \<Rightarrow> bool" where
  "contextSource = match_class is_alnum (\<lambda>c. is_alnum c \<or> c \<in> set ''._:-'') 255"

definition contextVersion :: "string \<Rightarrow> bool" where
  "contextVersion = match_class is_alnum (\<lambda>c. is_alnum c \<or> c \<in> set ''._+-'') 127"

definition ContextRef_Validate :: "ContextRef \<Rightarrow> err option" where
  "ContextRef_Validate r =
     (if \<not> contextSource (ref_Source r) \<or> \<not> contextVersion (ref_Version r)
      then Some (ErrWrap ErrInvalidContext (ErrText ''source/version must be bounded logical identifiers, not locators''))
      else if ref_Type r \<notin> {''DOCUMENT'', ''SKILL'', ''LOG'', ''EVIDENCE''}
      then Some (ErrWrap ErrInvalidContext (ErrText ''unknown type''))
      else if \<not> ValidDigest (ref_Digest r)
      then Some (ErrWrap ErrInvalidContext (ErrText ''canonical raw-byte SHA-256 is required''))
      else if ref_Trust r \<noteq> ''APPROVED'' \<and> ref_Trust r \<noteq> ''UNTRUSTED''
      then Some (ErrWrap ErrInvalidContext (ErrText ''explicit trust classification is required''))
      else None)"

definition context_key :: "ContextRef \<Rightarrow> string" where
  "context_key r = ref_Type r @ '':'' @ ref_Source r"

fun validate_refs_from :: "nat \<Rightarrow> string set \<Rightarrow> ContextRef list \<Rightarrow> err option" where
  "validate_refs_from i seen [] = None"
| "validate_refs_from i seen (r # rs) =
     (case ContextRef_Validate r of
        Some e \<Rightarrow> Some (ErrWrap (ErrText (''context['' @ dec_nat i @ '']'')) e)
      | None \<Rightarrow>
          if context_key r \<in> seen
          then Some (ErrWrap ErrInvalidContext (ErrText (''duplicate source/type at context['' @ dec_nat i @ '']'')))
          else validate_refs_from (Suc i) (insert (context_key r) seen) rs)"

definition ValidateContextRefs :: "ContextRef list \<Rightarrow> err option" where
  "ValidateContextRefs refs =
     (if length refs > 64
      then Some (ErrWrap ErrInvalidContext (ErrText ''at most 64 context references''))
      else validate_refs_from 0 {} refs)"

section \<open>Run inputs\<close>

definition MaxSourceCheckpointArchiveSize :: int where
  "MaxSourceCheckpointArchiveSize = 800 * 2 ^ 20"

record ContinuationRef =
  cont_SourceRunID :: string
  cont_CheckpointDigest :: string
  cont_ArchiveDigest :: string
  cont_ArchiveSize :: int
  cont_SnapshotDigest :: string

definition ContinuationRef_Validate :: "ContinuationRef \<Rightarrow> string \<Rightarrow> err option" where
  "ContinuationRef_Validate c runID =
     (if cont_SourceRunID c = [] \<or> length (cont_SourceRunID c) > 256 \<or> cont_SourceRunID c = runID
         \<or> ContainsAny (cont_SourceRunID c) [CHR 0x00, CHR 0x0D, CHR 0x0A]
         \<or> cont_ArchiveSize c \<le> 0 \<or> cont_ArchiveSize c > MaxSourceCheckpointArchiveSize
      then Some (ErrText ''invalid source continuation identity'')
      else if \<not> list_all ValidDigest
                [cont_CheckpointDigest c, cont_ArchiveDigest c, cont_SnapshotDigest c]
      then Some (ErrText ''invalid source continuation digest'')
      else None)"

record RunInputManifest =
  input_Continuation :: "ContinuationRef option"
  input_RunID :: string
  input_TaskContractDigest :: string
  input_ContextRefs :: "ContextRef list"
  input_RuntimeProfile :: string
  input_ToolProfile :: string
  input_WorkerProfile :: string
  input_PolicyProfile :: string

definition ContextRef_json :: "ContextRef \<Rightarrow> json" where
  "ContextRef_json r = JObj
     (str_field ''source'' (ref_Source r) @ str_field ''type'' (ref_Type r)
      @ str_field ''version'' (ref_Version r) @ str_field ''digest'' (ref_Digest r)
      @ str_field ''trust'' (ref_Trust r))"

definition ContinuationRef_json :: "ContinuationRef \<Rightarrow> json" where
  "ContinuationRef_json c = JObj
     (str_field ''source_run_id'' (cont_SourceRunID c)
      @ str_field ''checkpoint_digest'' (cont_CheckpointDigest c)
      @ str_field ''archive_digest'' (cont_ArchiveDigest c)
      @ int_field ''archive_size'' (cont_ArchiveSize c)
      @ str_field ''snapshot_digest'' (cont_SnapshotDigest c))"

definition RunInputManifest_json :: "RunInputManifest \<Rightarrow> json" where
  "RunInputManifest_json m = JObj
     ((case input_Continuation m of None \<Rightarrow> [] | Some c \<Rightarrow> [(''continuation'', ContinuationRef_json c)])
      @ str_field ''run_id'' (input_RunID m)
      @ str_field ''task_contract_digest'' (input_TaskContractDigest m)
      @ list_opt ''context_refs'' ContextRef_json (input_ContextRefs m)
      @ str_field ''runtime_profile'' (input_RuntimeProfile m)
      @ str_field ''tool_profile'' (input_ToolProfile m)
      @ str_field ''worker_profile'' (input_WorkerProfile m)
      @ str_field ''policy_profile'' (input_PolicyProfile m))"

text \<open>The validation that \<open>Digest\<close> and the JSON decoder share, in the two orders they use.\<close>

definition continuation_error :: "RunInputManifest \<Rightarrow> err option" where
  "continuation_error m =
     (case input_Continuation m of None \<Rightarrow> None | Some c \<Rightarrow> ContinuationRef_Validate c (input_RunID m))"

definition RunInputManifest_Digest :: "RunInputManifest \<Rightarrow> string result" where
  "RunInputManifest_Digest m =
     unless_err (continuation_error m)
       (unless_err (ValidateContextRefs (input_ContextRefs m))
          (Inr (Digest (RunInputManifest_json m))))"

text \<open>
  The decoder after the strict JSON decoding: \<open>decoded\<close> is what \<open>decoder.Decode\<close> produced and
  \<open>at_eof\<close> whether nothing follows the value.
\<close>

definition RunInputManifest_UnmarshalJSON ::
  "RunInputManifest result \<Rightarrow> bool \<Rightarrow> RunInputManifest result" where
  "RunInputManifest_UnmarshalJSON decoded at_eof =
     (case decoded of
        Inl e \<Rightarrow> Inl (ErrWrap ErrInvalidContext (ErrText (Error e)))
      | Inr value \<Rightarrow>
          unless (\<not> at_eof) (ErrWrap ErrInvalidContext (ErrText ''trailing JSON''))
            (unless_err (ValidateContextRefs (input_ContextRefs value))
               (unless_err (continuation_error value) (Inr value))))"

section \<open>Receipts\<close>

record ArtifactRef =
  art_ID :: string
  art_Digest :: string
  art_MediaType :: string
  art_Locator :: string

record EvidenceRef =
  ev_ID :: string
  ev_DeliveryReceiptID :: string
  ev_RequirementID :: string
  ev_SubjectDigest :: string
  ev_Issuer :: string
  ev_Procedure :: string
  ev_Result :: string
  ev_ArtifactRefs :: "string list"
  ev_Applicable :: bool

record DeliveryReceipt =
  dr_ID :: string
  dr_WorkItemID :: string
  dr_TaskContractDigest :: string
  dr_RunID :: string
  dr_TargetID :: string
  dr_BaseCommit :: string
  dr_ResultCommit :: string
  dr_SubjectDigest :: string
  dr_Artifacts :: "ArtifactRef list"
  dr_KnownLimits :: "string list"
  dr_CreatedAt :: gotime

definition subject_artifact_json :: "string \<times> string \<Rightarrow> json" where
  "subject_artifact_json a = JObj (str_field ''artifact_id'' (fst a) @ str_field ''digest'' (snd a))"

definition subject_artifacts :: "DeliveryReceipt \<Rightarrow> (string \<times> string) list" where
  "subject_artifacts d = sort (map (\<lambda>a. (art_ID a, art_Digest a)) (dr_Artifacts d))"

definition CalculateSubjectDigest :: "DeliveryReceipt \<Rightarrow> string" where
  "CalculateSubjectDigest d = Digest (JObj
     (str_field ''task_contract_digest'' (dr_TaskContractDigest d)
      @ str_field ''run_id'' (dr_RunID d)
      @ str_opt ''target_id'' (dr_TargetID d)
      @ str_field ''base_commit'' (dr_BaseCommit d)
      @ str_opt ''result_commit'' (dr_ResultCommit d)
      @ list_opt ''artifacts'' subject_artifact_json (subject_artifacts d)))"

record ClosureReceipt =
  cl_ID :: string
  cl_WorkItemID :: string
  cl_TaskContractDigest :: string
  cl_RunID :: string
  cl_DeliveryReceiptID :: string
  cl_VerificationReportID :: string
  cl_ReviewReportID :: string
  cl_SubjectDigest :: string
  cl_Result :: string
  cl_CreatedAt :: gotime

section \<open>The work lifecycle\<close>

lemma Transition_Inr:
  "Transition w to = Inr w' \<longleftrightarrow>
     (work_State w = to \<and> w' = w) \<or>
     (work_State w \<noteq> to \<and> work_allowed (work_State w) to \<and> w' = w\<lparr>work_State := to\<rparr>)"
  by (auto simp: Transition_def)

lemma Transition_state: "Transition w to = Inr w' \<Longrightarrow> work_State w' = to"
  by (auto simp: Transition_Inr)

lemma Transition_frame:
  "Transition w to = Inr w' \<Longrightarrow> w' = w\<lparr>work_State := work_State w'\<rparr>"
  by (auto simp: Transition_Inr)

lemma Transition_from_terminal:
  "work_State w \<in> {WorkClosed, WorkCancelled} \<Longrightarrow> Transition w to = Inr w' \<Longrightarrow> w' = w"
  by (auto simp: Transition_Inr work_allowed_def)

text \<open>A sequence of requested transitions, stopping at the first refusal.\<close>

fun Transitions :: "WorkItem \<Rightarrow> WorkState list \<Rightarrow> WorkItem result" where
  "Transitions w [] = Inr w"
| "Transitions w (s # ss) = rbind (Transition w s) (\<lambda>w'. Transitions w' ss)"

text \<open>What is left of the lifecycle, up to closure, from a given state.\<close>

primrec stages_to_closed :: "WorkState \<Rightarrow> WorkState list" where
  "stages_to_closed WorkDraft =
     [WorkDraft, WorkReady, WorkExecuting, WorkVerifying, WorkReviewing, WorkClosed]"
| "stages_to_closed WorkReady = [WorkReady, WorkExecuting, WorkVerifying, WorkReviewing, WorkClosed]"
| "stages_to_closed WorkExecuting = [WorkExecuting, WorkVerifying, WorkReviewing, WorkClosed]"
| "stages_to_closed WorkVerifying = [WorkVerifying, WorkReviewing, WorkClosed]"
| "stages_to_closed WorkReviewing = [WorkReviewing, WorkClosed]"
| "stages_to_closed WorkClosed = [WorkClosed]"
| "stages_to_closed WorkCancelled = []"
| "stages_to_closed (WorkOther s) = []"

lemma stages_step:
  "work_allowed s t \<Longrightarrow> stages_to_closed t \<noteq> [] \<Longrightarrow> stages_to_closed s = s # stages_to_closed t"
  by (cases s) (auto simp: work_allowed_def)

lemma Transitions_stages:
  "Transitions w ss = Inr w' \<Longrightarrow> work_State w' = WorkClosed \<Longrightarrow>
   remdups_adj (work_State w # ss) = stages_to_closed (work_State w)"
proof (induction ss arbitrary: w)
  case Nil
  then show ?case by simp
next
  case (Cons s ss)
  from Cons.prems(1) obtain w1 where step: "Transition w s = Inr w1"
    and rest: "Transitions w1 ss = Inr w'" by auto
  have s: "work_State w1 = s" using step by (rule Transition_state)
  have IH: "remdups_adj (s # ss) = stages_to_closed s"
    using Cons.IH [OF rest Cons.prems(2)] s by simp
  then have ne: "stages_to_closed s \<noteq> []" by (metis remdups_adj_Nil_iff list.distinct(1))
  show ?case
  proof (cases "work_State w = s")
    case True
    with IH show ?thesis by simp
  next
    case False
    with step have "work_allowed (work_State w) s" by (auto simp: Transition_Inr)
    from stages_step [OF this ne] IH False show ?thesis by simp
  qed
qed

text \<open>
  C40. A work item that starts in DRAFT and is CLOSED after any sequence of accepted transitions has
  passed through READY, EXECUTING, VERIFYING and REVIEWING, each once and in this order; no
  stage of the lifecycle can be skipped or revisited.
\<close>

theorem draft_to_closed_visits_every_stage:
  assumes "work_State w = WorkDraft" and "Transitions w ss = Inr w'" and "work_State w' = WorkClosed"
  shows "remdups_adj (WorkDraft # ss) =
    [WorkDraft, WorkReady, WorkExecuting, WorkVerifying, WorkReviewing, WorkClosed]"
  using Transitions_stages [OF assms(2,3)] assms(1) by simp

definition sample_work :: WorkItem where
  "sample_work = \<lparr>work_ID = ''W-1'', work_Title = ''t'', work_SourceRef = '''', work_HumanOwner = ''urn:engineering-platform:owner'',
     work_TargetID = '''', work_AssuranceClass = '''', work_ActiveTaskContractDigest = '''',
     work_ActiveRunID = '''', work_State = WorkDraft, work_Version = 1, work_CreatedAt = 1\<rparr>"

theorem draft_to_closed_visits_every_stage_witness:
  "\<exists>w'. Transitions sample_work [WorkReady, WorkReady, WorkExecuting, WorkVerifying, WorkReviewing, WorkClosed]
          = Inr w' \<and> work_State w' = WorkClosed
     \<and> remdups_adj (WorkDraft # [WorkReady, WorkReady, WorkExecuting, WorkVerifying, WorkReviewing, WorkClosed])
        = [WorkDraft, WorkReady, WorkExecuting, WorkVerifying, WorkReviewing, WorkClosed]"
proof -
  let ?ss = "[WorkReady, WorkReady, WorkExecuting, WorkVerifying, WorkReviewing, WorkClosed]"
  let ?w' = "sample_work\<lparr>work_State := WorkClosed\<rparr>"
  have run: "Transitions sample_work ?ss = Inr ?w'"
    by (simp add: Transition_def work_allowed_def sample_work_def)
  have "remdups_adj (WorkDraft # ?ss) =
      [WorkDraft, WorkReady, WorkExecuting, WorkVerifying, WorkReviewing, WorkClosed]"
    by (rule draft_to_closed_visits_every_stage [OF _ run]) (simp_all add: sample_work_def)
  with run show ?thesis by auto
qed

section \<open>Context references\<close>

lemma context_key_inj:
  assumes "ContextRef_Validate r = None" and "ContextRef_Validate r' = None"
  shows "context_key r = context_key r' \<longleftrightarrow> ref_Type r = ref_Type r' \<and> ref_Source r = ref_Source r'"
  using assms by (auto simp: ContextRef_Validate_def context_key_def split: if_splits)

lemma validate_refs_from_None:
  "validate_refs_from i seen refs = None \<longleftrightarrow>
     (\<forall>r \<in> set refs. ContextRef_Validate r = None) \<and> distinct (map context_key refs)
     \<and> set (map context_key refs) \<inter> seen = {}"
  by (induction refs arbitrary: i seen) (auto split: option.splits)

lemma distinct_context_keys:
  assumes "\<forall>r \<in> set refs. ContextRef_Validate r = None"
  shows "distinct (map context_key refs) \<longleftrightarrow> distinct (map (\<lambda>r. (ref_Type r, ref_Source r)) refs)"
  using assms by (induction refs) (auto simp: context_key_inj image_iff)

text \<open>
  The context check accepts a list exactly when it has at most 64 references, each of them is
  valid on its own, and no two share both type and source: the check on the joined key
  \<open>type:source\<close> confuses no two valid references, so two versions of one logical source never
  enter one run input.
\<close>

theorem ValidateContextRefs_iff:
  "ValidateContextRefs refs = None \<longleftrightarrow>
     length refs \<le> 64 \<and> list_all (\<lambda>r. ContextRef_Validate r = None) refs
     \<and> distinct (map (\<lambda>r. (ref_Type r, ref_Source r)) refs)"
  using distinct_context_keys [of refs]
  by (auto simp: ValidateContextRefs_def validate_refs_from_None list_all_iff)

section \<open>Digests\<close>

lemma RunInputManifest_Digest_Inr:
  "RunInputManifest_Digest m = Inr d \<longleftrightarrow>
     continuation_error m = None \<and> ValidateContextRefs (input_ContextRefs m) = None
     \<and> d = Digest (RunInputManifest_json m)"
  by (auto simp: RunInputManifest_Digest_def)

text \<open>
  A run input that the decoder accepts can always be digested, and the digest is a canonical
  one: after decoding, hashing never turns into a server error.
\<close>

theorem decoded_run_input_has_digest:
  assumes "RunInputManifest_UnmarshalJSON decoded at_eof = Inr m"
  shows "RunInputManifest_Digest m = Inr (Digest (RunInputManifest_json m))
     \<and> ValidDigest (Digest (RunInputManifest_json m))"
  using assms by (auto simp: RunInputManifest_UnmarshalJSON_def RunInputManifest_Digest_Inr split: sum.splits)

definition sample_input :: RunInputManifest where
  "sample_input = \<lparr>input_Continuation = None, input_RunID = ''R-1'', input_TaskContractDigest = ''d'',
     input_ContextRefs = [], input_RuntimeProfile = ''rt'', input_ToolProfile = ''tool'',
     input_WorkerProfile = ''wk'', input_PolicyProfile = ''pol''\<rparr>"

theorem decoded_run_input_has_digest_witness:
  "RunInputManifest_UnmarshalJSON (Inr sample_input) True = Inr sample_input
   \<and> RunInputManifest_Digest sample_input = Inr (Digest (RunInputManifest_json sample_input))"
proof -
  have dec: "RunInputManifest_UnmarshalJSON (Inr sample_input) True = Inr sample_input"
    by (simp add: RunInputManifest_UnmarshalJSON_def sample_input_def ValidateContextRefs_def
        continuation_error_def)
  from decoded_run_input_has_digest [OF dec] dec show ?thesis by simp
qed

lemma subject_artifacts_perm:
  assumes "mset (map (\<lambda>a. (art_ID a, art_Digest a)) (dr_Artifacts d)) =
           mset (map (\<lambda>a. (art_ID a, art_Digest a)) (dr_Artifacts d'))"
  shows "subject_artifacts d = subject_artifacts d'"
  unfolding subject_artifacts_def
proof (rule properties_for_sort)
  show "mset (sort (map (\<lambda>a. (art_ID a, art_Digest a)) (dr_Artifacts d'))) =
        mset (map (\<lambda>a. (art_ID a, art_Digest a)) (dr_Artifacts d))"
    unfolding mset_sort using assms by (rule sym)
qed (rule sorted_sort)

text \<open>
  The subject digest of a delivery depends on its task, run, target, commits and on the
  multiset of artifact identities and digests only: reordering the artifacts, or changing media
  types, locators, known limits, the receipt's own id or time, leaves it unchanged.
\<close>

theorem CalculateSubjectDigest_order_independent:
  assumes "dr_TaskContractDigest d = dr_TaskContractDigest d'" and "dr_RunID d = dr_RunID d'"
    and "dr_TargetID d = dr_TargetID d'" and "dr_BaseCommit d = dr_BaseCommit d'"
    and "dr_ResultCommit d = dr_ResultCommit d'"
    and "mset (map (\<lambda>a. (art_ID a, art_Digest a)) (dr_Artifacts d)) =
         mset (map (\<lambda>a. (art_ID a, art_Digest a)) (dr_Artifacts d'))"
  shows "CalculateSubjectDigest d = CalculateSubjectDigest d'"
  using assms(1-5) subject_artifacts_perm [OF assms(6)] by (simp add: CalculateSubjectDigest_def)

definition sample_delivery :: "ArtifactRef list \<Rightarrow> string \<Rightarrow> DeliveryReceipt" where
  "sample_delivery as receipt = \<lparr>dr_ID = receipt, dr_WorkItemID = ''W-1'', dr_TaskContractDigest = ''d'',
     dr_RunID = ''R-1'', dr_TargetID = '''', dr_BaseCommit = ''c0'', dr_ResultCommit = ''c1'',
     dr_SubjectDigest = '''', dr_Artifacts = as, dr_KnownLimits = [], dr_CreatedAt = 1\<rparr>"

definition sample_artifact :: "string \<Rightarrow> string \<Rightarrow> ArtifactRef" where
  "sample_artifact i loc = \<lparr>art_ID = i, art_Digest = ''x'', art_MediaType = '''', art_Locator = loc\<rparr>"

theorem CalculateSubjectDigest_order_independent_witness:
  "CalculateSubjectDigest (sample_delivery [sample_artifact ''a'' ''l1'', sample_artifact ''b'' ''l2''] ''D-1'')
   = CalculateSubjectDigest (sample_delivery [sample_artifact ''b'' ''l3'', sample_artifact ''a'' ''l4''] ''D-2'')"
  by (rule CalculateSubjectDigest_order_independent)
    (simp_all add: sample_delivery_def sample_artifact_def add_mset_commute)

end
