(* ===== verification/Execution.thy ===== *)
theory Execution
  imports CoreModel
begin

text \<open>
  Packages \<open>run\<close> and \<open>session\<close>: the run with its execution epoch and terminal states, the
  interactive session with its control owner and steering sequence, and checkpoints. Methods that
  mutate their receiver return the new value. Epochs and sequences are 64-bit words.
\<close>

section \<open>Runs\<close>

datatype RunState =
    RunCreated | RunRunning | RunPaused | RunHumanControlled | RunCompleted | RunAborted
  | RunOther string

record Attempt =
  att_ID :: string
  att_Epoch :: uint64
  att_StartedAt :: gotime
  att_EndedAt :: gotime

record Run =
  run_ID :: string
  run_TaskContractDigest :: string
  run_RunInputManifestDigest :: string
  run_State :: RunState
  run_Version :: uint64
  run_CurrentEpoch :: uint64
  run_CurrentAttemptID :: string
  run_ControlOwner :: string

definition NewRun :: "string \<Rightarrow> string \<Rightarrow> string \<Rightarrow> Run" where
  "NewRun rid taskDigest inputDigest =
     \<lparr>run_ID = rid, run_TaskContractDigest = taskDigest, run_RunInputManifestDigest = inputDigest,
      run_State = RunCreated, run_Version = 1, run_CurrentEpoch = 0, run_CurrentAttemptID = [],
      run_ControlOwner = ''RUNTIME''\<rparr>"

definition run_terminal :: "Run \<Rightarrow> bool" where
  "run_terminal r \<longleftrightarrow> run_State r = RunCompleted \<or> run_State r = RunAborted"

definition StartAttempt :: "Run \<Rightarrow> string \<Rightarrow> gotime \<Rightarrow> (Attempt \<times> Run) result" where
  "StartAttempt r aid now =
     unless (run_terminal r) RunErrTerminal
       (let e = run_CurrentEpoch r + 1
        in Inr (\<lparr>att_ID = aid, att_Epoch = e, att_StartedAt = now, att_EndedAt = 0\<rparr>,
                r\<lparr>run_CurrentEpoch := e, run_CurrentAttemptID := aid, run_State := RunRunning,
                  run_ControlOwner := ''RUNTIME''\<rparr>))"

definition stale_run_epoch :: "Run \<Rightarrow> uint64 \<Rightarrow> err" where
  "stale_run_epoch r epoch =
     ErrWrap RunErrStaleEpoch
       (ErrText (''got '' @ dec_nat (unat epoch) @ '' want '' @ dec_nat (unat (run_CurrentEpoch r))))"

definition Run_CheckEpoch :: "Run \<Rightarrow> uint64 \<Rightarrow> err option" where
  "Run_CheckEpoch r epoch =
     (if epoch \<noteq> run_CurrentEpoch r then Some (stale_run_epoch r epoch)
      else if run_terminal r then Some RunErrTerminal
      else None)"

definition Run_Pause :: "Run \<Rightarrow> uint64 \<Rightarrow> Run result" where
  "Run_Pause r epoch = unless_err (Run_CheckEpoch r epoch) (Inr (r\<lparr>run_State := RunPaused\<rparr>))"

definition Run_Resume :: "Run \<Rightarrow> uint64 \<Rightarrow> Run result" where
  "Run_Resume r epoch = unless_err (Run_CheckEpoch r epoch) (Inr (r\<lparr>run_State := RunRunning\<rparr>))"

definition Run_Takeover :: "Run \<Rightarrow> uint64 \<Rightarrow> (uint64 \<times> Run) result" where
  "Run_Takeover r epoch =
     unless_err (Run_CheckEpoch r epoch)
       (let e = run_CurrentEpoch r + 1
        in Inr (e, r\<lparr>run_CurrentEpoch := e, run_State := RunHumanControlled,
                     run_ControlOwner := ''HUMAN''\<rparr>))"

definition Run_Complete :: "Run \<Rightarrow> uint64 \<Rightarrow> Run result" where
  "Run_Complete r epoch = unless_err (Run_CheckEpoch r epoch) (Inr (r\<lparr>run_State := RunCompleted\<rparr>))"

definition Run_Abort :: "Run \<Rightarrow> uint64 \<Rightarrow> Run result" where
  "Run_Abort r epoch = unless_err (Run_CheckEpoch r epoch) (Inr (r\<lparr>run_State := RunAborted\<rparr>))"

section \<open>Sessions\<close>

datatype ControlOwner = OwnerRuntime | OwnerHuman | OwnerOther string

record SteeringCommand =
  cmd_ID :: string
  cmd_RunID :: string
  cmd_ExecutionEpoch :: uint64
  cmd_Sequence :: uint64
  cmd_Actor :: string
  cmd_ContentDigest :: string
  cmd_CreatedAt :: gotime

record Session =
  sess_RunID :: string
  sess_ExecutionEpoch :: uint64
  sess_Owner :: ControlOwner
  sess_LastSequence :: uint64
  sess_Paused :: bool

definition NewSession :: "string \<Rightarrow> uint64 \<Rightarrow> Session" where
  "NewSession runID epoch =
     \<lparr>sess_RunID = runID, sess_ExecutionEpoch = epoch, sess_Owner = OwnerRuntime,
      sess_LastSequence = 0, sess_Paused = False\<rparr>"

definition ApplySteering :: "Session \<Rightarrow> SteeringCommand \<Rightarrow> Session result" where
  "ApplySteering s cmd =
     unless (cmd_ExecutionEpoch cmd \<noteq> sess_ExecutionEpoch s) SessionErrStaleEpoch
       (unless (sess_Owner s \<noteq> OwnerRuntime) SessionErrRuntimeNotOwner
         (unless (cmd_Sequence cmd \<le> sess_LastSequence s) SessionErrSequence
           (Inr (s\<lparr>sess_LastSequence := cmd_Sequence cmd\<rparr>))))"

definition Session_Pause :: "Session \<Rightarrow> uint64 \<Rightarrow> Session result" where
  "Session_Pause s epoch =
     unless (epoch \<noteq> sess_ExecutionEpoch s) SessionErrStaleEpoch (Inr (s\<lparr>sess_Paused := True\<rparr>))"

definition Session_Resume :: "Session \<Rightarrow> uint64 \<Rightarrow> Session result" where
  "Session_Resume s epoch =
     unless (epoch \<noteq> sess_ExecutionEpoch s) SessionErrStaleEpoch (Inr (s\<lparr>sess_Paused := False\<rparr>))"

definition Session_Takeover :: "Session \<Rightarrow> uint64 \<Rightarrow> (uint64 \<times> Session) result" where
  "Session_Takeover s epoch =
     unless (epoch \<noteq> sess_ExecutionEpoch s) SessionErrStaleEpoch
       (let e = sess_ExecutionEpoch s + 1
        in Inr (e, s\<lparr>sess_ExecutionEpoch := e, sess_Owner := OwnerHuman\<rparr>))"

section \<open>Checkpoints\<close>

record Checkpoint =
  cp_ID :: string
  cp_RunID :: string
  cp_TaskContractDigest :: string
  cp_RunInputManifestDigest :: string
  cp_ExecutionEpoch :: uint64
  cp_SourceTreeDigest :: string
  cp_DiffDigest :: string
  cp_Objective :: string
  cp_Completed :: "string list"
  cp_Pending :: "string list"
  cp_Questions :: "string list"
  cp_LastEventSequence :: uint64
  cp_ExternalOperationCursor :: string
  cp_CreatedAt :: gotime

definition checkpointContent_json :: "Checkpoint \<Rightarrow> json" where
  "checkpointContent_json c = JObj
     (str_field ''run_id'' (cp_RunID c)
      @ str_field ''task_contract_digest'' (cp_TaskContractDigest c)
      @ str_field ''run_input_manifest_digest'' (cp_RunInputManifestDigest c)
      @ u64_field ''execution_epoch'' (cp_ExecutionEpoch c)
      @ str_field ''source_tree_digest'' (cp_SourceTreeDigest c)
      @ str_opt ''diff_digest'' (cp_DiffDigest c)
      @ str_opt ''objective'' (cp_Objective c)
      @ list_opt ''completed'' JStr (cp_Completed c)
      @ list_opt ''pending'' JStr (cp_Pending c)
      @ list_opt ''questions'' JStr (cp_Questions c)
      @ u64_field ''last_event_sequence'' (cp_LastEventSequence c)
      @ str_opt ''external_operation_cursor'' (cp_ExternalOperationCursor c))"

definition Checkpoint_Digest :: "Checkpoint \<Rightarrow> string" where
  "Checkpoint_Digest c = Digest (checkpointContent_json c)"

lemmas run_defs [op_defs] =
  StartAttempt_def Run_Pause_def Run_Resume_def Run_Takeover_def Run_Complete_def Run_Abort_def

lemmas session_defs [op_defs] =
  ApplySteering_def Session_Pause_def Session_Resume_def Session_Takeover_def

section \<open>Run histories\<close>

text \<open>
  The calls a control plane can make on one run. A refused call leaves the run as it is.
\<close>

datatype run_call =
    CallStart string gotime
  | CallPause uint64 | CallResume uint64 | CallTakeover uint64 | CallComplete uint64 | CallAbort uint64

fun do_call :: "Run \<Rightarrow> run_call \<Rightarrow> Run result" where
  "do_call r (CallStart aid now) = rbind (StartAttempt r aid now) (\<lambda>(a, r'). Inr r')"
| "do_call r (CallPause e) = Run_Pause r e"
| "do_call r (CallResume e) = Run_Resume r e"
| "do_call r (CallTakeover e) = rbind (Run_Takeover r e) (\<lambda>(n, r'). Inr r')"
| "do_call r (CallComplete e) = Run_Complete r e"
| "do_call r (CallAbort e) = Run_Abort r e"

definition after_call :: "Run \<Rightarrow> run_call \<Rightarrow> Run" where
  "after_call r c = (case do_call r c of Inl e \<Rightarrow> r | Inr r' \<Rightarrow> r')"

fun run_calls :: "Run \<Rightarrow> run_call list \<Rightarrow> Run" where
  "run_calls r [] = r"
| "run_calls r (c # cs) = run_calls (after_call r c) cs"

text \<open>The accepted calls that hand the run to a new owner, and so open a new epoch.\<close>

definition is_handover :: "run_call \<Rightarrow> bool" where
  "is_handover c = (case c of CallStart _ _ \<Rightarrow> True | CallTakeover _ \<Rightarrow> True | _ \<Rightarrow> False)"

fun handovers :: "Run \<Rightarrow> run_call list \<Rightarrow> nat" where
  "handovers r [] = 0"
| "handovers r (c # cs) =
     (if is_handover c \<and> is_ok (do_call r c) then 1 else 0) + handovers (after_call r c) cs"

lemma after_call_epoch:
  "run_CurrentEpoch (after_call r c) =
     run_CurrentEpoch r + (if is_handover c \<and> is_ok (do_call r c) then 1 else 0)"
  by (cases c) (auto simp: after_call_def is_handover_def run_defs unless_err_def unless_def Let_def
      split: option.splits)

lemma run_calls_epoch: "run_CurrentEpoch (run_calls r cs) = run_CurrentEpoch r + of_nat (handovers r cs)"
  by (induction cs arbitrary: r) (simp_all add: after_call_epoch add.assoc)

lemma of_nat_uint64_nonzero: "0 < n \<Longrightarrow> n < 2 ^ 64 \<Longrightarrow> (of_nat n :: uint64) \<noteq> 0"
  by (auto simp: word_of_nat_eq_0_iff dest: nat_dvd_not_less)

fun call_epoch :: "run_call \<Rightarrow> uint64 option" where
  "call_epoch (CallStart aid now) = None"
| "call_epoch (CallPause e) = Some e"
| "call_epoch (CallResume e) = Some e"
| "call_epoch (CallTakeover e) = Some e"
| "call_epoch (CallComplete e) = Some e"
| "call_epoch (CallAbort e) = Some e"

lemma stale_call_refused:
  "call_epoch c = Some e \<Longrightarrow> e \<noteq> run_CurrentEpoch r \<Longrightarrow> do_call r c = Inl (stale_run_epoch r e)"
  by (cases c) (auto simp: run_defs Run_CheckEpoch_def)

text \<open>
  C36. Epoch fencing: once a run has been handed over (a new attempt or a human takeover was accepted),
  every call that still carries the old epoch is refused as stale, whatever calls happened in
  between, as long as fewer than \<open>2^64\<close> handovers took place (the counter wraps there).
\<close>

theorem old_epoch_is_fenced:
  assumes "0 < handovers r cs" and "handovers r cs < 2 ^ 64"
    and "call_epoch c = Some (run_CurrentEpoch r)"
  shows "do_call (run_calls r cs) c = Inl (stale_run_epoch (run_calls r cs) (run_CurrentEpoch r))"
proof (rule stale_call_refused [OF assms(3)])
  have "(of_nat (handovers r cs) :: uint64) \<noteq> 0"
    using assms(1,2) by (rule of_nat_uint64_nonzero)
  then show "run_CurrentEpoch r \<noteq> run_CurrentEpoch (run_calls r cs)"
    by (simp add: run_calls_epoch)
qed

theorem old_epoch_is_fenced_witness:
  "handovers (NewRun ''R'' ''t'' ''i'') [CallStart ''a1'' 5, CallPause 1] = 1
   \<and> do_call (run_calls (NewRun ''R'' ''t'' ''i'') [CallStart ''a1'' 5, CallPause 1]) (CallComplete 0)
      = Inl (stale_run_epoch (run_calls (NewRun ''R'' ''t'' ''i'') [CallStart ''a1'' 5, CallPause 1]) 0)"
proof -
  let ?r = "NewRun ''R'' ''t'' ''i''" and ?cs = "[CallStart ''a1'' 5, CallPause 1]"
  have h: "handovers ?r ?cs = 1"
    by (simp add: is_handover_def NewRun_def run_defs run_terminal_def Let_def)
  have "do_call (run_calls ?r ?cs) (CallComplete 0)
      = Inl (stale_run_epoch (run_calls ?r ?cs) (run_CurrentEpoch ?r))"
    by (rule old_epoch_is_fenced) (simp_all only: h, simp_all add: NewRun_def)
  with h show ?thesis by (simp add: NewRun_def)
qed

lemma terminal_call_refused: "run_terminal r \<Longrightarrow> \<exists>e. do_call r c = Inl e"
  by (cases c) (auto simp: run_defs Run_CheckEpoch_def split: if_splits)

lemma terminal_after_call: "run_terminal r \<Longrightarrow> after_call r c = r"
  using terminal_call_refused [of r c] by (auto simp: after_call_def)

text \<open>
  A completed or aborted run is final: every further call on it is refused, in any order and
  number, and the run keeps its value.
\<close>

theorem terminal_run_is_final:
  assumes "run_terminal r"
  shows "run_calls r cs = r \<and> \<not> is_ok (do_call (run_calls r cs) c)"
proof -
  have "run_calls r cs = r"
    using assms by (induction cs) (simp_all add: terminal_after_call)
  with terminal_call_refused [OF assms, of c] show ?thesis by auto
qed

theorem terminal_run_is_final_witness:
  "run_calls ((NewRun ''R'' ''t'' ''i'')\<lparr>run_State := RunCompleted\<rparr>) [CallStart ''a'' 1, CallResume 0]
     = (NewRun ''R'' ''t'' ''i'')\<lparr>run_State := RunCompleted\<rparr>"
  using terminal_run_is_final [of "(NewRun ''R'' ''t'' ''i'')\<lparr>run_State := RunCompleted\<rparr>"
      "[CallStart ''a'' 1, CallResume 0]"]
  by (simp add: run_terminal_def)

section \<open>Steering\<close>

text \<open>A steering history: the accepted commands, oldest first, and the session after them.\<close>

fun steer_all :: "Session \<Rightarrow> SteeringCommand list \<Rightarrow> SteeringCommand list \<times> Session" where
  "steer_all s [] = ([], s)"
| "steer_all s (c # cs) =
     (case ApplySteering s c of
        Inl e \<Rightarrow> steer_all s cs
      | Inr s' \<Rightarrow> (let (acc, t) = steer_all s' cs in (c # acc, t)))"

lemma steer_all_bound:
  "steer_all s cs = (acc, t) \<Longrightarrow>
     sess_LastSequence s \<le> sess_LastSequence t
     \<and> (\<forall>c \<in> set acc. sess_LastSequence s < cmd_Sequence c)
     \<and> sorted_wrt (<) (map cmd_Sequence acc)"
proof (induction cs arbitrary: s acc t)
  case Nil
  then show ?case by simp
next
  case (Cons c cs)
  show ?case
  proof (cases "ApplySteering s c")
    case (Inl e)
    with Cons.prems have "steer_all s cs = (acc, t)" by simp
    then show ?thesis by (rule Cons.IH)
  next
    case (Inr s')
    then have s': "sess_LastSequence s' = cmd_Sequence c" "sess_LastSequence s < cmd_Sequence c"
      by (auto simp: ApplySteering_def)
    from Inr Cons.prems obtain acc' where rest: "steer_all s' cs = (acc', t)" and "acc = c # acc'"
      by (auto split: prod.splits)
    with Cons.IH [OF rest] s' show ?thesis by (fastforce dest: less_trans less_le_trans)
  qed
qed

lemma steer_all_authority:
  "steer_all s cs = (acc, t) \<Longrightarrow>
     \<forall>c \<in> set acc. sess_Owner s = OwnerRuntime \<and> cmd_ExecutionEpoch c = sess_ExecutionEpoch s"
proof (induction cs arbitrary: s acc t)
  case Nil
  then show ?case by simp
next
  case (Cons c cs)
  show ?case
  proof (cases "ApplySteering s c")
    case (Inl e)
    with Cons.prems Cons.IH show ?thesis by simp
  next
    case (Inr s')
    then have s': "s' = s\<lparr>sess_LastSequence := cmd_Sequence c\<rparr>" "sess_Owner s = OwnerRuntime"
      "cmd_ExecutionEpoch c = sess_ExecutionEpoch s"
      by (auto simp: ApplySteering_def)
    from Inr Cons.prems obtain acc' where rest: "steer_all s' cs = (acc', t)" and "acc = c # acc'"
      by (auto split: prod.splits)
    with Cons.IH [OF rest] s' show ?thesis by auto
  qed
qed

text \<open>
  Whatever steering commands arrive, the accepted ones have strictly increasing sequence
  numbers above the session's last one, all carry the session's own epoch, and none is accepted
  when the runtime does not own the session, so a command is never applied twice or out of order.
\<close>

theorem accepted_steering_is_ordered:
  assumes "steer_all s cs = (acc, t)"
  shows "sorted_wrt (<) (map cmd_Sequence acc)
     \<and> list_all (\<lambda>c. sess_LastSequence s < cmd_Sequence c \<and> cmd_Sequence c \<le> sess_LastSequence t
                      \<and> cmd_ExecutionEpoch c = sess_ExecutionEpoch s) acc
     \<and> (acc = [] \<or> sess_Owner s = OwnerRuntime)"
proof -
  have "sorted_wrt (<) (map cmd_Sequence acc) \<and> (\<forall>c \<in> set acc. cmd_Sequence c \<le> sess_LastSequence t)"
    using assms
  proof (induction cs arbitrary: s acc)
    case Nil
    then show ?case by simp
  next
    case (Cons c cs)
    show ?case
    proof (cases "ApplySteering s c")
      case (Inl e)
      with Cons.prems Cons.IH show ?thesis by simp
    next
      case (Inr s')
      then have s': "sess_LastSequence s' = cmd_Sequence c" by (auto simp: ApplySteering_def)
      from Inr Cons.prems obtain acc' where rest: "steer_all s' cs = (acc', t)" and "acc = c # acc'"
        by (auto split: prod.splits)
      with Cons.IH [OF rest] steer_all_bound [OF rest] s' show ?thesis by auto
    qed
  qed
  with steer_all_bound [OF assms] steer_all_authority [OF assms] show ?thesis
    by (cases acc) (auto simp: list_all_iff)
qed

definition sample_cmd :: "string \<Rightarrow> uint64 \<Rightarrow> SteeringCommand" where
  "sample_cmd i n = \<lparr>cmd_ID = i, cmd_RunID = ''R'', cmd_ExecutionEpoch = 1, cmd_Sequence = n,
     cmd_Actor = ''a'', cmd_ContentDigest = ''d'', cmd_CreatedAt = 1\<rparr>"

theorem accepted_steering_is_ordered_witness:
  "steer_all (NewSession ''R'' 1) [sample_cmd ''c1'' 3, sample_cmd ''c2'' 2, sample_cmd ''c3'' 7]
     = ([sample_cmd ''c1'' 3, sample_cmd ''c3'' 7], (NewSession ''R'' 1)\<lparr>sess_LastSequence := 7\<rparr>)
   \<and> sorted_wrt (<) (map cmd_Sequence [sample_cmd ''c1'' 3, sample_cmd ''c3'' 7])"
proof -
  have run: "steer_all (NewSession ''R'' 1) [sample_cmd ''c1'' 3, sample_cmd ''c2'' 2, sample_cmd ''c3'' 7]
     = ([sample_cmd ''c1'' 3, sample_cmd ''c3'' 7], (NewSession ''R'' 1)\<lparr>sess_LastSequence := 7\<rparr>)"
    by (simp add: sample_cmd_def NewSession_def ApplySteering_def)
  from accepted_steering_is_ordered [OF run] run show ?thesis by blast
qed

end
