(* ===== verification/Recovery.thy ===== *)
theory Recovery
  imports CoreModel
begin

text \<open>
  Package \<open>recovery\<close>: the recovery manager that fences irreversible external actions while a
  reconciliation is open, the proof that a reconciliation is complete, and the two requests by
  which an operator abandons an unresolved execution or a planned action without replay.
\<close>

section \<open>The manager\<close>

datatype RecoveryMode = RecoveryNormal | RecoveryReconciliation | RecoveryOther string

record Manager =
  mgr_Epoch :: uint64
  mgr_Mode :: RecoveryMode

definition NewManager :: Manager where
  "NewManager = \<lparr>mgr_Epoch = 0, mgr_Mode = RecoveryNormal\<rparr>"

definition Manager_Begin :: "Manager \<Rightarrow> Manager" where
  "Manager_Begin m = m\<lparr>mgr_Epoch := mgr_Epoch m + 1, mgr_Mode := RecoveryReconciliation\<rparr>"

definition Manager_CheckEpoch :: "Manager \<Rightarrow> uint64 \<Rightarrow> err option" where
  "Manager_CheckEpoch m epoch = (if epoch \<noteq> mgr_Epoch m then Some RecoveryErrStaleEpoch else None)"

definition AuthorizeIrreversible :: "Manager \<Rightarrow> uint64 \<Rightarrow> err option" where
  "AuthorizeIrreversible m epoch =
     (case Manager_CheckEpoch m epoch of
        Some e \<Rightarrow> Some e
      | None \<Rightarrow> if mgr_Mode m = RecoveryReconciliation then Some RecoveryErrRecoveryMode else None)"

definition Manager_Complete :: "Manager \<Rightarrow> uint64 \<Rightarrow> bool \<Rightarrow> Manager result" where
  "Manager_Complete m epoch reconciled =
     unless_err (Manager_CheckEpoch m epoch)
       (unless (\<not> reconciled) RecoveryErrReconciliationRequired
          (Inr (m\<lparr>mgr_Mode := RecoveryNormal\<rparr>)))"

lemmas manager_defs [op_defs] =
  Manager_CheckEpoch_def AuthorizeIrreversible_def Manager_Complete_def Manager_Begin_def

section \<open>Facts and proofs\<close>

record Facts =
  facts_ExternalUnresolved :: uint64
  facts_MutationOutboxLeases :: uint64
  facts_WorkerLeases :: uint64
  facts_OfflineUnresolved :: uint64

definition Facts_Clear :: "Facts \<Rightarrow> bool" where
  "Facts_Clear f \<longleftrightarrow>
     facts_ExternalUnresolved f = 0 \<and> facts_MutationOutboxLeases f = 0
     \<and> facts_WorkerLeases f = 0 \<and> facts_OfflineUnresolved f = 0"

definition Facts_json :: "Facts \<Rightarrow> json" where
  "Facts_json f = JObj
     (u64_field ''external_unresolved'' (facts_ExternalUnresolved f)
      @ u64_field ''mutation_outbox_leases'' (facts_MutationOutboxLeases f)
      @ u64_field ''worker_leases'' (facts_WorkerLeases f)
      @ u64_field ''offline_unresolved'' (facts_OfflineUnresolved f))"

definition ProofKind :: string where
  "ProofKind = ''RECOVERY_RECONCILIATION_V1''"

record RecoveryProof =
  proof_Kind :: string
  proof_RecoveryEpoch :: uint64
  proof_Reconciler :: string
  proof_Facts :: Facts
  proof_FactsDigest :: string
  proof_AuditSequence :: uint64
  proof_AuditDigest :: string
  proof_CreatedAt :: gotime

definition boundedProofString :: "string \<Rightarrow> nat \<Rightarrow> bool" where
  "boundedProofString value limit \<longleftrightarrow>
     value \<noteq> [] \<and> length value \<le> limit \<and> TrimSpace value = value"

definition RecoveryProof_Validate :: "RecoveryProof \<Rightarrow> err option" where
  "RecoveryProof_Validate p =
     (if proof_Kind p \<noteq> ProofKind \<or> proof_RecoveryEpoch p = 0
         \<or> \<not> boundedProofString (proof_Reconciler p) 256
         \<or> \<not> Facts_Clear (proof_Facts p) \<or> \<not> ValidDigest (proof_FactsDigest p)
         \<or> IsZero (proof_CreatedAt p)
      then Some (ErrText ''invalid recovery reconciliation proof'')
      else if Digest (Facts_json (proof_Facts p)) \<noteq> proof_FactsDigest p
      then Some (ErrText ''recovery facts digest mismatch'')
      else if proof_AuditSequence p = 0 then
        (if proof_AuditDigest p \<noteq> [] then Some (ErrText ''empty audit chain must not carry a digest'')
         else None)
      else if \<not> ValidDigest (proof_AuditDigest p) then Some (ErrText ''invalid audit head digest'')
      else None)"

section \<open>Abandoned executions\<close>

definition AbandonNoReplay :: string where
  "AbandonNoReplay = ''ABANDON_NO_REPLAY''"

definition control_breaks :: string where
  "control_breaks = [CHR 0x00, CHR 0x0D, CHR 0x0A]"

record ExecutionAbandonRequest =
  xar_Version :: int
  xar_ExecutionKind :: string
  xar_RunID :: string
  xar_ExecutionID :: string
  xar_RecoveryEpoch :: uint64
  xar_ObservationDigest :: string
  xar_Disposition :: string

definition ExecutionAbandonRequest_Validate :: "ExecutionAbandonRequest \<Rightarrow> err option" where
  "ExecutionAbandonRequest_Validate r =
     (if xar_Version r \<noteq> 1
         \<or> (xar_ExecutionKind r \<noteq> ''OFFLINE'' \<and> xar_ExecutionKind r \<noteq> ''CODEX'')
         \<or> xar_RunID r = [] \<or> length (xar_RunID r) > 256 \<or> TrimSpace (xar_RunID r) \<noteq> xar_RunID r
         \<or> ContainsAny (xar_RunID r) control_breaks
         \<or> \<not> match_exactly is_lower_hex 64 (xar_ExecutionID r)
         \<or> xar_RecoveryEpoch r = 0 \<or> \<not> ValidDigest (xar_ObservationDigest r)
         \<or> xar_Disposition r \<noteq> AbandonNoReplay
      then Some (ErrText ''invalid execution reconciliation request'')
      else None)"

definition ExecutionAbandonRequest_json :: "ExecutionAbandonRequest \<Rightarrow> json" where
  "ExecutionAbandonRequest_json r = JObj
     (int_field ''version'' (xar_Version r) @ str_field ''execution_kind'' (xar_ExecutionKind r)
      @ str_field ''run_id'' (xar_RunID r) @ str_field ''execution_id'' (xar_ExecutionID r)
      @ u64_field ''recovery_epoch'' (xar_RecoveryEpoch r)
      @ str_field ''observation_digest'' (xar_ObservationDigest r)
      @ str_field ''disposition'' (xar_Disposition r))"

definition ExecutionAbandonRequest_Digest :: "ExecutionAbandonRequest \<Rightarrow> string result" where
  "ExecutionAbandonRequest_Digest r =
     unless_err (ExecutionAbandonRequest_Validate r) (Inr (Digest (ExecutionAbandonRequest_json r)))"

record ExecutionAbandonReceipt =
  xrc_Kind :: string
  xrc_Request :: ExecutionAbandonRequest
  xrc_RequestDigest :: string
  xrc_Reconciler :: string
  xrc_PreviousState :: string
  xrc_CreatedAt :: gotime
  xrc_ExecutionAuthorized :: bool
  xrc_ReplayAuthorized :: bool
  xrc_ProductionQualified :: bool

definition ExecutionAbandonReceipt_Validate :: "ExecutionAbandonReceipt \<Rightarrow> err option" where
  "ExecutionAbandonReceipt_Validate r =
     (if (case ExecutionAbandonRequest_Digest (xrc_Request r) of
            Inl e \<Rightarrow> True | Inr digest \<Rightarrow> xrc_RequestDigest r \<noteq> digest)
         \<or> xrc_Kind r \<noteq> ''RECOVERY_EXECUTION_ABANDONMENT_V1''
         \<or> \<not> boundedProofString (xrc_Reconciler r) 256
         \<or> (xrc_PreviousState r \<noteq> ''AUTHORIZED'' \<and> xrc_PreviousState r \<noteq> ''UNKNOWN'')
         \<or> IsZero (xrc_CreatedAt r) \<or> xrc_ExecutionAuthorized r \<or> xrc_ReplayAuthorized r
         \<or> xrc_ProductionQualified r
      then Some (ErrText ''invalid execution reconciliation receipt'')
      else None)"

section \<open>Abandoned planned actions\<close>

record ActionPlannedAbandonRequest =
  par_Version :: int
  par_OperationID :: string
  par_RunID :: string
  par_ExecutionEpoch :: uint64
  par_OriginalRecoveryEpoch :: uint64
  par_RecoveryEpoch :: uint64
  par_IdempotencyKey :: string
  par_OriginalRequestDigest :: string
  par_ObservationDigest :: string
  par_Disposition :: string

definition abandon_id_ok :: "string \<Rightarrow> bool" where
  "abandon_id_ok i \<longleftrightarrow>
     \<not> (i = [] \<or> length i > 256 \<or> TrimSpace i \<noteq> i \<or> ContainsAny i control_breaks)"

definition ActionPlannedAbandonRequest_Validate :: "ActionPlannedAbandonRequest \<Rightarrow> err option" where
  "ActionPlannedAbandonRequest_Validate r =
     (if \<not> list_all abandon_id_ok [par_OperationID r, par_RunID r, par_IdempotencyKey r]
      then Some (ErrText ''invalid Action reservation reconciliation identity'')
      else if par_Version r \<noteq> 1 \<or> par_ExecutionEpoch r = 0 \<or> par_RecoveryEpoch r = 0
         \<or> par_OriginalRecoveryEpoch r \<ge> par_RecoveryEpoch r
         \<or> par_RecoveryEpoch r > 2 ^ 62
         \<or> \<not> ValidDigest (par_OriginalRequestDigest r) \<or> \<not> ValidDigest (par_ObservationDigest r)
         \<or> par_Disposition r \<noteq> AbandonNoReplay
      then Some (ErrText ''invalid planned Action abandonment request'')
      else None)"

definition ActionPlannedAbandonRequest_json :: "ActionPlannedAbandonRequest \<Rightarrow> json" where
  "ActionPlannedAbandonRequest_json r = JObj
     (int_field ''version'' (par_Version r) @ str_field ''operation_id'' (par_OperationID r)
      @ str_field ''run_id'' (par_RunID r) @ u64_field ''execution_epoch'' (par_ExecutionEpoch r)
      @ u64_field ''original_recovery_epoch'' (par_OriginalRecoveryEpoch r)
      @ u64_field ''recovery_epoch'' (par_RecoveryEpoch r)
      @ str_field ''idempotency_key'' (par_IdempotencyKey r)
      @ str_field ''original_request_digest'' (par_OriginalRequestDigest r)
      @ str_field ''observation_digest'' (par_ObservationDigest r)
      @ str_field ''disposition'' (par_Disposition r))"

definition ActionPlannedAbandonRequest_Digest :: "ActionPlannedAbandonRequest \<Rightarrow> string result" where
  "ActionPlannedAbandonRequest_Digest r =
     unless_err (ActionPlannedAbandonRequest_Validate r)
       (Inr (Digest (ActionPlannedAbandonRequest_json r)))"

record ActionPlannedAbandonReceipt =
  prc_Kind :: string
  prc_Request :: ActionPlannedAbandonRequest
  prc_RequestDigest :: string
  prc_Reconciler :: string
  prc_PreviousState :: string
  prc_CreatedAt :: gotime
  prc_EffectConfirmed :: bool
  prc_ExecutionAuthorized :: bool
  prc_ReplayAuthorized :: bool
  prc_ProductionQualified :: bool

definition ActionPlannedAbandonReceipt_Validate :: "ActionPlannedAbandonReceipt \<Rightarrow> err option" where
  "ActionPlannedAbandonReceipt_Validate r =
     (if (case ActionPlannedAbandonRequest_Digest (prc_Request r) of
            Inl e \<Rightarrow> True | Inr digest \<Rightarrow> prc_RequestDigest r \<noteq> digest)
         \<or> prc_Kind r \<noteq> ''RECOVERY_ACTION_PLANNED_ABANDONMENT_V1''
         \<or> \<not> boundedProofString (prc_Reconciler r) 256
         \<or> prc_PreviousState r \<noteq> ''PLANNED'' \<or> IsZero (prc_CreatedAt r)
         \<or> prc_EffectConfirmed r \<or> prc_ExecutionAuthorized r \<or> prc_ReplayAuthorized r
         \<or> prc_ProductionQualified r
      then Some (ErrText ''invalid planned Action abandonment receipt'')
      else None)"

section \<open>Recovery histories\<close>

text \<open>
  The calls on a manager as the store makes them: a reconciliation begins from the current epoch
  in normal mode and completes with the epoch it opened. Refused calls change nothing.
\<close>

datatype recovery_call = CallBegin uint64 | CallFinish uint64 bool

fun recovery_after :: "Manager \<Rightarrow> recovery_call \<Rightarrow> Manager" where
  "recovery_after m (CallBegin expected) =
     (if mgr_Epoch m \<noteq> expected \<or> mgr_Mode m \<noteq> RecoveryNormal then m else Manager_Begin m)"
| "recovery_after m (CallFinish epoch reconciled) =
     (case Manager_Complete m epoch reconciled of Inl e \<Rightarrow> m | Inr m' \<Rightarrow> m')"

lemma AuthorizeIrreversible_None:
  "AuthorizeIrreversible m e = None \<longleftrightarrow> e = mgr_Epoch m \<and> mgr_Mode m \<noteq> RecoveryReconciliation"
  by (auto simp: manager_defs split: option.splits)

text \<open>
  C37. Between the begin of a reconciliation and a completion of that very epoch that confirms the
  reconciliation, no irreversible action is authorized under any epoch: neither other begins,
  completions of other epochs nor unconfirmed completions reopen the gate.
\<close>

theorem recovery_blocks_irreversible:
  assumes "CallFinish (mgr_Epoch m + 1) True \<notin> set cs"
  shows "AuthorizeIrreversible (fold (\<lambda>c m. recovery_after m c) cs (Manager_Begin m)) e \<noteq> None"
proof -
  let ?open = "\<lambda>x. mgr_Epoch x = mgr_Epoch m + 1 \<and> mgr_Mode x = RecoveryReconciliation"
  have "?open x \<Longrightarrow> set ds \<subseteq> set cs \<Longrightarrow> ?open (fold (\<lambda>c m. recovery_after m c) ds x)" for x ds
  proof (induction ds arbitrary: x)
    case Nil
    then show ?case by simp
  next
    case (Cons d ds)
    have "?open (recovery_after x d)"
      using Cons.prems assms by (cases d) (auto simp: manager_defs split: sum.splits)
    with Cons show ?case by simp
  qed
  then have "?open (fold (\<lambda>c m. recovery_after m c) cs (Manager_Begin m))"
    by (simp add: Manager_Begin_def)
  then show ?thesis by (simp add: AuthorizeIrreversible_None)
qed

theorem recovery_blocks_irreversible_witness:
  "CallFinish (mgr_Epoch NewManager + 1) True \<notin> set [CallBegin 1, CallFinish 1 False, CallFinish 0 True]
   \<and> AuthorizeIrreversible
        (fold (\<lambda>c m. recovery_after m c) [CallBegin 1, CallFinish 1 False, CallFinish 0 True]
           (Manager_Begin NewManager)) 1 \<noteq> None"
proof -
  have h: "CallFinish (mgr_Epoch NewManager + 1) True
      \<notin> set [CallBegin 1, CallFinish 1 False, CallFinish 0 True]"
    by (simp add: NewManager_def)
  from recovery_blocks_irreversible [OF h, of 1] h show ?thesis by blast
qed

text \<open>
  A receipt for an abandoned planned action validates only if it is bound to the exact request
  by digest, the request belongs to a later recovery epoch than the action, the action never left
  PLANNED, and the receipt grants nothing: no confirmed effect, no execution, no replay and no
  production qualification.
\<close>

theorem planned_abandonment_grants_nothing:
  assumes "ActionPlannedAbandonReceipt_Validate r = None"
  shows "prc_RequestDigest r = Digest (ActionPlannedAbandonRequest_json (prc_Request r))
     \<and> par_OriginalRecoveryEpoch (prc_Request r) < par_RecoveryEpoch (prc_Request r)
     \<and> par_Disposition (prc_Request r) = AbandonNoReplay
     \<and> prc_PreviousState r = ''PLANNED''
     \<and> \<not> prc_EffectConfirmed r \<and> \<not> prc_ExecutionAuthorized r
     \<and> \<not> prc_ReplayAuthorized r \<and> \<not> prc_ProductionQualified r"
  using assms
  by (auto simp: ActionPlannedAbandonReceipt_Validate_def ActionPlannedAbandonRequest_Digest_def
      ActionPlannedAbandonRequest_Validate_def unless_err_def split: if_splits sum.splits option.splits)

definition sample_planned_request :: ActionPlannedAbandonRequest where
  "sample_planned_request = \<lparr>par_Version = 1, par_OperationID = ''op-1'', par_RunID = ''R-1'',
     par_ExecutionEpoch = 1, par_OriginalRecoveryEpoch = 0, par_RecoveryEpoch = 1,
     par_IdempotencyKey = ''k-1'', par_OriginalRequestDigest = Digest JNull,
     par_ObservationDigest = Digest JNull, par_Disposition = AbandonNoReplay\<rparr>"

definition sample_planned_receipt :: ActionPlannedAbandonReceipt where
  "sample_planned_receipt = \<lparr>prc_Kind = ''RECOVERY_ACTION_PLANNED_ABANDONMENT_V1'',
     prc_Request = sample_planned_request,
     prc_RequestDigest = Digest (ActionPlannedAbandonRequest_json sample_planned_request),
     prc_Reconciler = ''rec'', prc_PreviousState = ''PLANNED'', prc_CreatedAt = 1,
     prc_EffectConfirmed = False, prc_ExecutionAuthorized = False, prc_ReplayAuthorized = False,
     prc_ProductionQualified = False\<rparr>"

lemma sample_trims:
  "TrimSpace ''op-1'' = ''op-1''" "TrimSpace ''R-1'' = ''R-1''" "TrimSpace ''k-1'' = ''k-1''"
  "TrimSpace ''rec'' = ''rec''"
  by (simp_all add: TrimSpace_graphic graphic_def byte_in_def)

theorem planned_abandonment_grants_nothing_witness:
  "ActionPlannedAbandonReceipt_Validate sample_planned_receipt = None
   \<and> \<not> prc_ReplayAuthorized sample_planned_receipt"
proof -
  have ok: "ActionPlannedAbandonReceipt_Validate sample_planned_receipt = None"
    by (simp add: ActionPlannedAbandonReceipt_Validate_def ActionPlannedAbandonRequest_Digest_def
        ActionPlannedAbandonRequest_Validate_def sample_planned_receipt_def sample_planned_request_def
        boundedProofString_def abandon_id_ok_def ContainsAny_def control_breaks_def IsZero_def sample_trims)
  from planned_abandonment_grants_nothing [OF ok] ok show ?thesis by blast
qed

end
