(* ===== verification/Assurance.thy ===== *)
theory Assurance
  imports CoreModel
begin

text \<open>
  Packages \<open>verification\<close> and \<open>review\<close>: plans that map acceptance criteria to evidence
  requirements, the evaluation of evidence into a report, and the validation of independent reviews.
\<close>

section \<open>Verification plans\<close>

record EvidenceRequirement =
  ereq_ID :: string
  ereq_Procedure :: string
  ereq_Issuer :: string

record Criterion =
  crit_ID :: string
  crit_Statement :: string
  crit_Requirements :: "EvidenceRequirement slice"

record Plan =
  plan_ID :: string
  plan_Criteria :: "Criterion slice"

definition EvidenceRequirement_json :: "EvidenceRequirement \<Rightarrow> json" where
  "EvidenceRequirement_json r = JObj
     (str_field ''requirement_id'' (ereq_ID r) @ str_field ''procedure'' (ereq_Procedure r)
      @ str_opt ''issuer'' (ereq_Issuer r))"

definition Criterion_json :: "Criterion \<Rightarrow> json" where
  "Criterion_json c = JObj
     (str_field ''criterion_id'' (crit_ID c) @ str_field ''statement'' (crit_Statement c)
      @ slice_field ''evidence_requirements'' EvidenceRequirement_json (crit_Requirements c))"

definition Plan_Digest :: "Plan \<Rightarrow> string" where
  "Plan_Digest p = Digest (JObj
     (str_field ''verification_plan_id'' (plan_ID p)
      @ slice_field ''criteria'' Criterion_json (plan_Criteria p)))"

record CriterionResult =
  cr_CriterionID :: string
  cr_Result :: string
  cr_Reason :: string

record VerificationReport =
  vr_ID :: string
  vr_DeliveryReceiptID :: string
  vr_PlanID :: string
  vr_VerificationPlanDigest :: string
  vr_SubjectDigest :: string
  vr_Result :: string
  vr_Verifier :: string
  vr_Criteria :: "CriterionResult list"
  vr_EvidenceIDs :: "string list"
  vr_CreatedAt :: gotime

text \<open>\<open>ValidatePlan\<close>: the three loops, each with the Go maps it fills.\<close>

fun count_expected :: "string list \<Rightarrow> (string \<Rightarrow> int) \<Rightarrow> (string \<Rightarrow> int) option" where
  "count_expected [] expected = Some expected"
| "count_expected (ac # acs) expected =
     (if ac = [] then None else count_expected acs (expected(ac := expected ac + 1)))"

fun check_requirements :: "EvidenceRequirement list \<Rightarrow> string set \<Rightarrow> string set option" where
  "check_requirements [] reqIDs = Some reqIDs"
| "check_requirements (r # rs) reqIDs =
     (if ereq_ID r = [] \<or> ereq_ID r \<in> reqIDs \<or> ereq_Procedure r = [] then None
      else check_requirements rs (insert (ereq_ID r) reqIDs))"

fun check_criteria ::
  "Criterion list \<Rightarrow> string set \<Rightarrow> string set \<Rightarrow> (string \<Rightarrow> int) \<Rightarrow> (string \<Rightarrow> int) option" where
  "check_criteria [] critIDs reqIDs expected = Some expected"
| "check_criteria (c # cs) critIDs reqIDs expected =
     (if crit_ID c = [] \<or> crit_ID c \<in> critIDs \<or> crit_Statement c = [] \<or> elems (crit_Requirements c) = []
      then None
      else if expected (crit_Statement c) = 0 then None
      else case check_requirements (elems (crit_Requirements c)) reqIDs of
             None \<Rightarrow> None
           | Some reqIDs' \<Rightarrow>
               check_criteria cs (insert (crit_ID c) critIDs) reqIDs'
                 (expected(crit_Statement c := expected (crit_Statement c) - 1)))"

definition ValidatePlan :: "Plan \<Rightarrow> string list \<Rightarrow> bool" where
  "ValidatePlan plan acceptance \<longleftrightarrow>
     (if plan_ID plan = [] \<or> elems (plan_Criteria plan) = []
         \<or> length (elems (plan_Criteria plan)) \<noteq> length acceptance
      then False
      else case count_expected acceptance (\<lambda>_. 0) of
             None \<Rightarrow> False
           | Some expected \<Rightarrow>
               (case check_criteria (elems (plan_Criteria plan)) {} {} expected of
                  None \<Rightarrow> False
                | Some remaining \<Rightarrow> list_all (\<lambda>ac. remaining ac = 0) acceptance))"

section \<open>Evidence\<close>

definition plan_requirements :: "Plan \<Rightarrow> EvidenceRequirement list" where
  "plan_requirements plan = concat (map (\<lambda>c. elems (crit_Requirements c)) (elems (plan_Criteria plan)))"

definition FindRequirement :: "Plan \<Rightarrow> string \<Rightarrow> EvidenceRequirement option" where
  "FindRequirement plan rid =
     (if rid = [] then None else find (\<lambda>r. ereq_ID r = rid) (plan_requirements plan))"

definition EvidenceMatchesRequirement :: "EvidenceRequirement \<Rightarrow> EvidenceRef \<Rightarrow> bool" where
  "EvidenceMatchesRequirement requirement item \<longleftrightarrow>
     (if ereq_ID requirement = [] \<or> ev_RequirementID item \<noteq> ereq_ID requirement
         \<or> ev_Procedure item \<noteq> ereq_Procedure requirement
      then False
      else ereq_Issuer requirement = [] \<or> ev_Issuer item = ereq_Issuer requirement)"

definition EvidenceMatchesPlan :: "Plan \<Rightarrow> EvidenceRef \<Rightarrow> bool" where
  "EvidenceMatchesPlan plan item \<longleftrightarrow>
     (case FindRequirement plan (ev_RequirementID item) of
        None \<Rightarrow> False
      | Some requirement \<Rightarrow> EvidenceMatchesRequirement requirement item)"

definition EvidenceArtifactsBelongToDelivery :: "DeliveryReceipt \<Rightarrow> EvidenceRef \<Rightarrow> bool" where
  "EvidenceArtifactsBelongToDelivery delivery item \<longleftrightarrow>
     (let available = map art_ID (dr_Artifacts delivery)
      in if \<not> all_fresh (\<lambda>i. i \<noteq> []) {} available then False
         else if length (ev_ArtifactRefs item) > card (set available) then False
         else all_fresh (\<lambda>i. i \<noteq> [] \<and> i \<in> set available) {} (ev_ArtifactRefs item))"

definition requirementSatisfied :: "EvidenceRequirement \<Rightarrow> string \<Rightarrow> EvidenceRef list \<Rightarrow> bool" where
  "requirementSatisfied requirement subject evidence \<longleftrightarrow>
     (if ereq_ID requirement = [] \<or> ereq_Procedure requirement = [] then False
      else list_ex (\<lambda>item. ev_Applicable item \<and> ev_SubjectDigest item = subject \<and> ev_Result item = ''PASS''
                            \<and> EvidenceMatchesRequirement requirement item) evidence)"

definition evaluate_criterion :: "string \<Rightarrow> EvidenceRef list \<Rightarrow> Criterion \<Rightarrow> CriterionResult" where
  "evaluate_criterion subject evidence c =
     (if crit_ID c = [] \<or> crit_Statement c = [] \<or> elems (crit_Requirements c) = []
      then \<lparr>cr_CriterionID = crit_ID c, cr_Result = ''FAIL'', cr_Reason = ''criterion is incomplete''\<rparr>
      else if list_all (\<lambda>r. requirementSatisfied r subject evidence) (elems (crit_Requirements c))
      then \<lparr>cr_CriterionID = crit_ID c, cr_Result = ''PASS'', cr_Reason = []\<rparr>
      else \<lparr>cr_CriterionID = crit_ID c, cr_Result = ''FAIL'',
            cr_Reason = ''required evidence requirement was not satisfied''\<rparr>)"

fun evaluate_loop :: "string \<Rightarrow> EvidenceRef list \<Rightarrow> Criterion list \<Rightarrow> VerificationReport \<Rightarrow> VerificationReport" where
  "evaluate_loop subject evidence [] report = report"
| "evaluate_loop subject evidence (c # cs) report =
     (let result = evaluate_criterion subject evidence c;
          report' = (if cr_Result result \<noteq> ''PASS'' then report\<lparr>vr_Result := ''FAIL''\<rparr> else report)
      in evaluate_loop subject evidence cs (report'\<lparr>vr_Criteria := vr_Criteria report' @ [result]\<rparr>))"

definition Evaluate :: "Plan \<Rightarrow> string \<Rightarrow> EvidenceRef list \<Rightarrow> VerificationReport" where
  "Evaluate plan subject evidence =
     (let report = \<lparr>vr_ID = [], vr_DeliveryReceiptID = [], vr_PlanID = plan_ID plan,
                    vr_VerificationPlanDigest = [], vr_SubjectDigest = subject, vr_Result = ''PASS'',
                    vr_Verifier = [], vr_Criteria = [], vr_EvidenceIDs = map ev_ID evidence,
                    vr_CreatedAt = 0\<rparr>
      in if subject = [] \<or> elems (plan_Criteria plan) = [] then report\<lparr>vr_Result := ''FAIL''\<rparr>
         else evaluate_loop subject evidence (elems (plan_Criteria plan)) report)"

section \<open>Reviews\<close>

record Finding =
  fd_ID :: string
  fd_Severity :: string
  fd_Summary :: string

record ReviewReport =
  rr_ID :: string
  rr_DeliveryReceiptID :: string
  rr_VerificationReportID :: string
  rr_TaskContractDigest :: string
  rr_SubjectDigest :: string
  rr_Reviewer :: string
  rr_Result :: string
  rr_Findings :: "Finding list"
  rr_KnownLimits :: "string list"
  rr_CreatedAt :: gotime

text \<open>The loop over the findings counts the blocking ones.\<close>

fun check_findings :: "Finding list \<Rightarrow> string set \<Rightarrow> nat \<Rightarrow> nat result" where
  "check_findings [] seen blocking = Inr blocking"
| "check_findings (f # fs) seen blocking =
     (if \<not> bounded (fd_ID f) 256 \<or> \<not> bounded (fd_Summary f) 4096 \<or> fd_ID f \<in> seen
      then Inl (ErrText ''invalid or duplicate review finding'')
      else if fd_Severity f = ''INFO'' \<or> fd_Severity f = ''WARNING''
      then check_findings fs (insert (fd_ID f) seen) blocking
      else if fd_Severity f = ''BLOCKING''
      then check_findings fs (insert (fd_ID f) seen) (Suc blocking)
      else Inl (ErrText ''invalid review severity''))"

definition ReviewReport_Validate :: "ReviewReport \<Rightarrow> err option" where
  "ReviewReport_Validate r =
     (if \<not> bounded (rr_ID r) 256 \<or> \<not> bounded (rr_DeliveryReceiptID r) 256
         \<or> \<not> bounded (rr_VerificationReportID r) 256
         \<or> \<not> ValidDigest (rr_TaskContractDigest r) \<or> \<not> ValidDigest (rr_SubjectDigest r)
         \<or> \<not> bounded (rr_Reviewer r) 256
         \<or> (rr_Result r \<noteq> ''PASS'' \<and> rr_Result r \<noteq> ''FAIL'') \<or> IsZero (rr_CreatedAt r)
      then Some (ErrText ''invalid review identity'')
      else if length (rr_Findings r) > 64 \<or> length (rr_KnownLimits r) > 64
      then Some (ErrText ''review collection limit exceeded'')
      else case check_findings (rr_Findings r) {} 0 of
        Inl e \<Rightarrow> Some e
      | Inr blocking \<Rightarrow>
          if \<not> list_all (\<lambda>limit. bounded limit 4096) (rr_KnownLimits r)
          then Some (ErrText ''invalid review known limit'')
          else if rr_Result r = ''PASS'' \<and> blocking \<noteq> 0
          then Some (ErrText ''PASS review cannot contain blocking findings'')
          else if rr_Result r = ''FAIL'' \<and> blocking = 0
          then Some (ErrText ''FAIL review requires a blocking finding'')
          else None)"

section \<open>What a valid plan is\<close>

definition requirement_complete :: "EvidenceRequirement \<Rightarrow> bool" where
  "requirement_complete r \<longleftrightarrow> ereq_ID r \<noteq> [] \<and> ereq_Procedure r \<noteq> []"

definition criterion_complete :: "Criterion \<Rightarrow> bool" where
  "criterion_complete c \<longleftrightarrow>
     crit_ID c \<noteq> [] \<and> crit_Statement c \<noteq> [] \<and> elems (crit_Requirements c) \<noteq> []
     \<and> list_all requirement_complete (elems (crit_Requirements c))"

abbreviation criteria_requirements :: "Criterion list \<Rightarrow> EvidenceRequirement list" where
  "criteria_requirements cs \<equiv> concat (map (\<lambda>c. elems (crit_Requirements c)) cs)"

lemma count_expected_Some:
  "count_expected acs e = Some e' \<longleftrightarrow>
     [] \<notin> set acs \<and> e' = (\<lambda>s. e s + int (count (mset acs) s))"
  by (induction acs arbitrary: e) (auto simp: fun_eq_iff)

lemma check_requirements_Some:
  "check_requirements rs S = Some S' \<longleftrightarrow>
     list_all requirement_complete rs \<and> distinct (map ereq_ID rs) \<and> ereq_ID ` set rs \<inter> S = {}
     \<and> S' = S \<union> ereq_ID ` set rs"
  by (induction rs arbitrary: S) (auto simp: requirement_complete_def)

lemma check_criteria_sound:
  "check_criteria cs C R e = Some e' \<Longrightarrow> (\<And>s. 0 \<le> e s) \<Longrightarrow>
     list_all criterion_complete cs \<and> distinct (map crit_ID cs) \<and> crit_ID ` set cs \<inter> C = {}
     \<and> distinct (map ereq_ID (criteria_requirements cs))
     \<and> ereq_ID ` set (criteria_requirements cs) \<inter> R = {}
     \<and> (\<forall>s. int (count (mset (map crit_Statement cs)) s) \<le> e s)
     \<and> e' = (\<lambda>s. e s - int (count (mset (map crit_Statement cs)) s))"
proof (induction cs arbitrary: C R e)
  case Nil
  then show ?case by simp
next
  case (Cons c cs)
  let ?e = "e(crit_Statement c := e (crit_Statement c) - 1)"
  from Cons.prems(1) obtain R' where
    now: "crit_ID c \<noteq> []" "crit_ID c \<notin> C" "crit_Statement c \<noteq> []" "elems (crit_Requirements c) \<noteq> []"
      "e (crit_Statement c) \<noteq> 0" "check_requirements (elems (crit_Requirements c)) R = Some R'"
    and rest: "check_criteria cs (insert (crit_ID c) C) R' ?e = Some e'"
    by (auto split: if_splits option.splits)
  have nonneg: "0 \<le> ?e s" for s
    using Cons.prems(2) now(5) by (auto simp: order.strict_iff_order)
  note IH = Cons.IH [OF rest nonneg]
  from IH have bound: "int (count (mset (map crit_Statement cs)) s) \<le> ?e s" for s by blast
  have "int (count (mset (map crit_Statement (c # cs))) s) \<le> e s" for s
    using bound [of s] by (simp split: if_splits)
  moreover have "e' = (\<lambda>s. e s - int (count (mset (map crit_Statement (c # cs))) s))"
    using IH by (auto simp: fun_eq_iff)
  moreover have reqs: "list_all requirement_complete (elems (crit_Requirements c))"
    "distinct (map ereq_ID (elems (crit_Requirements c)))"
    "ereq_ID ` set (elems (crit_Requirements c)) \<inter> R = {}"
    "R' = R \<union> ereq_ID ` set (elems (crit_Requirements c))"
    using now(6) by (simp_all add: check_requirements_Some)
  moreover have "ereq_ID ` set (criteria_requirements cs) \<inter> R = {}"
    "ereq_ID ` set (criteria_requirements cs) \<inter> ereq_ID ` set (elems (crit_Requirements c)) = {}"
    using IH unfolding reqs(4) by blast+
  ultimately show ?case
    using now(1-5) IH
    by (simp add: criterion_complete_def image_Un Int_Un_distrib Int_Un_distrib2 Int_commute)
qed

lemma check_criteria_complete:
  "list_all criterion_complete cs \<Longrightarrow> distinct (map crit_ID cs) \<Longrightarrow> crit_ID ` set cs \<inter> C = {} \<Longrightarrow>
   distinct (map ereq_ID (criteria_requirements cs)) \<Longrightarrow>
   ereq_ID ` set (criteria_requirements cs) \<inter> R = {} \<Longrightarrow>
   (\<And>s. int (count (mset (map crit_Statement cs)) s) \<le> e s) \<Longrightarrow>
   check_criteria cs C R e = Some (\<lambda>s. e s - int (count (mset (map crit_Statement cs)) s))"
proof (induction cs arbitrary: C R e)
  case Nil
  then show ?case by simp
next
  case (Cons c cs)
  let ?e = "e(crit_Statement c := e (crit_Statement c) - 1)"
  let ?R = "R \<union> ereq_ID ` set (elems (crit_Requirements c))"
  have reqs: "check_requirements (elems (crit_Requirements c)) R = Some ?R"
    using Cons.prems(1,4,5) by (auto simp: check_requirements_Some criterion_complete_def)
  have pos: "e (crit_Statement c) \<noteq> 0"
    using Cons.prems(6) [of "crit_Statement c"] by simp
  have bound: "int (count (mset (map crit_Statement cs)) s) \<le> ?e s" for s
    using Cons.prems(6) [of s] by (auto split: if_splits)
  have apart: "ereq_ID ` set (criteria_requirements cs) \<inter> ?R = {}"
    using Cons.prems(4,5) by (simp add: Int_Un_distrib Int_Un_distrib2 image_Un Int_commute)
  have "check_criteria cs (insert (crit_ID c) C) ?R ?e
      = Some (\<lambda>s. ?e s - int (count (mset (map crit_Statement cs)) s))"
    using Cons.prems(1-4) bound apart by (intro Cons.IH) simp_all
  moreover have "(\<lambda>s. ?e s - int (count (mset (map crit_Statement cs)) s))
      = (\<lambda>s. e s - int (count (mset (map crit_Statement (c # cs))) s))"
    by auto
  ultimately show ?case
    using reqs pos Cons.prems(1,3) by (simp add: criterion_complete_def)
qed

lemma counts_agree_mset:
  assumes "\<And>s. count M s \<le> count (mset acs) s" and "\<And>s. s \<in> set acs \<Longrightarrow> count (mset acs) s = count M s"
  shows "M = mset acs"
proof (rule multiset_eqI)
  fix s
  show "count M s = count (mset acs) s"
  proof (cases "s \<in> set acs")
    case False
    then have "count (mset acs) s = 0" by (metis count_eq_zero_iff set_mset_mset)
    with assms(1) [of s] show ?thesis by simp
  qed (simp add: assms(2))
qed

text \<open>
  C38. A verification plan is accepted exactly when it has an id and at least one criterion, every
  criterion and every evidence requirement is complete, criterion ids and requirement ids are
  unique in the whole plan, no acceptance criterion is empty, and the criteria state the
  acceptance criteria of the task exactly, with the same multiplicities.
\<close>

theorem ValidatePlan_iff:
  "ValidatePlan plan acceptance \<longleftrightarrow>
     plan_ID plan \<noteq> [] \<and> elems (plan_Criteria plan) \<noteq> [] \<and> [] \<notin> set acceptance
     \<and> list_all criterion_complete (elems (plan_Criteria plan))
     \<and> distinct (map crit_ID (elems (plan_Criteria plan)))
     \<and> distinct (map ereq_ID (plan_requirements plan))
     \<and> mset (map crit_Statement (elems (plan_Criteria plan))) = mset acceptance"
proof
  let ?cs = "elems (plan_Criteria plan)" and ?M = "mset (map crit_Statement (elems (plan_Criteria plan)))"
  assume "ValidatePlan plan acceptance"
  then obtain e e' where count: "count_expected acceptance (\<lambda>_. 0) = Some e"
    and check: "check_criteria ?cs {} {} e = Some e'"
    and zero: "list_all (\<lambda>ac. e' ac = 0) acceptance"
    and top: "plan_ID plan \<noteq> []" "?cs \<noteq> []"
    by (auto simp: ValidatePlan_def split: if_splits option.splits)
  from count have e: "e = (\<lambda>s. int (count (mset acceptance) s))" "[] \<notin> set acceptance"
    by (auto simp: count_expected_Some)
  note facts = check_criteria_sound [OF check]
  have sound: "list_all criterion_complete ?cs" "distinct (map crit_ID ?cs)"
    "distinct (map ereq_ID (criteria_requirements ?cs))"
    "\<And>s. int (count ?M s) \<le> e s" "e' = (\<lambda>s. e s - int (count ?M s))"
    using facts e by auto
  have "?M = mset acceptance"
    using sound(4,5) zero e(1) by (intro counts_agree_mset) (auto simp: list_all_iff)
  then show "plan_ID plan \<noteq> [] \<and> ?cs \<noteq> [] \<and> [] \<notin> set acceptance
     \<and> list_all criterion_complete ?cs \<and> distinct (map crit_ID ?cs)
     \<and> distinct (map ereq_ID (plan_requirements plan)) \<and> ?M = mset acceptance"
    using top e(2) sound(1-3) by (simp add: plan_requirements_def)
next
  let ?cs = "elems (plan_Criteria plan)" and ?M = "mset (map crit_Statement (elems (plan_Criteria plan)))"
  assume spec: "plan_ID plan \<noteq> [] \<and> ?cs \<noteq> [] \<and> [] \<notin> set acceptance
     \<and> list_all criterion_complete ?cs \<and> distinct (map crit_ID ?cs)
     \<and> distinct (map ereq_ID (plan_requirements plan)) \<and> ?M = mset acceptance"
  let ?e = "\<lambda>s. int (count (mset acceptance) s)"
  have "count_expected acceptance (\<lambda>_. 0) = Some ?e"
    using spec by (simp add: count_expected_Some)
  moreover have "check_criteria ?cs {} {} ?e = Some (\<lambda>s. ?e s - int (count ?M s))"
    using spec by (intro check_criteria_complete) (auto simp: plan_requirements_def)
  moreover have "length ?cs = length acceptance"
    using spec by (metis length_map mset_eq_length)
  ultimately show "ValidatePlan plan acceptance"
    using spec by (simp add: ValidatePlan_def list_all_iff)
qed

section \<open>Evidence\<close>

text \<open>
  Evidence artifacts are accepted exactly when the delivery's artifact ids are nonempty and
  unique and the evidence names, without repetition, only artifacts of this delivery.
\<close>

theorem EvidenceArtifactsBelongToDelivery_iff:
  "EvidenceArtifactsBelongToDelivery delivery item \<longleftrightarrow>
     distinct (map art_ID (dr_Artifacts delivery)) \<and> [] \<notin> set (map art_ID (dr_Artifacts delivery))
     \<and> distinct (ev_ArtifactRefs item)
     \<and> set (ev_ArtifactRefs item) \<subseteq> set (map art_ID (dr_Artifacts delivery))"
proof -
  let ?A = "set (map art_ID (dr_Artifacts delivery))"
  have "length (ev_ArtifactRefs item) \<le> card ?A"
    if "distinct (ev_ArtifactRefs item)" "set (ev_ArtifactRefs item) \<subseteq> ?A"
    using that card_mono [of ?A "set (ev_ArtifactRefs item)"] by (simp add: distinct_card)
  then show ?thesis
    unfolding EvidenceArtifactsBelongToDelivery_def Let_def all_fresh_iff
    by (simp add: subset_iff image_iff) (metis (no_types, lifting) not_less)
qed

lemma FindRequirement_Some:
  "FindRequirement plan rid = Some r \<Longrightarrow>
     rid \<noteq> [] \<and> ereq_ID r = rid \<and> r \<in> set (plan_requirements plan)"
  by (auto simp: FindRequirement_def find_Some_iff split: if_splits)

lemma FindRequirement_unique:
  assumes "distinct (map ereq_ID (plan_requirements plan))"
    and "r \<in> set (plan_requirements plan)" and "ereq_ID r \<noteq> []"
  shows "FindRequirement plan (ereq_ID r) = Some r"
proof -
  have "find (\<lambda>q. ereq_ID q = ereq_ID r) (plan_requirements plan) \<noteq> None"
    using assms(2) by (auto simp: find_None_iff)
  then obtain q where q: "find (\<lambda>q. ereq_ID q = ereq_ID r) (plan_requirements plan) = Some q" by auto
  then have "q \<in> set (plan_requirements plan)" "ereq_ID q = ereq_ID r"
    by (auto simp: find_Some_iff)
  with assms(1,2) have "q = r" by (meson distinct_map inj_onD)
  with q assms(3) show ?thesis by (simp add: FindRequirement_def)
qed

section \<open>Verification verdicts\<close>

text \<open>What a requirement asks of the evidence, without the loop that looks for it.\<close>

definition satisfies :: "string \<Rightarrow> EvidenceRequirement \<Rightarrow> EvidenceRef \<Rightarrow> bool" where
  "satisfies subject r item \<longleftrightarrow>
     ev_Applicable item \<and> ev_SubjectDigest item = subject \<and> ev_Result item = ''PASS''
     \<and> ev_RequirementID item = ereq_ID r \<and> ev_Procedure item = ereq_Procedure r
     \<and> (ereq_Issuer r = [] \<or> ev_Issuer item = ereq_Issuer r)"

lemma requirementSatisfied_iff:
  "requirementSatisfied r subject evidence \<longleftrightarrow>
     requirement_complete r \<and> (\<exists>item \<in> set evidence. satisfies subject r item)"
  by (auto simp: requirementSatisfied_def requirement_complete_def satisfies_def
      EvidenceMatchesRequirement_def list_ex_iff)

lemma evaluate_criterion_PASS:
  "cr_Result (evaluate_criterion subject evidence c) = ''PASS'' \<longleftrightarrow>
     criterion_complete c
     \<and> (\<forall>r \<in> set (elems (crit_Requirements c)). \<exists>item \<in> set evidence. satisfies subject r item)"
  by (auto simp: evaluate_criterion_def criterion_complete_def list_all_iff requirementSatisfied_iff)

lemma evaluate_loop_result:
  "vr_Result (evaluate_loop subject evidence cs report) =
     (if list_all (\<lambda>c. cr_Result (evaluate_criterion subject evidence c) = ''PASS'') cs
      then vr_Result report else ''FAIL'')"
  by (induction cs arbitrary: report) (auto simp: Let_def)

lemma evaluate_loop_frame [frame_simps]:
  "vr_SubjectDigest (evaluate_loop subject evidence cs report) = vr_SubjectDigest report"
  "vr_PlanID (evaluate_loop subject evidence cs report) = vr_PlanID report"
  "vr_EvidenceIDs (evaluate_loop subject evidence cs report) = vr_EvidenceIDs report"
  "vr_Criteria (evaluate_loop subject evidence cs report) =
     vr_Criteria report @ map (evaluate_criterion subject evidence) cs"
  by (induction cs arbitrary: report) (auto simp: Let_def)

lemma Evaluate_subject [simp]: "vr_SubjectDigest (Evaluate plan subject evidence) = subject"
  by (simp add: Evaluate_def Let_def frame_simps)

lemma Evaluate_evidence [simp]: "vr_EvidenceIDs (Evaluate plan subject evidence) = map ev_ID evidence"
  by (simp add: Evaluate_def Let_def frame_simps)

definition plan_satisfied :: "Plan \<Rightarrow> string \<Rightarrow> EvidenceRef list \<Rightarrow> bool" where
  "plan_satisfied plan subject evidence \<longleftrightarrow>
     subject \<noteq> [] \<and> elems (plan_Criteria plan) \<noteq> []
     \<and> list_all criterion_complete (elems (plan_Criteria plan))
     \<and> list_all (\<lambda>r. list_ex (satisfies subject r) evidence) (plan_requirements plan)"

lemma Evaluate_verdict: "vr_Result (Evaluate plan subject evidence) = ''PASS'' \<longleftrightarrow> plan_satisfied plan subject evidence"
  unfolding Evaluate_def Let_def plan_requirements_def plan_satisfied_def
  by (auto simp: evaluate_loop_result list_all_iff list_ex_iff evaluate_criterion_PASS)

text \<open>
  C39. A verification report says PASS exactly when there is a subject and at least one criterion,
  every criterion is complete, and every evidence requirement of every criterion is met by some
  applicable PASS evidence for exactly this subject, produced by the required procedure and, where
  the requirement names one, by the required issuer.
\<close>

theorem Evaluate_PASS_iff:
  "vr_Result (Evaluate plan subject evidence) = ''PASS'' \<longleftrightarrow>
     subject \<noteq> [] \<and> elems (plan_Criteria plan) \<noteq> []
     \<and> list_all criterion_complete (elems (plan_Criteria plan))
     \<and> list_all (\<lambda>r. list_ex (satisfies subject r) evidence) (plan_requirements plan)"
  by (simp add: Evaluate_verdict plan_satisfied_def)

text \<open>
  Evidence for another subject never helps: dropping every item that is not applicable, not a
  PASS or recorded for a different subject leaves the verdict unchanged.
\<close>

theorem Evaluate_ignores_foreign_evidence:
  "vr_Result (Evaluate plan subject evidence) = ''PASS'' \<longleftrightarrow>
   vr_Result (Evaluate plan subject
     (filter (\<lambda>i. ev_Applicable i \<and> ev_SubjectDigest i = subject \<and> ev_Result i = ''PASS'') evidence)) = ''PASS''"
proof -
  have "list_ex (satisfies subject r) evidence \<longleftrightarrow>
      list_ex (satisfies subject r)
        (filter (\<lambda>i. ev_Applicable i \<and> ev_SubjectDigest i = subject \<and> ev_Result i = ''PASS'') evidence)" for r
    by (auto simp: list_ex_iff satisfies_def)
  then show ?thesis by (simp add: Evaluate_verdict plan_satisfied_def)
qed

section \<open>Reviews\<close>

definition finding_ok :: "Finding \<Rightarrow> bool" where
  "finding_ok f \<longleftrightarrow> bounded (fd_ID f) 256 \<and> bounded (fd_Summary f) 4096
     \<and> fd_Severity f \<in> {''INFO'', ''WARNING'', ''BLOCKING''}"

lemma check_findings_Inr:
  "check_findings fs seen n = Inr k \<longleftrightarrow>
     list_all finding_ok fs \<and> distinct (map fd_ID fs) \<and> fd_ID ` set fs \<inter> seen = {}
     \<and> k = n + length (filter (\<lambda>f. fd_Severity f = ''BLOCKING'') fs)"
proof (induction fs arbitrary: seen n)
  case Nil
  then show ?case by auto
next
  case (Cons f fs)
  show ?case
    by (simp add: Cons.IH finding_ok_def) auto
qed

text \<open>
  A review validates only with a bounded identity, canonical digests, at most 64 findings with
  unique ids and known severities, and a verdict that agrees with the findings: PASS exactly when
  no finding is blocking.
\<close>

theorem valid_review_verdict:
  assumes "ReviewReport_Validate r = None"
  shows "(rr_Result r = ''PASS'' \<longleftrightarrow> \<not> list_ex (\<lambda>f. fd_Severity f = ''BLOCKING'') (rr_Findings r))
     \<and> (rr_Result r = ''FAIL'' \<longleftrightarrow> list_ex (\<lambda>f. fd_Severity f = ''BLOCKING'') (rr_Findings r))
     \<and> length (rr_Findings r) \<le> 64 \<and> distinct (map fd_ID (rr_Findings r))
     \<and> list_all finding_ok (rr_Findings r)
     \<and> ValidDigest (rr_TaskContractDigest r) \<and> ValidDigest (rr_SubjectDigest r)"
proof -
  let ?B = "filter (\<lambda>f. fd_Severity f = ''BLOCKING'') (rr_Findings r)"
  have fold: "check_findings (rr_Findings r) {} 0 = Inr (length ?B)"
    using assms by (auto simp: ReviewReport_Validate_def check_findings_Inr split: if_splits sum.splits)
  have ex: "list_ex (\<lambda>f. fd_Severity f = ''BLOCKING'') (rr_Findings r) \<longleftrightarrow> length ?B \<noteq> 0"
    by (auto simp: list_ex_iff filter_empty_conv)
  have verdict: "rr_Result r = ''PASS'' \<and> length ?B = 0 \<or> rr_Result r = ''FAIL'' \<and> length ?B \<noteq> 0"
    using assms fold unfolding ReviewReport_Validate_def by (auto simp del: length_0_conv split: if_splits)
  have shape: "length (rr_Findings r) \<le> 64" "ValidDigest (rr_TaskContractDigest r)"
    "ValidDigest (rr_SubjectDigest r)"
    using assms unfolding ReviewReport_Validate_def by (auto split: if_splits)
  have "distinct (map fd_ID (rr_Findings r))" "list_all finding_ok (rr_Findings r)"
    using fold by (auto simp: check_findings_Inr)
  with verdict shape ex show ?thesis by auto
qed

definition sample_review :: "string \<Rightarrow> Finding list \<Rightarrow> ReviewReport" where
  "sample_review verdict fs = \<lparr>rr_ID = ''RV-1'', rr_DeliveryReceiptID = ''D-1'',
     rr_VerificationReportID = ''V-1'', rr_TaskContractDigest = Digest JNull,
     rr_SubjectDigest = Digest JNull, rr_Reviewer = ''urn:engineering-platform:rev'', rr_Result = verdict, rr_Findings = fs,
     rr_KnownLimits = [], rr_CreatedAt = 1\<rparr>"

lemma sample_review_bounded:
  "bounded ''RV-1'' 256" "bounded ''D-1'' 256" "bounded ''V-1'' 256" "bounded ''urn:engineering-platform:rev'' 256"
  "bounded ''F'' 256" "bounded ''F'' 4096"
  by (simp_all add: bounded_def TrimSpace_graphic graphic_def byte_in_def)

theorem valid_review_verdict_witness:
  "ReviewReport_Validate
     (sample_review ''FAIL'' [\<lparr>fd_ID = ''F'', fd_Severity = ''BLOCKING'', fd_Summary = ''F''\<rparr>]) = None
   \<and> list_ex (\<lambda>f. fd_Severity f = ''BLOCKING'')
       (rr_Findings (sample_review ''FAIL'' [\<lparr>fd_ID = ''F'', fd_Severity = ''BLOCKING'', fd_Summary = ''F''\<rparr>]))"
proof -
  let ?r = "sample_review ''FAIL'' [\<lparr>fd_ID = ''F'', fd_Severity = ''BLOCKING'', fd_Summary = ''F''\<rparr>]"
  have ok: "ReviewReport_Validate ?r = None"
    by (simp add: ReviewReport_Validate_def sample_review_def sample_review_bounded IsZero_def)
  have "rr_Result ?r = ''FAIL''" by (simp add: sample_review_def)
  with valid_review_verdict [OF ok] ok show ?thesis by blast
qed

end
