(* ===== verification/Action.thy ===== *)
theory Action
  imports Canonical
begin

text \<open>
  Package \<open>action\<close>: the ledger of external operations (\<open>ledger.go\<close>, \<open>model.go\<close>), the service
  that executes and reconciles them (\<open>service.go\<close>) and the in-memory repository.

  \<open>Execute\<close> and \<open>Reconcile\<close> are programs over the calls they make: every \<open>ctx.Err()\<close>, clock read,
  authorisation, repository call and provider call is one constructor of \<open>prog\<close>, in the order
  of the source, with the rest of the body as a function of the answer. A scheduler interleaves
  any number of such programs at these calls; each repository call is one step because the
  repositories hold their lock from the first read to the last write.
\<close>

section \<open>The ledger\<close>

datatype OpState =
    Planned | Dispatched | Confirmed | Unknown | Reconciling | SafeToRetry | Manual
  | AbandonedReconciled | OpStateOther string

fun OpState_string :: "OpState \<Rightarrow> string" where
  "OpState_string Planned = ''PLANNED''"
| "OpState_string Dispatched = ''DISPATCHED''"
| "OpState_string Confirmed = ''CONFIRMED''"
| "OpState_string Unknown = ''UNKNOWN''"
| "OpState_string Reconciling = ''RECONCILING''"
| "OpState_string SafeToRetry = ''SAFE_TO_RETRY''"
| "OpState_string Manual = ''MANUAL''"
| "OpState_string AbandonedReconciled = ''ABANDONED_RECONCILED''"
| "OpState_string (OpStateOther s) = s"

datatype RiskClass = Observe | ControlledMutation | HighRisk | RiskOther string

fun RiskClass_string :: "RiskClass \<Rightarrow> string" where
  "RiskClass_string Observe = ''OBSERVE''"
| "RiskClass_string ControlledMutation = ''CONTROLLED_MUTATION''"
| "RiskClass_string HighRisk = ''HIGH_RISK''"
| "RiskClass_string (RiskOther s) = s"

record Request =
  req_ID :: string
  req_RunID :: string
  req_ExecutionEpoch :: uint64
  req_RecoveryEpoch :: uint64
  req_Action :: string
  req_RiskClass :: RiskClass
  req_Capability :: string
  req_ParametersDigest :: string
  req_IdempotencyKey :: string
  req_RequestedBy :: string
  req_RequestedAt :: gotime

record Receipt =
  rcpt_ID :: string
  rcpt_RequestID :: string
  rcpt_OperationID :: string
  rcpt_Result :: string
  rcpt_ExternalRef :: string
  rcpt_ObservedState :: string
  rcpt_CreatedAt :: gotime

record Operation =
  op_ID :: string
  op_RunID :: string
  op_ExecutionEpoch :: uint64
  op_RecoveryEpoch :: uint64
  op_Action :: string
  op_RiskClass :: RiskClass
  op_Capability :: string
  op_IdempotencyKey :: string
  op_RequestDigest :: string
  op_State :: OpState
  op_UpdatedAt :: gotime
  op_ExternalRef :: string
  op_ObservedState :: string

definition NewWithRequestDigest :: "Request \<Rightarrow> string \<Rightarrow> gotime \<Rightarrow> Operation" where
  "NewWithRequestDigest req requestDigest now =
     \<lparr>op_ID = req_ID req, op_RunID = req_RunID req, op_ExecutionEpoch = req_ExecutionEpoch req,
      op_RecoveryEpoch = req_RecoveryEpoch req, op_Action = req_Action req,
      op_RiskClass = req_RiskClass req, op_Capability = req_Capability req,
      op_IdempotencyKey = req_IdempotencyKey req, op_RequestDigest = requestDigest,
      op_State = Planned, op_UpdatedAt = now, op_ExternalRef = [], op_ObservedState = []\<rparr>"

definition NewOperation :: "string \<Rightarrow> string \<Rightarrow> string \<Rightarrow> string \<Rightarrow> gotime \<Rightarrow> Operation" where
  "NewOperation oid runID actionName idempotencyKey now =
     NewWithRequestDigest
       \<lparr>req_ID = oid, req_RunID = runID, req_ExecutionEpoch = 0, req_RecoveryEpoch = 0,
        req_Action = actionName, req_RiskClass = RiskOther [], req_Capability = [],
        req_ParametersDigest = [], req_IdempotencyKey = idempotencyKey, req_RequestedBy = [],
        req_RequestedAt = 0\<rparr> [] now"

text \<open>The switch of \<open>Transition\<close>; the risk class decides what a reconciliation may confirm.\<close>

fun op_allowed :: "RiskClass \<Rightarrow> OpState \<Rightarrow> OpState \<Rightarrow> bool" where
  "op_allowed risk Planned target \<longleftrightarrow> target = Dispatched"
| "op_allowed risk Dispatched target \<longleftrightarrow> target = Confirmed \<or> target = Unknown"
| "op_allowed risk Unknown target \<longleftrightarrow> target = Reconciling"
| "op_allowed risk Reconciling target \<longleftrightarrow> target = Manual \<or> (target = Confirmed \<and> risk = Observe)"
| "op_allowed risk _ target \<longleftrightarrow> False"

definition Operation_Transition :: "Operation \<Rightarrow> OpState \<Rightarrow> gotime \<Rightarrow> Operation result" where
  "Operation_Transition self target now =
     (if op_allowed (op_RiskClass self) (op_State self) target
      then Inr (self\<lparr>op_State := target, op_UpdatedAt := now\<rparr>) else Inl ErrInvalidTransition)"

definition SameReservation :: "Operation \<Rightarrow> Operation \<Rightarrow> bool" where
  "SameReservation self other \<longleftrightarrow>
     op_ID self = op_ID other \<and> op_RunID self = op_RunID other
     \<and> op_ExecutionEpoch self = op_ExecutionEpoch other \<and> op_RecoveryEpoch self = op_RecoveryEpoch other
     \<and> op_Action self = op_Action other \<and> op_RiskClass self = op_RiskClass other
     \<and> op_Capability self = op_Capability other \<and> op_IdempotencyKey self = op_IdempotencyKey other
     \<and> op_RequestDigest self = op_RequestDigest other"

section \<open>The service\<close>

definition unresolvedExternalEffect :: "err option \<Rightarrow> err" where
  "unresolvedExternalEffect e =
     (case e of None \<Rightarrow> ErrExternalEffectUnresolved | Some x \<Rightarrow> ErrWrap ErrExternalEffectUnresolved x)"

datatype DispatchOutcome = DispatchConfirmed | DispatchUnknown | DispatchOther string

datatype ReconcileOutcome =
  ReconcileConfirmed | ReconcileSafeToRetry | ReconcileManual | ReconcileOther string

record DispatchResult =
  disp_Outcome :: DispatchOutcome
  disp_ExternalRef :: string
  disp_ObservedState :: string

record ReconcileResult =
  rec_Outcome :: ReconcileOutcome
  rec_ExternalRef :: string
  rec_ObservedState :: string

definition requestIdentity_json :: "Request \<Rightarrow> json" where
  "requestIdentity_json req =
     JObj (str_field ''action_request_id'' (req_ID req) @ str_field ''run_id'' (req_RunID req)
        @ u64_field ''execution_epoch'' (req_ExecutionEpoch req)
        @ u64_field ''recovery_epoch'' (req_RecoveryEpoch req)
        @ str_field ''action'' (req_Action req)
        @ str_field ''risk_class'' (RiskClass_string (req_RiskClass req))
        @ str_field ''capability'' (req_Capability req)
        @ str_field ''parameters_digest'' (req_ParametersDigest req)
        @ str_field ''requested_by'' (req_RequestedBy req))"

definition requestDigest :: "Request \<Rightarrow> string" where
  "requestDigest req = Digest (requestIdentity_json req)"

definition receiptFromOperation :: "string \<Rightarrow> Operation \<Rightarrow> gotime \<Rightarrow> Receipt" where
  "receiptFromOperation requestID op now =
     \<lparr>rcpt_ID = ''receipt:'' @ op_ID op @ '':'' @ OpState_string (op_State op),
      rcpt_RequestID = (if requestID = [] then op_ID op else requestID),
      rcpt_OperationID = op_ID op, rcpt_Result = OpState_string (op_State op),
      rcpt_ExternalRef = op_ExternalRef op, rcpt_ObservedState = op_ObservedState op,
      rcpt_CreatedAt = now\<rparr>"

text \<open>
  The calls of the service. \<open>CallSettle\<close> is the ledger write under the detached five-second
  context of \<open>settleExternalEffect\<close>; \<open>CallUpdate\<close> is the write under the caller's context.
\<close>

datatype prog =
    Return "Receipt result"
  | CheckCtx "err option \<Rightarrow> prog"
  | Now "gotime \<Rightarrow> prog"
  | CallAuthorize Request "err option \<Rightarrow> prog"
  | CallCheckRunEpoch string uint64 "err option \<Rightarrow> prog"
  | CallCheckRecoveryEpoch uint64 RiskClass "err option \<Rightarrow> prog"
  | CallCreate Operation "err option \<Rightarrow> prog"
  | CallGet string "Operation result \<Rightarrow> prog"
  | CallGetByKey string "Operation result \<Rightarrow> prog"
  | CallUpdate Operation "err option \<Rightarrow> prog"
  | CallSettle Operation "err option \<Rightarrow> prog"
  | CallDispatch Request "DispatchResult result \<Rightarrow> prog"
  | CallReconcile Operation "ReconcileResult result \<Rightarrow> prog"

text \<open>\<open>if err := ...; err != nil { return Receipt{}, err }\<close>\<close>

definition or_fail :: "prog \<Rightarrow> err option \<Rightarrow> prog" where
  "or_fail k e = (case e of None \<Rightarrow> k | Some x \<Rightarrow> Return (Inl x))"

text \<open>Which of the service's dependencies are set.\<close>

record wiring =
  has_authorizer :: bool
  has_guard :: bool
  has_provider :: bool
  has_repository :: bool

definition NewService :: wiring where
  "NewService = \<lparr>has_authorizer = True, has_guard = True, has_provider = True, has_repository = True\<rparr>"

definition abandoned_replay :: err where
  "abandoned_replay = ErrWrap ErrDenied (ErrText ''abandoned external reservation has no replay authority'')"

definition retry_replay :: err where
  "retry_replay = ErrWrap ErrDenied (ErrText ''SAFE_TO_RETRY has no independent dispatch-quiescence proof'')"

text \<open>The answer for a key that is already reserved by the same request.\<close>

definition replay :: "Request \<Rightarrow> Operation \<Rightarrow> prog" where
  "replay req existing =
     (if op_State existing = AbandonedReconciled then Return (Inl abandoned_replay)
      else if op_State existing = SafeToRetry then Return (Inl retry_replay)
      else Now (\<lambda>now. Return (Inr (receiptFromOperation (req_ID req) existing now))))"

text \<open>A transition of the local operation followed by the rest; a refusal is unresolved.\<close>

definition move_op :: "Operation \<Rightarrow> OpState \<Rightarrow> gotime \<Rightarrow> (Operation \<Rightarrow> prog) \<Rightarrow> prog" where
  "move_op op target now k =
     (case Operation_Transition op target now of
        Inl e \<Rightarrow> Return (Inl (unresolvedExternalEffect (Some e)))
      | Inr op' \<Rightarrow> k op')"

definition settle_dispatch :: "Request \<Rightarrow> bool \<Rightarrow> DispatchResult \<Rightarrow> Operation \<Rightarrow> prog" where
  "settle_dispatch req invalid result op =
     (let op' = op\<lparr>op_ExternalRef := disp_ExternalRef result, op_ObservedState := disp_ObservedState result\<rparr>
      in CallSettle op' (\<lambda>e. case e of
           Some x \<Rightarrow> Return (Inl (unresolvedExternalEffect (Some x)))
         | None \<Rightarrow>
             if invalid then Return (Inl (unresolvedExternalEffect
                  (Some (ErrText ''unsupported provider dispatch outcome; durable reconciliation required''))))
             else Now (\<lambda>t. Return (Inr (receiptFromOperation (req_ID req) op' t)))))"

definition after_dispatch :: "Request \<Rightarrow> Operation \<Rightarrow> DispatchResult result \<Rightarrow> prog" where
  "after_dispatch req op answer =
     (case answer of
        Inl _ \<Rightarrow> Now (\<lambda>t. move_op op Unknown t (\<lambda>op'. CallSettle op' (\<lambda>e. case e of
            Some x \<Rightarrow> Return (Inl (unresolvedExternalEffect
                 (Some (ErrWrap (ErrText ''cannot persist UNKNOWN external operation'') x))))
          | None \<Rightarrow> Now (\<lambda>t'. Return (Inr (receiptFromOperation (req_ID req) op' t'))))))
      | Inr result \<Rightarrow>
          (case disp_Outcome result of
             DispatchConfirmed \<Rightarrow>
               Now (\<lambda>t. move_op op Confirmed t (settle_dispatch req False result))
           | DispatchUnknown \<Rightarrow>
               Now (\<lambda>t. move_op op Unknown t (settle_dispatch req False result))
           | DispatchOther _ \<Rightarrow>
               Now (\<lambda>t. move_op op Unknown t (settle_dispatch req True
                 (result\<lparr>disp_ExternalRef := [],
                         disp_ObservedState := ''INVALID_PROVIDER_DISPATCH_OUTCOME''\<rparr>)))))"

definition dispatch_phase :: "Request \<Rightarrow> Operation \<Rightarrow> gotime \<Rightarrow> prog" where
  "dispatch_phase req op now =
     CheckCtx (or_fail
       (case Operation_Transition op Dispatched now of
          Inl e \<Rightarrow> Return (Inl e)
        | Inr op' \<Rightarrow>
            CallUpdate op' (or_fail
              (CheckCtx (or_fail (CallDispatch req (after_dispatch req op')))))))"

definition reserve_phase :: "Request \<Rightarrow> string \<Rightarrow> prog" where
  "reserve_phase req digest =
     Now (\<lambda>now. let op = NewWithRequestDigest req digest now in
       CallCreate op (\<lambda>e. case e of
         Some x \<Rightarrow>
           if errors_Is x ErrOperationExists
           then CallGetByKey (req_IdempotencyKey req) (\<lambda>r. case r of
                  Inr existing \<Rightarrow>
                    if op_RequestDigest existing = digest then replay req existing else Return (Inl x)
                | Inl _ \<Rightarrow> Return (Inl x))
           else Return (Inl x)
       | None \<Rightarrow> dispatch_phase req op now))"

definition admission_phase :: "Request \<Rightarrow> string \<Rightarrow> prog" where
  "admission_phase req digest =
     CheckCtx (or_fail
       (CallAuthorize req (\<lambda>e. case e of
          Some x \<Rightarrow> Return (Inl (ErrWrap ErrDenied (ErrText (Error x))))
        | None \<Rightarrow> CheckCtx (or_fail
            (CallCheckRunEpoch (req_RunID req) (req_ExecutionEpoch req) (or_fail
              (CheckCtx (or_fail
                (CallCheckRecoveryEpoch (req_RecoveryEpoch req) (req_RiskClass req) (or_fail
                  (CheckCtx (or_fail (reserve_phase req digest)))))))))))))"

definition Execute :: "wiring \<Rightarrow> Request \<Rightarrow> prog" where
  "Execute w req =
     (if \<not> (has_authorizer w \<and> has_guard w \<and> has_provider w \<and> has_repository w)
      then Return (Inl (ErrText ''action service is not fully configured''))
      else if req_IdempotencyKey req = [] then Return (Inl (ErrText ''idempotency key is required''))
      else CheckCtx (or_fail
        (CallGetByKey (req_IdempotencyKey req) (\<lambda>r. case r of
           Inr existing \<Rightarrow>
             if op_RequestDigest existing \<noteq> requestDigest req then Return (Inl ErrIdempotencyConflict)
             else replay req existing
         | Inl e \<Rightarrow>
             if \<not> errors_Is e ErrOperationAbsent then Return (Inl e)
             else admission_phase req (requestDigest req)))))"

definition settle_reconcile :: "bool \<Rightarrow> ReconcileResult \<Rightarrow> Operation \<Rightarrow> prog" where
  "settle_reconcile invalid result op =
     (let op' = op\<lparr>op_ExternalRef := rec_ExternalRef result, op_ObservedState := rec_ObservedState result\<rparr>
      in CallSettle op' (\<lambda>e. case e of
           Some x \<Rightarrow> Return (Inl (unresolvedExternalEffect (Some x)))
         | None \<Rightarrow>
             if invalid then Return (Inl (unresolvedExternalEffect
                  (Some (ErrText ''unsupported provider reconcile outcome; manual reconciliation required''))))
             else Now (\<lambda>t. Return (Inr (receiptFromOperation [] op' t)))))"

definition unqualified :: "string \<Rightarrow> ReconcileResult \<Rightarrow> ReconcileResult" where
  "unqualified verdict result = result\<lparr>rec_ExternalRef := [], rec_ObservedState := verdict\<rparr>"

definition after_reconcile :: "Operation \<Rightarrow> ReconcileResult result \<Rightarrow> prog" where
  "after_reconcile op answer =
     (case answer of
        Inl _ \<Rightarrow> Now (\<lambda>t. let op' = op\<lparr>op_State := Manual, op_UpdatedAt := t\<rparr> in
          CallSettle op' (\<lambda>e. case e of
            Some x \<Rightarrow> Return (Inl (unresolvedExternalEffect
                 (Some (ErrWrap (ErrText ''cannot persist MANUAL external operation'') x))))
          | None \<Rightarrow> Now (\<lambda>t'. Return (Inr (receiptFromOperation [] op' t')))))
      | Inr result \<Rightarrow>
          (case rec_Outcome result of
             ReconcileConfirmed \<Rightarrow>
               if op_RiskClass op = Observe
               then Now (\<lambda>t. move_op op Confirmed t (settle_reconcile False result))
               else Now (\<lambda>t. move_op op Manual t (settle_reconcile True
                      (unqualified ''UNQUALIFIED_CONFIRMATION_VERDICT'' result)))
           | ReconcileSafeToRetry \<Rightarrow>
               Now (\<lambda>t. move_op op Manual t (settle_reconcile True
                      (unqualified ''UNQUALIFIED_RETRY_VERDICT'' result)))
           | ReconcileManual \<Rightarrow>
               Now (\<lambda>t. move_op op Manual t (settle_reconcile False result))
           | ReconcileOther _ \<Rightarrow>
               Now (\<lambda>t. move_op op Manual t (settle_reconcile True
                      (unqualified ''INVALID_PROVIDER_RECONCILE_OUTCOME'' result)))))"

definition not_unknown :: "Operation \<Rightarrow> err" where
  "not_unknown op =
     ErrText (''operation '' @ op_ID op @ '' is '' @ OpState_string (op_State op) @ '', not UNKNOWN'')"

definition Reconcile :: "wiring \<Rightarrow> string \<Rightarrow> prog" where
  "Reconcile w operationID =
     (if \<not> (has_repository w \<and> has_provider w)
      then Return (Inl (ErrText ''action reconcile service is not fully configured''))
      else CheckCtx (or_fail
        (CallGet operationID (\<lambda>r. case r of
           Inl e \<Rightarrow> Return (Inl e)
         | Inr op \<Rightarrow> CheckCtx (or_fail
             (if op_State op \<noteq> Unknown then Return (Inl (not_unknown op))
              else Now (\<lambda>t. case Operation_Transition op Reconciling t of
                     Inl e \<Rightarrow> Return (Inl e)
                   | Inr op' \<Rightarrow> CheckCtx (or_fail
                       (CallUpdate op' (or_fail
                         (CheckCtx (or_fail (CallReconcile op' (after_reconcile op'))))))))))))))"

section \<open>Repositories, guards and the scheduler\<close>

text \<open>
  The interfaces \<open>Repository\<close>, \<open>Authorizer\<close> and \<open>AuthorityGuard\<close> over one shared state. The
  provider is not code of this package: its answers come with the schedule.
\<close>

record 'st service =
  svc_Authorize :: "ctx \<Rightarrow> Request \<Rightarrow> 'st \<Rightarrow> err option"
  svc_CheckRunEpoch :: "ctx \<Rightarrow> string \<Rightarrow> uint64 \<Rightarrow> 'st \<Rightarrow> err option"
  svc_CheckRecoveryEpoch :: "ctx \<Rightarrow> uint64 \<Rightarrow> RiskClass \<Rightarrow> 'st \<Rightarrow> err option"
  svc_Create :: "ctx \<Rightarrow> Operation \<Rightarrow> 'st \<Rightarrow> err option \<times> 'st"
  svc_Get :: "ctx \<Rightarrow> string \<Rightarrow> 'st \<Rightarrow> Operation result"
  svc_GetByKey :: "ctx \<Rightarrow> string \<Rightarrow> 'st \<Rightarrow> Operation result"
  svc_Update :: "ctx \<Rightarrow> Operation \<Rightarrow> 'st \<Rightarrow> err option \<times> 'st"

definition Service_GetContext ::
  "'st service \<Rightarrow> wiring \<Rightarrow> ctx \<Rightarrow> string \<Rightarrow> 'st \<Rightarrow> Operation result" where
  "Service_GetContext svc w c operationID st =
     unless (\<not> has_repository w) (ErrText ''action service repository is not configured'')
       (unless_err (c 0) (svc_Get svc (ctx_from 1 c) operationID st))"

text \<open>What the world answers to one step: the context as seen by the callee, the clock, the provider.\<close>

record reply =
  ans_ctx :: ctx
  ans_now :: gotime
  ans_dispatch :: "DispatchResult result"
  ans_reconcile :: "ReconcileResult result"

datatype event = EvDispatch Request | EvReconcile Operation

fun prog_step :: "'st service \<Rightarrow> reply \<Rightarrow> prog \<Rightarrow> 'st \<Rightarrow> prog \<times> 'st \<times> event list" where
  "prog_step svc a (Return r) st = (Return r, st, [])"
| "prog_step svc a (CheckCtx k) st = (k (ans_ctx a 0), st, [])"
| "prog_step svc a (Now k) st = (k (ans_now a), st, [])"
| "prog_step svc a (CallAuthorize req k) st = (k (svc_Authorize svc (ans_ctx a) req st), st, [])"
| "prog_step svc a (CallCheckRunEpoch r e k) st = (k (svc_CheckRunEpoch svc (ans_ctx a) r e st), st, [])"
| "prog_step svc a (CallCheckRecoveryEpoch e c k) st =
     (k (svc_CheckRecoveryEpoch svc (ans_ctx a) e c st), st, [])"
| "prog_step svc a (CallCreate op k) st = (case svc_Create svc (ans_ctx a) op st of (e, st') \<Rightarrow> (k e, st', []))"
| "prog_step svc a (CallGet i k) st = (k (svc_Get svc (ans_ctx a) i st), st, [])"
| "prog_step svc a (CallGetByKey i k) st = (k (svc_GetByKey svc (ans_ctx a) i st), st, [])"
| "prog_step svc a (CallUpdate op k) st = (case svc_Update svc (ans_ctx a) op st of (e, st') \<Rightarrow> (k e, st', []))"
| "prog_step svc a (CallSettle op k) st = (case svc_Update svc (ans_ctx a) op st of (e, st') \<Rightarrow> (k e, st', []))"
| "prog_step svc a (CallDispatch req k) st = (k (ans_dispatch a), st, [EvDispatch req])"
| "prog_step svc a (CallReconcile op k) st = (k (ans_reconcile a), st, [EvReconcile op])"

record 'st world =
  w_store :: 'st
  w_procs :: "prog list"
  w_log :: "event list"

definition world_step :: "'st service \<Rightarrow> nat \<times> reply \<Rightarrow> 'st world \<Rightarrow> 'st world" where
  "world_step svc e w =
     (if fst e < length (w_procs w)
      then case prog_step svc (snd e) (w_procs w ! fst e) (w_store w) of (p, st, evs) \<Rightarrow>
             \<lparr>w_store = st, w_procs = (w_procs w)[fst e := p], w_log = w_log w @ evs\<rparr>
      else w)"

definition run_schedule :: "'st service \<Rightarrow> (nat \<times> reply) list \<Rightarrow> 'st world \<Rightarrow> 'st world" where
  "run_schedule svc es w = fold (world_step svc) es w"

text \<open>The calls that clients make, and the world in which they all have arrived.\<close>

datatype action_call = ExecuteCall wiring Request | ReconcileCall wiring string

fun call_prog :: "action_call \<Rightarrow> prog" where
  "call_prog (ExecuteCall w req) = Execute w req"
| "call_prog (ReconcileCall w i) = Reconcile w i"

definition arrived :: "'st \<Rightarrow> action_call list \<Rightarrow> 'st world" where
  "arrived st calls = \<lparr>w_store = st, w_procs = map call_prog calls, w_log = []\<rparr>"

fun dispatches_key :: "string \<Rightarrow> event \<Rightarrow> bool" where
  "dispatches_key k (EvDispatch req) \<longleftrightarrow> req_IdempotencyKey req = k"
| "dispatches_key k (EvReconcile _) \<longleftrightarrow> False"

definition dispatch_count :: "string \<Rightarrow> event list \<Rightarrow> nat" where
  "dispatch_count k log = length (filter (dispatches_key k) log)"

text \<open>One call on its own: it is stepped with the given replies until it returns.\<close>

fun run_alone :: "'st service \<Rightarrow> reply list \<Rightarrow> prog \<Rightarrow> 'st \<Rightarrow> prog \<times> 'st \<times> event list" where
  "run_alone svc [] p st = (p, st, [])"
| "run_alone svc (a # as) p st =
     (case prog_step svc a p st of (p', st', evs) \<Rightarrow>
       (case run_alone svc as p' st' of (p'', st'', evs') \<Rightarrow> (p'', st'', evs @ evs')))"

section \<open>The in-memory repository\<close>

record MemoryRepository =
  repo_items :: "string \<rightharpoonup> Operation"
  repo_idempotency :: "string \<rightharpoonup> string"

definition NewMemoryRepository :: MemoryRepository where
  "NewMemoryRepository = \<lparr>repo_items = Map.empty, repo_idempotency = Map.empty\<rparr>"

definition MemoryRepository_CreateContext ::
  "ctx \<Rightarrow> Operation \<Rightarrow> MemoryRepository \<Rightarrow> MemoryRepository result" where
  "MemoryRepository_CreateContext c op r =
     unless_err (c 0) (unless_err (c 1)
       (unless (repo_items r (op_ID op) \<noteq> None) ErrOperationExists
         (unless (repo_idempotency r (op_IdempotencyKey op) \<noteq> None) ErrOperationExists
           (Inr (r\<lparr>repo_items := (repo_items r)(op_ID op \<mapsto> op),
                   repo_idempotency := (repo_idempotency r)(op_IdempotencyKey op \<mapsto> op_ID op)\<rparr>)))))"

definition MemoryRepository_GetContext ::
  "ctx \<Rightarrow> string \<Rightarrow> MemoryRepository \<Rightarrow> Operation result" where
  "MemoryRepository_GetContext c i r =
     unless_err (c 0) (unless_err (c 1) (lookup_or ErrOperationAbsent (repo_items r) i))"

definition MemoryRepository_GetByIdempotencyKeyContext ::
  "ctx \<Rightarrow> string \<Rightarrow> MemoryRepository \<Rightarrow> Operation result" where
  "MemoryRepository_GetByIdempotencyKeyContext c key r =
     unless_err (c 0) (unless_err (c 1)
       (rbind (lookup_or ErrOperationAbsent (repo_idempotency r) key)
          (lookup_or ErrOperationAbsent (repo_items r))))"

definition MemoryRepository_UpdateContext ::
  "ctx \<Rightarrow> Operation \<Rightarrow> MemoryRepository \<Rightarrow> MemoryRepository result" where
  "MemoryRepository_UpdateContext c op r =
     unless_err (c 0) (unless_err (c 1)
       (rbind (lookup_or ErrOperationAbsent (repo_items r) (op_ID op)) (\<lambda>original.
         unless (\<not> SameReservation original op) ErrInvalidTransition
           (rbind (Operation_Transition original (op_State op) (op_UpdatedAt op)) (\<lambda>_.
             Inr (r\<lparr>repo_items := (repo_items r)(op_ID op \<mapsto> op)\<rparr>))))))"


definition memory_service ::
  "(ctx \<Rightarrow> Request \<Rightarrow> MemoryRepository \<Rightarrow> err option) \<Rightarrow>
   (ctx \<Rightarrow> string \<Rightarrow> uint64 \<Rightarrow> MemoryRepository \<Rightarrow> err option) \<Rightarrow>
   (ctx \<Rightarrow> uint64 \<Rightarrow> RiskClass \<Rightarrow> MemoryRepository \<Rightarrow> err option) \<Rightarrow> MemoryRepository service" where
  "memory_service authorizer run_guard recovery_guard =
     \<lparr>svc_Authorize = authorizer, svc_CheckRunEpoch = run_guard, svc_CheckRecoveryEpoch = recovery_guard,
      svc_Create = (\<lambda>c op st. attempt st (MemoryRepository_CreateContext c op st)),
      svc_Get = MemoryRepository_GetContext,
      svc_GetByKey = MemoryRepository_GetByIdempotencyKeyContext,
      svc_Update = (\<lambda>c op st. attempt st (MemoryRepository_UpdateContext c op st))\<rparr>"

section \<open>Programs that hold a reservation\<close>

text \<open>
  The life of an \<open>Execute\<close> call, read off its program for all answers it may get: \<open>guarded\<close>
  until its create succeeds, \<open>holds\<close> until its row is DISPATCHED, \<open>armed\<close> until the provider is
  called, \<open>spent\<close> from then on. \<open>spent\<close> programs neither create nor dispatch.
\<close>

primrec spent :: "prog \<Rightarrow> bool" where
  "spent (Return r) \<longleftrightarrow> True"
| "spent (CheckCtx k) \<longleftrightarrow> (\<forall>x. spent (k x))"
| "spent (Now k) \<longleftrightarrow> (\<forall>x. spent (k x))"
| "spent (CallAuthorize r k) \<longleftrightarrow> (\<forall>x. spent (k x))"
| "spent (CallCheckRunEpoch r e k) \<longleftrightarrow> (\<forall>x. spent (k x))"
| "spent (CallCheckRecoveryEpoch e c k) \<longleftrightarrow> (\<forall>x. spent (k x))"
| "spent (CallCreate op k) \<longleftrightarrow> False"
| "spent (CallGet i k) \<longleftrightarrow> (\<forall>x. spent (k x))"
| "spent (CallGetByKey i k) \<longleftrightarrow> (\<forall>x. spent (k x))"
| "spent (CallUpdate op k) \<longleftrightarrow> (\<forall>x. spent (k x))"
| "spent (CallSettle op k) \<longleftrightarrow> (\<forall>x. spent (k x))"
| "spent (CallDispatch r k) \<longleftrightarrow> False"
| "spent (CallReconcile op k) \<longleftrightarrow> (\<forall>x. spent (k x))"

primrec armed :: "Request \<Rightarrow> prog \<Rightarrow> bool" where
  "armed req (Return r) \<longleftrightarrow> True"
| "armed req (CheckCtx k) \<longleftrightarrow> (\<forall>x. armed req (k x))"
| "armed req (Now k) \<longleftrightarrow> (\<forall>x. armed req (k x))"
| "armed req (CallAuthorize r k) \<longleftrightarrow> False"
| "armed req (CallCheckRunEpoch r e k) \<longleftrightarrow> False"
| "armed req (CallCheckRecoveryEpoch e c k) \<longleftrightarrow> False"
| "armed req (CallCreate op k) \<longleftrightarrow> False"
| "armed req (CallGet i k) \<longleftrightarrow> False"
| "armed req (CallGetByKey i k) \<longleftrightarrow> False"
| "armed req (CallUpdate op k) \<longleftrightarrow> False"
| "armed req (CallSettle op k) \<longleftrightarrow> False"
| "armed req (CallDispatch r k) \<longleftrightarrow> r = req \<and> (\<forall>x. spent (k x))"
| "armed req (CallReconcile op k) \<longleftrightarrow> False"

primrec holds :: "Request \<Rightarrow> prog \<Rightarrow> bool" where
  "holds req (Return r) \<longleftrightarrow> True"
| "holds req (CheckCtx k) \<longleftrightarrow> (\<forall>x. holds req (k x))"
| "holds req (Now k) \<longleftrightarrow> (\<forall>x. holds req (k x))"
| "holds req (CallAuthorize r k) \<longleftrightarrow> False"
| "holds req (CallCheckRunEpoch r e k) \<longleftrightarrow> False"
| "holds req (CallCheckRecoveryEpoch e c k) \<longleftrightarrow> False"
| "holds req (CallCreate op k) \<longleftrightarrow> False"
| "holds req (CallGet i k) \<longleftrightarrow> False"
| "holds req (CallGetByKey i k) \<longleftrightarrow> False"
| "holds req (CallUpdate op k) \<longleftrightarrow>
     op_ID op = req_ID req \<and> op_State op = Dispatched \<and> op_RequestDigest op = requestDigest req
     \<and> op_IdempotencyKey op = req_IdempotencyKey req
     \<and> armed req (k None) \<and> (\<forall>e. holds req (k (Some e)))"
| "holds req (CallSettle op k) \<longleftrightarrow> False"
| "holds req (CallDispatch r k) \<longleftrightarrow> False"
| "holds req (CallReconcile op k) \<longleftrightarrow> False"

primrec guarded :: "Request \<Rightarrow> prog \<Rightarrow> bool" where
  "guarded req (Return r) \<longleftrightarrow> True"
| "guarded req (CheckCtx k) \<longleftrightarrow> (\<forall>x. guarded req (k x))"
| "guarded req (Now k) \<longleftrightarrow> (\<forall>x. guarded req (k x))"
| "guarded req (CallAuthorize r k) \<longleftrightarrow> (\<forall>x. guarded req (k x))"
| "guarded req (CallCheckRunEpoch r e k) \<longleftrightarrow> (\<forall>x. guarded req (k x))"
| "guarded req (CallCheckRecoveryEpoch e c k) \<longleftrightarrow> (\<forall>x. guarded req (k x))"
| "guarded req (CallCreate op k) \<longleftrightarrow>
     op_IdempotencyKey op = req_IdempotencyKey req \<and> holds req (k None) \<and> (\<forall>e. guarded req (k (Some e)))"
| "guarded req (CallGet i k) \<longleftrightarrow> (\<forall>x. guarded req (k x))"
| "guarded req (CallGetByKey i k) \<longleftrightarrow> (\<forall>x. guarded req (k x))"
| "guarded req (CallUpdate op k) \<longleftrightarrow> (\<forall>x. guarded req (k x))"
| "guarded req (CallSettle op k) \<longleftrightarrow> (\<forall>x. guarded req (k x))"
| "guarded req (CallDispatch r k) \<longleftrightarrow> False"
| "guarded req (CallReconcile op k) \<longleftrightarrow> (\<forall>x. guarded req (k x))"

named_theorems prog_defs "the phases of Execute and Reconcile"

declare or_fail_def [prog_defs] replay_def [prog_defs] move_op_def [prog_defs]
  settle_dispatch_def [prog_defs] after_dispatch_def [prog_defs] dispatch_phase_def [prog_defs]
  reserve_phase_def [prog_defs] admission_phase_def [prog_defs] Execute_def [prog_defs]
  settle_reconcile_def [prog_defs] after_reconcile_def [prog_defs] Reconcile_def [prog_defs]

lemma after_dispatch_spent: "spent (after_dispatch req op answer)"
  by (auto simp: prog_defs Let_def split: option.splits sum.splits DispatchOutcome.splits)

lemma after_reconcile_spent: "spent (after_reconcile op answer)"
  by (auto simp: prog_defs Let_def split: option.splits sum.splits ReconcileOutcome.splits)

lemma Reconcile_spent: "spent (Reconcile w i)"
  by (auto simp: Reconcile_def or_fail_def after_reconcile_spent split: option.splits sum.splits)

lemma spent_guarded: "spent p \<Longrightarrow> guarded req p"
  by (induction p) auto

lemma dispatch_phase_holds:
  "op_ID op = req_ID req \<Longrightarrow> op_RequestDigest op = requestDigest req \<Longrightarrow>
   op_IdempotencyKey op = req_IdempotencyKey req \<Longrightarrow> holds req (dispatch_phase req op now)"
  by (auto simp: dispatch_phase_def or_fail_def Operation_Transition_def after_dispatch_spent
      split: option.splits sum.splits)

lemma replay_guarded: "guarded req (replay req' existing)"
  by (simp add: replay_def)

lemma Execute_guarded: "guarded req (Execute w req)"
  by (auto simp: Execute_def admission_phase_def reserve_phase_def or_fail_def Let_def replay_guarded
      NewWithRequestDigest_def intro!: dispatch_phase_holds split: option.splits sum.splits)

section \<open>What a repository promises\<close>

text \<open>
  The view of a repository: its rows by operation id and its index from idempotency keys to ids.
  \<open>reserves\<close> and \<open>settles\<close> are the two ways in which the view may change.
\<close>

type_synonym rows = "string \<rightharpoonup> Operation"
type_synonym keyindex = "string \<rightharpoonup> string"

definition reserves :: "Operation \<Rightarrow> rows \<times> keyindex \<Rightarrow> rows \<times> keyindex \<Rightarrow> bool" where
  "reserves op v v' \<longleftrightarrow>
     fst v (op_ID op) = None \<and> snd v (op_IdempotencyKey op) = None
     \<and> v' = ((fst v)(op_ID op \<mapsto> op), (snd v)(op_IdempotencyKey op \<mapsto> op_ID op))"

definition settles :: "Operation \<Rightarrow> rows \<times> keyindex \<Rightarrow> rows \<times> keyindex \<Rightarrow> bool" where
  "settles op v v' \<longleftrightarrow>
     (\<exists>old. fst v (op_ID op) = Some old \<and> SameReservation old op
        \<and> op_allowed (op_RiskClass old) (op_State old) (op_State op)
        \<and> v' = ((fst v)(op_ID op \<mapsto> op), snd v))"

definition ledger_ok :: "rows \<times> keyindex \<Rightarrow> bool" where
  "ledger_ok v \<longleftrightarrow>
     (\<forall>i op. fst v i = Some op \<longrightarrow> op_ID op = i \<and> snd v (op_IdempotencyKey op) = Some i)
     \<and> (\<forall>k i. snd v k = Some i \<longrightarrow> (\<exists>op. fst v i = Some op \<and> op_IdempotencyKey op = k))"

text \<open>The states that an operation of a risk class can have from now on, its own included.\<close>

fun op_future :: "RiskClass \<Rightarrow> OpState \<Rightarrow> OpState set" where
  "op_future risk Planned = {Planned, Dispatched, Confirmed, Unknown, Reconciling, Manual}"
| "op_future risk Dispatched = {Dispatched, Confirmed, Unknown, Reconciling, Manual}"
| "op_future risk Unknown = {Unknown, Reconciling, Manual} \<union> (if risk = Observe then {Confirmed} else {})"
| "op_future risk Reconciling = {Reconciling, Manual} \<union> (if risk = Observe then {Confirmed} else {})"
| "op_future risk s = {s}"

definition evolves :: "Operation \<Rightarrow> Operation \<Rightarrow> bool" where
  "evolves op op' \<longleftrightarrow> SameReservation op op' \<and> op_State op' \<in> op_future (op_RiskClass op) (op_State op)"

definition rows_evolve :: "rows \<Rightarrow> rows \<Rightarrow> bool" where
  "rows_evolve m m' \<longleftrightarrow> (\<forall>i op. m i = Some op \<longrightarrow> (\<exists>op'. m' i = Some op' \<and> evolves op op'))"

lemma op_future_refl: "s \<in> op_future risk s"
  by (cases s) auto

lemma op_future_trans: "t \<in> op_future risk s \<Longrightarrow> u \<in> op_future risk t \<Longrightarrow> u \<in> op_future risk s"
  by (cases s; cases t) (auto split: if_splits)

lemma op_allowed_future: "op_allowed risk s t \<Longrightarrow> t \<in> op_future risk s"
  by (cases s) auto

lemma SameReservation_refl: "SameReservation op op"
  by (simp add: SameReservation_def)

lemma evolves_refl: "evolves op op"
  by (simp add: evolves_def SameReservation_refl op_future_refl)

lemma evolves_trans: "evolves a b \<Longrightarrow> evolves b c \<Longrightarrow> evolves a c"
  unfolding evolves_def SameReservation_def by (auto intro: op_future_trans)

lemma rows_evolve_refl [simp]: "rows_evolve m m"
  by (auto simp: rows_evolve_def intro: evolves_refl)

lemma rows_evolve_trans: "rows_evolve a b \<Longrightarrow> rows_evolve b c \<Longrightarrow> rows_evolve a c"
  unfolding rows_evolve_def by (meson evolves_trans)

lemma rows_evolveD: "rows_evolve m m' \<Longrightarrow> m i = Some op \<Longrightarrow> \<exists>op'. m' i = Some op' \<and> evolves op op'"
  by (simp add: rows_evolve_def)

lemma reserves_evolve: "reserves op v v' \<Longrightarrow> rows_evolve (fst v) (fst v')"
  by (auto simp: reserves_def rows_evolve_def intro: evolves_refl)

lemma settles_evolve: "settles op v v' \<Longrightarrow> rows_evolve (fst v) (fst v')"
  by (auto simp: settles_def rows_evolve_def evolves_def SameReservation_refl op_future_refl
      op_allowed_future)

lemma reserves_ok: "reserves op v v' \<Longrightarrow> ledger_ok v \<Longrightarrow> ledger_ok v'"
  unfolding reserves_def ledger_ok_def by (auto split: if_splits) (metis option.distinct(1))+

lemma settles_ok: "settles op v v' \<Longrightarrow> ledger_ok v \<Longrightarrow> ledger_ok v'"
  unfolding settles_def ledger_ok_def SameReservation_def
  by (auto split: if_splits) (metis option.inject)+

lemma reserves_keys: "reserves op v v' \<Longrightarrow> dom (snd v) \<subseteq> dom (snd v')"
  by (auto simp: reserves_def)

lemma settles_keys: "settles op v v' \<Longrightarrow> snd v' = snd v"
  by (auto simp: settles_def)

text \<open>
  A dispatched request is backed by a row with its digest and key that has left PLANNED.
\<close>

definition started :: "Request \<Rightarrow> rows \<Rightarrow> bool" where
  "started req m \<longleftrightarrow>
     (\<exists>op. m (req_ID req) = Some op \<and> op_RequestDigest op = requestDigest req
        \<and> op_IdempotencyKey op = req_IdempotencyKey req \<and> op_State op \<noteq> Planned)"

lemma started_evolve: "started req m \<Longrightarrow> rows_evolve m m' \<Longrightarrow> started req m'"
proof -
  assume "started req m" and ev: "rows_evolve m m'"
  then obtain op where op: "m (req_ID req) = Some op" "op_RequestDigest op = requestDigest req"
    "op_IdempotencyKey op = req_IdempotencyKey req" "op_State op \<noteq> Planned"
    by (auto simp: started_def)
  from ev op(1) obtain op' where op': "m' (req_ID req) = Some op'" "evolves op op'"
    by (auto dest: rows_evolveD)
  have "op_State op' \<noteq> Planned"
    using op(4) op'(2) by (cases "op_State op") (auto simp: evolves_def split: if_splits)
  with op op' show "started req m'"
    by (auto simp: started_def evolves_def SameReservation_def)
qed

text \<open>
  The invariant of the scheduler. \<open>win\<close> names the call whose create reserved a key, \<open>K\<close> are the
  keys that were reserved before any call arrived.
\<close>

definition proc_ok :: "rows \<Rightarrow> event list \<Rightarrow> bool \<Rightarrow> Request \<Rightarrow> prog \<Rightarrow> bool" where
  "proc_ok m log winner req p \<longleftrightarrow>
     (if winner
      then (holds req p \<and> dispatch_count (req_IdempotencyKey req) log = 0)
         \<or> (armed req p \<and> dispatch_count (req_IdempotencyKey req) log = 0 \<and> started req m)
         \<or> spent p
      else guarded req p)"

definition procs_ok ::
  "Request option list \<Rightarrow> (string \<rightharpoonup> nat) \<Rightarrow> rows \<Rightarrow> event list \<Rightarrow> prog list \<Rightarrow> bool" where
  "procs_ok reqs win m log ps \<longleftrightarrow> length reqs = length ps \<and>
     (\<forall>i < length ps. case reqs ! i of
        None \<Rightarrow> spent (ps ! i)
      | Some req \<Rightarrow> proc_ok m log (win (req_IdempotencyKey req) = Some i) req (ps ! i))"

definition log_ok :: "string set \<Rightarrow> (string \<rightharpoonup> nat) \<Rightarrow> rows \<times> keyindex \<Rightarrow> event list \<Rightarrow> bool" where
  "log_ok K win v log \<longleftrightarrow>
     K \<subseteq> dom (snd v) \<and> dom win \<subseteq> dom (snd v) - K
     \<and> (\<forall>k. dispatch_count k log \<le> 1) \<and> (\<forall>k. win k = None \<longrightarrow> dispatch_count k log = 0)
     \<and> (\<forall>req. EvDispatch req \<in> set log \<longrightarrow> started req (fst v))"

lemma dispatch_count_append [simp]: "dispatch_count k (xs @ ys) = dispatch_count k xs + dispatch_count k ys"
  by (simp add: dispatch_count_def)

lemma dispatch_count_Nil [simp]: "dispatch_count k [] = 0"
  by (simp add: dispatch_count_def)

lemma dispatch_count_one [simp]:
  "dispatch_count k [EvDispatch req] = (if req_IdempotencyKey req = k then 1 else 0)"
  by (simp add: dispatch_count_def)

lemma log_ok_mono:
  assumes "log_ok K win v log" and "dom (snd v) \<subseteq> dom (snd v')" and "rows_evolve (fst v) (fst v')"
  shows "log_ok K win v' log"
proof -
  have "K \<subseteq> dom (snd v')" and "dom win \<subseteq> dom (snd v') - K"
    using assms(1,2) unfolding log_ok_def by blast+
  with assms show ?thesis by (auto simp: log_ok_def dest: started_evolve)
qed

lemma log_ok_old_key: "log_ok K win v log \<Longrightarrow> k \<in> K \<Longrightarrow> dispatch_count k log = 0"
  unfolding log_ok_def by (metis Diff_iff domIff subsetD)

lemma proc_ok_stable:
  "proc_ok m log f req p \<Longrightarrow> rows_evolve m m' \<Longrightarrow>
   (f \<Longrightarrow> dispatch_count (req_IdempotencyKey req) log' = dispatch_count (req_IdempotencyKey req) log) \<Longrightarrow>
   proc_ok m' log' f req p"
  by (auto simp: proc_ok_def dest: started_evolve)

lemma procs_ok_stable:
  assumes "procs_ok reqs win m log ps" and "rows_evolve m m'"
    and count: "\<And>req j. j < length ps \<Longrightarrow> j \<noteq> i \<Longrightarrow> reqs ! j = Some req \<Longrightarrow> win (req_IdempotencyKey req) = Some j \<Longrightarrow>
       dispatch_count (req_IdempotencyKey req) log' = dispatch_count (req_IdempotencyKey req) log"
    and win: "\<And>req j. j < length ps \<Longrightarrow> j \<noteq> i \<Longrightarrow> reqs ! j = Some req \<Longrightarrow>
       win' (req_IdempotencyKey req) = Some j \<longleftrightarrow> win (req_IdempotencyKey req) = Some j"
    and self: "i < length ps"
      "case reqs ! i of None \<Rightarrow> spent p
       | Some req \<Rightarrow> proc_ok m' log' (win' (req_IdempotencyKey req) = Some i) req p"
  shows "procs_ok reqs win' m' log' (ps[i := p])"
  unfolding procs_ok_def
proof (intro conjI allI impI)
  show "length reqs = length (ps[i := p])" using assms(1) by (simp add: procs_ok_def)
next
  fix j assume j: "j < length (ps[i := p])"
  show "case reqs ! j of None \<Rightarrow> spent (ps[i := p] ! j)
    | Some req \<Rightarrow> proc_ok m' log' (win' (req_IdempotencyKey req) = Some j) req (ps[i := p] ! j)"
  proof (cases "j = i")
    case True
    with self show ?thesis by (simp split: option.splits)
  next
    case False
    with j assms(1) have "case reqs ! j of None \<Rightarrow> spent (ps ! j)
        | Some req \<Rightarrow> proc_ok m log (win (req_IdempotencyKey req) = Some j) req (ps ! j)"
      by (simp add: procs_ok_def)
    with False j count [of j] win [of j] assms(2) show ?thesis
      by (auto split: option.splits intro: proc_ok_stable)
  qed
qed

text \<open>
  Weakest preconditions of programs over a shared state. The flag tells whether the provider has
  been called; the answers of clock, context and guards are arbitrary.
\<close>

primrec wp :: "'st service \<Rightarrow> (Receipt result \<Rightarrow> bool \<Rightarrow> 'st \<Rightarrow> bool) \<Rightarrow> prog \<Rightarrow> bool \<Rightarrow> 'st \<Rightarrow> bool" where
  "wp svc Q (Return r) d st \<longleftrightarrow> Q r d st"
| "wp svc Q (CheckCtx k) d st \<longleftrightarrow> (\<forall>x. wp svc Q (k x) d st)"
| "wp svc Q (Now k) d st \<longleftrightarrow> (\<forall>x. wp svc Q (k x) d st)"
| "wp svc Q (CallAuthorize r k) d st \<longleftrightarrow> (\<forall>x. wp svc Q (k x) d st)"
| "wp svc Q (CallCheckRunEpoch r e k) d st \<longleftrightarrow> (\<forall>x. wp svc Q (k x) d st)"
| "wp svc Q (CallCheckRecoveryEpoch e c k) d st \<longleftrightarrow> (\<forall>x. wp svc Q (k x) d st)"
| "wp svc Q (CallCreate op k) d st \<longleftrightarrow> (\<forall>c e st'. svc_Create svc c op st = (e, st') \<longrightarrow> wp svc Q (k e) d st')"
| "wp svc Q (CallGet i k) d st \<longleftrightarrow> (\<forall>c. wp svc Q (k (svc_Get svc c i st)) d st)"
| "wp svc Q (CallGetByKey i k) d st \<longleftrightarrow> (\<forall>c. wp svc Q (k (svc_GetByKey svc c i st)) d st)"
| "wp svc Q (CallUpdate op k) d st \<longleftrightarrow> (\<forall>c e st'. svc_Update svc c op st = (e, st') \<longrightarrow> wp svc Q (k e) d st')"
| "wp svc Q (CallSettle op k) d st \<longleftrightarrow> (\<forall>c e st'. svc_Update svc c op st = (e, st') \<longrightarrow> wp svc Q (k e) d st')"
| "wp svc Q (CallDispatch r k) d st \<longleftrightarrow> (\<forall>x. wp svc Q (k x) True st)"
| "wp svc Q (CallReconcile op k) d st \<longleftrightarrow> (\<forall>x. wp svc Q (k x) True st)"

lemma wp_step:
  "wp svc Q p d st \<Longrightarrow> prog_step svc a p st = (p', st', evs) \<Longrightarrow> wp svc Q p' (d \<or> evs \<noteq> []) st'"
  by (cases p) (auto split: prod.splits)

lemma wp_run:
  "wp svc Q p d st \<Longrightarrow> run_alone svc as p st = (Return r, st', evs) \<Longrightarrow> Q r (d \<or> evs \<noteq> []) st'"
proof (induction as arbitrary: p d st evs)
  case (Cons a as)
  obtain p1 st1 ev1 where 1: "prog_step svc a p st = (p1, st1, ev1)" by (metis prod_cases3)
  obtain p2 st2 ev2 where 2: "run_alone svc as p1 st1 = (p2, st2, ev2)" by (metis prod_cases3)
  from Cons.prems(2) 1 2 have eq: "p2 = Return r" "st2 = st'" "evs = ev1 @ ev2" by simp_all
  from Cons.IH [OF wp_step [OF Cons.prems(1) 1]] 2 eq show ?case by (auto simp: disj_assoc)
qed simp

text \<open>A receipt that reports a row of the ledger.\<close>

definition reports :: "Receipt \<Rightarrow> Operation \<Rightarrow> bool" where
  "reports rc op \<longleftrightarrow>
     rcpt_OperationID rc = op_ID op \<and> rcpt_Result rc = OpState_string (op_State op)
     \<and> rcpt_ExternalRef rc = op_ExternalRef op \<and> rcpt_ObservedState rc = op_ObservedState op"

definition truthful :: "OpState set \<Rightarrow> Receipt result \<Rightarrow> bool \<Rightarrow> rows \<Rightarrow> bool" where
  "truthful final r called m \<longleftrightarrow>
     (case r of
        Inr rc \<Rightarrow> (\<exists>op. m (op_ID op) = Some op \<and> reports rc op \<and> (called \<longrightarrow> op_State op \<in> final))
      | Inl e \<Rightarrow> called \<longrightarrow> errors_Is e ErrExternalEffectUnresolved)"

lemma truthful_unresolved [simp]: "truthful final (Inl (unresolvedExternalEffect e)) d m"
  by (cases e) (auto simp: truthful_def unresolvedExternalEffect_def)

lemma truthful_uncalled [simp]: "truthful final (Inl e) False m"
  by (simp add: truthful_def)

lemma reports_receipt: "reports (receiptFromOperation i op t) op"
  by (simp add: reports_def receiptFromOperation_def)

text \<open>
  The contract between the service and a repository. A refused call leaves the rows alone; only
  an unknown commit outcome may have written them, and then it wrote what an accepted call writes.
\<close>

locale action_repository =
  fixes svc :: "'st service" and view :: "'st \<Rightarrow> rows \<times> keyindex"
  assumes create_None: "svc_Create svc c op st = (None, st') \<Longrightarrow> reserves op (view st) (view st')"
    and create_Some: "svc_Create svc c op st = (Some e, st') \<Longrightarrow>
      view st' = view st \<or> errors_Is e ErrCommitOutcomeUnknown \<and> reserves op (view st) (view st')"
    and update_None: "svc_Update svc c op st = (None, st') \<Longrightarrow> settles op (view st) (view st')"
    and update_Some: "svc_Update svc c op st = (Some e, st') \<Longrightarrow>
      view st' = view st \<or> errors_Is e ErrCommitOutcomeUnknown \<and> settles op (view st) (view st')"
    and get_Inr: "svc_Get svc c i st = Inr op \<Longrightarrow> fst (view st) i = Some op"
    and get_by_key_Inr: "svc_GetByKey svc c k st = Inr op \<Longrightarrow>
      \<exists>i. snd (view st) k = Some i \<and> fst (view st) i = Some op"
begin

lemma create_evolves: "svc_Create svc c op st = (e, st') \<Longrightarrow> rows_evolve (fst (view st)) (fst (view st'))"
  using create_None create_Some reserves_evolve by (cases e) (metis rows_evolve_refl)+

lemma update_evolves: "svc_Update svc c op st = (e, st') \<Longrightarrow> rows_evolve (fst (view st)) (fst (view st'))"
  using update_None update_Some settles_evolve by (cases e) (metis rows_evolve_refl)+

lemma create_ok: "svc_Create svc c op st = (e, st') \<Longrightarrow> ledger_ok (view st) \<Longrightarrow> ledger_ok (view st')"
  using create_None create_Some reserves_ok by (cases e) metis+

lemma update_ok: "svc_Update svc c op st = (e, st') \<Longrightarrow> ledger_ok (view st) \<Longrightarrow> ledger_ok (view st')"
  using update_None update_Some settles_ok by (cases e) metis+

lemma create_keys: "svc_Create svc c op st = (e, st') \<Longrightarrow> dom (snd (view st)) \<subseteq> dom (snd (view st'))"
  using create_None create_Some reserves_keys by (cases e) (metis order_refl)+

lemma update_keys: "svc_Update svc c op st = (e, st') \<Longrightarrow> snd (view st') = snd (view st)"
  using update_None update_Some settles_keys by (cases e) metis+

text \<open>Every step of every program moves the rows forward and keeps the reserved keys.\<close>

lemma prog_step_evolves:
  "prog_step svc a p st = (p', st', evs) \<Longrightarrow> rows_evolve (fst (view st)) (fst (view st'))"
  by (cases p) (auto split: prod.splits dest: create_evolves update_evolves)

lemma prog_step_keys:
  "prog_step svc a p st = (p', st', evs) \<Longrightarrow> dom (snd (view st)) \<subseteq> dom (snd (view st'))"
  by (cases p) (auto split: prod.splits dest: create_keys update_keys)

lemma prog_step_ok:
  "prog_step svc a p st = (p', st', evs) \<Longrightarrow> ledger_ok (view st) \<Longrightarrow> ledger_ok (view st')"
  by (cases p) (auto split: prod.splits dest: create_ok update_ok)

lemma run_schedule_evolves: "rows_evolve (fst (view (w_store w))) (fst (view (w_store (run_schedule svc es w))))"
proof (induction es arbitrary: w)
  case Nil
  then show ?case by (simp add: run_schedule_def)
next
  case (Cons e es)
  have "rows_evolve (fst (view (w_store w))) (fst (view (w_store (world_step svc e w))))"
    by (auto simp: world_step_def split: prod.splits dest: prog_step_evolves)
  with Cons.IH [of "world_step svc e w"] show ?case
    by (auto simp: run_schedule_def intro: rows_evolve_trans)
qed

lemma run_schedule_ok: "ledger_ok (view (w_store w)) \<Longrightarrow> ledger_ok (view (w_store (run_schedule svc es w)))"
proof (induction es arbitrary: w)
  case Nil
  then show ?case by (simp add: run_schedule_def)
next
  case (Cons e es)
  have "ledger_ok (view (w_store (world_step svc e w)))"
    using Cons.prems by (auto simp: world_step_def split: prod.splits dest: prog_step_ok)
  from Cons.IH [OF this] show ?case by (simp add: run_schedule_def)
qed

text \<open>One step of a call in each phase of its life.\<close>

lemma spent_step:
  "prog_step svc a p st = (p', st', evs) \<Longrightarrow> spent p \<Longrightarrow>
   spent p' \<and> dispatch_count k evs = 0 \<and> EvDispatch req \<notin> set evs"
  by (cases p) (auto simp: dispatch_count_def split: prod.splits)

lemma armed_step:
  "prog_step svc a p st = (p', st', evs) \<Longrightarrow> armed req p \<Longrightarrow>
   armed req p' \<and> evs = [] \<or> spent p' \<and> evs = [EvDispatch req]"
  by (cases p) auto

lemma update_starts:
  "svc_Update svc c op st = (None, st') \<Longrightarrow> op_State op = Dispatched \<Longrightarrow> op_ID op = req_ID req \<Longrightarrow>
   op_RequestDigest op = requestDigest req \<Longrightarrow> op_IdempotencyKey op = req_IdempotencyKey req \<Longrightarrow>
   started req (fst (view st'))"
  using update_None [of c op st st'] by (auto simp: settles_def started_def)

lemma holds_step:
  "prog_step svc a p st = (p', st', evs) \<Longrightarrow> holds req p \<Longrightarrow>
   evs = [] \<and> (holds req p' \<or> armed req p' \<and> started req (fst (view st')))"
proof (cases p)
  case (CallUpdate op k)
  assume "prog_step svc a p st = (p', st', evs)" "holds req p"
  with CallUpdate show ?thesis
    by (cases "fst (svc_Update svc (ans_ctx a) op st)") (auto split: prod.splits intro: update_starts)
qed auto

lemma create_wins:
  "svc_Create svc c op st = (None, st') \<Longrightarrow>
   op_IdempotencyKey op \<notin> dom (snd (view st)) \<and> op_IdempotencyKey op \<in> dom (snd (view st'))"
  using create_None [of c op st st'] by (auto simp: reserves_def)

lemma guarded_step:
  "prog_step svc a p st = (p', st', evs) \<Longrightarrow> guarded req p \<Longrightarrow>
   dispatch_count k evs = 0 \<and> EvDispatch r \<notin> set evs
   \<and> (guarded req p' \<or> holds req p' \<and> req_IdempotencyKey req \<notin> dom (snd (view st))
        \<and> req_IdempotencyKey req \<in> dom (snd (view st')))"
proof (cases p)
  case (CallCreate op f)
  assume "prog_step svc a p st = (p', st', evs)" "guarded req p"
  with CallCreate show ?thesis
    using create_wins [of "ans_ctx a" op st]
    by (cases "fst (svc_Create svc (ans_ctx a) op st)") (auto simp: dispatch_count_def split: prod.splits)
qed (auto simp: dispatch_count_def split: prod.splits)

definition dispatch_inv :: "string set \<Rightarrow> Request option list \<Rightarrow> 'st world \<Rightarrow> bool" where
  "dispatch_inv K reqs w \<longleftrightarrow>
     (\<exists>win. procs_ok reqs win (fst (view (w_store w))) (w_log w) (w_procs w)
        \<and> log_ok K win (view (w_store w)) (w_log w))"

lemma log_ok_quiet:
  assumes "log_ok K win (view st) log" and "prog_step svc a p st = (p', st', evs)"
    and "\<And>k. dispatch_count k evs = 0" and "\<And>req. EvDispatch req \<notin> set evs"
  shows "log_ok K win (view st') (log @ evs)"
  using log_ok_mono [OF assms(1) prog_step_keys [OF assms(2)] prog_step_evolves [OF assms(2)]] assms(3,4)
  by (simp add: log_ok_def)

lemma quiet_step:
  assumes ok: "procs_ok reqs win (fst (view st)) log ps" and lok: "log_ok K win (view st) log"
    and i: "i < length ps" and st: "prog_step svc a (ps ! i) st = (p', st', evs)"
    and quiet: "\<And>k. dispatch_count k evs = 0" "\<And>req. EvDispatch req \<notin> set evs"
    and self: "case reqs ! i of None \<Rightarrow> spent p'
      | Some req \<Rightarrow> proc_ok (fst (view st')) (log @ evs) (win (req_IdempotencyKey req) = Some i) req p'"
  shows "\<exists>win. procs_ok reqs win (fst (view st')) (log @ evs) (ps[i := p']) \<and> log_ok K win (view st') (log @ evs)"
proof (intro exI conjI)
  show "procs_ok reqs win (fst (view st')) (log @ evs) (ps[i := p'])"
    using ok prog_step_evolves [OF st] _ _ i self by (rule procs_ok_stable) (simp_all add: quiet)
  show "log_ok K win (view st') (log @ evs)"
    using lok st quiet by (rule log_ok_quiet)
qed

lemma winning_step:
  assumes ok: "procs_ok reqs win (fst (view st)) log ps" and lok: "log_ok K win (view st) log"
    and i: "i < length ps" and st: "prog_step svc a (ps ! i) st = (p', st', evs)"
    and quiet: "\<And>k. dispatch_count k evs = 0" "\<And>req. EvDispatch req \<notin> set evs"
    and req: "reqs ! i = Some req" and holds: "holds req p'"
    and fresh: "req_IdempotencyKey req \<notin> dom (snd (view st))"
    and taken: "req_IdempotencyKey req \<in> dom (snd (view st'))"
  shows "\<exists>win. procs_ok reqs win (fst (view st')) (log @ evs) (ps[i := p']) \<and> log_ok K win (view st') (log @ evs)"
proof -
  let ?k = "req_IdempotencyKey req"
  let ?win = "win(?k \<mapsto> i)"
  have none: "win ?k = None" and K: "?k \<notin> K"
    using lok fresh unfolding log_ok_def by blast+
  then have count: "dispatch_count ?k log = 0" using lok by (simp add: log_ok_def)
  have "procs_ok reqs ?win (fst (view st')) (log @ evs) (ps[i := p'])"
    using ok prog_step_evolves [OF st] _ _ i
  proof (rule procs_ok_stable)
    show "case reqs ! i of None \<Rightarrow> spent p'
      | Some req \<Rightarrow> proc_ok (fst (view st')) (log @ evs) (?win (req_IdempotencyKey req) = Some i) req p'"
      using req holds count quiet by (simp add: proc_ok_def)
  qed (auto simp: quiet none)
  moreover have "log_ok K ?win (view st') (log @ evs)"
    using log_ok_quiet [OF lok st quiet] none taken K by (auto simp: log_ok_def)
  ultimately show ?thesis by blast
qed

lemma dispatching_step:
  assumes ok: "procs_ok reqs win (fst (view st)) log ps" and lok: "log_ok K win (view st) log"
    and i: "i < length ps" and st: "prog_step svc a (ps ! i) st = (p', st', [EvDispatch req])"
    and req: "reqs ! i = Some req" and spent: "spent p'" and started: "started req (fst (view st))"
    and win: "win (req_IdempotencyKey req) = Some i" and count: "dispatch_count (req_IdempotencyKey req) log = 0"
  shows "\<exists>win. procs_ok reqs win (fst (view st')) (log @ [EvDispatch req]) (ps[i := p'])
               \<and> log_ok K win (view st') (log @ [EvDispatch req])"
proof (intro exI conjI)
  show "procs_ok reqs win (fst (view st')) (log @ [EvDispatch req]) (ps[i := p'])"
    using ok prog_step_evolves [OF st] _ _ i
  proof (rule procs_ok_stable)
    show "case reqs ! i of None \<Rightarrow> spent p' | Some r \<Rightarrow>
        proc_ok (fst (view st')) (log @ [EvDispatch req]) (win (req_IdempotencyKey r) = Some i) r p'"
      using req win spent by (simp add: proc_ok_def)
  qed (use win in auto)
  show "log_ok K win (view st') (log @ [EvDispatch req])"
    using log_ok_mono [OF lok prog_step_keys [OF st] prog_step_evolves [OF st]]
      started_evolve [OF started prog_step_evolves [OF st]] win count
    by (auto simp: log_ok_def)
qed

lemma execute_step:
  assumes ok: "procs_ok reqs win (fst (view st)) log ps" and lok: "log_ok K win (view st) log"
    and i: "i < length ps" and st: "prog_step svc a (ps ! i) st = (p', st', evs)"
    and req: "reqs ! i = Some req"
  shows "\<exists>win. procs_ok reqs win (fst (view st')) (log @ evs) (ps[i := p']) \<and> log_ok K win (view st') (log @ evs)"
proof (cases "win (req_IdempotencyKey req) = Some i")
  case True
  with ok i req have "proc_ok (fst (view st)) log True req (ps ! i)"
    by (auto simp: procs_ok_def split: option.splits)
  then consider (holds) "holds req (ps ! i)" "dispatch_count (req_IdempotencyKey req) log = 0"
    | (armed) "armed req (ps ! i)" "dispatch_count (req_IdempotencyKey req) log = 0" "started req (fst (view st))"
    | (spent) "spent (ps ! i)"
    by (auto simp: proc_ok_def)
  then show ?thesis
  proof cases
    case holds
    from holds_step [OF st holds(1)] have evs: "evs = []"
      and next_: "holds req p' \<or> armed req p' \<and> started req (fst (view st'))" by auto
    show ?thesis
      using ok lok i st by (rule quiet_step) (use evs next_ True req holds(2) in \<open>auto simp: proc_ok_def\<close>)
  next
    case armed
    from armed_step [OF st armed(1)] show ?thesis
    proof
      assume "armed req p' \<and> evs = []"
      moreover have "started req (fst (view st'))"
        using armed(3) prog_step_evolves [OF st] by (rule started_evolve)
      ultimately show ?thesis
        using ok lok i st by - (rule quiet_step, use True req armed(2) in \<open>auto simp: proc_ok_def\<close>)
    next
      assume "spent p' \<and> evs = [EvDispatch req]"
      then show ?thesis
        using dispatching_step [OF ok lok i _ req _ armed(3) True armed(2)] st by simp
    qed
  next
    case spent
    show ?thesis
      using ok lok i st by (rule quiet_step) (use spent_step [OF st spent] True req in \<open>auto simp: proc_ok_def\<close>)
  qed
next
  case False
  with ok i req have g: "guarded req (ps ! i)"
    by (auto simp: procs_ok_def proc_ok_def split: option.splits)
  note step = guarded_step [OF st g]
  show ?thesis
  proof (cases "guarded req p'")
    case True
    show ?thesis
      using ok lok i st by (rule quiet_step) (use step True False req in \<open>auto simp: proc_ok_def\<close>)
  next
    case notguarded: False
    show ?thesis
      using ok lok i st by (rule winning_step) (use step notguarded req in auto)
  qed
qed

lemma dispatch_inv_step:
  assumes "dispatch_inv K reqs w"
  shows "dispatch_inv K reqs (world_step svc e w)"
proof (cases "fst e < length (w_procs w)")
  case True
  let ?i = "fst e"
  obtain p' st' evs where st: "prog_step svc (snd e) (w_procs w ! ?i) (w_store w) = (p', st', evs)"
    by (metis prod_cases3)
  from assms obtain win where ok: "procs_ok reqs win (fst (view (w_store w))) (w_log w) (w_procs w)"
    and lok: "log_ok K win (view (w_store w)) (w_log w)" by (auto simp: dispatch_inv_def)
  have "\<exists>win. procs_ok reqs win (fst (view st')) (w_log w @ evs) ((w_procs w)[?i := p'])
      \<and> log_ok K win (view st') (w_log w @ evs)"
  proof (cases "reqs ! ?i")
    case None
    with ok True have "spent (w_procs w ! ?i)" by (auto simp: procs_ok_def split: option.splits)
    with ok lok True st None show ?thesis
      by (intro quiet_step) (auto dest: spent_step)
  next
    case (Some req)
    show ?thesis by (rule execute_step [OF ok lok True st Some])
  qed
  with True st show ?thesis by (auto simp: dispatch_inv_def world_step_def)
qed (simp add: assms world_step_def)

lemma dispatch_inv_schedule: "dispatch_inv K reqs w \<Longrightarrow> dispatch_inv K reqs (run_schedule svc es w)"
  by (induction es arbitrary: w) (auto simp: run_schedule_def dispatch_inv_step)

lemma arrived_inv:
  "dispatch_inv (dom (snd (view st)))
     (map (\<lambda>c. case c of ExecuteCall w req \<Rightarrow> Some req | ReconcileCall w i \<Rightarrow> None) calls) (arrived st calls)"
  unfolding dispatch_inv_def
proof (intro exI conjI)
  show "log_ok (dom (snd (view st))) Map.empty (view (w_store (arrived st calls))) (w_log (arrived st calls))"
    by (simp add: arrived_def log_ok_def)
qed (auto simp: arrived_def procs_ok_def proc_ok_def Execute_guarded Reconcile_spent
    split: action_call.splits)

lemma arrived_log:
  "\<exists>win. log_ok (dom (snd (view st))) win (view (w_store (run_schedule svc es (arrived st calls))))
      (w_log (run_schedule svc es (arrived st calls)))"
  using dispatch_inv_schedule [OF arrived_inv [of st calls], of es] unfolding dispatch_inv_def by blast

lemma at_most_one_dispatch:
  "dispatch_count k (w_log (run_schedule svc es (arrived st calls)))
     \<le> (if snd (view st) k = None then 1 else 0)"
proof (cases "snd (view st) k")
  case None
  then show ?thesis using arrived_log [of st es calls] by (auto simp: log_ok_def)
next
  case (Some i)
  then have "k \<in> dom (snd (view st))" by blast
  with arrived_log [of st es calls] have "dispatch_count k (w_log (run_schedule svc es (arrived st calls))) = 0"
    by (blast intro: log_ok_old_key)
  with Some show ?thesis by simp
qed

lemma dispatch_is_recorded:
  "EvDispatch req \<in> set (w_log (run_schedule svc es (arrived st calls))) \<Longrightarrow>
   started req (fst (view (w_store (run_schedule svc es (arrived st calls)))))"
  using arrived_log [of st es calls] by (auto simp: log_ok_def)

text \<open>What the answers of the service say about the ledger.\<close>

lemma settled_row:
  "svc_Update svc c op st = (None, st') \<Longrightarrow> fst (view st') (op_ID op) = Some op"
  using update_None [of c op st st'] by (auto simp: settles_def)

lemma truthful_settled:
  "svc_Update svc c op st = (None, st') \<Longrightarrow> op_State op \<in> final \<Longrightarrow>
   truthful final (Inr (receiptFromOperation i op t)) d (fst (view st'))"
  by (auto simp: truthful_def intro!: exI [of _ op] settled_row reports_receipt)

lemma replay_truthful:
  assumes "ledger_ok (view st)" and "svc_GetByKey svc c k st = Inr existing"
  shows "wp svc (\<lambda>r d st. truthful final r d (fst (view st))) (replay req existing) False st"
proof -
  from get_by_key_Inr [OF assms(2)] assms(1) have "fst (view st) (op_ID existing) = Some existing"
    by (auto simp: ledger_ok_def)
  then show ?thesis
    by (auto simp: replay_def truthful_def intro!: exI [of _ existing] reports_receipt)
qed

lemma after_dispatch_truthful:
  "wp svc (\<lambda>r d st. truthful {Confirmed, Unknown} r d (fst (view st))) (after_dispatch req op answer) True st"
  by (auto simp: after_dispatch_def settle_dispatch_def move_op_def Operation_Transition_def Let_def
      intro!: truthful_settled split: option.splits sum.splits DispatchOutcome.splits)

lemma after_reconcile_truthful:
  "wp svc (\<lambda>r d st. truthful {Confirmed, Manual} r d (fst (view st))) (after_reconcile op answer) True st"
  by (auto simp: after_reconcile_def settle_reconcile_def move_op_def Operation_Transition_def Let_def
      intro!: truthful_settled split: option.splits sum.splits ReconcileOutcome.splits)

lemma Execute_truthful:
  assumes "ledger_ok (view st)"
  shows "wp svc (\<lambda>r d st. truthful {Confirmed, Unknown} r d (fst (view st))) (Execute w req) False st"
  using assms replay_truthful [OF create_ok] replay_truthful after_dispatch_truthful
  by (auto simp: Execute_def admission_phase_def reserve_phase_def dispatch_phase_def or_fail_def
      Operation_Transition_def NewWithRequestDigest_def Let_def split: option.splits sum.splits)

lemma Reconcile_truthful:
  "wp svc (\<lambda>r d st. truthful {Confirmed, Manual} r d (fst (view st))) (Reconcile w i) False st"
  using after_reconcile_truthful
  by (auto simp: Reconcile_def or_fail_def split: option.splits sum.splits)

end

section \<open>The in-memory repository keeps the contract\<close>

abbreviation repo_view :: "MemoryRepository \<Rightarrow> rows \<times> keyindex" where
  "repo_view st \<equiv> (repo_items st, repo_idempotency st)"

lemmas memory_repository_defs =
  memory_service_def MemoryRepository_CreateContext_def MemoryRepository_GetContext_def
  MemoryRepository_GetByIdempotencyKeyContext_def MemoryRepository_UpdateContext_def

interpretation mem_repo: action_repository "memory_service authorizer run_guard recovery_guard" repo_view
  for authorizer run_guard recovery_guard
  by unfold_locales
    (auto simp: memory_repository_defs reserves_def settles_def Operation_Transition_def split: if_splits)

text \<open>A sample call that runs on its own, for the instances of the theorems below.\<close>

definition sample_request :: Request where
  "sample_request =
     \<lparr>req_ID = ''a1'', req_RunID = ''R'', req_ExecutionEpoch = 1, req_RecoveryEpoch = 0,
      req_Action = ''publish'', req_RiskClass = ControlledMutation, req_Capability = ''git'',
      req_ParametersDigest = ''p'', req_IdempotencyKey = ''k'', req_RequestedBy = ''agent'',
      req_RequestedAt = 3\<rparr>"

definition sample_reply :: reply where
  "sample_reply =
     \<lparr>ans_ctx = background, ans_now = 7,
      ans_dispatch = Inr \<lparr>disp_Outcome = DispatchConfirmed, disp_ExternalRef = ''pr/1'', disp_ObservedState = ''open''\<rparr>,
      ans_reconcile = Inl (ErrText ''offline'')\<rparr>"

abbreviation open_service :: "MemoryRepository service" where
  "open_service \<equiv> memory_service (\<lambda>_ _ _. None) (\<lambda>_ _ _ _. None) (\<lambda>_ _ _ _. None)"

definition sample_row :: "OpState \<Rightarrow> Operation" where
  "sample_row s = (NewWithRequestDigest sample_request (requestDigest sample_request) 7)\<lparr>op_State := s\<rparr>"

definition sample_repo :: "Operation \<Rightarrow> MemoryRepository" where
  "sample_repo op = \<lparr>repo_items = [''a1'' \<mapsto> op], repo_idempotency = [''k'' \<mapsto> ''a1'']\<rparr>"

lemmas sample_defs = sample_request_def sample_reply_def sample_row_def sample_repo_def
  NewService_def NewMemoryRepository_def memory_repository_defs NewWithRequestDigest_def

lemma or_fail_None [simp]: "or_fail p None = p"
  by (simp add: or_fail_def)

lemma sample_admission:
  "run_alone open_service (replicate 9 sample_reply @ as) (Execute NewService sample_request) NewMemoryRepository
   = run_alone open_service as (reserve_phase sample_request (requestDigest sample_request)) NewMemoryRepository"
  by (simp add: Execute_def admission_phase_def sample_defs numeral_eq_Suc split: prod.splits)

lemma sample_reservation:
  "run_alone open_service (replicate 5 sample_reply @ as)
     (reserve_phase sample_request (requestDigest sample_request)) NewMemoryRepository
   = run_alone open_service as (CallDispatch sample_request (after_dispatch sample_request (sample_row Dispatched)))
      (sample_repo (sample_row Dispatched))"
  by (simp add: reserve_phase_def dispatch_phase_def Operation_Transition_def SameReservation_def sample_defs
      numeral_eq_Suc split: prod.splits)

abbreviation sample_settled :: Operation where
  "sample_settled \<equiv> (sample_row Confirmed)\<lparr>op_ExternalRef := ''pr/1'', op_ObservedState := ''open''\<rparr>"

lemma sample_dispatch:
  "run_alone open_service (replicate 4 sample_reply)
     (CallDispatch sample_request (after_dispatch sample_request (sample_row Dispatched)))
     (sample_repo (sample_row Dispatched))
   = (Return (Inr (receiptFromOperation ''a1'' sample_settled 7)), sample_repo sample_settled,
      [EvDispatch sample_request])"
  by (simp add: after_dispatch_def move_op_def settle_dispatch_def Operation_Transition_def
      SameReservation_def sample_defs numeral_eq_Suc Let_def)

lemma sample_run:
  "run_alone open_service (replicate 18 sample_reply) (Execute NewService sample_request) NewMemoryRepository
   = (Return (Inr (receiptFromOperation ''a1'' sample_settled 7)), sample_repo sample_settled,
      [EvDispatch sample_request])"
proof -
  have "replicate 18 sample_reply = replicate 9 sample_reply @ replicate 5 sample_reply @ replicate 4 sample_reply"
    by (simp add: replicate_add [symmetric])
  then show ?thesis by (simp only: sample_admission sample_reservation sample_dispatch)
qed

lemma run_schedule_single:
  "run_schedule svc (map (Pair 0) as) \<lparr>w_store = st, w_procs = [p], w_log = log\<rparr>
   = (case run_alone svc as p st of (p', st', evs) \<Rightarrow> \<lparr>w_store = st', w_procs = [p'], w_log = log @ evs\<rparr>)"
  by (induction as arbitrary: p st log) (auto simp: run_schedule_def world_step_def split: prod.splits)

lemma sample_world:
  "run_schedule open_service (map (Pair 0) (replicate 18 sample_reply))
     (arrived NewMemoryRepository [ExecuteCall NewService sample_request])
   = \<lparr>w_store = sample_repo sample_settled,
      w_procs = [Return (Inr (receiptFromOperation ''a1'' sample_settled 7))],
      w_log = [EvDispatch sample_request]\<rparr>"
  by (simp add: arrived_def run_schedule_single sample_run del: map_replicate replicate.simps)

text \<open>
  C1. At most one dispatch per idempotency key: however many \<open>Execute\<close> and \<open>Reconcile\<close> calls are
  served, however their steps interleave, and whatever contexts, clocks, guards and the provider
  answer, the provider's \<open>Dispatch\<close> is called at most once for a key, and never for a key that
  the ledger already holds.
\<close>

theorem one_dispatch_per_key:
  "dispatch_count k
     (w_log (run_schedule (memory_service authorizer run_guard recovery_guard) es (arrived st calls)))
   \<le> (if repo_idempotency st k = None then 1 else 0)"
  using mem_repo.at_most_one_dispatch [of k authorizer run_guard recovery_guard es st calls] by simp

text \<open>
  C27. The ledger is written ahead of the effect: at every moment of every interleaving, a request
  that was handed to the provider has a row under its id with its digest and idempotency key, and
  that row has left PLANNED.
\<close>

theorem dispatch_is_write_ahead:
  assumes "EvDispatch req \<in> set (w_log (run_schedule (memory_service authorizer run_guard recovery_guard) es
             (arrived st calls)))"
  shows "started req (repo_items (w_store (run_schedule (memory_service authorizer run_guard recovery_guard) es
           (arrived st calls))))"
  using mem_repo.dispatch_is_recorded [OF assms] by simp

theorem dispatch_is_write_ahead_witness:
  "started sample_request (repo_items (w_store (run_schedule open_service
     (map (Pair 0) (replicate 18 sample_reply)) (arrived NewMemoryRepository [ExecuteCall NewService sample_request]))))"
  by (rule dispatch_is_write_ahead) (simp only: sample_world world.simps, simp)

text \<open>
  C29. No interleaving of service calls changes the identity of a ledger row, removes it, moves it
  back, or brings it to SAFE_TO_RETRY or ABANDONED_RECONCILED; a row that became UNKNOWN is never
  confirmed again unless its action is a pure observation.
\<close>

theorem ledger_rows_only_advance:
  assumes "repo_items st i = Some op"
  shows "\<exists>op'. repo_items (w_store (run_schedule (memory_service authorizer run_guard recovery_guard) es
             (arrived st calls))) i = Some op'
           \<and> SameReservation op op' \<and> op_State op' \<in> op_future (op_RiskClass op) (op_State op)"
  using mem_repo.run_schedule_evolves [of "arrived st calls" authorizer run_guard recovery_guard es] assms
  by (auto simp: arrived_def evolves_def dest: rows_evolveD)

theorem ledger_rows_only_advance_witness:
  "\<exists>op'. repo_items (w_store (run_schedule open_service (map (Pair 0) (replicate 11 sample_reply))
       (arrived (sample_repo (sample_row Unknown)) [ReconcileCall NewService ''a1'']))) ''a1'' = Some op'
     \<and> op_State op' \<in> {Unknown, Reconciling, Manual}"
proof -
  have "repo_items (sample_repo (sample_row Unknown)) ''a1'' = Some (sample_row Unknown)"
    by (simp add: sample_repo_def)
  from ledger_rows_only_advance [OF this, of "\<lambda>_ _ _. None" "\<lambda>_ _ _ _. None" "\<lambda>_ _ _ _. None"
      "map (Pair 0) (replicate 11 sample_reply)" "[ReconcileCall NewService ''a1'']"]
  show ?thesis by (auto simp: sample_row_def NewWithRequestDigest_def sample_request_def)
qed

text \<open>
  C28. \<open>Execute\<close> never pretends: when it returns a receipt, the ledger holds the reported row with
  that state, and after a provider call this state is CONFIRMED or UNKNOWN; when it returns an
  error after a provider call, the error says that the effect is unresolved.
\<close>

theorem execute_is_truthful:
  assumes "ledger_ok (repo_view st)"
    and "run_alone (memory_service authorizer run_guard recovery_guard) as (Execute w req) st
         = (Return r, st', evs)"
  shows "case r of
     Inr rc \<Rightarrow> \<exists>op. repo_items st' (op_ID op) = Some op \<and> reports rc op
                  \<and> (evs \<noteq> [] \<longrightarrow> op_State op \<in> {Confirmed, Unknown})
   | Inl e \<Rightarrow> evs \<noteq> [] \<longrightarrow> errors_Is e ErrExternalEffectUnresolved"
  using wp_run [OF mem_repo.Execute_truthful [OF assms(1)] assms(2)]
  by (auto simp: truthful_def split: sum.splits)

theorem execute_is_truthful_witness:
  "\<exists>op. repo_items (sample_repo sample_settled) (op_ID op) = Some op
     \<and> reports (receiptFromOperation ''a1'' sample_settled 7) op \<and> op_State op \<in> {Confirmed, Unknown}"
proof -
  have "ledger_ok (repo_view NewMemoryRepository)"
    by (simp add: ledger_ok_def NewMemoryRepository_def)
  from execute_is_truthful [OF this sample_run] show ?thesis by simp
qed

end
