(* ===== verification/MemoryStore.thy ===== *)
theory MemoryStore
  imports Execution Recovery Assurance Action
begin

text \<open>
  Package \<open>store\<close>: the in-memory authority store (\<open>memory.go\<close>). The struct is a record of maps.
  Every method holds the mutex from its first read to its last write, so it is one function from
  the old state to an error or the new state; its two \<open>ctx.Err()\<close> calls are the entries 0 and 1
  of the caller's context. \<open>store_step\<close> is the relation of all accepted writes with arbitrary
  arguments, so that its reachable states cover every interleaving of callers.
\<close>

section \<open>State\<close>

record Memory =
  mem_recoveryState :: Manager
  mem_works :: "string \<rightharpoonup> WorkItem"
  mem_tasks :: "string \<rightharpoonup> uint64 \<rightharpoonup> TaskContract"
  mem_latestTaskRev :: "string \<rightharpoonup> uint64"
  mem_tasksByDigest :: "string \<rightharpoonup> TaskContract"
  mem_verificationPlans :: "string \<rightharpoonup> Plan"
  mem_runs :: "string \<rightharpoonup> Run"
  mem_attempts :: "string \<rightharpoonup> string \<rightharpoonup> Attempt"
  mem_sessions :: "string \<rightharpoonup> Session"
  mem_runInputs :: "string \<rightharpoonup> RunInputManifest"
  mem_steeringCommands :: "string \<rightharpoonup> SteeringCommand"
  mem_checkpoints :: "string \<rightharpoonup> Checkpoint"
  mem_checkpointDigests :: "string \<rightharpoonup> string"
  mem_operations :: "string \<rightharpoonup> Operation"
  mem_actionIdempotency :: "string \<rightharpoonup> string"
  mem_deliveries :: "string \<rightharpoonup> DeliveryReceipt"
  mem_evidence :: "string \<rightharpoonup> EvidenceRef"
  mem_verificationReports :: "string \<rightharpoonup> VerificationReport"
  mem_reviewReports :: "string \<rightharpoonup> ReviewReport"
  mem_reviewByVerification :: "string \<rightharpoonup> string"
  mem_closures :: "string \<rightharpoonup> ClosureReceipt"

definition NewMemory :: Memory where
  "NewMemory =
     \<lparr>mem_recoveryState = NewManager, mem_works = Map.empty, mem_tasks = Map.empty,
      mem_latestTaskRev = Map.empty, mem_tasksByDigest = Map.empty, mem_verificationPlans = Map.empty,
      mem_runs = Map.empty, mem_attempts = Map.empty, mem_sessions = Map.empty, mem_runInputs = Map.empty,
      mem_steeringCommands = Map.empty, mem_checkpoints = Map.empty, mem_checkpointDigests = Map.empty,
      mem_operations = Map.empty, mem_actionIdempotency = Map.empty, mem_deliveries = Map.empty,
      mem_evidence = Map.empty, mem_verificationReports = Map.empty, mem_reviewReports = Map.empty,
      mem_reviewByVerification = Map.empty, mem_closures = Map.empty\<rparr>"

text \<open>The two context checks around taking the lock, when nothing else stands between them.\<close>

definition locked :: "ctx \<Rightarrow> 'a result \<Rightarrow> 'a result" where
  "locked c k = unless_err (c 0) (unless_err (c 1) k)"

section \<open>Recovery state\<close>

definition GetRecoveryContext :: "ctx \<Rightarrow> Memory \<Rightarrow> Manager result" where
  "GetRecoveryContext c m = locked c (Inr (mem_recoveryState m))"

definition BeginRecoveryContext :: "ctx \<Rightarrow> uint64 \<Rightarrow> Memory \<Rightarrow> (Manager \<times> Memory) result" where
  "BeginRecoveryContext c expectedEpoch m =
     locked c
       (unless (mgr_Epoch (mem_recoveryState m) \<noteq> expectedEpoch) ErrConflict
         (unless (mgr_Mode (mem_recoveryState m) \<noteq> RecoveryNormal) RecoveryErrAlreadyRecovering
           (let s = Manager_Begin (mem_recoveryState m) in Inr (s, m\<lparr>mem_recoveryState := s\<rparr>))))"

definition CompleteRecoveryContext :: "ctx \<Rightarrow> uint64 \<Rightarrow> bool \<Rightarrow> Memory \<Rightarrow> (Manager \<times> Memory) result" where
  "CompleteRecoveryContext c epoch reconciled m =
     locked c
       (unless (mgr_Epoch (mem_recoveryState m) \<noteq> epoch) ErrConflict
         (rbind (Manager_Complete (mem_recoveryState m) epoch reconciled)
           (\<lambda>s. Inr (s, m\<lparr>mem_recoveryState := s\<rparr>))))"

section \<open>Work items\<close>

definition CreateWorkContext :: "ctx \<Rightarrow> WorkItem \<Rightarrow> Memory \<Rightarrow> Memory result" where
  "CreateWorkContext c item m =
     locked c
       (unless (mem_works m (work_ID item) \<noteq> None) ErrExists
         (let item' = (if work_Version item = 0 then item\<lparr>work_Version := 1\<rparr> else item)
          in Inr (m\<lparr>mem_works := (mem_works m)(work_ID item \<mapsto> item')\<rparr>)))"

definition GetWorkContext :: "ctx \<Rightarrow> string \<Rightarrow> Memory \<Rightarrow> WorkItem result" where
  "GetWorkContext c i m = locked c (lookup_or ErrNotFound (mem_works m) i)"

definition UpdateWorkContext :: "ctx \<Rightarrow> string \<Rightarrow> uint64 \<Rightarrow> WorkItem \<Rightarrow> Memory \<Rightarrow> Memory result" where
  "UpdateWorkContext c i expectedVersion item m =
     locked c
       (rbind (lookup_or ErrNotFound (mem_works m) i) (\<lambda>current.
         unless (work_Version current \<noteq> expectedVersion) ErrConflict
           (Inr (m\<lparr>mem_works := (mem_works m)(i \<mapsto> item\<lparr>work_Version := expectedVersion + 1\<rparr>)\<rparr>))))"

section \<open>Task contracts\<close>

text \<open>The checks on the request alone that precede the lock.\<close>

definition task_request_ok :: "TaskContract \<Rightarrow> Plan \<Rightarrow> bool" where
  "task_request_ok task plan \<longleftrightarrow>
     task_Revision task \<noteq> 0 \<and> task_VerificationPlanDigest task \<noteq> [] \<and> task_VerificationPlanID task \<noteq> []
     \<and> plan_ID plan = task_VerificationPlanID task \<and> Plan_Digest plan = task_VerificationPlanDigest task"

text \<open>The part under the lock that both creators share: freshness of the digest and the revision.\<close>

definition admit_revision :: "TaskContract \<Rightarrow> Memory \<Rightarrow> (uint64 \<rightharpoonup> TaskContract) result" where
  "admit_revision task m =
     (case mem_tasks m (task_ID task) of
        None \<Rightarrow> unless (task_Revision task \<noteq> 1) ErrConflict (Inr Map.empty)
      | Some versions \<Rightarrow>
          unless (versions (task_Revision task) \<noteq> None) ErrExists
            (unless (task_Revision task
                       \<noteq> (case mem_latestTaskRev m (task_ID task) of None \<Rightarrow> 0 | Some r \<Rightarrow> r) + 1) ErrConflict
              (Inr versions)))"

definition admit_task :: "TaskContract \<Rightarrow> Plan \<Rightarrow> Memory \<Rightarrow> (uint64 \<rightharpoonup> TaskContract) result" where
  "admit_task task plan m =
     unless (mem_tasksByDigest m (TaskContract_Digest task) \<noteq> None) ErrExists
       (unless (case mem_verificationPlans m (Plan_Digest plan) of
                  None \<Rightarrow> False | Some existing \<Rightarrow> Plan_Digest existing \<noteq> Plan_Digest plan) ErrConflict
         (admit_revision task m))"

definition store_task :: "TaskContract \<Rightarrow> Plan \<Rightarrow> (uint64 \<rightharpoonup> TaskContract) \<Rightarrow> Memory \<Rightarrow> Memory" where
  "store_task task plan versions m =
     m\<lparr>mem_tasks := (mem_tasks m)(task_ID task \<mapsto> versions(task_Revision task \<mapsto> task)),
       mem_latestTaskRev := (mem_latestTaskRev m)(task_ID task \<mapsto> task_Revision task),
       mem_tasksByDigest := (mem_tasksByDigest m)(TaskContract_Digest task \<mapsto> task),
       mem_verificationPlans := (mem_verificationPlans m)(Plan_Digest plan \<mapsto> plan)\<rparr>"

definition CreateTask :: "TaskContract \<Rightarrow> Plan \<Rightarrow> Memory \<Rightarrow> Memory result" where
  "CreateTask task plan m =
     unless (\<not> task_request_ok task plan) ErrConflict
       (rbind (admit_task task plan m) (\<lambda>versions. Inr (store_task task plan versions m)))"

definition CreateTaskAndUpdateWorkContext ::
  "ctx \<Rightarrow> TaskContract \<Rightarrow> Plan \<Rightarrow> uint64 \<Rightarrow> WorkItem \<Rightarrow> Memory \<Rightarrow> Memory result" where
  "CreateTaskAndUpdateWorkContext c task plan expectedWorkVersion work m =
     unless_err (c 0)
       (unless (\<not> task_request_ok task plan) ErrConflict
         (unless (task_WorkItemID task \<noteq> work_ID work
                  \<or> work_ActiveTaskContractDigest work \<noteq> TaskContract_Digest task
                  \<or> work_State work \<noteq> WorkReady) ErrConflict
           (unless_err (c 1)
             (rbind (lookup_or ErrNotFound (mem_works m) (work_ID work)) (\<lambda>currentWork.
               unless (work_Version currentWork \<noteq> expectedWorkVersion) ErrConflict
                 (unless (work_State currentWork \<noteq> WorkDraft \<and> work_State currentWork \<noteq> WorkReady) ErrConflict
                   (unless (work_ActiveRunID currentWork \<noteq> []) ErrConflict
                     (rbind (admit_task task plan m) (\<lambda>versions.
                       Inr ((store_task task plan versions m)
                             \<lparr>mem_works := (mem_works m)(work_ID work \<mapsto>
                                work\<lparr>work_Version := expectedWorkVersion + 1\<rparr>)\<rparr>))))))))))"

text \<open>A missing revision map or entry reads as the zero contract.\<close>

definition zero_task :: TaskContract where
  "zero_task =
     \<lparr>task_ID = [], task_WorkItemID = [], task_TaskType = [], task_CapabilityIDs = NilSlice,
      task_SkillIDs = NilSlice, task_SkillContractDigest = [], task_SkillGuidanceVersion = 0,
      task_Repository = [], task_BaseCommit = [], task_TargetID = [], task_TargetPlatform = [],
      task_AcceptanceCriteria = NilSlice, task_AllowedActions = [], task_ExpectedOutputs = [],
      task_VerificationPlanID = [], task_VerificationPlanDigest = [], task_Revision = 0\<rparr>"

definition GetTaskContext :: "ctx \<Rightarrow> string \<Rightarrow> Memory \<Rightarrow> TaskContract result" where
  "GetTaskContext c i m =
     locked c (rbind (lookup_or ErrNotFound (mem_latestTaskRev m) i) (\<lambda>latest.
       Inr (case mem_tasks m i of
              None \<Rightarrow> zero_task
            | Some versions \<Rightarrow> (case versions latest of None \<Rightarrow> zero_task | Some t \<Rightarrow> t))))"

definition GetTaskRevisionContext :: "ctx \<Rightarrow> string \<Rightarrow> uint64 \<Rightarrow> Memory \<Rightarrow> TaskContract result" where
  "GetTaskRevisionContext c i revision m =
     locked c (rbind (lookup_or ErrNotFound (mem_tasks m) i) (\<lambda>versions.
       lookup_or ErrNotFound versions revision))"

definition GetTaskByDigestContext :: "ctx \<Rightarrow> string \<Rightarrow> Memory \<Rightarrow> TaskContract result" where
  "GetTaskByDigestContext c digest m = locked c (lookup_or ErrNotFound (mem_tasksByDigest m) digest)"

definition GetVerificationPlanByDigestContext :: "ctx \<Rightarrow> string \<Rightarrow> Memory \<Rightarrow> Plan result" where
  "GetVerificationPlanByDigestContext c digest m =
     locked c (lookup_or ErrNotFound (mem_verificationPlans m) digest)"

section \<open>Executions\<close>

definition with_version :: "Run \<Rightarrow> Run" where
  "with_version value = (if run_Version value = 0 then value\<lparr>run_Version := 1\<rparr> else value)"

text \<open>No run, session or input may exist yet under the new identities.\<close>

definition fresh_execution :: "Run \<Rightarrow> string \<Rightarrow> Memory \<Rightarrow> bool" where
  "fresh_execution value inputDigest m \<longleftrightarrow>
     mem_runs m (run_ID value) = None \<and> mem_sessions m (run_ID value) = None
     \<and> mem_runInputs m inputDigest = None"

definition store_execution :: "Run \<Rightarrow> Session \<Rightarrow> string \<Rightarrow> RunInputManifest \<Rightarrow> Memory \<Rightarrow> Memory" where
  "store_execution value sess inputDigest input m =
     m\<lparr>mem_runs := (mem_runs m)(run_ID value \<mapsto> with_version value),
       mem_sessions := (mem_sessions m)(run_ID value \<mapsto> sess),
       mem_runInputs := (mem_runInputs m)(inputDigest \<mapsto> input)\<rparr>"

definition CreateExecution :: "Run \<Rightarrow> Session \<Rightarrow> RunInputManifest \<Rightarrow> Memory \<Rightarrow> Memory result" where
  "CreateExecution value sess input m =
     rbind (RunInputManifest_Digest input) (\<lambda>inputDigest.
       unless (inputDigest \<noteq> run_RunInputManifestDigest value \<or> input_RunID input \<noteq> run_ID value
               \<or> input_TaskContractDigest input \<noteq> run_TaskContractDigest value) ErrConflict
         (unless (\<not> fresh_execution value inputDigest m) ErrExists
           (Inr (store_execution value sess inputDigest input m))))"

definition CreateExecutionAndUpdateWorkContext ::
  "ctx \<Rightarrow> Run \<Rightarrow> Attempt \<Rightarrow> Session \<Rightarrow> RunInputManifest \<Rightarrow> uint64 \<Rightarrow> WorkItem \<Rightarrow> Memory \<Rightarrow> Memory result" where
  "CreateExecutionAndUpdateWorkContext c value attmpt sess input expectedWorkVersion work m =
     unless_err (c 0)
       (unless (input_Continuation input \<noteq> None) ErrConflict
         (rbind (RunInputManifest_Digest input) (\<lambda>inputDigest.
           unless (inputDigest \<noteq> run_RunInputManifestDigest value \<or> input_RunID input \<noteq> run_ID value
                   \<or> input_TaskContractDigest input \<noteq> run_TaskContractDigest value
                   \<or> att_ID attmpt \<noteq> run_CurrentAttemptID value \<or> att_Epoch attmpt \<noteq> run_CurrentEpoch value
                   \<or> sess_RunID sess \<noteq> run_ID value
                   \<or> sess_ExecutionEpoch sess \<noteq> run_CurrentEpoch value) ErrConflict
             (unless (work_State work \<noteq> WorkExecuting
                      \<or> work_ActiveTaskContractDigest work \<noteq> run_TaskContractDigest value
                      \<or> work_ActiveRunID work \<noteq> run_ID value) ErrConflict
               (unless_err (c 1)
                 (rbind (lookup_or ErrNotFound (mem_works m) (work_ID work)) (\<lambda>currentWork.
                   unless (work_Version currentWork \<noteq> expectedWorkVersion
                           \<or> work_State currentWork \<noteq> WorkReady
                           \<or> work_ActiveTaskContractDigest currentWork \<noteq> run_TaskContractDigest value
                           \<or> work_ActiveRunID currentWork \<noteq> []) ErrConflict
                     (unless (mem_tasksByDigest m (run_TaskContractDigest value) = None) ErrNotFound
                       (unless (\<not> fresh_execution value inputDigest m) ErrExists
                         (Inr ((store_execution value sess inputDigest input m)
                           \<lparr>mem_attempts := (mem_attempts m)(run_ID value \<mapsto> [att_ID attmpt \<mapsto> attmpt]),
                            mem_works := (mem_works m)(work_ID work \<mapsto>
                              work\<lparr>work_Version := expectedWorkVersion + 1\<rparr>)\<rparr>)))))))))))"

definition GetAttemptContext :: "ctx \<Rightarrow> string \<Rightarrow> string \<Rightarrow> Memory \<Rightarrow> Attempt result" where
  "GetAttemptContext c runID attemptID m =
     locked c (rbind (lookup_or ErrNotFound (mem_attempts m) runID) (\<lambda>items.
       lookup_or ErrNotFound items attemptID))"

definition GetExecutionContext :: "ctx \<Rightarrow> string \<Rightarrow> Memory \<Rightarrow> (Run \<times> Session) result" where
  "GetExecutionContext c i m =
     locked c (rbind (lookup_or ErrNotFound (mem_runs m) i) (\<lambda>value.
       rbind (lookup_or ErrNotFound (mem_sessions m) i) (\<lambda>sess. Inr (value, sess))))"

definition GetRunInputByDigestContext :: "ctx \<Rightarrow> string \<Rightarrow> Memory \<Rightarrow> RunInputManifest result" where
  "GetRunInputByDigestContext c digest m = locked c (lookup_or ErrNotFound (mem_runInputs m) digest)"

definition CreateCheckpointContext :: "ctx \<Rightarrow> Checkpoint \<Rightarrow> Memory \<Rightarrow> (string \<times> Memory) result" where
  "CreateCheckpointContext c item m =
     (let digest = Checkpoint_Digest item in
      locked c
        (unless (mem_checkpoints m (cp_ID item) \<noteq> None) ErrExists
          (unless (mem_checkpointDigests m digest \<noteq> None) ErrExists
            (Inr (digest, m\<lparr>mem_checkpoints := (mem_checkpoints m)(cp_ID item \<mapsto> item),
                            mem_checkpointDigests := (mem_checkpointDigests m)(digest \<mapsto> cp_ID item)\<rparr>)))))"

definition GetCheckpointContext :: "ctx \<Rightarrow> string \<Rightarrow> Memory \<Rightarrow> (Checkpoint \<times> string) result" where
  "GetCheckpointContext c i m =
     locked c (rbind (lookup_or ErrNotFound (mem_checkpoints m) i) (\<lambda>item.
       Inr (item, Checkpoint_Digest item)))"

definition same_frozen_input :: "Run \<Rightarrow> Run \<Rightarrow> bool" where
  "same_frozen_input current value \<longleftrightarrow>
     run_TaskContractDigest current = run_TaskContractDigest value
     \<and> run_RunInputManifestDigest current = run_RunInputManifestDigest value"

definition put_execution :: "string \<Rightarrow> uint64 \<Rightarrow> Run \<Rightarrow> Session \<Rightarrow> Memory \<Rightarrow> Memory" where
  "put_execution i expectedVersion value sess m =
     m\<lparr>mem_runs := (mem_runs m)(i \<mapsto> value\<lparr>run_Version := expectedVersion + 1\<rparr>),
       mem_sessions := (mem_sessions m)(i \<mapsto> sess)\<rparr>"

definition UpdateExecutionContext ::
  "ctx \<Rightarrow> string \<Rightarrow> uint64 \<Rightarrow> Run \<Rightarrow> Session \<Rightarrow> Memory \<Rightarrow> Memory result" where
  "UpdateExecutionContext c i expectedVersion value sess m =
     locked c
       (rbind (lookup_or ErrNotFound (mem_runs m) i) (\<lambda>current.
         unless (mem_sessions m i = None) ErrNotFound
           (unless (run_Version current \<noteq> expectedVersion) ErrConflict
             (unless (\<not> same_frozen_input current value) ErrConflict
               (Inr (put_execution i expectedVersion value sess m))))))"

definition RecordSteeringContext ::
  "ctx \<Rightarrow> string \<Rightarrow> uint64 \<Rightarrow> Run \<Rightarrow> Session \<Rightarrow> SteeringCommand \<Rightarrow> Memory \<Rightarrow> Memory result" where
  "RecordSteeringContext c i expectedVersion value sess cmd m =
     locked c
       (rbind (lookup_or ErrNotFound (mem_runs m) i) (\<lambda>current.
         rbind (lookup_or ErrNotFound (mem_sessions m) i) (\<lambda>currentSession.
           unless (run_Version current \<noteq> expectedVersion) ErrConflict
             (unless (\<not> same_frozen_input current value \<or> run_ID value \<noteq> i \<or> sess_RunID sess \<noteq> i
                      \<or> cmd_RunID cmd \<noteq> i \<or> cmd_ExecutionEpoch cmd \<noteq> run_CurrentEpoch current
                      \<or> sess_ExecutionEpoch sess \<noteq> run_CurrentEpoch current
                      \<or> sess_LastSequence sess \<noteq> cmd_Sequence cmd
                      \<or> cmd_Sequence cmd \<le> sess_LastSequence currentSession) ErrConflict
               (unless (mem_steeringCommands m (cmd_ID cmd) \<noteq> None) ErrExists
                 (Inr ((put_execution i expectedVersion value sess m)
                   \<lparr>mem_steeringCommands := (mem_steeringCommands m)(cmd_ID cmd \<mapsto> cmd)\<rparr>)))))))"

definition GetSteeringContext :: "ctx \<Rightarrow> string \<Rightarrow> Memory \<Rightarrow> SteeringCommand result" where
  "GetSteeringContext c i m = locked c (lookup_or ErrNotFound (mem_steeringCommands m) i)"

definition UpdateExecutionAndWorkContext ::
  "ctx \<Rightarrow> string \<Rightarrow> uint64 \<Rightarrow> Run \<Rightarrow> Session \<Rightarrow> uint64 \<Rightarrow> WorkItem \<Rightarrow> Memory \<Rightarrow> Memory result" where
  "UpdateExecutionAndWorkContext c i expectedRunVersion value sess expectedWorkVersion work m =
     locked c
       (rbind (lookup_or ErrNotFound (mem_runs m) i) (\<lambda>currentRun.
         unless (mem_sessions m i = None) ErrNotFound
           (rbind (lookup_or ErrNotFound (mem_works m) (work_ID work)) (\<lambda>currentWork.
             unless (run_Version currentRun \<noteq> expectedRunVersion
                     \<or> work_Version currentWork \<noteq> expectedWorkVersion) ErrConflict
               (unless (\<not> same_frozen_input currentRun value) ErrConflict
                 (unless (work_ActiveTaskContractDigest currentWork \<noteq> run_TaskContractDigest value
                          \<or> work_ActiveRunID currentWork \<noteq> run_ID value
                          \<or> work_ActiveTaskContractDigest work \<noteq> run_TaskContractDigest value
                          \<or> work_ActiveRunID work \<noteq> run_ID value) ErrConflict
                   (Inr ((put_execution i expectedRunVersion value sess m)
                     \<lparr>mem_works := (mem_works m)(work_ID work \<mapsto>
                        work\<lparr>work_Version := expectedWorkVersion + 1\<rparr>)\<rparr>))))))))"

section \<open>External operations\<close>

definition CreateContext :: "ctx \<Rightarrow> Operation \<Rightarrow> Memory \<Rightarrow> Memory result" where
  "CreateContext c op m =
     locked c
       (unless (mem_operations m (op_ID op) \<noteq> None) ErrOperationExists
         (unless (mem_actionIdempotency m (op_IdempotencyKey op) \<noteq> None) ErrOperationExists
           (Inr (m\<lparr>mem_operations := (mem_operations m)(op_ID op \<mapsto> op),
                   mem_actionIdempotency := (mem_actionIdempotency m)(op_IdempotencyKey op \<mapsto> op_ID op)\<rparr>))))"

definition GetContext :: "ctx \<Rightarrow> string \<Rightarrow> Memory \<Rightarrow> Operation result" where
  "GetContext c i m = locked c (lookup_or ErrOperationAbsent (mem_operations m) i)"

definition GetByIdempotencyKeyContext :: "ctx \<Rightarrow> string \<Rightarrow> Memory \<Rightarrow> Operation result" where
  "GetByIdempotencyKeyContext c key m =
     locked c (rbind (lookup_or ErrOperationAbsent (mem_actionIdempotency m) key)
       (lookup_or ErrOperationAbsent (mem_operations m)))"

definition UpdateContext :: "ctx \<Rightarrow> Operation \<Rightarrow> Memory \<Rightarrow> Memory result" where
  "UpdateContext c op m =
     locked c
       (rbind (lookup_or ErrOperationAbsent (mem_operations m) (op_ID op)) (\<lambda>original.
         unless (\<not> SameReservation original op) ErrInvalidTransition
           (rbind (Operation_Transition original (op_State op) (op_UpdatedAt op)) (\<lambda>_.
             Inr (m\<lparr>mem_operations := (mem_operations m)(op_ID op \<mapsto> op)\<rparr>)))))"

section \<open>Deliveries, evidence, verification, review and closure\<close>

definition CreateDeliveryContext :: "ctx \<Rightarrow> DeliveryReceipt \<Rightarrow> Memory \<Rightarrow> Memory result" where
  "CreateDeliveryContext c item m =
     locked c
       (unless (mem_deliveries m (dr_ID item) \<noteq> None) ErrExists
         (Inr (m\<lparr>mem_deliveries := (mem_deliveries m)(dr_ID item \<mapsto> item)\<rparr>)))"

definition GetDeliveryContext :: "ctx \<Rightarrow> string \<Rightarrow> Memory \<Rightarrow> DeliveryReceipt result" where
  "GetDeliveryContext c i m = locked c (lookup_or ErrNotFound (mem_deliveries m) i)"

definition CreateEvidenceContext :: "ctx \<Rightarrow> EvidenceRef \<Rightarrow> Memory \<Rightarrow> Memory result" where
  "CreateEvidenceContext c item m =
     locked c
       (unless (mem_evidence m (ev_ID item) \<noteq> None) ErrExists
         (rbind (lookup_or ErrNotFound (mem_deliveries m) (ev_DeliveryReceiptID item)) (\<lambda>delivery.
           unless (ev_SubjectDigest item \<noteq> dr_SubjectDigest delivery) ErrConflict
             (rbind (lookup_or ErrNotFound (mem_tasksByDigest m) (dr_TaskContractDigest delivery)) (\<lambda>task.
               rbind (lookup_or ErrNotFound (mem_verificationPlans m) (task_VerificationPlanDigest task)) (\<lambda>plan.
                 unless (\<not> EvidenceMatchesPlan plan item \<or> \<not> EvidenceArtifactsBelongToDelivery delivery item)
                   ErrConflict
                   (Inr (m\<lparr>mem_evidence := (mem_evidence m)(ev_ID item \<mapsto> item)\<rparr>))))))))"

definition GetEvidenceContext :: "ctx \<Rightarrow> string \<Rightarrow> Memory \<Rightarrow> EvidenceRef result" where
  "GetEvidenceContext c i m = locked c (lookup_or ErrNotFound (mem_evidence m) i)"

definition CreateVerificationContext :: "ctx \<Rightarrow> VerificationReport \<Rightarrow> Memory \<Rightarrow> Memory result" where
  "CreateVerificationContext c report m =
     locked c
       (unless (mem_verificationReports m (vr_ID report) \<noteq> None) ErrExists
         (Inr (m\<lparr>mem_verificationReports := (mem_verificationReports m)(vr_ID report \<mapsto> report)\<rparr>)))"

definition GetVerificationContext :: "ctx \<Rightarrow> string \<Rightarrow> Memory \<Rightarrow> VerificationReport result" where
  "GetVerificationContext c i m = locked c (lookup_or ErrNotFound (mem_verificationReports m) i)"

definition review_conflict ::
  "ReviewReport \<Rightarrow> uint64 \<Rightarrow> WorkItem \<Rightarrow> VerificationReport \<Rightarrow> DeliveryReceipt \<Rightarrow> WorkItem \<Rightarrow> bool" where
  "review_conflict report expectedVersion work verificationReport delivery current \<longleftrightarrow>
     work_Version current \<noteq> expectedVersion
     \<or> work_State current \<noteq> WorkVerifying
     \<or> (rr_Result report = ''PASS'' \<and> work_State work \<noteq> WorkReviewing)
     \<or> (rr_Result report = ''FAIL'' \<and> work_State work \<noteq> WorkVerifying)
     \<or> work_ID current \<noteq> dr_WorkItemID delivery
     \<or> work_ActiveRunID current \<noteq> dr_RunID delivery
     \<or> work_ActiveTaskContractDigest current \<noteq> dr_TaskContractDigest delivery
     \<or> work_ActiveRunID work \<noteq> work_ActiveRunID current
     \<or> work_ActiveTaskContractDigest work \<noteq> work_ActiveTaskContractDigest current
     \<or> rr_TaskContractDigest report \<noteq> dr_TaskContractDigest delivery
     \<or> rr_SubjectDigest report \<noteq> dr_SubjectDigest delivery
     \<or> vr_Result verificationReport \<noteq> ''PASS''
     \<or> vr_DeliveryReceiptID verificationReport \<noteq> dr_ID delivery
     \<or> vr_SubjectDigest verificationReport \<noteq> dr_SubjectDigest delivery
     \<or> rr_Reviewer report = vr_Verifier verificationReport
     \<or> rr_Reviewer report = work_HumanOwner current"

definition CreateReviewAndUpdateWorkContext ::
  "ctx \<Rightarrow> ReviewReport \<Rightarrow> uint64 \<Rightarrow> WorkItem \<Rightarrow> Memory \<Rightarrow> Memory result" where
  "CreateReviewAndUpdateWorkContext c report expectedVersion work m =
     unless_err (c 0)
       (unless_err (ReviewReport_Validate report)
         (unless_err (c 1)
           (unless (mem_reviewReports m (rr_ID report) \<noteq> None) ErrExists
             (unless (mem_reviewByVerification m (rr_VerificationReportID report) \<noteq> None) ErrExists
               (rbind (lookup_or ErrNotFound (mem_verificationReports m) (rr_VerificationReportID report))
                 (\<lambda>verificationReport.
                 rbind (lookup_or ErrNotFound (mem_deliveries m) (rr_DeliveryReceiptID report)) (\<lambda>delivery.
                   rbind (lookup_or ErrNotFound (mem_works m) (work_ID work)) (\<lambda>current.
                     unless (review_conflict report expectedVersion work verificationReport delivery current)
                       ErrConflict
                       (Inr (m\<lparr>mem_reviewReports := (mem_reviewReports m)(rr_ID report \<mapsto> report),
                               mem_reviewByVerification :=
                                 (mem_reviewByVerification m)(rr_VerificationReportID report \<mapsto> rr_ID report),
                               mem_works := (mem_works m)(work_ID work \<mapsto>
                                 work\<lparr>work_Version := expectedVersion + 1\<rparr>)\<rparr>))))))))))"

definition GetReviewContext :: "ctx \<Rightarrow> string \<Rightarrow> Memory \<Rightarrow> ReviewReport result" where
  "GetReviewContext c i m = locked c (lookup_or ErrNotFound (mem_reviewReports m) i)"

definition closure_conflict :: "ClosureReceipt \<Rightarrow> uint64 \<Rightarrow> WorkItem \<Rightarrow> WorkItem \<Rightarrow> ReviewReport \<Rightarrow> bool" where
  "closure_conflict item expectedVersion work current report \<longleftrightarrow>
     work_Version current \<noteq> expectedVersion
     \<or> work_State current \<noteq> WorkReviewing
     \<or> work_State work \<noteq> WorkClosed
     \<or> rr_Result report \<noteq> ''PASS''
     \<or> rr_DeliveryReceiptID report \<noteq> cl_DeliveryReceiptID item
     \<or> rr_VerificationReportID report \<noteq> cl_VerificationReportID item
     \<or> rr_TaskContractDigest report \<noteq> cl_TaskContractDigest item
     \<or> rr_SubjectDigest report \<noteq> cl_SubjectDigest item
     \<or> work_ActiveRunID current \<noteq> cl_RunID item
     \<or> work_ActiveTaskContractDigest current \<noteq> cl_TaskContractDigest item
     \<or> work_ActiveRunID work \<noteq> work_ActiveRunID current
     \<or> work_ActiveTaskContractDigest work \<noteq> work_ActiveTaskContractDigest current"

definition CreateClosureAndUpdateWorkContext ::
  "ctx \<Rightarrow> ClosureReceipt \<Rightarrow> uint64 \<Rightarrow> WorkItem \<Rightarrow> Memory \<Rightarrow> Memory result" where
  "CreateClosureAndUpdateWorkContext c item expectedVersion work m =
     locked c
       (unless (mem_closures m (cl_ID item) \<noteq> None) ErrExists
         (rbind (lookup_or ErrNotFound (mem_works m) (work_ID work)) (\<lambda>current.
           rbind (lookup_or ErrNotFound (mem_reviewReports m) (cl_ReviewReportID item)) (\<lambda>report.
             unless (closure_conflict item expectedVersion work current report) ErrConflict
               (Inr (m\<lparr>mem_closures := (mem_closures m)(cl_ID item \<mapsto> item),
                       mem_works := (mem_works m)(work_ID work \<mapsto>
                         work\<lparr>work_Version := expectedVersion + 1\<rparr>)\<rparr>))))))"

definition GetClosureContext :: "ctx \<Rightarrow> string \<Rightarrow> Memory \<Rightarrow> ClosureReceipt result" where
  "GetClosureContext c i m = locked c (lookup_or ErrNotFound (mem_closures m) i)"

section \<open>Writes and histories\<close>

datatype store_call =
    SBeginRecovery ctx uint64
  | SCompleteRecovery ctx uint64 bool
  | SCreateWork ctx WorkItem
  | SUpdateWork ctx string uint64 WorkItem
  | SCreateTask TaskContract Plan
  | SCreateTaskAndUpdateWork ctx TaskContract Plan uint64 WorkItem
  | SCreateExecution Run Session RunInputManifest
  | SCreateExecutionAndUpdateWork ctx Run Attempt Session RunInputManifest uint64 WorkItem
  | SCreateCheckpoint ctx Checkpoint
  | SUpdateExecution ctx string uint64 Run Session
  | SRecordSteering ctx string uint64 Run Session SteeringCommand
  | SUpdateExecutionAndWork ctx string uint64 Run Session uint64 WorkItem
  | SCreateOperation ctx Operation
  | SUpdateOperation ctx Operation
  | SCreateDelivery ctx DeliveryReceipt
  | SCreateEvidence ctx EvidenceRef
  | SCreateVerification ctx VerificationReport
  | SCreateReview ctx ReviewReport uint64 WorkItem
  | SCreateClosure ctx ClosureReceipt uint64 WorkItem

fun do_store :: "store_call \<Rightarrow> Memory \<Rightarrow> Memory result" where
  "do_store (SBeginRecovery c e) m = rbind (BeginRecoveryContext c e m) (\<lambda>(_, m'). Inr m')"
| "do_store (SCompleteRecovery c e r) m = rbind (CompleteRecoveryContext c e r m) (\<lambda>(_, m'). Inr m')"
| "do_store (SCreateWork c w) m = CreateWorkContext c w m"
| "do_store (SUpdateWork c i v w) m = UpdateWorkContext c i v w m"
| "do_store (SCreateTask t p) m = CreateTask t p m"
| "do_store (SCreateTaskAndUpdateWork c t p v w) m = CreateTaskAndUpdateWorkContext c t p v w m"
| "do_store (SCreateExecution r s i) m = CreateExecution r s i m"
| "do_store (SCreateExecutionAndUpdateWork c r a s i v w) m = CreateExecutionAndUpdateWorkContext c r a s i v w m"
| "do_store (SCreateCheckpoint c k) m = rbind (CreateCheckpointContext c k m) (\<lambda>(_, m'). Inr m')"
| "do_store (SUpdateExecution c i v r s) m = UpdateExecutionContext c i v r s m"
| "do_store (SRecordSteering c i v r s cmd) m = RecordSteeringContext c i v r s cmd m"
| "do_store (SUpdateExecutionAndWork c i v r s wv w) m = UpdateExecutionAndWorkContext c i v r s wv w m"
| "do_store (SCreateOperation c op) m = CreateContext c op m"
| "do_store (SUpdateOperation c op) m = UpdateContext c op m"
| "do_store (SCreateDelivery c d) m = CreateDeliveryContext c d m"
| "do_store (SCreateEvidence c e) m = CreateEvidenceContext c e m"
| "do_store (SCreateVerification c r) m = CreateVerificationContext c r m"
| "do_store (SCreateReview c r v w) m = CreateReviewAndUpdateWorkContext c r v w m"
| "do_store (SCreateClosure c x v w) m = CreateClosureAndUpdateWorkContext c x v w m"

text \<open>\<open>store_steps n m m'\<close>: \<open>m'\<close> comes from \<open>m\<close> by \<open>n\<close> accepted writes; refused ones change nothing.\<close>

inductive store_steps :: "nat \<Rightarrow> Memory \<Rightarrow> Memory \<Rightarrow> bool" where
  store_none: "store_steps 0 m m"
| store_more: "store_steps n m m' \<Longrightarrow> do_store call m' = Inr m'' \<Longrightarrow> store_steps (Suc n) m m''"

inductive_cases store_steps_0: "store_steps 0 m m'"
inductive_cases store_steps_Suc: "store_steps (Suc n) m m'"

lemma locked_Inr [simp]: "locked c k = Inr x \<longleftrightarrow> c 0 = None \<and> c 1 = None \<and> k = Inr x"
  by (simp add: locked_def)

lemmas store_write_defs =
  BeginRecoveryContext_def CompleteRecoveryContext_def CreateWorkContext_def UpdateWorkContext_def
  CreateTask_def CreateTaskAndUpdateWorkContext_def store_task_def admit_task_def
  CreateExecution_def CreateExecutionAndUpdateWorkContext_def store_execution_def
  CreateCheckpointContext_def UpdateExecutionContext_def RecordSteeringContext_def
  UpdateExecutionAndWorkContext_def put_execution_def CreateContext_def UpdateContext_def
  CreateDeliveryContext_def CreateEvidenceContext_def CreateVerificationContext_def
  CreateReviewAndUpdateWorkContext_def CreateClosureAndUpdateWorkContext_def Let_def

text \<open>Everything but work items, runs, sessions, the recovery state and operations is written once.\<close>

lemma tasksByDigest_once: "do_store call m = Inr m' \<Longrightarrow> extends (mem_tasksByDigest m) (mem_tasksByDigest m')"
  by (cases call) (auto simp: store_write_defs)

lemma runInputs_once: "do_store call m = Inr m' \<Longrightarrow> extends (mem_runInputs m) (mem_runInputs m')"
  by (cases call) (auto simp: store_write_defs fresh_execution_def)

lemma steeringCommands_once: "do_store call m = Inr m' \<Longrightarrow> extends (mem_steeringCommands m) (mem_steeringCommands m')"
  by (cases call) (auto simp: store_write_defs)

lemma checkpoints_once: "do_store call m = Inr m' \<Longrightarrow> extends (mem_checkpoints m) (mem_checkpoints m')"
  by (cases call) (auto simp: store_write_defs)

lemma deliveries_once: "do_store call m = Inr m' \<Longrightarrow> extends (mem_deliveries m) (mem_deliveries m')"
  by (cases call) (auto simp: store_write_defs)

lemma evidence_once: "do_store call m = Inr m' \<Longrightarrow> extends (mem_evidence m) (mem_evidence m')"
  by (cases call) (auto simp: store_write_defs)

lemma verificationReports_once:
  "do_store call m = Inr m' \<Longrightarrow> extends (mem_verificationReports m) (mem_verificationReports m')"
  by (cases call) (auto simp: store_write_defs)

lemma reviewReports_once: "do_store call m = Inr m' \<Longrightarrow> extends (mem_reviewReports m) (mem_reviewReports m')"
  by (cases call) (auto simp: store_write_defs)

lemma closures_once: "do_store call m = Inr m' \<Longrightarrow> extends (mem_closures m) (mem_closures m')"
  by (cases call) (auto simp: store_write_defs)

section \<open>Frozen task contracts\<close>

definition contracts_ok :: "Memory \<Rightarrow> bool" where
  "contracts_ok m \<longleftrightarrow>
     (\<forall>d p. mem_verificationPlans m d = Some p \<longrightarrow> Plan_Digest p = d)
     \<and> (\<forall>d t. mem_tasksByDigest m d = Some t \<longrightarrow>
          TaskContract_Digest t = d \<and> mem_verificationPlans m (task_VerificationPlanDigest t) \<noteq> None)"

definition revisions_ok :: "Memory \<Rightarrow> string \<Rightarrow> bool" where
  "revisions_ok m i \<longleftrightarrow>
     (case mem_tasks m i of
        None \<Rightarrow> mem_latestTaskRev m i = None
      | Some versions \<Rightarrow>
          \<exists>n. mem_latestTaskRev m i = Some n \<and> n \<noteq> 0
            \<and> (\<forall>r. versions r \<noteq> None \<longleftrightarrow> r \<noteq> 0 \<and> r \<le> n)
            \<and> (\<forall>r t. versions r = Some t \<longrightarrow>
                 task_ID t = i \<and> task_Revision t = r \<and> mem_tasksByDigest m (TaskContract_Digest t) = Some t))"

lemma uint64_le_inc: "(n :: uint64) + 1 \<noteq> 0 \<Longrightarrow> r \<le> n + 1 \<longleftrightarrow> r \<le> n \<or> r = n + 1"
  by (auto simp: word_le_nat_alt unat_uint64_inc word_unat_eq_iff)

lemma store_task_contracts:
  "task_request_ok task plan \<Longrightarrow> contracts_ok m \<Longrightarrow> contracts_ok (store_task task plan versions m)"
  unfolding contracts_ok_def store_task_def task_request_ok_def by (auto split: if_splits)

lemma contracts_ok_frame:
  "contracts_ok m \<Longrightarrow> mem_verificationPlans m' = mem_verificationPlans m \<Longrightarrow>
   mem_tasksByDigest m' = mem_tasksByDigest m \<Longrightarrow> contracts_ok m'"
  by (simp add: contracts_ok_def)

lemma contracts_ok_step:
  assumes "do_store call m = Inr m'" and "contracts_ok m"
  shows "contracts_ok m'"
proof (cases call)
  case (SCreateTask t p)
  with assms show ?thesis by (auto simp: CreateTask_def intro: store_task_contracts)
next
  case (SCreateTaskAndUpdateWork c t p v w)
  with assms show ?thesis
    by (auto simp: CreateTaskAndUpdateWorkContext_def
        intro: contracts_ok_frame [OF store_task_contracts [OF _ assms(2)]])
qed (rule contracts_ok_frame [OF assms(2)], use assms(1) in \<open>auto simp: store_write_defs\<close>)+

lemma store_task_revisions:
  assumes "admit_task task plan m = Inr versions" and "task_request_ok task plan" and "\<And>i. revisions_ok m i"
  shows "revisions_ok (store_task task plan versions m) i"
proof (cases "i = task_ID task")
  case False
  have fresh: "mem_tasksByDigest m (TaskContract_Digest task) = None"
    using assms(1) by (simp add: admit_task_def)
  from assms(3) [of i] show ?thesis
  proof (cases "mem_tasks m i")
    case (Some vs)
    with assms(3) [of i] obtain n where n: "mem_latestTaskRev m i = Some n" "n \<noteq> 0"
      "\<And>r. vs r \<noteq> None \<longleftrightarrow> r \<noteq> 0 \<and> r \<le> n"
      "\<And>r t. vs r = Some t \<Longrightarrow>
         task_ID t = i \<and> task_Revision t = r \<and> mem_tasksByDigest m (TaskContract_Digest t) = Some t"
      by (auto simp: revisions_ok_def)
    moreover have "TaskContract_Digest t \<noteq> TaskContract_Digest task" if "vs r = Some t" for r t
      using n(4) [OF that] fresh by auto
    ultimately show ?thesis using Some False by (auto simp: revisions_ok_def store_task_def)
  qed (use False in \<open>auto simp: revisions_ok_def store_task_def\<close>)
next
  case True
  have fresh: "mem_tasksByDigest m (TaskContract_Digest task) = None"
    and rev: "admit_revision task m = Inr versions" "task_Revision task \<noteq> 0"
    using assms(1,2) by (simp_all add: admit_task_def task_request_ok_def)
  show ?thesis
  proof (cases "mem_tasks m i")
    case None
    with rev True have "task_Revision task = 1" "versions = Map.empty"
      by (auto simp: admit_revision_def)
    moreover have "r \<noteq> 0 \<and> r \<le> 1 \<longleftrightarrow> r = 1" for r :: uint64
      by (auto simp: word_le_nat_alt word_unat_eq_iff)
    ultimately show ?thesis using True by (auto simp: revisions_ok_def store_task_def)
  next
    case (Some vs)
    with assms(3) [of i] obtain n where n: "mem_latestTaskRev m i = Some n" "n \<noteq> 0"
      "\<And>r. vs r \<noteq> None \<longleftrightarrow> r \<noteq> 0 \<and> r \<le> n"
      "\<And>r t. vs r = Some t \<Longrightarrow>
         task_ID t = i \<and> task_Revision t = r \<and> mem_tasksByDigest m (TaskContract_Digest t) = Some t"
      by (auto simp: revisions_ok_def)
    from Some rev True n(1) have r: "task_Revision task = n + 1" "versions = vs"
      by (auto simp: admit_revision_def)
    with rev(2) n(3) have dom: "(vs(n + 1 \<mapsto> task)) r \<noteq> None \<longleftrightarrow> r \<noteq> 0 \<and> r \<le> n + 1" for r
      by (simp add: uint64_le_inc)
    have "TaskContract_Digest t \<noteq> TaskContract_Digest task" if "vs r = Some t" for r t
      using n(4) [OF that] fresh by auto
    with dom r rev(2) True n(4) show ?thesis
      by (auto simp: revisions_ok_def store_task_def)
  qed
qed

lemma revisions_ok_frame:
  "revisions_ok m i \<Longrightarrow> mem_tasks m' = mem_tasks m \<Longrightarrow> mem_latestTaskRev m' = mem_latestTaskRev m \<Longrightarrow>
   mem_tasksByDigest m' = mem_tasksByDigest m \<Longrightarrow> revisions_ok m' i"
  by (cases "mem_tasks m i") (simp_all add: revisions_ok_def)

lemma revisions_ok_step:
  assumes "do_store call m = Inr m'" and "\<And>i. revisions_ok m i"
  shows "revisions_ok m' i"
proof (cases call)
  case (SCreateTask t p)
  with assms show ?thesis by (auto simp: CreateTask_def intro: store_task_revisions)
next
  case (SCreateTaskAndUpdateWork c t p v w)
  with assms obtain versions where a: "admit_task t p m = Inr versions" "task_request_ok t p"
    and m': "m' = (store_task t p versions m)\<lparr>mem_works := (mem_works m)(work_ID w \<mapsto> w\<lparr>work_Version := v + 1\<rparr>)\<rparr>"
    by (auto simp: CreateTaskAndUpdateWorkContext_def)
  show ?thesis by (rule revisions_ok_frame [OF store_task_revisions [OF a assms(2)]]) (simp_all add: m')
qed (rule revisions_ok_frame [OF assms(2)], use assms(1) in \<open>auto simp: store_write_defs\<close>)+

section \<open>The assurance chain\<close>

text \<open>A review stands on a passing verification of the same delivery by somebody else.\<close>

definition review_backed :: "Memory \<Rightarrow> ReviewReport \<Rightarrow> bool" where
  "review_backed m r \<longleftrightarrow>
     ReviewReport_Validate r = None \<and>
     (\<exists>v d. mem_verificationReports m (rr_VerificationReportID r) = Some v
        \<and> mem_deliveries m (rr_DeliveryReceiptID r) = Some d
        \<and> vr_Result v = ''PASS'' \<and> vr_DeliveryReceiptID v = rr_DeliveryReceiptID r
        \<and> vr_SubjectDigest v = rr_SubjectDigest r \<and> dr_SubjectDigest d = rr_SubjectDigest r
        \<and> dr_TaskContractDigest d = rr_TaskContractDigest r
        \<and> rr_Reviewer r \<noteq> vr_Verifier v)"

definition closure_backed :: "Memory \<Rightarrow> ClosureReceipt \<Rightarrow> bool" where
  "closure_backed m x \<longleftrightarrow>
     (\<exists>r. mem_reviewReports m (cl_ReviewReportID x) = Some r \<and> rr_Result r = ''PASS''
        \<and> rr_DeliveryReceiptID r = cl_DeliveryReceiptID x
        \<and> rr_VerificationReportID r = cl_VerificationReportID x
        \<and> rr_TaskContractDigest r = cl_TaskContractDigest x
        \<and> rr_SubjectDigest r = cl_SubjectDigest x)"

definition assurance_ok :: "Memory \<Rightarrow> bool" where
  "assurance_ok m \<longleftrightarrow>
     (\<forall>i d. mem_deliveries m i = Some d \<longrightarrow> dr_ID d = i)
     \<and> (\<forall>i v. mem_verificationReports m i = Some v \<longrightarrow> vr_ID v = i)
     \<and> (\<forall>i r. mem_reviewReports m i = Some r \<longrightarrow>
          rr_ID r = i \<and> mem_reviewByVerification m (rr_VerificationReportID r) = Some i \<and> review_backed m r)
     \<and> (\<forall>i x. mem_closures m i = Some x \<longrightarrow>
          cl_ID x = i \<and> closure_backed m x)"

lemma closure_backed_extends:
  "closure_backed m x \<Longrightarrow> extends (mem_reviewReports m) (mem_reviewReports m') \<Longrightarrow> closure_backed m' x"
  unfolding closure_backed_def by (blast dest: extendsD)

lemma review_backed_extends:
  "review_backed m r \<Longrightarrow> extends (mem_verificationReports m) (mem_verificationReports m') \<Longrightarrow>
   extends (mem_deliveries m) (mem_deliveries m') \<Longrightarrow> review_backed m' r"
  unfolding review_backed_def by (blast dest: extendsD)

lemma CreateReview_backed:
  "CreateReviewAndUpdateWorkContext c r v w m = Inr m' \<Longrightarrow> assurance_ok m \<Longrightarrow> review_backed m r"
  unfolding review_backed_def assurance_ok_def
  by (auto simp: CreateReviewAndUpdateWorkContext_def review_conflict_def)

lemma assurance_ok_step:
  assumes step: "do_store call m = Inr m'" and ok: "assurance_ok m"
  shows "assurance_ok m'"
proof -
  have keeps: "review_backed m r \<Longrightarrow> review_backed m' r" "closure_backed m x \<Longrightarrow> closure_backed m' x" for r x
    using review_backed_extends [OF _ verificationReports_once [OF step] deliveries_once [OF step]]
      closure_backed_extends [OF _ reviewReports_once [OF step]] by blast+
  have new_review: "review_backed m r"
    if "call = SCreateReview c r v w" for c r v w
    using that step ok CreateReview_backed by simp
  have new_closure: "closure_backed m x"
    if "call = SCreateClosure c x v w" for c x v w
    using that step
    by (auto simp: CreateClosureAndUpdateWorkContext_def closure_conflict_def closure_backed_def)
  show ?thesis
  proof (cases call)
    case (SCreateReview c r v w)
    then have unreviewed: "mem_reviewByVerification m (rr_VerificationReportID r) = None"
      using step by (simp add: CreateReviewAndUpdateWorkContext_def)
    have "rr_VerificationReportID ra \<noteq> rr_VerificationReportID r" if "mem_reviewReports m i = Some ra" for i ra
    proof -
      have "mem_reviewByVerification m (rr_VerificationReportID ra) = Some i"
        using ok that by (simp add: assurance_ok_def)
      with unreviewed show ?thesis by auto
    qed
    with SCreateReview new_review keeps step ok show ?thesis
      by (auto simp: assurance_ok_def CreateReviewAndUpdateWorkContext_def split: if_splits)
  next
    case (SCreateClosure c x v w)
    with new_closure keeps step ok show ?thesis
      by (auto simp: assurance_ok_def CreateClosureAndUpdateWorkContext_def split: if_splits)
  qed (use step ok keeps in \<open>auto simp: store_write_defs assurance_ok_def split: if_splits\<close>)
qed

section \<open>Evidence\<close>

definition evidence_backed :: "Memory \<Rightarrow> EvidenceRef \<Rightarrow> bool" where
  "evidence_backed m e \<longleftrightarrow>
     (\<exists>d t. mem_deliveries m (ev_DeliveryReceiptID e) = Some d
        \<and> mem_tasksByDigest m (dr_TaskContractDigest d) = Some t
        \<and> ev_SubjectDigest e = dr_SubjectDigest d
        \<and> EvidenceArtifactsBelongToDelivery d e)"

definition evidence_ok :: "Memory \<Rightarrow> bool" where
  "evidence_ok m \<longleftrightarrow> (\<forall>i e. mem_evidence m i = Some e \<longrightarrow> ev_ID e = i \<and> evidence_backed m e)"

lemma evidence_ok_step:
  assumes step: "do_store call m = Inr m'" and ok: "evidence_ok m"
  shows "evidence_ok m'"
proof -
  have keeps: "evidence_backed m' e" if "evidence_backed m e" for e
    using that deliveries_once [OF step] tasksByDigest_once [OF step]
    unfolding evidence_backed_def by (blast dest: extendsD)
  show ?thesis
  proof (cases call)
    case (SCreateEvidence c e)
    with step have "evidence_backed m e"
      by (auto simp: CreateEvidenceContext_def evidence_backed_def)
    with keeps have "evidence_backed m' e" by blast
    with SCreateEvidence step ok keeps show ?thesis
      by (auto simp: evidence_ok_def CreateEvidenceContext_def split: if_splits)
  qed (use step ok keeps in \<open>auto simp: store_write_defs evidence_ok_def\<close>)
qed

section \<open>Runs\<close>

definition run_backed :: "Memory \<Rightarrow> string \<Rightarrow> Run \<Rightarrow> bool" where
  "run_backed m i r \<longleftrightarrow>
     (\<exists>inp. mem_runInputs m (run_RunInputManifestDigest r) = Some inp
        \<and> RunInputManifest_Digest inp = Inr (run_RunInputManifestDigest r)
        \<and> input_RunID inp = i \<and> input_TaskContractDigest inp = run_TaskContractDigest r)"

definition runs_ok :: "Memory \<Rightarrow> bool" where
  "runs_ok m \<longleftrightarrow>
     (\<forall>i. mem_runs m i \<noteq> None \<longleftrightarrow> mem_sessions m i \<noteq> None)
     \<and> (\<forall>i r. mem_runs m i = Some r \<longrightarrow> run_backed m i r)"

lemma run_backed_same: "same_frozen_input r r' \<Longrightarrow> run_backed m i r' \<longleftrightarrow> run_backed m i r"
  by (simp add: run_backed_def same_frozen_input_def)

lemma run_backed_version [simp]: "run_backed m i (r\<lparr>run_Version := v\<rparr>) \<longleftrightarrow> run_backed m i r"
  by (simp add: run_backed_def)

lemma run_backed_with_version [simp]: "run_backed m i (with_version r) \<longleftrightarrow> run_backed m i r"
  by (simp add: with_version_def)

lemma run_put:
  "runs_ok m \<Longrightarrow> mem_runs m i = Some current \<Longrightarrow> same_frozen_input current value \<Longrightarrow>
   runs_ok (put_execution i v value sess m)"
proof -
  assume ok: "runs_ok m" and i: "mem_runs m i = Some current" and same: "same_frozen_input current value"
  then have "run_backed m i value" by (simp add: runs_ok_def run_backed_same)
  moreover have "run_backed (put_execution i v value sess m) j r \<longleftrightarrow> run_backed m j r" for j r
    by (simp add: run_backed_def put_execution_def)
  moreover have "mem_sessions m i \<noteq> None" using ok i by (auto simp: runs_ok_def)
  ultimately show "runs_ok (put_execution i v value sess m)"
    using ok i by (auto simp: runs_ok_def) (auto simp: put_execution_def split: if_splits)
qed

lemma runs_ok_frame:
  "runs_ok m \<Longrightarrow> mem_runs m' = mem_runs m \<Longrightarrow> mem_sessions m' = mem_sessions m \<Longrightarrow>
   mem_runInputs m' = mem_runInputs m \<Longrightarrow> runs_ok m'"
  by (simp add: runs_ok_def run_backed_def)

lemma run_create:
  assumes "runs_ok m" and "fresh_execution value digest m" and "RunInputManifest_Digest input = Inr digest"
    and "digest = run_RunInputManifestDigest value" and "input_RunID input = run_ID value"
    and "input_TaskContractDigest input = run_TaskContractDigest value"
  shows "runs_ok (store_execution value sess digest input m)"
proof -
  let ?m = "store_execution value sess digest input m"
  have "extends (mem_runInputs m) (mem_runInputs ?m)"
    using assms(2) by (auto simp: store_execution_def fresh_execution_def)
  then have "run_backed ?m i r" if "run_backed m i r" for i r
    using that unfolding run_backed_def by (blast dest: extendsD)
  moreover have "run_backed ?m (run_ID value) value"
    using assms(3-6) by (auto simp: run_backed_def store_execution_def)
  ultimately show ?thesis
    using assms(1) by (auto simp: runs_ok_def store_execution_def)
qed

lemma runs_ok_step:
  assumes step: "do_store call m = Inr m'" and ok: "runs_ok m"
  shows "runs_ok m'"
proof (cases call)
  case (SCreateExecution r s i)
  with step ok show ?thesis by (auto simp: CreateExecution_def intro: run_create)
next
  case (SCreateExecutionAndUpdateWork c r a s i v w)
  with step obtain digest where *: "fresh_execution r digest m" "RunInputManifest_Digest i = Inr digest"
    "digest = run_RunInputManifestDigest r" "input_RunID i = run_ID r"
    "input_TaskContractDigest i = run_TaskContractDigest r"
    and m': "m' = (store_execution r s digest i m)
       \<lparr>mem_attempts := (mem_attempts m)(run_ID r \<mapsto> [att_ID a \<mapsto> a]),
        mem_works := (mem_works m)(work_ID w \<mapsto> w\<lparr>work_Version := v + 1\<rparr>)\<rparr>"
    by (auto simp: CreateExecutionAndUpdateWorkContext_def)
  show ?thesis by (rule runs_ok_frame [OF run_create [OF ok *]]) (simp_all add: m')
next
  case (SUpdateExecution c i v r s)
  with step ok show ?thesis by (auto simp: UpdateExecutionContext_def intro: run_put)
next
  case (SRecordSteering c i v r s cmd)
  with step obtain current where *: "mem_runs m i = Some current" "same_frozen_input current r"
    "m' = (put_execution i v r s m)\<lparr>mem_steeringCommands := (mem_steeringCommands m)(cmd_ID cmd \<mapsto> cmd)\<rparr>"
    by (auto simp: RecordSteeringContext_def)
  show ?thesis by (rule runs_ok_frame [OF run_put [OF ok *(1,2)]]) (simp_all add: *(3))
next
  case (SUpdateExecutionAndWork c i v r s wv w)
  with step obtain current where *: "mem_runs m i = Some current" "same_frozen_input current r"
    "m' = (put_execution i v r s m)\<lparr>mem_works := (mem_works m)(work_ID w \<mapsto> w\<lparr>work_Version := wv + 1\<rparr>)\<rparr>"
    by (auto simp: UpdateExecutionAndWorkContext_def)
  show ?thesis by (rule runs_ok_frame [OF run_put [OF ok *(1,2)]]) (simp_all add: *(3))
qed (rule runs_ok_frame [OF ok], use step in \<open>auto simp: store_write_defs\<close>)+

section \<open>Optimistic versions\<close>

lemma work_version_step:
  assumes "do_store call m = Inr m'" and "mem_works m i = Some w"
  shows "\<exists>w'. mem_works m' i = Some w' \<and> (work_Version w' = work_Version w \<or> work_Version w' = work_Version w + 1)"
  using assms by (cases call) (auto simp: store_write_defs review_conflict_def closure_conflict_def)

lemma run_version_step:
  assumes "do_store call m = Inr m'" and "mem_runs m i = Some r"
  shows "\<exists>r'. mem_runs m' i = Some r' \<and> same_frozen_input r r'
           \<and> (run_Version r' = run_Version r \<or> run_Version r' = run_Version r + 1)"
  using assms
  by (cases call) (auto simp: store_write_defs fresh_execution_def same_frozen_input_def)

lemma work_version_steps:
  "store_steps n m m' \<Longrightarrow> mem_works m i = Some w \<Longrightarrow>
   \<exists>w' k. k \<le> n \<and> mem_works m' i = Some w' \<and> work_Version w' = work_Version w + of_nat k"
proof (induction rule: store_steps.induct)
  case (store_none m)
  then show ?case by (intro exI [of _ w] exI [of _ 0]) simp
next
  case (store_more n m m' call m'')
  then obtain w' k where 1: "k \<le> n" "mem_works m' i = Some w'" "work_Version w' = work_Version w + of_nat k"
    by blast
  from work_version_step [OF store_more.hyps(2) 1(2)] obtain w'' where 2: "mem_works m'' i = Some w''"
    "work_Version w'' = work_Version w' \<or> work_Version w'' = work_Version w' + 1" by blast
  from 2(2) show ?case
  proof
    assume "work_Version w'' = work_Version w'"
    with 1 2(1) show ?thesis by (intro exI [of _ w''] exI [of _ k]) simp
  next
    assume "work_Version w'' = work_Version w' + 1"
    with 1 2(1) show ?thesis by (intro exI [of _ w''] exI [of _ "Suc k"]) simp
  qed
qed

lemma run_identity_steps:
  "store_steps n m m' \<Longrightarrow> mem_runs m i = Some r \<Longrightarrow> \<exists>r'. mem_runs m' i = Some r' \<and> same_frozen_input r r'"
proof (induction rule: store_steps.induct)
  case (store_more n m m' call m'')
  then obtain r' where "mem_runs m' i = Some r'" "same_frozen_input r r'" by blast
  moreover from run_version_step [OF store_more.hyps(2) this(1)] obtain r'' where
    "mem_runs m'' i = Some r''" "same_frozen_input r' r''" by blast
  ultimately show ?case by (auto simp: same_frozen_input_def)
qed (simp add: same_frozen_input_def)

text \<open>Every change of a run or of its session is one new version of the run.\<close>

lemma run_change_step:
  assumes "do_store call m = Inr m'" and "mem_runs m i = Some r" and "mem_sessions m i = Some s"
  shows "(mem_runs m' i = Some r \<and> mem_sessions m' i = Some s)
       \<or> (\<exists>r' s'. mem_runs m' i = Some r' \<and> mem_sessions m' i = Some s' \<and> run_Version r' = run_Version r + 1)"
  using assms by (cases call) (auto simp: store_write_defs fresh_execution_def)

lemma run_change_steps:
  "store_steps n m m' \<Longrightarrow> mem_runs m i = Some r \<Longrightarrow> mem_sessions m i = Some s \<Longrightarrow>
   \<exists>k r' s'. k \<le> n \<and> mem_runs m' i = Some r' \<and> mem_sessions m' i = Some s'
     \<and> run_Version r' = run_Version r + of_nat k \<and> (k = 0 \<longrightarrow> r' = r \<and> s' = s)"
proof (induction rule: store_steps.induct)
  case (store_none m)
  then show ?case by (intro exI [of _ 0]) simp
next
  case (store_more n m m' call m'')
  then obtain k r' s' where 1: "k \<le> n" "mem_runs m' i = Some r'" "mem_sessions m' i = Some s'"
    "run_Version r' = run_Version r + of_nat k" "k = 0 \<longrightarrow> r' = r \<and> s' = s" by blast
  from run_change_step [OF store_more.hyps(2) 1(2,3)] show ?case
  proof (elim disjE exE conjE)
    assume "mem_runs m'' i = Some r'" "mem_sessions m'' i = Some s'"
    with 1 show ?thesis by (intro exI [of _ k] exI [of _ r'] exI [of _ s']) simp
  next
    fix r'' s'' assume "mem_runs m'' i = Some r''" "mem_sessions m'' i = Some s''" "run_Version r'' = run_Version r' + 1"
    with 1 show ?thesis by (intro exI [of _ "Suc k"] exI [of _ r''] exI [of _ s'']) simp
  qed
qed

section \<open>Invariants of every reachable store\<close>

text \<open>A property of the empty store that every accepted write keeps holds in every history.\<close>

locale store_invariant =
  fixes P :: "Memory \<Rightarrow> bool"
  assumes init: "P NewMemory"
    and step: "do_store call m = Inr m' \<Longrightarrow> P m \<Longrightarrow> P m'"
begin

lemma reachable: "store_steps n NewMemory m \<Longrightarrow> P m"
proof (induction n arbitrary: m)
  case 0
  then show ?case using init by (auto elim: store_steps_0)
next
  case (Suc n)
  then show ?case using step by (auto elim!: store_steps_Suc)
qed

end

interpretation contracts: store_invariant contracts_ok
  by unfold_locales (simp add: contracts_ok_def NewMemory_def, rule contracts_ok_step)

interpretation revisions: store_invariant "\<lambda>m. \<forall>i. revisions_ok m i"
  by unfold_locales (simp add: revisions_ok_def NewMemory_def, blast intro: revisions_ok_step)

interpretation assurance: store_invariant assurance_ok
  by unfold_locales (simp add: assurance_ok_def NewMemory_def, rule assurance_ok_step)

interpretation evid: store_invariant evidence_ok
  by unfold_locales (simp add: evidence_ok_def NewMemory_def, rule evidence_ok_step)

interpretation executions: store_invariant runs_ok
  by unfold_locales (simp add: runs_ok_def NewMemory_def, rule runs_ok_step)

text \<open>A map that every accepted write extends is extended by every history.\<close>

locale write_once =
  fixes field :: "Memory \<Rightarrow> string \<rightharpoonup> 'v"
  assumes once: "do_store call m = Inr m' \<Longrightarrow> extends (field m) (field m')"
begin

lemma kept: "store_steps n m m' \<Longrightarrow> extends (field m) (field m')"
  by (induction rule: store_steps.induct) (auto intro: extends_trans once)

end

interpretation once_tasks: write_once mem_tasksByDigest by unfold_locales (rule tasksByDigest_once)
interpretation once_inputs: write_once mem_runInputs by unfold_locales (rule runInputs_once)
interpretation once_steering: write_once mem_steeringCommands by unfold_locales (rule steeringCommands_once)
interpretation once_checkpoints: write_once mem_checkpoints by unfold_locales (rule checkpoints_once)
interpretation once_deliveries: write_once mem_deliveries by unfold_locales (rule deliveries_once)
interpretation once_evidence: write_once mem_evidence by unfold_locales (rule evidence_once)
interpretation once_reports: write_once mem_verificationReports by unfold_locales (rule verificationReports_once)
interpretation once_reviews: write_once mem_reviewReports by unfold_locales (rule reviewReports_once)
interpretation once_closures: write_once mem_closures by unfold_locales (rule closures_once)

section \<open>A sample history\<close>

definition sample_plan :: Plan where
  "sample_plan = \<lparr>plan_ID = ''P-1'', plan_Criteria = Slice
     [\<lparr>crit_ID = ''C-1'', crit_Statement = ''builds'', crit_Requirements = Slice
        [\<lparr>ereq_ID = ''E-1'', ereq_Procedure = ''make'', ereq_Issuer = []\<rparr>]\<rparr>]\<rparr>"

definition sample_task :: TaskContract where
  "sample_task = zero_task\<lparr>task_ID := ''T-1'', task_WorkItemID := ''W-1'', task_Revision := 1,
     task_AcceptanceCriteria := Slice [''builds''], task_AllowedActions := [''publish''],
     task_VerificationPlanID := ''P-1'', task_VerificationPlanDigest := Plan_Digest sample_plan\<rparr>"

abbreviation sample_task_digest :: string where
  "sample_task_digest \<equiv> TaskContract_Digest sample_task"

definition store_work :: "WorkState \<Rightarrow> string \<Rightarrow> string \<Rightarrow> uint64 \<Rightarrow> WorkItem" where
  "store_work s task r v = \<lparr>work_ID = ''W-1'', work_Title = ''t'', work_SourceRef = [], work_HumanOwner = ''urn:engineering-platform:owner'',
     work_TargetID = [], work_AssuranceClass = [], work_ActiveTaskContractDigest = task, work_ActiveRunID = r,
     work_State = s, work_Version = v, work_CreatedAt = 1\<rparr>"

definition store_input :: RunInputManifest where
  "store_input = sample_input\<lparr>input_TaskContractDigest := sample_task_digest\<rparr>"

definition store_run :: "RunState \<Rightarrow> uint64 \<Rightarrow> Run" where
  "store_run s v = \<lparr>run_ID = ''R-1'', run_TaskContractDigest = sample_task_digest,
     run_RunInputManifestDigest = Digest (RunInputManifest_json store_input), run_State = s, run_Version = v,
     run_CurrentEpoch = 1, run_CurrentAttemptID = ''A-1'', run_ControlOwner = ''RUNTIME''\<rparr>"

definition store_session :: Session where
  "store_session = NewSession ''R-1'' 1"

definition store_attempt :: Attempt where
  "store_attempt = \<lparr>att_ID = ''A-1'', att_Epoch = 1, att_StartedAt = 2, att_EndedAt = 0\<rparr>"

definition store_delivery :: DeliveryReceipt where
  "store_delivery = \<lparr>dr_ID = ''D-1'', dr_WorkItemID = ''W-1'', dr_TaskContractDigest = sample_task_digest,
     dr_RunID = ''R-1'', dr_TargetID = [], dr_BaseCommit = ''c0'', dr_ResultCommit = ''c1'',
     dr_SubjectDigest = Digest JNull, dr_Artifacts = [sample_artifact ''log'' ''l''], dr_KnownLimits = [],
     dr_CreatedAt = 3\<rparr>"

definition store_evidence :: EvidenceRef where
  "store_evidence = \<lparr>ev_ID = ''V-9'', ev_DeliveryReceiptID = ''D-1'', ev_RequirementID = ''E-1'',
     ev_SubjectDigest = Digest JNull, ev_Issuer = ''ci'', ev_Procedure = ''make'', ev_Result = ''PASS'',
     ev_ArtifactRefs = [''log''], ev_Applicable = True\<rparr>"

definition store_report :: VerificationReport where
  "store_report = \<lparr>vr_ID = ''V-1'', vr_DeliveryReceiptID = ''D-1'', vr_PlanID = ''P-1'',
     vr_VerificationPlanDigest = Plan_Digest sample_plan, vr_SubjectDigest = Digest JNull, vr_Result = ''PASS'',
     vr_Verifier = ''urn:engineering-platform:ver'', vr_Criteria = [], vr_EvidenceIDs = [''V-9''], vr_CreatedAt = 4\<rparr>"

definition store_review :: ReviewReport where
  "store_review = (sample_review ''PASS'' [])\<lparr>rr_TaskContractDigest := sample_task_digest\<rparr>"

definition store_closure :: ClosureReceipt where
  "store_closure = \<lparr>cl_ID = ''X-1'', cl_WorkItemID = ''W-1'', cl_TaskContractDigest = sample_task_digest,
     cl_RunID = ''R-1'', cl_DeliveryReceiptID = ''D-1'', cl_VerificationReportID = ''V-1'',
     cl_ReviewReportID = ''RV-1'', cl_SubjectDigest = Digest JNull, cl_Result = ''CLOSED'', cl_CreatedAt = 5\<rparr>"

text \<open>The store after the contract is frozen and the run is created, and after the closure.\<close>

definition running_store :: Memory where
  "running_store = NewMemory
     \<lparr>mem_works := [''W-1'' \<mapsto> store_work WorkExecuting sample_task_digest ''R-1'' 3],
      mem_tasks := [''T-1'' \<mapsto> [1 \<mapsto> sample_task]], mem_latestTaskRev := [''T-1'' \<mapsto> 1],
      mem_tasksByDigest := [sample_task_digest \<mapsto> sample_task],
      mem_verificationPlans := [Plan_Digest sample_plan \<mapsto> sample_plan],
      mem_runs := [''R-1'' \<mapsto> store_run RunRunning 1], mem_sessions := [''R-1'' \<mapsto> store_session],
      mem_attempts := [''R-1'' \<mapsto> [''A-1'' \<mapsto> store_attempt]],
      mem_runInputs := [Digest (RunInputManifest_json store_input) \<mapsto> store_input]\<rparr>"

definition closed_store :: Memory where
  "closed_store = running_store
     \<lparr>mem_works := [''W-1'' \<mapsto> store_work WorkClosed sample_task_digest ''R-1'' 6],
      mem_runs := [''R-1'' \<mapsto> store_run RunCompleted 2],
      mem_deliveries := [''D-1'' \<mapsto> store_delivery], mem_evidence := [''V-9'' \<mapsto> store_evidence],
      mem_verificationReports := [''V-1'' \<mapsto> store_report], mem_reviewReports := [''RV-1'' \<mapsto> store_review],
      mem_reviewByVerification := [''V-1'' \<mapsto> ''RV-1''], mem_closures := [''X-1'' \<mapsto> store_closure]\<rparr>"

fun do_all :: "store_call list \<Rightarrow> Memory \<Rightarrow> Memory result" where
  "do_all [] m = Inr m"
| "do_all (call # calls) m = rbind (do_store call m) (do_all calls)"

lemma do_all_steps: "do_all calls m' = Inr m'' \<Longrightarrow> store_steps n m m' \<Longrightarrow> store_steps (n + length calls) m m''"
proof (induction calls arbitrary: m' n)
  case (Cons call calls)
  then obtain m1 where "do_store call m' = Inr m1" "do_all calls m1 = Inr m''" by auto
  with Cons.IH [of m1 "Suc n"] Cons.prems(2) show ?case by (auto intro: store_more)
qed simp

definition opening_calls :: "store_call list" where
  "opening_calls =
     [SCreateWork background (store_work WorkDraft [] [] 0),
      SCreateTaskAndUpdateWork background sample_task sample_plan 1 (store_work WorkReady sample_task_digest [] 1),
      SCreateExecutionAndUpdateWork background (store_run RunRunning 0) store_attempt store_session store_input 2
        (store_work WorkExecuting sample_task_digest ''R-1'' 2)]"

definition closing_calls :: "store_call list" where
  "closing_calls =
     [SUpdateExecutionAndWork background ''R-1'' 1 (store_run RunCompleted 1) store_session 3
        (store_work WorkVerifying sample_task_digest ''R-1'' 3),
      SCreateDelivery background store_delivery, SCreateEvidence background store_evidence,
      SCreateVerification background store_report,
      SCreateReview background store_review 4 (store_work WorkReviewing sample_task_digest ''R-1'' 4),
      SCreateClosure background store_closure 5 (store_work WorkClosed sample_task_digest ''R-1'' 5)]"

lemma sample_task_ok: "task_request_ok sample_task sample_plan"
  by (simp add: task_request_ok_def sample_task_def Plan_Digest_def Digest_nonempty) (simp add: sample_plan_def)

lemma store_input_digest:
  "RunInputManifest_Digest store_input = Inr (Digest (RunInputManifest_json store_input))"
  by (simp add: RunInputManifest_Digest_def store_input_def sample_input_def continuation_error_def
      ValidateContextRefs_def)

lemma opening_history: "do_all opening_calls NewMemory = Inr running_store"
  by (simp add: opening_calls_def sample_task_ok store_input_digest store_write_defs locked_def admit_revision_def
      fresh_execution_def with_version_def NewMemory_def running_store_def lookup_or_def
      store_work_def store_run_def store_session_def store_attempt_def NewSession_def)
     (simp add: sample_task_def store_input_def sample_input_def)

lemma store_review_valid: "ReviewReport_Validate store_review = None"
  by (simp add: ReviewReport_Validate_def store_review_def sample_review_def sample_review_bounded IsZero_def
      TaskContract_Digest_def)

lemma store_evidence_matches:
  "EvidenceMatchesPlan sample_plan store_evidence" "EvidenceArtifactsBelongToDelivery store_delivery store_evidence"
  by (simp_all add: EvidenceMatchesPlan_def FindRequirement_def plan_requirements_def sample_plan_def
      store_evidence_def EvidenceMatchesRequirement_def EvidenceArtifactsBelongToDelivery_def store_delivery_def
      sample_artifact_def)

lemma closing_history: "do_all closing_calls running_store = Inr closed_store"
proof -
  have "task_VerificationPlanDigest sample_task = Plan_Digest sample_plan" by (simp add: sample_task_def)
  moreover have "ev_ID store_evidence = ''V-9''" "ev_DeliveryReceiptID store_evidence = ''D-1''"
    "ev_SubjectDigest store_evidence = Digest JNull" by (simp_all add: store_evidence_def)
  moreover have "dr_ID store_delivery = ''D-1''" "dr_SubjectDigest store_delivery = Digest JNull"
    "dr_TaskContractDigest store_delivery = sample_task_digest" "dr_WorkItemID store_delivery = ''W-1''"
    "dr_RunID store_delivery = ''R-1''" by (simp_all add: store_delivery_def)
  moreover have "rr_ID store_review = ''RV-1''" "rr_VerificationReportID store_review = ''V-1''"
    "rr_DeliveryReceiptID store_review = ''D-1''" "rr_Result store_review = ''PASS''"
    "rr_TaskContractDigest store_review = sample_task_digest" "rr_SubjectDigest store_review = Digest JNull"
    "rr_Reviewer store_review = ''urn:engineering-platform:rev''" by (simp_all add: store_review_def sample_review_def)
  ultimately show ?thesis
    by (simp add: closing_calls_def store_evidence_matches store_review_valid store_write_defs locked_def
        same_frozen_input_def review_conflict_def closure_conflict_def running_store_def closed_store_def
        NewMemory_def store_work_def store_run_def store_report_def store_closure_def)
qed

lemma sample_histories: "store_steps 3 NewMemory running_store" "store_steps 9 NewMemory closed_store"
  using do_all_steps [OF opening_history store_none] do_all_steps [OF closing_history do_all_steps [OF opening_history store_none]]
  by (simp_all add: opening_calls_def closing_calls_def numeral_eq_Suc)

section \<open>Properties of the store\<close>

text \<open>
  C26. A closure never stands alone: in every history of the store, a stored closure refers to a
  stored, valid PASS review of the same delivery, verification, task contract and subject, this
  review to a stored PASS verification of the same delivery and subject by another person than
  the reviewer, and both to a stored delivery with that subject and task contract.
\<close>

theorem closure_has_assurance_chain:
  assumes "store_steps n NewMemory m" and "mem_closures m i = Some x"
  shows "\<exists>r v d.
     mem_reviewReports m (cl_ReviewReportID x) = Some r \<and> rr_Result r = ''PASS'' \<and> ReviewReport_Validate r = None
     \<and> mem_verificationReports m (cl_VerificationReportID x) = Some v \<and> vr_Result v = ''PASS''
     \<and> mem_deliveries m (cl_DeliveryReceiptID x) = Some d
     \<and> vr_DeliveryReceiptID v = cl_DeliveryReceiptID x \<and> rr_DeliveryReceiptID r = cl_DeliveryReceiptID x
     \<and> cl_SubjectDigest x = rr_SubjectDigest r \<and> vr_SubjectDigest v = rr_SubjectDigest r
     \<and> dr_SubjectDigest d = rr_SubjectDigest r \<and> dr_TaskContractDigest d = cl_TaskContractDigest x
     \<and> rr_Reviewer r \<noteq> vr_Verifier v"
proof -
  have ok: "assurance_ok m" using assms(1) by (rule assurance.reachable)
  then obtain r where r: "mem_reviewReports m (cl_ReviewReportID x) = Some r" "rr_Result r = ''PASS''"
    "rr_DeliveryReceiptID r = cl_DeliveryReceiptID x" "rr_VerificationReportID r = cl_VerificationReportID x"
    "rr_TaskContractDigest r = cl_TaskContractDigest x" "rr_SubjectDigest r = cl_SubjectDigest x"
    using assms(2) unfolding assurance_ok_def closure_backed_def by blast
  from ok r(1) have "review_backed m r" by (simp add: assurance_ok_def)
  with r show ?thesis by (auto simp: review_backed_def)
qed

theorem closure_has_assurance_chain_witness:
  "mem_closures closed_store ''X-1'' = Some store_closure
   \<and> (\<exists>v. mem_verificationReports closed_store ''V-1'' = Some v \<and> vr_Result v = ''PASS'' \<and> vr_Verifier v \<noteq> ''urn:engineering-platform:rev'')"
proof -
  have x: "mem_closures closed_store ''X-1'' = Some store_closure" by (simp add: closed_store_def)
  from closure_has_assurance_chain [OF sample_histories(2) x] x show ?thesis
    by (auto simp: store_closure_def closed_store_def store_review_def sample_review_def)
qed

text \<open>
  A verification report is reviewed at most once in the life of the store, so a failed review
  cannot be replaced by a passing one for the same verification.
\<close>

theorem one_review_per_verification:
  assumes "store_steps n NewMemory m" and "mem_reviewReports m i = Some r" and "mem_reviewReports m j = Some r'"
    and "rr_VerificationReportID r = rr_VerificationReportID r'"
  shows "i = j"
proof -
  have ok: "assurance_ok m" using assms(1) by (rule assurance.reachable)
  have "mem_reviewByVerification m (rr_VerificationReportID r) = Some i"
    "mem_reviewByVerification m (rr_VerificationReportID r') = Some j"
    using ok assms(2,3) unfolding assurance_ok_def by blast+
  with assms(4) show ?thesis by simp
qed

theorem one_review_per_verification_witness:
  "mem_reviewReports closed_store ''RV-1'' = Some store_review \<and> ''RV-1'' = ''RV-1''"
proof -
  have x: "mem_reviewReports closed_store ''RV-1'' = Some store_review" by (simp add: closed_store_def)
  from one_review_per_verification [OF sample_histories(2) x x] x show ?thesis by simp
qed

text \<open>
  C34. Task contracts are frozen and numbered without gaps: the stored revisions of a task are
  exactly 1 up to the latest, each is found under its own digest, and its verification plan is
  stored under the digest that the contract names.
\<close>

theorem task_revisions_are_frozen:
  assumes "store_steps n NewMemory m" and "mem_tasks m i = Some versions"
  shows "\<exists>k. mem_latestTaskRev m i = Some k \<and> {r. versions r \<noteq> None} = {r. r \<noteq> 0 \<and> r \<le> k}
     \<and> (\<forall>r t. versions r = Some t \<longrightarrow>
          task_ID t = i \<and> task_Revision t = r \<and> mem_tasksByDigest m (TaskContract_Digest t) = Some t
          \<and> (\<exists>p. mem_verificationPlans m (task_VerificationPlanDigest t) = Some p
                \<and> Plan_Digest p = task_VerificationPlanDigest t))"
proof -
  have "revisions_ok m i" and c: "contracts_ok m"
    using revisions.reachable [OF assms(1)] contracts.reachable [OF assms(1)] by blast+
  then obtain k where k: "mem_latestTaskRev m i = Some k" "\<And>r. versions r \<noteq> None \<longleftrightarrow> r \<noteq> 0 \<and> r \<le> k"
    "\<And>r t. versions r = Some t \<Longrightarrow>
       task_ID t = i \<and> task_Revision t = r \<and> mem_tasksByDigest m (TaskContract_Digest t) = Some t"
    using assms(2) by (auto simp: revisions_ok_def)
  have "\<exists>p. mem_verificationPlans m (task_VerificationPlanDigest t) = Some p
      \<and> Plan_Digest p = task_VerificationPlanDigest t" if "versions r = Some t" for r t
  proof -
    have "mem_verificationPlans m (task_VerificationPlanDigest t) \<noteq> None"
      using k(3) [OF that] c unfolding contracts_ok_def by blast
    with c show ?thesis unfolding contracts_ok_def by blast
  qed
  with k show ?thesis by blast
qed

theorem task_revisions_are_frozen_witness:
  "mem_tasks running_store ''T-1'' = Some [1 \<mapsto> sample_task]
   \<and> mem_tasksByDigest running_store sample_task_digest = Some sample_task"
proof -
  have x: "mem_tasks running_store ''T-1'' = Some [1 \<mapsto> sample_task]" by (simp add: running_store_def)
  from task_revisions_are_frozen [OF sample_histories(1) x] x show ?thesis by auto
qed

text \<open>
  No lost updates: once an update of a work item at a version was accepted, every later
  update that still names this version is refused as a conflict, as long as fewer than
  \<open>2^64 - 1\<close> writes happen in between (the counter wraps there).
\<close>

theorem stale_work_update_is_refused:
  assumes "UpdateWorkContext c i v item m = Inr m1" and "store_steps n m1 m2" and "n < 2 ^ 64 - 1"
    and "c' 0 = None" and "c' 1 = None"
  shows "UpdateWorkContext c' i v item' m2 = Inl ErrConflict"
proof -
  have "mem_works m1 i = Some (item\<lparr>work_Version := v + 1\<rparr>)"
    using assms(1) by (auto simp: UpdateWorkContext_def)
  from work_version_steps [OF assms(2) this] obtain w k where w: "k \<le> n" "mem_works m2 i = Some w"
    "work_Version w = v + 1 + of_nat k" by auto
  have "(of_nat (Suc k) :: uint64) \<noteq> 0"
    using w(1) assms(3) by (intro of_nat_uint64_nonzero) auto
  then have "work_Version w \<noteq> v" using w(3) by (simp add: add.assoc)
  with w(2) assms(4,5) show ?thesis by (simp add: UpdateWorkContext_def locked_def)
qed

theorem stale_work_update_is_refused_witness:
  "\<exists>m1. UpdateWorkContext background ''W-1'' 3 (store_work WorkCancelled [] [] 3) running_store = Inr m1
     \<and> UpdateWorkContext background ''W-1'' 3 (store_work WorkVerifying [] [] 3) m1 = Inl ErrConflict"
proof -
  obtain m1 where m1: "UpdateWorkContext background ''W-1'' 3 (store_work WorkCancelled [] [] 3) running_store = Inr m1"
    by (simp add: UpdateWorkContext_def running_store_def store_work_def locked_def)
  from stale_work_update_is_refused [OF m1 store_none, of background "store_work WorkVerifying [] [] 3"] m1
  show ?thesis by simp
qed

text \<open>
  A run keeps what it was admitted with: in every history it stays stored together with its
  session, its task contract and input digests never change, and the input manifest stored under
  that digest has this digest and names this run and this contract.
\<close>

theorem run_keeps_frozen_input:
  assumes "store_steps n NewMemory m" and "store_steps k m m'" and "mem_runs m i = Some r"
  shows "\<exists>r' s inp. mem_runs m' i = Some r' \<and> mem_sessions m' i = Some s
     \<and> run_TaskContractDigest r' = run_TaskContractDigest r
     \<and> run_RunInputManifestDigest r' = run_RunInputManifestDigest r
     \<and> mem_runInputs m' (run_RunInputManifestDigest r) = Some inp
     \<and> RunInputManifest_Digest inp = Inr (run_RunInputManifestDigest r)
     \<and> input_RunID inp = i \<and> input_TaskContractDigest inp = run_TaskContractDigest r"
proof -
  have ok: "runs_ok m" using assms(1) by (rule executions.reachable)
  obtain inp where inp: "mem_runInputs m (run_RunInputManifestDigest r) = Some inp"
    "RunInputManifest_Digest inp = Inr (run_RunInputManifestDigest r)"
    "input_RunID inp = i" "input_TaskContractDigest inp = run_TaskContractDigest r"
    using ok assms(3) unfolding runs_ok_def run_backed_def by blast
  obtain r' where r': "mem_runs m' i = Some r'" "same_frozen_input r r'"
    using run_identity_steps [OF assms(2,3)] by blast
  have "runs_ok m'"
    using assms(2) ok by (induction rule: store_steps.induct) (auto intro: runs_ok_step)
  with r'(1) obtain s where "mem_sessions m' i = Some s" unfolding runs_ok_def by blast
  with r' inp extendsD [OF once_inputs.kept [OF assms(2)] inp(1)] show ?thesis
    by (auto simp: same_frozen_input_def)
qed

theorem run_keeps_frozen_input_witness:
  "\<exists>r'. mem_runs closed_store ''R-1'' = Some r' \<and> run_TaskContractDigest r' = sample_task_digest"
proof -
  have x: "mem_runs running_store ''R-1'' = Some (store_run RunRunning 1)" by (simp add: running_store_def)
  have "store_steps 6 running_store closed_store"
    using do_all_steps [OF closing_history store_none] by (simp add: closing_calls_def numeral_eq_Suc)
  from run_keeps_frozen_input [OF sample_histories(1) this x] show ?thesis
    by (auto simp: store_run_def)
qed

text \<open>
  The records of the assurance process are written once: whatever calls follow, a stored
  task contract, run input, steering command, checkpoint, delivery, evidence item, verification
  report, review or closure is never changed or removed.
\<close>

theorem stored_records_are_immutable:
  assumes "store_steps n m m'"
  shows "extends (mem_tasksByDigest m) (mem_tasksByDigest m') \<and> extends (mem_runInputs m) (mem_runInputs m')
    \<and> extends (mem_steeringCommands m) (mem_steeringCommands m')
    \<and> extends (mem_checkpoints m) (mem_checkpoints m') \<and> extends (mem_deliveries m) (mem_deliveries m')
    \<and> extends (mem_evidence m) (mem_evidence m')
    \<and> extends (mem_verificationReports m) (mem_verificationReports m')
    \<and> extends (mem_reviewReports m) (mem_reviewReports m') \<and> extends (mem_closures m) (mem_closures m')"
  using assms
  by (intro conjI once_tasks.kept once_inputs.kept once_steering.kept once_checkpoints.kept
      once_deliveries.kept once_evidence.kept once_reports.kept once_reviews.kept once_closures.kept)

theorem stored_records_are_immutable_witness:
  "mem_closures closed_store ''X-1'' = Some store_closure \<and> extends (mem_deliveries NewMemory) (mem_deliveries closed_store)"
  using stored_records_are_immutable [OF sample_histories(2)] by (simp add: closed_store_def)

text \<open>
  Evidence is always about a stored delivery: in every history each stored item names a
  stored delivery of a stored contract, has that delivery's subject digest, and lists only
  artifacts of that delivery.
\<close>

theorem evidence_is_about_a_delivery:
  assumes "store_steps n NewMemory m" and "mem_evidence m i = Some e"
  shows "\<exists>d t. mem_deliveries m (ev_DeliveryReceiptID e) = Some d
     \<and> mem_tasksByDigest m (dr_TaskContractDigest d) = Some t
     \<and> ev_SubjectDigest e = dr_SubjectDigest d
     \<and> set (ev_ArtifactRefs e) \<subseteq> set (map art_ID (dr_Artifacts d))"
proof -
  obtain d t where d: "mem_deliveries m (ev_DeliveryReceiptID e) = Some d"
    "mem_tasksByDigest m (dr_TaskContractDigest d) = Some t" "ev_SubjectDigest e = dr_SubjectDigest d"
    "EvidenceArtifactsBelongToDelivery d e"
    using evid.reachable [OF assms(1)] assms(2) unfolding evidence_ok_def evidence_backed_def by blast
  have "set (ev_ArtifactRefs e) \<subseteq> set (map art_ID (dr_Artifacts d))"
    using d(4) by (auto simp: EvidenceArtifactsBelongToDelivery_def Let_def all_fresh_iff split: if_splits)
  with d show ?thesis by blast
qed

theorem evidence_is_about_a_delivery_witness:
  "\<exists>d. mem_deliveries closed_store ''D-1'' = Some d \<and> dr_SubjectDigest d = Digest JNull"
proof -
  have x: "mem_evidence closed_store ''V-9'' = Some store_evidence" by (simp add: closed_store_def)
  from evidence_is_about_a_delivery [OF sample_histories(2) x] show ?thesis
    by (auto simp: store_evidence_def)
qed

text \<open>
  C25. No update of a run is lost: a caller that read a run and its session and whose update at that
  version is accepted fewer than 2^64 writes later replaces exactly what it read; no pause, takeover
  or completion that happened in between is overwritten.
\<close>

theorem run_update_loses_nothing:
  assumes "store_steps n m m'" and "n < 2 ^ 64" and "mem_runs m i = Some r" and "mem_sessions m i = Some s"
    and "UpdateExecutionContext c i (run_Version r) v s' m' = Inr m''"
  shows "mem_runs m' i = Some r \<and> mem_sessions m' i = Some s"
proof -
  from run_change_steps [OF assms(1,3,4)] obtain k r1 s1 where k: "k \<le> n" "mem_runs m' i = Some r1"
    "mem_sessions m' i = Some s1" "run_Version r1 = run_Version r + of_nat k" "k = 0 \<longrightarrow> r1 = r \<and> s1 = s" by blast
  from assms(5) k(2,4) have "(of_nat k :: uint64) = 0" by (auto simp: UpdateExecutionContext_def)
  with of_nat_uint64_nonzero [of k] k(1) assms(2) have "k = 0" by linarith
  with k show ?thesis by simp
qed

theorem run_update_loses_nothing_witness:
  "mem_runs running_store ''R-1'' = Some (store_run RunRunning 1)
   \<and> (\<exists>m''. UpdateExecutionContext background ''R-1'' 1 (store_run RunPaused 1) store_session running_store = Inr m'')"
proof -
  have r: "mem_runs running_store ''R-1'' = Some (store_run RunRunning 1)"
    "mem_sessions running_store ''R-1'' = Some store_session" by (simp_all add: running_store_def)
  have u: "\<exists>m''. UpdateExecutionContext background ''R-1'' (run_Version (store_run RunRunning 1)) (store_run RunPaused 1)
      store_session running_store = Inr m''"
    by (simp add: UpdateExecutionContext_def locked_def r same_frozen_input_def store_run_def)
  then obtain m'' where "UpdateExecutionContext background ''R-1'' (run_Version (store_run RunRunning 1))
      (store_run RunPaused 1) store_session running_store = Inr m''" by blast
  from run_update_loses_nothing [OF store_none _ r this] u show ?thesis by (simp add: store_run_def)
qed

end
