(* ===== verification/Gateway.thy ===== *)
theory Gateway
  imports MemoryStore
begin

text \<open>
  Package \<open>gateway\<close>: the authority that the action service asks before it reserves an operation
  (\<open>authority.go\<close>), and the service as the control plane wires it over the in-memory store:
  authoriser, epoch guard and repository all read one \<open>Memory\<close>.
\<close>

section \<open>The authority\<close>

text \<open>
  The interface \<open>State\<close> over a store; an absent authority or state is \<open>None\<close>. A store call makes
  two context checks of its own, so the entries after a call start two further on.
\<close>

record 'st authority_state =
  gs_GetExecution :: "ctx \<Rightarrow> string \<Rightarrow> 'st \<Rightarrow> (Run \<times> Session) result"
  gs_GetTaskByDigest :: "ctx \<Rightarrow> string \<Rightarrow> 'st \<Rightarrow> TaskContract result"
  gs_GetRecovery :: "ctx \<Rightarrow> 'st \<Rightarrow> Manager result"

definition authority_execution ::
  "'st authority_state \<Rightarrow> ctx \<Rightarrow> string \<Rightarrow> 'st \<Rightarrow> (Run \<times> Session) result" where
  "authority_execution a c i st = unless_err (c 0) (gs_GetExecution a (ctx_from 1 c) i st)"

definition authority_frozenTask ::
  "'st authority_state \<Rightarrow> ctx \<Rightarrow> string \<Rightarrow> 'st \<Rightarrow> TaskContract result" where
  "authority_frozenTask a c digest st = unless_err (c 0) (gs_GetTaskByDigest a (ctx_from 1 c) digest st)"

definition authority_recovery :: "'st authority_state \<Rightarrow> ctx \<Rightarrow> 'st \<Rightarrow> Manager result" where
  "authority_recovery a c st = unless_err (c 0) (gs_GetRecovery a (ctx_from 1 c) st)"

text \<open>The error of a check that has no other result.\<close>

definition failure :: "'a result \<Rightarrow> err option" where
  "failure r = (case r of Inl e \<Rightarrow> Some e | Inr _ \<Rightarrow> None)"

definition not_configured :: err where
  "not_configured = ErrText ''gateway authority state is not configured''"

definition Authorize :: "'st authority_state option \<Rightarrow> ctx \<Rightarrow> Request \<Rightarrow> 'st \<Rightarrow> err option" where
  "Authorize auth c req st =
     (case auth of
        None \<Rightarrow> Some not_configured
      | Some a \<Rightarrow> failure
          (unless_err (c 0)
            (unless (req_Action req = [] \<or> req_Capability req = []) ErrActionNotAllowed
              (unless (req_RiskClass req \<notin> {Observe, ControlledMutation, HighRisk}) ErrInvalidRiskClass
                (rbind (authority_execution a (ctx_from 1 c) (req_RunID req) st) (\<lambda>(value, _).
                  rbind (authority_frozenTask a (ctx_from 4 c) (run_TaskContractDigest value) st) (\<lambda>task.
                    unless_err (c 7)
                      (if list_ex (\<lambda>allowed. allowed = req_Action req) (task_AllowedActions task) then Inr ()
                       else Inl (ErrWrap ErrActionNotAllowed (ErrText (req_Action req)))))))))))"

definition Authority_CheckRunEpoch ::
  "'st authority_state option \<Rightarrow> ctx \<Rightarrow> string \<Rightarrow> uint64 \<Rightarrow> 'st \<Rightarrow> err option" where
  "Authority_CheckRunEpoch auth c runID epoch st =
     (case auth of
        None \<Rightarrow> Some not_configured
      | Some a \<Rightarrow> failure
          (rbind (authority_execution a c runID st) (\<lambda>(value, sess).
            unless_err (c 3)
              (unless_err (Run_CheckEpoch value epoch)
                (unless (run_ID value \<noteq> runID \<or> sess_RunID sess \<noteq> runID \<or> sess_ExecutionEpoch sess \<noteq> epoch)
                  ErrRunSessionEpochMismatch (Inr ()))))))"

definition Authority_CheckRecoveryEpoch ::
  "'st authority_state option \<Rightarrow> ctx \<Rightarrow> uint64 \<Rightarrow> RiskClass \<Rightarrow> 'st \<Rightarrow> err option" where
  "Authority_CheckRecoveryEpoch auth c epoch risk st =
     (case auth of
        None \<Rightarrow> Some not_configured
      | Some a \<Rightarrow> failure
          (rbind (authority_recovery a c st) (\<lambda>state.
            unless_err (c 3)
              (unless_err (Manager_CheckEpoch state epoch)
                (case risk of
                   Observe \<Rightarrow> Inr ()
                 | RiskOther _ \<Rightarrow> Inl ErrInvalidRiskClass
                 | _ \<Rightarrow> unless_err (AuthorizeIrreversible state epoch) (Inr ()))))))"

section \<open>The wiring over the in-memory store\<close>

definition NewAuthority :: "Memory authority_state option" where
  "NewAuthority = Some \<lparr>gs_GetExecution = GetExecutionContext, gs_GetTaskByDigest = GetTaskByDigestContext,
     gs_GetRecovery = GetRecoveryContext\<rparr>"

definition store_service :: "Memory service" where
  "store_service =
     \<lparr>svc_Authorize = Authorize NewAuthority, svc_CheckRunEpoch = Authority_CheckRunEpoch NewAuthority,
      svc_CheckRecoveryEpoch = Authority_CheckRecoveryEpoch NewAuthority,
      svc_Create = (\<lambda>c op m. attempt m (CreateContext c op m)),
      svc_Get = GetContext, svc_GetByKey = GetByIdempotencyKeyContext,
      svc_Update = (\<lambda>c op m. attempt m (UpdateContext c op m))\<rparr>"

abbreviation store_view :: "Memory \<Rightarrow> rows \<times> keyindex" where
  "store_view m \<equiv> (mem_operations m, mem_actionIdempotency m)"

section \<open>Programs that dispatch only after their guards\<close>

text \<open>
  \<open>needs req p a b c\<close>: the program dispatches nothing but \<open>req\<close>, and only after each of the three
  guards that has not answered yet (its flag is false) has accepted \<open>req\<close>.
\<close>

primrec needs :: "Request \<Rightarrow> prog \<Rightarrow> bool \<Rightarrow> bool \<Rightarrow> bool \<Rightarrow> bool" where
  "needs req (Return r) a b c \<longleftrightarrow> True"
| "needs req (CheckCtx k) a b c \<longleftrightarrow> (\<forall>x. needs req (k x) a b c)"
| "needs req (Now k) a b c \<longleftrightarrow> (\<forall>x. needs req (k x) a b c)"
| "needs req (CallAuthorize q k) a b c \<longleftrightarrow>
     (\<forall>e. needs req (k (Some e)) a b c) \<and> needs req (k None) (a \<or> q = req) b c"
| "needs req (CallCheckRunEpoch i e k) a b c \<longleftrightarrow>
     (\<forall>x. needs req (k (Some x)) a b c)
     \<and> needs req (k None) a (b \<or> i = req_RunID req \<and> e = req_ExecutionEpoch req) c"
| "needs req (CallCheckRecoveryEpoch e r k) a b c \<longleftrightarrow>
     (\<forall>x. needs req (k (Some x)) a b c)
     \<and> needs req (k None) a b (c \<or> e = req_RecoveryEpoch req \<and> r = req_RiskClass req)"
| "needs req (CallCreate op k) a b c \<longleftrightarrow> (\<forall>x. needs req (k x) a b c)"
| "needs req (CallGet i k) a b c \<longleftrightarrow> (\<forall>x. needs req (k x) a b c)"
| "needs req (CallGetByKey i k) a b c \<longleftrightarrow> (\<forall>x. needs req (k x) a b c)"
| "needs req (CallUpdate op k) a b c \<longleftrightarrow> (\<forall>x. needs req (k x) a b c)"
| "needs req (CallSettle op k) a b c \<longleftrightarrow> (\<forall>x. needs req (k x) a b c)"
| "needs req (CallDispatch q k) a b c \<longleftrightarrow> q = req \<and> a \<and> b \<and> c \<and> (\<forall>x. needs req (k x) a b c)"
| "needs req (CallReconcile op k) a b c \<longleftrightarrow> (\<forall>x. needs req (k x) a b c)"

lemma spent_needs: "spent p \<Longrightarrow> needs req p a b c"
  by (induction p arbitrary: a b c) auto

lemma dispatch_phase_needs: "needs req (dispatch_phase req op now) True True True"
  by (auto simp: dispatch_phase_def or_fail_def Operation_Transition_def
      intro!: spent_needs after_dispatch_spent split: option.splits sum.splits)

lemma replay_needs: "needs req (replay q existing) a b c"
  by (simp add: replay_def)

lemma Execute_needs: "needs req (Execute w req) False False False"
  by (auto simp: Execute_def admission_phase_def reserve_phase_def or_fail_def Let_def replay_needs
      dispatch_phase_needs split: option.splits sum.splits)

text \<open>
  A service whose guards do not depend on the ledger rows: what they answer stays the same while
  action calls are served.
\<close>

locale guarded_service = action_repository svc view
  for svc :: "'st service" and view :: "'st \<Rightarrow> rows \<times> keyindex" +
  fixes guards :: "'st \<Rightarrow> 'g"
  assumes guards_authorize: "guards st = guards st' \<Longrightarrow> svc_Authorize svc c req st = svc_Authorize svc c req st'"
    and guards_run: "guards st = guards st' \<Longrightarrow> svc_CheckRunEpoch svc c i e st = svc_CheckRunEpoch svc c i e st'"
    and guards_recovery: "guards st = guards st' \<Longrightarrow>
      svc_CheckRecoveryEpoch svc c e r st = svc_CheckRecoveryEpoch svc c e r st'"
    and guards_create: "svc_Create svc c op st = (x, st') \<Longrightarrow> guards st' = guards st"
    and guards_update: "svc_Update svc c op st = (x, st') \<Longrightarrow> guards st' = guards st"
begin

lemma prog_step_guards: "prog_step svc a p st = (p', st', evs) \<Longrightarrow> guards st' = guards st"
  by (cases p) (auto split: prod.splits dest: guards_create guards_update)

definition authorized :: "'st \<Rightarrow> Request \<Rightarrow> bool" where
  "authorized st req \<longleftrightarrow> (\<exists>c. svc_Authorize svc c req st = None)"

definition run_current :: "'st \<Rightarrow> Request \<Rightarrow> bool" where
  "run_current st req \<longleftrightarrow> (\<exists>c. svc_CheckRunEpoch svc c (req_RunID req) (req_ExecutionEpoch req) st = None)"

definition recovery_current :: "'st \<Rightarrow> Request \<Rightarrow> bool" where
  "recovery_current st req \<longleftrightarrow>
     (\<exists>c. svc_CheckRecoveryEpoch svc c (req_RecoveryEpoch req) (req_RiskClass req) st = None)"

definition needs_at :: "'st \<Rightarrow> prog \<Rightarrow> bool" where
  "needs_at st p \<longleftrightarrow> (\<exists>req a b c. needs req p a b c \<and> (a \<longrightarrow> authorized st req)
     \<and> (b \<longrightarrow> run_current st req) \<and> (c \<longrightarrow> recovery_current st req))"

definition passed :: "'st \<Rightarrow> Request \<Rightarrow> bool" where
  "passed st req \<longleftrightarrow> authorized st req \<and> run_current st req \<and> recovery_current st req"

lemma guards_same:
  assumes "guards st = guards st'"
  shows "authorized st req = authorized st' req" "run_current st req = run_current st' req"
    "recovery_current st req = recovery_current st' req"
  unfolding authorized_def run_current_def recovery_current_def
  using guards_authorize [OF assms] guards_run [OF assms] guards_recovery [OF assms] by (simp_all only:)

lemma needs_at_same: "guards st = guards st' \<Longrightarrow> needs_at st p = needs_at st' p"
  unfolding needs_at_def by (simp only: guards_same [of st st'])

lemma needs_atI:
  "needs req p a b c \<Longrightarrow> (a \<Longrightarrow> authorized st req) \<Longrightarrow> (b \<Longrightarrow> run_current st req) \<Longrightarrow>
   (c \<Longrightarrow> recovery_current st req) \<Longrightarrow> needs_at st p"
  unfolding needs_at_def by blast

lemma needs_at_step:
  assumes "needs_at st p" and step: "prog_step svc a p st = (p', st', evs)"
  shows "needs_at st p' \<and> (\<forall>req. EvDispatch req \<in> set evs \<longrightarrow> passed st req)"
proof -
  from assms(1) obtain req f g h where n: "needs req p f g h" "f \<Longrightarrow> authorized st req"
    "g \<Longrightarrow> run_current st req" "h \<Longrightarrow> recovery_current st req"
    by (auto simp: needs_at_def)
  show ?thesis
  proof (cases p)
    case (CallAuthorize q k)
    show ?thesis
    proof (cases "svc_Authorize svc (ans_ctx a) q st")
      case None
      with CallAuthorize n(1) step have "needs req p' (f \<or> q = req) g h" "evs = []" by auto
      with None n(2-4) show ?thesis by (auto intro!: needs_atI simp: authorized_def)
    next
      case (Some e)
      with CallAuthorize n(1) step have "needs req p' f g h" "evs = []" by auto
      with n(2-4) show ?thesis by (auto intro: needs_atI)
    qed
  next
    case (CallCheckRunEpoch i e k)
    show ?thesis
    proof (cases "svc_CheckRunEpoch svc (ans_ctx a) i e st")
      case None
      with CallCheckRunEpoch n(1) step
      have "needs req p' f (g \<or> i = req_RunID req \<and> e = req_ExecutionEpoch req) h" "evs = []" by auto
      with None n(2-4) show ?thesis by (auto intro!: needs_atI simp: run_current_def)
    next
      case (Some e)
      with CallCheckRunEpoch n(1) step have "needs req p' f g h" "evs = []" by auto
      with n(2-4) show ?thesis by (auto intro: needs_atI)
    qed
  next
    case (CallCheckRecoveryEpoch e r k)
    show ?thesis
    proof (cases "svc_CheckRecoveryEpoch svc (ans_ctx a) e r st")
      case None
      with CallCheckRecoveryEpoch n(1) step
      have "needs req p' f g (h \<or> e = req_RecoveryEpoch req \<and> r = req_RiskClass req)" "evs = []" by auto
      with None n(2-4) show ?thesis by (auto intro!: needs_atI simp: recovery_current_def)
    next
      case (Some e)
      with CallCheckRecoveryEpoch n(1) step have "needs req p' f g h" "evs = []" by auto
      with n(2-4) show ?thesis by (auto intro: needs_atI)
    qed
  qed (use step n in \<open>auto simp: passed_def intro: needs_atI split: prod.splits\<close>)
qed

definition guard_inv :: "'st \<Rightarrow> 'st world \<Rightarrow> bool" where
  "guard_inv st w \<longleftrightarrow> guards (w_store w) = guards st \<and> list_all (needs_at st) (w_procs w)
     \<and> (\<forall>req. EvDispatch req \<in> set (w_log w) \<longrightarrow> passed st req)"

lemma guard_inv_step:
  assumes "guard_inv st w"
  shows "guard_inv st (world_step svc e w)"
proof (cases "fst e < length (w_procs w)")
  case True
  obtain p' st' evs where step: "prog_step svc (snd e) (w_procs w ! fst e) (w_store w) = (p', st', evs)"
    by (metis prod_cases3)
  have same: "guards (w_store w) = guards st" using assms by (simp add: guard_inv_def)
  have "needs_at (w_store w) (w_procs w ! fst e)"
    using assms True needs_at_same [OF same] by (simp add: guard_inv_def list_all_length)
  from needs_at_step [OF this step] have "needs_at st p'" "\<And>req. EvDispatch req \<in> set evs \<Longrightarrow> passed st req"
    using needs_at_same [OF same] guards_same [OF same] by (auto simp: passed_def)
  moreover have "guards st' = guards st" using prog_step_guards [OF step] same by simp
  ultimately show ?thesis
    using assms True step by (auto simp: guard_inv_def world_step_def list_all_length nth_list_update)
qed (use assms in \<open>simp add: world_step_def\<close>)

lemma dispatch_passed_guards:
  "EvDispatch req \<in> set (w_log (run_schedule svc es (arrived st calls))) \<Longrightarrow> passed st req"
proof -
  have start: "guard_inv st (arrived st calls)"
  proof -
    have "needs_at st (call_prog call)" for call
      using Execute_needs spent_needs [OF Reconcile_spent] unfolding needs_at_def
      by (cases call) (simp, metis)+
    then show ?thesis by (simp add: guard_inv_def arrived_def list_all_iff)
  qed
  have "guard_inv st (run_schedule svc es w)" if "guard_inv st w" for w
    using that by (induction es arbitrary: w) (auto simp: run_schedule_def guard_inv_step)
  from this [OF start] show "EvDispatch req \<in> set (w_log (run_schedule svc es (arrived st calls))) \<Longrightarrow> passed st req"
    by (simp add: guard_inv_def)
qed

end

section \<open>The store keeps the contracts\<close>

lemmas store_service_defs =
  store_service_def CreateContext_def UpdateContext_def GetContext_def GetByIdempotencyKeyContext_def

interpretation store_repo: action_repository store_service store_view
  by unfold_locales
    (auto simp: store_service_defs reserves_def settles_def Operation_Transition_def split: if_splits)

abbreviation store_guards ::
  "Memory \<Rightarrow> (string \<rightharpoonup> Run) \<times> (string \<rightharpoonup> Session) \<times> (string \<rightharpoonup> TaskContract) \<times> Manager" where
  "store_guards m \<equiv> (mem_runs m, mem_sessions m, mem_tasksByDigest m, mem_recoveryState m)"

lemmas authority_defs =
  Authorize_def Authority_CheckRunEpoch_def Authority_CheckRecoveryEpoch_def NewAuthority_def
  authority_execution_def authority_frozenTask_def authority_recovery_def
  GetExecutionContext_def GetTaskByDigestContext_def GetRecoveryContext_def

interpretation store_gate: guarded_service store_service store_view store_guards
proof unfold_locales
  fix st st' :: Memory and c :: ctx
  assume "store_guards st = store_guards st'"
  then have same: "mem_runs st = mem_runs st'" "mem_sessions st = mem_sessions st'"
    "mem_tasksByDigest st = mem_tasksByDigest st'" "mem_recoveryState st = mem_recoveryState st'" by simp_all
  show "svc_Authorize store_service c req st = svc_Authorize store_service c req st'" for req
    by (simp add: store_service_def authority_defs same)
  show "svc_CheckRunEpoch store_service c i e st = svc_CheckRunEpoch store_service c i e st'" for i e
    by (simp add: store_service_def authority_defs same)
  show "svc_CheckRecoveryEpoch store_service c e r st = svc_CheckRecoveryEpoch store_service c e r st'" for e r
    by (simp add: store_service_def authority_defs same)
next
  show "svc_Create store_service c op st = (x, st') \<Longrightarrow> store_guards st' = store_guards st" for c op st x st'
    by (cases x) (auto simp: store_service_defs)
  show "svc_Update store_service c op st = (x, st') \<Longrightarrow> store_guards st' = store_guards st" for c op st x st'
    by (cases x) (auto simp: store_service_defs)
qed

lemma failure_None [simp]: "failure r = None \<longleftrightarrow> (\<exists>x. r = Inr x)"
  by (cases r) (auto simp: failure_def)

lemma Authorize_None:
  assumes "Authorize NewAuthority c req m = None"
  shows "\<exists>r s t. mem_runs m (req_RunID req) = Some r \<and> mem_sessions m (req_RunID req) = Some s
     \<and> mem_tasksByDigest m (run_TaskContractDigest r) = Some t \<and> req_Action req \<in> set (task_AllowedActions t)"
  using assms by (auto simp: authority_defs list_ex_iff split: if_splits)

lemma CheckRunEpoch_None:
  assumes "Authority_CheckRunEpoch NewAuthority c i e m = None"
  shows "\<exists>r s. mem_runs m i = Some r \<and> mem_sessions m i = Some s \<and> run_CurrentEpoch r = e
     \<and> \<not> run_terminal r \<and> run_ID r = i \<and> sess_RunID s = i \<and> sess_ExecutionEpoch s = e"
  using assms by (auto simp: authority_defs Run_CheckEpoch_def split: if_splits)

lemma CheckRecoveryEpoch_None:
  assumes "Authority_CheckRecoveryEpoch NewAuthority c e risk m = None"
  shows "mgr_Epoch (mem_recoveryState m) = e \<and>
     (risk = Observe \<or> risk \<in> {ControlledMutation, HighRisk} \<and> mgr_Mode (mem_recoveryState m) \<noteq> RecoveryReconciliation)"
  using assms by (auto simp: authority_defs manager_defs split: if_splits RiskClass.splits)

text \<open>
  C2. Nothing reaches a provider without authority: while the store serves any interleaving of
  action calls, a request is dispatched only if its run and session exist with the request's
  epoch, the run is not terminal, the action is allowed by the frozen contract of that run, the
  recovery epoch is current, and, unless the action only observes, no reconciliation is open.
\<close>

theorem dispatch_is_authorised:
  assumes "EvDispatch req \<in> set (w_log (run_schedule store_service es (arrived m calls)))"
  shows "\<exists>r s t. mem_runs m (req_RunID req) = Some r \<and> mem_sessions m (req_RunID req) = Some s
     \<and> run_CurrentEpoch r = req_ExecutionEpoch req \<and> sess_ExecutionEpoch s = req_ExecutionEpoch req
     \<and> \<not> run_terminal r
     \<and> mem_tasksByDigest m (run_TaskContractDigest r) = Some t \<and> req_Action req \<in> set (task_AllowedActions t)
     \<and> mgr_Epoch (mem_recoveryState m) = req_RecoveryEpoch req
     \<and> (req_RiskClass req = Observe \<or> mgr_Mode (mem_recoveryState m) \<noteq> RecoveryReconciliation)"
proof -
  have "store_gate.passed m req" using assms by (rule store_gate.dispatch_passed_guards)
  then obtain c1 c2 c3 where
    "Authorize NewAuthority c1 req m = None"
    "Authority_CheckRunEpoch NewAuthority c2 (req_RunID req) (req_ExecutionEpoch req) m = None"
    "Authority_CheckRecoveryEpoch NewAuthority c3 (req_RecoveryEpoch req) (req_RiskClass req) m = None"
    unfolding store_gate.passed_def store_gate.authorized_def store_gate.run_current_def
      store_gate.recovery_current_def by (auto simp: store_service_def)
  from Authorize_None [OF this(1)] CheckRunEpoch_None [OF this(2)] CheckRecoveryEpoch_None [OF this(3)]
  show ?thesis by auto
qed

text \<open>A call that passes all guards of the sample store, for the instance below.\<close>

definition gate_request :: Request where
  "gate_request = sample_request\<lparr>req_RunID := ''R-1''\<rparr>"

definition gate_row :: "OpState \<Rightarrow> Operation" where
  "gate_row s = (NewWithRequestDigest gate_request (requestDigest gate_request) 7)\<lparr>op_State := s\<rparr>"

definition gate_store :: "OpState \<Rightarrow> Memory" where
  "gate_store s = running_store\<lparr>mem_operations := [''a1'' \<mapsto> gate_row s], mem_actionIdempotency := [''k'' \<mapsto> ''a1'']\<rparr>"

lemma gate_guards:
  "svc_GetByKey store_service background ''k'' running_store = Inl ErrOperationAbsent"
  "svc_Authorize store_service background gate_request running_store = None"
  "svc_CheckRunEpoch store_service background ''R-1'' 1 running_store = None"
  "svc_CheckRecoveryEpoch store_service background 0 ControlledMutation running_store = None"
  by (simp_all add: store_service_defs authority_defs locked_def running_store_def NewMemory_def NewManager_def
      store_run_def store_session_def NewSession_def gate_request_def sample_request_def Run_CheckEpoch_def
      run_terminal_def manager_defs sample_task_def)

lemma gate_admission:
  "run_alone store_service (replicate 9 sample_reply @ as) (Execute NewService gate_request) running_store
   = run_alone store_service as (reserve_phase gate_request (requestDigest gate_request)) running_store"
proof -
  have "req_IdempotencyKey gate_request = ''k''" "req_RunID gate_request = ''R-1''" "req_ExecutionEpoch gate_request = 1"
    "req_RecoveryEpoch gate_request = 0" "req_RiskClass gate_request = ControlledMutation" "ans_ctx sample_reply = background"
    by (simp_all add: gate_request_def sample_request_def sample_reply_def)
  then show ?thesis
    by (simp add: Execute_def admission_phase_def NewService_def numeral_eq_Suc gate_guards split: prod.splits)
qed

lemma gate_reservation:
  "run_alone store_service (replicate 5 sample_reply @ as)
     (reserve_phase gate_request (requestDigest gate_request)) running_store
   = run_alone store_service as (CallDispatch gate_request (after_dispatch gate_request (gate_row Dispatched)))
      (gate_store Dispatched)"
proof -
  have fresh: "mem_operations running_store = Map.empty" "mem_actionIdempotency running_store = Map.empty"
    by (simp_all add: running_store_def NewMemory_def)
  have row: "NewWithRequestDigest gate_request (requestDigest gate_request) 7 = gate_row Planned"
    by (simp add: gate_row_def NewWithRequestDigest_def)
  have moved: "Operation_Transition (gate_row Planned) Dispatched 7 = Inr (gate_row Dispatched)"
    by (simp add: Operation_Transition_def gate_row_def NewWithRequestDigest_def)
  have ids: "op_ID (gate_row s) = ''a1''" "op_IdempotencyKey (gate_row s) = ''k''" "op_State (gate_row s) = s"
    "op_UpdatedAt (gate_row s) = 7" "SameReservation (gate_row s) (gate_row t)" for s t
    by (simp_all add: gate_row_def NewWithRequestDigest_def gate_request_def sample_request_def SameReservation_def)
  have create: "svc_Create store_service background (gate_row Planned) running_store = (None, gate_store Planned)"
    by (simp add: store_service_defs locked_def fresh ids gate_store_def)
  have update: "svc_Update store_service background (gate_row Dispatched) (gate_store Planned) = (None, gate_store Dispatched)"
    by (simp add: store_service_defs locked_def ids gate_store_def moved)
  have "ans_ctx sample_reply = background" "ans_now sample_reply = 7" by (simp_all add: sample_reply_def)
  then show ?thesis
    by (simp add: reserve_phase_def dispatch_phase_def numeral_eq_Suc row moved create update Let_def split: prod.splits)
qed

lemma gate_run:
  "EvDispatch gate_request \<in> set (w_log (run_schedule store_service (map (Pair 0) (replicate 15 sample_reply))
     (arrived running_store [ExecuteCall NewService gate_request])))"
proof -
  have split: "replicate 15 sample_reply = replicate 9 sample_reply @ replicate 5 sample_reply @ [sample_reply]"
    by (simp add: numeral_eq_Suc)
  have "snd (snd (run_alone store_service (replicate 15 sample_reply) (Execute NewService gate_request) running_store))
      = [EvDispatch gate_request]"
    unfolding split gate_admission gate_reservation by simp
  then show ?thesis
    by (auto simp: arrived_def run_schedule_single split: prod.splits simp del: map_replicate replicate.simps)
qed

theorem dispatch_is_authorised_witness:
  "\<exists>r. mem_runs running_store ''R-1'' = Some r \<and> run_CurrentEpoch r = 1 \<and> \<not> run_terminal r"
  using dispatch_is_authorised [OF gate_run] by (auto simp: gate_request_def sample_request_def)

text \<open>The store and the repository of package \<open>action\<close> are one and the same ledger.\<close>

definition ledger_of :: "Memory \<Rightarrow> MemoryRepository" where
  "ledger_of m = \<lparr>repo_items = mem_operations m, repo_idempotency = mem_actionIdempotency m\<rparr>"

text \<open>
  C35. The store's action methods implement the repository of package \<open>action\<close>: through the
  projection to operations and keys every call gives the same answer and the same new ledger.
\<close>

theorem store_refines_repository:
  "map_sum id ledger_of (CreateContext c op m) = MemoryRepository_CreateContext c op (ledger_of m)
   \<and> map_sum id ledger_of (UpdateContext c op m) = MemoryRepository_UpdateContext c op (ledger_of m)
   \<and> GetContext c i m = MemoryRepository_GetContext c i (ledger_of m)
   \<and> GetByIdempotencyKeyContext c i m = MemoryRepository_GetByIdempotencyKeyContext c i (ledger_of m)"
  by (auto simp: store_service_defs memory_repository_defs ledger_of_def locked_def unless_def unless_err_def
      rbind_def lookup_or_def split: option.splits sum.splits)

end
