(* ===== verification/Intake.thy ===== *)
theory Intake
  imports CoreModel
begin

text \<open>
  What happens to a task before it is frozen: the material check (package \<open>material\<close>), the
  routing to capabilities and skills (package \<open>routing\<close>), the catalogue of skills and its digest
  (package \<open>embedded\<close>), and the hypothesis registry of debug tasks (package \<open>debug\<close>).
\<close>

section \<open>Material readiness\<close>

datatype MaterialStatus = MaterialReady | MaterialBlocked | MaterialDegraded

fun MaterialStatus_string :: "MaterialStatus \<Rightarrow> string" where
  "MaterialStatus_string MaterialReady = ''READY''"
| "MaterialStatus_string MaterialBlocked = ''BLOCKED''"
| "MaterialStatus_string MaterialDegraded = ''DEGRADED''"

record Manifest =
  mat_TaskType :: string
  mat_Repository :: string
  mat_BaseCommit :: string
  mat_TargetID :: string
  mat_AcceptanceCriteria :: "string slice"
  mat_HasAuthoritativeLog :: bool
  mat_HasReproduction :: bool
  mat_RequiresDevice :: bool
  mat_DeviceID :: string
  mat_FirmwareIdentity :: string
  mat_DegradationApprovedBy :: string
  mat_DegradationReason :: string

record MaterialResult =
  res_Status :: MaterialStatus
  res_Reasons :: "string list"

definition isCanonicalSHA256 :: "string \<Rightarrow> bool" where
  "isCanonicalSHA256 v \<longleftrightarrow>
     (if length v \<noteq> length ''sha256:'' + 64 \<or> \<not> HasPrefix v ''sha256:'' then False
      else list_all is_lower_hex (drop (length ''sha256:'') v))"

definition isFullCommit :: "string \<Rightarrow> bool" where
  "isFullCommit v \<longleftrightarrow> (if length v \<noteq> 40 then False else list_all is_hex v)"

definition hard_reasons :: "Manifest \<Rightarrow> string list" where
  "hard_reasons m =
     (if mat_Repository m = [] then [''missing repository''] else [])
     @ (if \<not> isFullCommit (mat_BaseCommit m) then [''missing exact full commit SHA''] else [])
     @ (if elems (mat_AcceptanceCriteria m) = [] then [''missing acceptance criteria''] else [])
     @ (if ToUpper (mat_TaskType m) = ''DEVICE_TEST''
        then (if mat_DeviceID m = [] then [''device test requires exact device identity''] else [])
           @ (if \<not> isCanonicalSHA256 (mat_FirmwareIdentity m)
              then [''device test requires exact firmware identity''] else [])
        else [])
     @ (if mat_RequiresDevice m \<and> mat_DeviceID m = [] then [''task requires exact device identity''] else [])"

definition degradable_reasons :: "Manifest \<Rightarrow> string list" where
  "degradable_reasons m =
     (if ToUpper (mat_TaskType m) = ''DEBUG'' \<and> \<not> mat_HasAuthoritativeLog m \<and> \<not> mat_HasReproduction m
      then [''debug requires authoritative log or reproduction''] else [])"

definition EvaluateMaterial :: "Manifest \<Rightarrow> MaterialResult" where
  "EvaluateMaterial m =
     (let hard = hard_reasons m; degradable = degradable_reasons m in
      if hard \<noteq> [] then \<lparr>res_Status = MaterialBlocked, res_Reasons = hard @ degradable\<rparr>
      else if degradable = [] then \<lparr>res_Status = MaterialReady, res_Reasons = []\<rparr>
      else if mat_DegradationApprovedBy m \<noteq> [] \<and> mat_DegradationReason m \<noteq> []
      then \<lparr>res_Status = MaterialDegraded, res_Reasons = degradable\<rparr>
      else \<lparr>res_Status = MaterialBlocked,
            res_Reasons = degradable @ [''degradation requires approver and reason'']\<rparr>)"

fun join_reasons :: "string list \<Rightarrow> string" where
  "join_reasons [] = []"
| "join_reasons [r] = r"
| "join_reasons (r # rs) = r @ ''; '' @ join_reasons rs"

definition MaterialResult_Error :: "MaterialResult \<Rightarrow> err option" where
  "MaterialResult_Error r =
     (if res_Status r = MaterialReady then None
      else Some (ErrText (MaterialStatus_string (res_Status r) @ '': '' @ join_reasons (res_Reasons r))))"

section \<open>Routing\<close>

record Route =
  route_TaskType :: string
  route_CapabilityIDs :: "string slice"
  route_SkillIDs :: "string slice"

definition linux_hint :: "string \<Rightarrow> bool" where
  "linux_hint sub \<longleftrightarrow> Contains sub ''linux'' \<or> Contains sub ''bsp'' \<or> Contains sub ''storage'' \<or> Contains sub ''ubi''"

definition mcu_hint :: "string \<Rightarrow> bool" where
  "mcu_hint sub \<longleftrightarrow> Contains sub ''mcu'' \<or> Contains sub ''rtos'' \<or> Contains sub ''motor''"

definition Resolve :: "string \<Rightarrow> string \<Rightarrow> Route result" where
  "Resolve taskType subsystem =
     (let task = ToUpper taskType; sub = ToLower subsystem in
      if task = ''DEBUG'' then
        (if linux_hint sub then
           Inr \<lparr>route_TaskType = task,
                route_CapabilityIDs = Slice [''embedded.debug-reliability'', ''embedded.linux-bsp''],
                route_SkillIDs = Slice [''material-readiness'', ''log-triage'', ''linux-bsp-debug'']\<rparr>
         else if mcu_hint sub then
           Inr \<lparr>route_TaskType = task,
                route_CapabilityIDs = Slice [''embedded.debug-reliability'', ''embedded.mcu-rtos''],
                route_SkillIDs = Slice [''material-readiness'', ''log-triage'', ''mcu-rtos-debug'']\<rparr>
         else
           Inr \<lparr>route_TaskType = task, route_CapabilityIDs = Slice [''embedded.debug-reliability''],
                route_SkillIDs = Slice [''material-readiness'', ''log-triage'']\<rparr>)
      else if task = ''FEATURE'' \<or> task = ''BRINGUP'' \<or> task = ''COMPATIBILITY'' then
        (let caps = [''embedded.architecture'', ''embedded.driver-component''];
             skills = [''material-readiness'', ''architecture-impact-analysis'', ''interface-contract-review'',
                       ''driver-integration-review''] in
         if linux_hint sub then
           Inr \<lparr>route_TaskType = task, route_CapabilityIDs = Slice (caps @ [''embedded.linux-bsp'']),
                route_SkillIDs = Slice (skills @ [''linux-bsp-integration''])\<rparr>
         else if mcu_hint sub then
           Inr \<lparr>route_TaskType = task, route_CapabilityIDs = Slice (caps @ [''embedded.mcu-rtos'']),
                route_SkillIDs = Slice (skills @ [''mcu-rtos-integration''])\<rparr>
         else Inr \<lparr>route_TaskType = task, route_CapabilityIDs = Slice caps, route_SkillIDs = Slice skills\<rparr>)
      else if task = ''DEVICE_TEST'' \<or> task = ''RELEASE'' then
        Inr \<lparr>route_TaskType = task, route_CapabilityIDs = Slice [''embedded.verification''],
             route_SkillIDs = Slice [''material-readiness'', ''verification-plan-builder'']\<rparr>
      else if task = ''PERFORMANCE'' \<or> task = ''REFACTOR'' then
        Inr \<lparr>route_TaskType = task,
             route_CapabilityIDs = Slice [''embedded.debug-reliability'', ''embedded.verification''],
             route_SkillIDs = Slice [''material-readiness'', ''verification-plan-builder'']\<rparr>
      else Inl (ErrText (''unsupported task type '' @ Quote taskType)))"

record TargetContext =
  tc_TargetID :: string
  tc_Platform :: string

definition PlatformLinuxBSP :: string where
  "PlatformLinuxBSP = ''linux-bsp''"

definition PlatformMCURTOS :: string where
  "PlatformMCURTOS = ''mcu-rtos''"

definition ResolveForTarget :: "string \<Rightarrow> string \<Rightarrow> TargetContext option \<Rightarrow> Route result" where
  "ResolveForTarget taskType subsystem target =
     (case target of
        None \<Rightarrow> Resolve taskType subsystem
      | Some t \<Rightarrow>
          if tc_TargetID t = [] \<or> length (tc_TargetID t) > 128 \<or> tc_TargetID t \<noteq> TrimSpace (tc_TargetID t)
             \<or> ContainsAny (tc_TargetID t) [CHR 0x00, CHR 0x0D, CHR 0x0A, CHR 0x09]
          then Inl (ErrText ''target_context requires bounded exact target_id'')
          else if tc_Platform t \<noteq> PlatformLinuxBSP \<and> tc_Platform t \<noteq> PlatformMCURTOS
          then Inl (ErrText (''unsupported target_context platform '' @ Quote (tc_Platform t)))
          else
            (let sub = ToLower subsystem; linux = linux_hint sub; mcu = mcu_hint sub in
             if linux \<and> mcu then Inl (ErrText ''ambiguous subsystem families for declared target'')
             else if (linux \<and> tc_Platform t \<noteq> PlatformLinuxBSP) \<or> (mcu \<and> tc_Platform t \<noteq> PlatformMCURTOS)
             then Inl (ErrText ''subsystem conflicts with declared target platform'')
             else Resolve taskType (tc_Platform t)))"

section \<open>The skill catalogue\<close>

record Capability =
  cap_ID :: string
  cap_Name :: string
  cap_Description :: string
  cap_SkillIDs :: "string slice"

record Skill =
  skill_ID :: string
  skill_Version :: int
  skill_OwnerCapability :: string
  skill_Purpose :: string
  skill_InputContract :: "string slice"
  skill_RequiredMaterial :: "string slice"
  skill_Method :: "string slice"
  skill_OutputContract :: "string slice"
  skill_BlockConditions :: "string slice"
  skill_AllowedActions :: "string slice"
  skill_ProhibitedActions :: "string slice"
  skill_EvaluationMethod :: string
  skill_Maturity :: string

definition skills :: "Skill list" where
  "skills =
     [\<lparr>skill_ID = ''material-readiness'',
       skill_Version = 1,
       skill_OwnerCapability = ''embedded.verification'',
       skill_Purpose = ''Validate required engineering material before formal execution.'',
       skill_InputContract = Slice [''WorkItem'', ''TaskContract'', ''MaterialManifest''],
       skill_RequiredMaterial = Slice [''repository'', ''full source SHA'', ''acceptance criteria''],
       skill_Method = Slice [''compare required material by task and device policy'', ''emit READY/BLOCKED/approved DEGRADED with missing facts''],
       skill_OutputContract = Slice [''material readiness result'', ''missing-material reasons''],
       skill_BlockConditions = Slice [''missing exact source'', ''missing acceptance criteria''],
       skill_AllowedActions = Slice [],
       skill_ProhibitedActions = Slice [''invent-evidence'', ''privileged-action-without-Action-Gateway''],
       skill_EvaluationMethod = ''curated ready, blocked and approved-degraded scenarios'',
       skill_Maturity = ''DEFINED''\<rparr>,
      \<lparr>skill_ID = ''architecture-impact-analysis'',
       skill_Version = 1,
       skill_OwnerCapability = ''embedded.architecture'',
       skill_Purpose = ''Analyze subsystem, interface, resource and verification impact of a change.'',
       skill_InputContract = Slice [''requirement change'', ''target architecture''],
       skill_RequiredMaterial = Slice [''source baseline'', ''target identity'', ''acceptance criteria''],
       skill_Method = Slice [''trace affected components and interfaces'', ''separate observed architecture from inferred dependencies''],
       skill_OutputContract = Slice [''impact report'', ''verification scope''],
       skill_BlockConditions = Slice [''missing baseline'', ''unknown ownership of affected interface''],
       skill_AllowedActions = Slice [],
       skill_ProhibitedActions = Slice [''invent-evidence'', ''privileged-action-without-Action-Gateway''],
       skill_EvaluationMethod = ''review impact against independently checked interfaces and scope'',
       skill_Maturity = ''DEFINED''\<rparr>,
      \<lparr>skill_ID = ''interface-contract-review'',
       skill_Version = 1,
       skill_OwnerCapability = ''embedded.architecture'',
       skill_Purpose = ''Review lifecycle, compatibility, error and version contracts.'',
       skill_InputContract = Slice [''old and new interface contract''],
       skill_RequiredMaterial = Slice [''producer and consumer identities'', ''interface version''],
       skill_Method = Slice [''compare signatures and wire lifecycle'', ''identify breaking transitions and rollback risks''],
       skill_OutputContract = Slice [''compatibility findings'', ''migration requirements''],
       skill_BlockConditions = Slice [''no producer or consumer identity''],
       skill_AllowedActions = Slice [],
       skill_ProhibitedActions = Slice [''invent-evidence'', ''privileged-action-without-Action-Gateway''],
       skill_EvaluationMethod = ''golden compatibility cases and negative lifecycle tests'',
       skill_Maturity = ''DEFINED''\<rparr>,
      \<lparr>skill_ID = ''linux-bsp-debug'',
       skill_Version = 1,
       skill_OwnerCapability = ''embedded.linux-bsp'',
       skill_Purpose = ''Diagnose boot, kernel, storage, driver and system failures with evidence.'',
       skill_InputContract = Slice [''Linux symptoms'', ''logs and kernel context''],
       skill_RequiredMaterial = Slice [''target BSP and kernel identity'', ''authoritative log or reproduction''],
       skill_Method = Slice [''locate last observed state and subsystem layer'', ''generate discriminating experiment for hypotheses''],
       skill_OutputContract = Slice [''layer findings'', ''hypothesis evidence''],
       skill_BlockConditions = Slice [''no authoritative symptom material''],
       skill_AllowedActions = Slice [],
       skill_ProhibitedActions = Slice [''invent-evidence'', ''privileged-action-without-Action-Gateway''],
       skill_EvaluationMethod = ''replay against independent boot, UBI and kernel fixtures'',
       skill_Maturity = ''DEFINED''\<rparr>,
      \<lparr>skill_ID = ''linux-bsp-integration'',
       skill_Version = 1,
       skill_OwnerCapability = ''embedded.linux-bsp'',
       skill_Purpose = ''Review Linux/BSP/storage/driver integration for changes and bring-up.'',
       skill_InputContract = Slice [''Linux feature or bring-up diff''],
       skill_RequiredMaterial = Slice [''source base SHA'', ''BSP and target identity''],
       skill_Method = Slice [''check boot and driver lifecycle'', ''analyze storage, resource and upgrade impact''],
       skill_OutputContract = Slice [''integration impact'', ''build and verification plan''],
       skill_BlockConditions = Slice [''missing source base''],
       skill_AllowedActions = Slice [],
       skill_ProhibitedActions = Slice [''invent-evidence'', ''privileged-action-without-Action-Gateway''],
       skill_EvaluationMethod = ''compare cross-target build and interface regression Evidence'',
       skill_Maturity = ''DEFINED''\<rparr>,
      \<lparr>skill_ID = ''mcu-rtos-debug'',
       skill_Version = 1,
       skill_OwnerCapability = ''embedded.mcu-rtos'',
       skill_Purpose = ''Diagnose MCU startup, ISR, memory, timing and RTOS faults.'',
       skill_InputContract = Slice [''MCU symptom and code''],
       skill_RequiredMaterial = Slice [''firmware and target identity'', ''map, register trace or reproduction''],
       skill_Method = Slice [''separate ISR/task/timing observations from hypotheses'', ''design bounded discriminating test''],
       skill_OutputContract = Slice [''fault hypothesis registry'', ''required measurements''],
       skill_BlockConditions = Slice [''no authoritative MCU evidence''],
       skill_AllowedActions = Slice [],
       skill_ProhibitedActions = Slice [''invent-evidence'', ''privileged-action-without-Action-Gateway''],
       skill_EvaluationMethod = ''compare reproducible fault injection and restored register evidence'',
       skill_Maturity = ''DEFINED''\<rparr>,
      \<lparr>skill_ID = ''mcu-rtos-integration'',
       skill_Version = 1,
       skill_OwnerCapability = ''embedded.mcu-rtos'',
       skill_Purpose = ''Review MCU/RTOS/control and firmware integration.'',
       skill_InputContract = Slice [''firmware change'', ''build target''],
       skill_RequiredMaterial = Slice [''target MCU and toolchain identity'', ''source base SHA''],
       skill_Method = Slice [''inspect startup/linker/ISR contracts'', ''assess control timing and memory budgets''],
       skill_OutputContract = Slice [''integration impact'', ''firmware verification plan''],
       skill_BlockConditions = Slice [''missing target or toolchain''],
       skill_AllowedActions = Slice [],
       skill_ProhibitedActions = Slice [''invent-evidence'', ''privileged-action-without-Action-Gateway''],
       skill_EvaluationMethod = ''independent ELF/map checks and target-specific build Evidence'',
       skill_Maturity = ''DEFINED''\<rparr>,
      \<lparr>skill_ID = ''driver-integration-review'',
       skill_Version = 1,
       skill_OwnerCapability = ''embedded.driver-component'',
       skill_Purpose = ''Review component integration, lifecycle and error recovery.'',
       skill_InputContract = Slice [''driver diff'', ''interface requirements''],
       skill_RequiredMaterial = Slice [''component and target identity'', ''source baseline''],
       skill_Method = Slice [''compare init and shutdown sequences'', ''trace error paths and fallback policy''],
       skill_OutputContract = Slice [''integration findings'', ''interface test scope''],
       skill_BlockConditions = Slice [''no component interface contract''],
       skill_AllowedActions = Slice [],
       skill_ProhibitedActions = Slice [''invent-evidence'', ''privileged-action-without-Action-Gateway''],
       skill_EvaluationMethod = ''fault-path coverage and versioned interface fixtures'',
       skill_Maturity = ''DEFINED''\<rparr>,
      \<lparr>skill_ID = ''log-triage'',
       skill_Version = 1,
       skill_OwnerCapability = ''embedded.debug-reliability'',
       skill_Purpose = ''Derive an observed timeline and evidence gaps from immutable raw logs.'',
       skill_InputContract = Slice [''raw log or trace''],
       skill_RequiredMaterial = Slice [''log bytes'', ''timebase provenance''],
       skill_Method = Slice [''normalize without rewriting raw data'', ''classify observed versus inferred events''],
       skill_OutputContract = Slice [''timeline'', ''hypothesis candidates''],
       skill_BlockConditions = Slice [''missing raw log''],
       skill_AllowedActions = Slice [],
       skill_ProhibitedActions = Slice [''invent-evidence'', ''privileged-action-without-Action-Gateway''],
       skill_EvaluationMethod = ''lineage-checked replay with ambiguous timestamp cases'',
       skill_Maturity = ''DEFINED''\<rparr>,
      \<lparr>skill_ID = ''verification-plan-builder'',
       skill_Version = 1,
       skill_OwnerCapability = ''embedded.verification'',
       skill_Purpose = ''Map acceptance criteria to independent engineering Evidence.'',
       skill_InputContract = Slice [''TaskContract'', ''acceptance criteria''],
       skill_RequiredMaterial = Slice [''frozen criteria'', ''target identity'', ''risk class''],
       skill_Method = Slice [''map each criterion to test and issuer'', ''state negative and blocked outcomes explicitly''],
       skill_OutputContract = Slice [''VerificationPlan'', ''independent Evidence requirements''],
       skill_BlockConditions = Slice [''unverifiable acceptance criterion''],
       skill_AllowedActions = Slice [],
       skill_ProhibitedActions = Slice [''invent-evidence'', ''privileged-action-without-Action-Gateway''],
       skill_EvaluationMethod = ''plan coverage, mismatch rejection and independent verifier review'',
       skill_Maturity = ''DEFINED''\<rparr>]"

definition capabilities :: "Capability list" where
  "capabilities =
     [\<lparr>cap_ID = ''embedded.architecture'', cap_Name = ''Embedded Architecture'',
       cap_Description = ''System boundaries, interfaces, compatibility and engineering impact.'',
       cap_SkillIDs = Slice [''architecture-impact-analysis'', ''interface-contract-review'']\<rparr>,
      \<lparr>cap_ID = ''embedded.linux-bsp'', cap_Name = ''Linux / BSP'',
       cap_Description = ''Boot, kernel, BSP, storage, driver and Linux system integration.'',
       cap_SkillIDs = Slice [''linux-bsp-debug'', ''linux-bsp-integration'']\<rparr>,
      \<lparr>cap_ID = ''embedded.mcu-rtos'', cap_Name = ''MCU / RTOS'',
       cap_Description = ''Startup, memory, concurrency, timing, control and MCU firmware.'',
       cap_SkillIDs = Slice [''mcu-rtos-debug'', ''mcu-rtos-integration'']\<rparr>,
      \<lparr>cap_ID = ''embedded.driver-component'', cap_Name = ''Driver / Component'',
       cap_Description = ''Peripheral and component integration, lifecycle and recovery.'',
       cap_SkillIDs = Slice [''driver-integration-review'']\<rparr>,
      \<lparr>cap_ID = ''embedded.debug-reliability'', cap_Name = ''Debug / Reliability'',
       cap_Description = ''Evidence-driven failure analysis and regression prevention.'',
       cap_SkillIDs = Slice [''log-triage'']\<rparr>,
      \<lparr>cap_ID = ''embedded.verification'', cap_Name = ''Verification'',
       cap_Description = ''Material readiness, acceptance-to-evidence planning and independent verification.'',
       cap_SkillIDs = Slice [''material-readiness'', ''verification-plan-builder'']\<rparr>]"

text \<open>The defensive copies: nil stays nil, so a copy is the value itself.\<close>

definition cloneCatalogStrings :: "string slice \<Rightarrow> string slice" where
  "cloneCatalogStrings xs = (case xs of NilSlice \<Rightarrow> NilSlice | Slice s \<Rightarrow> Slice s)"

definition Capabilities :: "Capability list" where
  "Capabilities = map (\<lambda>c. c\<lparr>cap_SkillIDs := cloneCatalogStrings (cap_SkillIDs c)\<rparr>) capabilities"

definition Skills :: "Skill list" where
  "Skills = map (\<lambda>s. s
     \<lparr>skill_InputContract := cloneCatalogStrings (skill_InputContract s),
      skill_RequiredMaterial := cloneCatalogStrings (skill_RequiredMaterial s),
      skill_Method := cloneCatalogStrings (skill_Method s),
      skill_OutputContract := cloneCatalogStrings (skill_OutputContract s),
      skill_BlockConditions := cloneCatalogStrings (skill_BlockConditions s),
      skill_AllowedActions := cloneCatalogStrings (skill_AllowedActions s),
      skill_ProhibitedActions := cloneCatalogStrings (skill_ProhibitedActions s)\<rparr>) skills"

definition Skill_json :: "Skill \<Rightarrow> json" where
  "Skill_json s = JObj
     (str_field ''id'' (skill_ID s) @ int_field ''version'' (skill_Version s)
      @ str_field ''owner_capability'' (skill_OwnerCapability s) @ str_field ''purpose'' (skill_Purpose s)
      @ slice_field ''input_contract'' JStr (skill_InputContract s)
      @ slice_field ''required_material'' JStr (skill_RequiredMaterial s)
      @ slice_field ''method'' JStr (skill_Method s)
      @ slice_field ''output_contract'' JStr (skill_OutputContract s)
      @ slice_field ''block_conditions'' JStr (skill_BlockConditions s)
      @ slice_field ''allowed_actions'' JStr (skill_AllowedActions s)
      @ slice_field ''prohibited_actions'' JStr (skill_ProhibitedActions s)
      @ str_field ''evaluation_method'' (skill_EvaluationMethod s)
      @ str_field ''maturity'' (skill_Maturity s))"

definition skill_complete :: "Skill \<Rightarrow> bool" where
  "skill_complete s \<longleftrightarrow> \<not>
     (skill_ID s = [] \<or> skill_Version s \<le> 0 \<or> skill_OwnerCapability s = [] \<or> skill_Purpose s = []
      \<or> skill_Maturity s = [] \<or> skill_EvaluationMethod s = []
      \<or> elems (skill_InputContract s) = [] \<or> elems (skill_RequiredMaterial s) = []
      \<or> elems (skill_Method s) = [] \<or> elems (skill_OutputContract s) = []
      \<or> elems (skill_BlockConditions s) = [] \<or> elems (skill_ProhibitedActions s) = [])"

fun index_skills :: "Skill list \<Rightarrow> (string \<rightharpoonup> Skill) \<Rightarrow> (string \<rightharpoonup> Skill) result" where
  "index_skills [] known = Inr known"
| "index_skills (s # ss) known =
     (if \<not> skill_complete s then Inl (ErrText ''invalid catalog Skill contract'')
      else if known (skill_ID s) \<noteq> None then Inl (ErrText (''duplicate catalog Skill '' @ Quote (skill_ID s)))
      else index_skills ss (known(skill_ID s \<mapsto> s)))"

fun pick_skills :: "string list \<Rightarrow> (string \<rightharpoonup> Skill) \<Rightarrow> string set \<Rightarrow> Skill list result" where
  "pick_skills [] known seen = Inr []"
| "pick_skills (i # is) known seen =
     (case known i of
        None \<Rightarrow> Inl (ErrText (''unknown or repeated routed Skill '' @ Quote i))
      | Some s \<Rightarrow>
          if i \<in> seen then Inl (ErrText (''unknown or repeated routed Skill '' @ Quote i))
          else rbind (pick_skills is known (insert i seen)) (\<lambda>rest. Inr (s # rest)))"

definition selectedSkillContracts :: "string list \<Rightarrow> Skill list \<Rightarrow> (Skill list \<times> string) result" where
  "selectedSkillContracts ids catalog =
     (if ids = [] \<or> catalog = [] \<or> length ids > length catalog \<or> length catalog > 256
      then Inl (ErrText ''bounded nonempty selected Skill contract set required'')
      else rbind (index_skills catalog Map.empty) (\<lambda>known.
        rbind (pick_skills ids known {}) (\<lambda>selected.
          Inr (selected, Digest (JObj (int_field ''version'' 1
             @ slice_field ''skills'' Skill_json (Slice selected)))))))"

definition RoutedSkillContractDigest :: "string slice \<Rightarrow> string result" where
  "RoutedSkillContractDigest ids = rbind (selectedSkillContracts (elems ids) Skills) (\<lambda>(_, digest). Inr digest)"

definition RoutedSkillContracts :: "string slice \<Rightarrow> (Skill list \<times> string) result" where
  "RoutedSkillContracts ids = selectedSkillContracts (elems ids) Skills"

section \<open>Debug hypotheses\<close>

datatype HypothesisStatus =
  HypProposed | HypSupported | HypRejected | HypConfirmed | HypInconclusive | HypOther string

record Hypothesis =
  hyp_ID :: string
  hyp_Statement :: string
  hyp_ObservedSupport :: "string list"
  hyp_InferredSupport :: "string list"
  hyp_ContradictingEvidence :: "string list"
  hyp_ProposedExperiment :: string
  hyp_EvidenceRefs :: "string list"
  hyp_Status :: HypothesisStatus
  hyp_UpdatedAt :: gotime

type_synonym Registry = "string \<rightharpoonup> Hypothesis"

definition NewRegistry :: Registry where
  "NewRegistry = Map.empty"

definition Registry_Add :: "Hypothesis \<Rightarrow> Registry \<Rightarrow> Registry" where
  "Registry_Add h r =
     (let h' = (if hyp_Status h = HypOther [] then h\<lparr>hyp_Status := HypProposed\<rparr> else h) in r(hyp_ID h' \<mapsto> h'))"

definition Registry_Confirm :: "string \<Rightarrow> string list \<Rightarrow> gotime \<Rightarrow> Registry \<Rightarrow> Registry result" where
  "Registry_Confirm i evidenceRefs now r =
     rbind (lookup_or ErrHypothesisNotFound r i) (\<lambda>h.
       unless (evidenceRefs = []) ErrEvidenceRequired
         (Inr (r(i \<mapsto> h\<lparr>hyp_EvidenceRefs := evidenceRefs, hyp_Status := HypConfirmed, hyp_UpdatedAt := now\<rparr>))))"

definition Registry_SetStatus :: "string \<Rightarrow> HypothesisStatus \<Rightarrow> gotime \<Rightarrow> Registry \<Rightarrow> Registry result" where
  "Registry_SetStatus i status now r =
     rbind (lookup_or ErrHypothesisNotFound r i) (\<lambda>h.
       unless (status = HypConfirmed \<and> hyp_EvidenceRefs h = []) ErrEvidenceRequired
         (Inr (r(i \<mapsto> h\<lparr>hyp_Status := status, hyp_UpdatedAt := now\<rparr>))))"

definition Registry_Get :: "string \<Rightarrow> Registry \<Rightarrow> Hypothesis option" where
  "Registry_Get i r = r i"

section \<open>What the material check decides\<close>

text \<open>The facts that no approval can replace.\<close>

definition material_exact :: "Manifest \<Rightarrow> bool" where
  "material_exact m \<longleftrightarrow>
     mat_Repository m \<noteq> [] \<and> length (mat_BaseCommit m) = 40 \<and> list_all is_hex (mat_BaseCommit m)
     \<and> elems (mat_AcceptanceCriteria m) \<noteq> []
     \<and> (mat_RequiresDevice m \<or> ToUpper (mat_TaskType m) = ''DEVICE_TEST'' \<longrightarrow> mat_DeviceID m \<noteq> [])
     \<and> (ToUpper (mat_TaskType m) = ''DEVICE_TEST'' \<longrightarrow> ValidDigest (mat_FirmwareIdentity m))"

definition debug_unobserved :: "Manifest \<Rightarrow> bool" where
  "debug_unobserved m \<longleftrightarrow>
     ToUpper (mat_TaskType m) = ''DEBUG'' \<and> \<not> mat_HasAuthoritativeLog m \<and> \<not> mat_HasReproduction m"

lemma isCanonicalSHA256_ValidDigest: "isCanonicalSHA256 v \<longleftrightarrow> ValidDigest v"
proof -
  have seven: "length ''sha256:'' = 7" by simp
  show ?thesis
    unfolding isCanonicalSHA256_def ValidDigest_def match_exactly_def seven
    by (auto simp: list_all_iff)
qed

lemma hard_reasons_Nil: "hard_reasons m = [] \<longleftrightarrow> material_exact m"
  by (auto simp: hard_reasons_def material_exact_def isFullCommit_def isCanonicalSHA256_ValidDigest)

lemma degradable_reasons_Nil: "degradable_reasons m = [] \<longleftrightarrow> \<not> debug_unobserved m"
  by (simp add: degradable_reasons_def debug_unobserved_def)

text \<open>
  The material check is exact: READY means that repository, full commit, acceptance criteria
  and the required device and firmware identities are all present and, for a debug task, that it
  has an authoritative log or a reproduction; DEGRADED means that only this last fact is missing
  and somebody approved it with a reason; everything else is BLOCKED.
\<close>

theorem EvaluateMaterial_status:
  "res_Status (EvaluateMaterial m) =
     (if material_exact m
      then if debug_unobserved m
           then if mat_DegradationApprovedBy m \<noteq> [] \<and> mat_DegradationReason m \<noteq> []
                then MaterialDegraded else MaterialBlocked
           else MaterialReady
      else MaterialBlocked)"
  by (simp add: EvaluateMaterial_def Let_def hard_reasons_Nil degradable_reasons_Nil)

section \<open>What routing selects\<close>

lemma index_skills_Some:
  "list_all skill_complete ss \<Longrightarrow> distinct (map skill_ID ss) \<Longrightarrow> skill_ID ` set ss \<inter> dom known = {} \<Longrightarrow>
   \<exists>known'. index_skills ss known = Inr known' \<and> dom known' = dom known \<union> skill_ID ` set ss"
proof (induction ss arbitrary: known)
  case (Cons s ss)
  have "known (skill_ID s) = None" using Cons.prems(3) by auto
  moreover have "\<exists>known'. index_skills ss (known(skill_ID s \<mapsto> s)) = Inr known'
      \<and> dom known' = dom (known(skill_ID s \<mapsto> s)) \<union> skill_ID ` set ss"
  proof (rule Cons.IH)
    show "skill_ID ` set ss \<inter> dom (known(skill_ID s \<mapsto> s)) = {}"
      using Cons.prems(2,3) by (simp add: disjoint_iff)
  qed (use Cons.prems(1,2) in simp_all)
  ultimately show ?case using Cons.prems(1) by auto
qed auto

lemma pick_skills_Some:
  "set is \<subseteq> dom known \<Longrightarrow> distinct is \<Longrightarrow> set is \<inter> seen = {} \<Longrightarrow>
   \<exists>sel. pick_skills is known seen = Inr sel"
proof (induction "is" arbitrary: seen)
  case (Cons i "is")
  then obtain s where "known i = Some s" by auto
  moreover have "\<exists>sel. pick_skills is known (insert i seen) = Inr sel"
    using Cons.prems by (intro Cons.IH) auto
  ultimately show ?case using Cons.prems(3) by auto
qed simp

lemma catalogue_ok: "list_all skill_complete Skills \<and> distinct (map skill_ID Skills)"
  by (simp add: Skills_def skills_def skill_complete_def cloneCatalogStrings_def)

lemma catalogue_ids:
  "map skill_ID Skills =
     [''material-readiness'', ''architecture-impact-analysis'', ''interface-contract-review'', ''linux-bsp-debug'',
      ''linux-bsp-integration'', ''mcu-rtos-debug'', ''mcu-rtos-integration'', ''driver-integration-review'',
      ''log-triage'', ''verification-plan-builder'']"
  by (simp add: Skills_def skills_def)

lemma selected_from_catalogue:
  assumes "ids \<noteq> []" and "distinct ids" and "set ids \<subseteq> set (map skill_ID Skills)"
  shows "\<exists>sel digest. selectedSkillContracts ids Skills = Inr (sel, digest) \<and> ValidDigest digest"
proof -
  have len: "length Skills = 10" by (simp add: Skills_def skills_def)
  have "length ids \<le> length (map skill_ID Skills)"
    using assms(2,3) card_mono [OF _ assms(3)] card_length [of "map skill_ID Skills"]
    by (simp add: distinct_card)
  with len have bounds: "length ids \<le> length Skills" "Skills \<noteq> []" "length Skills \<le> 256" by auto
  obtain known where known: "index_skills Skills Map.empty = Inr known" "dom known = skill_ID ` set Skills"
    using index_skills_Some [of Skills Map.empty] catalogue_ok by auto
  then obtain sel where "pick_skills ids known {} = Inr sel"
    using pick_skills_Some [of ids known "{}"] assms(2,3) by auto
  with known bounds assms(1) show ?thesis
    by (auto simp: selectedSkillContracts_def ValidDigest_Digest)
qed

lemma Resolve_skills:
  assumes "Resolve taskType subsystem = Inr route"
  shows "elems (route_SkillIDs route) \<noteq> [] \<and> distinct (elems (route_SkillIDs route))
    \<and> set (elems (route_SkillIDs route)) \<subseteq> set (map skill_ID Skills)"
  using assms unfolding catalogue_ids Resolve_def Let_def by (auto split: if_splits)

lemma ResolveForTarget_Resolve:
  "ResolveForTarget taskType subsystem target = Inr route \<Longrightarrow> \<exists>sub. Resolve taskType sub = Inr route"
  by (auto simp: ResolveForTarget_def Let_def split: option.splits if_splits)

text \<open>
  Whatever task and target are routed, the selected skills are distinct entries of the
  catalogue, so their contract digest always exists and is a canonical digest: freezing the
  routed skills cannot fail because of the catalogue.
\<close>

theorem routed_skills_have_digest:
  assumes "ResolveForTarget taskType subsystem target = Inr route"
  shows "\<exists>digest. RoutedSkillContractDigest (route_SkillIDs route) = Inr digest \<and> ValidDigest digest"
proof -
  obtain sub where "Resolve taskType sub = Inr route"
    using ResolveForTarget_Resolve [OF assms] by blast
  then have "elems (route_SkillIDs route) \<noteq> []" "distinct (elems (route_SkillIDs route))"
    "set (elems (route_SkillIDs route)) \<subseteq> set (map skill_ID Skills)"
    using Resolve_skills by blast+
  from selected_from_catalogue [OF this] show ?thesis by (auto simp: RoutedSkillContractDigest_def)
qed

lemma sample_route:
  "ResolveForTarget ''debug'' ''bsp'' (Some \<lparr>tc_TargetID = ''T9'', tc_Platform = ''linux-bsp''\<rparr>)
   = Inr \<lparr>route_TaskType = ''DEBUG'',
          route_CapabilityIDs = Slice [''embedded.debug-reliability'', ''embedded.linux-bsp''],
          route_SkillIDs = Slice [''material-readiness'', ''log-triage'', ''linux-bsp-debug'']\<rparr>"
  by code_simp

theorem routed_skills_have_digest_witness:
  "\<exists>digest. RoutedSkillContractDigest (Slice [''material-readiness'', ''log-triage'', ''linux-bsp-debug'']) = Inr digest
     \<and> ValidDigest digest"
  using routed_skills_have_digest [OF sample_route] by simp

lemma platform_hints:
  "linux_hint (ToLower PlatformLinuxBSP)" "\<not> mcu_hint (ToLower PlatformLinuxBSP)"
  "\<not> linux_hint (ToLower PlatformMCURTOS)" "mcu_hint (ToLower PlatformMCURTOS)"
  by code_simp+

text \<open>
  A declared target decides the platform family: a request routed for a typed target selects
  no skill of the other family, and it is refused when its subsystem text names the other family.
\<close>

theorem typed_target_selects_its_family:
  assumes "ResolveForTarget taskType subsystem (Some t) = Inr route"
  shows "(tc_Platform t = PlatformLinuxBSP \<and> \<not> mcu_hint (ToLower subsystem)
          \<and> set (elems (route_SkillIDs route)) \<inter> {''mcu-rtos-debug'', ''mcu-rtos-integration''} = {}
          \<and> ''embedded.mcu-rtos'' \<notin> set (elems (route_CapabilityIDs route)))
       \<or> (tc_Platform t = PlatformMCURTOS \<and> \<not> linux_hint (ToLower subsystem)
          \<and> set (elems (route_SkillIDs route)) \<inter> {''linux-bsp-debug'', ''linux-bsp-integration''} = {}
          \<and> ''embedded.linux-bsp'' \<notin> set (elems (route_CapabilityIDs route)))"
proof -
  from assms have r: "Resolve taskType (tc_Platform t) = Inr route"
    and p: "tc_Platform t = PlatformLinuxBSP \<and> \<not> mcu_hint (ToLower subsystem)
      \<or> tc_Platform t = PlatformMCURTOS \<and> \<not> linux_hint (ToLower subsystem)"
    by (auto simp: ResolveForTarget_def Let_def PlatformLinuxBSP_def PlatformMCURTOS_def split: if_splits)
  from p show ?thesis
  proof
    assume "tc_Platform t = PlatformLinuxBSP \<and> \<not> mcu_hint (ToLower subsystem)"
    with r show ?thesis unfolding Resolve_def Let_def by (auto simp: platform_hints split: if_splits)
  next
    assume "tc_Platform t = PlatformMCURTOS \<and> \<not> linux_hint (ToLower subsystem)"
    with r show ?thesis unfolding Resolve_def Let_def by (auto simp: platform_hints split: if_splits)
  qed
qed

theorem typed_target_selects_its_family_witness:
  "\<not> mcu_hint (ToLower ''bsp'') \<and> PlatformLinuxBSP = ''linux-bsp''"
proof -
  have "''linux-bsp'' \<noteq> PlatformMCURTOS" by (simp add: PlatformMCURTOS_def)
  with typed_target_selects_its_family [OF sample_route] show ?thesis by auto
qed

section \<open>Debug hypotheses\<close>

datatype registry_call =
    RegAdd Hypothesis
  | RegConfirm string "string list" gotime
  | RegSetStatus string HypothesisStatus gotime

fun do_registry :: "registry_call \<Rightarrow> Registry \<Rightarrow> Registry" where
  "do_registry (RegAdd h) r = Registry_Add h r"
| "do_registry (RegConfirm i es t) r = (case Registry_Confirm i es t r of Inl _ \<Rightarrow> r | Inr r' \<Rightarrow> r')"
| "do_registry (RegSetStatus i s t) r = (case Registry_SetStatus i s t r of Inl _ \<Rightarrow> r | Inr r' \<Rightarrow> r')"

fun unbacked_add :: "registry_call \<Rightarrow> bool" where
  "unbacked_add (RegAdd h) \<longleftrightarrow> hyp_Status h = HypConfirmed \<and> hyp_EvidenceRefs h = []"
| "unbacked_add _ \<longleftrightarrow> False"

definition confirmed_backed :: "Registry \<Rightarrow> bool" where
  "confirmed_backed r \<longleftrightarrow> (\<forall>i h. r i = Some h \<longrightarrow> hyp_Status h = HypConfirmed \<longrightarrow> hyp_EvidenceRefs h \<noteq> [])"

lemma confirmed_backed_step:
  "confirmed_backed r \<Longrightarrow> \<not> unbacked_add call \<Longrightarrow> confirmed_backed (do_registry call r)"
  by (cases call)
    (auto simp: confirmed_backed_def Registry_Add_def Registry_Confirm_def Registry_SetStatus_def Let_def
      unless_def rbind_def lookup_or_def split: option.splits if_splits)

text \<open>
  In a registry that is only fed with hypotheses that are not already marked CONFIRMED without
  evidence, every confirmed hypothesis names evidence, whatever calls are made on it.
\<close>

theorem confirmed_hypotheses_have_evidence:
  assumes "list_all (\<lambda>call. \<not> unbacked_add call) calls"
  shows "confirmed_backed (fold do_registry calls NewRegistry)"
proof -
  have "confirmed_backed (fold do_registry calls r)" if "confirmed_backed r" for r
    using that assms by (induction calls arbitrary: r) (auto intro: confirmed_backed_step)
  moreover have "confirmed_backed NewRegistry" by (simp add: confirmed_backed_def NewRegistry_def)
  ultimately show ?thesis .
qed

definition sample_hypothesis :: "HypothesisStatus \<Rightarrow> Hypothesis" where
  "sample_hypothesis s = \<lparr>hyp_ID = ''H1'', hyp_Statement = ''s'', hyp_ObservedSupport = [], hyp_InferredSupport = [],
     hyp_ContradictingEvidence = [], hyp_ProposedExperiment = [], hyp_EvidenceRefs = [], hyp_Status = s,
     hyp_UpdatedAt = 0\<rparr>"

theorem confirmed_hypotheses_have_evidence_witness:
  "confirmed_backed (fold do_registry
     [RegAdd (sample_hypothesis (HypOther [])), RegSetStatus ''H1'' HypConfirmed 1, RegConfirm ''H1'' [''E''] 2] NewRegistry)"
  by (rule confirmed_hypotheses_have_evidence) (simp add: sample_hypothesis_def)

text \<open>
  \<open>Add\<close> itself does not ask for evidence: a hypothesis that arrives with status CONFIRMED and no
  evidence is stored as confirmed.
\<close>

lemma add_accepts_unbacked_confirmation:
  "\<exists>h. Registry_Get ''H1'' (Registry_Add (sample_hypothesis HypConfirmed) NewRegistry) = Some h
     \<and> hyp_Status h = HypConfirmed \<and> hyp_EvidenceRefs h = []"
  by (simp add: Registry_Get_def Registry_Add_def sample_hypothesis_def)

end
