(* ===== verification/Api.thy ===== *)
theory Api
  imports Gateway Intake
begin

text \<open>
  Package \<open>api\<close>: the HTTP handlers of the control plane (\<open>server.go\<close> and the request-scoped store
  accessors beside it) over the in-memory store. A handler is a program of store calls; other
  requests may run between any two of them, because each call takes and releases the store's
  lock on its own. A request body is the decoded value, or \<open>None\<close> when the decoder refuses it; the
  clock is read once per handler and is an argument.
\<close>

section \<open>Responses\<close>

datatype body =
    BError string
  | BHealth string string
  | BCapabilities "Capability list" "Skill list"
  | BRecovery Manager
  | BWork WorkItem
  | BBlocked MaterialResult
  | BTaskFrozen TaskContract string MaterialResult
  | BTask TaskContract string
  | BPlan Plan string
  | BRunStarted Run Attempt Session RunInputManifest
  | BRun Run Session RunInputManifest
  | BExecution Run Session
  | BTakeover uint64
  | BSteering SteeringCommand
  | BCheckpoint Checkpoint string
  | BReceipt Receipt
  | BOperation Operation
  | BDelivery DeliveryReceipt
  | BEvidence EvidenceRef
  | BVerification VerificationReport
  | BReview ReviewReport
  | BClosure ClosureReceipt

type_synonym response = "nat \<times> body"

definition writeError :: "nat \<Rightarrow> string \<Rightarrow> response" where
  "writeError status message = (status, BError message)"

definition writePublicError :: "nat \<Rightarrow> response" where
  "writePublicError status = writeError status
     (if status = 400 then ''invalid request''
      else if status = 403 then ''operation forbidden''
      else if status = 404 then ''resource not found''
      else if status = 409 then ''conflict with current authority or version''
      else if status = 422 then ''request rejected by current policy or contract''
      else if status = 503 then ''service temporarily unavailable''
      else ''internal operation failed'')"

definition writeCommitOutcomeUnknown :: response where
  "writeCommitOutcomeUnknown = writeError 503
     ''commit_outcome_unknown: read back the exact resource ID, epoch, idempotency key and audit record before considering any retry''"

definition writeCommitAwareInternalError :: "err \<Rightarrow> response" where
  "writeCommitAwareInternalError e =
     (if errors_Is e ErrCommitOutcomeUnknown then writeCommitOutcomeUnknown
      else writeError 500 ''internal Core authority operation failed'')"

definition writeStoreError :: "err \<Rightarrow> response" where
  "writeStoreError e =
     (if errors_Is e ErrCommitOutcomeUnknown then writeCommitOutcomeUnknown
      else if errors_Is e ErrNotFound then writePublicError 404
      else writePublicError 500)"

definition writeMutationError :: "err \<Rightarrow> response" where
  "writeMutationError e =
     (if errors_Is e ErrCommitOutcomeUnknown then writeCommitOutcomeUnknown
      else if errors_Is e ErrNotFound then writePublicError 404
      else if errors_Is e ErrExists \<or> errors_Is e ErrConflict \<or> errors_Is e RunErrStaleEpoch
           \<or> errors_Is e SessionErrStaleEpoch \<or> errors_Is e SessionErrSequence
           \<or> errors_Is e SessionErrRuntimeNotOwner
      then writePublicError 409
      else writePublicError 422)"

definition writeActionError :: "err \<Rightarrow> response" where
  "writeActionError e =
     (if errors_Is e ErrCommitOutcomeUnknown then writeCommitOutcomeUnknown
      else if errors_Is e ErrExternalEffectUnresolved
      then writeError 503 ''external_effect_unresolved: read back the exact original Action operation ID, idempotency key, Run/Recovery epochs, receipt and audit before any retry''
      else if errors_Is e ErrDenied then writePublicError 403
      else if errors_Is e ErrIdempotencyConflict then writePublicError 409
      else if errors_Is e ErrOperationAbsent \<or> errors_Is e ErrNotFound then writePublicError 404
      else if errors_Is e RunErrStaleEpoch \<or> errors_Is e RecoveryErrStaleEpoch \<or> errors_Is e RecoveryErrRecoveryMode
      then writePublicError 409
      else writePublicError 422)"

section \<open>Handlers\<close>

text \<open>
  \<open>Call e k\<close> is one store call: \<open>e\<close> is what it does to the store and \<open>k\<close> the rest of the handler
  after its answer. Both see the caller's context of that moment.
\<close>

datatype handler =
    Respond response
  | Call "ctx \<Rightarrow> Memory \<Rightarrow> Memory" "ctx \<Rightarrow> Memory \<Rightarrow> handler"

text \<open>
  The accessors \<open>...ForRequest\<close>: one context check of their own, then the store method under the
  same context.
\<close>

definition fetch :: "(ctx \<Rightarrow> Memory \<Rightarrow> 'a result) \<Rightarrow> ('a result \<Rightarrow> handler) \<Rightarrow> handler" where
  "fetch f k = Call (\<lambda>c m. m) (\<lambda>c m. k (unless_err (c 0) (f (ctx_from 1 c) m)))"

definition put_with :: "(ctx \<Rightarrow> Memory \<Rightarrow> ('a \<times> Memory) result) \<Rightarrow> ('a result \<Rightarrow> handler) \<Rightarrow> handler" where
  "put_with f k =
     Call (\<lambda>c m. case unless_err (c 0) (f (ctx_from 1 c) m) of Inl _ \<Rightarrow> m | Inr (_, m') \<Rightarrow> m')
       (\<lambda>c m. k (case unless_err (c 0) (f (ctx_from 1 c) m) of Inl e \<Rightarrow> Inl e | Inr (x, _) \<Rightarrow> Inr x))"

definition put :: "(ctx \<Rightarrow> Memory \<Rightarrow> Memory result) \<Rightarrow> (err option \<Rightarrow> handler) \<Rightarrow> handler" where
  "put f k = put_with (\<lambda>c m. rbind (f c m) (\<lambda>m'. Inr ((), m'))) (\<lambda>r. k (case r of Inl e \<Rightarrow> Some e | Inr _ \<Rightarrow> None))"

definition getRecoveryForRequest where
  "getRecoveryForRequest k = fetch GetRecoveryContext k"

definition beginRecoveryForRequest where
  "beginRecoveryForRequest epoch k = put_with (\<lambda>c. BeginRecoveryContext c epoch) k"

definition completeRecoveryForRequest where
  "completeRecoveryForRequest epoch reconciled k = put_with (\<lambda>c. CompleteRecoveryContext c epoch reconciled) k"

definition createWorkForRequest where
  "createWorkForRequest item k = put (\<lambda>c. CreateWorkContext c item) k"

definition getWorkForRequest where
  "getWorkForRequest i k = fetch (\<lambda>c. GetWorkContext c i) k"

definition freezeTaskForRequest where
  "freezeTaskForRequest task plan version work k =
     put (\<lambda>c. CreateTaskAndUpdateWorkContext c task plan version work) k"

definition getTaskForRequest where
  "getTaskForRequest i k = fetch (\<lambda>c. GetTaskContext c i) k"

definition getFrozenTaskForRequest where
  "getFrozenTaskForRequest digest k = fetch (\<lambda>c. GetTaskByDigestContext c digest) k"

definition startRunForRequest where
  "startRunForRequest value attmpt sess input version work k =
     put (\<lambda>c. CreateExecutionAndUpdateWorkContext c value attmpt sess input version work) k"

definition getRunForRequest where
  "getRunForRequest i k = fetch (\<lambda>c. GetExecutionContext c i) k"

definition getRunInputForRequest where
  "getRunInputForRequest digest k = fetch (\<lambda>c. GetRunInputByDigestContext c digest) k"

definition updateRunForRequest where
  "updateRunForRequest i version value sess k = put (\<lambda>c. UpdateExecutionContext c i version value sess) k"

definition completeRunForRequest where
  "completeRunForRequest i runVersion value sess workVersion work k =
     put (\<lambda>c. UpdateExecutionAndWorkContext c i runVersion value sess workVersion work) k"

definition getSteeringForRequest where
  "getSteeringForRequest i k = fetch (\<lambda>c. GetSteeringContext c i) k"

definition createCheckpointForRequest where
  "createCheckpointForRequest item k = put_with (\<lambda>c. CreateCheckpointContext c item) k"

definition getCheckpointForRequest where
  "getCheckpointForRequest i k = fetch (\<lambda>c. GetCheckpointContext c i) k"

definition createDeliveryForRequest where
  "createDeliveryForRequest item k = put (\<lambda>c. CreateDeliveryContext c item) k"

definition getDeliveryForRequest where
  "getDeliveryForRequest i k = fetch (\<lambda>c. GetDeliveryContext c i) k"

definition getVerificationPlanForRequest where
  "getVerificationPlanForRequest digest k = fetch (\<lambda>c. GetVerificationPlanByDigestContext c digest) k"

definition registerEvidenceForRequest where
  "registerEvidenceForRequest item k = put (\<lambda>c. CreateEvidenceContext c item) k"

definition getEvidenceForRequest where
  "getEvidenceForRequest i k = fetch (\<lambda>c. GetEvidenceContext c i) k"

definition createVerificationForRequest where
  "createVerificationForRequest item k = put (\<lambda>c. CreateVerificationContext c item) k"

definition getVerificationForRequest where
  "getVerificationForRequest i k = fetch (\<lambda>c. GetVerificationContext c i) k"

definition createReviewForRequest where
  "createReviewForRequest report version work k =
     put (\<lambda>c. CreateReviewAndUpdateWorkContext c report version work) k"

definition getReviewForRequest where
  "getReviewForRequest i k = fetch (\<lambda>c. GetReviewContext c i) k"

definition createClosureForRequest where
  "createClosureForRequest item version work k =
     put (\<lambda>c. CreateClosureAndUpdateWorkContext c item version work) k"

definition getClosureForRequest where
  "getClosureForRequest i k = fetch (\<lambda>c. GetClosureContext c i) k"

definition getActionForRequest where
  "getActionForRequest actions i k = fetch (\<lambda>c. actions c i) k"

text \<open>The frequent endings: fail with a store error, or go on with the value.\<close>

definition or_store_error :: "('a \<Rightarrow> handler) \<Rightarrow> 'a result \<Rightarrow> handler" where
  "or_store_error k r = (case r of Inl e \<Rightarrow> Respond (writeStoreError e) | Inr x \<Rightarrow> k x)"

definition decodeJSON :: "'a option \<Rightarrow> ('a \<Rightarrow> handler) \<Rightarrow> handler" where
  "decodeJSON req k =
     (case req of None \<Rightarrow> Respond (writeError 400 ''invalid JSON object'') | Some x \<Rightarrow> k x)"

definition exists_or_internal :: "response \<Rightarrow> err option \<Rightarrow> handler" where
  "exists_or_internal ok e =
     (case e of
        None \<Rightarrow> Respond ok
      | Some x \<Rightarrow> if errors_Is x ErrExists then Respond (writePublicError 409)
                  else Respond (writeCommitAwareInternalError x))"

definition conflict_or_internal :: "response \<Rightarrow> err option \<Rightarrow> handler" where
  "conflict_or_internal ok e =
     (case e of
        None \<Rightarrow> Respond ok
      | Some x \<Rightarrow> if errors_Is x ErrExists \<or> errors_Is x ErrConflict then Respond (writePublicError 409)
                  else Respond (writeCommitAwareInternalError x))"

definition mutation_result :: "response \<Rightarrow> err option \<Rightarrow> handler" where
  "mutation_result ok e = (case e of None \<Rightarrow> Respond ok | Some x \<Rightarrow> Respond (writeMutationError x))"

subsection \<open>Health, capabilities, recovery\<close>

definition handleHealth :: handler where
  "handleHealth = Respond (200, BHealth ''ok'' ''engineering-control-plane'')"

definition handleCapabilities :: handler where
  "handleCapabilities = Respond (200, BCapabilities Capabilities Skills)"

definition handleGetRecovery :: handler where
  "handleGetRecovery = getRecoveryForRequest (\<lambda>r. case r of
     Inl _ \<Rightarrow> Respond (writePublicError 503) | Inr s \<Rightarrow> Respond (200, BRecovery s))"

definition handleBeginRecovery :: "uint64 option \<Rightarrow> handler" where
  "handleBeginRecovery body = decodeJSON body (\<lambda>epoch. beginRecoveryForRequest epoch (\<lambda>r. case r of
     Inr s \<Rightarrow> Respond (200, BRecovery s)
   | Inl e \<Rightarrow>
       if errors_Is e ErrCommitOutcomeUnknown then Respond writeCommitOutcomeUnknown
       else if errors_Is e ErrConflict \<or> errors_Is e RecoveryErrAlreadyRecovering then Respond (writePublicError 409)
       else Respond (writePublicError 500)))"

definition handleCompleteRecovery :: "uint64 option \<Rightarrow> handler" where
  "handleCompleteRecovery body = decodeJSON body (\<lambda>epoch.
     if epoch = 0 then Respond (writeError 400 ''recovery_epoch is required'')
     else completeRecoveryForRequest epoch True (\<lambda>r. case r of
       Inr s \<Rightarrow> Respond (200, BRecovery s)
     | Inl e \<Rightarrow>
         if errors_Is e ErrCommitOutcomeUnknown then Respond writeCommitOutcomeUnknown
         else if errors_Is e ErrConflict \<or> errors_Is e RecoveryErrStaleEpoch then Respond (writePublicError 409)
         else if errors_Is e RecoveryErrReconciliationRequired then Respond (writePublicError 422)
         else Respond (writePublicError 500)))"

subsection \<open>Work items and task contracts\<close>

definition admitted_work :: "gotime \<Rightarrow> WorkItem \<Rightarrow> WorkItem" where
  "admitted_work now item =
     (let item1 = (if work_State item = WorkOther [] then item\<lparr>work_State := WorkDraft\<rparr> else item);
          item2 = (if work_Version item1 = 0 then item1\<lparr>work_Version := 1\<rparr> else item1)
      in if IsZero (work_CreatedAt item2) then item2\<lparr>work_CreatedAt := now\<rparr> else item2)"

definition handleCreateWork :: "gotime \<Rightarrow> WorkItem option \<Rightarrow> handler" where
  "handleCreateWork now body = decodeJSON body (\<lambda>item.
     if work_ID item = [] \<or> work_Title item = [] \<or> work_HumanOwner item = []
     then Respond (writeError 400 ''work_item_id, title and human_owner are required'')
     else createWorkForRequest (admitted_work now item)
            (exists_or_internal (201, BWork (admitted_work now item))))"

definition handleGetWork :: "string \<Rightarrow> handler" where
  "handleGetWork i = getWorkForRequest i (or_store_error (\<lambda>item. Respond (200, BWork item)))"

record createTaskRequest =
  ct_Contract :: TaskContract
  ct_Material :: Manifest
  ct_Subsystem :: string
  ct_TargetContext :: "TargetContext option"
  ct_VerificationPlan :: Plan

text \<open>The contract with everything that the server, not the client, decides.\<close>

definition bound_contract :: "createTaskRequest \<Rightarrow> Route \<Rightarrow> string \<Rightarrow> TaskContract" where
  "bound_contract req route skillDigest =
     (ct_Contract req)
       \<lparr>task_CapabilityIDs := route_CapabilityIDs route, task_SkillIDs := route_SkillIDs route,
        task_SkillContractDigest := skillDigest,
        task_SkillGuidanceVersion := (if ct_TargetContext req = None then 0 else 1),
        task_Repository := mat_Repository (ct_Material req), task_BaseCommit := mat_BaseCommit (ct_Material req),
        task_TargetID := mat_TargetID (ct_Material req),
        task_TargetPlatform := (case ct_TargetContext req of None \<Rightarrow> [] | Some t \<Rightarrow> tc_Platform t),
        task_AcceptanceCriteria := copy_slice (mat_AcceptanceCriteria (ct_Material req)),
        task_VerificationPlanID := plan_ID (ct_VerificationPlan req),
        task_VerificationPlanDigest := Plan_Digest (ct_VerificationPlan req),
        task_Revision := (if task_Revision (ct_Contract req) = 0 then 1 else task_Revision (ct_Contract req))\<rparr>"

text \<open>The skill digest is only frozen for typed targets.\<close>

definition routed_digest :: "createTaskRequest \<Rightarrow> Route \<Rightarrow> string result" where
  "routed_digest req route =
     (case ct_TargetContext req of None \<Rightarrow> Inr [] | Some _ \<Rightarrow> RoutedSkillContractDigest (route_SkillIDs route))"

definition freeze_phase :: "createTaskRequest \<Rightarrow> MaterialResult \<Rightarrow> WorkItem \<Rightarrow> TaskContract \<Rightarrow> handler" where
  "freeze_phase req readiness work contract =
     (let digest = TaskContract_Digest contract;
          work' = work\<lparr>work_ActiveTaskContractDigest := digest, work_ActiveRunID := []\<rparr> in
      case (if work_State work' = WorkDraft then Transition work' WorkReady else Inr work') of
        Inl _ \<Rightarrow> Respond (writePublicError 409)
      | Inr work'' \<Rightarrow>
          freezeTaskForRequest contract (ct_VerificationPlan req) (work_Version work) work''
            (conflict_or_internal (201, BTaskFrozen contract digest readiness)))"

definition route_phase :: "createTaskRequest \<Rightarrow> MaterialResult \<Rightarrow> WorkItem \<Rightarrow> handler" where
  "route_phase req readiness work =
     (if (case ct_TargetContext req of None \<Rightarrow> False | Some t \<Rightarrow> tc_TargetID t \<noteq> mat_TargetID (ct_Material req))
      then Respond (writeError 422 ''target_context target_id must match material target_id'')
      else case ResolveForTarget (task_TaskType (ct_Contract req)) (ct_Subsystem req) (ct_TargetContext req) of
        Inl _ \<Rightarrow> Respond (writePublicError 422)
      | Inr route \<Rightarrow>
          (case routed_digest req route of
             Inl _ \<Rightarrow> Respond (writeError 503 ''selected Skill contract catalog is invalid'')
           | Inr skillDigest \<Rightarrow>
               if \<not> ValidatePlan (ct_VerificationPlan req)
                       (elems (copy_slice (mat_AcceptanceCriteria (ct_Material req))))
               then Respond (writeError 422 ''verification plan must cover every acceptance criterion with at least one evidence requirement'')
               else freeze_phase req readiness work (bound_contract req route skillDigest)))"

definition handleCreateTask :: "createTaskRequest option \<Rightarrow> handler" where
  "handleCreateTask body = decodeJSON body (\<lambda>req.
     if task_ID (ct_Contract req) = [] \<or> task_WorkItemID (ct_Contract req) = [] \<or> task_TaskType (ct_Contract req) = []
     then Respond (writeError 400 ''task_contract_id, work_item_id and task_type are required'')
     else getWorkForRequest (task_WorkItemID (ct_Contract req)) (or_store_error (\<lambda>work.
       if work_State work \<noteq> WorkDraft \<and> work_State work \<noteq> WorkReady
       then Respond (writeError 409 ''task contract revisions are only accepted while work is DRAFT or READY'')
       else
         (let req' = req\<lparr>ct_Material := (ct_Material req)\<lparr>mat_TaskType := task_TaskType (ct_Contract req)\<rparr>\<rparr>;
              readiness = EvaluateMaterial (ct_Material req') in
          if res_Status readiness = MaterialBlocked then Respond (422, BBlocked readiness)
          else route_phase req' readiness work))))"

definition handleGetTask :: "string \<Rightarrow> handler" where
  "handleGetTask i = getTaskForRequest i (or_store_error (\<lambda>task.
     Respond (200, BTask task (TaskContract_Digest task))))"

text \<open>The last context check of a digest read is its own store-free step.\<close>

definition check_request :: "handler \<Rightarrow> handler" where
  "check_request k = fetch (\<lambda>_ _. Inr ()) (or_store_error (\<lambda>_. k))"

definition handleGetFrozenTaskByDigest :: "string \<Rightarrow> handler" where
  "handleGetFrozenTaskByDigest digest =
     (if \<not> ValidDigest digest then Respond (writePublicError 400)
      else getFrozenTaskForRequest digest (or_store_error (\<lambda>task. check_request
        (if TaskContract_Digest task \<noteq> digest then Respond (writePublicError 500)
         else Respond (200, BTask task digest)))))"

definition handleGetFrozenVerificationPlanByDigest :: "string \<Rightarrow> handler" where
  "handleGetFrozenVerificationPlanByDigest digest =
     (if \<not> ValidDigest digest then Respond (writePublicError 400)
      else getVerificationPlanForRequest digest (or_store_error (\<lambda>plan. check_request
        (if Plan_Digest plan \<noteq> digest then Respond (writePublicError 500)
         else Respond (200, BPlan plan digest)))))"

subsection \<open>Runs\<close>

record createRunRequest =
  cr_RunID :: string
  cr_TaskContractDigest :: string
  cr_AttemptID :: string
  cr_RunInput :: RunInputManifest

definition start_phase ::
  "gotime \<Rightarrow> createRunRequest \<Rightarrow> RunInputManifest \<Rightarrow> string \<Rightarrow> WorkItem \<Rightarrow> handler" where
  "start_phase now req input inputDigest work =
     (case StartAttempt (NewRun (cr_RunID req) (cr_TaskContractDigest req) inputDigest) (cr_AttemptID req) now of
        Inl _ \<Rightarrow> Respond (writePublicError 409)
      | Inr (attmpt, value) \<Rightarrow>
          (let sess = NewSession (cr_RunID req) (att_Epoch attmpt) in
           case Transition (work\<lparr>work_ActiveRunID := cr_RunID req\<rparr>) WorkExecuting of
             Inl _ \<Rightarrow> Respond (writePublicError 409)
           | Inr work' \<Rightarrow>
               startRunForRequest value attmpt sess input (work_Version work) work'
                 (conflict_or_internal (201, BRunStarted value attmpt sess input))))"

definition handleCreateRun :: "gotime \<Rightarrow> createRunRequest option \<Rightarrow> handler" where
  "handleCreateRun now body = decodeJSON body (\<lambda>req.
     if input_Continuation (cr_RunInput req) \<noteq> None
     then Respond (writeError 400 ''source continuation requires the authorized continuation endpoint'')
     else if cr_RunID req = [] \<or> cr_TaskContractDigest req = [] \<or> cr_AttemptID req = []
     then Respond (writeError 400 ''run_id, task_contract_digest and attempt_id are required'')
     else if input_RuntimeProfile (cr_RunInput req) = [] \<or> input_ToolProfile (cr_RunInput req) = []
          \<or> input_WorkerProfile (cr_RunInput req) = [] \<or> input_PolicyProfile (cr_RunInput req) = []
     then Respond (writeError 400 ''runtime_profile, tool_profile, worker_profile and policy_profile are required'')
     else
       (let input = (cr_RunInput req)\<lparr>input_RunID := cr_RunID req, input_TaskContractDigest := cr_TaskContractDigest req\<rparr> in
        case RunInputManifest_Digest input of
          Inl _ \<Rightarrow> Respond (writePublicError 500)
        | Inr inputDigest \<Rightarrow>
            getFrozenTaskForRequest (cr_TaskContractDigest req) (or_store_error (\<lambda>task.
              getWorkForRequest (task_WorkItemID task) (or_store_error (\<lambda>work.
                if work_State work \<noteq> WorkReady
                then Respond (writeError 409 ''work must be READY before starting a run'')
                else if work_ActiveTaskContractDigest work \<noteq> cr_TaskContractDigest req
                then Respond (writeError 409 ''run must use the current active task contract revision'')
                else start_phase now req input inputDigest work))))))"

definition handleGetRun :: "string \<Rightarrow> handler" where
  "handleGetRun i = getRunForRequest i (or_store_error (\<lambda>(value, sess).
     getRunInputForRequest (run_RunInputManifestDigest value) (or_store_error (\<lambda>input.
       Respond (200, BRun value sess input)))))"

text \<open>
  \<open>mutateExecution\<close>: the closure \<open>fn\<close> changes the run and the session that were read together and
  may leave a value for the response.
\<close>

definition codex_refused :: err where
  "codex_refused = ErrWrap ErrConflict
     (ErrText ''Codex pause/resume/takeover needs a quiescent checkpoint protocol; interrupt is cancellation only'')"

definition mutate_phase ::
  "string \<Rightarrow> (Run \<Rightarrow> Session \<Rightarrow> (Run \<times> Session \<times> 'x) result) \<Rightarrow> ('x result \<Rightarrow> handler) \<Rightarrow> Run \<Rightarrow> Session \<Rightarrow> handler" where
  "mutate_phase i fn k value sess =
     getRunInputForRequest (run_RunInputManifestDigest value) (\<lambda>r. case r of
       Inl e \<Rightarrow> k (Inl e)
     | Inr input \<Rightarrow>
         if HasPrefix (input_ToolProfile input) ''codex/sha256:'' then k (Inl codex_refused)
         else (case fn value sess of
                 Inl e \<Rightarrow> k (Inl e)
               | Inr (value', sess', x) \<Rightarrow>
                   updateRunForRequest i (run_Version value) value' sess'
                     (\<lambda>e. k (case e of None \<Rightarrow> Inr x | Some y \<Rightarrow> Inl y))))"

definition mutateExecution ::
  "string \<Rightarrow> (Run \<Rightarrow> Session \<Rightarrow> (Run \<times> Session \<times> 'x) result) \<Rightarrow> ('x result \<Rightarrow> handler) \<Rightarrow> handler" where
  "mutateExecution i fn k =
     getRunForRequest i (\<lambda>r. case r of
       Inl e \<Rightarrow> k (Inl e) | Inr (value, sess) \<Rightarrow> mutate_phase i fn k value sess)"

definition writeExecution :: "string \<Rightarrow> handler" where
  "writeExecution i = getRunForRequest i (or_store_error (\<lambda>(value, sess). Respond (200, BExecution value sess)))"

definition pause_both :: "uint64 \<Rightarrow> Run \<Rightarrow> Session \<Rightarrow> (Run \<times> Session \<times> unit) result" where
  "pause_both epoch value sess =
     rbind (Run_Pause value epoch) (\<lambda>value'. rbind (Session_Pause sess epoch) (\<lambda>sess'. Inr (value', sess', ())))"

definition resume_both :: "uint64 \<Rightarrow> Run \<Rightarrow> Session \<Rightarrow> (Run \<times> Session \<times> unit) result" where
  "resume_both epoch value sess =
     rbind (Run_Resume value epoch) (\<lambda>value'. rbind (Session_Resume sess epoch) (\<lambda>sess'. Inr (value', sess', ())))"

definition takeover_both :: "uint64 \<Rightarrow> Run \<Rightarrow> Session \<Rightarrow> (Run \<times> Session \<times> uint64) result" where
  "takeover_both epoch value sess =
     rbind (Run_Takeover value epoch) (\<lambda>(e, value').
       rbind (Session_Takeover sess epoch) (\<lambda>(sessionEpoch, sess').
         unless (e \<noteq> sessionEpoch) (ErrText ''run/session epoch divergence'') (Inr (value', sess', e))))"

definition handlePause :: "string \<Rightarrow> uint64 option \<Rightarrow> handler" where
  "handlePause i body = decodeJSON body (\<lambda>epoch. mutateExecution i (pause_both epoch) (\<lambda>r. case r of
     Inl e \<Rightarrow> Respond (writeMutationError e) | Inr _ \<Rightarrow> writeExecution i))"

definition handleResume :: "string \<Rightarrow> uint64 option \<Rightarrow> handler" where
  "handleResume i body = decodeJSON body (\<lambda>epoch. mutateExecution i (resume_both epoch) (\<lambda>r. case r of
     Inl e \<Rightarrow> Respond (writeMutationError e) | Inr _ \<Rightarrow> writeExecution i))"

definition handleTakeover :: "string \<Rightarrow> uint64 option \<Rightarrow> handler" where
  "handleTakeover i body = decodeJSON body (\<lambda>epoch. mutateExecution i (takeover_both epoch) (\<lambda>r. case r of
     Inl e \<Rightarrow> Respond (writeMutationError e) | Inr newEpoch \<Rightarrow> Respond (200, BTakeover newEpoch)))"

definition handleGetSteering :: "string \<Rightarrow> handler" where
  "handleGetSteering i = getSteeringForRequest i (or_store_error (\<lambda>cmd. Respond (200, BSteering cmd)))"

record createCheckpointRequest =
  cc_ID :: string
  cc_ExecutionEpoch :: uint64
  cc_SourceTreeDigest :: string
  cc_DiffDigest :: string
  cc_Objective :: string
  cc_Completed :: "string list"
  cc_Pending :: "string list"
  cc_Questions :: "string list"
  cc_LastEventSequence :: uint64
  cc_ExternalOperationCursor :: string

definition bound_checkpoint :: "gotime \<Rightarrow> string \<Rightarrow> createCheckpointRequest \<Rightarrow> Run \<Rightarrow> Checkpoint" where
  "bound_checkpoint now runID req value =
     \<lparr>cp_ID = cc_ID req, cp_RunID = runID, cp_TaskContractDigest = run_TaskContractDigest value,
      cp_RunInputManifestDigest = run_RunInputManifestDigest value, cp_ExecutionEpoch = cc_ExecutionEpoch req,
      cp_SourceTreeDigest = cc_SourceTreeDigest req, cp_DiffDigest = cc_DiffDigest req,
      cp_Objective = cc_Objective req, cp_Completed = cc_Completed req, cp_Pending = cc_Pending req,
      cp_Questions = cc_Questions req, cp_LastEventSequence = cc_LastEventSequence req,
      cp_ExternalOperationCursor = cc_ExternalOperationCursor req, cp_CreatedAt = now\<rparr>"

definition handleCreateCheckpoint :: "gotime \<Rightarrow> string \<Rightarrow> createCheckpointRequest option \<Rightarrow> handler" where
  "handleCreateCheckpoint now runID body = decodeJSON body (\<lambda>req.
     if cc_ID req = [] \<or> cc_ExecutionEpoch req = 0 \<or> cc_SourceTreeDigest req = []
     then Respond (writeError 400 ''checkpoint_id, execution_epoch and source_tree_digest are required'')
     else getRunForRequest runID (or_store_error (\<lambda>(value, sess).
       case Run_CheckEpoch value (cc_ExecutionEpoch req) of
         Some e \<Rightarrow> Respond (writeMutationError e)
       | None \<Rightarrow>
           if sess_ExecutionEpoch sess \<noteq> cc_ExecutionEpoch req
           then Respond (writeError 409 ''session execution epoch does not match run'')
           else (let item = bound_checkpoint now runID req value in
             createCheckpointForRequest item (\<lambda>r. case r of
               Inr digest \<Rightarrow> Respond (201, BCheckpoint item digest)
             | Inl e \<Rightarrow> if errors_Is e ErrExists then Respond (writePublicError 409)
                        else Respond (writeCommitAwareInternalError e))))))"

definition handleGetCheckpoint :: "string \<Rightarrow> handler" where
  "handleGetCheckpoint i = getCheckpointForRequest i (or_store_error (\<lambda>(item, digest).
     Respond (200, BCheckpoint item digest)))"

definition complete_phase :: "string \<Rightarrow> Run \<Rightarrow> Run \<Rightarrow> Session \<Rightarrow> handler" where
  "complete_phase runID value value' sess =
     getFrozenTaskForRequest (run_TaskContractDigest value') (or_store_error (\<lambda>task.
       getWorkForRequest (task_WorkItemID task) (or_store_error (\<lambda>work.
         if work_State work \<noteq> WorkExecuting
            \<or> work_ActiveTaskContractDigest work \<noteq> run_TaskContractDigest value'
            \<or> work_ActiveRunID work \<noteq> runID
         then Respond (writeError 409 ''work is not executing this run/task subject'')
         else (case Transition work WorkVerifying of
                 Inl _ \<Rightarrow> Respond (writePublicError 409)
               | Inr work' \<Rightarrow>
                   completeRunForRequest runID (run_Version value) value' sess (work_Version work) work'
                     (\<lambda>e. case e of
                        Some x \<Rightarrow> Respond (writeMutationError x)
                      | None \<Rightarrow> writeExecution runID))))))"

definition handleCompleteRun :: "string \<Rightarrow> uint64 option \<Rightarrow> handler" where
  "handleCompleteRun runID body = decodeJSON body (\<lambda>epoch.
     getRunForRequest runID (or_store_error (\<lambda>(value, sess).
       case Run_Complete value epoch of
         Inl e \<Rightarrow> Respond (writeMutationError e)
       | Inr value' \<Rightarrow> complete_phase runID value value' sess)))"

subsection \<open>Actions\<close>

record createActionRequest =
  ca_ID :: string
  ca_ExecutionEpoch :: uint64
  ca_RecoveryEpoch :: "uint64 option"
  ca_Action :: string
  ca_RiskClass :: RiskClass
  ca_Capability :: string
  ca_ParametersDigest :: string
  ca_IdempotencyKey :: string
  ca_RequestedBy :: string

text \<open>Up to the call of the action service: an immediate response, or the request to execute.\<close>

definition no_gateway :: response where
  "no_gateway = writeError 503 ''action gateway provider is not configured''"

definition handleCreateAction_request ::
  "bool \<Rightarrow> gotime \<Rightarrow> string \<Rightarrow> createActionRequest option \<Rightarrow> response + Request" where
  "handleCreateAction_request configured now runID body =
     (if \<not> configured then Inl no_gateway
      else case body of
        None \<Rightarrow> Inl (writeError 400 ''invalid JSON object'')
      | Some req \<Rightarrow>
          if ca_ID req = [] \<or> ca_ExecutionEpoch req = 0 \<or> ca_RecoveryEpoch req = None \<or> ca_Action req = []
             \<or> RiskClass_string (ca_RiskClass req) = [] \<or> ca_Capability req = [] \<or> ca_ParametersDigest req = []
             \<or> ca_IdempotencyKey req = [] \<or> ca_RequestedBy req = []
          then Inl (writeError 400 ''action_request_id, execution_epoch, recovery_epoch, action, risk_class, capability, parameters_digest, idempotency_key and requested_by are required'')
          else Inr \<lparr>req_ID = ca_ID req, req_RunID = runID, req_ExecutionEpoch = ca_ExecutionEpoch req,
                    req_RecoveryEpoch = the (ca_RecoveryEpoch req), req_Action = ca_Action req,
                    req_RiskClass = ca_RiskClass req, req_Capability = ca_Capability req,
                    req_ParametersDigest = ca_ParametersDigest req, req_IdempotencyKey = ca_IdempotencyKey req,
                    req_RequestedBy = ca_RequestedBy req, req_RequestedAt = now\<rparr>)"

definition handleCreateAction_reply :: "Receipt result \<Rightarrow> response" where
  "handleCreateAction_reply r = (case r of Inl e \<Rightarrow> writeActionError e | Inr receipt \<Rightarrow> (202, BReceipt receipt))"

definition handleReconcileAction_reply :: "bool \<Rightarrow> Receipt result \<Rightarrow> response" where
  "handleReconcileAction_reply configured r =
     (if \<not> configured then no_gateway
      else case r of Inl e \<Rightarrow> writeActionError e | Inr receipt \<Rightarrow> (200, BReceipt receipt))"

definition handleGetAction :: "(ctx \<Rightarrow> string \<Rightarrow> Memory \<Rightarrow> Operation result) option \<Rightarrow> string \<Rightarrow> handler" where
  "handleGetAction actions i =
     (case actions of
        None \<Rightarrow> Respond no_gateway
      | Some get \<Rightarrow> getActionForRequest get i (\<lambda>r. case r of
          Inl e \<Rightarrow> Respond (writeActionError e) | Inr item \<Rightarrow> Respond (200, BOperation item)))"

subsection \<open>Deliveries and evidence\<close>

record createDeliveryRequest =
  cd_ID :: string
  cd_RunID :: string
  cd_ResultCommit :: string
  cd_Artifacts :: "ArtifactRef list"
  cd_KnownLimits :: "string list"

definition bound_delivery :: "gotime \<Rightarrow> createDeliveryRequest \<Rightarrow> Run \<Rightarrow> TaskContract \<Rightarrow> DeliveryReceipt" where
  "bound_delivery now req value task =
     (let item = \<lparr>dr_ID = cd_ID req, dr_WorkItemID = task_WorkItemID task,
                  dr_TaskContractDigest = run_TaskContractDigest value, dr_RunID = run_ID value,
                  dr_TargetID = task_TargetID task, dr_BaseCommit = task_BaseCommit task,
                  dr_ResultCommit = cd_ResultCommit req, dr_SubjectDigest = [], dr_Artifacts = cd_Artifacts req,
                  dr_KnownLimits = cd_KnownLimits req, dr_CreatedAt = now\<rparr>
      in item\<lparr>dr_SubjectDigest := CalculateSubjectDigest item\<rparr>)"

definition handleCreateDelivery :: "gotime \<Rightarrow> createDeliveryRequest option \<Rightarrow> handler" where
  "handleCreateDelivery now body = decodeJSON body (\<lambda>req.
     if cd_ID req = [] \<or> cd_RunID req = []
     then Respond (writeError 400 ''delivery_receipt_id and run_id are required'')
     else getRunForRequest (cd_RunID req) (or_store_error (\<lambda>(value, _).
       if run_State value \<noteq> RunCompleted
       then Respond (writeError 409 ''run must be COMPLETED before creating delivery'')
       else getFrozenTaskForRequest (run_TaskContractDigest value) (or_store_error (\<lambda>task.
         if cd_ResultCommit req = [] \<and> cd_Artifacts req = []
         then Respond (writeError 400 ''delivery requires result_commit or at least one artifact'')
         else if list_ex (\<lambda>a. art_ID a = [] \<or> art_Digest a = []) (cd_Artifacts req)
         then Respond (writeError 400 ''artifact_id and digest are required'')
         else createDeliveryForRequest (bound_delivery now req value task)
                (exists_or_internal (201, BDelivery (bound_delivery now req value task))))))))"

definition handleGetDelivery :: "string \<Rightarrow> handler" where
  "handleGetDelivery i = getDeliveryForRequest i (or_store_error (\<lambda>item. Respond (200, BDelivery item)))"

record createEvidenceRequest =
  ce_DeliveryReceiptID :: string
  ce_Evidence :: EvidenceRef

definition bound_evidence :: "EvidenceRef \<Rightarrow> DeliveryReceipt \<Rightarrow> EvidenceRef" where
  "bound_evidence evidence delivery =
     evidence\<lparr>ev_DeliveryReceiptID := dr_ID delivery, ev_SubjectDigest := dr_SubjectDigest delivery\<rparr>"

definition handleCreateEvidence :: "createEvidenceRequest option \<Rightarrow> handler" where
  "handleCreateEvidence body = decodeJSON body (\<lambda>req. let ev = ce_Evidence req in
     if ce_DeliveryReceiptID req = [] \<or> ev_ID ev = [] \<or> ev_RequirementID ev = [] \<or> ev_Issuer ev = []
        \<or> ev_Procedure ev = [] \<or> ev_Result ev = []
     then Respond (writeError 400 ''delivery_receipt_id, evidence_id, requirement_id, issuer, procedure and result are required'')
     else getDeliveryForRequest (ce_DeliveryReceiptID req) (or_store_error (\<lambda>delivery.
       getFrozenTaskForRequest (dr_TaskContractDigest delivery) (or_store_error (\<lambda>task.
         getVerificationPlanForRequest (task_VerificationPlanDigest task) (or_store_error (\<lambda>plan.
           case FindRequirement plan (ev_RequirementID ev) of
             None \<Rightarrow> Respond (writeError 422 ''evidence requirement_id is not present in the frozen verification plan'')
           | Some requirement \<Rightarrow>
               if ev_Procedure ev \<noteq> ereq_Procedure requirement
                  \<or> (ereq_Issuer requirement \<noteq> [] \<and> ev_Issuer ev \<noteq> ereq_Issuer requirement)
               then Respond (writeError 422 ''evidence issuer/procedure does not match the frozen verification requirement'')
               else if \<not> EvidenceArtifactsBelongToDelivery delivery (bound_evidence ev delivery)
               then Respond (writeError 422 ''evidence artifact_refs must be unique artifacts from the exact delivery'')
               else registerEvidenceForRequest (bound_evidence ev delivery) (\<lambda>e. case e of
                 None \<Rightarrow> Respond (201, BEvidence (bound_evidence ev delivery))
               | Some x \<Rightarrow>
                   if errors_Is x ErrExists then Respond (writePublicError 409)
                   else if errors_Is x ErrConflict then Respond (writePublicError 422)
                   else Respond (writeCommitAwareInternalError x)))))))))"

definition handleGetEvidence :: "string \<Rightarrow> handler" where
  "handleGetEvidence i = getEvidenceForRequest i (or_store_error (\<lambda>item. Respond (200, BEvidence item)))"

subsection \<open>Verification, review, closure\<close>

record createVerificationRequest =
  cv_ReportID :: string
  cv_DeliveryReceiptID :: string
  cv_Verifier :: string
  cv_EvidenceIDs :: "string list"

text \<open>The loop that reads the listed evidence, in order, one store call each.\<close>

fun collect_evidence :: "string list \<Rightarrow> EvidenceRef list \<Rightarrow> (EvidenceRef list \<Rightarrow> handler) \<Rightarrow> handler" where
  "collect_evidence [] acc k = k acc"
| "collect_evidence (i # is) acc k =
     getEvidenceForRequest i (or_store_error (\<lambda>item. collect_evidence is (acc @ [item]) k))"

definition bound_report ::
  "gotime \<Rightarrow> createVerificationRequest \<Rightarrow> DeliveryReceipt \<Rightarrow> TaskContract \<Rightarrow> Plan \<Rightarrow> EvidenceRef list \<Rightarrow> VerificationReport" where
  "bound_report now req delivery task plan evidence =
     (Evaluate plan (dr_SubjectDigest delivery) evidence)
       \<lparr>vr_ID := cv_ReportID req, vr_VerificationPlanDigest := task_VerificationPlanDigest task,
        vr_DeliveryReceiptID := dr_ID delivery, vr_Verifier := cv_Verifier req, vr_CreatedAt := now\<rparr>"

definition handleCreateVerification :: "gotime \<Rightarrow> createVerificationRequest option \<Rightarrow> handler" where
  "handleCreateVerification now body = decodeJSON body (\<lambda>req.
     if cv_ReportID req = [] \<or> cv_DeliveryReceiptID req = [] \<or> cv_Verifier req = []
     then Respond (writeError 400 ''verification_report_id, delivery_receipt_id and verifier are required'')
     else getDeliveryForRequest (cv_DeliveryReceiptID req) (or_store_error (\<lambda>delivery.
       getFrozenTaskForRequest (dr_TaskContractDigest delivery) (or_store_error (\<lambda>task.
         getVerificationPlanForRequest (task_VerificationPlanDigest task) (or_store_error (\<lambda>plan.
           collect_evidence (cv_EvidenceIDs req) [] (\<lambda>evidence.
             let report = bound_report now req delivery task plan evidence in
             createVerificationForRequest report
               (exists_or_internal
                 (if vr_Result report \<noteq> ''PASS'' then 422 else 201, BVerification report))))))))))"

definition handleGetVerification :: "string \<Rightarrow> handler" where
  "handleGetVerification i = getVerificationForRequest i (or_store_error (\<lambda>report. Respond (200, BVerification report)))"

record createReviewRequest =
  cw_ReportID :: string
  cw_DeliveryReceiptID :: string
  cw_VerificationReportID :: string
  cw_Reviewer :: string
  cw_Result :: string
  cw_Findings :: "Finding list"
  cw_KnownLimits :: "string list"

definition bound_review ::
  "gotime \<Rightarrow> createReviewRequest \<Rightarrow> DeliveryReceipt \<Rightarrow> VerificationReport \<Rightarrow> ReviewReport" where
  "bound_review now req delivery verificationReport =
     \<lparr>rr_ID = cw_ReportID req, rr_DeliveryReceiptID = dr_ID delivery,
      rr_VerificationReportID = vr_ID verificationReport,
      rr_TaskContractDigest = dr_TaskContractDigest delivery, rr_SubjectDigest = dr_SubjectDigest delivery,
      rr_Reviewer = cw_Reviewer req, rr_Result = cw_Result req, rr_Findings = cw_Findings req,
      rr_KnownLimits = cw_KnownLimits req, rr_CreatedAt = now\<rparr>"

definition review_phase :: "ReviewReport \<Rightarrow> WorkItem \<Rightarrow> handler" where
  "review_phase report work =
     (case ReviewReport_Validate report of
        Some _ \<Rightarrow> Respond (writePublicError 422)
      | None \<Rightarrow>
          (case (if rr_Result report = ''PASS'' then Transition work WorkReviewing else Inr work) of
             Inl _ \<Rightarrow> Respond (writePublicError 409)
           | Inr nextWork \<Rightarrow>
               createReviewForRequest report (work_Version work) nextWork (mutation_result (201, BReview report))))"

definition handleCreateReview :: "gotime \<Rightarrow> createReviewRequest option \<Rightarrow> handler" where
  "handleCreateReview now body = decodeJSON body (\<lambda>req.
     if cw_ReportID req = [] \<or> cw_DeliveryReceiptID req = [] \<or> cw_VerificationReportID req = []
        \<or> cw_Reviewer req = [] \<or> cw_Result req = []
     then Respond (writeError 400 ''review_report_id, delivery_receipt_id, verification_report_id, reviewer and result are required'')
     else getDeliveryForRequest (cw_DeliveryReceiptID req) (or_store_error (\<lambda>delivery.
       getVerificationForRequest (cw_VerificationReportID req) (or_store_error (\<lambda>verificationReport.
         if vr_Result verificationReport \<noteq> ''PASS'' \<or> vr_DeliveryReceiptID verificationReport \<noteq> dr_ID delivery
            \<or> vr_SubjectDigest verificationReport \<noteq> dr_SubjectDigest delivery
         then Respond (writeError 422 ''review requires PASS verification for the exact delivery subject'')
         else getWorkForRequest (dr_WorkItemID delivery) (or_store_error (\<lambda>work.
           if work_State work \<noteq> WorkVerifying
              \<or> work_ActiveTaskContractDigest work \<noteq> dr_TaskContractDigest delivery
              \<or> work_ActiveRunID work \<noteq> dr_RunID delivery
           then Respond (writeError 409 ''work is not verifying this delivery subject'')
           else if cw_Reviewer req = vr_Verifier verificationReport \<or> cw_Reviewer req = work_HumanOwner work
           then Respond (writeError 422 ''reviewer must be independent from verifier and work owner'')
           else review_phase (bound_review now req delivery verificationReport) work)))))))"

definition handleGetReview :: "string \<Rightarrow> handler" where
  "handleGetReview i = getReviewForRequest i (or_store_error (\<lambda>report. Respond (200, BReview report)))"

record createClosureRequest =
  cx_ID :: string
  cx_DeliveryReceiptID :: string
  cx_VerificationReportID :: string
  cx_ReviewReportID :: string

definition bound_closure ::
  "gotime \<Rightarrow> createClosureRequest \<Rightarrow> DeliveryReceipt \<Rightarrow> VerificationReport \<Rightarrow> ClosureReceipt" where
  "bound_closure now req delivery report =
     \<lparr>cl_ID = cx_ID req, cl_WorkItemID = dr_WorkItemID delivery, cl_TaskContractDigest = dr_TaskContractDigest delivery,
      cl_RunID = dr_RunID delivery, cl_DeliveryReceiptID = dr_ID delivery, cl_VerificationReportID = vr_ID report,
      cl_ReviewReportID = cx_ReviewReportID req, cl_SubjectDigest = dr_SubjectDigest delivery,
      cl_Result = ''CLOSED'', cl_CreatedAt = now\<rparr>"

definition closure_phase ::
  "gotime \<Rightarrow> createClosureRequest \<Rightarrow> DeliveryReceipt \<Rightarrow> VerificationReport \<Rightarrow> handler" where
  "closure_phase now req delivery report =
     getRunForRequest (dr_RunID delivery) (or_store_error (\<lambda>(value, _).
       if run_State value \<noteq> RunCompleted \<or> run_TaskContractDigest value \<noteq> dr_TaskContractDigest delivery
       then Respond (writeError 409 ''delivery does not match a completed run'')
       else getWorkForRequest (dr_WorkItemID delivery) (or_store_error (\<lambda>work.
         if work_State work \<noteq> WorkReviewing \<or> work_ActiveRunID work \<noteq> dr_RunID delivery
            \<or> work_ActiveTaskContractDigest work \<noteq> dr_TaskContractDigest delivery
         then Respond (writeError 409 ''work is not reviewing this delivery subject'')
         else (case Transition work WorkClosed of
                 Inl _ \<Rightarrow> Respond (writePublicError 409)
               | Inr work' \<Rightarrow>
                   createClosureForRequest (bound_closure now req delivery report) (work_Version work) work'
                     (mutation_result (201, BClosure (bound_closure now req delivery report))))))))"

definition handleCreateClosure :: "gotime \<Rightarrow> createClosureRequest option \<Rightarrow> handler" where
  "handleCreateClosure now body = decodeJSON body (\<lambda>req.
     if cx_ID req = [] \<or> cx_DeliveryReceiptID req = [] \<or> cx_VerificationReportID req = [] \<or> cx_ReviewReportID req = []
     then Respond (writeError 400 ''closure_receipt_id, delivery_receipt_id, verification_report_id and review_report_id are required'')
     else getDeliveryForRequest (cx_DeliveryReceiptID req) (or_store_error (\<lambda>delivery.
       getVerificationForRequest (cx_VerificationReportID req) (or_store_error (\<lambda>report.
         if vr_Result report \<noteq> ''PASS'' \<or> vr_DeliveryReceiptID report \<noteq> dr_ID delivery
            \<or> vr_SubjectDigest report \<noteq> dr_SubjectDigest delivery
         then Respond (writeError 422 ''closure requires PASS verification for the exact delivery subject'')
         else getReviewForRequest (cx_ReviewReportID req) (or_store_error (\<lambda>reviewReport.
           if rr_Result reviewReport \<noteq> ''PASS'' \<or> rr_DeliveryReceiptID reviewReport \<noteq> dr_ID delivery
              \<or> rr_VerificationReportID reviewReport \<noteq> vr_ID report
              \<or> rr_TaskContractDigest reviewReport \<noteq> dr_TaskContractDigest delivery
              \<or> rr_SubjectDigest reviewReport \<noteq> dr_SubjectDigest delivery
           then Respond (writeError 422 ''closure requires PASS independent review for the exact verified delivery subject'')
           else closure_phase now req delivery report)))))))"

definition handleGetClosure :: "string \<Rightarrow> handler" where
  "handleGetClosure i = getClosureForRequest i (or_store_error (\<lambda>item. Respond (200, BClosure item)))"

end
