(* ===== verification/Server.thy ===== *)
theory Server
  imports Api
begin

text \<open>
  The control plane as a whole: the routes of \<open>server.go\<close>, any number of requests in flight over one
  store, and a schedule that decides whose store call comes next. A request is proved correct on
  its own, against every history that the others can make of the store between two of its calls:
  \<open>safe\<close> is the rely-guarantee judgement, \<open>authority_ok\<close> the invariant that the store alone does not
  enforce, \<open>recorded\<close> what a response promises, and \<open>sound_routes\<close> the result for every route.
\<close>

section \<open>Routes and the server\<close>

datatype http_call =
    GetHealth | GetCapabilities | GetRecovery
  | PostRecoveryBegin "uint64 option" | PostRecoveryComplete "uint64 option"
  | PostWork gotime "WorkItem option" | GetWork string
  | PostTask "createTaskRequest option" | GetTask string | GetTaskByDigest string | GetPlanByDigest string
  | PostRun gotime "createRunRequest option" | GetRun string
  | PostPause string "uint64 option" | PostResume string "uint64 option" | PostTakeover string "uint64 option"
  | PostComplete string "uint64 option" | GetSteering string
  | PostCheckpoint gotime string "createCheckpointRequest option" | GetCheckpoint string
  | GetAction "(ctx \<Rightarrow> string \<Rightarrow> Memory \<Rightarrow> Operation result) option" string
  | PostDelivery gotime "createDeliveryRequest option" | GetDelivery string
  | PostEvidence "createEvidenceRequest option" | GetEvidence string
  | PostVerification gotime "createVerificationRequest option" | GetVerification string
  | PostReview gotime "createReviewRequest option" | GetReview string
  | PostClosure gotime "createClosureRequest option" | GetClosure string

fun routes :: "http_call \<Rightarrow> handler" where
  "routes GetHealth = handleHealth"
| "routes GetCapabilities = handleCapabilities"
| "routes GetRecovery = handleGetRecovery"
| "routes (PostRecoveryBegin b) = handleBeginRecovery b"
| "routes (PostRecoveryComplete b) = handleCompleteRecovery b"
| "routes (PostWork now b) = handleCreateWork now b"
| "routes (GetWork i) = handleGetWork i"
| "routes (PostTask b) = handleCreateTask b"
| "routes (GetTask i) = handleGetTask i"
| "routes (GetTaskByDigest d) = handleGetFrozenTaskByDigest d"
| "routes (GetPlanByDigest d) = handleGetFrozenVerificationPlanByDigest d"
| "routes (PostRun now b) = handleCreateRun now b"
| "routes (GetRun i) = handleGetRun i"
| "routes (PostPause i b) = handlePause i b"
| "routes (PostResume i b) = handleResume i b"
| "routes (PostTakeover i b) = handleTakeover i b"
| "routes (PostComplete i b) = handleCompleteRun i b"
| "routes (GetSteering i) = handleGetSteering i"
| "routes (PostCheckpoint now i b) = handleCreateCheckpoint now i b"
| "routes (GetCheckpoint i) = handleGetCheckpoint i"
| "routes (GetAction a i) = handleGetAction a i"
| "routes (PostDelivery now b) = handleCreateDelivery now b"
| "routes (GetDelivery i) = handleGetDelivery i"
| "routes (PostEvidence b) = handleCreateEvidence b"
| "routes (GetEvidence i) = handleGetEvidence i"
| "routes (PostVerification now b) = handleCreateVerification now b"
| "routes (GetVerification i) = handleGetVerification i"
| "routes (PostReview now b) = handleCreateReview now b"
| "routes (GetReview i) = handleGetReview i"
| "routes (PostClosure now b) = handleCreateClosure now b"
| "routes (GetClosure i) = handleGetClosure i"

text \<open>The server: the store and the requests in flight; a schedule picks who makes the next store call.\<close>

record server =
  sv_store :: Memory
  sv_requests :: "handler list"

definition server_step :: "nat \<times> ctx \<Rightarrow> server \<Rightarrow> server" where
  "server_step e s =
     (if fst e < length (sv_requests s)
      then case sv_requests s ! fst e of
             Respond r \<Rightarrow> s
           | Call eff k \<Rightarrow>
               \<lparr>sv_store = eff (snd e) (sv_store s),
                sv_requests = (sv_requests s)[fst e := k (snd e) (sv_store s)]\<rparr>
      else s)"

definition NewServer :: "Memory \<Rightarrow> http_call list \<Rightarrow> server" where
  "NewServer m calls = \<lparr>sv_store = m, sv_requests = map routes calls\<rparr>"

definition serve :: "(nat \<times> ctx) list \<Rightarrow> server \<Rightarrow> server" where
  "serve es s = fold server_step es s"

section \<open>Requests against histories\<close>

definition history :: "Memory \<Rightarrow> Memory \<Rightarrow> bool" where
  "history m m' \<longleftrightarrow> (\<exists>n. store_steps n m m')"

lemma history_refl [simp, intro]: "history m m"
  unfolding history_def by (blast intro: store_none)

lemma history_step: "history m m' \<Longrightarrow> do_store call m' = Inr m'' \<Longrightarrow> history m m''"
  unfolding history_def by (blast intro: store_more)

lemma store_steps_add: "store_steps k m' m'' \<Longrightarrow> store_steps n m m' \<Longrightarrow> store_steps (n + k) m m''"
  by (induction rule: store_steps.induct) (auto intro: store_more)

lemma history_trans [trans]: "history m m' \<Longrightarrow> history m' m'' \<Longrightarrow> history m m''"
  unfolding history_def by (blast intro: store_steps_add)

text \<open>
  \<open>safe I Q h m\<close>: from the store \<open>m\<close> on, whatever the others do to the store as long as \<open>I\<close> holds, every
  call of \<open>h\<close> is one accepted write or none and keeps \<open>I\<close>, and the response satisfies \<open>Q\<close>.
\<close>

primrec safe :: "(Memory \<Rightarrow> bool) \<Rightarrow> (response \<Rightarrow> Memory \<Rightarrow> bool) \<Rightarrow> handler \<Rightarrow> Memory \<Rightarrow> bool" where
  "safe I Q (Respond r) = (\<lambda>m. Q r m)"
| "safe I Q (Call e k) = (\<lambda>m. \<forall>c m'. history m m' \<longrightarrow> I m' \<longrightarrow>
     history m' (e c m') \<and> I (e c m') \<and> safe I Q (k c m') (e c m'))"

lemma safe_fetch:
  assumes "\<And>c m'. history m m' \<Longrightarrow> I m' \<Longrightarrow> safe I Q (k (unless_err (c 0) (f (ctx_from 1 c) m'))) m'"
  shows "safe I Q (fetch f k) m"
  using assms by (simp add: fetch_def)

lemma safe_get:
  assumes "\<And>c m' x. history m m' \<Longrightarrow> I m' \<Longrightarrow> f c m' = Inr x \<Longrightarrow> safe I Q (k (Inr x)) m'"
    and "\<And>e m'. history m m' \<Longrightarrow> I m' \<Longrightarrow> safe I Q (k (Inl e)) m'"
  shows "safe I Q (fetch f k) m"
proof (rule safe_fetch)
  fix c m' assume *: "history m m'" "I m'"
  show "safe I Q (k (unless_err (c 0) (f (ctx_from 1 c) m'))) m'"
    using assms(1) [OF *] assms(2) [OF *]
    by (cases "unless_err (c 0) (f (ctx_from 1 c) m')") auto
qed

lemma safe_put_with:
  assumes "\<And>c m' x m''. history m m' \<Longrightarrow> I m' \<Longrightarrow> f c m' = Inr (x, m'') \<Longrightarrow>
             history m' m'' \<and> I m'' \<and> safe I Q (k (Inr x)) m''"
    and "\<And>e m'. history m m' \<Longrightarrow> I m' \<Longrightarrow> safe I Q (k (Inl e)) m'"
  shows "safe I Q (put_with f k) m"
proof -
  have "history m' (case r of Inl _ \<Rightarrow> m' | Inr (_, m'') \<Rightarrow> m'')
      \<and> I (case r of Inl _ \<Rightarrow> m' | Inr (_, m'') \<Rightarrow> m'')
      \<and> safe I Q (k (case r of Inl e \<Rightarrow> Inl e | Inr (x, _) \<Rightarrow> Inr x)) (case r of Inl _ \<Rightarrow> m' | Inr (_, m'') \<Rightarrow> m'')"
    if "history m m'" "I m'" and r: "r = unless_err (c 0) (f (ctx_from 1 c) m')" for c m' r
  proof (cases r)
    case (Inl e)
    with that(1,2) assms(2) show ?thesis by simp
  next
    case (Inr p)
    with r have "f (ctx_from 1 c) m' = Inr p" by (metis unless_err_Inr)
    with Inr assms(1) [OF that(1,2)] show ?thesis by (cases p) simp
  qed
  then show ?thesis by (simp add: put_with_def)
qed


lemma safe_put:
  assumes "\<And>c m' m''. history m m' \<Longrightarrow> I m' \<Longrightarrow> f c m' = Inr m'' \<Longrightarrow>
             history m' m'' \<and> I m'' \<and> safe I Q (k None) m''"
    and "\<And>e m'. history m m' \<Longrightarrow> I m' \<Longrightarrow> safe I Q (k (Some e)) m'"
  shows "safe I Q (put f k) m"
  unfolding put_def
proof (rule safe_put_with)
  fix c m' x m'' assume "history m m'" "I m'" and "rbind (f c m') (\<lambda>m'. Inr ((), m')) = Inr (x, m'')"
  with assms(1) [of m' c m''] show "history m' m'' \<and> I m'' \<and> safe I Q (k (case Inr x of Inl e \<Rightarrow> Some e | Inr _ \<Rightarrow> None)) m''"
    by simp
qed (use assms(2) in simp)

lemma safe_or_store_error:
  "safe I Q (or_store_error k (Inl e)) m \<longleftrightarrow> Q (writeStoreError e) m"
  "safe I Q (or_store_error k (Inr x)) m \<longleftrightarrow> safe I Q (k x) m"
  by (simp_all add: or_store_error_def)

lemma safe_mono: "safe I Q h m \<Longrightarrow> history m m' \<Longrightarrow> (\<And>r. Q r m \<Longrightarrow> Q r m') \<Longrightarrow> safe I Q h m'"
  by (cases h) (auto intro: history_trans)

section \<open>What the server keeps true\<close>

text \<open>The session of a run belongs to it and has its epoch.\<close>

definition paired :: "string \<Rightarrow> Run \<Rightarrow> Session \<Rightarrow> bool" where
  "paired i r s \<longleftrightarrow> run_ID r = i \<and> sess_RunID s = i \<and> sess_ExecutionEpoch s = run_CurrentEpoch r"

definition executions_agree :: "Memory \<Rightarrow> bool" where
  "executions_agree m \<longleftrightarrow>
     (\<forall>i r s. mem_runs m i = Some r \<longrightarrow> mem_sessions m i = Some s \<longrightarrow> paired i r s)"

text \<open>A delivery describes a run of its frozen task and carries the digest of its own subject.\<close>

definition delivery_backed :: "Memory \<Rightarrow> DeliveryReceipt \<Rightarrow> bool" where
  "delivery_backed m d \<longleftrightarrow>
     (\<exists>r t. mem_runs m (dr_RunID d) = Some r \<and> run_TaskContractDigest r = dr_TaskContractDigest d
        \<and> mem_tasksByDigest m (dr_TaskContractDigest d) = Some t
        \<and> dr_WorkItemID d = task_WorkItemID t \<and> dr_TargetID d = task_TargetID t
        \<and> dr_BaseCommit d = task_BaseCommit t)
     \<and> dr_SubjectDigest d = CalculateSubjectDigest d"

definition deliveries_ok :: "Memory \<Rightarrow> bool" where
  "deliveries_ok m \<longleftrightarrow> (\<forall>i d. mem_deliveries m i = Some d \<longrightarrow> delivery_backed m d)"

text \<open>A passing report: its plan is the one frozen in the task and stored evidence satisfies all of it.\<close>

definition report_backed :: "Memory \<Rightarrow> VerificationReport \<Rightarrow> bool" where
  "report_backed m v \<longleftrightarrow>
     (\<exists>d t p es. mem_deliveries m (vr_DeliveryReceiptID v) = Some d
        \<and> mem_tasksByDigest m (dr_TaskContractDigest d) = Some t
        \<and> Plan_Digest p = task_VerificationPlanDigest t \<and> vr_VerificationPlanDigest v = Plan_Digest p
        \<and> vr_SubjectDigest v = dr_SubjectDigest d
        \<and> vr_EvidenceIDs v = map ev_ID es \<and> list_all (\<lambda>e. mem_evidence m (ev_ID e) = Some e) es
        \<and> (vr_Result v = ''PASS'' \<longleftrightarrow> plan_satisfied p (dr_SubjectDigest d) es))"

definition reports_ok :: "Memory \<Rightarrow> bool" where
  "reports_ok m \<longleftrightarrow> (\<forall>i v. mem_verificationReports m i = Some v \<longrightarrow> report_backed m v)"

text \<open>Work items, checkpoints and steering commands stand under their own identifiers.\<close>

definition keys_ok :: "Memory \<Rightarrow> bool" where
  "keys_ok m \<longleftrightarrow>
     (\<forall>i w. mem_works m i = Some w \<longrightarrow> work_ID w = i)
     \<and> (\<forall>i k. mem_checkpoints m i = Some k \<longrightarrow> cp_ID k = i)
     \<and> (\<forall>i cmd. mem_steeringCommands m i = Some cmd \<longrightarrow> cmd_ID cmd = i)"

definition authority_ok :: "Memory \<Rightarrow> bool" where
  "authority_ok m \<longleftrightarrow> contracts_ok m \<and> (\<forall>i. revisions_ok m i) \<and> keys_ok m \<and> assurance_ok m \<and> evidence_ok m \<and> runs_ok m
     \<and> executions_agree m \<and> deliveries_ok m \<and> reports_ok m"

text \<open>What a caller of the store owes for these, call by call; the handlers make no other calls.\<close>

fun call_ok :: "store_call \<Rightarrow> Memory \<Rightarrow> bool" where
  "call_ok (SCreateExecution r s inp) m \<longleftrightarrow> paired (run_ID r) r s"
| "call_ok (SUpdateExecution c i v r s) m \<longleftrightarrow> paired i r s"
| "call_ok (SRecordSteering c i v r s cmd) m \<longleftrightarrow> paired i r s"
| "call_ok (SUpdateExecutionAndWork c i v r s wv w) m \<longleftrightarrow> paired i r s"
| "call_ok (SUpdateWork c i v w) m \<longleftrightarrow> work_ID w = i"
| "call_ok (SCreateDelivery c d) m \<longleftrightarrow> delivery_backed m d"
| "call_ok (SCreateVerification c v) m \<longleftrightarrow> report_backed m v"
| "call_ok _ m \<longleftrightarrow> True"

lemma paired_version [simp]: "paired i (r\<lparr>run_Version := v\<rparr>) s \<longleftrightarrow> paired i r s"
  by (simp add: paired_def)

lemma paired_with_version [simp]: "paired i (with_version r) s \<longleftrightarrow> paired i r s"
  by (simp add: with_version_def)

lemma executions_agree_put:
  "executions_agree m \<Longrightarrow> paired i r s \<Longrightarrow> mem_runs m' = (mem_runs m)(i \<mapsto> r) \<Longrightarrow>
   mem_sessions m' = (mem_sessions m)(i \<mapsto> s) \<Longrightarrow> executions_agree m'"
  by (simp add: executions_agree_def)

lemma executions_agree_frame:
  "executions_agree m \<Longrightarrow> mem_runs m' = mem_runs m \<Longrightarrow> mem_sessions m' = mem_sessions m \<Longrightarrow> executions_agree m'"
  by (simp add: executions_agree_def)

lemma executions_agree_step:
  assumes step: "do_store call m = Inr m'" and own: "call_ok call m" and ok: "executions_agree m"
  shows "executions_agree m'"
proof (cases call)
  case (SCreateExecution r s inp)
  with step own show ?thesis
    by (intro executions_agree_put [OF ok, of "run_ID r" "with_version r" s]) (auto simp: store_write_defs)
next
  case (SCreateExecutionAndUpdateWork c r a s inp v w)
  with step show ?thesis
    by (intro executions_agree_put [OF ok, of "run_ID r" "with_version r" s]) (auto simp: store_write_defs paired_def with_version_def)
next
  case (SUpdateExecution c i v r s)
  with step own show ?thesis
    by (intro executions_agree_put [OF ok, of i "r\<lparr>run_Version := v + 1\<rparr>" s]) (auto simp: store_write_defs)
next
  case (SRecordSteering c i v r s cmd)
  with step own show ?thesis
    by (intro executions_agree_put [OF ok, of i "r\<lparr>run_Version := v + 1\<rparr>" s]) (auto simp: store_write_defs)
next
  case (SUpdateExecutionAndWork c i v r s wv w)
  with step own show ?thesis
    by (intro executions_agree_put [OF ok, of i "r\<lparr>run_Version := v + 1\<rparr>" s]) (auto simp: store_write_defs)
qed (rule executions_agree_frame [OF ok], use step in \<open>auto simp: store_write_defs\<close>)+

lemma delivery_backed_step:
  assumes step: "do_store call m = Inr m'" and "delivery_backed m d"
  shows "delivery_backed m' d"
proof -
  from assms(2) obtain r t where 1: "mem_runs m (dr_RunID d) = Some r"
    "run_TaskContractDigest r = dr_TaskContractDigest d" "mem_tasksByDigest m (dr_TaskContractDigest d) = Some t"
    and 2: "dr_WorkItemID d = task_WorkItemID t \<and> dr_TargetID d = task_TargetID t \<and> dr_BaseCommit d = task_BaseCommit t"
    "dr_SubjectDigest d = CalculateSubjectDigest d"
    unfolding delivery_backed_def by blast
  from run_version_step [OF step 1(1)] obtain r' where 3: "mem_runs m' (dr_RunID d) = Some r'" "same_frozen_input r r'"
    by blast
  moreover from tasksByDigest_once [OF step] 1(3) have "mem_tasksByDigest m' (dr_TaskContractDigest d) = Some t"
    by (rule extendsD)
  ultimately show ?thesis
    using 1 2 unfolding delivery_backed_def same_frozen_input_def by metis
qed

lemma report_backed_step:
  assumes step: "do_store call m = Inr m'" and "report_backed m v"
  shows "report_backed m' v"
proof -
  have "list_all (\<lambda>e. mem_evidence m (ev_ID e) = Some e) es \<Longrightarrow> list_all (\<lambda>e. mem_evidence m' (ev_ID e) = Some e) es" for es
    by (erule list.pred_mono_strong) (rule extendsD [OF evidence_once [OF step]])
  moreover obtain d tk p es where 1: "mem_deliveries m (vr_DeliveryReceiptID v) = Some d"
    "mem_tasksByDigest m (dr_TaskContractDigest d) = Some tk" "list_all (\<lambda>e. mem_evidence m (ev_ID e) = Some e) es"
    and 2: "Plan_Digest p = task_VerificationPlanDigest tk \<and> vr_VerificationPlanDigest v = Plan_Digest p
        \<and> vr_SubjectDigest v = dr_SubjectDigest d \<and> vr_EvidenceIDs v = map ev_ID es
        \<and> (vr_Result v = ''PASS'' \<longleftrightarrow> plan_satisfied p (dr_SubjectDigest d) es)"
    using assms(2) unfolding report_backed_def by blast
  moreover note extendsD [OF deliveries_once [OF step] 1(1)] extendsD [OF tasksByDigest_once [OF step] 1(2)]
  ultimately show ?thesis unfolding report_backed_def by blast
qed

lemma deliveries_ok_step:
  assumes step: "do_store call m = Inr m'" and "call_ok call m" and "deliveries_ok m"
  shows "deliveries_ok m'"
proof -
  have "mem_deliveries m i = Some d \<or> delivery_backed m d" if "mem_deliveries m' i = Some d" for i d
    using that assms(1,2) by (cases call) (auto simp: store_write_defs split: if_splits)
  with assms(3) show ?thesis
    unfolding deliveries_ok_def using delivery_backed_step [OF step] by blast
qed

lemma reports_ok_step:
  assumes step: "do_store call m = Inr m'" and "call_ok call m" and "reports_ok m"
  shows "reports_ok m'"
proof -
  have "mem_verificationReports m i = Some v \<or> report_backed m v" if "mem_verificationReports m' i = Some v" for i v
    using that assms(1,2) by (cases call) (auto simp: store_write_defs split: if_splits)
  with assms(3) show ?thesis
    unfolding reports_ok_def using report_backed_step [OF step] by blast
qed

lemma keys_ok_step:
  assumes "do_store call m = Inr m'" and "call_ok call m" and "keys_ok m"
  shows "keys_ok m'"
proof -
  have "mem_works m i = Some w \<or> work_ID w = i" if "mem_works m' i = Some w" for i w
    using that assms(1,2) by (cases call) (auto simp: store_write_defs split: if_splits)
  moreover have "mem_checkpoints m i = Some k \<or> cp_ID k = i" if "mem_checkpoints m' i = Some k" for i k
    using that assms(1) by (cases call) (auto simp: store_write_defs split: if_splits)
  moreover have "mem_steeringCommands m i = Some k \<or> cmd_ID k = i" if "mem_steeringCommands m' i = Some k" for i k
    using that assms(1) by (cases call) (auto simp: store_write_defs split: if_splits)
  ultimately show ?thesis using assms(3) unfolding keys_ok_def by blast
qed

lemma authority_ok_step:
  assumes "do_store call m = Inr m'" and "call_ok call m" and "authority_ok m"
  shows "authority_ok m'"
  using assms unfolding authority_ok_def
  by (blast intro: contracts_ok_step revisions_ok_step keys_ok_step assurance_ok_step evidence_ok_step runs_ok_step executions_agree_step
      deliveries_ok_step reports_ok_step)

lemma authority_ok_NewMemory: "authority_ok NewMemory"
  by (simp add: authority_ok_def contracts_ok_def revisions_ok_def keys_ok_def assurance_ok_def evidence_ok_def runs_ok_def executions_agree_def
      deliveries_ok_def reports_ok_def NewMemory_def)


section \<open>What a response says\<close>

fun recorded :: "body \<Rightarrow> Memory \<Rightarrow> bool" where
  "recorded (BWork w) m \<longleftrightarrow> mem_works m (work_ID w) \<noteq> None"
| "recorded (BTaskFrozen t digest _) m \<longleftrightarrow> digest = TaskContract_Digest t \<and> mem_tasksByDigest m digest = Some t"
| "recorded (BTask t digest) m \<longleftrightarrow> digest = TaskContract_Digest t \<and> mem_tasksByDigest m digest = Some t"
| "recorded (BPlan p digest) m \<longleftrightarrow> digest = Plan_Digest p \<and> mem_verificationPlans m digest \<noteq> None"
| "recorded (BRunStarted r a s inp) m \<longleftrightarrow>
     (\<exists>r'. mem_runs m (run_ID r) = Some r' \<and> same_frozen_input r r')
     \<and> mem_runInputs m (run_RunInputManifestDigest r) = Some inp \<and> paired (run_ID r) r s"
| "recorded (BRun r s inp) m \<longleftrightarrow>
     (\<exists>r'. mem_runs m (run_ID r) = Some r' \<and> same_frozen_input r r')
     \<and> mem_runInputs m (run_RunInputManifestDigest r) = Some inp \<and> paired (run_ID r) r s"
| "recorded (BExecution r s) m \<longleftrightarrow>
     (\<exists>r'. mem_runs m (run_ID r) = Some r' \<and> same_frozen_input r r') \<and> paired (run_ID r) r s"
| "recorded (BSteering cmd) m \<longleftrightarrow> mem_steeringCommands m (cmd_ID cmd) = Some cmd"
| "recorded (BCheckpoint k digest) m \<longleftrightarrow> digest = Checkpoint_Digest k \<and> mem_checkpoints m (cp_ID k) = Some k"
| "recorded (BDelivery d) m \<longleftrightarrow> mem_deliveries m (dr_ID d) = Some d"
| "recorded (BEvidence e) m \<longleftrightarrow> mem_evidence m (ev_ID e) = Some e"
| "recorded (BVerification v) m \<longleftrightarrow> mem_verificationReports m (vr_ID v) = Some v"
| "recorded (BReview r) m \<longleftrightarrow> mem_reviewReports m (rr_ID r) = Some r"
| "recorded (BClosure x) m \<longleftrightarrow> mem_closures m (cl_ID x) = Some x"
| "recorded _ m \<longleftrightarrow> True"

lemma plans_kept:
  "do_store call m = Inr m' \<Longrightarrow> mem_verificationPlans m d \<noteq> None \<Longrightarrow> mem_verificationPlans m' d \<noteq> None"
  by (cases call) (auto simp: store_write_defs)

lemma run_kept:
  assumes "do_store call m = Inr m'" and "\<exists>r'. mem_runs m i = Some r' \<and> same_frozen_input r r'"
  shows "\<exists>r'. mem_runs m' i = Some r' \<and> same_frozen_input r r'"
proof -
  from assms(2) obtain r' where "mem_runs m i = Some r'" "same_frozen_input r r'" by blast
  moreover from run_version_step [OF assms(1) this(1)] obtain r'' where
    "mem_runs m' i = Some r''" "same_frozen_input r' r''" by blast
  ultimately show ?thesis by (auto simp: same_frozen_input_def)
qed

lemma work_kept: "do_store call m = Inr m' \<Longrightarrow> mem_works m i \<noteq> None \<Longrightarrow> mem_works m' i \<noteq> None"
  using work_version_step by fastforce

lemma recorded_step:
  assumes step: "do_store call m = Inr m'" and "recorded b m"
  shows "recorded b m'"
proof (cases b)
  case (BWork w) with assms(2) show ?thesis using work_kept [OF step] by simp
next
  case (BPlan p d) with assms(2) show ?thesis using plans_kept [OF step, of d] by auto
next
  case (BRunStarted r a s inp)
  with assms(2) show ?thesis using run_kept [OF step] extendsD [OF runInputs_once [OF step]] by simp
next
  case (BRun r s inp)
  with assms(2) show ?thesis using run_kept [OF step] extendsD [OF runInputs_once [OF step]] by simp
next
  case (BExecution r s) with assms(2) show ?thesis using run_kept [OF step] by simp
qed (use assms(2) in \<open>simp_all add: extendsD [OF tasksByDigest_once [OF step]] extendsD [OF steeringCommands_once [OF step]]
      extendsD [OF checkpoints_once [OF step]] extendsD [OF deliveries_once [OF step]]
      extendsD [OF evidence_once [OF step]] extendsD [OF verificationReports_once [OF step]]
      extendsD [OF reviewReports_once [OF step]] extendsD [OF closures_once [OF step]]\<close>)

lemma recorded_history: "history m m' \<Longrightarrow> recorded b m \<Longrightarrow> recorded b m'"
proof -
  have "store_steps n m m' \<Longrightarrow> recorded b m \<Longrightarrow> recorded b m'" for n
    by (induction rule: store_steps.induct) (auto intro: recorded_step)
  then show "history m m' \<Longrightarrow> recorded b m \<Longrightarrow> recorded b m'" by (auto simp: history_def)
qed

lemma recorded_errors [simp]:
  "recorded (snd (writeError st msg)) m" "recorded (snd (writePublicError st)) m"
  "recorded (snd writeCommitOutcomeUnknown) m" "recorded (snd (writeCommitAwareInternalError e)) m"
  "recorded (snd (writeStoreError e)) m" "recorded (snd (writeMutationError e)) m"
  "recorded (snd (writeActionError e)) m"
  by (simp_all add: writeError_def writePublicError_def writeCommitOutcomeUnknown_def
      writeCommitAwareInternalError_def writeStoreError_def writeMutationError_def writeActionError_def)


section \<open>Every handler is sound\<close>

abbreviation sound :: "handler \<Rightarrow> Memory \<Rightarrow> bool" where
  "sound \<equiv> safe authority_ok (\<lambda>r. recorded (snd r))"

lemma sound_mono: "sound h m \<Longrightarrow> history m m' \<Longrightarrow> sound h m'"
  by (erule (1) safe_mono) (rule recorded_history)

lemma sound_read:
  assumes "\<And>c m' x. history m m' \<Longrightarrow> authority_ok m' \<Longrightarrow> f c m' = Inr x \<Longrightarrow> sound (k x) m'"
  shows "sound (fetch f (or_store_error k)) m"
  by (rule safe_get) (simp_all add: safe_or_store_error assms)

text \<open>A write that is a store call whose obligations hold whenever it is made.\<close>

lemma sound_write:
  assumes "\<And>c m'. f c m' = do_store (call c) m'"
    and "\<And>c m'. history m m' \<Longrightarrow> authority_ok m' \<Longrightarrow> call_ok (call c) m'"
    and "\<And>c m' m''. history m m' \<Longrightarrow> authority_ok m' \<Longrightarrow> f c m' = Inr m'' \<Longrightarrow> sound (k None) m''"
    and "\<And>e m'. history m m' \<Longrightarrow> sound (k (Some e)) m'"
  shows "sound (put f k) m"
proof (rule safe_put)
  fix c m' m'' assume *: "history m m'" "authority_ok m'" and w: "f c m' = Inr m''"
  from w have step: "do_store (call c) m' = Inr m''" by (simp add: assms(1))
  from history_step [OF history_refl step] authority_ok_step [OF step assms(2) [OF *] *(2)] assms(3) [OF * w]
  show "history m' m'' \<and> authority_ok m'' \<and> sound (k None) m''" by blast
qed (rule assms(4))

lemma sound_write_with:
  assumes "\<And>c m' x m''. f c m' = Inr (x, m'') \<Longrightarrow> do_store (call c) m' = Inr m''"
    and "\<And>c m'. history m m' \<Longrightarrow> authority_ok m' \<Longrightarrow> call_ok (call c) m'"
    and "\<And>c m' x m''. history m m' \<Longrightarrow> authority_ok m' \<Longrightarrow> f c m' = Inr (x, m'') \<Longrightarrow> sound (k (Inr x)) m''"
    and "\<And>e m'. history m m' \<Longrightarrow> sound (k (Inl e)) m'"
  shows "sound (put_with f k) m"
proof (rule safe_put_with)
  fix c m' x m'' assume *: "history m m'" "authority_ok m'" and w: "f c m' = Inr (x, m'')"
  from w have step: "do_store (call c) m' = Inr m''" by (rule assms(1))
  from history_step [OF history_refl step] authority_ok_step [OF step assms(2) [OF *] *(2)] assms(3) [OF * w]
  show "history m' m'' \<and> authority_ok m'' \<and> sound (k (Inr x)) m''" by blast
qed (rule assms(4))

lemma sound_decode: "(\<And>x. sound (k x) m) \<Longrightarrow> sound (decodeJSON body k) m"
  by (simp add: decodeJSON_def split: option.split)

lemma sound_endings:
  "sound (exists_or_internal ok (Some e)) m" "sound (conflict_or_internal ok (Some e)) m"
  "sound (mutation_result ok (Some e)) m"
  "sound (exists_or_internal ok None) m \<longleftrightarrow> recorded (snd ok) m"
  "sound (conflict_or_internal ok None) m \<longleftrightarrow> recorded (snd ok) m"
  "sound (mutation_result ok None) m \<longleftrightarrow> recorded (snd ok) m"
  by (simp_all add: exists_or_internal_def conflict_or_internal_def mutation_result_def)

lemmas request_defs =
  getRecoveryForRequest_def beginRecoveryForRequest_def completeRecoveryForRequest_def createWorkForRequest_def
  getWorkForRequest_def freezeTaskForRequest_def getTaskForRequest_def getFrozenTaskForRequest_def
  startRunForRequest_def getRunForRequest_def getRunInputForRequest_def updateRunForRequest_def
  completeRunForRequest_def getSteeringForRequest_def createCheckpointForRequest_def getCheckpointForRequest_def
  createDeliveryForRequest_def getDeliveryForRequest_def getVerificationPlanForRequest_def
  registerEvidenceForRequest_def getEvidenceForRequest_def createVerificationForRequest_def
  getVerificationForRequest_def createReviewForRequest_def getReviewForRequest_def createClosureForRequest_def
  getClosureForRequest_def getActionForRequest_def

lemmas store_read_defs =
  GetRecoveryContext_def GetWorkContext_def GetTaskContext_def GetTaskByDigestContext_def
  GetVerificationPlanByDigestContext_def GetExecutionContext_def GetRunInputByDigestContext_def
  GetCheckpointContext_def GetSteeringContext_def GetDeliveryContext_def GetEvidenceContext_def
  GetVerificationContext_def GetReviewContext_def GetClosureContext_def

text \<open>What the invariant says of the records a handler reads.\<close>

lemma authority_records:
  assumes "authority_ok m"
  shows "mem_works m i = Some w \<Longrightarrow> work_ID w = i"
    "mem_checkpoints m i = Some cp \<Longrightarrow> cp_ID cp = i"
    "mem_steeringCommands m i = Some cmd \<Longrightarrow> cmd_ID cmd = i"
    "mem_tasksByDigest m i = Some t \<Longrightarrow> TaskContract_Digest t = i"
    "mem_verificationPlans m i = Some p \<Longrightarrow> Plan_Digest p = i"
    "mem_deliveries m i = Some d \<Longrightarrow> dr_ID d = i"
    "mem_evidence m i = Some e \<Longrightarrow> ev_ID e = i"
    "mem_verificationReports m i = Some v \<Longrightarrow> vr_ID v = i"
    "mem_reviewReports m i = Some r \<Longrightarrow> rr_ID r = i"
    "mem_closures m i = Some x \<Longrightarrow> cl_ID x = i"
    "mem_runs m i = Some rn \<Longrightarrow> mem_sessions m i = Some s \<Longrightarrow> paired i rn s"
  using assms
  by (simp_all add: authority_ok_def keys_ok_def contracts_ok_def assurance_ok_def evidence_ok_def executions_agree_def)

lemma sound_health: "sound handleHealth m" "sound handleCapabilities m"
  by (simp_all add: handleHealth_def handleCapabilities_def)

lemma sound_GetRecovery: "sound handleGetRecovery m"
  unfolding handleGetRecovery_def request_defs by (rule safe_get) simp_all

lemma sound_GetWork: "sound (handleGetWork i) m"
  unfolding handleGetWork_def request_defs
  by (rule sound_read) (auto simp: store_read_defs dest: authority_records(1))

lemma latest_task:
  assumes "authority_ok m" and "GetTaskContext c i m = Inr t"
  shows "mem_tasksByDigest m (TaskContract_Digest t) = Some t"
proof -
  from assms(2) obtain n where n: "mem_latestTaskRev m i = Some n" by (auto simp: GetTaskContext_def)
  from assms(1) have r: "revisions_ok m i" by (simp add: authority_ok_def)
  with n obtain versions where v: "mem_tasks m i = Some versions" by (auto simp: revisions_ok_def split: option.splits)
  with r n have "versions n \<noteq> None" by (auto simp: revisions_ok_def)
  then obtain t' where "versions n = Some t'" by blast
  with assms(2) n v r show ?thesis by (auto simp: GetTaskContext_def revisions_ok_def)
qed

lemma sound_GetTask: "sound (handleGetTask i) m"
  unfolding handleGetTask_def request_defs by (rule sound_read) (simp add: latest_task)

lemma sound_GetTaskByDigest: "sound (handleGetFrozenTaskByDigest d) m"
proof -
  have "sound (check_request (if TaskContract_Digest t \<noteq> d then Respond (writePublicError 500)
      else Respond (200, BTask t d))) m'"
    if "authority_ok m'" "mem_tasksByDigest m' d = Some t" for m' t
    unfolding check_request_def
    by (rule sound_read) (use that extendsD in \<open>auto dest: authority_records(4) recorded_history [where b = "BTask t d"]\<close>)
  then show ?thesis
    unfolding handleGetFrozenTaskByDigest_def request_defs
    by (auto intro!: sound_read simp: store_read_defs)
qed


lemma sound_GetPlanByDigest: "sound (handleGetFrozenVerificationPlanByDigest d) m"
proof -
  have "sound (check_request (if Plan_Digest p \<noteq> d then Respond (writePublicError 500)
      else Respond (200, BPlan p d))) m'"
    if "authority_ok m'" "mem_verificationPlans m' d = Some p" for m' p
    unfolding check_request_def
    by (rule sound_read) (use that in \<open>auto dest: authority_records(5) recorded_history [where b = "BPlan p d"]\<close>)
  then show ?thesis
    unfolding handleGetFrozenVerificationPlanByDigest_def request_defs
    by (auto intro!: sound_read simp: store_read_defs)
qed

lemma sound_GetSteering: "sound (handleGetSteering i) m"
  unfolding handleGetSteering_def request_defs
  by (rule sound_read) (auto simp: store_read_defs dest: authority_records(3))

lemma sound_GetCheckpoint: "sound (handleGetCheckpoint i) m"
  unfolding handleGetCheckpoint_def request_defs
  by (rule sound_read) (auto simp: store_read_defs dest: authority_records(2))

lemma sound_GetDelivery: "sound (handleGetDelivery i) m"
  unfolding handleGetDelivery_def request_defs
  by (rule sound_read) (auto simp: store_read_defs dest: authority_records(6))

lemma sound_GetEvidence: "sound (handleGetEvidence i) m"
  unfolding handleGetEvidence_def request_defs
  by (rule sound_read) (auto simp: store_read_defs dest: authority_records(7))

lemma sound_GetVerification: "sound (handleGetVerification i) m"
  unfolding handleGetVerification_def request_defs
  by (rule sound_read) (auto simp: store_read_defs dest: authority_records(8))

lemma sound_GetReview: "sound (handleGetReview i) m"
  unfolding handleGetReview_def request_defs
  by (rule sound_read) (auto simp: store_read_defs dest: authority_records(9))

lemma sound_GetClosure: "sound (handleGetClosure i) m"
  unfolding handleGetClosure_def request_defs
  by (rule sound_read) (auto simp: store_read_defs dest: authority_records(10))

lemma sound_GetAction: "sound (handleGetAction a i) m"
  unfolding handleGetAction_def request_defs
  by (cases a) (auto simp: no_gateway_def intro: safe_get)

text \<open>A run and its session that were read together.\<close>

lemma read_execution:
  assumes "authority_ok m" and "GetExecutionContext c i m = Inr (r, s)"
  shows "mem_runs m i = Some r" "paired i r s"
  using assms authority_records(11) [OF assms(1)] by (auto simp: GetExecutionContext_def)

lemma read_execution_recorded:
  "authority_ok m \<Longrightarrow> GetExecutionContext c i m = Inr (r, s) \<Longrightarrow> recorded (BExecution r s) m"
  using read_execution [of m c i r s] by (auto simp: paired_def same_frozen_input_def)

lemma sound_writeExecution: "sound (writeExecution i) m"
  unfolding writeExecution_def request_defs
proof (rule sound_read)
  fix c m' x assume "authority_ok m'" "GetExecutionContext c i m' = Inr x"
  then show "sound (case x of (value, sess) \<Rightarrow> Respond (200, BExecution value sess)) m'"
    by (cases x) (simp add: read_execution_recorded del: recorded.simps)
qed

lemma sound_GetRun: "sound (handleGetRun i) m"
  unfolding handleGetRun_def request_defs
proof (rule sound_read)
  fix c m' x assume m': "authority_ok m'" "GetExecutionContext c i m' = Inr x"
  obtain r s where x: "x = (r, s)" by (cases x)
  have rec: "recorded (BExecution r s) m'" using m' x by (simp add: read_execution_recorded del: recorded.simps)
  have "sound (fetch (\<lambda>c. GetRunInputByDigestContext c (run_RunInputManifestDigest r))
      (or_store_error (\<lambda>input. Respond (200, BRun r s input)))) m'"
  proof (rule sound_read)
    fix c m'' inp assume "history m' m''" "GetRunInputByDigestContext c (run_RunInputManifestDigest r) m'' = Inr inp"
    with recorded_history [OF this(1) rec] show "sound (Respond (200, BRun r s inp)) m''"
      by (simp add: store_read_defs)
  qed
  with x show "sound (case x of (value, sess) \<Rightarrow>
      fetch (\<lambda>c. GetRunInputByDigestContext c (run_RunInputManifestDigest value))
        (or_store_error (\<lambda>input. Respond (200, BRun value sess input)))) m'"
    by simp
qed

subsection \<open>Writers\<close>

lemma sound_BeginRecovery: "sound (handleBeginRecovery b) m"
  unfolding handleBeginRecovery_def request_defs
  by (intro sound_decode sound_write_with [where call = "\<lambda>c. SBeginRecovery c x" for x]) auto

lemma sound_CompleteRecovery: "sound (handleCompleteRecovery b) m"
proof -
  have "sound (completeRecoveryForRequest epoch True (\<lambda>r. case r of
       Inr s \<Rightarrow> Respond (200, BRecovery s)
     | Inl e \<Rightarrow>
         if errors_Is e ErrCommitOutcomeUnknown then Respond writeCommitOutcomeUnknown
         else if errors_Is e ErrConflict \<or> errors_Is e RecoveryErrStaleEpoch then Respond (writePublicError 409)
         else if errors_Is e RecoveryErrReconciliationRequired then Respond (writePublicError 422)
         else Respond (writePublicError 500))) m" for epoch
    unfolding request_defs by (rule sound_write_with [where call = "\<lambda>c. SCompleteRecovery c epoch True"]) auto
  then show ?thesis unfolding handleCompleteRecovery_def by (intro sound_decode) simp
qed

lemma sound_CreateWork: "sound (handleCreateWork now b) m"
proof -
  have "sound (createWorkForRequest w (exists_or_internal (201, BWork w))) m" for w
    unfolding request_defs
    by (rule sound_write [where call = "\<lambda>c. SCreateWork c w"]) (auto simp: sound_endings CreateWorkContext_def Let_def)
  then show ?thesis unfolding handleCreateWork_def by (intro sound_decode) simp
qed

lemma sound_freeze_phase: "sound (freeze_phase req readiness work contract) m"
proof -
  have "sound (freezeTaskForRequest contract plan v w
      (conflict_or_internal (201, BTaskFrozen contract (TaskContract_Digest contract) readiness))) m" for plan v w
    unfolding request_defs
    by (rule sound_write [where call = "\<lambda>c. SCreateTaskAndUpdateWork c contract plan v w"])
      (auto simp: sound_endings CreateTaskAndUpdateWorkContext_def store_task_def)
  then show ?thesis by (simp add: freeze_phase_def Let_def split: sum.split)
qed

lemma sound_route_phase: "sound (route_phase req readiness work) m"
  unfolding route_phase_def by (auto simp: sound_freeze_phase split: sum.split)

lemma sound_CreateTask: "sound (handleCreateTask b) m"
  unfolding handleCreateTask_def request_defs
  by (auto intro!: sound_decode sound_read simp: Let_def sound_route_phase)


lemma sound_start_phase:
  assumes "RunInputManifest_Digest inp = Inr digest"
  shows "sound (start_phase now req inp digest work) m"
proof -
  have "sound (startRunForRequest r a s inp v w (conflict_or_internal (201, BRunStarted r a s inp))) m"
    for r a s v w
    unfolding request_defs
    by (rule sound_write [where call = "\<lambda>c. SCreateExecutionAndUpdateWork c r a s inp v w"])
      (auto simp: sound_endings CreateExecutionAndUpdateWorkContext_def store_execution_def paired_def
        with_version_def same_frozen_input_def)
  then show ?thesis
    by (auto simp: start_phase_def Let_def split: sum.split)
qed

lemma sound_CreateRun: "sound (handleCreateRun now b) m"
  unfolding handleCreateRun_def request_defs
  by (auto intro!: sound_decode sound_read sound_start_phase simp: Let_def split: sum.split)

text \<open>
  The three mutations of an execution keep the identity of the run and leave run and session at one
  epoch.
\<close>

definition pairing :: "(Run \<Rightarrow> Session \<Rightarrow> (Run \<times> Session \<times> 'x) result) \<Rightarrow> bool" where
  "pairing fn \<longleftrightarrow> (\<forall>i r s r' s' x. paired i r s \<longrightarrow> fn r s = Inr (r', s', x) \<longrightarrow> paired i r' s')"

lemma pairing_both: "pairing (pause_both e)" "pairing (resume_both e)" "pairing (takeover_both e)"
  by (auto simp: pairing_def pause_both_def resume_both_def takeover_both_def paired_def run_defs session_defs Let_def)

lemma sound_mutate:
  assumes fn: "pairing fn" and k: "\<And>r m'. sound (k r) m'"
  shows "sound (mutateExecution i fn k) m"
proof -
  have upd: "sound (updateRunForRequest i v r s (\<lambda>e. k (case e of None \<Rightarrow> Inr x | Some y \<Rightarrow> Inl y))) m'"
    if "paired i r s" for v r s x m'
    unfolding request_defs
    by (rule sound_write [where call = "\<lambda>c. SUpdateExecution c i v r s"]) (use that k in auto)
  have inner: "sound (mutate_phase i fn k r s) m'" if "paired i r s" for r s m'
    unfolding mutate_phase_def getRunInputForRequest_def
    by (rule safe_get) (use that fn k upd in \<open>auto simp: pairing_def split: sum.split\<close>)
  show ?thesis
    unfolding mutateExecution_def getRunForRequest_def
    by (rule safe_get) (use k inner read_execution(2) in \<open>auto split: prod.split\<close>)
qed

lemma sound_Pause: "sound (handlePause i b) m"
  unfolding handlePause_def
  by (intro sound_decode sound_mutate pairing_both) (simp add: sound_writeExecution split: sum.split)

lemma sound_Resume: "sound (handleResume i b) m"
  unfolding handleResume_def
  by (intro sound_decode sound_mutate pairing_both) (simp add: sound_writeExecution split: sum.split)

lemma sound_Takeover: "sound (handleTakeover i b) m"
  unfolding handleTakeover_def
  by (intro sound_decode sound_mutate pairing_both) (simp split: sum.split)

lemma sound_CreateCheckpoint: "sound (handleCreateCheckpoint now i b) m"
proof -
  have put: "sound (createCheckpointForRequest item (\<lambda>r. case r of
      Inr digest \<Rightarrow> Respond (201, BCheckpoint item digest)
    | Inl e \<Rightarrow> if errors_Is e ErrExists then Respond (writePublicError 409)
               else Respond (writeCommitAwareInternalError e))) m'" for item m'
    unfolding request_defs
    by (rule sound_write_with [where call = "\<lambda>c. SCreateCheckpoint c item"])
      (auto simp: CreateCheckpointContext_def Let_def)
  show ?thesis
    unfolding handleCreateCheckpoint_def getRunForRequest_def
    by (auto intro!: sound_decode sound_read simp: put Let_def split: option.split prod.split)
qed

lemma sound_complete_phase:
  assumes "paired i r s" and "Run_Complete r e = Inr r'"
  shows "sound (complete_phase i r r' s) m"
proof -
  have "paired i r' s" using assms by (auto simp: paired_def run_defs)
  then have "sound (completeRunForRequest i v r' s wv w (\<lambda>e. case e of
      Some x \<Rightarrow> Respond (writeMutationError x) | None \<Rightarrow> writeExecution i)) m'" for v wv w m'
    unfolding completeRunForRequest_def
    by (intro sound_write [where call = "\<lambda>c. SUpdateExecutionAndWork c i v r' s wv w"])
      (auto simp: sound_writeExecution)
  then show ?thesis
    unfolding complete_phase_def getFrozenTaskForRequest_def getWorkForRequest_def
    by (intro sound_read) (simp split: sum.split)
qed

lemma sound_CompleteRun: "sound (handleCompleteRun i b) m"
  unfolding handleCompleteRun_def getRunForRequest_def
proof (intro sound_decode sound_read)
  fix epoch c m' x assume "authority_ok m'" "GetExecutionContext c i m' = Inr x"
  with read_execution(2) show "sound (case x of (value, sess) \<Rightarrow> case Run_Complete value epoch of
      Inl e \<Rightarrow> Respond (writeMutationError e) | Inr value' \<Rightarrow> complete_phase i value value' sess) m'"
    by (cases x) (auto simp: sound_complete_phase split: sum.split)
qed


lemma bound_delivery_backed:
  assumes "recorded (BExecution r s) m" and "recorded (BTask t (run_TaskContractDigest r)) m"
  shows "delivery_backed m (bound_delivery now req r t)"
  using assms
  by (auto simp: delivery_backed_def bound_delivery_def Let_def same_frozen_input_def CalculateSubjectDigest_def
      subject_artifacts_def)

lemma sound_CreateDelivery: "sound (handleCreateDelivery now b) m"
proof -
  have put: "sound (createDeliveryForRequest d (exists_or_internal (201, BDelivery d))) m'"
    if "\<And>m''. history m' m'' \<Longrightarrow> delivery_backed m'' d" for d m'
    unfolding request_defs
    by (rule sound_write [where call = "\<lambda>c. SCreateDelivery c d"])
      (use that in \<open>auto simp: sound_endings CreateDeliveryContext_def\<close>)
  have backed: "sound (createDeliveryForRequest (bound_delivery now req r t)
      (exists_or_internal (201, BDelivery (bound_delivery now req r t)))) m''"
    if "authority_ok m'" "GetExecutionContext c i m' = Inr (r, s)" "history m' m''" "authority_ok m''"
      "GetTaskByDigestContext c' (run_TaskContractDigest r) m'' = Inr t" for c i m' r s m'' c' t req
  proof (rule put, rule bound_delivery_backed)
    fix m3 assume h: "history m'' m3"
    show "recorded (BExecution r s) m3"
      using read_execution_recorded [OF that(1,2)] recorded_history [OF history_trans [OF that(3) h]] by blast
    have "recorded (BTask t (run_TaskContractDigest r)) m''"
      using that(4,5) authority_records(4) [OF that(4)] by (auto simp: GetTaskByDigestContext_def)
    then show "recorded (BTask t (run_TaskContractDigest r)) m3" by (rule recorded_history [OF h])
  qed
  show ?thesis
    unfolding handleCreateDelivery_def getRunForRequest_def getFrozenTaskForRequest_def
    by (auto intro!: sound_decode sound_read split: prod.split) (rule backed, assumption+)+
qed

lemma sound_CreateEvidence: "sound (handleCreateEvidence b) m"
proof -
  have put: "sound (registerEvidenceForRequest e (\<lambda>x. case x of
      None \<Rightarrow> Respond (201, BEvidence e)
    | Some x \<Rightarrow>
        if errors_Is x ErrExists then Respond (writePublicError 409)
        else if errors_Is x ErrConflict then Respond (writePublicError 422)
        else Respond (writeCommitAwareInternalError x))) m'" for e m'
    unfolding request_defs
    by (rule sound_write [where call = "\<lambda>c. SCreateEvidence c e"]) (auto simp: CreateEvidenceContext_def)
  show ?thesis
    unfolding handleCreateEvidence_def getDeliveryForRequest_def getFrozenTaskForRequest_def
      getVerificationPlanForRequest_def Let_def
    by (auto intro!: sound_decode sound_read simp: put split: option.split)
qed

definition stored_evidence :: "EvidenceRef list \<Rightarrow> Memory \<Rightarrow> bool" where
  "stored_evidence es m \<longleftrightarrow> list_all (\<lambda>e. mem_evidence m (ev_ID e) = Some e) es"

lemma stored_evidence_history: "history m m' \<Longrightarrow> stored_evidence es m \<Longrightarrow> stored_evidence es m'"
  using recorded_history [of m m' "BEvidence e" for e] by (auto simp: stored_evidence_def list_all_iff)

lemma sound_collect:
  assumes "stored_evidence acc m"
    and "\<And>m' es. history m m' \<Longrightarrow> stored_evidence es m' \<Longrightarrow> sound (k es) m'"
  shows "sound (collect_evidence ids acc k) m"
  using assms
proof (induction ids arbitrary: acc m)
  case Nil
  then show ?case by simp
next
  case (Cons i ids)
  show ?case
    unfolding collect_evidence.simps getEvidenceForRequest_def
  proof (rule sound_read)
    fix c m' e assume m': "history m m'" "authority_ok m'" "GetEvidenceContext c i m' = Inr e"
    then have "mem_evidence m' (ev_ID e) = Some e"
      using authority_records(7) [OF m'(2)] by (auto simp: GetEvidenceContext_def)
    with stored_evidence_history [OF m'(1) Cons.prems(1)] have "stored_evidence (acc @ [e]) m'"
      by (simp add: stored_evidence_def)
    then show "sound (collect_evidence ids (acc @ [e]) k) m'"
      by (rule Cons.IH) (rule Cons.prems(2) [OF history_trans [OF m'(1)]])
  qed
qed

lemma bound_report_backed:
  assumes "recorded (BDelivery d) m" and "recorded (BTask t (dr_TaskContractDigest d)) m"
    and "Plan_Digest p = task_VerificationPlanDigest t" and "stored_evidence es m"
  shows "report_backed m (bound_report now req d t p es)"
  unfolding report_backed_def
  by (rule exI [of _ d], rule exI [of _ t], rule exI [of _ p], rule exI [of _ es])
    (use assms in \<open>auto simp: bound_report_def Evaluate_verdict stored_evidence_def\<close>)

lemma sound_CreateVerification: "sound (handleCreateVerification now b) m"
proof -
  have put: "sound (createVerificationForRequest v (exists_or_internal
      (if vr_Result v \<noteq> ''PASS'' then 422 else 201, BVerification v))) m'"
    if "\<And>m''. history m' m'' \<Longrightarrow> report_backed m'' v" for v m'
    unfolding request_defs
    by (rule sound_write [where call = "\<lambda>c. SCreateVerification c v"])
      (use that in \<open>auto simp: sound_endings CreateVerificationContext_def\<close>)
  have collect: "sound (collect_evidence (cv_EvidenceIDs req) [] (\<lambda>evidence.
             let report = bound_report now req d t p evidence in
             createVerificationForRequest report
               (exists_or_internal
                 (if vr_Result report \<noteq> ''PASS'' then 422 else 201, BVerification report)))) m'"
    if "recorded (BDelivery d) m'" "recorded (BTask t (dr_TaskContractDigest d)) m'"
      "Plan_Digest p = task_VerificationPlanDigest t" for req d t p m'
    unfolding Let_def
    by (rule sound_collect, simp add: stored_evidence_def, rule put, rule bound_report_backed)
      (use that recorded_history stored_evidence_history history_trans in blast)+
  have read: "sound (collect_evidence (cv_EvidenceIDs req) [] (\<lambda>evidence.
             let report = bound_report now req d t p evidence in
             createVerificationForRequest report
               (exists_or_internal
                 (if vr_Result report \<noteq> ''PASS'' then 422 else 201, BVerification report)))) m3"
    if "authority_ok m1" "GetDeliveryContext c1 i m1 = Inr d"
      and "history m1 m2" "authority_ok m2" "GetTaskByDigestContext c2 (dr_TaskContractDigest d) m2 = Inr t"
      and "history m2 m3" "authority_ok m3"
        "GetVerificationPlanByDigestContext c3 (task_VerificationPlanDigest t) m3 = Inr p"
    for req d t p m1 m2 m3 c1 c2 c3 i
  proof (rule collect)
    have "recorded (BDelivery d) m1"
      using that(2) authority_records(6) [OF that(1)] by (auto simp: GetDeliveryContext_def)
    then show "recorded (BDelivery d) m3"
      by (rule recorded_history [OF history_trans [OF that(3,6)]])
    have "recorded (BTask t (dr_TaskContractDigest d)) m2"
      using that(5) authority_records(4) [OF that(4)] by (auto simp: GetTaskByDigestContext_def)
    then show "recorded (BTask t (dr_TaskContractDigest d)) m3" by (rule recorded_history [OF that(6)])
    show "Plan_Digest p = task_VerificationPlanDigest t"
      using that(8) authority_records(5) [OF that(7)] by (auto simp: GetVerificationPlanByDigestContext_def)
  qed
  show ?thesis
    unfolding handleCreateVerification_def getDeliveryForRequest_def getFrozenTaskForRequest_def
      getVerificationPlanForRequest_def
    by (auto intro!: sound_decode sound_read simp del: recorded.simps) (rule read, assumption+)
qed

lemma sound_review_phase: "sound (review_phase report work) m"
proof -
  have "sound (createReviewForRequest report v w (mutation_result (201, BReview report))) m" for v w
    unfolding request_defs
    by (rule sound_write [where call = "\<lambda>c. SCreateReview c report v w"])
      (auto simp: sound_endings CreateReviewAndUpdateWorkContext_def)
  then show ?thesis by (simp add: review_phase_def split: option.split sum.split)
qed

lemma sound_CreateReview: "sound (handleCreateReview now b) m"
  unfolding handleCreateReview_def getDeliveryForRequest_def getVerificationForRequest_def getWorkForRequest_def
  by (intro sound_decode) (auto intro!: sound_read simp: sound_review_phase)

lemma sound_closure_phase: "sound (closure_phase now req delivery report) m"
proof -
  have put: "sound (createClosureForRequest x v w (mutation_result (201, BClosure x))) m'" for x v w m'
    unfolding request_defs
    by (rule sound_write [where call = "\<lambda>c. SCreateClosure c x v w"])
      (auto simp: sound_endings CreateClosureAndUpdateWorkContext_def)
  show ?thesis
    unfolding closure_phase_def getRunForRequest_def getWorkForRequest_def
    by (auto intro!: sound_read simp: put split: prod.split sum.split)
qed

lemma sound_CreateClosure: "sound (handleCreateClosure now b) m"
  unfolding handleCreateClosure_def getDeliveryForRequest_def getVerificationForRequest_def getReviewForRequest_def
  by (intro sound_decode) (auto intro!: sound_read simp: sound_closure_phase)

lemmas sound_handlers =
  sound_health sound_GetRecovery sound_GetWork sound_GetTask sound_GetTaskByDigest sound_GetPlanByDigest
  sound_GetSteering sound_GetCheckpoint sound_GetDelivery sound_GetEvidence sound_GetVerification sound_GetReview
  sound_GetClosure sound_GetAction sound_GetRun sound_BeginRecovery sound_CompleteRecovery sound_CreateWork
  sound_CreateTask sound_CreateRun sound_Pause sound_Resume sound_Takeover sound_CreateCheckpoint
  sound_CompleteRun sound_CreateDelivery sound_CreateEvidence sound_CreateVerification sound_CreateReview
  sound_CreateClosure

lemma sound_routes: "sound (routes call) m"
  by (cases call) (simp_all add: sound_handlers)

end
