(* ===== verification/Schedules.thy ===== *)
theory Schedules
  imports Server
begin

text \<open>
  From one request to all interleavings: \<open>server_invariant\<close> lifts what every route keeps on its own to
  every schedule, and \<open>finish\<close> runs requests one after the other.
\<close>

section \<open>All interleavings\<close>

text \<open>
  What every handler keeps on its own against every history of the store, the server keeps under
  every schedule: the store is a history of accepted writes, the invariant holds, and every request
  in flight can rely on it.
\<close>

definition server_safe :: "(Memory \<Rightarrow> bool) \<Rightarrow> (response \<Rightarrow> Memory \<Rightarrow> bool) \<Rightarrow> Memory \<Rightarrow> server \<Rightarrow> bool" where
  "server_safe I Q m0 s \<longleftrightarrow>
     history m0 (sv_store s) \<and> I (sv_store s) \<and> list_all (\<lambda>h. safe I Q h (sv_store s)) (sv_requests s)"

lemma serve_simps [simp]: "serve [] s = s" "serve (e # es) s = serve es (server_step e s)"
  "serve (es @ es') s = serve es' (serve es s)"
  by (simp_all add: serve_def)

locale server_invariant =
  fixes I :: "Memory \<Rightarrow> bool" and Q :: "response \<Rightarrow> Memory \<Rightarrow> bool" and start :: "'c \<Rightarrow> handler"
  assumes init: "I NewMemory"
    and stable: "history m m' \<Longrightarrow> Q r m \<Longrightarrow> Q r m'"
    and handlers: "safe I Q (start call) m"
begin

lemma arrived: "server_safe I Q NewMemory \<lparr>sv_store = NewMemory, sv_requests = map start calls\<rparr>"
  by (simp add: server_safe_def init handlers list_all_iff)

lemma step:
  assumes "server_safe I Q m0 s"
  shows "server_safe I Q m0 (server_step e s)"
proof (cases "fst e < length (sv_requests s)")
  case False
  with assms show ?thesis by (simp add: server_step_def)
next
  case True
  show ?thesis
  proof (cases "sv_requests s ! fst e")
    case (Respond r)
    with assms True show ?thesis by (simp add: server_step_def)
  next
    case (Call eff k)
    let ?m = "eff (snd e) (sv_store s)"
    have "safe I Q (Call eff k) (sv_store s)"
      using assms True Call by (metis server_safe_def list_all_length)
    then have next_ok: "history (sv_store s) ?m" "I ?m" "safe I Q (k (snd e) (sv_store s)) ?m"
      using assms by (simp_all add: server_safe_def)
    have "safe I Q h ?m" if "h \<in> set (sv_requests s)" for h
      using that assms safe_mono [OF _ next_ok(1)] stable [OF next_ok(1)]
      by (auto simp: server_safe_def list_all_iff)
    with next_ok have "list_all (\<lambda>h. safe I Q h ?m) ((sv_requests s)[fst e := k (snd e) (sv_store s)])"
      using set_update_subset_insert by (fastforce simp: list_all_iff)
    with next_ok True Call assms history_trans [OF _ next_ok(1)] show ?thesis
      by (simp add: server_step_def server_safe_def)
  qed
qed

lemma steps: "server_safe I Q m0 s \<Longrightarrow> server_safe I Q m0 (serve es s)"
  by (induction es arbitrary: s) (simp_all add: step)

lemma served: "server_safe I Q NewMemory (serve es \<lparr>sv_store = NewMemory, sv_requests = map start calls\<rparr>)"
  by (rule steps [OF arrived])

end

interpretation authority: server_invariant authority_ok "\<lambda>r. recorded (snd r)" routes
  by unfold_locales (rule authority_ok_NewMemory, erule (1) recorded_history, rule sound_routes)

lemma authority_served:
  "server_safe authority_ok (\<lambda>r. recorded (snd r)) NewMemory (serve es (NewServer NewMemory calls))"
  unfolding NewServer_def by (rule authority.served)

lemma serve_history: "history m0 (sv_store s) \<Longrightarrow> server_safe authority_ok (\<lambda>r. recorded (snd r)) m0 s \<Longrightarrow>
   history (sv_store s) (sv_store (serve es s))"
  using authority.steps [of "sv_store s" s es] by (simp add: server_safe_def)

section \<open>Sequential requests\<close>

lemmas short_handler_defs =
  handleHealth_def handleCapabilities_def handleGetRecovery_def handleBeginRecovery_def handleCompleteRecovery_def
  handleCreateWork_def handleGetWork_def handleGetTask_def handleGetRun_def handleGetSteering_def
  handleGetCheckpoint_def handleGetAction_def handleGetDelivery_def handleGetEvidence_def
  handleGetVerification_def handleGetReview_def handleGetClosure_def

lemma step_length [simp]: "length (sv_requests (server_step e s)) = length (sv_requests s)"
  by (simp add: server_step_def split: handler.split)

fun finish :: "nat \<Rightarrow> handler \<Rightarrow> Memory \<Rightarrow> handler \<times> Memory" where
  "finish 0 h m = (h, m)"
| "finish (Suc n) (Respond r) m = (Respond r, m)"
| "finish (Suc n) (Call e k) m = finish n (k background m) (e background m)"

definition one_by_one :: "nat \<Rightarrow> nat \<Rightarrow> (nat \<times> ctx) list" where
  "one_by_one n j = concat (map (\<lambda>i. replicate n (i, background)) [0..<j])"

lemma finish_Respond [simp]: "finish n (Respond r) m = (Respond r, m)"
  by (cases n) simp_all

lemma serve_alone:
  "i < length hs \<Longrightarrow> serve (replicate n (i, background)) \<lparr>sv_store = m, sv_requests = hs\<rparr> =
     \<lparr>sv_store = snd (finish n (hs ! i) m), sv_requests = hs[i := fst (finish n (hs ! i) m)]\<rparr>"
proof (induction n arbitrary: hs m)
  case (Suc n)
  show ?case
  proof (cases "hs ! i")
    case (Respond r)
    then have "hs[i := Respond r] = hs" by (metis list_update_id)
    with Suc Respond show ?thesis by (simp add: server_step_def)
  next
    case (Call e k)
    with Suc show ?thesis by (simp add: server_step_def background_def)
  qed
qed simp

lemma serve_one_by_one:
  assumes "j \<le> length hs"
  shows "\<exists>done. length done = j \<and>
     serve (one_by_one n j) \<lparr>sv_store = m, sv_requests = hs\<rparr> =
       \<lparr>sv_store = fold (\<lambda>h m. snd (finish n h m)) (take j hs) m, sv_requests = done @ drop j hs\<rparr>"
  using assms
proof (induction j)
  case 0
  then show ?case by (simp add: one_by_one_def)
next
  case (Suc j)
  let ?m = "fold (\<lambda>h m. snd (finish n h m)) (take j hs) m"
  from Suc obtain ready where r: "length ready = j" "serve (one_by_one n j) \<lparr>sv_store = m, sv_requests = hs\<rparr> =
       \<lparr>sv_store = ?m, sv_requests = ready @ drop j hs\<rparr>" by auto
  from Suc.prems have d: "drop j hs = hs ! j # drop (Suc j) hs" by (simp add: Cons_nth_drop_Suc)
  let ?h = "finish n (hs ! j) ?m"
  have "one_by_one n (Suc j) = one_by_one n j @ replicate n (j, background)" by (simp add: one_by_one_def)
  with r d serve_alone [of j "ready @ drop j hs" n ?m]
  have "serve (one_by_one n (Suc j)) \<lparr>sv_store = m, sv_requests = hs\<rparr> =
      \<lparr>sv_store = snd ?h, sv_requests = (ready @ [fst ?h]) @ drop (Suc j) hs\<rparr>"
    by (simp add: nth_append list_update_append)
  moreover from Suc.prems have "fold (\<lambda>h m. snd (finish n h m)) (take (Suc j) hs) m = snd ?h"
    by (simp add: take_Suc_conv_app_nth)
  ultimately show ?case using r(1) by (intro exI [of _ "ready @ [fst ?h]"]) simp
qed

lemma sequential_store:
  "sv_store (serve (one_by_one n (length calls)) \<lparr>sv_store = m, sv_requests = map start calls\<rparr>) =
     fold (\<lambda>c m. snd (finish n (start c) m)) calls m"
  using serve_one_by_one [of "length calls" "map start calls" n m] by (auto simp: fold_map o_def)

end
