(* ===== verification/Guarantees.thy ===== *)
theory Guarantees
  imports Schedules
begin

text \<open>
  What the control plane guarantees under every interleaving of requests, and a sample day that takes
  a work item from its creation to its closure through the routes.
\<close>

section \<open>A sample day\<close>

definition day_contract :: TaskContract where
  "day_contract = zero_task\<lparr>task_ID := ''T-1'', task_WorkItemID := ''W-1'', task_TaskType := ''DEBUG'',
     task_AllowedActions := [''publish'']\<rparr>"

definition day_material :: Manifest where
  "day_material = \<lparr>mat_TaskType = ''DEBUG'', mat_Repository = ''repo'', mat_BaseCommit = replicate 40 (CHR ''a''),
     mat_TargetID = [], mat_AcceptanceCriteria = Slice [''builds''], mat_HasAuthoritativeLog = True,
     mat_HasReproduction = False, mat_RequiresDevice = False, mat_DeviceID = [], mat_FirmwareIdentity = [],
     mat_DegradationApprovedBy = [], mat_DegradationReason = []\<rparr>"

definition day_task_request :: createTaskRequest where
  "day_task_request = \<lparr>ct_Contract = day_contract, ct_Material = day_material, ct_Subsystem = ''net'',
     ct_TargetContext = None, ct_VerificationPlan = sample_plan\<rparr>"

definition day_task :: TaskContract where
  "day_task = day_contract\<lparr>task_CapabilityIDs := Slice [''embedded.debug-reliability''],
     task_SkillIDs := Slice [''material-readiness'', ''log-triage''], task_Repository := ''repo'',
     task_BaseCommit := replicate 40 (CHR ''a''), task_AcceptanceCriteria := Slice [''builds''],
     task_VerificationPlanID := ''P-1'', task_VerificationPlanDigest := Plan_Digest sample_plan, task_Revision := 1\<rparr>"

abbreviation day_digest :: string where
  "day_digest \<equiv> TaskContract_Digest day_task"

lemma day_readiness: "EvaluateMaterial day_material = \<lparr>res_Status = MaterialReady, res_Reasons = []\<rparr>"
  by code_simp

lemma day_route: "ResolveForTarget ''DEBUG'' ''net'' None =
    Inr \<lparr>route_TaskType = ''DEBUG'', route_CapabilityIDs = Slice [''embedded.debug-reliability''],
         route_SkillIDs = Slice [''material-readiness'', ''log-triage'']\<rparr>"
  by code_simp

lemma day_plan: "ValidatePlan sample_plan [''builds'']"
  by code_simp

lemmas handler_evals = fetch_def put_def put_with_def or_store_error_def decodeJSON_def exists_or_internal_def
  conflict_or_internal_def mutation_result_def numeral_eq_Suc locked_def Let_def lookup_or_def

definition day_store1 :: Memory where
  "day_store1 = NewMemory\<lparr>mem_works := [''W-1'' \<mapsto> store_work WorkDraft [] [] 1]\<rparr>"

lemma day1: "snd (finish 6 (routes (PostWork 1 (Some (store_work WorkDraft [] [] 0)))) NewMemory) = day_store1"
  by (simp add: handleCreateWork_def request_defs handler_evals store_work_def admitted_work_def CreateWorkContext_def
      NewMemory_def day_store1_def IsZero_def)

definition day_store2 :: Memory where
  "day_store2 = NewMemory
     \<lparr>mem_works := [''W-1'' \<mapsto> store_work WorkReady day_digest [] 2],
      mem_tasks := [''T-1'' \<mapsto> [1 \<mapsto> day_task]], mem_latestTaskRev := [''T-1'' \<mapsto> 1],
      mem_tasksByDigest := [day_digest \<mapsto> day_task],
      mem_verificationPlans := [Plan_Digest sample_plan \<mapsto> sample_plan]\<rparr>"

lemma day_bound: "bound_contract day_task_request \<lparr>route_TaskType = ''DEBUG'', route_CapabilityIDs = Slice [''embedded.debug-reliability''],
         route_SkillIDs = Slice [''material-readiness'', ''log-triage'']\<rparr> [] = day_task"
  by (simp add: bound_contract_def day_task_request_def day_material_def day_task_def day_contract_def zero_task_def sample_plan_def copy_slice_def
     del: map_replicate replicate.simps)

lemma day_task_ok: "task_request_ok day_task sample_plan"
  by (simp add: task_request_ok_def day_task_def Plan_Digest_def Digest_nonempty) (simp add: sample_plan_def)


lemma day2: "snd (finish 6 (routes (PostTask (Some day_task_request))) day_store1) = day_store2"
proof -
  have req: "ct_Contract day_task_request = day_contract" "ct_Subsystem day_task_request = ''net''"
    "ct_TargetContext day_task_request = None" "ct_Material day_task_request = day_material"
    "ct_VerificationPlan day_task_request = sample_plan" "day_material\<lparr>mat_TaskType := ''DEBUG''\<rparr> = day_material"
    "day_task_request\<lparr>ct_Material := day_material\<rparr> = day_task_request"
    "elems (mat_AcceptanceCriteria day_material) = [''builds'']"
    by (simp_all add: day_task_request_def day_material_def)
  have con: "task_ID day_contract = ''T-1''" "task_WorkItemID day_contract = ''W-1''" "task_TaskType day_contract = ''DEBUG''"
    by (simp_all add: day_contract_def)
  have tk: "task_ID day_task = ''T-1''" "task_WorkItemID day_task = ''W-1''" "task_Revision day_task = 1"
    by (simp_all add: day_task_def day_contract_def)
  show ?thesis
    by (simp add: handleCreateTask_def request_defs handler_evals req con day_readiness route_phase_def day_route
        routed_digest_def day_plan day_bound freeze_phase_def Transition_def work_allowed_def
        GetWorkContext_def CreateTaskAndUpdateWorkContext_def day_task_ok tk admit_task_def admit_revision_def store_task_def
        day_store1_def day_store2_def NewMemory_def store_work_def)
qed

definition day_input :: RunInputManifest where
  "day_input = sample_input\<lparr>input_TaskContractDigest := day_digest\<rparr>"

lemma day_input_digest: "RunInputManifest_Digest day_input = Inr (Digest (RunInputManifest_json day_input))"
  by (simp add: RunInputManifest_Digest_def day_input_def sample_input_def continuation_error_def
      ValidateContextRefs_def)

definition day_run_request :: createRunRequest where
  "day_run_request = \<lparr>cr_RunID = ''R-1'', cr_TaskContractDigest = day_digest, cr_AttemptID = ''A-1'',
     cr_RunInput = sample_input\<rparr>"

definition day_run :: "RunState \<Rightarrow> uint64 \<Rightarrow> Run" where
  "day_run st v = (store_run st v)\<lparr>run_TaskContractDigest := day_digest,
     run_RunInputManifestDigest := Digest (RunInputManifest_json day_input)\<rparr>"

definition day_store3 :: Memory where
  "day_store3 = day_store2
     \<lparr>mem_works := [''W-1'' \<mapsto> store_work WorkExecuting day_digest ''R-1'' 3],
      mem_runs := [''R-1'' \<mapsto> day_run RunRunning 1], mem_sessions := [''R-1'' \<mapsto> store_session],
      mem_attempts := [''R-1'' \<mapsto> [''A-1'' \<mapsto> store_attempt]],
      mem_runInputs := [Digest (RunInputManifest_json day_input) \<mapsto> day_input]\<rparr>"

lemma day3: "snd (finish 6 (routes (PostRun 2 (Some day_run_request))) day_store2) = day_store3"
proof -
  have req: "cr_RunID day_run_request = ''R-1''" "cr_TaskContractDigest day_run_request = day_digest"
    "cr_AttemptID day_run_request = ''A-1''" "cr_RunInput day_run_request = sample_input"
    "input_Continuation sample_input = None" "input_RuntimeProfile sample_input = ''rt''"
    "input_ToolProfile sample_input = ''tool''" "input_WorkerProfile sample_input = ''wk''" "input_PolicyProfile sample_input = ''pol''"
    "sample_input\<lparr>input_RunID := ''R-1'', input_TaskContractDigest := day_digest\<rparr> = day_input" "day_digest \<noteq> []"
    by (simp_all add: day_run_request_def day_input_def sample_input_def TaskContract_Digest_def Digest_nonempty)
  have inp: "input_Continuation day_input = None" "input_RunID day_input = ''R-1''" "input_TaskContractDigest day_input = day_digest"
    by (simp_all add: day_input_def sample_input_def)
  have tk: "task_WorkItemID day_task = ''W-1''" by (simp add: day_task_def day_contract_def)
  show ?thesis
    by (simp add: handleCreateRun_def request_defs handler_evals req inp tk day_input_digest GetTaskByDigestContext_def
        GetWorkContext_def start_phase_def StartAttempt_def run_terminal_def NewRun_def NewSession_def Transition_def work_allowed_def
        CreateExecutionAndUpdateWorkContext_def fresh_execution_def store_execution_def with_version_def
        day_store2_def day_store3_def NewMemory_def store_work_def day_run_def store_run_def store_session_def store_attempt_def)
qed


definition day_store4 :: Memory where
  "day_store4 = day_store3
     \<lparr>mem_works := [''W-1'' \<mapsto> store_work WorkVerifying day_digest ''R-1'' 4],
      mem_runs := [''R-1'' \<mapsto> day_run RunCompleted 2]\<rparr>"

lemma day_task_fields:
  "task_WorkItemID day_task = ''W-1''" "task_VerificationPlanDigest day_task = Plan_Digest sample_plan"
  by (simp_all add: day_task_def day_contract_def)

lemma day4: "snd (finish 6 (routes (PostComplete ''R-1'' (Some 1))) day_store3) = day_store4"
  by (simp add: handleCompleteRun_def complete_phase_def writeExecution_def request_defs handler_evals day_task_fields
      GetExecutionContext_def GetTaskByDigestContext_def GetWorkContext_def Run_Complete_def Run_CheckEpoch_def run_terminal_def
      Transition_def work_allowed_def UpdateExecutionAndWorkContext_def same_frozen_input_def put_execution_def
      day_store2_def day_store3_def day_store4_def NewMemory_def store_work_def day_run_def store_run_def)

definition day_delivery_request :: createDeliveryRequest where
  "day_delivery_request = \<lparr>cd_ID = ''D-1'', cd_RunID = ''R-1'', cd_ResultCommit = ''c1'',
     cd_Artifacts = [sample_artifact ''log'' ''l''], cd_KnownLimits = []\<rparr>"

definition day_delivery :: DeliveryReceipt where
  "day_delivery = bound_delivery 3 day_delivery_request (day_run RunCompleted 2) day_task"

abbreviation day_subject :: string where
  "day_subject \<equiv> dr_SubjectDigest day_delivery"

lemma day_delivery_fields:
  "dr_ID day_delivery = ''D-1''" "dr_WorkItemID day_delivery = ''W-1''" "dr_TaskContractDigest day_delivery = day_digest"
  "dr_RunID day_delivery = ''R-1''" "dr_Artifacts day_delivery = [sample_artifact ''log'' ''l'']"
  by (simp_all add: day_delivery_def bound_delivery_def Let_def day_delivery_request_def day_run_def store_run_def
      day_task_fields)

lemma day_subject_digest: "\<exists>j. day_subject = Digest j"
  by (auto simp: day_delivery_def bound_delivery_def Let_def CalculateSubjectDigest_def)

definition day_store5 :: Memory where
  "day_store5 = day_store4\<lparr>mem_deliveries := [''D-1'' \<mapsto> day_delivery]\<rparr>"

lemma day_reads:
  "mem_works day_store4 = [''W-1'' \<mapsto> store_work WorkVerifying day_digest ''R-1'' 4]"
  "mem_runs day_store4 = [''R-1'' \<mapsto> day_run RunCompleted 2]" "mem_sessions day_store4 = [''R-1'' \<mapsto> store_session]"
  "mem_tasksByDigest day_store4 = [day_digest \<mapsto> day_task]"
  "mem_verificationPlans day_store4 = [Plan_Digest sample_plan \<mapsto> sample_plan]"
  "mem_deliveries day_store4 = Map.empty" "mem_evidence day_store4 = Map.empty"
  "mem_verificationReports day_store4 = Map.empty" "mem_reviewReports day_store4 = Map.empty"
  "mem_reviewByVerification day_store4 = Map.empty" "mem_closures day_store4 = Map.empty"
  "run_TaskContractDigest (day_run st v) = day_digest" "run_State (day_run st v) = st"
  by (simp_all add: day_store4_def day_store3_def day_store2_def NewMemory_def day_run_def store_run_def)

lemma day5: "snd (finish 6 (routes (PostDelivery 3 (Some day_delivery_request))) day_store4) = day_store5"
proof -
  have req: "cd_ID day_delivery_request = ''D-1''" "cd_RunID day_delivery_request = ''R-1''"
    "cd_ResultCommit day_delivery_request = ''c1''" "cd_Artifacts day_delivery_request = [sample_artifact ''log'' ''l'']"
    by (simp_all add: day_delivery_request_def)
  have art: "art_ID (sample_artifact ''log'' ''l'') = ''log''" "art_Digest (sample_artifact ''log'' ''l'') = ''x''"
    by (simp_all add: sample_artifact_def)
  show ?thesis
    by (simp add: handleCreateDelivery_def request_defs handler_evals req art day_reads GetExecutionContext_def
        GetTaskByDigestContext_def CreateDeliveryContext_def day_delivery_def [symmetric] day_delivery_fields day_store5_def)
qed

definition day_evidence_request :: createEvidenceRequest where
  "day_evidence_request = \<lparr>ce_DeliveryReceiptID = ''D-1'', ce_Evidence = store_evidence\<rparr>"

definition day_evidence :: EvidenceRef where
  "day_evidence = store_evidence\<lparr>ev_SubjectDigest := day_subject\<rparr>"

definition day_store6 :: Memory where
  "day_store6 = day_store5\<lparr>mem_evidence := [''V-9'' \<mapsto> day_evidence]\<rparr>"

lemma day_evidence_fields:
  "bound_evidence store_evidence day_delivery = day_evidence" "EvidenceMatchesPlan sample_plan day_evidence"
  "EvidenceArtifactsBelongToDelivery day_delivery day_evidence" "ev_ID day_evidence = ''V-9''"
  "ev_DeliveryReceiptID day_evidence = ''D-1''" "ev_SubjectDigest day_evidence = day_subject"
  by (simp_all add: bound_evidence_def day_delivery_fields day_evidence_def store_evidence_def EvidenceMatchesPlan_def
      FindRequirement_def plan_requirements_def sample_plan_def EvidenceMatchesRequirement_def
      EvidenceArtifactsBelongToDelivery_def sample_artifact_def)

lemma day6: "snd (finish 6 (routes (PostEvidence (Some day_evidence_request))) day_store5) = day_store6"
proof -
  have ev: "ev_ID store_evidence = ''V-9''" "ev_RequirementID store_evidence = ''E-1''" "ev_Issuer store_evidence = ''ci''"
    "ev_Procedure store_evidence = ''make''" "ev_Result store_evidence = ''PASS''"
    by (simp_all add: store_evidence_def)
  have requirement: "FindRequirement sample_plan ''E-1'' = Some \<lparr>ereq_ID = ''E-1'', ereq_Procedure = ''make'', ereq_Issuer = []\<rparr>"
    by (simp add: FindRequirement_def plan_requirements_def sample_plan_def)
  show ?thesis
    by (simp add: handleCreateEvidence_def day_evidence_request_def request_defs handler_evals ev requirement day_reads
        day_task_fields day_evidence_fields GetDeliveryContext_def GetTaskByDigestContext_def
        GetVerificationPlanByDigestContext_def CreateEvidenceContext_def day_delivery_fields day_store5_def day_store6_def)
qed

definition day_verification_request :: createVerificationRequest where
  "day_verification_request = \<lparr>cv_ReportID = ''V-1'', cv_DeliveryReceiptID = ''D-1'', cv_Verifier = ''urn:engineering-platform:ver'',
     cv_EvidenceIDs = [''V-9'']\<rparr>"

definition day_report :: VerificationReport where
  "day_report = bound_report 4 day_verification_request day_delivery day_task sample_plan [day_evidence]"

definition day_store7 :: Memory where
  "day_store7 = day_store6\<lparr>mem_verificationReports := [''V-1'' \<mapsto> day_report]\<rparr>"

lemma day_report_fields:
  "vr_ID day_report = ''V-1''" "vr_DeliveryReceiptID day_report = ''D-1''" "vr_SubjectDigest day_report = day_subject"
  "vr_Result day_report = ''PASS''" "vr_Verifier day_report = ''urn:engineering-platform:ver''"
proof -
  have "day_subject \<noteq> []" using day_subject_digest Digest_nonempty by metis
  then show "vr_Result day_report = ''PASS''"
    by (simp add: day_report_def bound_report_def Evaluate_verdict plan_satisfied_def sample_plan_def plan_requirements_def
        criterion_complete_def requirement_complete_def satisfies_def day_evidence_def store_evidence_def)
qed (simp_all add: day_report_def bound_report_def day_verification_request_def day_delivery_fields)

lemma day7: "snd (finish 6 (routes (PostVerification 4 (Some day_verification_request))) day_store6) = day_store7"
proof -
  have req: "cv_ReportID day_verification_request = ''V-1''" "cv_DeliveryReceiptID day_verification_request = ''D-1''"
    "cv_Verifier day_verification_request = ''urn:engineering-platform:ver''" "cv_EvidenceIDs day_verification_request = [''V-9'']"
    by (simp_all add: day_verification_request_def)
  show ?thesis
    by (simp add: handleCreateVerification_def req request_defs handler_evals day_reads day_task_fields
        day_delivery_fields GetDeliveryContext_def GetTaskByDigestContext_def GetVerificationPlanByDigestContext_def
        GetEvidenceContext_def CreateVerificationContext_def day_report_def [symmetric] day_report_fields
        day_store5_def day_store6_def day_store7_def)
qed

definition day_review_request :: createReviewRequest where
  "day_review_request = \<lparr>cw_ReportID = ''RV-1'', cw_DeliveryReceiptID = ''D-1'', cw_VerificationReportID = ''V-1'',
     cw_Reviewer = ''urn:engineering-platform:rev'', cw_Result = ''PASS'', cw_Findings = [], cw_KnownLimits = []\<rparr>"

definition day_review :: ReviewReport where
  "day_review = bound_review 5 day_review_request day_delivery day_report"

definition day_store8 :: Memory where
  "day_store8 = day_store7
     \<lparr>mem_reviewReports := [''RV-1'' \<mapsto> day_review], mem_reviewByVerification := [''V-1'' \<mapsto> ''RV-1''],
      mem_works := [''W-1'' \<mapsto> store_work WorkReviewing day_digest ''R-1'' 5]\<rparr>"

lemma day_review_fields:
  "rr_ID day_review = ''RV-1''" "rr_DeliveryReceiptID day_review = ''D-1''" "rr_VerificationReportID day_review = ''V-1''"
  "rr_TaskContractDigest day_review = day_digest" "rr_SubjectDigest day_review = day_subject"
  "rr_Reviewer day_review = ''urn:engineering-platform:rev''" "rr_Result day_review = ''PASS''"
  by (simp_all add: day_review_def bound_review_def day_review_request_def day_delivery_fields day_report_fields)

lemma day_review_valid: "ReviewReport_Validate day_review = None"
proof -
  obtain j where j: "day_subject = Digest j" using day_subject_digest by blast
  show ?thesis
    by (simp add: ReviewReport_Validate_def day_review_def bound_review_def day_review_request_def day_delivery_fields
        day_report_fields j TaskContract_Digest_def sample_review_bounded IsZero_def)
qed

lemma day8: "snd (finish 6 (routes (PostReview 5 (Some day_review_request))) day_store7) = day_store8"
proof -
  have req: "cw_ReportID day_review_request = ''RV-1''" "cw_DeliveryReceiptID day_review_request = ''D-1''"
    "cw_VerificationReportID day_review_request = ''V-1''" "cw_Reviewer day_review_request = ''urn:engineering-platform:rev''"
    "cw_Result day_review_request = ''PASS''"
    by (simp_all add: day_review_request_def)
  show ?thesis
    by (simp add: handleCreateReview_def req request_defs handler_evals day_reads day_delivery_fields day_report_fields
        day_review_def [symmetric] day_review_fields day_review_valid review_phase_def Transition_def work_allowed_def
        GetDeliveryContext_def GetVerificationContext_def GetWorkContext_def CreateReviewAndUpdateWorkContext_def
        review_conflict_def store_work_def day_store5_def day_store6_def day_store7_def day_store8_def)
qed

definition day_closure_request :: createClosureRequest where
  "day_closure_request = \<lparr>cx_ID = ''X-1'', cx_DeliveryReceiptID = ''D-1'', cx_VerificationReportID = ''V-1'',
     cx_ReviewReportID = ''RV-1''\<rparr>"

lemma day9:
  "mem_closures (snd (finish 6 (routes (PostClosure 6 (Some day_closure_request))) day_store8)) ''X-1'' =
     Some (bound_closure 6 day_closure_request day_delivery day_report)"
proof -
  have req: "cx_ID day_closure_request = ''X-1''" "cx_DeliveryReceiptID day_closure_request = ''D-1''"
    "cx_VerificationReportID day_closure_request = ''V-1''" "cx_ReviewReportID day_closure_request = ''RV-1''"
    by (simp_all add: day_closure_request_def)
  show ?thesis
    by (simp add: handleCreateClosure_def closure_phase_def req request_defs handler_evals day_reads day_delivery_fields day_report_fields
        day_review_fields Transition_def work_allowed_def bound_closure_def GetExecutionContext_def GetReviewContext_def
        GetDeliveryContext_def GetVerificationContext_def GetWorkContext_def CreateClosureAndUpdateWorkContext_def
        closure_conflict_def store_work_def day_store5_def day_store6_def day_store7_def day_store8_def)
qed

definition day_requests :: "http_call list" where
  "day_requests =
     [PostWork 1 (Some (store_work WorkDraft [] [] 0)), PostTask (Some day_task_request),
      PostRun 2 (Some day_run_request), PostComplete ''R-1'' (Some 1), PostDelivery 3 (Some day_delivery_request),
      PostEvidence (Some day_evidence_request), PostVerification 4 (Some day_verification_request),
      PostReview 5 (Some day_review_request), PostClosure 6 (Some day_closure_request)]"

definition day_schedule :: "(nat \<times> ctx) list" where
  "day_schedule = one_by_one 6 9"

lemma day_closed:
  "mem_closures (sv_store (serve day_schedule (NewServer NewMemory day_requests))) ''X-1'' =
     Some (bound_closure 6 day_closure_request day_delivery day_report)"
proof -
  have n: "length day_requests = 9" by (simp add: day_requests_def)
  have "sv_store (serve day_schedule (NewServer NewMemory day_requests)) =
      fold (\<lambda>c m. snd (finish 6 (routes c) m)) day_requests NewMemory"
    unfolding day_schedule_def n [symmetric] NewServer_def by (rule sequential_store)
  also have "\<dots> = snd (finish 6 (routes (PostClosure 6 (Some day_closure_request))) day_store8)"
    by (simp only: day_requests_def fold.simps o_apply id_apply day1 day2 day3 day4 day5 day6 day7 day8)
  finally show ?thesis using day9 by simp
qed


section \<open>Properties of the server\<close>

lemma serve_length [simp]: "length (sv_requests (serve es s)) = length (sv_requests s)"
  by (induction es arbitrary: s) simp_all

lemma NewServer_length [simp]: "length (sv_requests (NewServer m calls)) = length calls"
  by (simp add: NewServer_def)

text \<open>
  C3. A closure is earned. In every interleaving of any requests, a stored closure refers to a
  stored delivery whose subject digest is the digest of that delivery, made from a stored run of
  the task contract with exactly the digest the closure names; every evidence requirement of a plan
  with the plan digest frozen in that contract is met by stored PASS evidence for that subject; and
  a valid PASS review by somebody other than the verifier names that verification and delivery.
\<close>

theorem closure_is_earned:
  assumes "mem_closures (sv_store (serve es (NewServer NewMemory calls))) i = Some x"
  defines "m \<equiv> sv_store (serve es (NewServer NewMemory calls))"
  shows "\<exists>d rn t p evidence v r.
     mem_deliveries m (cl_DeliveryReceiptID x) = Some d \<and> cl_SubjectDigest x = CalculateSubjectDigest d
     \<and> mem_runs m (dr_RunID d) = Some rn \<and> run_TaskContractDigest rn = cl_TaskContractDigest x
     \<and> mem_tasksByDigest m (cl_TaskContractDigest x) = Some t \<and> TaskContract_Digest t = cl_TaskContractDigest x
     \<and> Plan_Digest p = task_VerificationPlanDigest t
     \<and> list_all (\<lambda>e. mem_evidence m (ev_ID e) = Some e) evidence \<and> plan_satisfied p (cl_SubjectDigest x) evidence
     \<and> mem_verificationReports m (cl_VerificationReportID x) = Some v \<and> vr_EvidenceIDs v = map ev_ID evidence
     \<and> mem_reviewReports m (cl_ReviewReportID x) = Some r \<and> rr_Result r = ''PASS''
     \<and> ReviewReport_Validate r = None \<and> rr_Reviewer r \<noteq> vr_Verifier v"
proof -
  have ok: "authority_ok m" using authority_served [of es calls] by (simp add: server_safe_def m_def)
  then have asr: "assurance_ok m" by (simp add: authority_ok_def)
  obtain r where r: "mem_reviewReports m (cl_ReviewReportID x) = Some r" "rr_Result r = ''PASS''"
    "rr_DeliveryReceiptID r = cl_DeliveryReceiptID x" "rr_VerificationReportID r = cl_VerificationReportID x"
    "rr_TaskContractDigest r = cl_TaskContractDigest x" "rr_SubjectDigest r = cl_SubjectDigest x"
    using asr assms(1) unfolding assurance_ok_def closure_backed_def m_def by blast
  from asr r(1) have "review_backed m r" by (simp add: assurance_ok_def)
  then obtain v d where vd: "mem_verificationReports m (cl_VerificationReportID x) = Some v"
    "mem_deliveries m (cl_DeliveryReceiptID x) = Some d" "vr_Result v = ''PASS''"
    "vr_DeliveryReceiptID v = cl_DeliveryReceiptID x" "dr_SubjectDigest d = cl_SubjectDigest x"
    "dr_TaskContractDigest d = cl_TaskContractDigest x" "rr_Reviewer r \<noteq> vr_Verifier v" "ReviewReport_Validate r = None"
    using r unfolding review_backed_def by metis
  from ok vd(2) have "delivery_backed m d" by (simp add: authority_ok_def deliveries_ok_def)
  then obtain rn where rn: "mem_runs m (dr_RunID d) = Some rn" "run_TaskContractDigest rn = cl_TaskContractDigest x"
    "dr_SubjectDigest d = CalculateSubjectDigest d" using vd(6) unfolding delivery_backed_def by metis
  from ok vd(1) have "report_backed m v" by (simp add: authority_ok_def reports_ok_def)
  then obtain t p evs where rep: "mem_tasksByDigest m (cl_TaskContractDigest x) = Some t"
    "Plan_Digest p = task_VerificationPlanDigest t" "vr_EvidenceIDs v = map ev_ID evs"
    "list_all (\<lambda>e. mem_evidence m (ev_ID e) = Some e) evs" "plan_satisfied p (cl_SubjectDigest x) evs"
    using vd unfolding report_backed_def by auto
  from authority_records(4) [OF ok rep(1)] have "TaskContract_Digest t = cl_TaskContractDigest x" .
  with r vd rn rep show ?thesis
    by (intro exI [of _ d] exI [of _ rn] exI [of _ t] exI [of _ p] exI [of _ evs] exI [of _ v] exI [of _ r]) simp
qed

theorem closure_is_earned_witness:
  "\<exists>x d p evidence.
     mem_closures (sv_store (serve day_schedule (NewServer NewMemory day_requests))) ''X-1'' = Some x
     \<and> cl_SubjectDigest x = CalculateSubjectDigest d \<and> plan_satisfied p (cl_SubjectDigest x) evidence"
  using closure_is_earned [OF day_closed] day_closed by blast

text \<open>
  The record that an answer carries is in the store from then on: exactly this record for a frozen
  contract, a steering command, a checkpoint, a delivery, evidence, a report, a review or a closure;
  a record of the same identity for what later requests may change.
\<close>

lemma answers_are_recorded:
  assumes "i < length calls"
    and "sv_requests (serve es (NewServer NewMemory calls)) ! i = Respond (status, b)"
  shows "recorded b (sv_store (serve (es @ es') (NewServer NewMemory calls)))"
proof -
  let ?s = "serve es (NewServer NewMemory calls)"
  have len: "i < length (sv_requests ?s)" using assms(1) by simp
  have ok: "server_safe authority_ok (\<lambda>r. recorded (snd r)) NewMemory ?s" by (rule authority_served)
  then have "sound (sv_requests ?s ! i) (sv_store ?s)"
    using len by (simp add: server_safe_def list_all_length)
  with assms(2) have now: "recorded b (sv_store ?s)" by simp
  have "server_safe authority_ok (\<lambda>r. recorded (snd r)) (sv_store ?s) ?s"
    using ok by (simp add: server_safe_def)
  then have "history (sv_store ?s) (sv_store (serve es' ?s))"
    using authority.steps by (simp add: server_safe_def)
  from recorded_history [OF this now] show ?thesis by simp
qed


text \<open>
  C23. Run and session never diverge: in every interleaving of requests the session stored for a run
  names that run and has exactly its execution epoch, so the epoch fences of the two agree.
\<close>

theorem run_and_session_agree:
  assumes "mem_runs (sv_store (serve es (NewServer NewMemory calls))) i = Some r"
    and "mem_sessions (sv_store (serve es (NewServer NewMemory calls))) i = Some s"
  shows "run_ID r = i \<and> sess_RunID s = i \<and> sess_ExecutionEpoch s = run_CurrentEpoch r"
proof -
  have "authority_ok (sv_store (serve es (NewServer NewMemory calls)))"
    using authority_served [of es calls] by (simp add: server_safe_def)
  from authority_records(11) [OF this assms] show ?thesis by (simp add: paired_def)
qed

theorem run_and_session_agree_witness:
  "\<exists>r s. mem_runs (sv_store (serve (one_by_one 6 3) (NewServer NewMemory (take 3 day_requests)))) ''R-1'' = Some r
     \<and> mem_sessions (sv_store (serve (one_by_one 6 3) (NewServer NewMemory (take 3 day_requests)))) ''R-1'' = Some s
     \<and> sess_ExecutionEpoch s = run_CurrentEpoch r"
proof -
  let ?m = "sv_store (serve (one_by_one 6 3) (NewServer NewMemory (take 3 day_requests)))"
  have n: "length (take 3 day_requests) = 3" by (simp add: day_requests_def)
  have "?m = fold (\<lambda>c m. snd (finish 6 (routes c) m)) (take 3 day_requests) NewMemory"
    using sequential_store [of 6 "take 3 day_requests" NewMemory routes] unfolding n NewServer_def .
  also have "\<dots> = day_store3"
    by (simp add: day_requests_def numeral_3_eq_3 fold.simps day1 day2 day3 del: routes.simps finish.simps)
  finally have "mem_runs ?m ''R-1'' = Some (day_run RunRunning 1)" "mem_sessions ?m ''R-1'' = Some store_session"
    by (simp_all add: day_store3_def)
  from run_and_session_agree [OF this] this show ?thesis by blast
qed

text \<open>
  C24. A stale epoch is a conflict and nothing else: a pause, resume, takeover or completion whose
  epoch is not the current epoch of the run is answered 409 and leaves the store as it was.
\<close>

theorem stale_epoch_is_a_conflict:
  assumes "mem_runs m i = Some r" and "mem_sessions m i = Some s"
    and "mem_runInputs m (run_RunInputManifestDigest r) = Some inp" and "epoch \<noteq> run_CurrentEpoch r"
    and "call \<in> {PostPause i (Some epoch), PostResume i (Some epoch), PostTakeover i (Some epoch), PostComplete i (Some epoch)}"
  shows "serve [(0, background), (0, background)] (NewServer m [call]) =
     \<lparr>sv_store = m, sv_requests = [Respond (writePublicError 409)]\<rparr>"
proof -
  have stale: "writeMutationError (stale_run_epoch r epoch) = writePublicError 409"
    by (simp add: writeMutationError_def stale_run_epoch_def)
  have codex: "writeMutationError codex_refused = writePublicError 409"
    by (simp add: writeMutationError_def codex_refused_def)
  have ops: "pause_both epoch r s = Inl (stale_run_epoch r epoch)" "resume_both epoch r s = Inl (stale_run_epoch r epoch)"
    "takeover_both epoch r s = Inl (stale_run_epoch r epoch)" "Run_Complete r epoch = Inl (stale_run_epoch r epoch)"
    using assms(4) by (simp_all add: pause_both_def resume_both_def takeover_both_def run_defs Run_CheckEpoch_def)
  from assms(1-3,5) show ?thesis
    by (auto simp: NewServer_def server_step_def handlePause_def handleResume_def handleTakeover_def handleCompleteRun_def
        mutateExecution_def mutate_phase_def getRunForRequest_def getRunInputForRequest_def fetch_def decodeJSON_def
        or_store_error_def GetExecutionContext_def GetRunInputByDigestContext_def locked_def lookup_or_def ops stale codex)
qed

theorem stale_epoch_is_a_conflict_witness:
  "serve [(0, background), (0, background)] (NewServer running_store [PostTakeover ''R-1'' (Some 7)]) =
     \<lparr>sv_store = running_store, sv_requests = [Respond (writePublicError 409)]\<rparr>"
  by (rule stale_epoch_is_a_conflict [of _ _ "store_run RunRunning 1" store_session store_input 7])
    (simp_all add: running_store_def store_run_def)

end
