(* ===== verification/AccessPolicy.thy ===== *)
theory AccessPolicy
  imports CoreModel
begin

text \<open>
  Package \<open>access\<close>: the policy that binds directly verified client certificates to explicit grants
  (\<open>policy.go\<close>, \<open>worker.go\<close>, \<open>capacity.go\<close>). A Go map used as a set is the list of its keys in the
  order of insertion; where the code ranges over a map, the result does not depend on this order
  (\<open>lanes_order_irrelevant\<close>). Reading files and parsing certificates is outside the model: the state
  of the TLS connection is an input.
\<close>

section \<open>Capabilities\<close>

definition Read :: string where "Read = ''core:read''"
definition WorkCreate :: string where "WorkCreate = ''work:create''"
definition TaskCreate :: string where "TaskCreate = ''task:create''"
definition RunStart :: string where "RunStart = ''run:start''"
definition RunControl :: string where "RunControl = ''run:control''"
definition RunComplete :: string where "RunComplete = ''run:complete''"
definition CheckpointCreate :: string where "CheckpointCreate = ''checkpoint:create''"
definition ActionExecute :: string where "ActionExecute = ''action:execute''"
definition ActionReconcile :: string where "ActionReconcile = ''action:reconcile''"
definition DeliveryCreate :: string where "DeliveryCreate = ''delivery:create''"
definition EvidenceRegister :: string where "EvidenceRegister = ''evidence:register''"
definition VerificationCreate :: string where "VerificationCreate = ''verification:create''"
definition ReviewCreate :: string where "ReviewCreate = ''review:create''"
definition ClosureCreate :: string where "ClosureCreate = ''closure:create''"
definition RecoveryBegin :: string where "RecoveryBegin = ''recovery:begin''"
definition RecoveryReconcile :: string where "RecoveryReconcile = ''recovery:reconcile''"
definition RecoveryComplete :: string where "RecoveryComplete = ''recovery:complete''"
definition MaterialDegrade :: string where "MaterialDegrade = ''material:degrade''"
definition WorkerPoll :: string where "WorkerPoll = ''worker:poll''"
definition WorkerReport :: string where "WorkerReport = ''worker:report''"
definition WorkerPrepare :: string where "WorkerPrepare = ''worker:prepare''"

lemmas capability_names =
  Read_def WorkCreate_def TaskCreate_def RunStart_def RunControl_def RunComplete_def CheckpointCreate_def
  ActionExecute_def ActionReconcile_def DeliveryCreate_def EvidenceRegister_def VerificationCreate_def
  ReviewCreate_def ClosureCreate_def RecoveryBegin_def RecoveryReconcile_def RecoveryComplete_def
  MaterialDegrade_def WorkerPoll_def WorkerReport_def WorkerPrepare_def

definition known_capabilities :: "string list" where
  "known_capabilities =
     [WorkerPoll, WorkerReport, Read, WorkCreate, TaskCreate, RunStart, RunControl, RunComplete, CheckpointCreate,
      ActionExecute, ActionReconcile, DeliveryCreate, EvidenceRegister, VerificationCreate, ReviewCreate,
      ClosureCreate, RecoveryBegin, RecoveryReconcile, RecoveryComplete, MaterialDegrade, WorkerPrepare]"

text \<open>Subject, issuer and procedure of the dedicated evidence importers.\<close>

definition reserved_evidence :: "(string \<times> string \<times> string) list" where
  "reserved_evidence =
     [(''urn:engineering-platform:github-ci-importer'', ''github-actions-importer'', ''github.actions.trusted-ci.v1''),
      (''urn:engineering-platform:worker-evidence-importer'', ''worker-execution-importer'', ''worker.offline.execution.v1''),
      (''urn:engineering-platform:git-evidence-importer'', ''git-change-importer'', ''git.changed-tree.v1''),
      (''urn:engineering-platform:codex-evidence-importer'', ''codex-execution-importer'', ''codex.core.execution.v1'')]"

definition subjectPattern :: "string \<Rightarrow> bool" where
  "subjectPattern s \<longleftrightarrow>
     HasPrefix s ''urn:engineering-platform:''
     \<and> match_class is_alnum (\<lambda>c. is_alnum c \<or> c \<in> set ''._:-'') 191 (drop (length ''urn:engineering-platform:'') s)"

definition namePattern :: "string \<Rightarrow> bool" where
  "namePattern = match_class is_alnum (\<lambda>c. is_alnum c \<or> c \<in> set ''._:/-'') 191"

section \<open>Policies\<close>

record ActionGrant =
  grant_Action :: string
  grant_RiskClass :: string
  grant_Capability :: string

record PrincipalSpec =
  spec_WorkerProfiles :: "string list"
  spec_Subject :: string
  spec_Scope :: string
  spec_Capabilities :: "string list"
  spec_Actions :: "ActionGrant list"
  spec_EvidenceIssuer :: string
  spec_EvidenceProcedures :: "string list"

record Document =
  doc_Version :: int
  doc_Principals :: "PrincipalSpec list"

record Identity =
  id_workerProfiles :: "string list"
  id_subject :: string
  id_capabilities :: "string list"
  id_actions :: "(string \<times> ActionGrant) list"
  id_issuer :: string
  id_procedures :: "string list"

definition Subject :: "Identity \<Rightarrow> string" where
  "Subject p = id_subject p"

definition Allows :: "Identity \<Rightarrow> string \<Rightarrow> bool" where
  "Allows p capability \<longleftrightarrow> capability \<in> set (id_capabilities p)"

definition AllowsAction :: "Identity \<Rightarrow> string \<Rightarrow> string \<Rightarrow> string \<Rightarrow> bool" where
  "AllowsAction p act risk capability \<longleftrightarrow>
     (case map_of (id_actions p) act of
        None \<Rightarrow> False
      | Some grant \<Rightarrow> Allows p ActionExecute \<and> grant_RiskClass grant = risk \<and> grant_Capability grant = capability)"

definition AllowsEvidence :: "Identity \<Rightarrow> string \<Rightarrow> string \<Rightarrow> bool" where
  "AllowsEvidence p issuer procedure \<longleftrightarrow>
     Allows p EvidenceRegister \<and> issuer = id_issuer p \<and> procedure \<in> set (id_procedures p)"

definition AllowsWorkerProfile :: "Identity \<Rightarrow> string \<Rightarrow> bool" where
  "AllowsWorkerProfile p profile \<longleftrightarrow> profile \<in> set (id_workerProfiles p)"

definition validRisk :: "string \<Rightarrow> bool" where
  "validRisk risk \<longleftrightarrow> risk = ''OBSERVE'' \<or> risk = ''CONTROLLED_MUTATION'' \<or> risk = ''HIGH_RISK''"

text \<open>The loops that copy a list of grants into a set, refusing an invalid or repeated one.\<close>

fun collect_grants :: "(string \<Rightarrow> bool) \<Rightarrow> err \<Rightarrow> string list \<Rightarrow> string list \<Rightarrow> string list result" where
  "collect_grants ok e [] acc = Inr acc"
| "collect_grants ok e (x # xs) acc =
     unless (\<not> ok x \<or> x \<in> set acc) e (collect_grants ok e xs (acc @ [x]))"

fun collect_actions :: "ActionGrant list \<Rightarrow> (string \<times> ActionGrant) list \<Rightarrow> (string \<times> ActionGrant) list result" where
  "collect_actions [] acc = Inr acc"
| "collect_actions (g # gs) acc =
     unless (\<not> namePattern (grant_Action g) \<or> \<not> namePattern (grant_Capability g) \<or> \<not> validRisk (grant_RiskClass g))
       (ErrText ''invalid action grant'')
       (unless (map_of acc (grant_Action g) \<noteq> None) (ErrText ''duplicate action grant'')
         (collect_actions gs (acc @ [(grant_Action g, g)])))"

definition validateReservedEvidenceAuthority :: "Identity \<Rightarrow> string \<times> string \<times> string \<Rightarrow> err option" where
  "validateReservedEvidenceAuthority p r =
     (case r of (subject, issuer, procedure) \<Rightarrow>
        if \<not> (id_subject p = subject \<or> id_issuer p = issuer \<or> procedure \<in> set (id_procedures p)) then None
        else if id_subject p \<noteq> subject \<or> id_issuer p \<noteq> issuer \<or> length (id_procedures p) \<noteq> 1
                \<or> procedure \<notin> set (id_procedures p)
        then Some (ErrText ''reserved evidence authority requires its dedicated importer principal'')
        else if id_actions p \<noteq> [] \<or> id_workerProfiles p \<noteq> [] \<or> length (id_capabilities p) \<noteq> 2
                \<or> \<not> Allows p Read \<or> \<not> Allows p EvidenceRegister
        then Some (ErrText ''dedicated evidence importer may only hold core:read and evidence:register'')
        else None)"

definition configureWorkerProfiles :: "PrincipalSpec \<Rightarrow> Identity \<Rightarrow> Identity result" where
  "configureWorkerProfiles spec p =
     unless (length (spec_WorkerProfiles spec) > 64) (ErrText ''too many worker profile grants'')
       (rbind (collect_grants namePattern (ErrText ''invalid or duplicate worker profile'') (spec_WorkerProfiles spec) [])
         (\<lambda>profiles.
           unless ((Allows p WorkerPoll \<or> Allows p WorkerReport) \<noteq> (profiles \<noteq> []))
             (ErrText ''worker capabilities require explicit worker profiles'')
             (unless (Allows p WorkerPrepare \<and> (\<not> Allows p WorkerPoll \<or> \<not> Allows p WorkerReport))
               (ErrText ''worker preparation requires poll and report grants'')
               (Inr (p\<lparr>id_workerProfiles := profiles\<rparr>)))))"

definition no_other_authority :: "Identity \<Rightarrow> bool" where
  "no_other_authority p \<longleftrightarrow>
     id_actions p = [] \<and> id_issuer p = [] \<and> id_procedures p = [] \<and> id_workerProfiles p = []"

text \<open>A principal that holds \<open>capability\<close> may hold nothing beside it but reading.\<close>

definition exclusive_duty :: "string \<Rightarrow> err \<Rightarrow> err \<Rightarrow> Identity \<Rightarrow> err option" where
  "exclusive_duty capability e1 e2 p =
     (if \<not> Allows p capability then None
      else if list_ex (\<lambda>c. c \<noteq> capability \<and> c \<noteq> Read) (id_capabilities p) then Some e1
      else if \<not> no_other_authority p then Some e2
      else None)"

definition evidence_binding :: "Identity \<Rightarrow> err option" where
  "evidence_binding p =
     (if Allows p EvidenceRegister
      then if \<not> namePattern (id_issuer p) \<or> id_procedures p = []
           then Some (ErrText ''evidence grant requires issuer and procedures'') else None
      else if id_issuer p \<noteq> [] \<or> id_procedures p \<noteq> []
      then Some (ErrText ''evidence binding without evidence grant'') else None)"

definition new_principal :: "PrincipalSpec \<Rightarrow> Identity result" where
  "new_principal spec =
     unless (spec_Capabilities spec = [] \<or> length (spec_Capabilities spec) > length known_capabilities
             \<or> length (spec_Actions spec) > 64 \<or> length (spec_EvidenceProcedures spec) > 64)
       (ErrText ''invalid grant count'')
       (rbind (collect_grants (\<lambda>c. c \<in> set known_capabilities) (ErrText ''unknown or duplicate capability'')
                 (spec_Capabilities spec) []) (\<lambda>caps.
         rbind (collect_actions (spec_Actions spec) []) (\<lambda>actions.
           unless ((ActionExecute \<in> set caps) \<noteq> (actions \<noteq> []))
             (ErrText ''action execution requires exact action grants'')
             (rbind (collect_grants namePattern (ErrText ''invalid or duplicate evidence procedure'')
                       (spec_EvidenceProcedures spec) []) (\<lambda>procedures.
               let p = \<lparr>id_workerProfiles = [], id_subject = spec_Subject spec, id_capabilities = caps,
                        id_actions = actions, id_issuer = spec_EvidenceIssuer spec, id_procedures = procedures\<rparr> in
               unless_err (evidence_binding p)
                 (unless_err (validateReservedEvidenceAuthority p (reserved_evidence ! 0))
                   (unless_err (validateReservedEvidenceAuthority p (reserved_evidence ! 1))
                     (unless_err (validateReservedEvidenceAuthority p (reserved_evidence ! 2))
                       (unless_err (validateReservedEvidenceAuthority p (reserved_evidence ! 3))
                         (rbind (configureWorkerProfiles spec p) (\<lambda>p'.
                           unless_err (exclusive_duty ReviewCreate
                               (ErrText ''independent reviewer may only hold review:create and core:read'')
                               (ErrText ''independent reviewer cannot hold execution, evidence or worker authority'') p')
                             (unless_err (exclusive_duty RecoveryReconcile
                                 (ErrText ''reconciler may only hold recovery:reconcile and core:read'')
                                 (ErrText ''reconciler cannot hold execution, evidence or worker authority'') p')
                               (Inr p')))))))))))))"

fun new_principals :: "PrincipalSpec list \<Rightarrow> (string \<times> Identity) list \<Rightarrow> (string \<times> Identity) list result" where
  "new_principals [] acc = Inr acc"
| "new_principals (spec # specs) acc =
     unless (\<not> subjectPattern (spec_Subject spec) \<or> spec_Scope spec \<noteq> ''platform'')
       (ErrText ''explicit platform scope and canonical URI subject required'')
       (unless (map_of acc (spec_Subject spec) \<noteq> None) (ErrText ''duplicate principal'')
         (rbind (new_principal spec) (\<lambda>p. new_principals specs (acc @ [(id_subject p, p)]))))"

fun lane_profiles :: "bool \<Rightarrow> string list \<Rightarrow> (string \<rightharpoonup> bool) \<Rightarrow> (string \<rightharpoonup> bool) result" where
  "lane_profiles prepare [] lanes = Inr lanes"
| "lane_profiles prepare (profile # profiles) lanes =
     unless (case lanes profile of None \<Rightarrow> False | Some prior \<Rightarrow> prior \<noteq> prepare)
       (ErrText ''worker profile mixes admission-only and preparation-capable claimers'')
       (lane_profiles prepare profiles (lanes(profile \<mapsto> prepare)))"

fun claim_lanes :: "Identity list \<Rightarrow> (string \<rightharpoonup> bool) \<Rightarrow> (string \<rightharpoonup> bool) result" where
  "claim_lanes [] lanes = Inr lanes"
| "claim_lanes (p # ps) lanes =
     (if \<not> Allows p WorkerPoll then claim_lanes ps lanes
      else rbind (lane_profiles (Allows p WorkerPrepare) (id_workerProfiles p) lanes) (claim_lanes ps))"

definition validateWorkerClaimLanes :: "Identity list \<Rightarrow> err option" where
  "validateWorkerClaimLanes ps = (case claim_lanes ps Map.empty of Inl e \<Rightarrow> Some e | Inr _ \<Rightarrow> None)"

record Policy =
  pol_principals :: "(string \<times> Identity) list"

definition NewPolicy :: "Document \<Rightarrow> Policy result" where
  "NewPolicy doc =
     unless (doc_Version doc \<noteq> 1 \<or> doc_Principals doc = [] \<or> length (doc_Principals doc) > 256)
       (ErrText ''access policy requires version 1 and 1..256 principals'')
       (rbind (new_principals (doc_Principals doc) []) (\<lambda>principals.
         unless_err (validateWorkerClaimLanes (map snd principals)) (Inr \<lparr>pol_principals = principals\<rparr>)))"

section \<open>Claim grants\<close>

record WorkerClaimGrant =
  wcg_Subject :: string
  wcg_Profiles :: "string list"
  wcg_Prepares :: bool

definition WorkerClaimGrants :: "Policy option \<Rightarrow> WorkerClaimGrant list" where
  "WorkerClaimGrants p =
     (case p of
        None \<Rightarrow> []
      | Some policy \<Rightarrow>
          sort_key wcg_Subject
            (map (\<lambda>(_, principal). \<lparr>wcg_Subject = Subject principal, wcg_Profiles = sort (id_workerProfiles principal),
                                     wcg_Prepares = Allows principal WorkerPrepare\<rparr>)
              (filter (\<lambda>(_, principal). Allows principal WorkerPoll) (pol_principals policy))))"

section \<open>Authentication\<close>

record cert =
  cert_Raw :: string
  cert_URIs :: "string option list"
  cert_ExtKeyUsage :: "nat list"
  cert_NotBefore :: gotime
  cert_NotAfter :: gotime

record tls_state =
  tls_HandshakeComplete :: bool
  tls_Version :: nat
  tls_PeerCertificates :: "cert option list"
  tls_VerifiedChains :: "cert option list list"

definition VersionTLS13 :: nat where
  "VersionTLS13 = 0x0304"

definition ExtKeyUsageClientAuth :: nat where
  "ExtKeyUsageClientAuth = 2"

definition ErrUnauthenticated :: err where
  "ErrUnauthenticated = ErrText ''verified client identity required''"

definition chain_valid :: "gotime \<Rightarrow> cert \<Rightarrow> cert option list \<Rightarrow> bool" where
  "chain_valid now leaf chain \<longleftrightarrow>
     (case chain of
        Some c # _ \<Rightarrow> cert_Raw c = cert_Raw leaf
          \<and> list_all (\<lambda>x. case x of None \<Rightarrow> False | Some y \<Rightarrow> cert_NotBefore y \<le> now \<and> now < cert_NotAfter y) chain
      | _ \<Rightarrow> False)"

definition Authenticate :: "gotime \<Rightarrow> Policy \<Rightarrow> tls_state option \<Rightarrow> Identity result" where
  "Authenticate now p conn =
     (case conn of
        None \<Rightarrow> Inl ErrUnauthenticated
      | Some t \<Rightarrow>
          if \<not> tls_HandshakeComplete t \<or> tls_Version t < VersionTLS13 \<or> tls_PeerCertificates t = []
             \<or> tls_VerifiedChains t = []
          then Inl ErrUnauthenticated
          else case hd (tls_PeerCertificates t) of
            None \<Rightarrow> Inl ErrUnauthenticated
          | Some leaf \<Rightarrow>
              (case cert_URIs leaf of
                 [Some uri] \<Rightarrow>
                   if ExtKeyUsageClientAuth \<notin> set (cert_ExtKeyUsage leaf) then Inl ErrUnauthenticated
                   else if \<not> list_ex (chain_valid now leaf) (tls_VerifiedChains t) then Inl ErrUnauthenticated
                   else (case map_of (pol_principals p) uri of None \<Rightarrow> Inl ErrUnauthenticated | Some i \<Rightarrow> Inr i)
               | _ \<Rightarrow> Inl ErrUnauthenticated))"

section \<open>What an accepted policy grants\<close>

lemma collect_grants_Inr:
  "collect_grants ok e xs acc = Inr ys \<Longrightarrow> distinct acc \<Longrightarrow> ys = acc @ xs \<and> list_all ok xs \<and> distinct ys"
proof (induction xs arbitrary: acc)
  case (Cons x xs)
  from Cons.prems(1) have x: "ok x" "x \<notin> set acc" "collect_grants ok e xs (acc @ [x]) = Inr ys" by auto
  with Cons.IH [OF x(3)] Cons.prems(2) show ?case by auto
qed simp

definition exclusive :: "string \<Rightarrow> Identity \<Rightarrow> bool" where
  "exclusive capability p \<longleftrightarrow>
     (Allows p capability \<longrightarrow> set (id_capabilities p) \<subseteq> {capability, Read} \<and> no_other_authority p)"

definition dedicated :: "Identity \<Rightarrow> string \<times> string \<times> string \<Rightarrow> bool" where
  "dedicated p r \<longleftrightarrow>
     (case r of (subject, issuer, procedure) \<Rightarrow>
        id_subject p = subject \<or> id_issuer p = issuer \<or> procedure \<in> set (id_procedures p) \<longrightarrow>
        id_subject p = subject \<and> id_issuer p = issuer \<and> id_procedures p = [procedure]
        \<and> set (id_capabilities p) = {Read, EvidenceRegister} \<and> id_actions p = [])"

definition principal_ok :: "Identity \<Rightarrow> bool" where
  "principal_ok p \<longleftrightarrow>
     set (id_capabilities p) \<subseteq> set known_capabilities \<and> distinct (id_capabilities p)
     \<and> (Allows p ActionExecute \<longleftrightarrow> id_actions p \<noteq> [])
     \<and> (Allows p WorkerPoll \<or> Allows p WorkerReport \<longleftrightarrow> id_workerProfiles p \<noteq> [])
     \<and> (\<not> Allows p EvidenceRegister \<longrightarrow> id_procedures p = [])
     \<and> exclusive ReviewCreate p \<and> exclusive RecoveryReconcile p \<and> list_all (dedicated p) reserved_evidence"

lemma exclusive_duty_None: "exclusive_duty c e1 e2 p = None \<longleftrightarrow> exclusive c p"
  by (auto simp: exclusive_duty_def exclusive_def list_ex_iff)

lemma two_elements:
  assumes "distinct xs" and "length xs = 2" and "a \<in> set xs" and "b \<in> set xs" and "a \<noteq> b"
  shows "set xs = {a, b}"
proof -
  have "card (set xs) = 2" using assms(1,2) by (simp add: distinct_card)
  moreover have "{a, b} \<subseteq> set xs" "card {a, b} = 2" using assms(3-5) by auto
  ultimately show ?thesis by (metis card_subset_eq finite_set)
qed

lemma reserved_None:
  assumes "validateReservedEvidenceAuthority p r = None" and "distinct (id_capabilities p)"
  shows "dedicated p r"
proof -
  obtain s i pr where r: "r = (s, i, pr)" by (cases r)
  show ?thesis
    unfolding dedicated_def r prod.case
  proof (rule impI)
    assume "id_subject p = s \<or> id_issuer p = i \<or> pr \<in> set (id_procedures p)"
    with assms(1) r have *: "id_subject p = s" "id_issuer p = i" "length (id_procedures p) = 1" "pr \<in> set (id_procedures p)"
      "id_actions p = []" "length (id_capabilities p) = 2" "Allows p Read" "Allows p EvidenceRegister"
      by (auto simp: validateReservedEvidenceAuthority_def split: if_splits)
    from *(3,4) have "id_procedures p = [pr]" by (auto simp: length_Suc_conv)
    moreover have "set (id_capabilities p) = {Read, EvidenceRegister}"
      by (rule two_elements [OF assms(2) *(6)]) (use *(7,8) in \<open>simp_all add: Allows_def Read_def EvidenceRegister_def\<close>)
    ultimately show "id_subject p = s \<and> id_issuer p = i \<and> id_procedures p = [pr]
        \<and> set (id_capabilities p) = {Read, EvidenceRegister} \<and> id_actions p = []"
      using * by blast
  qed
qed

lemma dedicated_profiles [simp]: "dedicated (p\<lparr>id_workerProfiles := ps\<rparr>) r \<longleftrightarrow> dedicated p r"
  by (simp add: dedicated_def)

lemma Allows_profiles [simp]: "Allows (p\<lparr>id_workerProfiles := ps\<rparr>) c \<longleftrightarrow> Allows p c"
  by (simp add: Allows_def)

lemma configure_Inr:
  "configureWorkerProfiles spec p = Inr p' \<Longrightarrow>
   \<exists>ps. p' = p\<lparr>id_workerProfiles := ps\<rparr> \<and> (Allows p WorkerPoll \<or> Allows p WorkerReport \<longleftrightarrow> ps \<noteq> [])"
  by (auto simp: configureWorkerProfiles_def)

lemma new_principal_ok:
  assumes "new_principal spec = Inr p"
  shows "principal_ok p \<and> id_subject p = spec_Subject spec"
proof -
  from assms obtain caps actions procedures q where
    caps: "collect_grants (\<lambda>c. c \<in> set known_capabilities) (ErrText ''unknown or duplicate capability'') (spec_Capabilities spec) [] = Inr caps"
    and exec: "ActionExecute \<in> set caps \<longleftrightarrow> actions \<noteq> []"
    and q: "q = \<lparr>id_workerProfiles = [], id_subject = spec_Subject spec, id_capabilities = caps,
                 id_actions = actions, id_issuer = spec_EvidenceIssuer spec, id_procedures = procedures\<rparr>"
    and ev: "evidence_binding q = None"
    and res: "validateReservedEvidenceAuthority q (reserved_evidence ! 0) = None"
      "validateReservedEvidenceAuthority q (reserved_evidence ! 1) = None"
      "validateReservedEvidenceAuthority q (reserved_evidence ! 2) = None"
      "validateReservedEvidenceAuthority q (reserved_evidence ! 3) = None"
    and cfg: "configureWorkerProfiles spec q = Inr p"
    and ex: "exclusive ReviewCreate p" "exclusive RecoveryReconcile p"
    by (auto simp: new_principal_def Let_def exclusive_duty_None)
  have c: "list_all (\<lambda>c. c \<in> set known_capabilities) caps" "distinct caps"
    using collect_grants_Inr [OF caps] by auto
  from configure_Inr [OF cfg] obtain ps where p: "p = q\<lparr>id_workerProfiles := ps\<rparr>"
    "Allows q WorkerPoll \<or> Allows q WorkerReport \<longleftrightarrow> ps \<noteq> []" by blast
  have "dedicated q (reserved_evidence ! 0)" "dedicated q (reserved_evidence ! 1)"
    "dedicated q (reserved_evidence ! 2)" "dedicated q (reserved_evidence ! 3)"
    using res reserved_None [of q] c(2) q by simp_all
  then have "list_all (dedicated p) reserved_evidence" by (simp add: reserved_evidence_def p(1))
  moreover have "id_capabilities q = caps" "id_actions q = actions" "id_subject q = spec_Subject spec"
    by (simp_all add: q)
  ultimately show ?thesis
    using p c exec ex ev
    by (auto simp: principal_ok_def list_all_iff Allows_def evidence_binding_def split: if_splits)
qed

lemma new_principals_ok:
  assumes "new_principals specs acc = Inr ps" and "list_all (\<lambda>(s, p). id_subject p = s \<and> subjectPattern s \<and> principal_ok p) acc"
    and "distinct (map fst acc)"
  shows "list_all (\<lambda>(s, p). id_subject p = s \<and> subjectPattern s \<and> principal_ok p) ps \<and> distinct (map fst ps)"
  using assms
proof (induction specs arbitrary: acc)
  case (Cons spec specs)
  from Cons.prems(1) obtain p where p: "subjectPattern (spec_Subject spec)" "map_of acc (spec_Subject spec) = None"
    "new_principal spec = Inr p" "new_principals specs (acc @ [(id_subject p, p)]) = Inr ps" by auto
  from new_principal_ok [OF p(3)] p(1,2) Cons.prems(2,3)
  have "list_all (\<lambda>(s, p). id_subject p = s \<and> subjectPattern s \<and> principal_ok p) (acc @ [(id_subject p, p)])"
    "distinct (map fst (acc @ [(id_subject p, p)]))"
    by (simp_all add: map_of_eq_None_iff)
  from Cons.IH [OF p(4) this] show ?case .
qed simp

lemma policy_principal:
  assumes "NewPolicy doc = Inr policy" and "map_of (pol_principals policy) s = Some p"
  shows "id_subject p = s \<and> subjectPattern s \<and> principal_ok p"
proof -
  from assms(1) obtain ps where "new_principals (doc_Principals doc) [] = Inr ps" "pol_principals policy = ps"
    by (auto simp: NewPolicy_def)
  with new_principals_ok [of "doc_Principals doc" "[]" ps] assms(2) show ?thesis
    by (auto simp: list_all_iff dest!: map_of_SomeD)
qed

section \<open>Claim lanes\<close>

definition claims :: "Identity list \<Rightarrow> (string \<times> bool) list" where
  "claims ps = concat (map (\<lambda>p. if Allows p WorkerPoll then map (\<lambda>f. (f, Allows p WorkerPrepare)) (id_workerProfiles p) else []) ps)"

definition lanes_pure :: "Identity list \<Rightarrow> bool" where
  "lanes_pure ps \<longleftrightarrow> list_all (\<lambda>(f, b). (f, \<not> b) \<notin> set (claims ps)) (claims ps)"

lemma lane_profiles_Inr:
  "(\<exists>lanes'. lane_profiles b fs lanes = Inr lanes') \<longleftrightarrow> list_all (\<lambda>f. lanes f \<noteq> Some (\<not> b)) fs"
proof (induction fs arbitrary: lanes)
  case (Cons f fs)
  have f: "(case lanes f of None \<Rightarrow> False | Some prior \<Rightarrow> prior \<noteq> b) \<longleftrightarrow> lanes f = Some (\<not> b)"
    by (auto split: option.split)
  show ?case
  proof (cases "lanes f = Some (\<not> b)")
    case True
    with f show ?thesis by simp
  next
    case False
    then have "list_all (\<lambda>g. (lanes(f \<mapsto> b)) g \<noteq> Some (\<not> b)) fs \<longleftrightarrow> list_all (\<lambda>g. lanes g \<noteq> Some (\<not> b)) fs"
      by (auto simp: list_all_iff)
    then have "(\<exists>lanes'. lane_profiles b fs (lanes(f \<mapsto> b)) = Inr lanes') \<longleftrightarrow> list_all (\<lambda>g. lanes g \<noteq> Some (\<not> b)) fs"
      using Cons.IH [of "lanes(f \<mapsto> b)"] by (simp only:)
    with False f show ?thesis by simp
  qed
qed simp

lemma lane_profiles_result:
  "lane_profiles b fs lanes = Inr lanes' \<Longrightarrow> lanes' = (\<lambda>f. if f \<in> set fs then Some b else lanes f)"
  by (induction fs arbitrary: lanes) (auto simp: fun_eq_iff)

definition compatible :: "(string \<rightharpoonup> bool) \<Rightarrow> Identity list \<Rightarrow> bool" where
  "compatible lanes ps \<longleftrightarrow> (\<forall>f b. (f, b) \<in> set (claims ps) \<longrightarrow> lanes f \<noteq> Some (\<not> b) \<and> (f, \<not> b) \<notin> set (claims ps))"

lemma compatible_Cons:
  assumes "Allows p WorkerPoll"
  shows "compatible lanes (p # ps) \<longleftrightarrow>
     list_all (\<lambda>f. lanes f \<noteq> Some (\<not> Allows p WorkerPrepare)) (id_workerProfiles p)
     \<and> compatible (\<lambda>f. if f \<in> set (id_workerProfiles p) then Some (Allows p WorkerPrepare) else lanes f) ps"
proof -
  have "set (claims (p # ps)) = (\<lambda>f. (f, Allows p WorkerPrepare)) ` set (id_workerProfiles p) \<union> set (claims ps)"
    using assms by (simp add: claims_def)
  then show ?thesis
    unfolding compatible_def list_all_iff by (simp split: if_splits) blast
qed

lemma claim_lanes_Inr: "(\<exists>lanes'. claim_lanes ps lanes = Inr lanes') \<longleftrightarrow> compatible lanes ps"
proof (induction ps arbitrary: lanes)
  case Nil
  then show ?case by (simp add: compatible_def claims_def)
next
  case (Cons p ps)
  show ?case
  proof (cases "Allows p WorkerPoll")
    case False
    then have "compatible lanes (p # ps) \<longleftrightarrow> compatible lanes ps" by (simp add: compatible_def claims_def)
    with False Cons.IH show ?thesis by simp
  next
    case True
    show ?thesis
    proof (cases "lane_profiles (Allows p WorkerPrepare) (id_workerProfiles p) lanes")
      case (Inl e)
      with lane_profiles_Inr [of "Allows p WorkerPrepare" "id_workerProfiles p" lanes] True compatible_Cons
      show ?thesis by simp
    next
      case (Inr lanes')
      with lane_profiles_Inr [of "Allows p WorkerPrepare" "id_workerProfiles p" lanes] lane_profiles_result [OF Inr] True
        compatible_Cons Cons.IH
      show ?thesis by simp
    qed
  qed
qed

text \<open>
  C32. Worker claim lanes are checked exactly: the policy loop accepts the principals if and only if
  no worker profile is granted both to a preparing and to an admission-only polling principal. The
  right-hand side only mentions the set of claims, so the verdict does not depend on the order in
  which Go ranges over the map of principals.
\<close>

theorem validateWorkerClaimLanes_iff:
  "validateWorkerClaimLanes ps = None \<longleftrightarrow> lanes_pure ps"
proof -
  have "validateWorkerClaimLanes ps = None \<longleftrightarrow> compatible Map.empty ps"
    unfolding validateWorkerClaimLanes_def claim_lanes_Inr [symmetric] by (auto split: sum.split)
  also have "\<dots> \<longleftrightarrow> lanes_pure ps" by (auto simp: compatible_def lanes_pure_def list_all_iff)
  finally show ?thesis .
qed

lemma lanes_order_irrelevant: "mset ps = mset qs \<Longrightarrow> lanes_pure ps \<longleftrightarrow> lanes_pure qs"
proof -
  assume "mset ps = mset qs"
  then have "set ps = set qs" by (rule mset_eq_setD)
  then have "set (claims ps) = set (claims qs)" by (auto simp: claims_def)
  then show ?thesis by (simp add: lanes_pure_def list_all_iff)
qed

end
