(* ===== verification/Authenticated.thy ===== *)
theory Authenticated
  imports Schedules AccessPolicy
begin

text \<open>
  The network assembly (\<open>api/authenticated.go\<close>): every request but the health check is authenticated
  against the access policy, needs the capability of its route, and may only speak in the name of
  its own subject. What the bodies decode to is an input, as in the handlers; strict JSON reading
  and the media type are inputs too. The steering, action, publication and abandonment routes and
  the worker routes are in the capability tables but have no handler in the model.
\<close>

section \<open>The handler\<close>

definition routeCapabilities :: "(string \<times> string) list" where
  "routeCapabilities =
     [(''POST /api/v1/recovery/actions/abandon-uninvoked'', RecoveryReconcile),
      (''GET /api/v1/recovery/actions/{id}/uninvoked'', Read),
      (''POST /api/v1/recovery/actions/confirm-publication'', RecoveryReconcile),
      (''GET /api/v1/recovery/actions/{id}/publication'', Read),
      (''GET /api/v1/capabilities'', Read),
      (''GET /api/v1/recovery'', Read),
      (''GET /api/v1/operations/status'', Read),
      (''GET /api/v1/operations/attention'', Read),
      (''GET /api/v1/operations/capacity'', Read),
      (''POST /api/v1/recovery/begin'', RecoveryBegin),
      (''POST /api/v1/recovery/complete'', RecoveryComplete),
      (''POST /api/v1/recovery/proofs'', RecoveryReconcile),
      (''GET /api/v1/recovery/proofs/{epoch}'', Read),
      (''POST /api/v1/recovery/executions/abandon'', RecoveryReconcile),
      (''POST /api/v1/recovery/actions/abandon-planned'', RecoveryReconcile),
      (''GET /api/v1/recovery/actions/{id}/abandon-planned'', Read),
      (''POST /api/v1/work-items'', WorkCreate),
      (''GET /api/v1/work-items/{id}'', Read),
      (''POST /api/v1/task-contracts'', TaskCreate),
      (''GET /api/v1/task-contracts/{id}'', Read),
      (''GET /api/v1/task-contracts/by-digest/{digest}'', Read),
      (''GET /api/v1/verification-plans/by-digest/{digest}'', Read),
      (''POST /api/v1/runs'', RunStart),
      (''GET /api/v1/runs/{id}'', Read),
      (''POST /api/v1/runs/{id}/steer'', RunControl),
      (''POST /api/v1/runs/{id}/interrupt'', RunControl),
      (''GET /api/v1/steering/{id}/delivery'', Read),
      (''GET /api/v1/steering/{id}'', Read),
      (''POST /api/v1/runs/{id}/pause'', RunControl),
      (''POST /api/v1/runs/{id}/resume'', RunControl),
      (''POST /api/v1/runs/{id}/takeover'', RunControl),
      (''POST /api/v1/runs/{id}/complete'', RunComplete),
      (''POST /api/v1/runs/{id}/checkpoints'', CheckpointCreate),
      (''GET /api/v1/checkpoints/{id}'', Read),
      (''POST /api/v1/runs/{id}/actions'', ActionExecute),
      (''GET /api/v1/actions/{id}'', Read),
      (''POST /api/v1/actions/{id}/reconcile'', ActionReconcile),
      (''POST /api/v1/deliveries'', DeliveryCreate),
      (''GET /api/v1/deliveries/{id}'', Read),
      (''POST /api/v1/evidence'', EvidenceRegister),
      (''GET /api/v1/evidence/{id}'', Read),
      (''POST /api/v1/verifications'', VerificationCreate),
      (''GET /api/v1/verifications/{id}'', Read),
      (''POST /api/v1/reviews'', ReviewCreate),
      (''GET /api/v1/reviews/{id}'', Read),
      (''POST /api/v1/closures'', ClosureCreate),
      (''GET /api/v1/closures/{id}'', Read)]"

definition workerRouteCapabilities :: "(string \<times> string) list" where
  "workerRouteCapabilities =
     [(''POST /api/v1/runs/{id}/continue'', RunStart),
      (''GET /api/v1/runs/{id}/continuation'', Read),
      (''POST /api/v1/worker/codex/source-checkpoint'', ActionExecute),
      (''POST /api/v1/worker/codex/controls/bind'', ActionExecute),
      (''POST /api/v1/worker/codex/controls/claim'', ActionExecute),
      (''POST /api/v1/worker/codex/controls/report'', ActionExecute),
      (''POST /api/v1/worker/codex/controls/close'', ActionExecute),
      (''POST /api/v1/worker/codex/start'', ActionExecute),
      (''POST /api/v1/worker/codex/renew'', ActionExecute),
      (''POST /api/v1/worker/codex/report'', ActionExecute),
      (''POST /api/v1/worker/codex/fail'', ActionExecute),
      (''GET /api/v1/runs/{id}/codex'', Read),
      (''POST /api/v1/worker/offline/start'', ActionExecute),
      (''POST /api/v1/worker/offline/renew'', ActionExecute),
      (''POST /api/v1/worker/offline/report'', ActionExecute),
      (''POST /api/v1/worker/offline/fail'', ActionExecute),
      (''GET /api/v1/runs/{id}/offline'', Read),
      (''POST /api/v1/worker/prepare-claim'', WorkerPrepare),
      (''POST /api/v1/worker/prepared'', WorkerPrepare),
      (''GET /api/v1/runs/{id}/preparation'', Read),
      (''POST /api/v1/worker/claim'', WorkerPoll),
      (''POST /api/v1/worker/renew'', WorkerPoll),
      (''POST /api/v1/worker/report'', WorkerReport),
      (''GET /api/v1/runs/{id}/inbox'', Read)]"

fun pattern :: "http_call \<Rightarrow> string" where
  "pattern GetHealth = ''GET /healthz''"
| "pattern GetCapabilities = ''GET /api/v1/capabilities''"
| "pattern GetRecovery = ''GET /api/v1/recovery''"
| "pattern (PostRecoveryBegin b) = ''POST /api/v1/recovery/begin''"
| "pattern (PostRecoveryComplete b) = ''POST /api/v1/recovery/complete''"
| "pattern (PostWork now w) = ''POST /api/v1/work-items''"
| "pattern (GetWork i) = ''GET /api/v1/work-items/{id}''"
| "pattern (PostTask t) = ''POST /api/v1/task-contracts''"
| "pattern (GetTask i) = ''GET /api/v1/task-contracts/{id}''"
| "pattern (GetTaskByDigest d) = ''GET /api/v1/task-contracts/by-digest/{digest}''"
| "pattern (GetPlanByDigest d) = ''GET /api/v1/verification-plans/by-digest/{digest}''"
| "pattern (PostRun now r) = ''POST /api/v1/runs''"
| "pattern (GetRun i) = ''GET /api/v1/runs/{id}''"
| "pattern (PostPause i b) = ''POST /api/v1/runs/{id}/pause''"
| "pattern (PostResume i b) = ''POST /api/v1/runs/{id}/resume''"
| "pattern (PostTakeover i b) = ''POST /api/v1/runs/{id}/takeover''"
| "pattern (PostComplete i b) = ''POST /api/v1/runs/{id}/complete''"
| "pattern (GetSteering i) = ''GET /api/v1/steering/{id}''"
| "pattern (PostCheckpoint now i c) = ''POST /api/v1/runs/{id}/checkpoints''"
| "pattern (GetCheckpoint i) = ''GET /api/v1/checkpoints/{id}''"
| "pattern (GetAction a i) = ''GET /api/v1/actions/{id}''"
| "pattern (PostDelivery now d) = ''POST /api/v1/deliveries''"
| "pattern (GetDelivery i) = ''GET /api/v1/deliveries/{id}''"
| "pattern (PostEvidence e) = ''POST /api/v1/evidence''"
| "pattern (GetEvidence i) = ''GET /api/v1/evidence/{id}''"
| "pattern (PostVerification now v) = ''POST /api/v1/verifications''"
| "pattern (GetVerification i) = ''GET /api/v1/verifications/{id}''"
| "pattern (PostReview now r) = ''POST /api/v1/reviews''"
| "pattern (GetReview i) = ''GET /api/v1/reviews/{id}''"
| "pattern (PostClosure now x) = ''POST /api/v1/closures''"
| "pattern (GetClosure i) = ''GET /api/v1/closures/{id}''"

type_synonym gate = "ctx \<Rightarrow> string \<Rightarrow> uint64 \<Rightarrow> Memory \<Rightarrow> err option"

definition StatusText :: "nat \<Rightarrow> string" where
  "StatusText status =
     (if status = 400 then ''Bad Request'' else if status = 403 then ''Forbidden''
      else if status = 503 then ''Service Unavailable'' else [])"

definition NonBlank :: "string \<Rightarrow> bool" where
  "NonBlank s \<longleftrightarrow> TrimSpace s \<noteq> []"

text \<open>A body that has to name the caller: 400 when it does not decode, 403 when it names another.\<close>

definition names_caller :: "'a option \<Rightarrow> ('a \<Rightarrow> bool) \<Rightarrow> nat" where
  "names_caller body ok = (case body of None \<Rightarrow> 400 | Some x \<Rightarrow> if ok x then 0 else 403)"

text \<open>
  The status goes to the rest of the handler: 0 when the body is authorized. Only the completion of
  a recovery asks somebody else, the gate, which may look into the store.
\<close>

fun authorizeBody :: "gate option \<Rightarrow> Identity \<Rightarrow> http_call \<Rightarrow> (nat \<Rightarrow> handler) \<Rightarrow> handler" where
  "authorizeBody gate p (PostWork now b) k = k (names_caller b (\<lambda>w. work_HumanOwner w = Subject p))"
| "authorizeBody gate p (PostTask b) k = k (names_caller b (\<lambda>req.
     \<not> (mat_DegradationApprovedBy (ct_Material req) \<noteq> []
        \<and> (\<not> Allows p MaterialDegrade \<or> mat_DegradationApprovedBy (ct_Material req) \<noteq> Subject p
            \<or> \<not> NonBlank (mat_DegradationReason (ct_Material req))))))"
| "authorizeBody gate p (PostEvidence b) k = k (names_caller b (\<lambda>req.
     AllowsEvidence p (ev_Issuer (ce_Evidence req)) (ev_Procedure (ce_Evidence req))))"
| "authorizeBody gate p (PostVerification now b) k = k (names_caller b (\<lambda>req. cv_Verifier req = Subject p))"
| "authorizeBody gate p (PostReview now b) k = k (names_caller b (\<lambda>req. cw_Reviewer req = Subject p))"
| "authorizeBody gate p (PostRecoveryComplete b) k =
     (case b of
        None \<Rightarrow> k 400
      | Some epoch \<Rightarrow>
          if epoch = 0 then k 400
          else case gate of
            None \<Rightarrow> k 503
          | Some authorizeCompletion \<Rightarrow>
              Call (\<lambda>c m. m) (\<lambda>c m. k (if authorizeCompletion c (Subject p) epoch m \<noteq> None then 403 else 0)))"
| "authorizeBody gate p call k = k 0"

record request =
  rq_now :: gotime
  rq_tls :: "tls_state option"
  rq_mediaType :: "string option"
  rq_ContentEncoding :: string
  rq_hasBody :: bool
  rq_strictObject :: bool
  rq_call :: http_call

definition route_capability :: "string \<Rightarrow> string option" where
  "route_capability pat =
     (case map_of routeCapabilities pat of Some c \<Rightarrow> Some c | None \<Rightarrow> map_of workerRouteCapabilities pat)"

definition authenticatedHandler :: "gate option \<Rightarrow> Policy \<Rightarrow> request \<Rightarrow> handler" where
  "authenticatedHandler gate policy r =
     (if pattern (rq_call r) = ''GET /healthz'' then routes (rq_call r)
      else case Authenticate (rq_now r) policy (rq_tls r) of
        Inl _ \<Rightarrow> Respond (writeError 401 ''verified client identity required'')
      | Inr identity \<Rightarrow>
          if (case route_capability (pattern (rq_call r)) of None \<Rightarrow> True | Some c \<Rightarrow> \<not> Allows identity c)
          then Respond (writeError 403 ''capability denied'')
          else if HasPrefix (pattern (rq_call r)) ''POST ''
          then if rq_mediaType r \<noteq> Some ''application/json'' \<or> rq_ContentEncoding r \<noteq> []
               then Respond (writeError 415 ''unencoded application/json required'')
               else if \<not> rq_hasBody r then Respond (writeError 400 ''JSON body required'')
               else if \<not> rq_strictObject r then Respond (writeError 400 ''invalid, ambiguous or oversized JSON'')
               else authorizeBody gate identity (rq_call r) (\<lambda>status.
                 if status \<noteq> 0 then Respond (writeError status (StatusText status)) else routes (rq_call r))
          else routes (rq_call r))"

definition NewAuthenticatedServer :: "gate option \<Rightarrow> Policy \<Rightarrow> Memory \<Rightarrow> request list \<Rightarrow> server" where
  "NewAuthenticatedServer gate policy m reqs =
     \<lparr>sv_store = m, sv_requests = map (authenticatedHandler gate policy) reqs\<rparr>"

section \<open>Who stands behind a record\<close>

text \<open>\<open>holds P s c\<close>: the policy has a principal with subject \<open>s\<close> that holds the capability \<open>c\<close>.\<close>

definition holds :: "Policy \<Rightarrow> string \<Rightarrow> string \<Rightarrow> bool" where
  "holds P s c \<longleftrightarrow> list_ex (\<lambda>(_, p). Subject p = s \<and> Allows p c) (pol_principals P)"

definition may_register :: "Policy \<Rightarrow> string \<Rightarrow> string \<Rightarrow> bool" where
  "may_register P issuer procedure \<longleftrightarrow> list_ex (\<lambda>(_, p). AllowsEvidence p issuer procedure) (pol_principals P)"

definition attributed :: "Policy \<Rightarrow> Memory \<Rightarrow> bool" where
  "attributed P m \<longleftrightarrow>
     (\<forall>i w. mem_works m i = Some w \<longrightarrow> holds P (work_HumanOwner w) WorkCreate)
     \<and> (\<forall>i e. mem_evidence m i = Some e \<longrightarrow> may_register P (ev_Issuer e) (ev_Procedure e))
     \<and> (\<forall>i v. mem_verificationReports m i = Some v \<longrightarrow> holds P (vr_Verifier v) VerificationCreate)
     \<and> (\<forall>i r. mem_reviewReports m i = Some r \<longrightarrow> holds P (rr_Reviewer r) ReviewCreate)"

fun call_attributed :: "Policy \<Rightarrow> store_call \<Rightarrow> bool" where
  "call_attributed P (SCreateWork c w) \<longleftrightarrow> holds P (work_HumanOwner w) WorkCreate"
| "call_attributed P (SUpdateWork c i v w) \<longleftrightarrow> holds P (work_HumanOwner w) WorkCreate"
| "call_attributed P (SCreateTaskAndUpdateWork c t p v w) \<longleftrightarrow> holds P (work_HumanOwner w) WorkCreate"
| "call_attributed P (SCreateExecutionAndUpdateWork c r a s i v w) \<longleftrightarrow> holds P (work_HumanOwner w) WorkCreate"
| "call_attributed P (SUpdateExecutionAndWork c i v r s wv w) \<longleftrightarrow> holds P (work_HumanOwner w) WorkCreate"
| "call_attributed P (SCreateEvidence c e) \<longleftrightarrow> may_register P (ev_Issuer e) (ev_Procedure e)"
| "call_attributed P (SCreateVerification c v) \<longleftrightarrow> holds P (vr_Verifier v) VerificationCreate"
| "call_attributed P (SCreateReview c r v w) \<longleftrightarrow>
     holds P (rr_Reviewer r) ReviewCreate \<and> holds P (work_HumanOwner w) WorkCreate"
| "call_attributed P (SCreateClosure c x v w) \<longleftrightarrow> holds P (work_HumanOwner w) WorkCreate"
| "call_attributed P _ \<longleftrightarrow> True"

lemma attributed_step:
  assumes step: "do_store call m = Inr m'" and own: "call_attributed P call" and ok: "attributed P m"
  shows "attributed P m'"
proof -
  have "mem_works m i = Some w \<or> holds P (work_HumanOwner w) WorkCreate
      \<or> (\<exists>w'. mem_works m i = Some w' \<and> work_HumanOwner w' = work_HumanOwner w)" if "mem_works m' i = Some w" for i w
    using that step own by (cases call) (auto simp: store_write_defs split: if_splits)
  moreover have "mem_evidence m i = Some e \<or> may_register P (ev_Issuer e) (ev_Procedure e)"
    if "mem_evidence m' i = Some e" for i e
    using that step own by (cases call) (auto simp: store_write_defs split: if_splits)
  moreover have "mem_verificationReports m i = Some v \<or> holds P (vr_Verifier v) VerificationCreate"
    if "mem_verificationReports m' i = Some v" for i v
    using that step own by (cases call) (auto simp: store_write_defs split: if_splits)
  moreover have "mem_reviewReports m i = Some r \<or> holds P (rr_Reviewer r) ReviewCreate"
    if "mem_reviewReports m' i = Some r" for i r
    using that step own by (cases call) (auto simp: store_write_defs split: if_splits)
  ultimately show ?thesis
    using ok unfolding attributed_def by metis
qed

section \<open>Requests keep records attributed\<close>

text \<open>\<open>keeps J h\<close>: every store call of \<open>h\<close> keeps \<open>J\<close>, in every store that satisfies it.\<close>

primrec keeps :: "(Memory \<Rightarrow> bool) \<Rightarrow> handler \<Rightarrow> bool" where
  "keeps J (Respond r) \<longleftrightarrow> True"
| "keeps J (Call e k) \<longleftrightarrow> (\<forall>c m. J m \<longrightarrow> J (e c m) \<and> keeps J (k c m))"

lemma safe_keeps: "safe I Q h m \<Longrightarrow> keeps J h \<Longrightarrow> safe (\<lambda>m. I m \<and> J m) Q h m"
proof (induction h arbitrary: m)
  case (Call e k)
  have "safe (\<lambda>m. I m \<and> J m) Q (k c m') (e c m')" if "history m m'" "I m' \<and> J m'" for c m'
    by (rule Call.IH [OF rangeI rangeI]) (use Call.prems that in auto)
  with Call.prems show ?case by simp
qed simp

lemma keeps_get:
  assumes "\<And>c m x. J m \<Longrightarrow> f c m = Inr x \<Longrightarrow> keeps J (k (Inr x))" and "\<And>e. keeps J (k (Inl e))"
  shows "keeps J (fetch f k)"
proof -
  have "keeps J (k (unless_err (c 0) (f (ctx_from 1 c) m)))" if "J m" for c m
    using assms(1) [OF that] assms(2) by (cases "unless_err (c 0) (f (ctx_from 1 c) m)") auto
  then show ?thesis by (simp add: fetch_def)
qed

lemma keeps_read: "(\<And>r. keeps J (k r)) \<Longrightarrow> keeps J (fetch f k)"
  by (simp add: fetch_def)

lemma keeps_put_with:
  assumes "\<And>c m x m'. J m \<Longrightarrow> f c m = Inr (x, m') \<Longrightarrow> J m'" and "\<And>r. keeps J (k r)"
  shows "keeps J (put_with f k)"
proof -
  have "J (case unless_err (c 0) (f (ctx_from 1 c) m) of Inl _ \<Rightarrow> m | Inr (_, m') \<Rightarrow> m')" if "J m" for c m
    using assms(1) [OF that, of "ctx_from 1 c"] that
    by (cases "unless_err (c 0) (f (ctx_from 1 c) m)") (auto split: prod.split)
  with assms(2) show ?thesis by (simp add: put_with_def)
qed

lemma keeps_put:
  assumes "\<And>c m m'. J m \<Longrightarrow> f c m = Inr m' \<Longrightarrow> J m'" and "\<And>r. keeps J (k r)"
  shows "keeps J (put f k)"
  unfolding put_def by (rule keeps_put_with) (use assms in auto)

lemma keeps_decode: "(\<And>x. body = Some x \<Longrightarrow> keeps J (k x)) \<Longrightarrow> keeps J (decodeJSON body k)"
  by (simp add: decodeJSON_def split: option.split)

lemma keeps_or_store_error: "(\<And>x. r = Inr x \<Longrightarrow> keeps J (k x)) \<Longrightarrow> keeps J (or_store_error k r)"
  by (simp add: or_store_error_def split: sum.split)

lemma keeps_endings [simp]:
  "keeps J (exists_or_internal ok e)" "keeps J (conflict_or_internal ok e)" "keeps J (mutation_result ok e)"
  by (simp_all add: exists_or_internal_def conflict_or_internal_def mutation_result_def split: option.split)

lemma keeps_check_request: "keeps J k \<Longrightarrow> keeps J (check_request k)"
  unfolding check_request_def by (auto intro!: keeps_read keeps_or_store_error)

text \<open>One rule per accessor that writes, and one for the work items that are read.\<close>

abbreviation att :: "Policy \<Rightarrow> handler \<Rightarrow> bool" where
  "att P \<equiv> keeps (attributed P)"

definition owned :: "Policy \<Rightarrow> WorkItem \<Rightarrow> bool" where
  "owned P w \<longleftrightarrow> holds P (work_HumanOwner w) WorkCreate"

lemma att_getWork: "(\<And>w. owned P w \<Longrightarrow> att P (k (Inr w))) \<Longrightarrow> (\<And>e. att P (k (Inl e))) \<Longrightarrow> att P (getWorkForRequest i k)"
  unfolding getWorkForRequest_def
  by (rule keeps_get) (auto simp: GetWorkContext_def attributed_def owned_def)

lemma att_put:
  assumes "\<And>c m. f c m = do_store (call c) m" and "\<And>c. call_attributed P (call c)" and "\<And>r. att P (k r)"
  shows "att P (put f k)"
  by (rule keeps_put, rule attributed_step) (use assms in auto)

lemma att_work_writes:
  assumes "owned P w" and "\<And>r. att P (k r)"
  shows "att P (createWorkForRequest w k)" and "att P (freezeTaskForRequest t p v w k)"
    and "att P (startRunForRequest r a s inp v w k)" and "att P (completeRunForRequest i v r s wv w k)"
    and "att P (createClosureForRequest x v w k)"
proof -
  note own = assms(1) [unfolded owned_def]
  show "att P (createWorkForRequest w k)" unfolding request_defs
    by (rule att_put [where call = "\<lambda>c. SCreateWork c w"]) (use own assms(2) in simp_all)
  show "att P (freezeTaskForRequest t p v w k)" unfolding request_defs
    by (rule att_put [where call = "\<lambda>c. SCreateTaskAndUpdateWork c t p v w"]) (use own assms(2) in simp_all)
  show "att P (startRunForRequest r a s inp v w k)" unfolding request_defs
    by (rule att_put [where call = "\<lambda>c. SCreateExecutionAndUpdateWork c r a s inp v w"]) (use own assms(2) in simp_all)
  show "att P (completeRunForRequest i v r s wv w k)" unfolding request_defs
    by (rule att_put [where call = "\<lambda>c. SUpdateExecutionAndWork c i v r s wv w"]) (use own assms(2) in simp_all)
  show "att P (createClosureForRequest x v w k)" unfolding request_defs
    by (rule att_put [where call = "\<lambda>c. SCreateClosure c x v w"]) (use own assms(2) in simp_all)
qed

lemma att_writes:
  assumes "\<And>r. att P (k r)"
  shows "att P (updateRunForRequest i v r s k)" and "att P (createDeliveryForRequest d k)"
    and "may_register P (ev_Issuer e) (ev_Procedure e) \<Longrightarrow> att P (registerEvidenceForRequest e k)"
    and "holds P (vr_Verifier vr) VerificationCreate \<Longrightarrow> att P (createVerificationForRequest vr k)"
    and "holds P (rr_Reviewer rr) ReviewCreate \<Longrightarrow> owned P w \<Longrightarrow> att P (createReviewForRequest rr v w k)"
proof -
  show "att P (updateRunForRequest i v r s k)" unfolding request_defs
    by (rule att_put [where call = "\<lambda>c. SUpdateExecution c i v r s"]) (use assms in simp_all)
  show "att P (createDeliveryForRequest d k)" unfolding request_defs
    by (rule att_put [where call = "\<lambda>c. SCreateDelivery c d"]) (use assms in simp_all)
  show "att P (registerEvidenceForRequest e k)" if "may_register P (ev_Issuer e) (ev_Procedure e)"
    unfolding request_defs by (rule att_put [where call = "\<lambda>c. SCreateEvidence c e"]) (use assms that in simp_all)
  show "att P (createVerificationForRequest vr k)" if "holds P (vr_Verifier vr) VerificationCreate"
    unfolding request_defs by (rule att_put [where call = "\<lambda>c. SCreateVerification c vr"]) (use assms that in simp_all)
  show "att P (createReviewForRequest rr v w k)" if "holds P (rr_Reviewer rr) ReviewCreate" "owned P w"
    unfolding request_defs
    by (rule att_put [where call = "\<lambda>c. SCreateReview c rr v w"]) (use assms that in \<open>simp_all add: owned_def\<close>)
qed

lemma att_other_writes:
  "(\<And>r. att P (k r)) \<Longrightarrow> att P (beginRecoveryForRequest epoch k)"
  "(\<And>r. att P (k r)) \<Longrightarrow> att P (completeRecoveryForRequest epoch b k)"
  "(\<And>r. att P (k' r)) \<Longrightarrow> att P (createCheckpointForRequest item k')"
  unfolding request_defs
  by (rule keeps_put_with; auto simp: attributed_def store_write_defs)+

lemma owned_update [simp]:
  "owned P (w\<lparr>work_ActiveTaskContractDigest := d\<rparr>) \<longleftrightarrow> owned P w"
  "owned P (w\<lparr>work_ActiveRunID := i\<rparr>) \<longleftrightarrow> owned P w"
  by (simp_all add: owned_def)

lemma Transition_owned: "Transition w st = Inr w' \<Longrightarrow> owned P w' \<longleftrightarrow> owned P w"
  by (auto simp: Transition_def owned_def split: if_splits)

lemma att_collect: "(\<And>es. att P (k es)) \<Longrightarrow> att P (collect_evidence ids acc k)"
  by (induction ids arbitrary: acc) (auto simp: getEvidenceForRequest_def intro!: keeps_read keeps_or_store_error)

lemma att_writeExecution: "att P (writeExecution i)"
  unfolding writeExecution_def getRunForRequest_def by (auto intro!: keeps_read keeps_or_store_error)

lemma att_mutate: "(\<And>r. att P (k r)) \<Longrightarrow> att P (mutateExecution i fn k)"
  unfolding mutateExecution_def mutate_phase_def getRunForRequest_def getRunInputForRequest_def
  by (auto intro!: keeps_read att_writes split: sum.split)

lemmas att_intros = keeps_decode keeps_or_store_error att_getWork att_work_writes att_writes att_other_writes

lemma att_phases:
  "owned P w \<Longrightarrow> att P (route_phase req readiness w)" "owned P w \<Longrightarrow> att P (start_phase now rq inp digest w)"
  "holds P (rr_Reviewer rr) ReviewCreate \<Longrightarrow> owned P w \<Longrightarrow> att P (review_phase rr w)"
  by (auto simp: route_phase_def freeze_phase_def start_phase_def review_phase_def Let_def Transition_owned
      intro!: att_work_writes att_writes split: sum.split option.split)

lemma att_complete_phase: "att P (complete_phase i r r' s)"
  unfolding complete_phase_def getFrozenTaskForRequest_def
  by (auto intro!: keeps_read keeps_or_store_error att_getWork att_work_writes
      simp: Transition_owned att_writeExecution or_store_error_def split: sum.split option.split)

lemma att_closure_phase: "att P (closure_phase now req d v)"
  unfolding closure_phase_def getRunForRequest_def
  by (auto intro!: keeps_read keeps_or_store_error att_getWork att_work_writes
      simp: Transition_owned or_store_error_def split: sum.split option.split)

lemma att_readers:
  "att P handleHealth" "att P handleCapabilities" "att P handleGetRecovery" "att P (handleGetWork i)"
  "att P (handleGetTask i)" "att P (handleGetFrozenTaskByDigest d)" "att P (handleGetFrozenVerificationPlanByDigest d)"
  "att P (handleGetRun i)" "att P (handleGetSteering i)" "att P (handleGetCheckpoint i)" "att P (handleGetAction a i)"
  "att P (handleGetDelivery i)" "att P (handleGetEvidence i)" "att P (handleGetVerification i)"
  "att P (handleGetReview i)" "att P (handleGetClosure i)"
  unfolding short_handler_defs handleGetFrozenTaskByDigest_def handleGetFrozenVerificationPlanByDigest_def request_defs
  by (auto intro!: keeps_read keeps_or_store_error keeps_check_request split: sum.split option.split)

lemma att_writers:
  "att P (handleBeginRecovery b1)" "att P (handleCompleteRecovery b2)" "att P (handleCreateTask b3)"
  "att P (handleCreateRun now b4)" "att P (handlePause i b5)" "att P (handleResume i b6)" "att P (handleTakeover i b7)"
  "att P (handleCreateCheckpoint now i b8)" "att P (handleCompleteRun i b9)" "att P (handleCreateDelivery now b10)"
  "att P (handleCreateClosure now b11)"
  unfolding handleBeginRecovery_def handleCompleteRecovery_def handleCreateTask_def handleCreateRun_def handlePause_def
    handleResume_def handleTakeover_def handleCreateCheckpoint_def handleCompleteRun_def handleCreateDelivery_def
    handleCreateClosure_def getRunForRequest_def getFrozenTaskForRequest_def getDeliveryForRequest_def
    getVerificationForRequest_def getReviewForRequest_def Let_def
  by (auto intro!: keeps_decode keeps_read att_getWork att_other_writes att_writes att_mutate att_phases
      simp: or_store_error_def att_complete_phase att_closure_phase att_writeExecution split: sum.split option.split)

lemma att_CreateWork:
  assumes "\<And>w. b = Some w \<Longrightarrow> owned P w"
  shows "att P (handleCreateWork now b)"
  unfolding handleCreateWork_def
  by (auto intro!: keeps_decode att_work_writes dest!: assms simp: owned_def admitted_work_def Let_def)

lemma att_CreateEvidence:
  assumes "\<And>req. b = Some req \<Longrightarrow> may_register P (ev_Issuer (ce_Evidence req)) (ev_Procedure (ce_Evidence req))"
  shows "att P (handleCreateEvidence b)"
  unfolding handleCreateEvidence_def getDeliveryForRequest_def getFrozenTaskForRequest_def
    getVerificationPlanForRequest_def Let_def
  by (auto intro!: keeps_decode keeps_read keeps_or_store_error att_writes dest!: assms
      simp: bound_evidence_def split: option.split)

lemma att_CreateVerification:
  assumes "\<And>req. b = Some req \<Longrightarrow> holds P (cv_Verifier req) VerificationCreate"
  shows "att P (handleCreateVerification now b)"
  unfolding handleCreateVerification_def getDeliveryForRequest_def getFrozenTaskForRequest_def
    getVerificationPlanForRequest_def Let_def
  by (auto intro!: keeps_decode keeps_read keeps_or_store_error att_collect att_writes dest!: assms
      simp: bound_report_def)

lemma att_CreateReview:
  assumes "\<And>req. b = Some req \<Longrightarrow> holds P (cw_Reviewer req) ReviewCreate"
  shows "att P (handleCreateReview now b)"
  unfolding handleCreateReview_def getDeliveryForRequest_def getVerificationForRequest_def
  by (auto intro!: keeps_decode keeps_read att_getWork att_phases dest!: assms
      simp: or_store_error_def bound_review_def split: sum.split)

lemma names_caller_0: "names_caller b ok = 0 \<longleftrightarrow> (\<exists>x. b = Some x \<and> ok x)"
  by (simp add: names_caller_def split: option.split)

lemma att_authorizeBody:
  assumes "p \<in> snd ` set (pol_principals P)"
    and "route_capability (pattern call) = Some c" and "Allows p c"
  shows "att P (authorizeBody gate p call (\<lambda>status.
     if status \<noteq> 0 then Respond (writeError status (StatusText status)) else routes call))"
proof -
  have holds: "holds P (Subject p) c" using assms by (force simp: holds_def list_ex_iff)
  have evidence: "may_register P issuer procedure" if "AllowsEvidence p issuer procedure" for issuer procedure
    using assms(1) that by (force simp: may_register_def list_ex_iff)
  show ?thesis
  proof (cases call)
    case (PostWork now b)
    with assms(2) have "c = WorkCreate" by (simp add: route_capability_def routeCapabilities_def)
    with holds PostWork show ?thesis by (auto simp: names_caller_0 owned_def intro!: att_CreateWork)
  next
    case (PostEvidence b)
    with evidence show ?thesis by (auto simp: names_caller_0 intro!: att_CreateEvidence)
  next
    case (PostVerification now b)
    with assms(2) have "c = VerificationCreate" by (simp add: route_capability_def routeCapabilities_def)
    with holds PostVerification show ?thesis by (auto simp: names_caller_0 intro!: att_CreateVerification)
  next
    case (PostReview now b)
    with assms(2) have "c = ReviewCreate" by (simp add: route_capability_def routeCapabilities_def)
    with holds PostReview show ?thesis by (auto simp: names_caller_0 intro!: att_CreateReview)
  next
    case (PostRecoveryComplete b)
    then show ?thesis by (auto simp: att_writers split: option.split)
  qed (simp_all add: att_readers att_writers)
qed

lemma Authenticate_principal:
  "Authenticate now P conn = Inr p \<Longrightarrow> p \<in> snd ` set (pol_principals P)"
  by (auto simp: Authenticate_def split: option.splits if_splits list.splits dest!: map_of_SomeD intro: rev_image_eqI)

lemma get_routes_att: "\<not> HasPrefix (pattern call) ''POST '' \<Longrightarrow> att P (routes call)"
  by (cases call) (simp_all add: att_readers HasPrefix_def)

lemma att_authenticatedHandler: "att P (authenticatedHandler gate P r)"
proof -
  have "att P (routes (rq_call r))" if "pattern (rq_call r) = ''GET /healthz''"
    by (rule get_routes_att) (simp add: that HasPrefix_def)
  moreover have "att P (authorizeBody gate p (rq_call r) (\<lambda>status.
     if status \<noteq> 0 then Respond (writeError status (StatusText status)) else routes (rq_call r)))"
    if "Authenticate (rq_now r) P (rq_tls r) = Inr p" "route_capability (pattern (rq_call r)) = Some c" "Allows p c" for p c
    by (rule att_authorizeBody [OF Authenticate_principal [OF that(1)] that(2,3)])
  ultimately show ?thesis
    unfolding authenticatedHandler_def by (auto simp: get_routes_att split: sum.split option.split)
qed

lemma sound_authorizeBody:
  assumes "\<And>m'. sound (k 0) m'" and "\<And>m' n. n \<noteq> 0 \<Longrightarrow> sound (k n) m'"
  shows "sound (authorizeBody gate p call k) m"
proof -
  have k: "sound (k n) m'" for n m' using assms by (cases "n = 0") auto
  then show ?thesis by (cases call) (auto split: option.split)
qed

lemma sound_authenticatedHandler: "sound (authenticatedHandler gate P r) m"
  unfolding authenticatedHandler_def
  by (auto simp: sound_routes intro!: sound_authorizeBody split: sum.split option.split)

interpretation authenticated:
  server_invariant "\<lambda>m. authority_ok m \<and> attributed P m" "\<lambda>r. recorded (snd r)" "authenticatedHandler gate P"
  for P gate
proof unfold_locales
  show "authority_ok NewMemory \<and> attributed P NewMemory"
    using authority_ok_NewMemory by (simp add: attributed_def NewMemory_def)
next
  fix r call m show "safe (\<lambda>m. authority_ok m \<and> attributed P m) (\<lambda>r. recorded (snd r)) (authenticatedHandler gate P call) m"
    using sound_authenticatedHandler att_authenticatedHandler by (rule safe_keeps)
qed (erule (1) recorded_history)

end
