(* ===== verification/Duties.thy ===== *)
theory Duties
  imports Guarantees Authenticated
begin

text \<open>
  Separation of duties, from the access policy to the records in the store: what a policy that
  \<open>NewPolicy\<close> accepts keeps apart, which requests reach the store at all, and who stands behind a
  closure in every interleaving of authenticated requests.
\<close>

section \<open>A sample policy\<close>

definition sample_principal :: "string \<Rightarrow> string list \<Rightarrow> string \<Rightarrow> string list \<Rightarrow> PrincipalSpec" where
  "sample_principal name caps issuer procedures =
     \<lparr>spec_WorkerProfiles = [], spec_Subject = ''urn:engineering-platform:'' @ name, spec_Scope = ''platform'',
      spec_Capabilities = caps, spec_Actions = [], spec_EvidenceIssuer = issuer, spec_EvidenceProcedures = procedures\<rparr>"

definition sample_document :: Document where
  "sample_document = \<lparr>doc_Version = 1, doc_Principals =
     [sample_principal ''owner'' [WorkCreate, TaskCreate, RunStart, RunComplete, DeliveryCreate, ClosureCreate] [] [],
      sample_principal ''ci'' [EvidenceRegister] ''ci'' [''make''],
      sample_principal ''ver'' [VerificationCreate] [] [],
      sample_principal ''rev'' [ReviewCreate, Read] [] []]\<rparr>"

definition sample_identity :: "string \<Rightarrow> string list \<Rightarrow> string \<Rightarrow> string list \<Rightarrow> string \<times> Identity" where
  "sample_identity name caps issuer procedures =
     (''urn:engineering-platform:'' @ name,
      \<lparr>id_workerProfiles = [], id_subject = ''urn:engineering-platform:'' @ name, id_capabilities = caps,
       id_actions = [], id_issuer = issuer, id_procedures = procedures\<rparr>)"

definition sample_policy :: Policy where
  "sample_policy = \<lparr>pol_principals =
     [sample_identity ''owner'' [WorkCreate, TaskCreate, RunStart, RunComplete, DeliveryCreate, ClosureCreate] [] [],
      sample_identity ''ci'' [EvidenceRegister] ''ci'' [''make''],
      sample_identity ''ver'' [VerificationCreate] [] [],
      sample_identity ''rev'' [ReviewCreate, Read] [] []]\<rparr>"

lemma sample_policy_accepted: "NewPolicy sample_document = Inr sample_policy"
  by code_simp

section \<open>What an accepted policy keeps apart\<close>

text \<open>
  C31. An accepted access policy separates duties. A principal that may review holds nothing beside
  reviewing and reading: no actions, no evidence binding, no worker profile; the same for a
  principal that may reconcile a recovery. And whoever may register evidence under a reserved
  issuer or procedure is the dedicated importer of that issuer and procedure, with exactly the
  capabilities to read and to register evidence.
\<close>

theorem policy_separates_duties:
  assumes "NewPolicy doc = Inr policy" and "map_of (pol_principals policy) s = Some p"
  shows "Subject p = s
     \<and> (Allows p ReviewCreate \<longrightarrow> set (id_capabilities p) \<subseteq> {ReviewCreate, Read} \<and> no_other_authority p)
     \<and> (Allows p RecoveryReconcile \<longrightarrow> set (id_capabilities p) \<subseteq> {RecoveryReconcile, Read} \<and> no_other_authority p)
     \<and> (\<forall>(subject, issuer, procedure) \<in> set reserved_evidence. \<forall>issuer' procedure'.
          AllowsEvidence p issuer' procedure' \<and> (issuer' = issuer \<or> procedure' = procedure) \<longrightarrow>
          s = subject \<and> issuer' = issuer \<and> procedure' = procedure
          \<and> set (id_capabilities p) = {Read, EvidenceRegister} \<and> id_actions p = [])"
proof -
  have p: "Subject p = s" "exclusive ReviewCreate p" "exclusive RecoveryReconcile p"
    and d: "\<And>r. r \<in> set reserved_evidence \<Longrightarrow> dedicated p r"
    using policy_principal [OF assms] by (simp_all add: principal_ok_def list_all_iff Subject_def)
  have "s = subject \<and> issuer' = issuer \<and> procedure' = procedure
      \<and> set (id_capabilities p) = {Read, EvidenceRegister} \<and> id_actions p = []"
    if "(subject, issuer, procedure) \<in> set reserved_evidence" "AllowsEvidence p issuer' procedure'"
      "issuer' = issuer \<or> procedure' = procedure" for subject issuer procedure issuer' procedure'
  proof -
    have ev: "issuer' = id_issuer p" "procedure' \<in> set (id_procedures p)"
      using that(2) by (simp_all add: AllowsEvidence_def)
    with that(3) d [OF that(1)] have "id_subject p = subject \<and> id_issuer p = issuer \<and> id_procedures p = [procedure]
        \<and> set (id_capabilities p) = {Read, EvidenceRegister} \<and> id_actions p = []"
      unfolding dedicated_def prod.case by blast
    with ev p(1) show ?thesis by (simp add: Subject_def)
  qed
  with p show ?thesis unfolding exclusive_def by blast
qed

lemma sample_reviewer:
  "map_of (pol_principals sample_policy) ''urn:engineering-platform:rev'' =
     Some (snd (sample_identity ''rev'' [ReviewCreate, Read] [] []))"
  by (simp add: sample_policy_def sample_identity_def)

theorem policy_separates_duties_witness:
  "\<exists>policy p. NewPolicy sample_document = Inr policy
     \<and> map_of (pol_principals policy) ''urn:engineering-platform:rev'' = Some p
     \<and> Allows p ReviewCreate \<and> no_other_authority p"
  using policy_separates_duties [OF sample_policy_accepted sample_reviewer] sample_policy_accepted sample_reviewer
  by (auto simp: Allows_def sample_identity_def)

section \<open>Which requests reach the store\<close>

text \<open>
  C5. Nothing but an authenticated and authorized request calls the store: a request whose handler
  makes a store call came over a completed TLS 1.3 connection, its leaf certificate carries exactly
  one URI, is allowed for client authentication and heads a verified chain in which every
  certificate is valid now; that URI is a principal of the policy, and the principal holds the
  capability of the route.
\<close>

theorem store_access_is_authenticated:
  assumes "authenticatedHandler gate policy r = Call e k"
  shows "\<exists>t leaf uri p c chain.
     rq_tls r = Some t \<and> tls_HandshakeComplete t \<and> VersionTLS13 \<le> tls_Version t
     \<and> tls_PeerCertificates t \<noteq> [] \<and> hd (tls_PeerCertificates t) = Some leaf \<and> cert_URIs leaf = [Some uri]
     \<and> ExtKeyUsageClientAuth \<in> set (cert_ExtKeyUsage leaf)
     \<and> chain \<in> set (tls_VerifiedChains t) \<and> chain_valid (rq_now r) leaf chain
     \<and> map_of (pol_principals policy) uri = Some p
     \<and> route_capability (pattern (rq_call r)) = Some c \<and> Allows p c"
proof -
  have health: "routes (rq_call r) = handleHealth" if "pattern (rq_call r) = ''GET /healthz''"
    using that by (cases "rq_call r") simp_all
  have "pattern (rq_call r) \<noteq> ''GET /healthz''"
    using assms health by (auto simp: authenticatedHandler_def handleHealth_def)
  with assms obtain p c where p: "Authenticate (rq_now r) policy (rq_tls r) = Inr p"
    "route_capability (pattern (rq_call r)) = Some c" "Allows p c"
    by (auto simp: authenticatedHandler_def split: sum.splits if_splits option.splits)
  from p(1) obtain t leaf uri where "rq_tls r = Some t" "tls_HandshakeComplete t" "VersionTLS13 \<le> tls_Version t"
    "tls_PeerCertificates t \<noteq> []" "hd (tls_PeerCertificates t) = Some leaf" "cert_URIs leaf = [Some uri]"
    "ExtKeyUsageClientAuth \<in> set (cert_ExtKeyUsage leaf)"
    "list_ex (chain_valid (rq_now r) leaf) (tls_VerifiedChains t)" "map_of (pol_principals policy) uri = Some p"
    by (auto simp: Authenticate_def split: option.splits if_splits list.splits)
  with p(2,3) show ?thesis by (auto simp: list_ex_iff)
qed

definition sample_cert :: "string \<Rightarrow> cert" where
  "sample_cert s = \<lparr>cert_Raw = ''raw'', cert_URIs = [Some s], cert_ExtKeyUsage = [2], cert_NotBefore = 0, cert_NotAfter = 99\<rparr>"

definition signed :: "string \<Rightarrow> http_call \<Rightarrow> request" where
  "signed name call =
     \<lparr>rq_now = 7,
      rq_tls = Some \<lparr>tls_HandshakeComplete = True, tls_Version = 0x0304,
                     tls_PeerCertificates = [Some (sample_cert (''urn:engineering-platform:'' @ name))],
                     tls_VerifiedChains = [[Some (sample_cert (''urn:engineering-platform:'' @ name))]]\<rparr>,
      rq_mediaType = Some ''application/json'', rq_ContentEncoding = [], rq_hasBody = True, rq_strictObject = True,
      rq_call = call\<rparr>"

lemma signed_identity:
  "Authenticate 7 sample_policy (rq_tls (signed name call)) =
     (case map_of (pol_principals sample_policy) (''urn:engineering-platform:'' @ name) of
        None \<Rightarrow> Inl ErrUnauthenticated | Some i \<Rightarrow> Inr i)"
  by (simp add: Authenticate_def signed_def sample_cert_def VersionTLS13_def ExtKeyUsageClientAuth_def chain_valid_def)

lemma signed_handler:
  "authenticatedHandler None sample_policy (signed name call) =
     (if pattern call = ''GET /healthz'' then routes call
      else case map_of (pol_principals sample_policy) (''urn:engineering-platform:'' @ name) of
        None \<Rightarrow> Respond (writeError 401 ''verified client identity required'')
      | Some p \<Rightarrow>
          if (case route_capability (pattern call) of None \<Rightarrow> True | Some c \<Rightarrow> \<not> Allows p c)
          then Respond (writeError 403 ''capability denied'')
          else if HasPrefix (pattern call) ''POST ''
          then authorizeBody None p call (\<lambda>status.
                 if status \<noteq> 0 then Respond (writeError status (StatusText status)) else routes call)
          else routes call)"
proof -
  have "rq_now (signed name call) = 7" "rq_call (signed name call) = call" "rq_mediaType (signed name call) = Some ''application/json''"
    "rq_ContentEncoding (signed name call) = []" "rq_hasBody (signed name call)" "rq_strictObject (signed name call)"
    by (simp_all add: signed_def)
  then show ?thesis by (simp add: authenticatedHandler_def signed_identity cong: if_cong split: option.split)
qed

definition day_signed :: "request list" where
  "day_signed =
     [signed ''owner'' (PostWork 1 (Some (store_work WorkDraft [] [] 0))), signed ''owner'' (PostTask (Some day_task_request)),
      signed ''owner'' (PostRun 2 (Some day_run_request)), signed ''owner'' (PostComplete ''R-1'' (Some 1)),
      signed ''owner'' (PostDelivery 3 (Some day_delivery_request)), signed ''ci'' (PostEvidence (Some day_evidence_request)),
      signed ''ver'' (PostVerification 4 (Some day_verification_request)), signed ''rev'' (PostReview 5 (Some day_review_request)),
      signed ''owner'' (PostClosure 6 (Some day_closure_request))]"

lemma day_capabilities:
  "route_capability ''POST /api/v1/work-items'' = Some WorkCreate"
  "route_capability ''POST /api/v1/task-contracts'' = Some TaskCreate"
  "route_capability ''POST /api/v1/runs'' = Some RunStart"
  "route_capability ''POST /api/v1/runs/{id}/complete'' = Some RunComplete"
  "route_capability ''POST /api/v1/deliveries'' = Some DeliveryCreate"
  "route_capability ''POST /api/v1/evidence'' = Some EvidenceRegister"
  "route_capability ''POST /api/v1/verifications'' = Some VerificationCreate"
  "route_capability ''POST /api/v1/reviews'' = Some ReviewCreate"
  "route_capability ''POST /api/v1/closures'' = Some ClosureCreate"
  by (simp_all add: route_capability_def routeCapabilities_def)

lemma day_principals:
  "map_of (pol_principals sample_policy) ''urn:engineering-platform:owner'' = Some (snd (sample_identity ''owner''
     [WorkCreate, TaskCreate, RunStart, RunComplete, DeliveryCreate, ClosureCreate] [] []))"
  "map_of (pol_principals sample_policy) ''urn:engineering-platform:ci'' =
     Some (snd (sample_identity ''ci'' [EvidenceRegister] ''ci'' [''make'']))"
  "map_of (pol_principals sample_policy) ''urn:engineering-platform:ver'' =
     Some (snd (sample_identity ''ver'' [VerificationCreate] [] []))"
  by (simp_all add: sample_policy_def sample_identity_def)

lemma day_authorized: "map (authenticatedHandler None sample_policy) day_signed = map routes day_requests"
  by (simp add: day_signed_def day_requests_def signed_handler day_capabilities day_principals sample_reviewer
      HasPrefix_def sample_identity_def Allows_def Subject_def names_caller_def AllowsEvidence_def
      store_work_def day_task_request_def day_material_def day_evidence_request_def store_evidence_def
      day_verification_request_def day_review_request_def del: routes.simps map_replicate replicate.simps)

theorem store_access_is_authenticated_witness:
  "\<exists>uri p c. map_of (pol_principals sample_policy) uri = Some p
     \<and> route_capability (pattern (PostWork 1 (Some (store_work WorkDraft [] [] 0)))) = Some c \<and> Allows p c"
proof -
  let ?r = "signed ''owner'' (PostWork 1 (Some (store_work WorkDraft [] [] 0)))"
  have "authenticatedHandler None sample_policy ?r = routes (PostWork 1 (Some (store_work WorkDraft [] [] 0)))"
    using day_authorized by (simp add: day_signed_def day_requests_def del: routes.simps)
  also have "\<exists>e k. \<dots> = Call e k"
    by (simp add: handleCreateWork_def decodeJSON_def store_work_def request_defs put_def put_with_def)
  finally obtain e k where "authenticatedHandler None sample_policy ?r = Call e k" by blast
  from store_access_is_authenticated [OF this] show ?thesis by (auto simp: signed_def)
qed

section \<open>Who stands behind a closure\<close>

lemma authenticated_served:
  "server_safe (\<lambda>m. authority_ok m \<and> attributed P m) (\<lambda>r. recorded (snd r)) NewMemory
     (serve es (NewAuthenticatedServer gate P NewMemory reqs))"
  unfolding NewAuthenticatedServer_def by (rule authenticated.served)

lemma holds_principal:
  assumes "NewPolicy doc = Inr policy" and "holds policy s c"
  shows "\<exists>p. map_of (pol_principals policy) s = Some p \<and> Allows p c"
proof -
  from assms(2) obtain u p where p: "(u, p) \<in> set (pol_principals policy)" "Subject p = s" "Allows p c"
    by (auto simp: holds_def list_ex_iff)
  from assms(1) obtain ps where ps: "new_principals (doc_Principals doc) [] = Inr ps" "pol_principals policy = ps"
    by (auto simp: NewPolicy_def)
  from new_principals_ok [OF ps(1)] p(1) ps(2) have "distinct (map fst (pol_principals policy))" "id_subject p = u"
    by (auto simp: list_all_iff)
  with p show ?thesis by (auto simp: Subject_def intro: exI [of _ p])
qed

lemma may_register_principal:
  assumes "NewPolicy doc = Inr policy" and "may_register policy issuer procedure"
  shows "\<exists>s p. map_of (pol_principals policy) s = Some p \<and> AllowsEvidence p issuer procedure"
proof -
  from assms(2) obtain u p where p: "(u, p) \<in> set (pol_principals policy)" "AllowsEvidence p issuer procedure"
    by (auto simp: may_register_def list_ex_iff)
  from assms(1) obtain ps where ps: "new_principals (doc_Principals doc) [] = Inr ps" "pol_principals policy = ps"
    by (auto simp: NewPolicy_def)
  from new_principals_ok [OF ps(1)] ps(2) have "distinct (map fst (pol_principals policy))" by simp
  with p show ?thesis by (auto intro!: exI [of _ u] exI [of _ p])
qed

definition reviewer_only :: "Identity \<Rightarrow> bool" where
  "reviewer_only p \<longleftrightarrow>
     Allows p ReviewCreate \<and> set (id_capabilities p) \<subseteq> {ReviewCreate, Read} \<and> no_other_authority p"

lemma reviewer_principal:
  assumes "NewPolicy doc = Inr policy" and "holds policy s ReviewCreate"
  shows "\<exists>p. map_of (pol_principals policy) s = Some p \<and> reviewer_only p"
proof -
  from holds_principal [OF assms] obtain p where p: "map_of (pol_principals policy) s = Some p" "Allows p ReviewCreate" by blast
  with policy_principal [OF assms(1) p(1)] show ?thesis
    by (auto simp: reviewer_only_def principal_ok_def exclusive_def)
qed

text \<open>
  C4. Behind every closure stand separated, authenticated principals. Whatever requests arrive at
  the network endpoint and however they interleave, a stored closure names a stored review and a
  stored verification; the reviewer is a principal of the policy that may do nothing but review and
  read, the verifier is another principal, one that may verify; every piece of evidence of the
  verification was admitted under an issuer and procedure granted to a principal other than the
  reviewer; and the reviewer owns no work item in the store.
\<close>

theorem closure_duties_are_separated:
  assumes "NewPolicy doc = Inr policy"
    and "mem_closures (sv_store (serve es (NewAuthenticatedServer gate policy NewMemory reqs))) i = Some x"
  defines "m \<equiv> sv_store (serve es (NewAuthenticatedServer gate policy NewMemory reqs))"
  shows "\<exists>v r reviewer verifier.
     mem_verificationReports m (cl_VerificationReportID x) = Some v
     \<and> mem_reviewReports m (cl_ReviewReportID x) = Some r \<and> rr_Result r = ''PASS''
     \<and> map_of (pol_principals policy) (rr_Reviewer r) = Some reviewer \<and> reviewer_only reviewer
     \<and> map_of (pol_principals policy) (vr_Verifier v) = Some verifier \<and> Allows verifier VerificationCreate
     \<and> rr_Reviewer r \<noteq> vr_Verifier v
     \<and> list_all (\<lambda>eid. \<exists>e s p. mem_evidence m eid = Some e \<and> map_of (pol_principals policy) s = Some p
          \<and> AllowsEvidence p (ev_Issuer e) (ev_Procedure e) \<and> s \<noteq> rr_Reviewer r) (vr_EvidenceIDs v)
     \<and> (\<forall>j w. mem_works m j = Some w \<longrightarrow> work_HumanOwner w \<noteq> rr_Reviewer r)"
proof -
  have ok: "authority_ok m" and att: "attributed policy m"
    using authenticated_served [of policy es gate reqs] by (simp_all add: server_safe_def m_def)
  from ok have asr: "assurance_ok m" and rep: "reports_ok m" by (simp_all add: authority_ok_def)
  obtain r where r: "mem_reviewReports m (cl_ReviewReportID x) = Some r" "rr_Result r = ''PASS''"
    "rr_VerificationReportID r = cl_VerificationReportID x"
    using asr assms(2) unfolding assurance_ok_def closure_backed_def m_def by blast
  from asr r(1) have "review_backed m r" by (simp add: assurance_ok_def)
  then obtain v where v: "mem_verificationReports m (cl_VerificationReportID x) = Some v" "rr_Reviewer r \<noteq> vr_Verifier v"
    using r(3) unfolding review_backed_def by metis
  from att r(1) v(1) have "holds policy (rr_Reviewer r) ReviewCreate" "holds policy (vr_Verifier v) VerificationCreate"
    by (simp_all add: attributed_def)
  with reviewer_principal [OF assms(1)] holds_principal [OF assms(1)] obtain reviewer verifier where
    pr: "map_of (pol_principals policy) (rr_Reviewer r) = Some reviewer" "reviewer_only reviewer"
    and pv: "map_of (pol_principals policy) (vr_Verifier v) = Some verifier" "Allows verifier VerificationCreate"
    by blast
  have other: "s \<noteq> rr_Reviewer r" if "map_of (pol_principals policy) s = Some p" "Allows p c" "c \<noteq> ReviewCreate" "c \<noteq> Read" for s p c
    using that pr by (auto simp: reviewer_only_def Allows_def)
  have "\<exists>e s p. mem_evidence m eid = Some e \<and> map_of (pol_principals policy) s = Some p
      \<and> AllowsEvidence p (ev_Issuer e) (ev_Procedure e) \<and> s \<noteq> rr_Reviewer r" if "eid \<in> set (vr_EvidenceIDs v)" for eid
  proof -
    from rep v(1) have "report_backed m v" by (simp add: reports_ok_def)
    with that obtain e where e: "mem_evidence m eid = Some e" by (auto simp: report_backed_def list_all_iff)
    with att have "may_register policy (ev_Issuer e) (ev_Procedure e)" by (simp add: attributed_def)
    from may_register_principal [OF assms(1) this] obtain s p where
      p: "map_of (pol_principals policy) s = Some p" "AllowsEvidence p (ev_Issuer e) (ev_Procedure e)" by blast
    with other [of s p EvidenceRegister] e show ?thesis
      by (auto simp: AllowsEvidence_def EvidenceRegister_def ReviewCreate_def Read_def)
  qed
  moreover have "work_HumanOwner w \<noteq> rr_Reviewer r" if "mem_works m j = Some w" for j w
  proof -
    from att that have "holds policy (work_HumanOwner w) WorkCreate" by (simp add: attributed_def)
    with holds_principal [OF assms(1)] obtain p where "map_of (pol_principals policy) (work_HumanOwner w) = Some p"
      "Allows p WorkCreate" by blast
    from other [OF this] show ?thesis by (simp add: WorkCreate_def ReviewCreate_def Read_def)
  qed
  ultimately show ?thesis using r v pr pv by (auto simp: list_all_iff)
qed

definition day_signed_store :: Memory where
  "day_signed_store = sv_store (serve day_schedule (NewAuthenticatedServer None sample_policy NewMemory day_signed))"

theorem closure_duties_are_separated_witness:
  "\<exists>x v r. mem_closures day_signed_store ''X-1'' = Some x
     \<and> mem_verificationReports day_signed_store (cl_VerificationReportID x) = Some v
     \<and> mem_reviewReports day_signed_store (cl_ReviewReportID x) = Some r \<and> rr_Reviewer r \<noteq> vr_Verifier v"
proof -
  have "NewAuthenticatedServer None sample_policy NewMemory day_signed = NewServer NewMemory day_requests"
    by (simp add: NewAuthenticatedServer_def NewServer_def day_authorized)
  with day_closed have closed:
    "mem_closures (sv_store (serve day_schedule (NewAuthenticatedServer None sample_policy NewMemory day_signed))) ''X-1'' =
     Some (bound_closure 6 day_closure_request day_delivery day_report)" by simp
  from closure_duties_are_separated [OF sample_policy_accepted closed] closed show ?thesis
    unfolding day_signed_store_def [symmetric] by blast
qed

end
