(* ===== verification/Journal.thy ===== *)
theory Journal
  imports Canonical
begin

text \<open>
  Package \<open>audit\<close>: the hash-chained journal of audit events (\<open>journal.go\<close>). An event's digest covers
  its content and the digest of its predecessor; \<open>Verify\<close> replays the chain.
\<close>

section \<open>Events\<close>

record Event =
  jev_Sequence :: uint64
  jev_Type :: string
  jev_AggregateType :: string
  jev_AggregateID :: string
  jev_PayloadDigest :: string
  jev_CorrelationID :: string
  jev_CausationID :: string
  jev_PreviousDigest :: string
  jev_Digest :: string
  jev_CreatedAt :: gotime

record eventContent =
  con_Sequence :: uint64
  con_Type :: string
  con_AggregateType :: string
  con_AggregateID :: string
  con_PayloadDigest :: string
  con_CorrelationID :: string
  con_CausationID :: string
  con_PreviousDigest :: string

definition eventContent_json :: "eventContent \<Rightarrow> json" where
  "eventContent_json c = JObj
     (u64_field ''sequence'' (con_Sequence c)
      @ str_field ''type'' (con_Type c)
      @ str_opt ''aggregate_type'' (con_AggregateType c)
      @ str_opt ''aggregate_id'' (con_AggregateID c)
      @ str_field ''payload_digest'' (con_PayloadDigest c)
      @ str_opt ''correlation_id'' (con_CorrelationID c)
      @ str_opt ''causation_id'' (con_CausationID c)
      @ str_opt ''previous_digest'' (con_PreviousDigest c))"

record Input =
  in_Type :: string
  in_AggregateType :: string
  in_AggregateID :: string
  in_PayloadDigest :: string
  in_CorrelationID :: string
  in_CausationID :: string

definition content_of :: "uint64 \<Rightarrow> string \<Rightarrow> Input \<Rightarrow> eventContent" where
  "content_of sequence previousDigest inp =
     \<lparr>con_Sequence = sequence, con_Type = in_Type inp, con_AggregateType = in_AggregateType inp,
      con_AggregateID = in_AggregateID inp, con_PayloadDigest = in_PayloadDigest inp,
      con_CorrelationID = in_CorrelationID inp, con_CausationID = in_CausationID inp,
      con_PreviousDigest = previousDigest\<rparr>"

definition Build :: "uint64 \<Rightarrow> string \<Rightarrow> Input \<Rightarrow> gotime \<Rightarrow> Event result" where
  "Build sequence previousDigest inp now =
     unless (sequence = 0) (ErrText ''audit sequence must be greater than zero'')
       (unless (in_Type inp = []) (ErrText ''audit event type is required'')
         (unless (in_PayloadDigest inp = []) (ErrText ''audit payload digest is required'')
           (let content = content_of sequence previousDigest inp in
            Inr \<lparr>jev_Sequence = con_Sequence content, jev_Type = con_Type content,
                 jev_AggregateType = con_AggregateType content, jev_AggregateID = con_AggregateID content,
                 jev_PayloadDigest = con_PayloadDigest content, jev_CorrelationID = con_CorrelationID content,
                 jev_CausationID = con_CausationID content, jev_PreviousDigest = con_PreviousDigest content,
                 jev_Digest = Digest (eventContent_json content), jev_CreatedAt = now\<rparr>)))"

section \<open>The journal\<close>

record Journal =
  jr_events :: "Event list"

definition AppendInput :: "Input \<Rightarrow> gotime \<Rightarrow> Journal \<Rightarrow> (Event \<times> Journal) result" where
  "AppendInput inp now j =
     (let prev = (if jr_events j \<noteq> [] then jev_Digest (last (jr_events j)) else []) in
      rbind (Build (of_nat (length (jr_events j) + 1)) prev inp now) (\<lambda>event.
        Inr (event, j\<lparr>jr_events := jr_events j @ [event]\<rparr>)))"

definition Append :: "string \<Rightarrow> string \<Rightarrow> gotime \<Rightarrow> Journal \<Rightarrow> (Event \<times> Journal) result" where
  "Append eventType payloadDigest now j =
     AppendInput \<lparr>in_Type = eventType, in_AggregateType = [], in_AggregateID = [],
                  in_PayloadDigest = payloadDigest, in_CorrelationID = [], in_CausationID = []\<rparr> now j"

definition Events :: "Journal \<Rightarrow> Event list" where
  "Events j = jr_events j"

definition input_of :: "Event \<Rightarrow> Input" where
  "input_of e = \<lparr>in_Type = jev_Type e, in_AggregateType = jev_AggregateType e, in_AggregateID = jev_AggregateID e,
     in_PayloadDigest = jev_PayloadDigest e, in_CorrelationID = jev_CorrelationID e,
     in_CausationID = jev_CausationID e\<rparr>"

fun verify_from :: "nat \<Rightarrow> string \<Rightarrow> Event list \<Rightarrow> err option" where
  "verify_from i prev [] = None"
| "verify_from i prev (event # events) =
     (let expectedSequence = (of_nat (i + 1) :: uint64) in
      if jev_Sequence event \<noteq> expectedSequence
      then Some (ErrText (''audit sequence mismatch: got '' @ dec_nat (unat (jev_Sequence event))
                          @ '' want '' @ dec_nat (unat expectedSequence)))
      else if jev_PreviousDigest event \<noteq> prev
      then Some (ErrText (''audit previous digest mismatch at sequence '' @ dec_nat (unat (jev_Sequence event))))
      else case Build (jev_Sequence event) (jev_PreviousDigest event) (input_of event) (jev_CreatedAt event) of
        Inl e \<Rightarrow> Some e
      | Inr rebuilt \<Rightarrow>
          if jev_Digest rebuilt \<noteq> jev_Digest event
          then Some (ErrText (''audit digest mismatch at sequence '' @ dec_nat (unat (jev_Sequence event))))
          else verify_from (Suc i) (jev_Digest event) events)"

definition Verify :: "Event list \<Rightarrow> err option" where
  "Verify events = verify_from 0 [] events"

record AuditCheckpoint =
  acp_FirstSequence :: uint64
  acp_LastSequence :: uint64
  acp_EventCount :: uint64
  acp_RootDigest :: string
  acp_CreatedAt :: gotime

definition NewCheckpoint :: "Event list \<Rightarrow> gotime \<Rightarrow> AuditCheckpoint result" where
  "NewCheckpoint events now =
     unless (events = []) (ErrText ''cannot checkpoint empty audit stream'')
       (unless_err (Verify events)
         (Inr \<lparr>acp_FirstSequence = jev_Sequence (hd events), acp_LastSequence = jev_Sequence (last events),
               acp_EventCount = of_nat (length events), acp_RootDigest = jev_Digest (last events),
               acp_CreatedAt = now\<rparr>))"

section \<open>The chain\<close>

definition event_content :: "Event \<Rightarrow> eventContent" where
  "event_content e = content_of (jev_Sequence e) (jev_PreviousDigest e) (input_of e)"

definition event_ok :: "nat \<Rightarrow> string \<Rightarrow> Event \<Rightarrow> bool" where
  "event_ok i prev e \<longleftrightarrow>
     jev_Sequence e = of_nat (i + 1) \<and> jev_Sequence e \<noteq> 0 \<and> jev_PreviousDigest e = prev
     \<and> jev_Type e \<noteq> [] \<and> jev_PayloadDigest e \<noteq> [] \<and> jev_Digest e = Digest (eventContent_json (event_content e))"

definition root :: "string \<Rightarrow> Event list \<Rightarrow> string" where
  "root prev es = (if es = [] then prev else jev_Digest (last es))"

lemma event_ok_digest: "event_ok i prev e \<Longrightarrow> jev_Digest e \<noteq> []"
  by (simp add: event_ok_def)

lemma verify_from_Cons:
  "verify_from i prev (e # es) = None \<longleftrightarrow> event_ok i prev e \<and> verify_from (Suc i) (jev_Digest e) es = None"
  by (auto simp: event_ok_def Build_def Let_def event_content_def input_of_def unless_def split: sum.splits)

lemma verify_from_append:
  "verify_from i prev (es @ es') = None \<longleftrightarrow>
     verify_from i prev es = None \<and> verify_from (i + length es) (root prev es) es' = None"
proof (induction es arbitrary: i prev)
  case (Cons e es)
  have "root prev (e # es) = root (jev_Digest e) es" by (simp add: root_def)
  with Cons.IH [of "Suc i" "jev_Digest e"] show ?case by (simp add: verify_from_Cons del: verify_from.simps(2))
qed (simp add: root_def)

lemma Verify_snoc: "Verify (es @ [e]) = None \<longleftrightarrow> Verify es = None \<and> event_ok (length es) (root [] es) e"
  by (simp add: Verify_def verify_from_append verify_from_Cons del: verify_from.simps(2))

lemma AppendInput_event:
  "AppendInput inp now j = Inr (e, j') \<Longrightarrow>
   jr_events j' = jr_events j @ [e] \<and> event_ok (length (jr_events j)) (root [] (jr_events j)) e"
  by (auto simp: AppendInput_def Build_def Let_def event_ok_def event_content_def input_of_def content_of_def root_def
      split: if_splits)

text \<open>Reading a member back from the encoded fields.\<close>

lemma map_of_fields:
  "map_of (u64_field k n @ fs) k' = (if k = k' then Some (JInt (uint n)) else map_of fs k')"
  "map_of (str_field k v @ fs) k' = (if k = k' then Some (JStr v) else map_of fs k')"
  "map_of (str_opt k v @ fs) k' = (if k = k' \<and> v \<noteq> [] then Some (JStr v) else map_of fs k')"
  "map_of (str_opt k v) k' = (if k = k' \<and> v \<noteq> [] then Some (JStr v) else None)"
  by (simp_all add: u64_field_def str_field_def str_opt_def)

lemma eventContent_json_inj: "eventContent_json c = eventContent_json c' \<longleftrightarrow> c = c'"
proof
  assume "eventContent_json c = eventContent_json c'"
  then have same: "(case eventContent_json c of JObj fs \<Rightarrow> map_of fs k) = (case eventContent_json c' of JObj fs \<Rightarrow> map_of fs k)"
    for k by simp
  note lookup = same [unfolded eventContent_json_def json.case map_of_fields]
  have "con_Sequence c = con_Sequence c'" using lookup [of "''sequence''"] by (simp add: word_uint_eq_iff)
  moreover have "con_Type c = con_Type c'" using lookup [of "''type''"] by simp
  moreover have "con_AggregateType c = con_AggregateType c'"
    using lookup [of "''aggregate_type''"] by (simp split: if_splits)
  moreover have "con_AggregateID c = con_AggregateID c'"
    using lookup [of "''aggregate_id''"] by (simp split: if_splits)
  moreover have "con_PayloadDigest c = con_PayloadDigest c'" using lookup [of "''payload_digest''"] by simp
  moreover have "con_CorrelationID c = con_CorrelationID c'"
    using lookup [of "''correlation_id''"] by (simp split: if_splits)
  moreover have "con_CausationID c = con_CausationID c'"
    using lookup [of "''causation_id''"] by (simp split: if_splits)
  moreover have "con_PreviousDigest c = con_PreviousDigest c'"
    using lookup [of "''previous_digest''"] by (simp split: if_splits)
  ultimately show "c = c'" by simp
qed simp

section \<open>Properties of the journal\<close>

fun append_all :: "(Input \<times> gotime) list \<Rightarrow> Journal \<Rightarrow> Journal" where
  "append_all [] j = j"
| "append_all ((inp, now) # rest) j =
     append_all rest (case AppendInput inp now j of Inl _ \<Rightarrow> j | Inr (_, j') \<Rightarrow> j')"

lemma append_all_verifies: "Verify (jr_events j) = None \<Longrightarrow> Verify (jr_events (append_all inputs j)) = None"
proof (induction inputs j rule: append_all.induct)
  case (2 inp now rest j)
  have "Verify (jr_events (case AppendInput inp now j of Inl _ \<Rightarrow> j | Inr (_, j') \<Rightarrow> j')) = None"
  proof (cases "AppendInput inp now j")
    case (Inr p)
    obtain e j' where p: "p = (e, j')" by (cases p)
    with AppendInput_event [of inp now j e j'] Inr "2.prems" show ?thesis by (simp add: Verify_snoc)
  qed (use "2.prems" in simp)
  with "2.IH" show ?case by simp
qed simp

text \<open>
  What the journal writes, \<open>Verify\<close> accepts: after any sequence of appends, refused ones
  included, the events of a journal form a valid chain.
\<close>

theorem appended_journal_verifies:
  "Verify (Events (append_all inputs \<lparr>jr_events = []\<rparr>)) = None"
  using append_all_verifies [of "\<lparr>jr_events = []\<rparr>" inputs] by (simp add: Verify_def Events_def)

lemma equal_roots:
  assumes "Verify es = None" and "Verify es' = None" and "root [] es = root [] es'"
  shows "map event_content es = map event_content es'
     \<or> (\<exists>e \<in> set es. \<exists>e' \<in> set es'. eventContent_json (event_content e) \<noteq> eventContent_json (event_content e')
          \<and> Digest (eventContent_json (event_content e)) = Digest (eventContent_json (event_content e')))"
  using assms
proof (induction es arbitrary: es' rule: rev_induct)
  case Nil
  then show ?case by (cases es' rule: rev_cases) (auto simp: root_def Verify_snoc dest: event_ok_digest)
next
  case (snoc e es)
  show ?case
  proof (cases es' rule: rev_cases)
    case Nil
    with snoc.prems show ?thesis by (auto simp: root_def Verify_snoc dest: event_ok_digest)
  next
    case (snoc fs f)
    with snoc.prems have ok: "Verify es = None" "Verify fs = None" "event_ok (length es) (root [] es) e"
      "event_ok (length fs) (root [] fs) f"
      by (simp_all add: Verify_snoc)
    from snoc.prems(3) \<open>es' = fs @ [f]\<close> have d: "jev_Digest e = jev_Digest f" by (simp add: root_def)
    show ?thesis
    proof (cases "event_content e = event_content f")
      case False
      with d ok(3,4) \<open>es' = fs @ [f]\<close> show ?thesis by (auto simp: event_ok_def eventContent_json_inj)
    next
      case True
      then have "jev_PreviousDigest e = jev_PreviousDigest f" by (simp add: event_content_def content_of_def)
      with ok have "root [] es = root [] fs" by (simp add: event_ok_def)
      with snoc.IH [OF ok(1,2)] snoc.prems \<open>es' = fs @ [f]\<close> True show ?thesis by auto
    qed
  qed
qed

text \<open>
  C30. The journal is tamper evident: two verified journals with the same root
  digest have the same events, one by one, in everything but their times; otherwise they
  themselves contain two different event contents with the same digest, a collision of the hash.
\<close>

theorem root_digest_commits_to_history:
  assumes "NewCheckpoint es now = Inr cp" and "NewCheckpoint es' now' = Inr cp'"
    and "acp_RootDigest cp = acp_RootDigest cp'"
  shows "map event_content es = map event_content es'
     \<or> (\<exists>e \<in> set es. \<exists>e' \<in> set es'. eventContent_json (event_content e) \<noteq> eventContent_json (event_content e')
          \<and> Digest (eventContent_json (event_content e)) = Digest (eventContent_json (event_content e')))"
proof -
  from assms(1,2) have "Verify es = None" "Verify es' = None" and "acp_RootDigest cp = root [] es"
    "acp_RootDigest cp' = root [] es'"
    by (auto simp: NewCheckpoint_def root_def)
  with assms(3) show ?thesis using equal_roots [of es es'] by simp
qed

definition sample_event :: "string \<Rightarrow> Input" where
  "sample_event ty = \<lparr>in_Type = ty, in_AggregateType = [], in_AggregateID = [], in_PayloadDigest = ''p'',
     in_CorrelationID = [], in_CausationID = []\<rparr>"

theorem root_digest_commits_to_history_witness:
  "\<exists>cp. NewCheckpoint (Events (append_all [(sample_event ''a'', 1)] \<lparr>jr_events = []\<rparr>)) 2 = Inr cp
     \<and> acp_EventCount cp = 1"
proof -
  let ?es = "Events (append_all [(sample_event ''a'', 1)] \<lparr>jr_events = []\<rparr>)"
  have "\<exists>e j. AppendInput (sample_event ''a'') 1 \<lparr>jr_events = []\<rparr> = Inr (e, j)"
    by (simp add: AppendInput_def Build_def sample_event_def Let_def)
  then obtain e j where j: "AppendInput (sample_event ''a'') 1 \<lparr>jr_events = []\<rparr> = Inr (e, j)" by blast
  with AppendInput_event [OF j] have es: "?es = [e]" "Verify [e] = None"
    by (simp_all add: Events_def Verify_def verify_from_Cons root_def del: verify_from.simps(2))
  then obtain cp where cp: "NewCheckpoint ?es 2 = Inr cp" "acp_EventCount cp = 1"
    by (simp add: NewCheckpoint_def)
  with root_digest_commits_to_history [OF cp(1) cp(1)] show ?thesis by blast
qed

end
