(* ===== verification/Outbox.thy ===== *)
theory Outbox
  imports Action "HOL-Library.Multiset"
begin

text \<open>
  The outbox: package \<open>outbox\<close> (\<open>risk.go\<close>, \<open>dispatcher.go\<close>) and the repository behind it
  (\<open>store/postgres/outbox_store.go\<close>). The table is a list of rows with nullable columns as options; a
  statement is one step that reads the database clock once, and a context answers at every point
  where the database or the caller can fail. Handlers are parameters.
\<close>

section \<open>Risk classes\<close>

definition ValidRisk :: "RiskClass \<Rightarrow> bool" where
  "ValidRisk risk \<longleftrightarrow> risk = Observe \<or> risk = ControlledMutation \<or> risk = HighRisk"

definition Classify :: "string \<Rightarrow> RiskClass \<Rightarrow> RiskClass result" where
  "Classify topic declared =
     (let required = (if topic = ''run.started'' then ControlledMutation
                      else if topic = ''work.created'' then Observe
                      else RiskOther []) in
      if required \<noteq> RiskOther []
      then unless (declared \<noteq> RiskOther [] \<and> declared \<noteq> required) OutboxErrRiskClass (Inr required)
      else unless (topic = [] \<or> \<not> ValidRisk declared) OutboxErrRiskClass (Inr declared))"

section \<open>Messages, leases and resolutions\<close>

datatype OutboxState = OutboxPending | OutboxLeased | OutboxDispatched | OutboxDeadLetter | OutboxOther string

fun OutboxState_string :: "OutboxState \<Rightarrow> string" where
  "OutboxState_string OutboxPending = ''PENDING''"
| "OutboxState_string OutboxLeased = ''LEASED''"
| "OutboxState_string OutboxDispatched = ''DISPATCHED''"
| "OutboxState_string OutboxDeadLetter = ''DEAD_LETTER''"
| "OutboxState_string (OutboxOther s) = s"

record Message =
  msg_ID :: int
  msg_Key :: string
  msg_Topic :: string
  msg_AggregateType :: string
  msg_AggregateID :: string
  msg_Payload :: string
  msg_RiskClass :: RiskClass
  msg_State :: OutboxState
  msg_AttemptCount :: uint64
  msg_LeaseOwner :: string
  msg_LeaseUntil :: gotime
  msg_LeaseRecoveryEpoch :: uint64
  msg_NextAttemptAt :: gotime
  msg_LastError :: string
  msg_CreatedAt :: gotime
  msg_DispatchedAt :: gotime

record Lease =
  lease_ID :: int
  lease_Owner :: string
  lease_Attempt :: uint64

definition Message_Lease :: "Message \<Rightarrow> Lease" where
  "Message_Lease m = \<lparr>lease_ID = msg_ID m, lease_Owner = msg_LeaseOwner m, lease_Attempt = msg_AttemptCount m\<rparr>"

definition Lease_Valid :: "Lease \<Rightarrow> bool" where
  "Lease_Valid l \<longleftrightarrow> lease_ID l > 0 \<and> lease_Owner l \<noteq> [] \<and> lease_Attempt l > 0"

text \<open>Durations are nanoseconds.\<close>

definition millisecond :: int where "millisecond = 1000000"
definition second :: int where "second = 1000000000"
definition hour :: int where "hour = 3600 * second"

record Resolution =
  res_State :: OutboxState
  res_RetryAfter :: int
  res_LastError :: string

definition Resolution_Validate :: "Resolution \<Rightarrow> err option" where
  "Resolution_Validate r =
     (case res_State r of
        OutboxDispatched \<Rightarrow> if res_RetryAfter r \<noteq> 0 then Some (ErrText ''terminal resolution cannot carry retry delay'') else None
      | OutboxDeadLetter \<Rightarrow> if res_RetryAfter r \<noteq> 0 then Some (ErrText ''terminal resolution cannot carry retry delay'') else None
      | OutboxPending \<Rightarrow>
          if res_RetryAfter r \<le> 0 \<or> res_RetryAfter r > 24 * hour
          then Some (ErrText ''retry delay must be within (0,24h]'') else None
      | _ \<Rightarrow> Some (ErrText ''invalid outbox resolution state''))"

section \<open>Retry delays\<close>

text \<open>\<open>time.Duration\<close> is a signed 64-bit integer; doubling wraps.\<close>

definition wrap64 :: "int \<Rightarrow> int" where
  "wrap64 x = (x + 2 ^ 63) mod 2 ^ 64 - 2 ^ 63"

text \<open>The loop of \<open>retryDelay\<close> with the number of iterations that \<open>i < attempt\<close> still admits.\<close>

fun retry_loop :: "nat \<Rightarrow> int \<Rightarrow> int \<Rightarrow> int" where
  "retry_loop 0 base maximum = (if base > maximum then maximum else base)"
| "retry_loop (Suc n) base maximum =
     (if base < maximum
      then if base > maximum div 2 then maximum else retry_loop n (wrap64 (base * 2)) maximum
      else if base > maximum then maximum else base)"

definition retryDelay :: "int \<Rightarrow> int \<Rightarrow> uint64 \<Rightarrow> int" where
  "retryDelay base maximum attmpt = retry_loop (unat attmpt - 1) base maximum"

section \<open>The repository\<close>

record outbox_row =
  row_id :: int
  row_key :: string
  row_topic :: string
  row_aggregate_type :: "string option"
  row_aggregate_id :: "string option"
  row_risk_class :: RiskClass
  row_payload :: string
  row_state :: OutboxState
  row_attempt_count :: nat
  row_lease_owner :: "string option"
  row_lease_until :: "gotime option"
  row_next_attempt_at :: gotime
  row_last_error :: "string option"
  row_created_at :: gotime
  row_dispatched_at :: "gotime option"
  row_lease_recovery_epoch :: "uint64 option"

record outbox_db =
  db_rows :: "outbox_row list"
  db_recovery_epoch :: uint64
  db_recovery_mode :: string

definition COALESCE :: "string option \<Rightarrow> string" where
  "COALESCE s = (case s of None \<Rightarrow> [] | Some x \<Rightarrow> x)"

definition scanOutbox :: "outbox_row \<Rightarrow> Message" where
  "scanOutbox r =
     \<lparr>msg_ID = row_id r, msg_Key = row_key r, msg_Topic = row_topic r,
      msg_AggregateType = COALESCE (row_aggregate_type r), msg_AggregateID = COALESCE (row_aggregate_id r),
      msg_Payload = row_payload r, msg_RiskClass = row_risk_class r, msg_State = row_state r,
      msg_AttemptCount = of_nat (row_attempt_count r), msg_LeaseOwner = COALESCE (row_lease_owner r),
      msg_LeaseUntil = (case row_lease_until r of None \<Rightarrow> 0 | Some t \<Rightarrow> t),
      msg_LeaseRecoveryEpoch = (case row_lease_recovery_epoch r of None \<Rightarrow> 0 | Some e \<Rightarrow> e),
      msg_NextAttemptAt = row_next_attempt_at r, msg_LastError = COALESCE (row_last_error r),
      msg_CreatedAt = row_created_at r,
      msg_DispatchedAt = (case row_dispatched_at r of None \<Rightarrow> 0 | Some t \<Rightarrow> t)\<rparr>"

text \<open>
  The claim statement: rows locked by others are skipped, \<open>attempt_count\<close> is a bigint, and a
  comparison with NULL is not true. When reading the result fails, the claim has been made.
\<close>

definition claimable :: "gotime \<Rightarrow> outbox_db \<Rightarrow> outbox_row \<Rightarrow> bool" where
  "claimable now db r \<longleftrightarrow>
     (row_state r = OutboxPending
      \<or> row_state r = OutboxLeased \<and> (case row_lease_until r of None \<Rightarrow> False | Some t \<Rightarrow> t \<le> now))
     \<and> row_next_attempt_at r \<le> now \<and> ValidRisk (row_risk_class r)
     \<and> (db_recovery_mode db = ''NORMAL'' \<or> db_recovery_mode db = ''RECOVERY_RECONCILIATION'')
     \<and> (db_recovery_mode db = ''NORMAL'' \<or> row_risk_class r = Observe)"

definition claimed_row :: "gotime \<Rightarrow> string \<Rightarrow> int \<Rightarrow> uint64 \<Rightarrow> outbox_row \<Rightarrow> outbox_row" where
  "claimed_row now workerID duration epoch r =
     r\<lparr>row_state := OutboxLeased, row_lease_owner := Some workerID,
       row_lease_until := Some (now + duration div millisecond * millisecond),
       row_attempt_count := row_attempt_count r + 1, row_lease_recovery_epoch := Some epoch, row_last_error := None\<rparr>"

definition claim_candidates :: "gotime \<Rightarrow> (int \<Rightarrow> bool) \<Rightarrow> int \<Rightarrow> outbox_db \<Rightarrow> int list" where
  "claim_candidates now locked limit db =
     map row_id (take (nat limit)
       (sort_key row_id (filter (\<lambda>r. claimable now db r \<and> \<not> locked (row_id r)) (db_rows db))))"

definition Claim ::
  "ctx \<Rightarrow> gotime \<Rightarrow> (int \<Rightarrow> bool) \<Rightarrow> string \<Rightarrow> int \<Rightarrow> int \<Rightarrow> outbox_db \<Rightarrow> Message list result \<times> outbox_db" where
  "Claim c now locked workerID limit duration db =
     (if workerID = [] \<or> limit < 1 \<or> limit > 1000 \<or> duration < millisecond \<or> duration > 24 * hour
      then (Inl (ErrText ''invalid outbox worker, claim limit or lease duration''), db)
      else case c 0 of
        Some e \<Rightarrow> (Inl (ErrWrap (ErrText ''claim outbox'') e), db)
      | None \<Rightarrow>
          (let ids = claim_candidates now locked limit db in
           if list_ex (\<lambda>r. row_id r \<in> set ids \<and> row_attempt_count r + 1 \<ge> 2 ^ 63) (db_rows db)
           then (Inl (ErrText ''claim outbox: bigint out of range''), db)
           else
             (let rows = map (\<lambda>r. if row_id r \<in> set ids then claimed_row now workerID duration (db_recovery_epoch db) r else r)
                           (db_rows db);
                  db' = db\<lparr>db_rows := rows\<rparr>
              in (case c 1 of
                    Some e \<Rightarrow> Inl (ErrWrap (ErrText ''scan claimed outbox'') e)
                  | None \<Rightarrow> Inr (map scanOutbox (sort_key row_id (filter (\<lambda>r. row_id r \<in> set ids) rows))), db'))))"

text \<open>The first 2048 runes of a diagnostic (in UTF-8 a continuation byte starts no rune).\<close>

fun clamp_runes :: "nat \<Rightarrow> string \<Rightarrow> string" where
  "clamp_runes n [] = []"
| "clamp_runes n (b # bs) =
     (if byte_in 128 191 b then b # clamp_runes n bs
      else case n of 0 \<Rightarrow> [] | Suc k \<Rightarrow> b # clamp_runes k bs)"

definition NULLIF :: "string \<Rightarrow> string option" where
  "NULLIF s = (if s = [] then None else Some s)"

definition held :: "gotime \<Rightarrow> Lease \<Rightarrow> outbox_row \<Rightarrow> bool" where
  "held now l r \<longleftrightarrow>
     row_id r = lease_ID l \<and> row_state r = OutboxLeased \<and> row_lease_owner r = Some (lease_Owner l)
     \<and> row_attempt_count r = unat (lease_Attempt l) \<and> (case row_lease_until r of None \<Rightarrow> False | Some t \<Rightarrow> t > now)"

definition settled_row :: "gotime \<Rightarrow> Resolution \<Rightarrow> outbox_row \<Rightarrow> outbox_row" where
  "settled_row now r row =
     (let micros = res_RetryAfter r div 1000;
          micros' = (if res_RetryAfter r > 0 \<and> micros = 0 then 1 else micros)
      in row\<lparr>row_state := res_State r, row_lease_owner := None, row_lease_until := None,
             row_next_attempt_at := (if res_State r = OutboxPending then now + micros' * 1000 else row_next_attempt_at row),
             row_last_error := NULLIF (clamp_runes 2048 (res_LastError r)),
             row_dispatched_at := (if res_State r = OutboxDispatched then Some now else row_dispatched_at row)\<rparr>)"

definition settleOutbox :: "ctx \<Rightarrow> gotime \<Rightarrow> Lease \<Rightarrow> Resolution \<Rightarrow> outbox_db \<Rightarrow> outbox_db result" where
  "settleOutbox c now l r db =
     unless (\<not> Lease_Valid l) OutboxErrLeaseLost
       (unless_err (Resolution_Validate r)
         (case c 0 of
            Some e \<Rightarrow> Inl (ErrWrap (ErrText ''settle outbox'') e)
          | None \<Rightarrow>
              unless (length (filter (held now l) (db_rows db)) \<noteq> 1) OutboxErrLeaseLost
                (Inr (db\<lparr>db_rows := map (\<lambda>row. if held now l row then settled_row now r row else row) (db_rows db)\<rparr>))))"

text \<open>
  Outside a transaction the statement commits by itself: when its answer is lost, it may
  (\<open>applied\<close>) or may not have taken effect.
\<close>

definition mark :: "bool \<Rightarrow> ctx \<Rightarrow> gotime \<Rightarrow> Lease \<Rightarrow> Resolution \<Rightarrow> outbox_db \<Rightarrow> err option \<times> outbox_db" where
  "mark applied c now l r db =
     (case settleOutbox c now l r db of
        Inr db' \<Rightarrow> (None, db')
      | Inl e \<Rightarrow>
          (Some e, if applied \<and> c 0 \<noteq> None
                   then case settleOutbox background now l r db of Inr db' \<Rightarrow> db' | Inl _ \<Rightarrow> db
                   else db))"

definition MarkDeadLetter :: "bool \<Rightarrow> ctx \<Rightarrow> gotime \<Rightarrow> Lease \<Rightarrow> string \<Rightarrow> outbox_db \<Rightarrow> err option \<times> outbox_db" where
  "MarkDeadLetter applied c now l lastError db =
     mark applied c now l \<lparr>res_State = OutboxDeadLetter, res_RetryAfter = 0, res_LastError = lastError\<rparr> db"

definition MarkDispatched :: "bool \<Rightarrow> ctx \<Rightarrow> gotime \<Rightarrow> Lease \<Rightarrow> outbox_db \<Rightarrow> err option \<times> outbox_db" where
  "MarkDispatched applied c now l db =
     mark applied c now l \<lparr>res_State = OutboxDispatched, res_RetryAfter = 0, res_LastError = []\<rparr> db"

definition MarkRetry :: "bool \<Rightarrow> ctx \<Rightarrow> gotime \<Rightarrow> Lease \<Rightarrow> int \<Rightarrow> string \<Rightarrow> outbox_db \<Rightarrow> err option \<times> outbox_db" where
  "MarkRetry applied c now l delay lastError db =
     mark applied c now l \<lparr>res_State = OutboxPending, res_RetryAfter = delay, res_LastError = lastError\<rparr> db"

text \<open>
  What surrounds one dispatch: the answers of the fallible calls in order, the clock when the lease
  is read and when it is settled, the time that passed in between, and whether a commit whose
  answer is lost took effect.
\<close>

record env =
  env_ctx :: ctx
  env_now :: gotime
  env_settle :: gotime
  env_elapsed :: int
  env_applied :: bool

definition outcome_unknown :: "err \<Rightarrow> err" where
  "outcome_unknown e = ErrWrap OutboxErrOutcomeUnknown e"

text \<open>The second half of \<open>Dispatch\<close>, after the callback has returned its resolution.\<close>

definition settle_delivery :: "env \<Rightarrow> Lease \<Rightarrow> Resolution \<Rightarrow> outbox_db \<Rightarrow> OutboxState result \<times> outbox_db" where
  "settle_delivery v l r db =
     (let c = env_ctx v in
      case c 5 of
        Some e \<Rightarrow> (Inl (outcome_unknown e), db)
      | None \<Rightarrow>
          (case Resolution_Validate r of
             Some e \<Rightarrow> (Inl (outcome_unknown e), db)
           | None \<Rightarrow>
               (case settleOutbox (ctx_from 6 c) (env_settle v) l r db of
                  Inl e \<Rightarrow> (Inl (outcome_unknown e), db)
                | Inr db' \<Rightarrow>
                    (case c 7 of
                       Some e \<Rightarrow> (Inl (outcome_unknown e), db)
                     | None \<Rightarrow>
                         (case c 8 of
                            Some e \<Rightarrow> (Inl (outcome_unknown e), if env_applied v then db' else db)
                          | None \<Rightarrow> (Inr (res_State r), db'))))))"

text \<open>The first half: the row for which the callback is invoked, or the refusal.\<close>

definition admit_dispatch :: "env \<Rightarrow> Lease \<Rightarrow> RiskClass \<Rightarrow> outbox_db \<Rightarrow> outbox_row result" where
  "admit_dispatch v l risk db =
     (let c = env_ctx v in
      unless (\<not> Lease_Valid l) OutboxErrLeaseLost
        (unless (\<not> ValidRisk risk) OutboxErrRiskClass
          (unless_err (c 0)
            (unless_err (map_option (\<lambda>e. ErrWrap OutboxErrRecoveryBlocked (ErrWrap (ErrText ''read platform state'') e)) (c 1))
              (unless (db_recovery_mode db \<noteq> ''NORMAL'' \<and> db_recovery_mode db \<noteq> ''RECOVERY_RECONCILIATION'')
                 OutboxErrRecoveryBlocked
                (unless_err (c 2)
                  (case find (\<lambda>r. row_id r = lease_ID l) (db_rows db) of
                     None \<Rightarrow> Inl OutboxErrLeaseLost
                   | Some row \<Rightarrow>
                       (let m = scanOutbox row in
                        unless (msg_State m \<noteq> OutboxLeased \<or> Message_Lease m \<noteq> l) OutboxErrLeaseLost
                          (case Classify (msg_Topic m) (msg_RiskClass m) of
                             Inl _ \<Rightarrow> Inl OutboxErrRiskClass
                           | Inr classified \<Rightarrow>
                               unless (classified \<noteq> risk) OutboxErrRiskClass
                                 (unless (risk \<noteq> Observe
                                          \<and> (db_recovery_mode db \<noteq> ''NORMAL'' \<or> msg_LeaseRecoveryEpoch m \<noteq> db_recovery_epoch db))
                                    OutboxErrRecoveryBlocked
                                   (unless_err (c 3)
                                     (case row_lease_until row of
                                        None \<Rightarrow> Inl (ErrText ''cannot scan NULL into *float64'')
                                      | Some t \<Rightarrow>
                                          unless (t - env_now v - env_elapsed v \<le> 0 \<or> row_lease_recovery_epoch row = None)
                                            OutboxErrLeaseLost
                                            (unless_err (c 4) (Inr row))))))))))))))"

definition Dispatch ::
  "env \<Rightarrow> Lease \<Rightarrow> RiskClass \<Rightarrow> (Message \<Rightarrow> Resolution) \<Rightarrow> outbox_db \<Rightarrow> (OutboxState result \<times> outbox_db) \<times> Message option" where
  "Dispatch v l risk deliver db =
     (case admit_dispatch v l risk db of
        Inl e \<Rightarrow> ((Inl e, db), None)
      | Inr row \<Rightarrow> (settle_delivery v l (deliver (scanOutbox row)) db, Some (scanOutbox row)))"

section \<open>The dispatcher\<close>

record Registration =
  reg_RiskClass :: RiskClass
  reg_Handler :: "(Message \<Rightarrow> err option) option"

record Dispatcher =
  dp_Handlers :: "(string \<times> Registration) list"
  dp_LeaseDuration :: int
  dp_HandlerTimeout :: int
  dp_RetryDelay :: int
  dp_MaxRetryDelay :: int
  dp_MaxAttempts :: uint64

record Summary =
  sum_Claimed :: nat
  sum_Dispatched :: nat
  sum_Retried :: nat
  sum_DeadLettered :: nat
  sum_Deferred :: nat

definition lease_duration :: "Dispatcher \<Rightarrow> int" where
  "lease_duration d = (if dp_LeaseDuration d = 0 then 30 * second else dp_LeaseDuration d)"

definition handler_timeout :: "Dispatcher \<Rightarrow> int" where
  "handler_timeout d = (if dp_HandlerTimeout d = 0 then lease_duration d div 2 else dp_HandlerTimeout d)"

definition retry_base :: "Dispatcher \<Rightarrow> int" where
  "retry_base d = (if dp_RetryDelay d = 0 then 5 * second else dp_RetryDelay d)"

definition retry_max :: "Dispatcher \<Rightarrow> int" where
  "retry_max d = (if dp_MaxRetryDelay d = 0 then 60 * second else dp_MaxRetryDelay d)"

definition max_attempts :: "Dispatcher \<Rightarrow> uint64" where
  "max_attempts d = (if dp_MaxAttempts d = 0 then 5 else dp_MaxAttempts d)"

fun check_handlers :: "(string \<times> Registration) list \<Rightarrow> err option" where
  "check_handlers [] = None"
| "check_handlers ((topic, entry) # rest) =
     (if topic = [] \<or> reg_Handler entry = None then Some (ErrText ''handler and topic are required'')
      else if (case Classify topic (reg_RiskClass entry) of Inl _ \<Rightarrow> True | Inr _ \<Rightarrow> False) \<or> \<not> ValidRisk (reg_RiskClass entry)
      then Some OutboxErrRiskClass
      else check_handlers rest)"

definition check_dispatcher :: "Dispatcher \<Rightarrow> string \<Rightarrow> int \<Rightarrow> err option" where
  "check_dispatcher d workerID limit =
     (if workerID = [] \<or> limit \<le> 0 \<or> limit > 1000
      then Some (ErrText ''worker and claim limit in [1,1000] are required'')
      else if lease_duration d < millisecond \<or> lease_duration d > 24 * hour \<or> handler_timeout d \<le> 0
              \<or> handler_timeout d \<ge> lease_duration d \<or> retry_base d \<le> 0 \<or> retry_max d < retry_base d
              \<or> retry_max d > 24 * hour
      then Some (ErrText ''invalid outbox lease, timeout or retry bounds'')
      else check_handlers (dp_Handlers d))"

definition resolution :: "OutboxState \<Rightarrow> string \<Rightarrow> Resolution" where
  "resolution st e = \<lparr>res_State = st, res_RetryAfter = 0, res_LastError = e\<rparr>"

text \<open>The callback that \<open>DispatchBatch\<close> hands to the repository; \<open>invokes\<close> tells whether it calls the handler.\<close>

definition invokes :: "Dispatcher \<Rightarrow> Message \<Rightarrow> Message \<Rightarrow> bool" where
  "invokes d message current \<longleftrightarrow> msg_Topic current = msg_Topic message \<and> msg_AttemptCount current \<le> max_attempts d"

definition deliver :: "Dispatcher \<Rightarrow> (Message \<Rightarrow> err option) \<Rightarrow> Message \<Rightarrow> Message \<Rightarrow> Resolution" where
  "deliver d handle message current =
     (if msg_Topic current \<noteq> msg_Topic message then resolution OutboxDeadLetter (Error OutboxErrRiskClass)
      else if msg_AttemptCount current > max_attempts d then resolution OutboxDeadLetter ''attempt budget exhausted''
      else case handle current of
        None \<Rightarrow> resolution OutboxDispatched []
      | Some e \<Rightarrow>
          if errors_Is e OutboxErrOutcomeUnknown then resolution OutboxDeadLetter (Error OutboxErrOutcomeUnknown)
          else if msg_AttemptCount current \<ge> max_attempts d then resolution OutboxDeadLetter (Error e)
          else \<lparr>res_State = OutboxPending,
                res_RetryAfter = retryDelay (retry_base d) (retry_max d) (msg_AttemptCount current),
                res_LastError = Error e\<rparr>)"

text \<open>One iteration of the loop: the error that ends the batch or none, the summary, the database, and the handler call.\<close>

type_synonym batch = "err option \<times> Summary \<times> outbox_db \<times> Message option"

definition count_state :: "OutboxState \<Rightarrow> Summary \<Rightarrow> err option \<times> Summary" where
  "count_state st sm =
     (case st of
        OutboxDispatched \<Rightarrow> (None, sm\<lparr>sum_Dispatched := sum_Dispatched sm + 1\<rparr>)
      | OutboxPending \<Rightarrow> (None, sm\<lparr>sum_Retried := sum_Retried sm + 1\<rparr>)
      | OutboxDeadLetter \<Rightarrow> (None, sm\<lparr>sum_DeadLettered := sum_DeadLettered sm + 1\<rparr>)
      | _ \<Rightarrow> (Some (ErrText (''repository returned invalid settled state '' @ [CHR 34] @ OutboxState_string st @ [CHR 34])), sm))"

definition deferred :: "Summary \<Rightarrow> Summary" where
  "deferred sm = sm\<lparr>sum_Deferred := sum_Deferred sm + 1\<rparr>"

definition unhandled_message :: "env \<Rightarrow> Message \<Rightarrow> Summary \<Rightarrow> outbox_db \<Rightarrow> batch" where
  "unhandled_message v message sm db =
     (case MarkDeadLetter (env_applied v) (ctx_from 1 (env_ctx v)) (env_now v) (Message_Lease message) (Error OutboxErrNoHandler) db of
        (Some e, db') \<Rightarrow>
          if errors_Is e OutboxErrLeaseLost then (None, deferred sm, db', None) else (Some e, sm, db', None)
      | (None, db') \<Rightarrow> (None, sm\<lparr>sum_DeadLettered := sum_DeadLettered sm + 1\<rparr>, db', None))"

definition dispatch_message :: "Dispatcher \<Rightarrow> (Message \<Rightarrow> err option) \<Rightarrow> RiskClass \<Rightarrow> env \<Rightarrow> Message \<Rightarrow> Summary \<Rightarrow> outbox_db \<Rightarrow> batch" where
  "dispatch_message d handle risk v message sm db =
     (case Dispatch (v\<lparr>env_ctx := ctx_from 1 (env_ctx v)\<rparr>) (Message_Lease message) risk (deliver d handle message) db of
        ((r, db'), called) \<Rightarrow>
          (let call = (case called of None \<Rightarrow> None | Some m \<Rightarrow> if invokes d message m then Some m else None) in
           case r of
             Inl e \<Rightarrow>
               if errors_Is e OutboxErrOutcomeUnknown then (Some e, sm, db', call)
               else if errors_Is e OutboxErrLeaseLost \<or> errors_Is e OutboxErrRecoveryBlocked \<or> errors_Is e OutboxErrRiskClass
               then (None, deferred sm, db', call)
               else (Some e, sm, db', call)
           | Inr st \<Rightarrow> (case count_state st sm of (e, sm') \<Rightarrow> (e, sm', db', call))))"

definition batch_step :: "Dispatcher \<Rightarrow> env \<Rightarrow> Message \<Rightarrow> Summary \<Rightarrow> outbox_db \<Rightarrow> batch" where
  "batch_step d v message sm db =
     (case env_ctx v 0 of
        Some e \<Rightarrow> (Some e, sm, db, None)
      | None \<Rightarrow>
          (case map_of (dp_Handlers d) (msg_Topic message) of
             None \<Rightarrow> unhandled_message v message sm db
           | Some entry \<Rightarrow>
               (case reg_Handler entry of
                  None \<Rightarrow> unhandled_message v message sm db
                | Some handle \<Rightarrow> dispatch_message d handle (reg_RiskClass entry) v message sm db)))"

fun batch_loop :: "Dispatcher \<Rightarrow> (nat \<Rightarrow> env) \<Rightarrow> Message list \<Rightarrow> Summary \<Rightarrow> outbox_db \<Rightarrow> (Summary \<times> err option) \<times> outbox_db \<times> Message list" where
  "batch_loop d vs [] sm db = ((sm, None), db, [])"
| "batch_loop d vs (message # messages) sm db =
     (case batch_step d (vs 0) message sm db of
        (Some e, sm', db', call) \<Rightarrow> ((sm', Some e), db', case call of None \<Rightarrow> [] | Some m \<Rightarrow> [m])
      | (None, sm', db', call) \<Rightarrow>
          (case batch_loop d (\<lambda>i. vs (Suc i)) messages sm' db' of
             (r, db'', calls) \<Rightarrow> (r, db'', (case call of None \<Rightarrow> [] | Some m \<Rightarrow> [m]) @ calls)))"

definition DispatchBatch ::
  "Dispatcher \<Rightarrow> ctx \<Rightarrow> gotime \<Rightarrow> (int \<Rightarrow> bool) \<Rightarrow> (nat \<Rightarrow> env) \<Rightarrow> string \<Rightarrow> int \<Rightarrow> outbox_db \<Rightarrow> (Summary \<times> err option) \<times> outbox_db \<times> Message list" where
  "DispatchBatch d c now locked vs workerID limit db =
     (let empty = \<lparr>sum_Claimed = 0, sum_Dispatched = 0, sum_Retried = 0, sum_DeadLettered = 0, sum_Deferred = 0\<rparr> in
      case check_dispatcher d workerID limit of
        Some e \<Rightarrow> ((empty, Some e), db, [])
      | None \<Rightarrow>
          (case c 0 of
             Some e \<Rightarrow> ((empty, Some e), db, [])
           | None \<Rightarrow>
               (case Claim (ctx_from 1 c) now locked workerID limit (lease_duration d) db of
                  (Inl e, db') \<Rightarrow> ((empty, Some e), db', [])
                | (Inr messages, db') \<Rightarrow>
                    batch_loop d vs messages (empty\<lparr>sum_Claimed := length messages\<rparr>) db')))"

section \<open>Back-off\<close>

lemma wrap64_id: "- (2 ^ 63) \<le> x \<Longrightarrow> x < 2 ^ 63 \<Longrightarrow> wrap64 x = x"
  by (simp add: wrap64_def)

lemma retry_loop_min:
  "0 < base \<Longrightarrow> base \<le> maximum \<Longrightarrow> maximum < 2 ^ 63 \<Longrightarrow> retry_loop n base maximum = min (base * 2 ^ n) maximum"
proof (induction n arbitrary: base)
  case 0
  then show ?case by simp
next
  case (Suc n)
  show ?case
  proof (cases "base > maximum div 2")
    case True
    then have "maximum \<le> base * 2 * 1" by linarith
    also have "\<dots> \<le> base * 2 * 2 ^ n" using Suc.prems by (intro mult_left_mono) simp_all
    finally have "maximum \<le> base * 2 ^ Suc n" by simp
    with True Suc.prems show ?thesis by auto
  next
    case False
    then have b: "base * 2 \<le> maximum" by linarith
    with Suc.prems have w: "wrap64 (base * 2) = base * 2" by (intro wrap64_id) simp_all
    from Suc.IH [of "base * 2"] b Suc.prems False show ?thesis by (simp add: w mult.assoc)
  qed
qed

text \<open>
  C33. Retries back off exponentially within bounds. For every configuration the dispatcher accepts,
  the delay before the next attempt is the base delay doubled once per earlier attempt and cut off
  at the maximum; it is positive and at most a day, so the repository accepts the resolution, and
  the doubling never overflows a signed 64-bit duration.
\<close>

theorem retries_back_off:
  assumes "check_dispatcher d workerID limit = None"
  shows "retryDelay (retry_base d) (retry_max d) n = min (retry_base d * 2 ^ (unat n - 1)) (retry_max d)
     \<and> 0 < retryDelay (retry_base d) (retry_max d) n \<and> retryDelay (retry_base d) (retry_max d) n \<le> 24 * hour"
proof -
  from assms have b: "0 < retry_base d" "retry_base d \<le> retry_max d" "retry_max d \<le> 24 * hour"
    by (auto simp: check_dispatcher_def split: if_splits)
  then have "retry_max d < 2 ^ 63" by (simp add: hour_def second_def)
  with b have "retryDelay (retry_base d) (retry_max d) n = min (retry_base d * 2 ^ (unat n - 1)) (retry_max d)"
    unfolding retryDelay_def by (intro retry_loop_min)
  with b show ?thesis by simp
qed

definition sample_dispatcher :: Dispatcher where
  "sample_dispatcher = \<lparr>dp_Handlers = [(''work.created'', \<lparr>reg_RiskClass = Observe, reg_Handler = Some (\<lambda>_. None)\<rparr>)],
     dp_LeaseDuration = 0, dp_HandlerTimeout = 0, dp_RetryDelay = 0, dp_MaxRetryDelay = 0, dp_MaxAttempts = 0\<rparr>"

lemma sample_dispatcher_ok: "check_dispatcher sample_dispatcher ''w'' 10 = None"
  by (simp add: check_dispatcher_def sample_dispatcher_def lease_duration_def handler_timeout_def retry_base_def
      retry_max_def second_def hour_def millisecond_def Classify_def ValidRisk_def)

theorem retries_back_off_witness:
  "retryDelay (retry_base sample_dispatcher) (retry_max sample_dispatcher) 3 = 20 * second"
  using retries_back_off [OF sample_dispatcher_ok, of 3]
  by (simp add: sample_dispatcher_def retry_base_def retry_max_def second_def)

section \<open>Handler calls are fenced\<close>

lemma find_Some_mem: "find P xs = Some x \<Longrightarrow> x \<in> set xs \<and> P x"
  by (auto simp: find_Some_iff)

lemma admit_dispatch_Inr:
  assumes "admit_dispatch v l risk db = Inr row"
  shows "row \<in> set (db_rows db) \<and> row_state row = OutboxLeased \<and> Message_Lease (scanOutbox row) = l
     \<and> Classify (row_topic row) (row_risk_class row) = Inr risk
     \<and> (\<exists>t. row_lease_until row = Some t \<and> env_now v + env_elapsed v < t)
     \<and> (risk = Observe \<or> db_recovery_mode db = ''NORMAL'' \<and> row_lease_recovery_epoch row = Some (db_recovery_epoch db))"
proof -
  from assms obtain t where row: "find (\<lambda>r. row_id r = lease_ID l) (db_rows db) = Some row"
    and st: "row_state row = OutboxLeased" "Message_Lease (scanOutbox row) = l"
    and risk: "Classify (row_topic row) (row_risk_class row) = Inr risk"
    and until: "row_lease_until row = Some t" "t - env_now v - env_elapsed v > 0" "row_lease_recovery_epoch row \<noteq> None"
    and mode: "risk = Observe \<or> db_recovery_mode db = ''NORMAL'' \<and> msg_LeaseRecoveryEpoch (scanOutbox row) = db_recovery_epoch db"
    by (auto simp: admit_dispatch_def Let_def scanOutbox_def split: option.splits sum.splits)
  from mode until(3) have "risk = Observe \<or> db_recovery_mode db = ''NORMAL'' \<and> row_lease_recovery_epoch row = Some (db_recovery_epoch db)"
    by (auto simp: scanOutbox_def)
  with find_Some_mem [OF row] st risk until show ?thesis by auto
qed

lemma batch_step_call:
  assumes "batch_step d v message sm db = (e, sm', db', Some m)"
  shows "\<exists>entry row. map_of (dp_Handlers d) (msg_Topic message) = Some entry
     \<and> admit_dispatch (v\<lparr>env_ctx := ctx_from 1 (env_ctx v)\<rparr>) (Message_Lease message) (reg_RiskClass entry) db = Inr row
     \<and> m = scanOutbox row \<and> invokes d message m"
  using assms
  by (auto simp: batch_step_def unhandled_message_def dispatch_message_def Dispatch_def Let_def
      split: option.splits if_splits sum.splits prod.splits)

text \<open>
  C7. A handler is only called under authority: on a row of the outbox that is leased right now by
  exactly the owner and attempt of the claimed message, with a lease that has not run out, a
  registered topic of the risk class the row has, an attempt within the budget, and, unless the
  message is a mere observation, in NORMAL mode and in the recovery epoch in which the message was
  claimed.
\<close>

theorem handler_calls_are_fenced:
  assumes "batch_step d v message sm db = (e, sm', db', Some m)" and "0 \<le> env_elapsed v"
  shows "\<exists>entry row t. map_of (dp_Handlers d) (msg_Topic m) = Some entry \<and> row \<in> set (db_rows db) \<and> m = scanOutbox row
     \<and> row_state row = OutboxLeased \<and> Message_Lease m = Message_Lease message
     \<and> row_lease_until row = Some t \<and> env_now v < t \<and> msg_AttemptCount m \<le> max_attempts d
     \<and> Classify (row_topic row) (row_risk_class row) = Inr (reg_RiskClass entry)
     \<and> (reg_RiskClass entry = Observe
        \<or> db_recovery_mode db = ''NORMAL'' \<and> row_lease_recovery_epoch row = Some (db_recovery_epoch db))"
proof -
  from batch_step_call [OF assms(1)] obtain entry row where
    c: "map_of (dp_Handlers d) (msg_Topic message) = Some entry"
    "admit_dispatch (v\<lparr>env_ctx := ctx_from 1 (env_ctx v)\<rparr>) (Message_Lease message) (reg_RiskClass entry) db = Inr row"
    "m = scanOutbox row" "invokes d message m" by blast
  from admit_dispatch_Inr [OF c(2)] c assms(2) show ?thesis
    by (intro exI [of _ entry] exI [of _ row]) (auto simp: invokes_def)
qed

section \<open>Many workers\<close>

text \<open>Inserting a message (\<open>insertOutbox\<close>); the identifier comes from the sequence of the table.\<close>

definition insertOutbox ::
  "ctx \<Rightarrow> gotime \<Rightarrow> int \<Rightarrow> string \<Rightarrow> string \<Rightarrow> string \<Rightarrow> string \<Rightarrow> RiskClass \<Rightarrow> string \<Rightarrow> outbox_db \<Rightarrow> outbox_db result" where
  "insertOutbox c now sequence key topic aggregateType aggregateID risk payload db =
     unless (key = []) (ErrText ''outbox key is required'')
       (unless (topic = []) (ErrText ''outbox topic is required'')
         (rbind (Classify topic risk) (\<lambda>riskClass.
           case c 0 of
             Some e \<Rightarrow> Inl (ErrWrap (ErrText (''insert outbox message '' @ key)) e)
           | None \<Rightarrow>
               unless (list_ex (\<lambda>r. row_key r = key) (db_rows db))
                 (ErrWrap (ErrText (''insert outbox message '' @ key)) (ErrText ''duplicate key value violates unique constraint''))
               (Inr (db\<lparr>db_rows := db_rows db @
                 [\<lparr>row_id = sequence, row_key = key, row_topic = topic, row_aggregate_type = NULLIF aggregateType,
                   row_aggregate_id = NULLIF aggregateID, row_risk_class = riskClass, row_payload = payload,
                   row_state = OutboxPending, row_attempt_count = 0, row_lease_owner = None, row_lease_until = None,
                   row_next_attempt_at = now, row_last_error = None, row_created_at = now,
                   row_dispatched_at = None, row_lease_recovery_epoch = None\<rparr>]\<rparr>)))))"

text \<open>
  The outbox with its workers: the database, for every claimed batch the messages not yet worked on,
  and the handler calls so far. Workers claim, work on the next message of a batch, crash at any time;
  receipts settle a message without a handler; messages are inserted; the recovery state changes.
\<close>

record outbox_system =
  sys_db :: outbox_db
  sys_batches :: "Message list list"
  sys_calls :: "Message list"

inductive outbox_step :: "outbox_system \<Rightarrow> outbox_system \<Rightarrow> bool" where
  claim: "Claim c now locked w limit duration (sys_db s) = (r, db') \<Longrightarrow>
     outbox_step s (s\<lparr>sys_db := db', sys_batches := sys_batches s @ [case r of Inl _ \<Rightarrow> [] | Inr ms \<Rightarrow> ms]\<rparr>)"
| message: "i < length (sys_batches s) \<Longrightarrow> sys_batches s ! i = m # ms \<Longrightarrow>
     batch_step d v m sm (sys_db s) = (e, sm', db', call) \<Longrightarrow>
     outbox_step s (s\<lparr>sys_db := db', sys_batches := (sys_batches s)[i := (if e = None then ms else [])],
       sys_calls := sys_calls s @ (case call of None \<Rightarrow> [] | Some x \<Rightarrow> [x])\<rparr>)"
| crash: "outbox_step s (s\<lparr>sys_batches := (sys_batches s)[i := []]\<rparr>)"
| receipt: "mark applied c now l r (sys_db s) = (e, db') \<Longrightarrow> outbox_step s (s\<lparr>sys_db := db'\<rparr>)"
| enqueue: "insertOutbox c now i key topic aty aid risk payload (sys_db s) = Inr db' \<Longrightarrow>
     i \<notin> row_id ` set (db_rows (sys_db s)) \<Longrightarrow> outbox_step s (s\<lparr>sys_db := db'\<rparr>)"
| recover: "outbox_step s (s\<lparr>sys_db := (sys_db s)\<lparr>db_recovery_epoch := epoch, db_recovery_mode := mode\<rparr>\<rparr>)"

definition outbox_start :: "uint64 \<Rightarrow> string \<Rightarrow> outbox_system" where
  "outbox_start epoch mode =
     \<lparr>sys_db = \<lparr>db_rows = [], db_recovery_epoch = epoch, db_recovery_mode = mode\<rparr>, sys_batches = [], sys_calls = []\<rparr>"

definition outbox_reachable :: "outbox_system \<Rightarrow> bool" where
  "outbox_reachable s \<longleftrightarrow> (\<exists>epoch mode. outbox_step\<^sup>*\<^sup>* (outbox_start epoch mode) s)"

subsection \<open>What a step does to the rows\<close>

text \<open>\<open>row_next r r'\<close>: the row with the same identifier after a step of somebody.\<close>

definition settled_state :: "OutboxState \<Rightarrow> bool" where
  "settled_state st \<longleftrightarrow> st = OutboxDispatched \<or> st = OutboxDeadLetter"

definition row_next :: "outbox_row \<Rightarrow> outbox_row \<Rightarrow> bool" where
  "row_next r r' \<longleftrightarrow> row_id r' = row_id r \<and> row_attempt_count r \<le> row_attempt_count r'
     \<and> row_attempt_count r' < 2 ^ 63 \<and> (settled_state (row_state r) \<longrightarrow> r' = r)"

definition rows_ok :: "outbox_db \<Rightarrow> bool" where
  "rows_ok db \<longleftrightarrow> distinct (map row_id (db_rows db)) \<and> list_all (\<lambda>r. row_attempt_count r < 2 ^ 63) (db_rows db)"

definition rows_next :: "outbox_db \<Rightarrow> outbox_db \<Rightarrow> bool" where
  "rows_next db db' \<longleftrightarrow> rows_ok db' \<and> (\<forall>r \<in> set (db_rows db). \<exists>r' \<in> set (db_rows db'). row_next r r')"

lemma rows_next_same: "rows_ok db \<Longrightarrow> db_rows db' = db_rows db \<Longrightarrow> rows_next db db'"
  by (auto simp: rows_next_def rows_ok_def row_next_def list_all_iff)

lemma rows_next_refl: "rows_ok db \<Longrightarrow> rows_next db db"
  by (simp add: rows_next_same)

lemma rows_next_map:
  assumes "rows_ok db" and "db_rows db' = map f (db_rows db)" and "\<And>r. r \<in> set (db_rows db) \<Longrightarrow> row_next r (f r)"
  shows "rows_next db db'"
proof -
  have "map row_id (db_rows db') = map row_id (db_rows db)"
    using assms(2,3) by (simp add: row_next_def)
  with assms(1) have "distinct (map row_id (db_rows db'))" by (simp add: rows_ok_def)
  moreover have "list_all (\<lambda>r. row_attempt_count r < 2 ^ 63) (db_rows db')"
    using assms(2,3) by (simp add: list_all_iff row_next_def)
  moreover have "\<exists>r' \<in> set (db_rows db'). row_next r r'" if "r \<in> set (db_rows db)" for r
    using assms(3) [OF that] that by (auto simp: assms(2) intro: bexI [of _ "f r"])
  ultimately show ?thesis by (simp add: rows_next_def rows_ok_def)
qed

lemma settle_next:
  assumes "rows_ok db" and "settleOutbox c now l r db = Inr db'"
  shows "rows_next db db'"
proof (rule rows_next_map [OF assms(1)])
  from assms(2) show "db_rows db' = map (\<lambda>row. if held now l row then settled_row now r row else row) (db_rows db)"
    by (auto simp: settleOutbox_def split: option.splits)
  show "row_next row (if held now l row then settled_row now r row else row)" if "row \<in> set (db_rows db)" for row
    using that assms(1) by (auto simp: row_next_def rows_ok_def list_all_iff held_def settled_row_def Let_def settled_state_def)
qed

lemma mark_next: "rows_ok db \<Longrightarrow> mark applied c now l r db = (e, db') \<Longrightarrow> rows_next db db'"
  by (auto simp: mark_def rows_next_refl settle_next split: sum.splits if_splits)

lemma Dispatch_next: "rows_ok db \<Longrightarrow> Dispatch v l risk f db = ((r, db'), call) \<Longrightarrow> rows_next db db'"
  by (auto simp: Dispatch_def settle_delivery_def Let_def rows_next_refl settle_next
      split: sum.splits option.splits if_splits)

lemma batch_step_next:
  assumes "rows_ok db" and "batch_step d v m sm db = (e, sm', db', call)"
  shows "rows_next db db'"
proof -
  have un: "rows_next db db'" if "unhandled_message v m sm db = (e, sm', db', call)"
    using that mark_next [OF assms(1)]
    by (auto simp: unhandled_message_def MarkDeadLetter_def split: prod.splits option.splits if_splits)
  have di: "rows_next db db'" if "dispatch_message d handle risk v m sm db = (e, sm', db', call)" for handle risk
    using that Dispatch_next [OF assms(1)]
    by (auto simp: dispatch_message_def Let_def split: prod.splits sum.splits if_splits)
  from assms show ?thesis
    by (auto simp: batch_step_def rows_next_refl intro: un di split: option.splits)
qed

lemma claim_candidates_claimable:
  "i \<in> set (claim_candidates now locked limit db) \<Longrightarrow> \<exists>row \<in> set (db_rows db). row_id row = i \<and> claimable now db row"
  by (auto simp: claim_candidates_def dest!: in_set_takeD)

text \<open>A claim leases rows and counts an attempt for each; the messages it returns are exactly these rows.\<close>

definition claim_made :: "gotime \<Rightarrow> string \<Rightarrow> int \<Rightarrow> int set \<Rightarrow> outbox_db \<Rightarrow> Message list result \<Rightarrow> outbox_db \<Rightarrow> bool" where
  "claim_made now w duration ids db r db' \<longleftrightarrow>
     (\<forall>row \<in> set (db_rows db). row_id row \<in> ids \<longrightarrow> claimable now db row \<and> row_attempt_count row + 1 < 2 ^ 63)
     \<and> db_rows db' = map (\<lambda>row. if row_id row \<in> ids then claimed_row now w duration (db_recovery_epoch db) row else row) (db_rows db)
     \<and> (\<forall>ms. r = Inr ms \<longrightarrow> mset ms = mset (map scanOutbox (filter (\<lambda>row. row_id row \<in> ids) (db_rows db'))))"

lemma same_id: "rows_ok db \<Longrightarrow> row \<in> set (db_rows db) \<Longrightarrow> row' \<in> set (db_rows db) \<Longrightarrow> row_id row = row_id row' \<Longrightarrow> row = row'"
  by (simp add: rows_ok_def distinct_map inj_on_def)

lemma Claim_cases:
  assumes "Claim c now locked w limit duration db = (r, db')" and "rows_ok db"
  shows "db' = db \<and> (\<forall>ms. r \<noteq> Inr ms) \<or> (\<exists>ids. claim_made now w duration ids db r db')"
proof -
  let ?ids = "claim_candidates now locked limit db"
  let ?bad = "list_ex (\<lambda>row. row_id row \<in> set ?ids \<and> row_attempt_count row + 1 \<ge> 2 ^ 63) (db_rows db)"
  show ?thesis
  proof (cases "c 0 \<noteq> None \<or> (w = [] \<or> limit < 1 \<or> limit > 1000 \<or> duration < millisecond \<or> duration > 24 * hour) \<or> ?bad")
    case True
    with assms(1) have "db' = db" "\<forall>ms. r \<noteq> Inr ms"
      by (cases "c 0"; simp add: Claim_def Let_def split: if_splits; blast)+
    then show ?thesis by blast
  next
    case False
    then have c: "Claim c now locked w limit duration db =
       (let rows = map (\<lambda>r. if row_id r \<in> set ?ids then claimed_row now w duration (db_recovery_epoch db) r else r) (db_rows db) in
        (case c 1 of
           Some e \<Rightarrow> Inl (ErrWrap (ErrText ''scan claimed outbox'') e)
         | None \<Rightarrow> Inr (map scanOutbox (sort_key row_id (filter (\<lambda>r. row_id r \<in> set ?ids) rows))), db\<lparr>db_rows := rows\<rparr>))"
      unfolding Claim_def Let_def by simp
    have "claim_made now w duration (set ?ids) db r db'"
      unfolding claim_made_def
    proof (intro conjI ballI impI allI)
      fix row assume row: "row \<in> set (db_rows db)" "row_id row \<in> set ?ids"
      from claim_candidates_claimable [OF row(2)] same_id [OF assms(2)] row(1) show "claimable now db row" by blast
      from False row show "row_attempt_count row + 1 < 2 ^ 63" by (auto simp: list_ex_iff not_le)
    next
      show "db_rows db' = map (\<lambda>row. if row_id row \<in> set ?ids then claimed_row now w duration (db_recovery_epoch db) row else row) (db_rows db)"
        using assms(1) unfolding c by (auto simp: Let_def)
    next
      fix ms assume "r = Inr ms"
      with assms(1) show "mset ms = mset (map scanOutbox (filter (\<lambda>row. row_id row \<in> set ?ids) (db_rows db')))"
        unfolding c Let_def by (auto split: option.splits simp del: filter_map)
    qed
    then show ?thesis by blast
  qed
qed

lemma Claim_next:
  assumes ok: "rows_ok db" and "Claim c now locked w limit duration db = (r, db')"
  shows "rows_next db db'"
  using Claim_cases [OF assms(2) ok]
proof (elim disjE exE)
  fix ids assume made: "claim_made now w duration ids db r db'"
  let ?f = "\<lambda>row. if row_id row \<in> ids then claimed_row now w duration (db_recovery_epoch db) row else row"
  show ?thesis
  proof (rule rows_next_map [OF ok, of _ ?f])
    show "db_rows db' = map ?f (db_rows db)" using made by (simp add: claim_made_def)
    fix row assume row: "row \<in> set (db_rows db)"
    show "row_next row (?f row)"
    proof (cases "row_id row \<in> ids")
      case True
      with made row have "claimable now db row" "row_attempt_count row + 1 < 2 ^ 63" by (simp_all add: claim_made_def)
      with True show ?thesis by (auto simp: row_next_def claimed_row_def claimable_def settled_state_def)
    next
      case False
      with ok row show ?thesis by (simp add: row_next_def rows_ok_def list_all_iff)
    qed
  qed
qed (use ok in \<open>simp add: rows_next_refl\<close>)

lemma outbox_step_rows: "outbox_step s s' \<Longrightarrow> rows_ok (sys_db s) \<Longrightarrow> rows_next (sys_db s) (sys_db s')"
proof (induction rule: outbox_step.induct)
  case (enqueue c now i key topic aty aid risk payload s db')
  then obtain row where row: "db_rows db' = db_rows (sys_db s) @ [row]" "row_id row = i" "row_attempt_count row = 0"
    by (auto simp: insertOutbox_def split: option.splits)
  with enqueue show ?case by (auto simp: rows_next_def rows_ok_def list_all_iff row_next_def)
qed (auto simp: Claim_next batch_step_next mark_next rows_next_same)

subsection \<open>Lease tokens\<close>

definition tok :: "Message \<Rightarrow> int \<times> nat" where
  "tok m = (msg_ID m, unat (msg_AttemptCount m))"

definition tokens :: "outbox_system \<Rightarrow> (int \<times> nat) multiset" where
  "tokens s = mset (map tok (concat (sys_batches s))) + mset (map tok (sys_calls s))"

definition uniq :: "'a multiset \<Rightarrow> bool" where
  "uniq M \<longleftrightarrow> (\<forall>x. count M x \<le> 1)"

definition issued :: "outbox_db \<Rightarrow> int \<times> nat \<Rightarrow> bool" where
  "issued db t \<longleftrightarrow> (\<exists>row \<in> set (db_rows db). row_id row = fst t \<and> snd t \<le> row_attempt_count row)"

definition outbox_inv :: "outbox_system \<Rightarrow> bool" where
  "outbox_inv s \<longleftrightarrow> rows_ok (sys_db s) \<and> uniq (tokens s) \<and> (\<forall>t \<in># tokens s. issued (sys_db s) t)"

lemma issued_next: "rows_next db db' \<Longrightarrow> issued db t \<Longrightarrow> issued db' t"
  unfolding rows_next_def issued_def row_next_def by (metis le_trans)

lemma uniq_subset: "uniq M \<Longrightarrow> N \<subseteq># M \<Longrightarrow> uniq N"
  unfolding uniq_def by (meson mset_subset_eq_count le_trans)

lemma uniq_mset: "uniq (mset xs) \<longleftrightarrow> distinct xs"
  unfolding uniq_def distinct_count_atmost_1
  by (auto simp: not_in_iff le_less less_Suc_eq dest!: spec split: if_splits)

lemma uniq_union: "uniq M \<Longrightarrow> uniq N \<Longrightarrow> (\<And>x. x \<in># N \<Longrightarrow> x \<notin># M) \<Longrightarrow> uniq (M + N)"
  unfolding uniq_def by (metis add.right_neutral add_0 count_inI count_union)

text \<open>A step that issues no tokens keeps the invariant when it keeps the rows in order.\<close>

lemma inv_fewer_tokens:
  assumes "outbox_inv s" and "rows_next (sys_db s) (sys_db s')" and "tokens s' \<subseteq># tokens s"
  shows "outbox_inv s'"
  using assms uniq_subset issued_next mset_subset_eqD [OF assms(3)]
  unfolding outbox_inv_def rows_next_def by blast

lemma mset_concat_update:
  "i < length bs \<Longrightarrow> mset (concat (bs[i := xs])) + mset (bs ! i) = mset (concat bs) + mset xs"
proof -
  assume i: "i < length bs"
  have "concat bs = concat (take i bs) @ bs ! i @ concat (drop (Suc i) bs)"
    using id_take_nth_drop [OF i] by (metis concat.simps(2) concat_append)
  moreover have "concat (bs[i := xs]) = concat (take i bs) @ xs @ concat (drop (Suc i) bs)"
    using i by (simp add: upd_conv_take_nth_drop)
  ultimately show ?thesis by simp
qed

lemma tokens_update:
  assumes "i < length (sys_batches s)"
  shows "mset (map tok (concat ((sys_batches s)[i := xs]))) + mset (map tok (sys_batches s ! i)) =
     mset (map tok (concat (sys_batches s))) + mset (map tok xs)"
  using arg_cong [OF mset_concat_update [OF assms, of xs], of "image_mset tok"] by (simp only: mset_map image_mset_union)

lemma call_token: "batch_step d v m sm db = (e, sm', db', Some x) \<Longrightarrow> tok x = tok m"
  using batch_step_call [of d v m sm db e sm' db' x] admit_dispatch_Inr
  by (fastforce simp: tok_def Message_Lease_def)

lemma claim_tokens:
  assumes ok: "rows_ok db" and made: "claim_made now w duration ids db (Inr ms) db'"
  shows "uniq (mset (map tok ms))" and "\<And>t. t \<in># mset (map tok ms) \<Longrightarrow> issued db' t \<and> \<not> issued db t"
proof -
  let ?rows = "filter (\<lambda>row. row_id row \<in> ids) (db_rows db')"
  from made have ms: "mset ms = mset (map scanOutbox ?rows)"
    and rows: "db_rows db' = map (\<lambda>row. if row_id row \<in> ids then claimed_row now w duration (db_recovery_epoch db) row else row) (db_rows db)"
    and bound: "\<And>row. row \<in> set (db_rows db) \<Longrightarrow> row_id row \<in> ids \<Longrightarrow> row_attempt_count row + 1 < 2 ^ 63"
    by (simp_all add: claim_made_def)
  have old: "\<exists>row \<in> set (db_rows db). row_id row' = row_id row \<and> row_id row \<in> ids
      \<and> row_attempt_count row' = row_attempt_count row + 1" if "row' \<in> set ?rows" for row'
    using that by (auto simp: rows claimed_row_def split: if_splits)
  have tk: "tok (scanOutbox row') = (row_id row', row_attempt_count row')" if "row' \<in> set ?rows" for row'
  proof -
    from old [OF that] bound have "row_attempt_count row' < 2 ^ 63" by auto
    then show ?thesis by (simp add: tok_def scanOutbox_def unsigned_of_nat take_bit_nat_eq_self)
  qed
  have toks: "mset (map tok ms) = mset (map (\<lambda>r. (row_id r, row_attempt_count r)) ?rows)"
  proof -
    have "mset (map tok ms) = mset (map tok (map scanOutbox ?rows))" by (simp only: mset_map ms)
    also have "map tok (map scanOutbox ?rows) = map (\<lambda>r. (row_id r, row_attempt_count r)) ?rows"
      using tk by (simp only: map_map o_def cong: map_cong)
    finally show ?thesis .
  qed
  have "map row_id (db_rows db') = map row_id (db_rows db)" by (simp add: rows claimed_row_def)
  with ok have "distinct (map row_id (db_rows db'))" by (simp add: rows_ok_def)
  then have "distinct (map row_id ?rows)" by (rule distinct_map_filter)
  then have "distinct (map (\<lambda>r. (row_id r, row_attempt_count r)) ?rows)"
    by (auto simp: distinct_map inj_on_def)
  then show "uniq (mset (map tok ms))" unfolding toks uniq_mset .
  fix t assume "t \<in># mset (map tok ms)"
  then obtain row' where row': "row' \<in> set ?rows" "t = (row_id row', row_attempt_count row')" unfolding toks by auto
  from old [OF row'(1)] obtain row where row: "row \<in> set (db_rows db)" "row_id row' = row_id row"
    "row_attempt_count row' = row_attempt_count row + 1" by blast
  have "\<not> issued db t"
  proof
    assume "issued db t"
    then obtain other where "other \<in> set (db_rows db)" "row_id other = row_id row'" "row_attempt_count row' \<le> row_attempt_count other"
      by (auto simp: issued_def row'(2))
    with same_id [OF ok row(1)] row show False by force
  qed
  moreover have "issued db' t"
    unfolding issued_def by (rule bexI [of _ row']) (use row' in simp_all)
  ultimately show "issued db' t \<and> \<not> issued db t" by blast
qed

lemma outbox_inv_step: "outbox_step s s' \<Longrightarrow> outbox_inv s \<Longrightarrow> outbox_inv s'"
proof (induction rule: outbox_step.induct)
  case (claim c now locked w limit duration s r db')
  let ?s' = "s\<lparr>sys_db := db', sys_batches := sys_batches s @ [case r of Inl _ \<Rightarrow> [] | Inr ms \<Rightarrow> ms]\<rparr>"
  from claim(2) have ok: "rows_ok (sys_db s)" by (simp add: outbox_inv_def)
  have rows: "rows_next (sys_db s) db'" using Claim_next [OF ok claim(1)] .
  show ?case
  proof (cases r)
    case (Inl e)
    show ?thesis by (rule inv_fewer_tokens [OF claim(2)]) (use rows Inl in \<open>simp_all add: tokens_def\<close>)
  next
    case (Inr ms)
    with Claim_cases [OF claim(1) ok] obtain ids where made: "claim_made now w duration ids (sys_db s) (Inr ms) db'" by blast
    have tk: "tokens ?s' = tokens s + mset (map tok ms)" using Inr by (simp add: tokens_def)
    have "uniq (tokens ?s')"
      unfolding tk
      by (rule uniq_union) (use claim(2) claim_tokens [OF ok made] in \<open>auto simp: outbox_inv_def\<close>)
    moreover have "issued db' t" if "t \<in># tokens ?s'" for t
      using that claim(2) issued_next [OF rows] claim_tokens(2) [OF ok made] unfolding tk outbox_inv_def union_iff by blast
    ultimately show ?thesis using rows by (simp add: outbox_inv_def rows_next_def)
  qed
next
  case (message i s m ms d v sm e sm' db' call)
  let ?rest = "if e = None then ms else []"
  let ?bs = "mset (map tok (concat ((sys_batches s)[i := ?rest])))"
  have eq: "?bs + add_mset (tok m) (mset (map tok ms)) = mset (map tok (concat (sys_batches s))) + mset (map tok ?rest)"
    using tokens_update [OF message(1), of ?rest] message(2) by simp
  have "add_mset (tok m) ?bs \<subseteq># mset (map tok (concat (sys_batches s)))"
  proof (cases "e = None")
    case True
    with eq show ?thesis by simp
  next
    case False
    with eq have "add_mset (tok m) ?bs + mset (map tok ms) = mset (map tok (concat (sys_batches s)))" by auto
    then show ?thesis by (metis mset_subset_eq_add_left)
  qed
  moreover have "mset (map tok (case call of None \<Rightarrow> [] | Some x \<Rightarrow> [x])) \<subseteq># {#tok m#}"
    using message(3) call_token by (cases call) auto
  then have "?bs + mset (map tok (case call of None \<Rightarrow> [] | Some x \<Rightarrow> [x])) \<subseteq># add_mset (tok m) ?bs"
    by (rule subset_mset.order_trans [OF subset_mset.add_left_mono]) simp
  ultimately have "?bs + mset (map tok (case call of None \<Rightarrow> [] | Some x \<Rightarrow> [x])) \<subseteq># mset (map tok (concat (sys_batches s)))"
    by (rule subset_mset.order_trans [rotated])
  then have "tokens (s\<lparr>sys_db := db', sys_batches := (sys_batches s)[i := ?rest],
      sys_calls := sys_calls s @ (case call of None \<Rightarrow> [] | Some x \<Rightarrow> [x])\<rparr>) \<subseteq># tokens s"
    by (simp add: tokens_def subset_mset.add_right_mono ac_simps)
  moreover have "rows_next (sys_db s) db'" using message(3,4) batch_step_next by (auto simp: outbox_inv_def)
  ultimately show ?case using inv_fewer_tokens [OF message(4)] by simp
next
  case (crash s i)
  have "tokens (s\<lparr>sys_batches := (sys_batches s)[i := []]\<rparr>) \<subseteq># tokens s"
  proof (cases "i < length (sys_batches s)")
    case True
    from tokens_update [OF this, of "[]"] have "mset (map tok (concat ((sys_batches s)[i := []]))) \<subseteq># mset (map tok (concat (sys_batches s)))"
      by (metis mset_subset_eq_add_left mset.simps(1) list.map(1) add.right_neutral)
    then show ?thesis by (simp add: tokens_def)
  qed (simp add: tokens_def list_update_beyond)
  then show ?case by (rule inv_fewer_tokens [OF crash, rotated]) (use crash in \<open>simp add: outbox_inv_def rows_next_refl\<close>)
next
  case (receipt applied c now l r s e db')
  show ?case by (rule inv_fewer_tokens [OF receipt(2)]) (use receipt in \<open>simp_all add: tokens_def outbox_inv_def mark_next\<close>)
next
  case (enqueue c now i key topic aty aid risk payload s db')
  show ?case
    by (rule inv_fewer_tokens [OF enqueue(3)])
      (use outbox_step_rows [OF outbox_step.enqueue [OF enqueue(1,2)]] enqueue(3) in \<open>simp_all add: tokens_def outbox_inv_def\<close>)
next
  case (recover s epoch mode)
  show ?case by (rule inv_fewer_tokens [OF recover]) (use recover in \<open>simp_all add: tokens_def outbox_inv_def rows_next_same\<close>)
qed

lemma outbox_inv_start: "outbox_inv (outbox_start epoch mode)"
  by (simp add: outbox_inv_def outbox_start_def rows_ok_def tokens_def uniq_def)

lemma outbox_inv_steps: "outbox_step\<^sup>*\<^sup>* s s' \<Longrightarrow> outbox_inv s \<Longrightarrow> outbox_inv s'"
  by (induction rule: rtranclp_induct) (auto intro: outbox_inv_step)

text \<open>
  C6. A handler is called at most once per claimed attempt. Whatever workers claim, work off,
  crash, retry or have settled in between, however the database fails or loses the answer of a
  commit, and however the recovery state changes: no two handler calls have the same message and
  attempt.
\<close>

theorem one_call_per_attempt:
  assumes "outbox_reachable s"
  shows "distinct (map (\<lambda>m. (msg_ID m, msg_AttemptCount m)) (sys_calls s))"
proof -
  from assms obtain epoch mode where "outbox_step\<^sup>*\<^sup>* (outbox_start epoch mode) s" by (auto simp: outbox_reachable_def)
  with outbox_inv_steps outbox_inv_start have "uniq (tokens s)" by (auto simp: outbox_inv_def)
  then have "uniq (mset (map tok (sys_calls s)))" by (rule uniq_subset) (simp add: tokens_def)
  then have "distinct (map tok (sys_calls s))" by (simp only: uniq_mset)
  then show ?thesis by (auto simp: distinct_map tok_def inj_on_def)
qed

lemma settled_row_stays:
  assumes "outbox_step s s'" and "outbox_inv s" and row: "row \<in> set (db_rows (sys_db s))" "settled_state (row_state row)"
  shows "row \<in> set (db_rows (sys_db s'))
     \<and> filter (\<lambda>m. msg_ID m = row_id row) (sys_calls s') = filter (\<lambda>m. msg_ID m = row_id row) (sys_calls s)"
proof -
  from assms(2) have ok: "rows_ok (sys_db s)" by (simp add: outbox_inv_def)
  from outbox_step_rows [OF assms(1) ok] row have "row \<in> set (db_rows (sys_db s'))"
    by (auto simp: rows_next_def row_next_def)
  moreover have "msg_ID x \<noteq> row_id row"
    if "batch_step d v m sm (sys_db s) = (e, sm', db', Some x)" for d v m sm e sm' db' x
  proof
    assume i: "msg_ID x = row_id row"
    from batch_step_call [OF that] admit_dispatch_Inr obtain row' where
      r': "row' \<in> set (db_rows (sys_db s))" "row_state row' = OutboxLeased" "x = scanOutbox row'" by blast
    with same_id [OF ok r'(1) row(1)] i have "row' = row" by (simp add: scanOutbox_def)
    with r'(2) row(2) show False by (simp add: settled_state_def)
  qed
  with assms(1) have "filter (\<lambda>m. msg_ID m = row_id row) (sys_calls s') = filter (\<lambda>m. msg_ID m = row_id row) (sys_calls s)"
    by (cases rule: outbox_step.cases) (auto split: option.splits)
  ultimately show ?thesis by blast
qed

text \<open>
  C8. A settled message is final: once a message is DISPATCHED or dead, its row never changes again
  and no handler is called for it any more, whatever the workers do.
\<close>

theorem settled_message_is_final:
  assumes "outbox_reachable s" and "outbox_step\<^sup>*\<^sup>* s s'"
    and "row \<in> set (db_rows (sys_db s))" and "row_state row = OutboxDispatched \<or> row_state row = OutboxDeadLetter"
  shows "row \<in> set (db_rows (sys_db s'))
     \<and> filter (\<lambda>m. msg_ID m = row_id row) (sys_calls s') = filter (\<lambda>m. msg_ID m = row_id row) (sys_calls s)"
proof -
  from assms(1) have inv: "outbox_inv s" using outbox_inv_steps outbox_inv_start by (auto simp: outbox_reachable_def)
  from assms(4) have st: "settled_state (row_state row)" by (simp add: settled_state_def)
  from assms(2) have "outbox_inv s' \<and> row \<in> set (db_rows (sys_db s'))
     \<and> filter (\<lambda>m. msg_ID m = row_id row) (sys_calls s') = filter (\<lambda>m. msg_ID m = row_id row) (sys_calls s)"
  proof (induction rule: rtranclp_induct)
    case base
    with inv assms(3) show ?case by simp
  next
    case (step s1 s2)
    from step.hyps(2) step.IH show ?case using settled_row_stays [OF step.hyps(2), of row] outbox_inv_step st by auto
  qed
  then show ?thesis by blast
qed

text \<open>A sample run: one message is inserted, claimed and dispatched.\<close>

definition sample_env :: env where
  "sample_env = \<lparr>env_ctx = background, env_now = 5, env_settle = 6, env_elapsed = 0, env_applied = False\<rparr>"

definition sample_row :: outbox_row where
  "sample_row = \<lparr>row_id = 1, row_key = ''k'', row_topic = ''work.created'', row_aggregate_type = None,
     row_aggregate_id = None, row_risk_class = Observe, row_payload = ''{}'', row_state = OutboxPending,
     row_attempt_count = 0, row_lease_owner = None, row_lease_until = None, row_next_attempt_at = 1,
     row_last_error = None, row_created_at = 1, row_dispatched_at = None, row_lease_recovery_epoch = None\<rparr>"

definition sample_system :: "outbox_row list \<Rightarrow> Message list list \<Rightarrow> Message list \<Rightarrow> outbox_system" where
  "sample_system rows batches calls =
     \<lparr>sys_db = \<lparr>db_rows = rows, db_recovery_epoch = 7, db_recovery_mode = ''NORMAL''\<rparr>, sys_batches = batches, sys_calls = calls\<rparr>"

definition sample_leased :: outbox_row where
  "sample_leased = claimed_row 2 ''w'' (30 * second) 7 sample_row"

definition sample_settled :: outbox_row where
  "sample_settled = settled_row 6 (resolution OutboxDispatched []) sample_leased"

lemma sample_insert: "outbox_step (outbox_start 7 ''NORMAL'') (sample_system [sample_row] [] [])"
proof -
  have "insertOutbox background 1 1 ''k'' ''work.created'' [] [] Observe ''{}'' (sys_db (outbox_start 7 ''NORMAL'')) =
      Inr (sys_db (sample_system [sample_row] [] []))"
    by (simp add: insertOutbox_def Classify_def outbox_start_def sample_system_def sample_row_def NULLIF_def)
  from outbox_step.enqueue [OF this] show ?thesis by (simp add: outbox_start_def sample_system_def)
qed

lemma sample_claim:
  "outbox_step (sample_system [sample_row] [] []) (sample_system [sample_leased] [[scanOutbox sample_leased]] [])"
proof -
  have "Claim background 2 (\<lambda>_. False) ''w'' 10 (30 * second) (sys_db (sample_system [sample_row] [] [])) =
      (Inr [scanOutbox sample_leased], sys_db (sample_system [sample_leased] [] []))"
    by (simp add: Claim_def claim_candidates_def claimable_def sample_system_def sample_row_def sample_leased_def
        claimed_row_def ValidRisk_def second_def hour_def millisecond_def)
  from outbox_step.claim [OF this] show ?thesis by (simp add: sample_system_def)
qed

lemma sample_delivered:
  "batch_step sample_dispatcher sample_env (scanOutbox sample_leased) sm (sys_db (sample_system [sample_leased] bs [])) =
     (None, sm\<lparr>sum_Dispatched := sum_Dispatched sm + 1\<rparr>, sys_db (sample_system [sample_settled] bs []), Some (scanOutbox sample_leased))"
  by (simp add: batch_step_def dispatch_message_def Dispatch_def admit_dispatch_def settle_delivery_def settleOutbox_def
      sample_dispatcher_def sample_env_def sample_system_def sample_settled_def sample_leased_def sample_row_def claimed_row_def
      scanOutbox_def COALESCE_def Message_Lease_def Lease_Valid_def ValidRisk_def Classify_def deliver_def invokes_def
      max_attempts_def resolution_def Resolution_Validate_def held_def count_state_def second_def millisecond_def Let_def)

lemma sample_worked:
  "outbox_step (sample_system [sample_leased] [[scanOutbox sample_leased]] [])
     (sample_system [sample_settled] [[]] [scanOutbox sample_leased])"
  using outbox_step.message [of 0 "sample_system [sample_leased] [[scanOutbox sample_leased]] []" "scanOutbox sample_leased" "[]",
      OF _ _ sample_delivered]
  by (simp add: sample_system_def)

lemma sample_reachable: "outbox_reachable (sample_system [sample_settled] [[]] [scanOutbox sample_leased])"
proof -
  have "outbox_step\<^sup>*\<^sup>* (outbox_start 7 ''NORMAL'') (sample_system [sample_settled] [[]] [scanOutbox sample_leased])"
    using sample_insert sample_claim sample_worked by (meson converse_rtranclp_into_rtranclp rtranclp.rtrancl_refl)
  then show ?thesis unfolding outbox_reachable_def by blast
qed

theorem handler_calls_are_fenced_witness:
  "\<exists>row t. row \<in> set [sample_leased] \<and> scanOutbox sample_leased = scanOutbox row \<and> row_lease_until row = Some t \<and> 5 < t"
  using handler_calls_are_fenced [OF sample_delivered] by (auto simp: sample_env_def sample_system_def)

theorem one_call_per_attempt_witness:
  "distinct (map (\<lambda>m. (msg_ID m, msg_AttemptCount m)) [scanOutbox sample_leased])
   \<and> outbox_reachable (sample_system [sample_settled] [[]] [scanOutbox sample_leased])"
  using one_call_per_attempt [OF sample_reachable] sample_reachable by (simp add: sample_system_def)

theorem settled_message_is_final_witness:
  "sample_settled \<in> set (db_rows (sys_db (sample_system [sample_settled] [[]] [scanOutbox sample_leased])))
   \<and> row_state sample_settled = OutboxDispatched"
proof -
  have st: "row_state sample_settled = OutboxDispatched"
    by (simp add: sample_settled_def settled_row_def resolution_def Let_def)
  have "sample_settled \<in> set (db_rows (sys_db (sample_system [sample_settled] [[]] [scanOutbox sample_leased])))"
    by (simp add: sample_system_def)
  with settled_message_is_final [OF sample_reachable rtranclp.rtrancl_refl this] st show ?thesis by blast
qed

end
