(* ===== verification/WorkerQueue.thy ===== *)
theory WorkerQueue
  imports CoreModel
begin

text \<open>
  Package \<open>workerqueue\<close> (\<open>model.go\<close>): the intent that a started run leaves for a worker, the token of
  one lease on it, the assignment a worker is handed, and the validation record that worker and
  server compute alike from the frozen identities.
\<close>

section \<open>Intents and tokens\<close>

definition Protocol :: string where "Protocol = ''worker-input-v1''"
definition Validated :: string where "Validated = ''INPUT_VALIDATED''"

definition logicalName :: "string \<Rightarrow> bool" where
  "logicalName = match_class is_alnum (\<lambda>c. is_alnum c \<or> c \<in> set ''._:/-'') 191"

definition fullCommit :: "string \<Rightarrow> bool" where
  "fullCommit = match_exactly is_hex 40"

definition ValidProfile :: "string \<Rightarrow> bool" where
  "ValidProfile profile \<longleftrightarrow> logicalName profile"

record Intent =
  int_RunID :: string
  int_TaskDigest :: string
  int_InputDigest :: string
  int_ExecutionEpoch :: uint64

definition Intent_json :: "Intent \<Rightarrow> json" where
  "Intent_json i = JObj
     (str_field ''run_id'' (int_RunID i)
      @ str_field ''task_contract_digest'' (int_TaskDigest i)
      @ str_field ''run_input_manifest_digest'' (int_InputDigest i)
      @ u64_field ''execution_epoch'' (int_ExecutionEpoch i))"

definition Intent_Digest :: "Intent \<Rightarrow> string result" where
  "Intent_Digest i =
     unless (int_RunID i = [] \<or> length (int_RunID i) > 256 \<or> int_ExecutionEpoch i = 0
             \<or> \<not> ValidDigest (int_TaskDigest i) \<or> \<not> ValidDigest (int_InputDigest i)) ErrIdentity
       (Inr (Digest (Intent_json i)))"

record Token =
  tok_Profile :: string
  tok_InboxID :: int
  tok_Generation :: uint64
  tok_RecoveryEpoch :: uint64

definition Token_json :: "Token \<Rightarrow> json" where
  "Token_json t = JObj
     (str_field ''worker_profile'' (tok_Profile t)
      @ int_field ''inbox_id'' (tok_InboxID t)
      @ u64_field ''lease_generation'' (tok_Generation t)
      @ u64_field ''recovery_epoch'' (tok_RecoveryEpoch t))"

definition Token_Valid :: "Token \<Rightarrow> bool" where
  "Token_Valid t \<longleftrightarrow> tok_InboxID t > 0 \<and> tok_Generation t > 0 \<and> ValidProfile (tok_Profile t)"

section \<open>Assignments and their validation\<close>

record Assignment =
  asg_Token :: Token
  asg_LeaseUntil :: gotime
  asg_Intent :: Intent
  asg_IntentDigest :: string
  asg_Input :: RunInputManifest
  asg_Task :: TaskContract

record Validation =
  val_Protocol :: string
  val_IntentDigest :: string
  val_InputDigest :: string
  val_TaskDigest :: string
  val_ContextCount :: int
  val_ContextBytesVerified :: bool
  val_ExecutionStarted :: bool

definition Validation_json :: "Validation \<Rightarrow> json" where
  "Validation_json v = JObj
     (str_field ''protocol'' (val_Protocol v)
      @ str_field ''intent_digest'' (val_IntentDigest v)
      @ str_field ''run_input_manifest_digest'' (val_InputDigest v)
      @ str_field ''task_contract_digest'' (val_TaskDigest v)
      @ int_field ''context_count'' (val_ContextCount v)
      @ bool_field ''context_bytes_verified'' (val_ContextBytesVerified v)
      @ bool_field ''execution_started'' (val_ExecutionStarted v))"

definition Validate :: "Assignment \<Rightarrow> Validation result" where
  "Validate a =
     (let intent = asg_Intent a; inp = asg_Input a; task = asg_Task a; tok = asg_Token a in
      case Intent_Digest intent of
        Inl _ \<Rightarrow> Inl ErrIdentity
      | Inr digest \<Rightarrow>
          unless (digest \<noteq> asg_IntentDigest a \<or> \<not> Token_Valid tok) ErrIdentity
            (case RunInputManifest_Digest inp of
               Inl _ \<Rightarrow> Inl ErrIdentity
             | Inr inputDigest \<Rightarrow>
                 unless (inputDigest \<noteq> int_InputDigest intent \<or> input_RunID inp \<noteq> int_RunID intent
                         \<or> input_TaskContractDigest inp \<noteq> int_TaskDigest intent) ErrIdentity
                   (let taskDigest = TaskContract_Digest task in
                    unless (taskDigest \<noteq> int_TaskDigest intent \<or> task_ID task = [] \<or> task_WorkItemID task = []
                            \<or> \<not> fullCommit (task_BaseCommit task) \<or> elems (task_AcceptanceCriteria task) = []) ErrIdentity
                      (unless (tok_Profile tok \<noteq> input_WorkerProfile inp \<or> input_RuntimeProfile inp = []
                               \<or> input_ToolProfile inp = [] \<or> \<not> ValidProfile (input_WorkerProfile inp)
                               \<or> input_PolicyProfile inp = []) ErrIdentity
                        (Inr \<lparr>val_Protocol = Protocol, val_IntentDigest = digest, val_InputDigest = inputDigest,
                              val_TaskDigest = taskDigest, val_ContextCount = int (length (input_ContextRefs inp)),
                              val_ContextBytesVerified = False, val_ExecutionStarted = False\<rparr>)))))"

section \<open>Reports and receipts\<close>

record Report =
  rep_Token :: Token
  rep_ValidationDigest :: string

definition NewReport :: "Assignment \<Rightarrow> Report result" where
  "NewReport a =
     rbind (Validate a) (\<lambda>v.
       Inr \<lparr>rep_Token = asg_Token a, rep_ValidationDigest = Digest (Validation_json v)\<rparr>)"

record AdmissionReceipt =
  rct_Token :: Token
  rct_Worker :: string
  rct_Kind :: string
  rct_Validation :: Validation
  rct_ReceivedAt :: gotime

text \<open>
  The JSON text of a \<open>time.Time\<close> depends on the zone of the process that prints it, so the
  rendering of instants is an argument.
\<close>

definition AdmissionReceipt_json :: "(gotime \<Rightarrow> string) \<Rightarrow> AdmissionReceipt \<Rightarrow> json" where
  "AdmissionReceipt_json rfc3339 r = JObj
     ([(''token'', Token_json (rct_Token r))]
      @ str_field ''worker_subject'' (rct_Worker r)
      @ str_field ''kind'' (rct_Kind r)
      @ [(''validation'', Validation_json (rct_Validation r))]
      @ str_field ''received_at'' (rfc3339 (rct_ReceivedAt r)))"

record Status =
  sts_InboxID :: int
  sts_RunID :: string
  sts_State :: string
  sts_Generation :: uint64
  sts_Receipt :: "AdmissionReceipt option"

definition VerifyReceipt :: "Assignment \<Rightarrow> AdmissionReceipt \<Rightarrow> err option" where
  "VerifyReceipt a r =
     (case Validate a of
        Inl _ \<Rightarrow> Some (ErrWrap ErrIdentity (ErrText ''invalid admission receipt''))
      | Inr v \<Rightarrow>
          if rct_Token r \<noteq> asg_Token a \<or> rct_Kind r \<noteq> Validated \<or> rct_Validation r \<noteq> v
             \<or> rct_Worker r = [] \<or> IsZero (rct_ReceivedAt r)
          then Some (ErrWrap ErrIdentity (ErrText ''invalid admission receipt''))
          else None)"

section \<open>What a validation says\<close>

lemma Validate_error: "Validate a = Inl e \<Longrightarrow> e = ErrIdentity"
  by (auto simp: Validate_def Let_def unless_def split: sum.splits if_splits)

lemma Intent_Digest_Inr:
  "Intent_Digest i = Inr d \<longleftrightarrow>
     int_RunID i \<noteq> [] \<and> length (int_RunID i) \<le> 256 \<and> int_ExecutionEpoch i \<noteq> 0
     \<and> ValidDigest (int_TaskDigest i) \<and> ValidDigest (int_InputDigest i) \<and> d = Digest (Intent_json i)"
  by (auto simp: Intent_Digest_def)

text \<open>
  The lease expiry is the one field of an assignment that the validation does not look at: claim
  and report load the same assignment up to that field.
\<close>

lemma Validate_LeaseUntil [simp]: "Validate (a\<lparr>asg_LeaseUntil := t\<rparr>) = Validate a"
  by (cases "Intent_Digest (asg_Intent a)") (simp_all add: Validate_def)

lemma NewReport_LeaseUntil [simp]: "NewReport (a\<lparr>asg_LeaseUntil := t\<rparr>) = NewReport a"
  by (simp add: NewReport_def)

lemma VerifyReceipt_LeaseUntil [simp]: "VerifyReceipt (a\<lparr>asg_LeaseUntil := t\<rparr>) r = VerifyReceipt a r"
  by (simp add: VerifyReceipt_def split: sum.split)

lemma VerifyReceipt_None:
  "VerifyReceipt a r = None \<longleftrightarrow>
     (\<exists>v. Validate a = Inr v \<and> rct_Validation r = v) \<and> rct_Token r = asg_Token a
     \<and> rct_Kind r = Validated \<and> rct_Worker r \<noteq> [] \<and> rct_ReceivedAt r \<noteq> 0"
  by (auto simp: VerifyReceipt_def IsZero_def split: sum.splits)

lemma NewReport_Inr:
  "NewReport a = Inr r \<longleftrightarrow>
     (\<exists>v. Validate a = Inr v \<and> r = \<lparr>rep_Token = asg_Token a, rep_ValidationDigest = Digest (Validation_json v)\<rparr>)"
  by (auto simp: NewReport_def)

text \<open>The fields of an accepted assignment agree: everything in it is one frozen identity.\<close>

definition one_identity :: "Assignment \<Rightarrow> bool" where
  "one_identity a \<longleftrightarrow>
     Intent_Digest (asg_Intent a) = Inr (asg_IntentDigest a)
     \<and> RunInputManifest_Digest (asg_Input a) = Inr (int_InputDigest (asg_Intent a))
     \<and> TaskContract_Digest (asg_Task a) = int_TaskDigest (asg_Intent a)
     \<and> input_RunID (asg_Input a) = int_RunID (asg_Intent a)
     \<and> input_TaskContractDigest (asg_Input a) = int_TaskDigest (asg_Intent a)
     \<and> input_WorkerProfile (asg_Input a) = tok_Profile (asg_Token a)
     \<and> Token_Valid (asg_Token a)"

lemma Validate_one_identity:
  assumes "Validate a = Inr v"
  shows "one_identity a"
  using assms
  by (auto simp: Validate_def one_identity_def Let_def split: sum.splits)

lemma Validate_value:
  assumes "Validate a = Inr v"
  shows "v = \<lparr>val_Protocol = Protocol, val_IntentDigest = asg_IntentDigest a,
       val_InputDigest = int_InputDigest (asg_Intent a), val_TaskDigest = int_TaskDigest (asg_Intent a),
       val_ContextCount = int (length (input_ContextRefs (asg_Input a))),
       val_ContextBytesVerified = False, val_ExecutionStarted = False\<rparr>"
  using assms by (auto simp: Validate_def Let_def split: sum.splits)

end
