(* ===== verification/Transactions.thy ===== *)
theory Transactions
  imports Prelude
begin

text \<open>
  Database transactions of \<open>store/postgres\<close> as state transformers. A program of type \<open>tx\<close> reads the
  environment, counts the statements it has sent, and answers a result with the new database; an
  error keeps what was written so far, which \<open>run_tx\<close> then discards. Statement \<open>n\<close> fails when entry
  \<open>n\<close> of the environment's context is an error and reads the database clock as entry \<open>n\<close> of the
  clock. Transactions take row locks on everything they decide on, so one transaction is one step;
  what a statement may see of others is part of the environment.
\<close>

section \<open>Environments\<close>

record wenv =
  we_ctx :: ctx
  we_clock :: "nat \<Rightarrow> gotime"
  we_now :: gotime
  we_applied :: bool
  we_rfc3339 :: "gotime \<Rightarrow> string"
  we_serial :: int
  we_nonce :: string

type_synonym ('s, 'a) tx = "wenv \<Rightarrow> nat \<Rightarrow> 's \<Rightarrow> 'a result \<times> nat \<times> 's"

section \<open>Statements and their composition\<close>

definition tx_return :: "'a \<Rightarrow> ('s, 'a) tx" where
  "tx_return x v n s = (Inr x, n, s)"

definition tx_fail :: "err \<Rightarrow> ('s, 'a) tx" where
  "tx_fail e v n s = (Inl e, n, s)"

definition tx_bind :: "('s, 'a) tx \<Rightarrow> ('a \<Rightarrow> ('s, 'b) tx) \<Rightarrow> ('s, 'b) tx" where
  "tx_bind m f v n s =
     (case m v n s of (r, n', s') \<Rightarrow> (case r of Inl e \<Rightarrow> (Inl e, n', s') | Inr x \<Rightarrow> f x v n' s'))"

text \<open>\<open>if b { return err }\<close>, and a computed result whose error is returned.\<close>

definition tx_guard :: "bool \<Rightarrow> err \<Rightarrow> ('s, 'a) tx \<Rightarrow> ('s, 'a) tx" where
  "tx_guard b e m = (if b then tx_fail e else m)"

definition tx_lift :: "'a result \<Rightarrow> ('s, 'a) tx" where
  "tx_lift r v n s = (r, n, s)"

text \<open>A call whose error the caller looks at.\<close>

definition tx_try :: "('s, 'a) tx \<Rightarrow> ('s, 'a result) tx" where
  "tx_try m v n s = (case m v n s of (r, n', s') \<Rightarrow> (Inr r, n', s'))"

text \<open>A call whose error is returned in another form.\<close>

definition tx_map_err :: "(err \<Rightarrow> err) \<Rightarrow> ('s, 'a) tx \<Rightarrow> ('s, 'a) tx" where
  "tx_map_err g m v n s = (case m v n s of (r, n', s') \<Rightarrow> (case r of Inl e \<Rightarrow> Inl (g e) | Inr x \<Rightarrow> Inr x, n', s'))"

definition no_rows :: "err \<Rightarrow> err \<Rightarrow> err" where
  "no_rows e' e = (if errors_Is e ErrNoRows then e' else e)"

text \<open>A value of the environment: the process clock, the zone, a random nonce, a serial number.\<close>

definition tx_env :: "(wenv \<Rightarrow> 'a) \<Rightarrow> ('s, 'a) tx" where
  "tx_env f v n s = (Inr (f v), n, s)"

text \<open>A query and an update, each with one reading of the database clock.\<close>

definition tx_read :: "(gotime \<Rightarrow> 's \<Rightarrow> 'a result) \<Rightarrow> ('s, 'a) tx" where
  "tx_read f v n s =
     (case we_ctx v n of Some e \<Rightarrow> (Inl e, Suc n, s) | None \<Rightarrow> (f (we_clock v n) s, Suc n, s))"

definition tx_write :: "(gotime \<Rightarrow> 's \<Rightarrow> ('a \<times> 's) result) \<Rightarrow> ('s, 'a) tx" where
  "tx_write f v n s =
     (case we_ctx v n of
        Some e \<Rightarrow> (Inl e, Suc n, s)
      | None \<Rightarrow> (case f (we_clock v n) s of Inl e \<Rightarrow> (Inl e, Suc n, s) | Inr (x, s') \<Rightarrow> (Inr x, Suc n, s')))"

section \<open>Whole transactions\<close>

text \<open>
  A body returns without committing, so that the deferred rollback undoes it, or asks for the
  commit. A commit whose answer is an error has an unknown outcome: it took effect or it did not
  (\<open>we_applied\<close>).
\<close>

datatype 'a decision = Rollback 'a | Commit 'a

definition classifyCommitError :: "err \<Rightarrow> err" where
  "classifyCommitError e = ErrWrap ErrCommitOutcomeUnknown e"

definition commitAuthority :: "wenv \<Rightarrow> nat \<Rightarrow> 'a \<Rightarrow> 's \<Rightarrow> 's \<Rightarrow> 'a result \<times> 's" where
  "commitAuthority v n x s s' =
     (case we_ctx v n of
        Some e \<Rightarrow> (Inl (classifyCommitError e), if we_applied v then s' else s)
      | None \<Rightarrow> (Inr x, s'))"

definition run_tx :: "('s, 'a decision) tx \<Rightarrow> wenv \<Rightarrow> 's \<Rightarrow> 'a result \<times> 's" where
  "run_tx m v s =
     (case we_ctx v 0 of
        Some e \<Rightarrow> (Inl e, s)
      | None \<Rightarrow>
          (case m v 1 s of (r, n, s') \<Rightarrow>
             (case r of
                Inl e \<Rightarrow> (Inl e, s)
              | Inr d \<Rightarrow> (case d of Rollback x \<Rightarrow> (Inr x, s) | Commit x \<Rightarrow> commitAuthority v n x s s'))))"

text \<open>A query outside any transaction.\<close>

definition run_query :: "('s, 'a) tx \<Rightarrow> wenv \<Rightarrow> 's \<Rightarrow> 'a result" where
  "run_query m v s = fst (m v 0 s)"

section \<open>Case analysis\<close>

lemma tx_return_Inr [simp]: "tx_return x v n s = (Inr y, n', s') \<longleftrightarrow> y = x \<and> n' = n \<and> s' = s"
  by (auto simp: tx_return_def)

lemma tx_return_Inl [simp]: "tx_return x v n s \<noteq> (Inl e, n', s')"
  by (simp add: tx_return_def)

lemma tx_fail_Inr [simp]: "tx_fail e v n s \<noteq> (Inr y, n', s')"
  by (simp add: tx_fail_def)

lemma tx_fail_Inl [simp]: "tx_fail e v n s = (Inl e', n', s') \<longleftrightarrow> e' = e \<and> n' = n \<and> s' = s"
  by (auto simp: tx_fail_def)

lemma tx_bind_Inr [simp]:
  "tx_bind m f v n s = (Inr y, n', s') \<longleftrightarrow>
     (\<exists>x n1 s1. m v n s = (Inr x, n1, s1) \<and> f x v n1 s1 = (Inr y, n', s'))"
  by (auto simp: tx_bind_def split: prod.splits sum.splits)

lemma tx_bind_Inl:
  "tx_bind m f v n s = (Inl e, n', s') \<longleftrightarrow>
     m v n s = (Inl e, n', s') \<or> (\<exists>x n1 s1. m v n s = (Inr x, n1, s1) \<and> f x v n1 s1 = (Inl e, n', s'))"
  by (auto simp: tx_bind_def split: prod.splits sum.splits)

lemma tx_guard_Inr [simp]:
  "tx_guard b e m v n s = (Inr y, n', s') \<longleftrightarrow> \<not> b \<and> m v n s = (Inr y, n', s')"
  by (auto simp: tx_guard_def)

lemma tx_guard_Inl:
  "tx_guard b e m v n s = (Inl e', n', s') \<longleftrightarrow>
     b \<and> e' = e \<and> n' = n \<and> s' = s \<or> \<not> b \<and> m v n s = (Inl e', n', s')"
  by (auto simp: tx_guard_def)

lemma tx_guard_simps [simp]: "tx_guard False e m = m" "tx_guard True e m = tx_fail e"
  by (simp_all add: tx_guard_def)

lemma tx_lift_Inr [simp]: "tx_lift r v n s = (Inr y, n', s') \<longleftrightarrow> r = Inr y \<and> n' = n \<and> s' = s"
  by (auto simp: tx_lift_def)

lemma tx_lift_Inl [simp]: "tx_lift r v n s = (Inl e, n', s') \<longleftrightarrow> r = Inl e \<and> n' = n \<and> s' = s"
  by (auto simp: tx_lift_def)

lemma tx_try_eq [simp]: "tx_try m v n s = (q, n', s') \<longleftrightarrow> (\<exists>r. q = Inr r \<and> m v n s = (r, n', s'))"
  by (auto simp: tx_try_def split: prod.splits)

lemma tx_map_err_Inr [simp]: "tx_map_err g m v n s = (Inr x, n', s') \<longleftrightarrow> m v n s = (Inr x, n', s')"
  by (auto simp: tx_map_err_def split: prod.splits sum.splits)

lemma tx_env_Inr [simp]: "tx_env f v n s = (Inr y, n', s') \<longleftrightarrow> y = f v \<and> n' = n \<and> s' = s"
  by (auto simp: tx_env_def)

lemma tx_env_Inl [simp]: "tx_env f v n s \<noteq> (Inl e, n', s')"
  by (simp add: tx_env_def)

lemma tx_read_Inr [simp]:
  "tx_read f v n s = (Inr x, n', s') \<longleftrightarrow> we_ctx v n = None \<and> f (we_clock v n) s = Inr x \<and> n' = Suc n \<and> s' = s"
  by (auto simp: tx_read_def split: option.splits)

lemma tx_read_state: "tx_read f v n s = (r, n', s') \<Longrightarrow> s' = s \<and> n' = Suc n"
  by (auto simp: tx_read_def split: option.splits)

lemma tx_write_Inr [simp]:
  "tx_write f v n s = (Inr x, n', s') \<longleftrightarrow> we_ctx v n = None \<and> f (we_clock v n) s = Inr (x, s') \<and> n' = Suc n"
  by (auto simp: tx_write_def split: option.splits sum.splits)

lemma run_tx_cases:
  "run_tx m v s = (r, s') \<Longrightarrow>
     s' = s \<or> (\<exists>x n. m v 1 s = (Inr (Commit x), n, s')
                 \<and> (r = Inr x \<or> (\<exists>e. r = Inl (classifyCommitError e)) \<and> we_applied v))"
  by (auto simp: run_tx_def commitAuthority_def split: option.splits sum.splits decision.splits prod.splits if_splits)

lemma run_tx_Inr:
  "run_tx m v s = (Inr x, s') \<longleftrightarrow>
     we_ctx v 0 = None
     \<and> ((\<exists>n s1. m v 1 s = (Inr (Rollback x), n, s1)) \<and> s' = s
        \<or> (\<exists>n. m v 1 s = (Inr (Commit x), n, s') \<and> we_ctx v n = None))"
  by (auto simp: run_tx_def commitAuthority_def split: option.splits sum.splits decision.splits prod.splits)

lemma run_tx_commit:
  "we_ctx v 0 = None \<Longrightarrow> m v 1 s = (Inr (Commit x), n, s') \<Longrightarrow> we_ctx v n = None \<Longrightarrow> run_tx m v s = (Inr x, s')"
  by (auto simp: run_tx_Inr)

section \<open>Programs that only read\<close>

definition read_only :: "('s, 'a) tx \<Rightarrow> bool" where
  "read_only m \<longleftrightarrow> (\<forall>v n s. snd (snd (m v n s)) = s)"

lemma read_onlyD: "read_only m \<Longrightarrow> m v n s = (r, n', s') \<Longrightarrow> s' = s"
  unfolding read_only_def by (metis snd_conv)

lemma read_only_intros [intro!]:
  "read_only (tx_return x)" "read_only (tx_fail e)" "read_only (tx_lift r)" "read_only (tx_env g)"
  "read_only (tx_read f)"
  by (auto simp: read_only_def tx_return_def tx_fail_def tx_lift_def tx_env_def tx_read_def split: option.splits)

lemma read_only_bind [intro!]: "read_only m \<Longrightarrow> (\<And>x. read_only (f x)) \<Longrightarrow> read_only (tx_bind m f)"
  by (auto simp: read_only_def tx_bind_def split: prod.splits sum.splits) (metis snd_conv)+

lemma read_only_guard [intro!]: "(\<not> b \<Longrightarrow> read_only m) \<Longrightarrow> read_only (tx_guard b e m)"
  by (cases b) auto

lemma read_only_try [intro!]: "read_only m \<Longrightarrow> read_only (tx_try m)"
  by (auto simp: read_only_def tx_try_def split: prod.splits) (metis snd_conv)

lemma read_only_map_err [intro!]: "read_only m \<Longrightarrow> read_only (tx_map_err g m)"
  by (auto simp: read_only_def tx_map_err_def split: prod.splits sum.splits) (metis snd_conv)+

section \<open>Guarantees\<close>

text \<open>
  A guarantee is a reflexive and transitive relation between the databases before and after. A
  program keeps it when it holds between its start and every end without an error; what an error
  leaves behind is rolled back.
\<close>

definition tx_keeps :: "('s \<Rightarrow> 's \<Rightarrow> bool) \<Rightarrow> ('s, 'a) tx \<Rightarrow> bool" where
  "tx_keeps R m \<longleftrightarrow> (\<forall>v n s x n' s'. m v n s = (Inr x, n', s') \<longrightarrow> R s s')"

lemma tx_keepsI: "(\<And>v n s x n' s'. m v n s = (Inr x, n', s') \<Longrightarrow> R s s') \<Longrightarrow> tx_keeps R m"
  by (simp add: tx_keeps_def)

lemma tx_keepsD: "tx_keeps R m \<Longrightarrow> m v n s = (Inr x, n', s') \<Longrightarrow> R s s'"
  by (simp add: tx_keeps_def)

text \<open>The same for a call whose error the caller handles, so that it has to hold at errors too.\<close>

definition always :: "('s \<Rightarrow> 's \<Rightarrow> bool) \<Rightarrow> ('s, 'a) tx \<Rightarrow> bool" where
  "always R m \<longleftrightarrow> (\<forall>v n s r n' s'. m v n s = (r, n', s') \<longrightarrow> R s s')"

lemma alwaysI: "(\<And>v n s r n' s'. m v n s = (r, n', s') \<Longrightarrow> R s s') \<Longrightarrow> always R m"
  by (simp add: always_def)

lemma alwaysD: "always R m \<Longrightarrow> m v n s = (r, n', s') \<Longrightarrow> R s s'"
  by (simp add: always_def)

locale guarantee =
  fixes R :: "'s \<Rightarrow> 's \<Rightarrow> bool"
  assumes refl: "R s s"
    and trans: "R s s' \<Longrightarrow> R s' s'' \<Longrightarrow> R s s''"
begin

lemma keeps_read_only: "read_only m \<Longrightarrow> tx_keeps R m"
  by (auto intro!: tx_keepsI dest: read_onlyD simp: refl)

lemma keeps_bind: "tx_keeps R m \<Longrightarrow> (\<And>x. tx_keeps R (f x)) \<Longrightarrow> tx_keeps R (tx_bind m f)"
  by (rule tx_keepsI) (auto dest!: tx_keepsD intro: trans)

lemma keeps_guard: "tx_keeps R m \<Longrightarrow> tx_keeps R (tx_guard b e m)"
  by (auto intro!: tx_keepsI dest: tx_keepsD)

lemma keeps_map_err: "tx_keeps R m \<Longrightarrow> tx_keeps R (tx_map_err g m)"
  by (auto intro!: tx_keepsI dest: tx_keepsD)

lemma keeps_write: "(\<And>now s x s'. f now s = Inr (x, s') \<Longrightarrow> R s s') \<Longrightarrow> tx_keeps R (tx_write f)"
  by (auto intro!: tx_keepsI)

lemma keeps_try: "always R m \<Longrightarrow> tx_keeps R (tx_try m)"
  by (auto intro!: tx_keepsI dest: alwaysD)

lemma always_read_only: "read_only m \<Longrightarrow> always R m"
  by (auto intro!: alwaysI dest: read_onlyD simp: refl)

lemma always_bind: "always R m \<Longrightarrow> (\<And>x. always R (f x)) \<Longrightarrow> always R (tx_bind m f)"
proof (rule alwaysI)
  fix v n s r n' s'
  assume m: "always R m" and f: "\<And>x. always R (f x)" and b: "tx_bind m f v n s = (r, n', s')"
  obtain q n1 s1 where q: "m v n s = (q, n1, s1)" by (metis prod_cases3)
  with alwaysD [OF m] have 1: "R s s1" by blast
  show "R s s'"
  proof (cases q)
    case (Inr x)
    with b q alwaysD [OF f] have "R s1 s'" by (simp add: tx_bind_def)
    with 1 trans show ?thesis by blast
  qed (use b q 1 in \<open>auto simp: tx_bind_def\<close>)
qed

lemma always_guard: "always R m \<Longrightarrow> always R (tx_guard b e m)"
  by (cases b) (auto intro: always_read_only)

lemma always_map_err: "always R m \<Longrightarrow> always R (tx_map_err g m)"
  by (auto intro!: alwaysI dest: alwaysD simp: tx_map_err_def split: prod.splits)

lemma always_write: "(\<And>now s x s'. f now s = Inr (x, s') \<Longrightarrow> R s s') \<Longrightarrow> always R (tx_write f)"
  by (auto intro!: alwaysI simp: tx_write_def refl split: option.splits sum.splits)

lemma always_case_prod: "(\<And>x y. always R (f x y)) \<Longrightarrow> always R (case q of (x, y) \<Rightarrow> f x y)"
  by (cases q) auto

lemmas always_intros = read_only_intros [THEN always_read_only] always_bind always_guard always_map_err always_case_prod

lemma keeps_run: "tx_keeps R m \<Longrightarrow> run_tx m v s = (r, s') \<Longrightarrow> R s s'"
  by (drule run_tx_cases) (auto simp: refl dest: tx_keepsD)

text \<open>A guarantee that only holds after the body's own checks.\<close>

lemma checked_run:
  "(\<And>x n s'. m v 1 s = (Inr (Commit x), n, s') \<Longrightarrow> R s s') \<Longrightarrow> run_tx m v s = (r, s') \<Longrightarrow> R s s'"
  by (drule run_tx_cases) (auto simp: refl)

lemma keeps_case_sum: "(\<And>e. tx_keeps R (f e)) \<Longrightarrow> (\<And>x. tx_keeps R (g x)) \<Longrightarrow> tx_keeps R (case q of Inl e \<Rightarrow> f e | Inr x \<Rightarrow> g x)"
  by (cases q) auto

lemma keeps_case_prod: "(\<And>x y. tx_keeps R (f x y)) \<Longrightarrow> tx_keeps R (case q of (x, y) \<Rightarrow> f x y)"
  by (cases q) auto

lemma keeps_case_option: "tx_keeps R m \<Longrightarrow> (\<And>x. tx_keeps R (f x)) \<Longrightarrow> tx_keeps R (case q of None \<Rightarrow> m | Some x \<Rightarrow> f x)"
  by (cases q) auto

lemma keeps_if: "tx_keeps R m \<Longrightarrow> tx_keeps R m' \<Longrightarrow> tx_keeps R (if b then m else m')"
  by auto

lemmas keeps_reads = read_only_intros [THEN keeps_read_only]

lemmas keeps_intros = keeps_reads keeps_bind keeps_guard keeps_map_err keeps_case_sum keeps_case_prod
  keeps_case_option keeps_if

end

end
