(* ===== verification/WorkerInbox.thy ===== *)
theory WorkerInbox
  imports WorkerQueue Transactions Execution Journal Outbox
begin

text \<open>
  The durable worker inbox (\<open>store/postgres/worker_store.go\<close>, \<open>worker_relay.go\<close>, and \<open>appendAudit\<close> of
  \<open>mutation.go\<close>): leases on run intents, admission receipts, and the local transfer of
  \<open>run.started\<close> messages into the inbox. Nullable columns are options. A JSON column holds the value
  it was written from, which is what decoding it gives back; \<open>None\<close> is a text that does not decode.
  Columns that are only written (\<open>updated_at\<close>, \<open>last_seen_at\<close>) are left out.
\<close>

section \<open>Tables\<close>

record inbox_row =
  inb_id :: int
  inb_outbox_key :: string
  inb_run_id :: string
  inb_intent_digest :: string
  inb_intent :: "Intent option"
  inb_profile :: string
  inb_state :: string
  inb_owner :: "string option"
  inb_generation :: uint64
  inb_epoch :: "uint64 option"
  inb_started :: "gotime option"
  inb_until :: "gotime option"
  inb_receipt :: "AdmissionReceipt option option"

record manifest_row =
  man_digest :: string
  man_run_id :: string
  man_task_digest :: string
  man_profile :: string
  man_json :: "RunInputManifest result"

record worker_db =
  wdb_outbox :: outbox_db
  wdb_runs :: "string \<rightharpoonup> Run"
  wdb_sessions :: "string \<rightharpoonup> Session"
  wdb_manifests :: "manifest_row list"
  wdb_tasks :: "string \<rightharpoonup> TaskContract option"
  wdb_inbox :: "inbox_row list"
  wdb_workers :: "string \<rightharpoonup> string"
  wdb_events :: "Event list"
  wdb_last_sequence :: uint64
  wdb_last_digest :: string

section \<open>The audit journal\<close>

definition auditInput :: "string \<Rightarrow> string \<Rightarrow> string \<Rightarrow> json \<Rightarrow> Input" where
  "auditInput eventType aggregateType aggregateID payload =
     \<lparr>in_Type = eventType, in_AggregateType = aggregateType, in_AggregateID = aggregateID,
      in_PayloadDigest = Digest payload, in_CorrelationID = [], in_CausationID = []\<rparr>"

definition wrap_error :: "string \<Rightarrow> 'a result \<Rightarrow> 'a result" where
  "wrap_error text r = (case r of Inl e \<Rightarrow> Inl (ErrWrap (ErrText text) e) | Inr x \<Rightarrow> Inr x)"

definition tx_wrap :: "string \<Rightarrow> ('s, 'a) tx \<Rightarrow> ('s, 'a) tx" where
  "tx_wrap text m v n s = (case m v n s of (r, n', s') \<Rightarrow> (wrap_error text r, n', s'))"

definition appendAudit :: "Input \<Rightarrow> gotime \<Rightarrow> ('z worker_db_scheme, Event) tx" where
  "appendAudit inp now =
     tx_bind (tx_wrap ''lock audit journal head''
                (tx_read (\<lambda>_ s. Inr (wdb_last_sequence s, wdb_last_digest s)))) (\<lambda>(lastSequence, lastDigest).
     tx_bind (tx_lift (wrap_error ''build audit event'' (Build (lastSequence + 1) lastDigest inp now))) (\<lambda>event.
     tx_bind (tx_wrap ''insert audit event''
                (tx_write (\<lambda>_ s. if list_ex (\<lambda>e. jev_Sequence e = jev_Sequence event) (wdb_events s)
                                then Inl (ErrText ''duplicate key'')
                                else Inr ((), s\<lparr>wdb_events := wdb_events s @ [event]\<rparr>)))) (\<lambda>_.
     tx_bind (tx_wrap ''advance audit journal head''
                (tx_write (\<lambda>_ s. Inr ((), s\<lparr>wdb_last_sequence := jev_Sequence event,
                                            wdb_last_digest := jev_Digest event\<rparr>)))) (\<lambda>_.
     tx_return event))))"

definition workerAudit :: "string \<Rightarrow> string \<Rightarrow> json \<Rightarrow> ('z worker_db_scheme, Event) tx" where
  "workerAudit event runID payload =
     tx_bind (tx_env we_now) (\<lambda>now. appendAudit (auditInput event ''Run'' runID payload) now)"

section \<open>Reading the inbox\<close>

record inboxRecord =
  irec_id :: int
  irec_runID :: string
  irec_state :: string
  irec_owner :: string
  irec_digest :: string
  irec_profile :: string
  irec_generation :: uint64
  irec_epoch :: uint64
  irec_intent :: Intent
  irec_receipt :: "AdmissionReceipt option"

definition COALESCE0 :: "uint64 option \<Rightarrow> uint64" where
  "COALESCE0 e = (case e of None \<Rightarrow> 0 | Some x \<Rightarrow> x)"

definition inbox_record :: "inbox_row \<Rightarrow> Intent \<Rightarrow> inboxRecord" where
  "inbox_record row intent =
     \<lparr>irec_id = inb_id row, irec_runID = inb_run_id row, irec_state = inb_state row,
      irec_owner = COALESCE (inb_owner row), irec_digest = inb_intent_digest row,
      irec_profile = inb_profile row, irec_generation = inb_generation row,
      irec_epoch = COALESCE0 (inb_epoch row), irec_intent = intent, irec_receipt = None\<rparr>"

definition scanInbox :: "inbox_row option \<Rightarrow> inboxRecord result" where
  "scanInbox found =
     (case found of
        None \<Rightarrow> Inl ErrNoRows
      | Some row \<Rightarrow>
          (case inb_intent row of
             None \<Rightarrow> Inl ErrIdentity
           | Some intent \<Rightarrow>
               (case Intent_Digest intent of
                  Inl _ \<Rightarrow> Inl ErrIdentity
                | Inr digest \<Rightarrow>
                    unless (digest \<noteq> inb_intent_digest row \<or> int_RunID intent \<noteq> inb_run_id row) ErrIdentity
                      (case inb_receipt row of
                         None \<Rightarrow> Inr (inbox_record row intent)
                       | Some None \<Rightarrow> Inl (ErrText ''invalid receipt JSON'')
                       | Some (Some receipt) \<Rightarrow> Inr ((inbox_record row intent)\<lparr>irec_receipt := Some receipt\<rparr>)))))"

definition inbox_token :: "inboxRecord \<Rightarrow> Token" where
  "inbox_token r = \<lparr>tok_Profile = irec_profile r, tok_InboxID = irec_id r, tok_Generation = irec_generation r,
     tok_RecoveryEpoch = irec_epoch r\<rparr>"

definition lockWorkerPlatform :: "('z worker_db_scheme, uint64 \<times> string) tx" where
  "lockWorkerPlatform =
     tx_bind (tx_read (\<lambda>_ s. Inr (db_recovery_epoch (wdb_outbox s), db_recovery_mode (wdb_outbox s)))) (\<lambda>(epoch, mode).
       tx_guard (mode \<noteq> ''NORMAL'' \<and> mode \<noteq> ''RECOVERY_RECONCILIATION'') ErrRecovery (tx_return (epoch, mode)))"

definition select_row :: "('k \<rightharpoonup> 'v) \<Rightarrow> 'k \<Rightarrow> 'v result" where
  "select_row m k = lookup_or ErrNoRows m k"

definition select_where :: "('r \<Rightarrow> bool) \<Rightarrow> ('r \<Rightarrow> 'a) \<Rightarrow> 'r list \<Rightarrow> 'a result" where
  "select_where P f rows = (case find P rows of None \<Rightarrow> Inl ErrNoRows | Some r \<Rightarrow> Inr (f r))"

lemma select_where_Inr [simp]: "select_where P f rows = Inr y \<longleftrightarrow> (\<exists>r. find P rows = Some r \<and> y = f r)"
  by (auto simp: select_where_def split: option.splits)

definition run_active :: "Run \<Rightarrow> Session \<Rightarrow> Intent \<Rightarrow> err option" where
  "run_active r sess i =
     (if run_CurrentEpoch r \<noteq> int_ExecutionEpoch i \<or> run_TaskContractDigest r \<noteq> int_TaskDigest i
         \<or> run_RunInputManifestDigest r \<noteq> int_InputDigest i \<or> sess_ExecutionEpoch sess \<noteq> run_CurrentEpoch r
      then Some ErrIdentity
      else if run_ControlOwner r \<noteq> ''RUNTIME'' \<or> sess_Owner sess \<noteq> OwnerRuntime
              \<or> run_State r \<noteq> RunRunning \<and> run_State r \<noteq> RunPaused
      then Some ErrInactive
      else if run_State r = RunPaused \<or> sess_Paused sess then Some ErrPaused else None)"

definition workerRunActive :: "inboxRecord \<Rightarrow> ('z worker_db_scheme, unit) tx" where
  "workerRunActive r =
     tx_bind (tx_read (\<lambda>_ s. select_row (wdb_runs s) (irec_runID r))) (\<lambda>run.
     tx_bind (tx_read (\<lambda>_ s. select_row (wdb_sessions s) (irec_runID r))) (\<lambda>sess.
     tx_lift (unless_err (run_active run sess (irec_intent r)) (Inr ()))))"

definition select_input :: "string \<Rightarrow> string \<Rightarrow> 'z worker_db_scheme \<Rightarrow> (RunInputManifest result \<times> TaskContract option) result" where
  "select_input digest runID s =
     (case find (\<lambda>m. man_digest m = digest \<and> man_run_id m = runID) (wdb_manifests s) of
        None \<Rightarrow> Inl ErrNoRows
      | Some m \<Rightarrow> rbind (select_row (wdb_tasks s) (man_task_digest m)) (\<lambda>task. Inr (man_json m, task)))"

definition worker_assignment :: "inboxRecord \<Rightarrow> RunInputManifest result \<Rightarrow> TaskContract option \<Rightarrow> Assignment result" where
  "worker_assignment r input task =
     (case RunInputManifest_UnmarshalJSON input True of
        Inl _ \<Rightarrow> Inl ErrIdentity
      | Inr i \<Rightarrow>
          (case task of
             None \<Rightarrow> Inl ErrIdentity
           | Some t \<Rightarrow>
               (let a = \<lparr>asg_Token = inbox_token r, asg_LeaseUntil = 0, asg_Intent = irec_intent r,
                         asg_IntentDigest = irec_digest r, asg_Input = i, asg_Task = t\<rparr> in
                unless (input_WorkerProfile i \<noteq> irec_profile r) ErrIdentity
                  (rbind (Validate a) (\<lambda>_. Inr a)))))"

definition loadWorkerAssignment :: "inboxRecord \<Rightarrow> ('z worker_db_scheme, Assignment) tx" where
  "loadWorkerAssignment r =
     tx_bind (tx_read (\<lambda>_ s. select_input (int_InputDigest (irec_intent r)) (irec_runID r) s)) (\<lambda>(input, task).
       tx_lift (worker_assignment r input task))"

section \<open>Claiming\<close>

text \<open>
  The candidate statement skips rows that others have locked and sees the runs and sessions of its
  own snapshot, which may be older than the rows locked afterwards.
\<close>

type_synonym snapshot = "(string \<rightharpoonup> Run) \<times> (string \<rightharpoonup> Session)"

definition held_lease :: "gotime \<Rightarrow> string \<Rightarrow> inbox_row \<Rightarrow> bool" where
  "held_lease now subject i \<longleftrightarrow>
     inb_state i = ''LEASED'' \<and> inb_owner i = Some subject \<and> (case inb_until i of None \<Rightarrow> False | Some t \<Rightarrow> t > now)"

definition waiting :: "gotime \<Rightarrow> inbox_row \<Rightarrow> bool" where
  "waiting now i \<longleftrightarrow>
     inb_state i = ''PENDING''
     \<or> inb_state i = ''LEASED'' \<and> (case inb_until i of None \<Rightarrow> False | Some t \<Rightarrow> t \<le> now)"

definition seen_paused :: "snapshot \<Rightarrow> inbox_row \<Rightarrow> bool" where
  "seen_paused seen i =
     (case (fst seen (inb_run_id i), snd seen (inb_run_id i), inb_intent i) of
        (Some r, Some sess, Some intent) \<Rightarrow>
          run_CurrentEpoch r = int_ExecutionEpoch intent \<and> run_ControlOwner r = ''RUNTIME''
          \<and> (run_State r = RunPaused \<or> run_State r = RunRunning \<and> sess_Paused sess)
      | _ \<Rightarrow> False)"

definition claim_candidate :: "gotime \<Rightarrow> snapshot \<Rightarrow> (int \<Rightarrow> bool) \<Rightarrow> string \<Rightarrow> inbox_row list \<Rightarrow> inbox_row option" where
  "claim_candidate now seen locked profile rows =
     (case sort_key inb_id (filter (\<lambda>i. inb_profile i = profile \<and> waiting now i \<and> \<not> seen_paused seen i
                                       \<and> \<not> locked (inb_id i)) rows) of
        [] \<Rightarrow> None
      | i # _ \<Rightarrow> Some i)"

definition update_inbox :: "(inbox_row \<Rightarrow> bool) \<Rightarrow> (inbox_row \<Rightarrow> inbox_row) \<Rightarrow> 'z worker_db_scheme \<Rightarrow> 'z worker_db_scheme" where
  "update_inbox P f s = s\<lparr>wdb_inbox := map (\<lambda>i. if P i then f i else i) (wdb_inbox s)\<rparr>"

text \<open>An update that returns a column of the row it wrote, and one that counts the rows.\<close>

definition update_returning ::
  "(inbox_row \<Rightarrow> bool) \<Rightarrow> (inbox_row \<Rightarrow> inbox_row) \<Rightarrow> (inbox_row \<Rightarrow> 'a) \<Rightarrow> 'z worker_db_scheme \<Rightarrow> ('a \<times> 'z worker_db_scheme) result" where
  "update_returning P f g s =
     (case find P (wdb_inbox s) of None \<Rightarrow> Inl ErrNoRows | Some i \<Rightarrow> Inr (g (f i), update_inbox P f s))"

definition lease_row :: "gotime \<Rightarrow> string \<Rightarrow> uint64 \<Rightarrow> uint64 \<Rightarrow> inbox_row \<Rightarrow> inbox_row" where
  "lease_row now subject generation epoch i =
     i\<lparr>inb_state := ''LEASED'', inb_owner := Some subject, inb_generation := generation, inb_epoch := Some epoch,
       inb_started := Some now, inb_until := Some (now + 30 * second)\<rparr>"

definition revoke_row :: "inbox_row \<Rightarrow> inbox_row" where
  "revoke_row i = i\<lparr>inb_state := ''REVOKED'', inb_owner := None, inb_until := None\<rparr>"

definition worker_token_json :: "string \<Rightarrow> Token \<Rightarrow> json" where
  "worker_token_json subject t = JObj (str_field ''worker_subject'' subject @ [(''token'', Token_json t)])"

definition revoke_intent :: "inboxRecord \<Rightarrow> ('z worker_db_scheme, (Assignment option \<times> bool) decision) tx" where
  "revoke_intent r =
     tx_bind (tx_write (\<lambda>_ s. Inr ((), update_inbox (\<lambda>i. inb_id i = irec_id r) revoke_row s))) (\<lambda>_.
     tx_bind (workerAudit ''worker.input.revoked'' (irec_runID r) (Intent_json (irec_intent r))) (\<lambda>_.
     tx_return (Commit (None, True))))"

definition lease_intent :: "string \<Rightarrow> uint64 \<Rightarrow> inboxRecord \<Rightarrow> ('z worker_db_scheme, (Assignment option \<times> bool) decision) tx" where
  "lease_intent subject epoch r0 =
     (let r = r0\<lparr>irec_generation := irec_generation r0 + 1, irec_epoch := epoch, irec_owner := subject\<rparr> in
      tx_bind (loadWorkerAssignment r) (\<lambda>a.
      tx_bind (tx_write (\<lambda>now s.
                 if unat (irec_generation r) \<ge> 2 ^ 63 then Inl (ErrText ''bigint out of range'')
                 else update_returning (\<lambda>i. inb_id i = irec_id r) (lease_row now subject (irec_generation r) epoch)
                        (\<lambda>i. case inb_until i of None \<Rightarrow> 0 | Some t \<Rightarrow> t) s)) (\<lambda>until.
      tx_bind (workerAudit ''worker.input.claimed'' (irec_runID r) (worker_token_json subject (asg_Token a))) (\<lambda>_.
      tx_return (Commit (Some (a\<lparr>asg_LeaseUntil := until\<rparr>), False))))))"

definition claim_body ::
  "snapshot \<Rightarrow> (int \<Rightarrow> bool) \<Rightarrow> string \<Rightarrow> string \<Rightarrow> ('z worker_db_scheme, (Assignment option \<times> bool) decision) tx" where
  "claim_body seen locked subject profile =
     tx_bind lockWorkerPlatform (\<lambda>(epoch, mode).
     tx_guard (mode \<noteq> ''NORMAL'') ErrRecovery
     (tx_bind (tx_write (\<lambda>_ s. Inr ((), s\<lparr>wdb_workers := (wdb_workers s)(subject \<mapsto> profile)\<rparr>))) (\<lambda>_.
     tx_bind (tx_read (\<lambda>now s. Inr (list_ex (held_lease now subject) (wdb_inbox s)))) (\<lambda>busy.
     if busy then tx_return (Commit (None, False))
     else
       tx_bind (tx_try (tx_read (\<lambda>now s. scanInbox (claim_candidate now seen locked profile (wdb_inbox s))))) (\<lambda>candidate.
         case candidate of
           Inl e \<Rightarrow> if errors_Is e ErrNoRows then tx_return (Commit (None, False)) else tx_fail e
         | Inr r \<Rightarrow>
             tx_bind (tx_try (workerRunActive r)) (\<lambda>active.
               case active of
                 Inl e \<Rightarrow>
                   if errors_Is e ErrPaused then tx_return (Rollback (None, False))
                   else tx_guard (\<not> errors_Is e ErrIdentity \<and> \<not> errors_Is e ErrInactive) e (revoke_intent r)
               | Inr _ \<Rightarrow> lease_intent subject epoch r))))))"

definition claimInput ::
  "wenv \<Rightarrow> snapshot \<Rightarrow> (int \<Rightarrow> bool) \<Rightarrow> string \<Rightarrow> string \<Rightarrow> 'z worker_db_scheme \<Rightarrow> (Assignment option \<times> bool) result \<times> 'z worker_db_scheme" where
  "claimInput v seen locked subject profile s = run_tx (claim_body seen locked subject profile) v s"

text \<open>\<open>ClaimInput\<close> runs at most sixteen such transactions, each in an environment of its own.\<close>

fun claim_loop ::
  "(wenv \<times> snapshot \<times> (int \<Rightarrow> bool)) list \<Rightarrow> string \<Rightarrow> string \<Rightarrow> 'z worker_db_scheme \<Rightarrow> Assignment option result \<times> 'z worker_db_scheme" where
  "claim_loop [] subject profile s = (Inr None, s)"
| "claim_loop ((v, seen, locked) # rest) subject profile s =
     (case claimInput v seen locked subject profile s of (r, s') \<Rightarrow>
        (case r of
           Inl e \<Rightarrow> (Inl e, s')
         | Inr (a, revoked) \<Rightarrow> if \<not> revoked then (Inr a, s') else claim_loop rest subject profile s'))"

definition ClaimInput ::
  "(nat \<Rightarrow> wenv \<times> snapshot \<times> (int \<Rightarrow> bool)) \<Rightarrow> string \<Rightarrow> string \<Rightarrow> 'z worker_db_scheme \<Rightarrow> Assignment option result \<times> 'z worker_db_scheme" where
  "ClaimInput vs subject profile s =
     (if subject = [] \<or> length subject > 256 \<or> \<not> ValidProfile profile then (Inl ErrIdentity, s)
      else claim_loop (map vs [0..<16]) subject profile s)"

section \<open>Live leases\<close>

definition lockWorkerLease :: "string \<Rightarrow> Token \<Rightarrow> ('z worker_db_scheme, inboxRecord \<times> uint64 \<times> string) tx" where
  "lockWorkerLease subject token =
     tx_guard (\<not> Token_Valid token \<or> subject = []) ErrLease
     (tx_bind lockWorkerPlatform (\<lambda>(epoch, mode).
      tx_bind (tx_map_err (no_rows ErrLease)
                 (tx_read (\<lambda>_ s. scanInbox (find (\<lambda>i. inb_id i = tok_InboxID token) (wdb_inbox s))))) (\<lambda>r.
      tx_guard (irec_owner r \<noteq> subject \<or> inbox_token r \<noteq> token) ErrLease (tx_return (r, epoch, mode)))))"

definition liveWorkerLease :: "inboxRecord \<Rightarrow> uint64 \<Rightarrow> string \<Rightarrow> ('z worker_db_scheme, unit) tx" where
  "liveWorkerLease r epoch mode =
     tx_guard (mode \<noteq> ''NORMAL'' \<or> irec_epoch r \<noteq> epoch) ErrRecovery
     (tx_guard (irec_state r \<noteq> ''LEASED'') ErrLease
     (tx_bind (workerRunActive r) (\<lambda>_.
      tx_bind (tx_read (\<lambda>now s.
                 case find (\<lambda>i. inb_id i = irec_id r) (wdb_inbox s) of
                   None \<Rightarrow> Inl ErrNoRows
                 | Some i \<Rightarrow> (case inb_until i of None \<Rightarrow> Inl (ErrText ''cannot scan NULL into *bool'') | Some t \<Rightarrow> Inr (t > now)))) (\<lambda>live.
      tx_guard (\<not> live) ErrLease (tx_return ())))))"

definition renewable :: "gotime \<Rightarrow> int \<Rightarrow> inbox_row \<Rightarrow> bool" where
  "renewable now inbox i \<longleftrightarrow>
     inb_id i = inbox \<and> (case inb_until i of None \<Rightarrow> False | Some t \<Rightarrow> t > now)
     \<and> (case inb_started i of None \<Rightarrow> False | Some t \<Rightarrow> t + 120 * second > now)"

definition renew_row :: "gotime \<Rightarrow> inbox_row \<Rightarrow> inbox_row" where
  "renew_row now i =
     i\<lparr>inb_until := Some (case inb_started i of None \<Rightarrow> now + 30 * second | Some t \<Rightarrow> min (now + 30 * second) (t + 120 * second))\<rparr>"

definition renew_body :: "string \<Rightarrow> Token \<Rightarrow> ('z worker_db_scheme, gotime decision) tx" where
  "renew_body subject token =
     tx_bind (lockWorkerLease subject token) (\<lambda>(r, epoch, mode).
     tx_bind (liveWorkerLease r epoch mode) (\<lambda>_.
     tx_bind (workerAudit ''worker.input.renewed'' (irec_runID r) (worker_token_json subject token)) (\<lambda>_.
     tx_bind (tx_map_err (no_rows ErrLease)
                (tx_write (\<lambda>now s. update_returning (renewable now (irec_id r)) (renew_row now)
                                     (\<lambda>i. case inb_until i of None \<Rightarrow> 0 | Some t \<Rightarrow> t) s))) (\<lambda>until.
     tx_return (Commit until)))))"

definition RenewInput :: "wenv \<Rightarrow> string \<Rightarrow> Token \<Rightarrow> 'z worker_db_scheme \<Rightarrow> gotime result \<times> 'z worker_db_scheme" where
  "RenewInput v subject token s = run_tx (renew_body subject token) v s"

section \<open>Reporting\<close>

definition validated_row :: "AdmissionReceipt \<Rightarrow> inbox_row \<Rightarrow> inbox_row" where
  "validated_row receipt i = i\<lparr>inb_state := Validated, inb_receipt := Some (Some receipt), inb_until := None\<rparr>"

definition unexpired :: "gotime \<Rightarrow> int \<Rightarrow> inbox_row \<Rightarrow> bool" where
  "unexpired now inbox i \<longleftrightarrow> inb_id i = inbox \<and> (case inb_until i of None \<Rightarrow> False | Some t \<Rightarrow> t > now)"

definition new_receipt :: "Token \<Rightarrow> string \<Rightarrow> Validation \<Rightarrow> gotime \<Rightarrow> AdmissionReceipt" where
  "new_receipt token subject validation now =
     \<lparr>rct_Token = token, rct_Worker = subject, rct_Kind = Validated, rct_Validation = validation, rct_ReceivedAt = now\<rparr>"

definition record_receipt :: "string \<Rightarrow> inboxRecord \<Rightarrow> Report \<Rightarrow> ('z worker_db_scheme, AdmissionReceipt decision) tx" where
  "record_receipt subject r report =
     tx_bind (loadWorkerAssignment r) (\<lambda>a.
     tx_guard (NewReport a \<noteq> Inr report) ErrIdentity
     (tx_bind (tx_lift (Validate a)) (\<lambda>validation.
     tx_bind (tx_read (\<lambda>now _. Inr now)) (\<lambda>received.
       (let receipt = new_receipt (rep_Token report) subject validation received in
        tx_bind (tx_env we_rfc3339) (\<lambda>rfc3339.
        tx_bind (workerAudit ''worker.input.validated'' (irec_runID r) (AdmissionReceipt_json rfc3339 receipt)) (\<lambda>_.
        tx_bind (tx_write (\<lambda>now s.
                   unless (length (filter (unexpired now (irec_id r)) (wdb_inbox s)) \<noteq> 1) ErrLease
                     (Inr ((), update_inbox (unexpired now (irec_id r)) (validated_row receipt) s)))) (\<lambda>_.
        tx_return (Commit receipt)))))))))"

definition report_body :: "string \<Rightarrow> Report \<Rightarrow> ('z worker_db_scheme, AdmissionReceipt decision) tx" where
  "report_body subject report =
     tx_bind (lockWorkerLease subject (rep_Token report)) (\<lambda>(r, epoch, mode).
       case (if irec_state r = Validated then irec_receipt r else None) of
         Some receipt \<Rightarrow>
           tx_guard (Digest (Validation_json (rct_Validation receipt)) \<noteq> rep_ValidationDigest report
                     \<or> rct_Token receipt \<noteq> rep_Token report \<or> rct_Worker receipt \<noteq> subject) ErrIdentity
             (tx_return (Rollback receipt))
       | None \<Rightarrow> tx_bind (liveWorkerLease r epoch mode) (\<lambda>_. record_receipt subject r report))"

definition ReportInput :: "wenv \<Rightarrow> string \<Rightarrow> Report \<Rightarrow> 'z worker_db_scheme \<Rightarrow> AdmissionReceipt result \<times> 'z worker_db_scheme" where
  "ReportInput v subject report s = run_tx (report_body subject report) v s"

definition GetInbox :: "wenv \<Rightarrow> string \<Rightarrow> 'z worker_db_scheme \<Rightarrow> Status result" where
  "GetInbox v runID s =
     (case run_query (tx_read (\<lambda>_ s. scanInbox (find (\<lambda>i. inb_run_id i = runID) (wdb_inbox s)))) v s of
        Inl e \<Rightarrow> Inl (no_rows ErrNotFound e)
      | Inr r \<Rightarrow> Inr \<lparr>sts_InboxID = irec_id r, sts_RunID = irec_runID r, sts_State = irec_state r,
                      sts_Generation = irec_generation r, sts_Receipt = irec_receipt r\<rparr>)"

end
