(* ===== verification/WorkerLeases.thy ===== *)
theory WorkerLeases
  imports WorkerInbox
begin

text \<open>
  What the inbox transactions do to the database: one effect lemma per operation, the guarantees
  they keep on the inbox and on the audit journal, and the properties of leases and receipts.
\<close>

section \<open>Effects\<close>

definition log_event :: "Event \<Rightarrow> 'z worker_db_scheme \<Rightarrow> 'z worker_db_scheme" where
  "log_event ev s = s\<lparr>wdb_events := wdb_events s @ [ev], wdb_last_sequence := jev_Sequence ev, wdb_last_digest := jev_Digest ev\<rparr>"

lemma log_event_frame [simp]:
  "wdb_outbox (log_event ev s) = wdb_outbox s" "wdb_runs (log_event ev s) = wdb_runs s"
  "wdb_sessions (log_event ev s) = wdb_sessions s" "wdb_manifests (log_event ev s) = wdb_manifests s"
  "wdb_tasks (log_event ev s) = wdb_tasks s" "wdb_inbox (log_event ev s) = wdb_inbox s"
  "wdb_workers (log_event ev s) = wdb_workers s" "wdb_events (log_event ev s) = wdb_events s @ [ev]"
  by (simp_all add: log_event_def)

lemma update_inbox_frame [simp]:
  "wdb_outbox (update_inbox P f s) = wdb_outbox s" "wdb_runs (update_inbox P f s) = wdb_runs s"
  "wdb_sessions (update_inbox P f s) = wdb_sessions s" "wdb_manifests (update_inbox P f s) = wdb_manifests s"
  "wdb_tasks (update_inbox P f s) = wdb_tasks s" "wdb_workers (update_inbox P f s) = wdb_workers s"
  "wdb_events (update_inbox P f s) = wdb_events s"
  "wdb_inbox (update_inbox P f s) = map (\<lambda>i. if P i then f i else i) (wdb_inbox s)"
  by (simp_all add: update_inbox_def)

lemma wrap_error_Inr [simp]: "wrap_error t r = Inr x \<longleftrightarrow> r = Inr x"
  by (cases r) (auto simp: wrap_error_def)

lemma tx_wrap_Inr [simp]: "tx_wrap t m v n s = (Inr x, n', s') \<longleftrightarrow> m v n s = (Inr x, n', s')"
  by (auto simp: tx_wrap_def split: prod.splits)

lemma read_only_wrap [intro!]: "read_only m \<Longrightarrow> read_only (tx_wrap t m)"
  by (auto simp: read_only_def tx_wrap_def split: prod.splits) (metis snd_conv)

lemma read_only_worker [intro!]:
  "read_only lockWorkerPlatform" "read_only (workerRunActive r)" "read_only (loadWorkerAssignment r)"
  "read_only (lockWorkerLease subject token)" "read_only (liveWorkerLease r epoch mode)"
  by (auto simp: lockWorkerPlatform_def workerRunActive_def loadWorkerAssignment_def lockWorkerLease_def
      liveWorkerLease_def split: prod.splits sum.splits)

lemma Build_event:
  "Build sq prev inp now = Inr ev \<Longrightarrow>
   jev_Sequence ev = sq \<and> sq \<noteq> 0 \<and> jev_PreviousDigest ev = prev \<and> jev_Type ev = in_Type inp
   \<and> jev_AggregateID ev = in_AggregateID inp \<and> jev_PayloadDigest ev = in_PayloadDigest inp
   \<and> in_Type inp \<noteq> [] \<and> in_PayloadDigest inp \<noteq> []
   \<and> jev_Digest ev = Digest (eventContent_json (event_content ev))"
  by (auto simp: Build_def Let_def content_of_def event_content_def input_of_def)

lemma appendAudit_effect:
  "appendAudit inp now v n s = (Inr ev, n', s') \<longleftrightarrow>
     Build (wdb_last_sequence s + 1) (wdb_last_digest s) inp now = Inr ev \<and> s' = log_event ev s
     \<and> \<not> list_ex (\<lambda>e. jev_Sequence e = jev_Sequence ev) (wdb_events s)
     \<and> n' = n + 3 \<and> we_ctx v n = None \<and> we_ctx v (n + 1) = None \<and> we_ctx v (n + 2) = None"
  by (auto simp: appendAudit_def log_event_def split: if_splits)

lemma workerAudit_effect:
  "workerAudit event runID payload v n s = (Inr ev, n', s') \<longleftrightarrow>
     Build (wdb_last_sequence s + 1) (wdb_last_digest s) (auditInput event ''Run'' runID payload) (we_now v) = Inr ev
     \<and> s' = log_event ev s
     \<and> \<not> list_ex (\<lambda>e. jev_Sequence e = jev_Sequence ev) (wdb_events s)
     \<and> n' = n + 3 \<and> we_ctx v n = None \<and> we_ctx v (n + 1) = None \<and> we_ctx v (n + 2) = None"
  by (auto simp: workerAudit_def appendAudit_effect)

text \<open>A database after one more audit event.\<close>

definition audited :: "string \<Rightarrow> string \<Rightarrow> json \<Rightarrow> 'z worker_db_scheme \<Rightarrow> 'z worker_db_scheme \<Rightarrow> bool" where
  "audited event runID payload s s' \<longleftrightarrow>
     (\<exists>ev now. Build (wdb_last_sequence s + 1) (wdb_last_digest s) (auditInput event ''Run'' runID payload) now = Inr ev
        \<and> s' = log_event ev s)"

lemma workerAudit_audited:
  "workerAudit event runID payload v n s = (Inr ev, n', s') \<Longrightarrow> audited event runID payload s s'"
  by (auto simp: workerAudit_effect audited_def)

lemma audited_frame:
  assumes "audited event runID payload s s'"
  shows "wdb_inbox s' = wdb_inbox s" "wdb_runs s' = wdb_runs s" "wdb_sessions s' = wdb_sessions s"
    "wdb_outbox s' = wdb_outbox s" "wdb_manifests s' = wdb_manifests s" "wdb_tasks s' = wdb_tasks s"
  using assms by (auto simp: audited_def)

lemma lockWorkerPlatform_effect:
  "lockWorkerPlatform v n s = (Inr (epoch, mode), n', s') \<longleftrightarrow>
     we_ctx v n = None \<and> epoch = db_recovery_epoch (wdb_outbox s) \<and> mode = db_recovery_mode (wdb_outbox s)
     \<and> (mode = ''NORMAL'' \<or> mode = ''RECOVERY_RECONCILIATION'') \<and> n' = Suc n \<and> s' = s"
  by (auto simp: lockWorkerPlatform_def)

lemma workerRunActive_effect:
  "workerRunActive r v n s = (Inr u, n', s') \<longleftrightarrow>
     we_ctx v n = None \<and> we_ctx v (Suc n) = None \<and> n' = n + 2 \<and> s' = s
     \<and> (\<exists>run sess. wdb_runs s (irec_runID r) = Some run \<and> wdb_sessions s (irec_runID r) = Some sess
          \<and> run_active run sess (irec_intent r) = None)"
  by (auto simp: workerRunActive_def select_row_def)

lemma loadWorkerAssignment_effect:
  "loadWorkerAssignment r v n s = (Inr a, n', s') \<longleftrightarrow>
     we_ctx v n = None \<and> n' = Suc n \<and> s' = s
     \<and> (\<exists>input task. select_input (int_InputDigest (irec_intent r)) (irec_runID r) s = Inr (input, task)
          \<and> worker_assignment r input task = Inr a)"
  by (auto simp: loadWorkerAssignment_def)

lemma worker_assignment_Inr:
  "worker_assignment r input task = Inr a \<longleftrightarrow>
     (\<exists>i t v. RunInputManifest_UnmarshalJSON input True = Inr i \<and> task = Some t \<and> input_WorkerProfile i = irec_profile r
        \<and> a = \<lparr>asg_Token = inbox_token r, asg_LeaseUntil = 0, asg_Intent = irec_intent r,
               asg_IntentDigest = irec_digest r, asg_Input = i, asg_Task = t\<rparr>
        \<and> Validate a = Inr v)"
  by (auto simp: worker_assignment_def Let_def split: sum.splits option.splits)

lemma scanInbox_Inr:
  "scanInbox found = Inr r \<longleftrightarrow>
     (\<exists>row intent. found = Some row \<and> inb_intent row = Some intent \<and> Intent_Digest intent = Inr (inb_intent_digest row)
        \<and> int_RunID intent = inb_run_id row
        \<and> (case inb_receipt row of None \<Rightarrow> r = inbox_record row intent
           | Some rc \<Rightarrow> (\<exists>x. rc = Some x \<and> r = (inbox_record row intent)\<lparr>irec_receipt := Some x\<rparr>)))"
  by (auto simp: scanInbox_def split: option.splits sum.splits)

text \<open>What a scanned record says about its row.\<close>

definition scanned :: "inbox_row \<Rightarrow> inboxRecord \<Rightarrow> bool" where
  "scanned row r \<longleftrightarrow>
     irec_id r = inb_id row \<and> irec_runID r = inb_run_id row \<and> irec_state r = inb_state row
     \<and> irec_owner r = COALESCE (inb_owner row) \<and> irec_digest r = inb_intent_digest row \<and> irec_profile r = inb_profile row
     \<and> irec_generation r = inb_generation row \<and> irec_epoch r = COALESCE0 (inb_epoch row)
     \<and> inb_intent row = Some (irec_intent r) \<and> Intent_Digest (irec_intent r) = Inr (inb_intent_digest row)
     \<and> int_RunID (irec_intent r) = inb_run_id row
     \<and> inb_receipt row = map_option Some (irec_receipt r)"

lemma scanInbox_scanned: "scanInbox found = Inr r \<Longrightarrow> \<exists>row. found = Some row \<and> scanned row r"
  by (auto simp: scanInbox_Inr scanned_def inbox_record_def split: option.splits)

lemma scanned_scanInbox: "scanned row r \<Longrightarrow> scanInbox (Some row) = Inr r"
  by (cases "irec_receipt r")
     (auto simp: scanInbox_def scanned_def inbox_record_def intro!: inboxRecord.equality)

lemma find_member: "find P xs = Some x \<Longrightarrow> x \<in> set xs \<and> P x"
  by (induction xs) (auto split: if_splits)

lemma claim_candidate_Some:
  "claim_candidate now seen locked profile rows = Some i \<Longrightarrow>
   i \<in> set rows \<and> inb_profile i = profile \<and> waiting now i \<and> \<not> seen_paused seen i \<and> \<not> locked (inb_id i)"
proof -
  assume a: "claim_candidate now seen locked profile rows = Some i"
  then have "i \<in> set (sort_key inb_id (filter (\<lambda>i. inb_profile i = profile \<and> waiting now i \<and> \<not> seen_paused seen i
      \<and> \<not> locked (inb_id i)) rows))"
    by (auto simp: claim_candidate_def split: list.splits simp del: set_sort)
  then show ?thesis by simp
qed

text \<open>The lease of a claim, the admission of a report, and the renewal.\<close>

definition seen_platform :: "'z worker_db_scheme \<Rightarrow> uint64 \<Rightarrow> string \<Rightarrow> bool" where
  "seen_platform s epoch mode \<longleftrightarrow> db_recovery_epoch (wdb_outbox s) = epoch \<and> db_recovery_mode (wdb_outbox s) = mode"

definition run_live :: "'z worker_db_scheme \<Rightarrow> inbox_row \<Rightarrow> bool" where
  "run_live s i \<longleftrightarrow>
     (\<exists>intent r sess. inb_intent i = Some intent \<and> wdb_runs s (inb_run_id i) = Some r
        \<and> wdb_sessions s (inb_run_id i) = Some sess \<and> run_active r sess intent = None)"


definition bumped :: "string \<Rightarrow> uint64 \<Rightarrow> inboxRecord \<Rightarrow> inboxRecord" where
  "bumped subject epoch r = r\<lparr>irec_generation := irec_generation r + 1, irec_epoch := epoch, irec_owner := subject\<rparr>"

lemma bumped_simps [simp]:
  "irec_id (bumped subject epoch r) = irec_id r" "irec_runID (bumped subject epoch r) = irec_runID r"
  "irec_intent (bumped subject epoch r) = irec_intent r" "irec_generation (bumped subject epoch r) = irec_generation r + 1"
  "irec_epoch (bumped subject epoch r) = epoch" "irec_owner (bumped subject epoch r) = subject"
  "irec_profile (bumped subject epoch r) = irec_profile r" "irec_digest (bumped subject epoch r) = irec_digest r"
  by (simp_all add: bumped_def)

definition heartbeat :: "string \<Rightarrow> string \<Rightarrow> 'z worker_db_scheme \<Rightarrow> 'z worker_db_scheme" where
  "heartbeat subject profile s = s\<lparr>wdb_workers := (wdb_workers s)(subject \<mapsto> profile)\<rparr>"

lemma heartbeat_frame [simp]:
  "wdb_outbox (heartbeat subject profile s) = wdb_outbox s" "wdb_runs (heartbeat subject profile s) = wdb_runs s"
  "wdb_sessions (heartbeat subject profile s) = wdb_sessions s" "wdb_manifests (heartbeat subject profile s) = wdb_manifests s"
  "wdb_tasks (heartbeat subject profile s) = wdb_tasks s" "wdb_inbox (heartbeat subject profile s) = wdb_inbox s"
  "wdb_events (heartbeat subject profile s) = wdb_events s" "wdb_last_sequence (heartbeat subject profile s) = wdb_last_sequence s"
  "wdb_last_digest (heartbeat subject profile s) = wdb_last_digest s"
  by (simp_all add: heartbeat_def)

text \<open>A lease taken on a row: what was true before it and what it leaves.\<close>

definition leases ::
  "string \<Rightarrow> uint64 \<Rightarrow> inboxRecord \<Rightarrow> gotime \<Rightarrow> Assignment \<Rightarrow> 'z worker_db_scheme \<Rightarrow> 'z worker_db_scheme \<Rightarrow> bool" where
  "leases subject epoch r now b s s' \<longleftrightarrow>
     (\<exists>input task.
        select_input (int_InputDigest (irec_intent r)) (irec_runID r) s = Inr (input, task)
        \<and> worker_assignment (bumped subject epoch r) input task = Inr b)
     \<and> unat (irec_generation r + 1) < 2 ^ 63
     \<and> audited ''worker.input.claimed'' (irec_runID r) (worker_token_json subject (asg_Token b))
         (update_inbox (\<lambda>i. inb_id i = irec_id r) (lease_row now subject (irec_generation r + 1) epoch) s) s'"

lemma update_inbox_head [simp]:
  "wdb_last_sequence (update_inbox P f s) = wdb_last_sequence s" "wdb_last_digest (update_inbox P f s) = wdb_last_digest s"
  by (simp_all add: update_inbox_def)

lemma update_returning_Inr:
  "update_returning P f g s = Inr (x, s') \<longleftrightarrow> (\<exists>i. find P (wdb_inbox s) = Some i \<and> x = g (f i) \<and> s' = update_inbox P f s)"
  by (auto simp: update_returning_def split: option.splits)

lemma lease_intent_effect:
  assumes "lease_intent subject epoch r v n s = (Inr d, n', s')"
  shows "\<exists>b now. d = Commit (Some (b\<lparr>asg_LeaseUntil := now + 30 * second\<rparr>), False) \<and> leases subject epoch r now b s s'"
proof -
  from assms obtain b n1 where load: "loadWorkerAssignment (bumped subject epoch r) v n s = (Inr b, n1, s)"
    and small: "unat (irec_generation r + 1) < 2 ^ 63"
    and d: "d = Commit (Some (b\<lparr>asg_LeaseUntil := we_clock v n1 + 30 * second\<rparr>), False)"
    and log: "audited ''worker.input.claimed'' (irec_runID r) (worker_token_json subject (asg_Token b))
      (update_inbox (\<lambda>i. inb_id i = irec_id r) (lease_row (we_clock v n1) subject (irec_generation r + 1) epoch) s) s'"
    unfolding lease_intent_def Let_def bumped_def [symmetric]
    by (auto simp: update_returning_Inr lease_row_def not_le split: if_splits
        dest!: workerAudit_audited dest: read_onlyD [OF read_only_worker(3)])
  from load have "\<exists>input task. select_input (int_InputDigest (irec_intent r)) (irec_runID r) s = Inr (input, task)
      \<and> worker_assignment (bumped subject epoch r) input task = Inr b"
    by (auto simp: loadWorkerAssignment_effect)
  with small d log show ?thesis unfolding leases_def by blast
qed

definition revokes :: "inboxRecord \<Rightarrow> 'z worker_db_scheme \<Rightarrow> 'z worker_db_scheme \<Rightarrow> bool" where
  "revokes r s s' \<longleftrightarrow>
     audited ''worker.input.revoked'' (irec_runID r) (Intent_json (irec_intent r))
       (update_inbox (\<lambda>i. inb_id i = irec_id r) revoke_row s) s'"

lemma revoke_intent_effect:
  "revoke_intent r v n s = (Inr d, n', s') \<Longrightarrow> d = Commit (None, True) \<and> revokes r s s'"
  unfolding revoke_intent_def revokes_def by (auto dest: workerAudit_audited)

lemma run_active_live:
  "scanned row r \<Longrightarrow> workerRunActive r v n s = (Inr u, n', s') \<Longrightarrow> run_live s row \<and> s' = s"
  by (auto simp: workerRunActive_effect run_live_def scanned_def)

lemma claim_effect:
  assumes "claim_body seen locked subject profile v n s = (Inr d, n', s')"
  shows "d = Commit (None, False) \<and> s' = heartbeat subject profile s \<or> d = Rollback (None, False)
     \<or> (\<exists>row r t. claim_candidate t seen locked profile (wdb_inbox s) = Some row \<and> scanned row r
          \<and> db_recovery_mode (wdb_outbox s) = ''NORMAL''
          \<and> (d = Commit (None, True) \<and> revokes r (heartbeat subject profile s) s'
             \<or> (\<exists>b now. d = Commit (Some (b\<lparr>asg_LeaseUntil := now + 30 * second\<rparr>), False) \<and> run_live s row
                  \<and> leases subject (db_recovery_epoch (wdb_outbox s)) r now b (heartbeat subject profile s) s')))"
proof -
  from assms obtain n1 where n1: "db_recovery_mode (wdb_outbox s) = ''NORMAL''"
    and body: "(if list_ex (held_lease (we_clock v n1) subject) (wdb_inbox s) then tx_return (Commit (None, False))
      else tx_bind (tx_try (tx_read (\<lambda>now s. scanInbox (claim_candidate now seen locked profile (wdb_inbox s))))) (\<lambda>candidate.
         case candidate of
           Inl e \<Rightarrow> if errors_Is e ErrNoRows then tx_return (Commit (None, False)) else tx_fail e
         | Inr r \<Rightarrow>
             tx_bind (tx_try (workerRunActive r)) (\<lambda>active.
               case active of
                 Inl e \<Rightarrow>
                   if errors_Is e ErrPaused then tx_return (Rollback (None, False))
                   else tx_guard (\<not> errors_Is e ErrIdentity \<and> \<not> errors_Is e ErrInactive) e (revoke_intent r)
               | Inr _ \<Rightarrow> lease_intent subject (db_recovery_epoch (wdb_outbox s)) r)))
      v (Suc n1) (heartbeat subject profile s) = (Inr d, n', s')"
    by (auto simp: claim_body_def lockWorkerPlatform_effect heartbeat_def)
  show ?thesis
  proof (cases "list_ex (held_lease (we_clock v n1) subject) (wdb_inbox s)")
    case True
    with body show ?thesis by simp
  next
    case False
    with body obtain q n2 s2 where q: "tx_read (\<lambda>now s. scanInbox (claim_candidate now seen locked profile (wdb_inbox s)))
        v (Suc n1) (heartbeat subject profile s) = (q, n2, s2)"
      and rest: "(case q of
           Inl e \<Rightarrow> if errors_Is e ErrNoRows then tx_return (Commit (None, False)) else tx_fail e
         | Inr r \<Rightarrow>
             tx_bind (tx_try (workerRunActive r)) (\<lambda>active.
               case active of
                 Inl e \<Rightarrow>
                   if errors_Is e ErrPaused then tx_return (Rollback (None, False))
                   else tx_guard (\<not> errors_Is e ErrIdentity \<and> \<not> errors_Is e ErrInactive) e (revoke_intent r)
               | Inr _ \<Rightarrow> lease_intent subject (db_recovery_epoch (wdb_outbox s)) r)) v n2 s2 = (Inr d, n', s')"
      by auto
    from tx_read_state [OF q] have s2: "s2 = heartbeat subject profile s" by simp
    show ?thesis
    proof (cases q)
      case (Inl e)
      with rest s2 show ?thesis by (auto split: if_splits)
    next
      case (Inr r)
      with q obtain row where row: "claim_candidate (we_clock v (Suc n1)) seen locked profile (wdb_inbox s) = Some row"
        and sc: "scanned row r" using scanInbox_scanned by fastforce
      from rest Inr s2 obtain w n3 s3 where w: "workerRunActive r v n2 s2 = (w, n3, s3)"
        and last: "(case w of
                 Inl e \<Rightarrow>
                   if errors_Is e ErrPaused then tx_return (Rollback (None, False))
                   else tx_guard (\<not> errors_Is e ErrIdentity \<and> \<not> errors_Is e ErrInactive) e (revoke_intent r)
               | Inr _ \<Rightarrow> lease_intent subject (db_recovery_epoch (wdb_outbox s)) r) v n3 s3 = (Inr d, n', s')"
        by auto
      from w read_onlyD [OF read_only_worker(2)] s2 have s3: "s3 = heartbeat subject profile s" by blast
      show ?thesis
      proof (cases w)
        case (Inl e)
        with last s3 have "d = Rollback (None, False) \<or> (d = Commit (None, True) \<and> revokes r (heartbeat subject profile s) s')"
          using revoke_intent_effect by (fastforce split: if_splits)
        with row sc n1 show ?thesis by blast
      next
        case (Inr u)
        with w s2 sc run_active_live have "run_live (heartbeat subject profile s) row" by blast
        then have "run_live s row" by (simp add: run_live_def)
        with last s3 Inr lease_intent_effect row sc n1 show ?thesis by fastforce
      qed
    qed
  qed
qed

section \<open>Authority of a token\<close>

definition row_token :: "inbox_row \<Rightarrow> Token" where
  "row_token i = \<lparr>tok_Profile = inb_profile i, tok_InboxID = inb_id i, tok_Generation = inb_generation i,
     tok_RecoveryEpoch = COALESCE0 (inb_epoch i)\<rparr>"

lemma scanned_token: "scanned row r \<Longrightarrow> inbox_token r = row_token row"
  by (simp add: scanned_def inbox_token_def row_token_def)

text \<open>The row a token names, held by the subject; and the lease on it with all that keeps it alive.\<close>

definition holds_token :: "string \<Rightarrow> Token \<Rightarrow> 'z worker_db_scheme \<Rightarrow> inbox_row \<Rightarrow> bool" where
  "holds_token subject token s row \<longleftrightarrow>
     find (\<lambda>i. inb_id i = tok_InboxID token) (wdb_inbox s) = Some row
     \<and> inb_owner row = Some subject \<and> row_token row = token \<and> Token_Valid token \<and> subject \<noteq> []"

definition live_lease :: "gotime \<Rightarrow> 'z worker_db_scheme \<Rightarrow> inbox_row \<Rightarrow> bool" where
  "live_lease now s row \<longleftrightarrow>
     inb_state row = ''LEASED'' \<and> db_recovery_mode (wdb_outbox s) = ''NORMAL''
     \<and> COALESCE0 (inb_epoch row) = db_recovery_epoch (wdb_outbox s) \<and> run_live s row
     \<and> (\<exists>t. inb_until row = Some t \<and> now < t)"

lemma holds_token_find:
  assumes "holds_token subject token s row"
  shows "tok_InboxID token = inb_id row \<and> find (\<lambda>i. inb_id i = inb_id row) (wdb_inbox s) = Some row \<and> row \<in> set (wdb_inbox s)"
proof -
  from assms have "tok_InboxID token = inb_id row" by (auto simp: holds_token_def row_token_def)
  with assms find_member show ?thesis by (fastforce simp: holds_token_def)
qed

lemma lockWorkerLease_effect:
  assumes "lockWorkerLease subject token v n s = (Inr (r, epoch, mode), n', s')"
  shows "s' = s \<and> epoch = db_recovery_epoch (wdb_outbox s) \<and> mode = db_recovery_mode (wdb_outbox s)
     \<and> (\<exists>row. holds_token subject token s row \<and> scanned row r)"
proof -
  from assms have s': "s' = s" using read_onlyD [OF read_only_worker(4)] by blast
  from assms obtain row where f: "find (\<lambda>i. inb_id i = tok_InboxID token) (wdb_inbox s) = Some row"
    and sc: "scanned row r" and o: "irec_owner r = subject" "inbox_token r = token" "Token_Valid token" "subject \<noteq> []"
    and p: "epoch = db_recovery_epoch (wdb_outbox s)" "mode = db_recovery_mode (wdb_outbox s)"
    by (auto simp: lockWorkerLease_def lockWorkerPlatform_effect dest!: scanInbox_scanned)
  from sc o have "inb_owner row = Some subject"
    by (cases "inb_owner row") (auto simp: scanned_def COALESCE_def)
  with f sc o p s' scanned_token show ?thesis by (fastforce simp: holds_token_def)
qed

lemma liveWorkerLease_effect:
  assumes "liveWorkerLease r epoch mode v n s = (Inr u, n', s')"
    and "holds_token subject token s row" and "scanned row r"
    and "epoch = db_recovery_epoch (wdb_outbox s)" and "mode = db_recovery_mode (wdb_outbox s)"
  shows "s' = s \<and> (\<exists>k < n'. live_lease (we_clock v k) s row)"
proof -
  from assms(1) have s': "s' = s" using read_onlyD [OF read_only_worker(5)] by blast
  from assms(2,3) have f: "find (\<lambda>i. inb_id i = irec_id r) (wdb_inbox s) = Some row"
    using holds_token_find by (fastforce simp: scanned_def)
  from assms(1) obtain u2 n1 s1 live where m: "mode = ''NORMAL''" "irec_epoch r = epoch" "irec_state r = ''LEASED''"
    and act1: "workerRunActive r v n s = (Inr u2, n1, s1)"
    and rd: "(case find (\<lambda>i. inb_id i = irec_id r) (wdb_inbox s1) of
                None \<Rightarrow> Inl ErrNoRows
              | Some i \<Rightarrow> (case inb_until i of None \<Rightarrow> Inl (ErrText ''cannot scan NULL into *bool'')
                           | Some t \<Rightarrow> Inr (t > we_clock v n1))) = Inr live" and live and n': "n' = Suc n1"
    unfolding liveWorkerLease_def by auto
  from act1 have s1: "s1 = s" using read_onlyD [OF read_only_worker(2)] by blast
  with act1 have act: "workerRunActive r v n s = (Inr u2, n1, s)" by simp
  from rd f s1 \<open>live\<close> obtain t where live: "inb_until row = Some t" "we_clock v n1 < t" by (auto split: option.splits)
  from run_active_live [OF assms(3) act] live m assms(3-5) have "live_lease (we_clock v n1) s row"
    by (simp add: live_lease_def scanned_def)
  with s' n' show ?thesis by blast
qed

lemma audited_run_live: "audited event runID payload s s' \<Longrightarrow> run_live s' row \<longleftrightarrow> run_live s row"
  by (auto simp: run_live_def audited_def)

definition renews :: "string \<Rightarrow> Token \<Rightarrow> inbox_row \<Rightarrow> gotime \<Rightarrow> gotime \<Rightarrow> 'z worker_db_scheme \<Rightarrow> 'z worker_db_scheme \<Rightarrow> bool" where
  "renews subject token row now until s s' \<longleftrightarrow>
     (\<exists>s1. audited ''worker.input.renewed'' (inb_run_id row) (worker_token_json subject token) s s1
        \<and> renewable now (inb_id row) row \<and> inb_until (renew_row now row) = Some until
        \<and> s' = update_inbox (renewable now (inb_id row)) (renew_row now) s1)"

lemma find_renewable:
  assumes "find (\<lambda>i. inb_id i = k) xs = Some row" and "find (renewable now k) xs = Some i" and "distinct (map inb_id xs)"
  shows "i = row"
proof -
  from find_member [OF assms(1)] find_member [OF assms(2)] have "i \<in> set xs" "row \<in> set xs" "inb_id i = inb_id row"
    by (auto simp: renewable_def)
  with assms(3) show ?thesis by (metis inj_onD distinct_map)
qed

lemma renew_effect:
  assumes "renew_body subject token v n s = (Inr d, n', s')" and "distinct (map inb_id (wdb_inbox s))"
  shows "\<exists>row t now until. holds_token subject token s row \<and> live_lease t s row \<and> d = Commit until
     \<and> renews subject token row now until s s'"
proof -
  from assms(1) obtain r epoch mode n1 s1 u n2 s2 ev n3 s3 until n4
    where l: "lockWorkerLease subject token v n s = (Inr (r, epoch, mode), n1, s1)"
      and live: "liveWorkerLease r epoch mode v n1 s1 = (Inr u, n2, s2)"
      and log: "workerAudit ''worker.input.renewed'' (irec_runID r) (worker_token_json subject token) v n2 s2 = (Inr ev, n3, s3)"
      and w: "update_returning (renewable (we_clock v n3) (irec_id r)) (renew_row (we_clock v n3))
                 (\<lambda>i. case inb_until i of None \<Rightarrow> 0 | Some t \<Rightarrow> t) s3 = Inr (until, s')"
      and d: "d = Commit until"
    unfolding renew_body_def by auto
  from lockWorkerLease_effect [OF l] obtain row where h: "holds_token subject token s row" "scanned row r" "s1 = s"
    "epoch = db_recovery_epoch (wdb_outbox s)" "mode = db_recovery_mode (wdb_outbox s)" by blast
  from liveWorkerLease_effect [OF live [unfolded h(3)] h(1,2,4,5)] obtain k
    where s2: "s2 = s" "live_lease (we_clock v k) s row" by blast
  from workerAudit_audited [OF log] s2 h(2)
  have a: "audited ''worker.input.renewed'' (inb_run_id row) (worker_token_json subject token) s s3"
    by (simp add: scanned_def)
  let ?now = "we_clock v n3"
  from w h(2) obtain i where i: "find (renewable ?now (inb_id row)) (wdb_inbox s3) = Some i"
    "until = (case inb_until (renew_row ?now i) of None \<Rightarrow> 0 | Some t \<Rightarrow> t)"
    "s' = update_inbox (renewable ?now (inb_id row)) (renew_row ?now) s3"
    by (auto simp: update_returning_Inr scanned_def)
  from h(1) have "find (\<lambda>i. inb_id i = inb_id row) (wdb_inbox s) = Some row" using holds_token_find by blast
  with find_renewable i(1) audited_frame(1) [OF a] assms(2) have "i = row" by metis
  with i find_member [OF i(1)] a d h s2 show ?thesis
    unfolding renews_def by (fastforce simp: renew_row_def)
qed

definition admits :: "string \<Rightarrow> Report \<Rightarrow> inbox_row \<Rightarrow> AdmissionReceipt \<Rightarrow> 'z worker_db_scheme \<Rightarrow> 'z worker_db_scheme \<Rightarrow> bool" where
  "admits subject report row receipt s s' \<longleftrightarrow>
     (\<exists>s1 now rfc3339. audited ''worker.input.validated'' (inb_run_id row) (AdmissionReceipt_json rfc3339 receipt) s s1
        \<and> (\<exists>t. inb_until row = Some t \<and> now < t)
        \<and> s' = update_inbox (unexpired now (inb_id row)) (validated_row receipt) s1)
     \<and> rct_Token receipt = rep_Token report \<and> rct_Worker receipt = subject \<and> rct_Kind receipt = Validated
     \<and> (\<exists>r input task a. scanned row r
          \<and> select_input (int_InputDigest (irec_intent r)) (irec_runID r) s = Inr (input, task)
          \<and> worker_assignment r input task = Inr a \<and> NewReport a = Inr report \<and> Validate a = Inr (rct_Validation receipt))"

lemma unexpired_row:
  assumes "length (filter (unexpired now k) xs) = 1" and "find (\<lambda>i. inb_id i = k) xs = Some row" and "distinct (map inb_id xs)"
  shows "\<exists>t. inb_until row = Some t \<and> now < t"
proof -
  from assms(1) obtain i where i: "i \<in> set xs" "unexpired now k i"
    by (metis One_nat_def filter_False list.size(3) zero_neq_one)
  from find_member [OF assms(2)] i have "row \<in> set xs" "inb_id i = inb_id row" by (auto simp: unexpired_def)
  with i assms(3) have "i = row" by (metis inj_onD distinct_map)
  with i show ?thesis by (auto simp: unexpired_def split: option.splits)
qed

lemma record_receipt_effect:
  assumes "record_receipt subject r report v n s = (Inr d, n', s')" and "scanned row r"
    and "find (\<lambda>i. inb_id i = inb_id row) (wdb_inbox s) = Some row" and "distinct (map inb_id (wdb_inbox s))"
  shows "\<exists>receipt k k' t. d = Commit receipt \<and> admits subject report row receipt s s' \<and> rct_ReceivedAt receipt = we_clock v k
     \<and> n \<le> k' \<and> inb_until row = Some t \<and> we_clock v k' < t"
proof -
  from assms(1) obtain a n1 s1 validation ev n2 s2 where
      load1: "loadWorkerAssignment r v n s = (Inr a, n1, s1)"
    and rep: "NewReport a = Inr report" and val: "Validate a = Inr validation"
    and log1: "workerAudit ''worker.input.validated'' (irec_runID r) (AdmissionReceipt_json (we_rfc3339 v)
        (new_receipt (rep_Token report) subject validation (we_clock v n1))) v (Suc n1) s1 = (Inr ev, n2, s2)"
    and one: "length (filter (unexpired (we_clock v n2) (irec_id r)) (wdb_inbox s2)) = 1"
    and s': "s' = update_inbox (unexpired (we_clock v n2) (irec_id r))
        (validated_row (new_receipt (rep_Token report) subject validation (we_clock v n1))) s2"
    and d: "d = Commit (new_receipt (rep_Token report) subject validation (we_clock v n1))"
    unfolding record_receipt_def Let_def by auto
  from load1 have s1: "s1 = s" using read_onlyD [OF read_only_worker(3)] by blast
  note load = load1 [unfolded s1] and log = log1 [unfolded s1]
  have later: "n \<le> n2" using load log by (simp add: loadWorkerAssignment_effect workerAudit_effect)
  from assms(2) have ids: "irec_id r = inb_id row" "irec_runID r = inb_run_id row" by (simp_all add: scanned_def)
  note a = workerAudit_audited [OF log, unfolded ids]
  from unexpired_row [OF one, of row] assms(3,4) audited_frame(1) [OF a] ids
  have t: "\<exists>t. inb_until row = Some t \<and> we_clock v n2 < t" by simp
  from load obtain input task where sel: "select_input (int_InputDigest (irec_intent r)) (irec_runID r) s = Inr (input, task)"
    "worker_assignment r input task = Inr a" by (auto simp: loadWorkerAssignment_effect)
  let ?rc = "new_receipt (rep_Token report) subject validation (we_clock v n1)"
  have "\<exists>s1 now rfc3339. audited ''worker.input.validated'' (inb_run_id row) (AdmissionReceipt_json rfc3339 ?rc) s s1
        \<and> (\<exists>t. inb_until row = Some t \<and> now < t)
        \<and> s' = update_inbox (unexpired now (inb_id row)) (validated_row ?rc) s1"
    using a t s' ids by metis
  moreover have "\<exists>r input task a. scanned row r
          \<and> select_input (int_InputDigest (irec_intent r)) (irec_runID r) s = Inr (input, task)
          \<and> worker_assignment r input task = Inr a \<and> NewReport a = Inr report \<and> Validate a = Inr (rct_Validation ?rc)"
    using rep val sel assms(2) unfolding new_receipt_def by fastforce
  ultimately have "admits subject report row ?rc s s'" unfolding admits_def by (simp add: new_receipt_def)
  moreover have "rct_ReceivedAt ?rc = we_clock v n1" by (simp add: new_receipt_def)
  ultimately show ?thesis using d t later by blast
qed

text \<open>
  A lease that was alive when its transaction checked it and still unexpired at the later clock
  reading with which the transaction wrote the row.
\<close>

definition live_throughout :: "wenv \<Rightarrow> 'z worker_db_scheme \<Rightarrow> inbox_row \<Rightarrow> bool" where
  "live_throughout v s row \<longleftrightarrow>
     (\<exists>k k'. k < k' \<and> live_lease (we_clock v k) s row \<and> live_lease (we_clock v k') s row)"

lemma live_throughoutI:
  "live_lease (we_clock v k) s row \<Longrightarrow> k < k' \<Longrightarrow> inb_until row = Some t \<Longrightarrow> we_clock v k' < t \<Longrightarrow> live_throughout v s row"
  by (auto simp: live_throughout_def live_lease_def)

lemma report_effect:
  assumes "report_body subject report v n s = (Inr d, n', s')" and "distinct (map inb_id (wdb_inbox s))"
  shows "\<exists>row receipt k. holds_token subject (rep_Token report) s row \<and> (\<exists>r. scanned row r)
     \<and> (d = Rollback receipt \<and> s' = s \<and> inb_state row = Validated \<and> inb_receipt row = Some (Some receipt)
          \<and> rct_Token receipt = rep_Token report \<and> rct_Worker receipt = subject
          \<and> Digest (Validation_json (rct_Validation receipt)) = rep_ValidationDigest report
        \<or> d = Commit receipt \<and> live_throughout v s row \<and> admits subject report row receipt s s'
          \<and> rct_ReceivedAt receipt = we_clock v k)"
proof -
  from assms(1) obtain r epoch mode n1 s1
    where l: "lockWorkerLease subject (rep_Token report) v n s = (Inr (r, epoch, mode), n1, s1)"
      and rest: "(case (if irec_state r = Validated then irec_receipt r else None) of
         Some receipt \<Rightarrow>
           tx_guard (Digest (Validation_json (rct_Validation receipt)) \<noteq> rep_ValidationDigest report
                     \<or> rct_Token receipt \<noteq> rep_Token report \<or> rct_Worker receipt \<noteq> subject) ErrIdentity
             (tx_return (Rollback receipt))
       | None \<Rightarrow> tx_bind (liveWorkerLease r epoch mode) (\<lambda>_. record_receipt subject r report)) v n1 s1 = (Inr d, n', s')"
    unfolding report_body_def by auto
  from lockWorkerLease_effect [OF l] obtain row where h: "holds_token subject (rep_Token report) s row" "scanned row r" "s1 = s"
    "epoch = db_recovery_epoch (wdb_outbox s)" "mode = db_recovery_mode (wdb_outbox s)" by blast
  show ?thesis
  proof (cases "if irec_state r = Validated then irec_receipt r else None")
    case (Some receipt)
    with rest h show ?thesis by (intro exI [of _ row] exI [of _ receipt]) (auto simp: scanned_def split: if_splits)
  next
    case None
    with rest obtain u n2 s2 where live: "liveWorkerLease r epoch mode v n1 s1 = (Inr u, n2, s2)"
      and rec: "record_receipt subject r report v n2 s2 = (Inr d, n', s')" by auto
    from liveWorkerLease_effect [OF live [unfolded h(3)] h(1,2,4,5)] obtain j
      where s2: "s2 = s" "live_lease (we_clock v j) s row" "j < n2" by blast
    from h(1) have "find (\<lambda>i. inb_id i = inb_id row) (wdb_inbox s) = Some row" using holds_token_find by blast
    from record_receipt_effect [OF rec [unfolded s2(1)] h(2) this assms(2)] h(1,2) live_throughoutI [OF s2(2)] s2(3)
    show ?thesis by (metis order_less_le_trans)
  qed
qed

section \<open>The guarantee on the inbox\<close>

definition row_ok :: "inbox_row \<Rightarrow> bool" where
  "row_ok i \<longleftrightarrow>
     inb_state i \<in> {''PENDING'', ''LEASED'', Validated, ''REVOKED''}
     \<and> (inb_state i = ''LEASED'' \<longrightarrow> inb_owner i \<noteq> None \<and> inb_generation i \<noteq> 0 \<and> inb_epoch i \<noteq> None
          \<and> (\<exists>st un. inb_started i = Some st \<and> inb_until i = Some un \<and> un \<le> st + 120 * second))
     \<and> (inb_state i = Validated \<longleftrightarrow> inb_receipt i \<noteq> None)
     \<and> (inb_state i \<noteq> ''LEASED'' \<longrightarrow> inb_until i = None)
     \<and> (\<forall>rc. inb_receipt i = Some rc \<longrightarrow>
          (\<exists>x. rc = Some x \<and> rct_Token x = row_token i \<and> inb_owner i = Some (rct_Worker x) \<and> rct_Kind x = Validated))"

definition row_kept :: "inbox_row \<Rightarrow> inbox_row \<Rightarrow> bool" where
  "row_kept i i' \<longleftrightarrow>
     inb_id i' = inb_id i \<and> inb_outbox_key i' = inb_outbox_key i \<and> inb_run_id i' = inb_run_id i
     \<and> inb_intent_digest i' = inb_intent_digest i \<and> inb_intent i' = inb_intent i \<and> inb_profile i' = inb_profile i
     \<and> unat (inb_generation i) \<le> unat (inb_generation i')
     \<and> (inb_state i = Validated \<or> inb_state i = ''REVOKED'' \<longrightarrow> i' = i)"

definition inbox_inv :: "'z worker_db_scheme \<Rightarrow> bool" where
  "inbox_inv s \<longleftrightarrow>
     distinct (map inb_id (wdb_inbox s)) \<and> distinct (map inb_run_id (wdb_inbox s))
     \<and> distinct (map inb_outbox_key (wdb_inbox s)) \<and> (\<forall>i \<in> set (wdb_inbox s). row_ok i)"

definition inbox_kept :: "'z worker_db_scheme \<Rightarrow> 'z worker_db_scheme \<Rightarrow> bool" where
  "inbox_kept s s' \<longleftrightarrow>
     (inbox_inv s \<longrightarrow> inbox_inv s' \<and> (\<forall>i \<in> set (wdb_inbox s). \<exists>i' \<in> set (wdb_inbox s'). row_kept i i'))"

lemma row_kept_refl [simp]: "row_kept i i"
  by (simp add: row_kept_def)

lemma row_kept_trans: "row_kept i i' \<Longrightarrow> row_kept i' i'' \<Longrightarrow> row_kept i i''"
  by (auto simp: row_kept_def)

interpretation inbox: guarantee "inbox_kept :: 'z worker_db_scheme \<Rightarrow> 'z worker_db_scheme \<Rightarrow> bool"
proof
  show "inbox_kept s s" for s :: "'z worker_db_scheme"
    unfolding inbox_kept_def using row_kept_refl by blast
  show "inbox_kept s s' \<Longrightarrow> inbox_kept s' s'' \<Longrightarrow> inbox_kept s s''" for s s' s'' :: "'z worker_db_scheme"
    unfolding inbox_kept_def by (meson row_kept_trans)
qed

lemma same_inbox_kept: "wdb_inbox s' = wdb_inbox s \<Longrightarrow> inbox_kept s s'"
  unfolding inbox_kept_def inbox_inv_def using row_kept_refl by metis

lemma update_inbox_kept:
  assumes "inbox_inv s \<Longrightarrow> \<forall>i \<in> set (wdb_inbox s). P i \<longrightarrow> row_kept i (f i) \<and> row_ok (f i)"
  shows "inbox_kept s (update_inbox P f s)"
  unfolding inbox_kept_def
proof (intro impI)
  assume inv: "inbox_inv s"
  with assms have st: "\<forall>i \<in> set (wdb_inbox s). P i \<longrightarrow> row_kept i (f i) \<and> row_ok (f i)" by blast
  then have "map inb_id (wdb_inbox (update_inbox P f s)) = map inb_id (wdb_inbox s)"
    "map inb_run_id (wdb_inbox (update_inbox P f s)) = map inb_run_id (wdb_inbox s)"
    "map inb_outbox_key (wdb_inbox (update_inbox P f s)) = map inb_outbox_key (wdb_inbox s)"
    by (auto simp: row_kept_def)
  moreover have "\<forall>i \<in> set (wdb_inbox (update_inbox P f s)). row_ok i" using inv st by (auto simp: inbox_inv_def)
  ultimately have "inbox_inv (update_inbox P f s)" using inv unfolding inbox_inv_def by metis
  moreover have "\<forall>i \<in> set (wdb_inbox s). \<exists>i' \<in> set (wdb_inbox (update_inbox P f s)). row_kept i i'"
  proof
    fix i assume "i \<in> set (wdb_inbox s)"
    with st show "\<exists>i' \<in> set (wdb_inbox (update_inbox P f s)). row_kept i i'"
      by (intro bexI [of _ "if P i then f i else i"]) auto
  qed
  ultimately show "inbox_inv (update_inbox P f s)
     \<and> (\<forall>i \<in> set (wdb_inbox s). \<exists>i' \<in> set (wdb_inbox (update_inbox P f s)). row_kept i i')" by blast
qed

lemma audited_kept: "audited event runID payload s s' \<Longrightarrow> inbox_kept s s'"
  by (rule same_inbox_kept) (rule audited_frame)

lemma by_id:
  assumes "distinct (map inb_id xs)" and "row \<in> set xs" and "i \<in> set xs" and "inb_id i = inb_id row"
  shows "i = row"
  using assms by (metis inj_onD distinct_map)


lemma waiting_open: "waiting now i \<Longrightarrow> inb_state i = ''PENDING'' \<or> inb_state i = ''LEASED''"
  by (auto simp: waiting_def)

lemma open_row:
  assumes "row_ok i" and "inb_state i = ''PENDING'' \<or> inb_state i = ''LEASED''"
  shows "inb_receipt i = None \<and> inb_state i \<noteq> Validated \<and> inb_state i \<noteq> ''REVOKED''"
  using assms by (auto simp: row_ok_def Validated_def)

lemma lease_row_ok:
  assumes "row_ok i" and "inb_state i = ''PENDING'' \<or> inb_state i = ''LEASED''"
    and "unat (inb_generation i) \<le> unat g" and "g \<noteq> 0"
  shows "row_kept i (lease_row now subject g epoch i) \<and> row_ok (lease_row now subject g epoch i)"
proof
  show "row_kept i (lease_row now subject g epoch i)"
    using open_row [OF assms(1,2)] assms(3) by (simp add: row_kept_def lease_row_def)
  from open_row [OF assms(1,2)] have "inb_receipt i = None" by blast
  with assms(4) show "row_ok (lease_row now subject g epoch i)"
    by (simp add: row_ok_def lease_row_def Validated_def second_def)
qed

lemma revoke_row_ok:
  assumes "row_ok i" and "inb_state i = ''PENDING'' \<or> inb_state i = ''LEASED''"
  shows "row_kept i (revoke_row i) \<and> row_ok (revoke_row i)"
  using open_row [OF assms] by (simp add: row_kept_def row_ok_def revoke_row_def Validated_def)

lemma renew_row_ok:
  assumes "row_ok i" and "renewable now k i"
  shows "row_kept i (renew_row now i) \<and> row_ok (renew_row now i)"
proof -
  from assms have leased: "inb_state i = ''LEASED''" by (fastforce simp: row_ok_def renewable_def)
  with assms(1) have rec: "inb_receipt i = None" using open_row by blast
  from assms(1) leased have own: "inb_owner i \<noteq> None" "inb_generation i \<noteq> 0" "inb_epoch i \<noteq> None"
    and "\<exists>st. inb_started i = Some st" by (simp_all add: row_ok_def) blast
  then obtain st where st: "inb_started i = Some st" by blast
  have "row_kept i (renew_row now i)" using leased by (simp add: row_kept_def renew_row_def Validated_def)
  moreover have "row_ok (renew_row now i)" using leased rec own st by (simp add: row_ok_def renew_row_def Validated_def)
  ultimately show ?thesis ..
qed

lemma validated_row_ok:
  assumes "row_ok i" and "inb_state i = ''LEASED''" and "rct_Token rc = row_token i" and "inb_owner i = Some (rct_Worker rc)"
    and "rct_Kind rc = Validated"
  shows "row_kept i (validated_row rc i) \<and> row_ok (validated_row rc i)"
  using assms by (simp add: row_kept_def row_ok_def validated_row_def row_token_def Validated_def)

lemma kept_step:
  "inbox_kept s s' \<Longrightarrow> audited event runID payload s' s'' \<Longrightarrow> inbox_kept s s''"
  using audited_kept inbox.trans by blast

lemma worker_assignment_token:
  assumes "worker_assignment r input task = Inr a"
  shows "asg_Token a = inbox_token r \<and> Token_Valid (asg_Token a)"
  using assms Validate_one_identity by (fastforce simp: worker_assignment_Inr one_identity_def)

lemma claim_kept:
  assumes "claim_body seen locked subject profile v n s = (Inr (Commit x), n', s')"
  shows "inbox_kept s s'"
proof -
  let ?h = "heartbeat subject profile s"
  have h: "inbox_kept s ?h" by (rule same_inbox_kept) simp
  from claim_effect [OF assms] show ?thesis
  proof (elim disjE exE conjE)
    assume "s' = ?h" with h show ?thesis by simp
  next
    fix row r t
    assume row: "claim_candidate t seen locked profile (wdb_inbox s) = Some row" and sc: "scanned row r"
      and rev: "revokes r ?h s'"
    have "inbox_kept ?h (update_inbox (\<lambda>i. inb_id i = irec_id r) revoke_row ?h)"
    proof (rule update_inbox_kept, intro ballI impI)
      fix i assume "inbox_inv ?h" "i \<in> set (wdb_inbox ?h)" "inb_id i = irec_id r"
      with claim_candidate_Some [OF row] sc by_id [of "wdb_inbox s" row i] have "i = row" "row_ok i" "waiting t row"
        by (auto simp: inbox_inv_def scanned_def)
      with revoke_row_ok waiting_open show "row_kept i (revoke_row i) \<and> row_ok (revoke_row i)" by blast
    qed
    with rev show ?thesis unfolding revokes_def using kept_step inbox.trans [OF h] by blast
  next
    fix row r t b now
    assume row: "claim_candidate t seen locked profile (wdb_inbox s) = Some row" and sc: "scanned row r"
      and l: "leases subject (db_recovery_epoch (wdb_outbox s)) r now b ?h s'"
    let ?f = "lease_row now subject (irec_generation r + 1) (db_recovery_epoch (wdb_outbox s))"
    from l obtain input task where "worker_assignment (bumped subject (db_recovery_epoch (wdb_outbox s)) r) input task = Inr b"
      unfolding leases_def by blast
    from worker_assignment_token [OF this] have gen: "irec_generation r + 1 \<noteq> 0"
      by (metis Token_Valid_def inbox_token_def bumped_simps(4) Token.select_convs(3) less_irrefl)
    then have mono: "unat (irec_generation r) \<le> unat (irec_generation r + 1)" using unat_uint64_inc by fastforce
    have "inbox_kept ?h (update_inbox (\<lambda>i. inb_id i = irec_id r) ?f ?h)"
    proof (rule update_inbox_kept, intro ballI impI)
      fix i assume "inbox_inv ?h" "i \<in> set (wdb_inbox ?h)" "inb_id i = irec_id r"
      with claim_candidate_Some [OF row] sc by_id [of "wdb_inbox s" row i] have "i = row" "row_ok i" "waiting t row"
        "inb_generation i = irec_generation r"
        by (auto simp: inbox_inv_def scanned_def)
      with lease_row_ok [of i "irec_generation r + 1"] waiting_open gen mono
      show "row_kept i (?f i) \<and> row_ok (?f i)" by metis
    qed
    with l show ?thesis unfolding leases_def using kept_step inbox.trans [OF h] by blast
  qed simp
qed

lemma renew_kept:
  assumes "renew_body subject token v n s = (Inr d, n', s')"
  shows "inbox_kept s s'"
proof (cases "inbox_inv s")
  case True
  then have "distinct (map inb_id (wdb_inbox s))" by (simp add: inbox_inv_def)
  from renew_effect [OF assms this] obtain row now until where "renews subject token row now until s s'" by blast
  then obtain s1 where
    a: "audited ''worker.input.renewed'' (inb_run_id row) (worker_token_json subject token) s s1"
    and s': "s' = update_inbox (renewable now (inb_id row)) (renew_row now) s1"
    unfolding renews_def by blast
  have "inbox_kept s1 s'" unfolding s'
    by (rule update_inbox_kept) (auto simp: inbox_inv_def intro: renew_row_ok [THEN conjunct1] renew_row_ok [THEN conjunct2])
  with audited_kept [OF a] inbox.trans show ?thesis by blast
qed (simp add: inbox_kept_def)

lemma report_kept:
  assumes "report_body subject report v n s = (Inr (Commit x), n', s')"
  shows "inbox_kept s s'"
proof (cases "inbox_inv s")
  case True
  with report_effect [OF assms] obtain row receipt where h: "holds_token subject (rep_Token report) s row"
    and live: "inb_state row = ''LEASED''" and adm: "admits subject report row receipt s s'"
    by (auto simp: inbox_inv_def live_throughout_def live_lease_def)
  from adm obtain s1 now rfc3339 where
    a: "audited ''worker.input.validated'' (inb_run_id row) (AdmissionReceipt_json rfc3339 receipt) s s1"
    and s': "s' = update_inbox (unexpired now (inb_id row)) (validated_row receipt) s1"
    and rc: "rct_Token receipt = rep_Token report" "rct_Worker receipt = subject" "rct_Kind receipt = Validated"
    by (auto simp: admits_def)
  have "inbox_kept s1 s'" unfolding s'
  proof (rule update_inbox_kept, intro ballI impI)
    fix i assume "inbox_inv s1" "i \<in> set (wdb_inbox s1)" "unexpired now (inb_id row) i"
    moreover from h have "row \<in> set (wdb_inbox s)" using holds_token_find by blast
    ultimately have "i = row" "row_ok i"
      using by_id [of "wdb_inbox s" row i] audited_frame(1) [OF a] by (auto simp: inbox_inv_def unexpired_def)
    with validated_row_ok [of i receipt] h rc live
    show "row_kept i (validated_row receipt i) \<and> row_ok (validated_row receipt i)" by (auto simp: holds_token_def)
  qed
  with audited_kept [OF a] inbox.trans show ?thesis by blast
qed (simp add: inbox_kept_def)

lemma inbox_operations_kept:
  "claimInput v seen locked subject profile s = (q1, s') \<Longrightarrow> inbox_kept s s'"
  "RenewInput v subject token s = (q2, s') \<Longrightarrow> inbox_kept s s'"
  "ReportInput v subject report s = (q3, s') \<Longrightarrow> inbox_kept s s'"
  unfolding claimInput_def RenewInput_def ReportInput_def
  by (erule inbox.checked_run [rotated], erule claim_kept renew_kept report_kept)+

section \<open>The guarantee on the audit journal\<close>

definition journal_ok :: "'z worker_db_scheme \<Rightarrow> bool" where
  "journal_ok s \<longleftrightarrow>
     Verify (wdb_events s) = None \<and> wdb_last_sequence s = of_nat (length (wdb_events s))
     \<and> wdb_last_digest s = root [] (wdb_events s)"

definition journal_kept :: "'z worker_db_scheme \<Rightarrow> 'z worker_db_scheme \<Rightarrow> bool" where
  "journal_kept s s' \<longleftrightarrow> (journal_ok s \<longrightarrow> journal_ok s') \<and> (\<exists>new. wdb_events s' = wdb_events s @ new)"

interpretation journal: guarantee "journal_kept :: 'z worker_db_scheme \<Rightarrow> 'z worker_db_scheme \<Rightarrow> bool"
  by unfold_locales (auto simp: journal_kept_def)

lemma same_journal_kept:
  "wdb_events s' = wdb_events s \<Longrightarrow> wdb_last_sequence s' = wdb_last_sequence s \<Longrightarrow> wdb_last_digest s' = wdb_last_digest s
   \<Longrightarrow> journal_kept s s'"
  by (auto simp: journal_kept_def journal_ok_def)

lemma audited_journal:
  assumes "audited event runID payload s s'"
  shows "journal_kept s s'"
proof -
  from assms obtain ev now where ev: "Build (wdb_last_sequence s + 1) (wdb_last_digest s) (auditInput event ''Run'' runID payload) now = Inr ev"
    and s': "s' = log_event ev s" by (auto simp: audited_def)
  have "journal_ok s'" if ok: "journal_ok s"
  proof -
    from ok Build_event [OF ev] have "event_ok (length (wdb_events s)) (root [] (wdb_events s)) ev"
      by (simp add: journal_ok_def event_ok_def add.commute)
    with ok Build_event [OF ev] show ?thesis by (simp add: journal_ok_def s' log_event_def Verify_snoc root_def add.commute)
  qed
  with s' show ?thesis by (auto simp: journal_kept_def)
qed

lemma journal_writes [intro!]:
  "tx_keeps journal_kept (workerAudit event runID payload)"
  "tx_keeps journal_kept (tx_write (\<lambda>now s. Inr (x, update_inbox (P now) (f now) s)))"
  "tx_keeps journal_kept (tx_write (\<lambda>now s. update_returning (P now) (f now) g s))"
  "tx_keeps journal_kept (tx_write (\<lambda>now s. if B then Inl e else update_returning (P now) (f now) g s))"
  "tx_keeps journal_kept (tx_write (\<lambda>now s. unless (Q now s) e (Inr (x, update_inbox (P now) (f now) s))))"
  "tx_keeps journal_kept (tx_write (\<lambda>_ s. Inr (x, s\<lparr>wdb_workers := w s\<rparr>)))"
  by (rule tx_keepsI, rule audited_journal, erule workerAudit_audited)
     (rule journal.keeps_write, auto simp: update_returning_Inr split: if_splits intro!: same_journal_kept)+

lemmas journal_reads [intro!] = read_only_worker [THEN journal.keeps_read_only]
  read_only_worker(2) [THEN read_only_try, THEN journal.keeps_read_only]
  read_only_intros(5) [THEN read_only_try, THEN journal.keeps_read_only]

lemma journal_bodies:
  "tx_keeps journal_kept (claim_body seen locked subject profile)"
  "tx_keeps journal_kept (renew_body subject token)"
  "tx_keeps journal_kept (report_body subject report)"
  unfolding claim_body_def renew_body_def report_body_def lease_intent_def revoke_intent_def record_receipt_def Let_def
  by (intro journal.keeps_intros journal_writes journal_reads)+

lemma journal_operations_kept:
  "claimInput v seen locked subject profile s = (q1, s') \<Longrightarrow> journal_kept s s'"
  "RenewInput v subject token s = (q2, s') \<Longrightarrow> journal_kept s s'"
  "ReportInput v subject report s = (q3, s') \<Longrightarrow> journal_kept s s'"
  unfolding claimInput_def RenewInput_def ReportInput_def
  by (erule journal.keeps_run [rotated], rule journal_bodies)+

section \<open>Undisturbed runs\<close>

text \<open>An environment in which every statement is answered.\<close>

definition undisturbed :: "wenv \<Rightarrow> bool" where
  "undisturbed v \<longleftrightarrow> we_ctx v = background"

lemma undisturbed_ctx [simp]: "undisturbed v \<Longrightarrow> we_ctx v k = None"
  by (simp add: undisturbed_def)

definition journal_room :: "'z worker_db_scheme \<Rightarrow> bool" where
  "journal_room s \<longleftrightarrow> journal_ok s \<and> length (wdb_events s) + 1 < 2 ^ 64"

lemma verified_sequences:
  "verify_from i prev es = None \<Longrightarrow> e \<in> set es \<Longrightarrow> \<exists>k < length es. jev_Sequence e = of_nat (i + k + 1)"
proof (induction es arbitrary: i prev)
  case (Cons x es)
  then have x: "event_ok i prev x" "verify_from (Suc i) (jev_Digest x) es = None" by (simp_all add: verify_from_Cons del: verify_from.simps)
  show ?case
  proof (cases "e = x")
    case True
    with x(1) show ?thesis by (intro exI [of _ 0]) (simp add: event_ok_def)
  next
    case False
    with Cons.prems(2) Cons.IH [OF x(2)] obtain k where "k < length es" "jev_Sequence e = of_nat (Suc i + k + 1)" by auto
    then show ?thesis by (intro exI [of _ "Suc k"]) simp
  qed
qed simp

lemma unat_of_nat_uint64: "a < 2 ^ 64 \<Longrightarrow> unat (of_nat a :: uint64) = a"
  by (simp add: unsigned_of_nat take_bit_nat_eq_self)

lemma workerAudit_ok:
  assumes "undisturbed v" and "journal_room s" and "event \<noteq> []"
  shows "\<exists>ev. workerAudit event runID payload v n s = (Inr ev, n + 3, log_event ev s)"
proof -
  let ?sq = "wdb_last_sequence s + 1"
  from assms(2) have sq: "?sq = of_nat (length (wdb_events s) + 1)" "length (wdb_events s) + 1 < 2 ^ 64"
    by (simp_all add: journal_room_def journal_ok_def add.commute)
  then have "unat ?sq = length (wdb_events s) + 1" using unat_of_nat_uint64 by metis
  then have "?sq \<noteq> 0" by (metis Suc_eq_plus1 nat.distinct(1) unat_0)
  with assms(3) obtain ev where ev: "Build ?sq (wdb_last_digest s) (auditInput event ''Run'' runID payload) (we_now v) = Inr ev"
    by (auto simp: Build_def Let_def auditInput_def)
  have "\<not> list_ex (\<lambda>e. jev_Sequence e = jev_Sequence ev) (wdb_events s)"
  proof
    assume "list_ex (\<lambda>e. jev_Sequence e = jev_Sequence ev) (wdb_events s)"
    then obtain e where e: "e \<in> set (wdb_events s)" "jev_Sequence e = ?sq" using Build_event [OF ev] by (auto simp: list_ex_iff)
    from assms(2) have "verify_from 0 [] (wdb_events s) = None" by (simp add: journal_room_def journal_ok_def Verify_def)
    from verified_sequences [OF this e(1)] e(2) sq obtain k where "k < length (wdb_events s)"
      "(of_nat (k + 1) :: uint64) = of_nat (length (wdb_events s) + 1)" by auto
    moreover from this sq(2) have "k + 1 = length (wdb_events s) + 1"
      by (metis unat_of_nat_uint64 add_less_mono1 less_trans)
    ultimately show False by simp
  qed
  with ev assms(1) have "workerAudit event runID payload v n s = (Inr ev, n + 3, log_event ev s)"
    by (subst workerAudit_effect) simp
  then show ?thesis ..
qed

lemma lockWorkerLease_ok:
  assumes "undisturbed v" and "holds_token subject token s row" and "scanned row r"
    and "db_recovery_mode (wdb_outbox s) \<in> {''NORMAL'', ''RECOVERY_RECONCILIATION''}"
  shows "lockWorkerLease subject token v n s =
     (Inr (r, db_recovery_epoch (wdb_outbox s), db_recovery_mode (wdb_outbox s)), n + 2, s)"
proof -
  from assms have "lockWorkerPlatform v n s =
      (Inr (db_recovery_epoch (wdb_outbox s), db_recovery_mode (wdb_outbox s)), Suc n, s)"
    by (subst lockWorkerPlatform_effect) auto
  moreover from assms(2,3) have "irec_owner r = subject" "inbox_token r = token"
    using scanned_token by (auto simp: holds_token_def scanned_def COALESCE_def)
  ultimately show ?thesis
    using assms(1-3) scanned_scanInbox [OF assms(3)] unfolding lockWorkerLease_def
    by (simp add: tx_bind_def tx_map_err_def tx_read_def tx_return_def holds_token_def)
qed

lemma liveWorkerLease_ok:
  assumes "undisturbed v" and "holds_token subject token s row" and "scanned row r" and "live_lease (we_clock v (n + 2)) s row"
  shows "liveWorkerLease r (db_recovery_epoch (wdb_outbox s)) (db_recovery_mode (wdb_outbox s)) v n s = (Inr (), n + 3, s)"
proof -
  from assms(3,4) obtain run sess where "wdb_runs s (irec_runID r) = Some run" "wdb_sessions s (irec_runID r) = Some sess"
    "run_active run sess (irec_intent r) = None"
    by (auto simp: live_lease_def run_live_def scanned_def)
  with assms(1) have act: "workerRunActive r v n s = (Inr (), n + 2, s)" by (subst workerRunActive_effect) auto
  from assms(2,3) holds_token_find have "find (\<lambda>i. inb_id i = irec_id r) (wdb_inbox s) = Some row" by (fastforce simp: scanned_def)
  moreover from assms(3,4) obtain t where "inb_until row = Some t" "we_clock v (n + 2) < t" by (auto simp: live_lease_def)
  moreover from assms(3,4) have "db_recovery_mode (wdb_outbox s) = ''NORMAL''" "irec_state r = ''LEASED''"
    "irec_epoch r = db_recovery_epoch (wdb_outbox s)" by (simp_all add: live_lease_def scanned_def)
  ultimately show ?thesis using act assms(1) unfolding liveWorkerLease_def
    by (simp add: tx_bind_def tx_read_def tx_return_def)
qed

section \<open>Admission\<close>

text \<open>
  C9. A worker's input is admitted only under live authority. When a report changes the
  database, the reporting worker holds the lease its token names, with the generation and recovery
  epoch of the token; that lease has not expired, neither at the database clock reading with which
  the transaction checks it nor at the later one with which it writes the row; the platform is in NORMAL mode and still in that
  recovery epoch; and run and session are running, owned by the runtime, not paused, and in the
  execution epoch and with the digests that the intent froze.
\<close>

theorem admission_is_fenced:
  assumes "ReportInput v subject report s = (answer, s')" and "s' \<noteq> s" and "inbox_inv s"
  shows "\<exists>row k k'. holds_token subject (rep_Token report) s row \<and> k < k'
     \<and> live_lease (we_clock v k) s row \<and> live_lease (we_clock v k') s row"
proof -
  from assms(3) have ids: "distinct (map inb_id (wdb_inbox s))" by (simp add: inbox_inv_def)
  from run_tx_cases [OF assms(1) [unfolded ReportInput_def]] assms(2)
  obtain x n where "report_body subject report v 1 s = (Inr (Commit x), n, s')" by blast
  from report_effect [OF this ids] show ?thesis unfolding live_throughout_def by blast
qed

lemma admitted_row:
  assumes "admits subject report row receipt s s'" and "row \<in> set (wdb_inbox s)"
  shows "validated_row receipt row \<in> set (wdb_inbox s')"
proof -
  from assms(1) obtain s1 now rfc3339 t where
    a: "audited ''worker.input.validated'' (inb_run_id row) (AdmissionReceipt_json rfc3339 receipt) s s1"
    and t: "inb_until row = Some t" "now < t" and s': "s' = update_inbox (unexpired now (inb_id row)) (validated_row receipt) s1"
    unfolding admits_def by blast
  from t have "unexpired now (inb_id row) row" by (simp add: unexpired_def)
  then show ?thesis using assms(2) unfolding s' update_inbox_frame audited_frame(1) [OF a]
    by (metis (mono_tags, lifting) image_eqI list.set_map)
qed


text \<open>The database holds the receipt that answers a report.\<close>

definition admitted :: "string \<Rightarrow> Report \<Rightarrow> AdmissionReceipt \<Rightarrow> 'z worker_db_scheme \<Rightarrow> bool" where
  "admitted subject report receipt s \<longleftrightarrow>
     (\<exists>row r. row \<in> set (wdb_inbox s) \<and> scanned row r \<and> inb_state row = Validated \<and> inb_receipt row = Some (Some receipt)
        \<and> inb_owner row = Some subject \<and> row_token row = rep_Token report)
     \<and> Token_Valid (rep_Token report) \<and> subject \<noteq> []
     \<and> Digest (Validation_json (rct_Validation receipt)) = rep_ValidationDigest report
     \<and> rct_Token receipt = rep_Token report \<and> rct_Worker receipt = subject"

lemma validated_scanned:
  assumes "scanned row r"
  shows "scanned (validated_row receipt row) (r\<lparr>irec_state := Validated, irec_receipt := Some receipt\<rparr>)"
  using assms by (simp add: scanned_def validated_row_def)

lemma report_admitted:
  assumes "ReportInput v subject report s = (Inr receipt, s')" and "inbox_inv s"
  shows "admitted subject report receipt s'"
proof -
  from assms(2) have ids: "distinct (map inb_id (wdb_inbox s))" by (simp add: inbox_inv_def)
  from assms(1) consider n s1 where "report_body subject report v 1 s = (Inr (Rollback receipt), n, s1)" "s' = s"
    | n where "report_body subject report v 1 s = (Inr (Commit receipt), n, s')"
    unfolding ReportInput_def run_tx_Inr by blast
  then show ?thesis
  proof cases
    case 1
    from report_effect [OF 1(1) ids] 1(2) holds_token_find show ?thesis
      unfolding admitted_def holds_token_def by (metis decision.distinct(1) decision.inject(1) holds_token_def)
  next
    case 2
    from report_effect [OF 2 ids] obtain row r where h: "holds_token subject (rep_Token report) s row" and sc: "scanned row r"
      and a: "admits subject report row receipt s s'" by blast
    from a obtain b where rc: "rct_Token receipt = rep_Token report" "rct_Worker receipt = subject"
      and b: "NewReport b = Inr report" "Validate b = Inr (rct_Validation receipt)" unfolding admits_def by blast
    have tok: "row_token (validated_row receipt row) = row_token row" "inb_owner (validated_row receipt row) = inb_owner row"
      "inb_state (validated_row receipt row) = Validated" "inb_receipt (validated_row receipt row) = Some (Some receipt)"
      by (simp_all add: row_token_def validated_row_def)
    have "validated_row receipt row \<in> set (wdb_inbox s')" using admitted_row [OF a] holds_token_find [OF h] by blast
    moreover from b have "Digest (Validation_json (rct_Validation receipt)) = rep_ValidationDigest report"
      by (auto simp: NewReport_Inr)
    ultimately show ?thesis using h rc tok validated_scanned [OF sc, of receipt]
      unfolding admitted_def holds_token_def by metis
  qed
qed

lemma admitted_stays:
  assumes "admitted subject report receipt s" and "inbox_inv s" and "inbox_kept s s'"
  shows "admitted subject report receipt s'"
proof -
  from assms(1) obtain row where "row \<in> set (wdb_inbox s)" "inb_state row = Validated"
    and rest: "row \<in> set (wdb_inbox s') \<Longrightarrow> admitted subject report receipt s'"
    unfolding admitted_def by blast
  with assms(2,3) have "row \<in> set (wdb_inbox s')" unfolding inbox_kept_def row_kept_def by metis
  with rest show ?thesis .
qed

lemma admitted_answer:
  assumes "admitted subject report receipt s" and "inbox_inv s" and "undisturbed v"
    and "db_recovery_mode (wdb_outbox s) \<in> {''NORMAL'', ''RECOVERY_RECONCILIATION''}"
  shows "ReportInput v subject report s = (Inr receipt, s)"
proof -
  from assms(1) obtain row r where row: "row \<in> set (wdb_inbox s)" "scanned row r" "inb_state row = Validated"
    "inb_receipt row = Some (Some receipt)" "inb_owner row = Some subject" "row_token row = rep_Token report"
    and rc: "Token_Valid (rep_Token report)" "subject \<noteq> []"
      "Digest (Validation_json (rct_Validation receipt)) = rep_ValidationDigest report"
      "rct_Token receipt = rep_Token report" "rct_Worker receipt = subject"
    unfolding admitted_def by blast
  have k: "tok_InboxID (rep_Token report) = inb_id row" using row(6) by (metis Token.select_convs(2) row_token_def)
  obtain i where i: "find (\<lambda>i. inb_id i = inb_id row) (wdb_inbox s) = Some i"
    using row(1) by (metis (mono_tags, lifting) find_None_iff not_Some_eq)
  with find_member [OF i] by_id [of "wdb_inbox s" row i] assms(2) row(1) have "i = row" by (auto simp: inbox_inv_def)
  with i k row rc have h: "holds_token subject (rep_Token report) s row" by (simp add: holds_token_def)
  from row(2,3,4) have "irec_state r = Validated" "irec_receipt r = Some receipt"
    by (cases "irec_receipt r"; auto simp: scanned_def)+
  with lockWorkerLease_ok [OF assms(3) h row(2) assms(4)] rc
  have "report_body subject report v 1 s = (Inr (Rollback receipt), 3, s)"
    unfolding report_body_def by (simp add: tx_bind_def tx_return_def)
  with assms(3) show ?thesis by (auto simp: ReportInput_def run_tx_Inr)
qed

section \<open>From claim to receipt\<close>

lemma worker_assignment_state [simp]:
  "worker_assignment (r\<lparr>irec_state := x\<rparr>) input task = worker_assignment r input task"
  by (simp add: worker_assignment_def inbox_token_def Let_def split: sum.split option.split)

lemma filter_single: "distinct xs \<Longrightarrow> x \<in> set xs \<Longrightarrow> filter (\<lambda>y. y = x) xs = [x]"
  by (induction xs) (auto simp: filter_empty_conv)

lemma record_receipt_ok:
  assumes "undisturbed v" and "journal_room s" and "scanned row r"
    and sel: "select_input (int_InputDigest (irec_intent r)) (irec_runID r) s = Inr (input, task)"
    and asg: "worker_assignment r input task = Inr a"
    and rep: "NewReport a = Inr report" and val: "Validate a = Inr validation"
    and "row \<in> set (wdb_inbox s)" and "distinct (map inb_id (wdb_inbox s))"
    and until: "inb_until row = Some t" "\<forall>k. we_clock v k < t"
  shows "\<exists>m s'. record_receipt subject r report v n s =
     (Inr (Commit (new_receipt (rep_Token report) subject validation (we_clock v (Suc n)))), m, s')"
proof -
  let ?rc = "new_receipt (rep_Token report) subject validation (we_clock v (Suc n))"
  from assms(1) sel asg have load: "loadWorkerAssignment r v n s = (Inr a, Suc n, s)"
    by (subst loadWorkerAssignment_effect) auto
  obtain ev where ev: "workerAudit ''worker.input.validated'' (irec_runID r) (AdmissionReceipt_json (we_rfc3339 v) ?rc) v (Suc (Suc n)) s
      = (Inr ev, Suc (Suc n) + 3, log_event ev s)"
    using workerAudit_ok [OF assms(1,2), of "''worker.input.validated''"] by blast
  have "filter (unexpired (we_clock v k) (inb_id row)) (wdb_inbox s) = [row]" for k
  proof -
    have "filter (\<lambda>i. i = row) (wdb_inbox s) = [row]"
      using filter_single [OF _ assms(8)] assms(9) by (simp add: distinct_map)
    moreover have "filter (unexpired (we_clock v k) (inb_id row)) (wdb_inbox s) = filter (\<lambda>i. i = row) (wdb_inbox s)"
      using until by_id [OF assms(9,8)] by (intro filter_cong) (auto simp: unexpired_def)
    ultimately show ?thesis by simp
  qed
  with assms(1,3) load ev rep val show ?thesis
    unfolding record_receipt_def Let_def
    by (simp add: tx_bind_def tx_read_def tx_lift_def tx_env_def tx_write_def tx_return_def scanned_def)
qed

lemma report_ok:
  assumes "undisturbed w" and "journal_room s" and h: "holds_token subject (rep_Token report) s row" "scanned row r"
    and live: "\<forall>k. live_lease (we_clock w k) s row" and ids: "distinct (map inb_id (wdb_inbox s))"
    and sel: "select_input (int_InputDigest (irec_intent r)) (irec_runID r) s = Inr (input, task)" "worker_assignment r input task = Inr a"
    and rep: "NewReport a = Inr report" "Validate a = Inr validation"
  shows "\<exists>s'. ReportInput w subject report s = (Inr (new_receipt (rep_Token report) subject validation (we_clock w 7)), s')"
proof -
  let ?rc = "new_receipt (rep_Token report) subject validation (we_clock w 7)"
  from live obtain t where t: "inb_until row = Some t" "\<forall>k. we_clock w k < t" unfolding live_lease_def by (metis option.inject)
  have mode: "db_recovery_mode (wdb_outbox s) = ''NORMAL''" and st: "irec_state r = ''LEASED''"
    using live h(2) by (auto simp: live_lease_def scanned_def)
  from holds_token_find [OF h(1)] have row: "row \<in> set (wdb_inbox s)" by blast
  from record_receipt_ok [OF assms(1,2) h(2) sel rep row ids t, of subject 6]
  obtain m s' where rr: "record_receipt subject r report w 6 s = (Inr (Commit ?rc), m, s')" by auto
  have "report_body subject report w 1 s = (Inr (Commit ?rc), m, s')"
    using lockWorkerLease_ok [OF assms(1) h] liveWorkerLease_ok [OF assms(1) h spec [OF live]] rr mode st
    unfolding report_body_def by (simp add: tx_bind_def Validated_def eval_nat_numeral)
  then show ?thesis using assms(1) unfolding ReportInput_def by (intro exI [of _ s']) (rule run_tx_commit, simp_all)
qed

text \<open>The row that a claim leaves, and the record a later transaction scans from it.\<close>

lemma claimed_row_effect:
  assumes "claimInput v seen locked subject profile s = (Inr (Some a, revoked), s1)" and "inbox_inv s" and "subject \<noteq> []"
  shows "\<exists>row r b now input task. row \<in> set (wdb_inbox s1) \<and> scanned row r \<and> inb_until row = Some (asg_LeaseUntil a)
     \<and> a = b\<lparr>asg_LeaseUntil := now + 30 * second\<rparr>
     \<and> select_input (int_InputDigest (irec_intent r)) (irec_runID r) s1 = Inr (input, task)
     \<and> worker_assignment r input task = Inr b
     \<and> inb_owner row = Some subject \<and> row_token row = asg_Token a \<and> Token_Valid (asg_Token a)
     \<and> (\<forall>t < asg_LeaseUntil a. live_lease t s1 row) \<and> inb_receipt row = None"
proof -
  from assms(1) obtain n where "claim_body seen locked subject profile v 1 s = (Inr (Commit (Some a, revoked)), n, s1)
      \<or> (\<exists>s2. claim_body seen locked subject profile v 1 s = (Inr (Rollback (Some a, revoked)), n, s2))"
    unfolding claimInput_def run_tx_Inr by blast
  then have body: "claim_body seen locked subject profile v 1 s = (Inr (Commit (Some a, revoked)), n, s1)"
    using claim_effect [of seen locked subject profile v 1 s "Rollback (Some a, revoked)"] by fastforce
  from claim_effect [OF body, simplified] obtain row r t b now where row: "claim_candidate t seen locked profile (wdb_inbox s) = Some row" and sc: "scanned row r"
    and mode: "db_recovery_mode (wdb_outbox s) = ''NORMAL''" and live: "run_live s row"
    and a: "a = b\<lparr>asg_LeaseUntil := now + 30 * second\<rparr>"
    and l: "leases subject (db_recovery_epoch (wdb_outbox s)) r now b (heartbeat subject profile s) s1"
    by blast
  let ?e = "db_recovery_epoch (wdb_outbox s)"
  let ?row = "lease_row now subject (irec_generation r + 1) ?e row"
  let ?r = "(bumped subject ?e r)\<lparr>irec_state := ''LEASED''\<rparr>"
  from l obtain input task where sel: "select_input (int_InputDigest (irec_intent r)) (irec_runID r) (heartbeat subject profile s) = Inr (input, task)"
    and asg: "worker_assignment (bumped subject ?e r) input task = Inr b"
    and aud: "audited ''worker.input.claimed'' (irec_runID r) (worker_token_json subject (asg_Token b))
      (update_inbox (\<lambda>i. inb_id i = irec_id r) (lease_row now subject (irec_generation r + 1) ?e) (heartbeat subject profile s)) s1"
    unfolding leases_def by blast
  note frame = audited_frame [OF aud, simplified]
  from claim_candidate_Some [OF row] have mem: "row \<in> set (wdb_inbox s)" and w: "waiting t row" by simp_all
  with assms(2) have rec: "inb_receipt row = None" using open_row waiting_open by (auto simp: inbox_inv_def)
  have "?row \<in> set (wdb_inbox s1)" using mem sc frame(1) by (auto simp: scanned_def image_iff intro: bexI [of _ row])
  moreover have "scanned ?row ?r" using sc rec
    by (cases "irec_receipt r") (simp_all add: scanned_def lease_row_def bumped_def COALESCE_def COALESCE0_def)
  moreover have "row_token ?row = asg_Token a"
    using worker_assignment_token [OF asg] sc a
    by (simp add: row_token_def lease_row_def inbox_token_def scanned_def COALESCE0_def)
  moreover have "Token_Valid (asg_Token a)" using worker_assignment_token [OF asg, THEN conjunct2] a by simp
  moreover have "select_input (int_InputDigest (irec_intent ?r)) (irec_runID ?r) s1 = Inr (input, task)"
    using sel frame(5,6) by (simp add: select_input_def cong: option.case_cong)
  moreover have "worker_assignment ?r input task = Inr b" using asg by simp
  moreover have "inb_until ?row = Some (asg_LeaseUntil a)" "inb_owner ?row = Some subject" "inb_receipt ?row = None"
    using a rec by (simp_all add: lease_row_def)
  moreover have "live_lease u s1 ?row" if "u < asg_LeaseUntil a" for u
    using that live mode frame a by (simp add: live_lease_def run_live_def lease_row_def COALESCE0_def)
  ultimately show ?thesis using a by blast
qed

lemma claim_report_ok:
  assumes "claimInput v seen locked subject profile s = (Inr (Some a, revoked), s1)" and "inbox_inv s" and "subject \<noteq> []"
    and "journal_room s1" and "undisturbed w" and "\<forall>k. we_clock w k < asg_LeaseUntil a \<and> we_clock w k \<noteq> 0"
  shows "\<exists>report receipt s2. NewReport a = Inr report \<and> ReportInput w subject report s1 = (Inr receipt, s2)
     \<and> VerifyReceipt a receipt = None"
proof -
  from claimed_row_effect [OF assms(1-3)] obtain row r b now input task where
    row: "row \<in> set (wdb_inbox s1)" "scanned row r" "inb_until row = Some (asg_LeaseUntil a)" "inb_owner row = Some subject"
      "row_token row = asg_Token a" "Token_Valid (asg_Token a)" "inb_receipt row = None"
    and a: "a = b\<lparr>asg_LeaseUntil := now + 30 * second\<rparr>"
    and sel: "select_input (int_InputDigest (irec_intent r)) (irec_runID r) s1 = Inr (input, task)"
    and asg: "worker_assignment r input task = Inr b"
    and live: "\<forall>t < asg_LeaseUntil a. live_lease t s1 row" by blast
  from asg obtain v where val: "Validate b = Inr v" by (auto simp: worker_assignment_Inr)
  let ?rep = "\<lparr>rep_Token = asg_Token b, rep_ValidationDigest = Digest (Validation_json v)\<rparr>"
  from val have rep: "NewReport b = Inr ?rep" by (simp add: NewReport_def)
  have "inbox_inv s1" using inbox_operations_kept(1) [OF assms(1)] assms(2) by (simp add: inbox_kept_def)
  then have ids: "distinct (map inb_id (wdb_inbox s1))" by (simp add: inbox_inv_def)
  have k: "tok_InboxID (asg_Token a) = inb_id row" using row(5) by (metis Token.select_convs(2) row_token_def)
  obtain i where i: "find (\<lambda>i. inb_id i = inb_id row) (wdb_inbox s1) = Some i"
    using row(1) by (metis (mono_tags, lifting) find_None_iff not_Some_eq)
  with find_member [OF i] by_id [OF ids row(1)] have "i = row" by blast
  with i k row a assms(3) have h: "holds_token subject (rep_Token ?rep) s1 row" by (simp add: holds_token_def)
  have l: "\<forall>k. live_lease (we_clock w k) s1 row" using live assms(6) by blast
  from report_ok [OF assms(5,4) h row(2) l ids sel asg rep val]
  obtain s2 where "ReportInput w subject ?rep s1 = (Inr (new_receipt (asg_Token b) subject v (we_clock w 7)), s2)" by auto
  moreover have "VerifyReceipt a (new_receipt (asg_Token b) subject v (we_clock w 7)) = None"
    using a val assms(3,6) by (simp add: VerifyReceipt_None new_receipt_def)
  ultimately show ?thesis using rep a by auto
qed

text \<open>
  C12. A worker whose claim is followed at once by its report succeeds. When a claim has handed out
  an assignment, its worker can compute the report from it; and when that report is the next operation
  on the database the claim left, runs undisturbed (no statement or commit fails), at database times
  before the lease expires, and with room left in the audit journal, then it is answered with a
  receipt, which the worker's own verification accepts. (An operation in between, such as a recovery
  or a takeover, may revoke the lease: then the report is refused.)
\<close>

theorem claimed_input_is_admitted:
  assumes "claimInput v seen locked subject profile s = (Inr (Some a, revoked), s1)" and "inbox_inv s" and "subject \<noteq> []"
    and "journal_room s1" and "undisturbed w" and "\<forall>k. we_clock w k < asg_LeaseUntil a \<and> we_clock w k \<noteq> 0"
  shows "\<exists>report receipt s2. NewReport a = Inr report \<and> ReportInput w subject report s1 = (Inr receipt, s2)
     \<and> VerifyReceipt a receipt = None"
  using assms by (rule claim_report_ok)

section \<open>A sample inbox\<close>

definition worker_task :: TaskContract where
  "worker_task = \<lparr>task_ID = ''T-1'', task_WorkItemID = ''W-1'', task_TaskType = ''bugfix'', task_CapabilityIDs = NilSlice,
     task_SkillIDs = NilSlice, task_SkillContractDigest = [], task_SkillGuidanceVersion = 0, task_Repository = ''repo'',
     task_BaseCommit = replicate 40 CHR ''a'', task_TargetID = [], task_TargetPlatform = [],
     task_AcceptanceCriteria = Slice [''builds''], task_AllowedActions = [''worker.offline-execute''], task_ExpectedOutputs = [],
     task_VerificationPlanID = ''VP-1'', task_VerificationPlanDigest = ''d'', task_Revision = 1\<rparr>"

definition sample_run_input :: RunInputManifest where
  "sample_run_input = \<lparr>input_Continuation = None, input_RunID = ''R-1'',
     input_TaskContractDigest = TaskContract_Digest worker_task, input_ContextRefs = [], input_RuntimeProfile = ''rt'',
     input_ToolProfile = ''tool'', input_WorkerProfile = ''wk'', input_PolicyProfile = ''pol''\<rparr>"

definition sample_intent :: Intent where
  "sample_intent = \<lparr>int_RunID = ''R-1'', int_TaskDigest = TaskContract_Digest worker_task,
     int_InputDigest = Digest (RunInputManifest_json sample_run_input), int_ExecutionEpoch = 1\<rparr>"

definition sample_inbox_row :: inbox_row where
  "sample_inbox_row = \<lparr>inb_id = 1, inb_outbox_key = ''run:R-1:started'', inb_run_id = ''R-1'',
     inb_intent_digest = Digest (Intent_json sample_intent), inb_intent = Some sample_intent, inb_profile = ''wk'',
     inb_state = ''PENDING'', inb_owner = None, inb_generation = 0, inb_epoch = None, inb_started = None, inb_until = None,
     inb_receipt = None\<rparr>"

definition sample_run :: Run where
  "sample_run = \<lparr>run_ID = ''R-1'', run_TaskContractDigest = TaskContract_Digest worker_task,
     run_RunInputManifestDigest = Digest (RunInputManifest_json sample_run_input), run_State = RunRunning, run_Version = 1,
     run_CurrentEpoch = 1, run_CurrentAttemptID = ''A-1'', run_ControlOwner = ''RUNTIME''\<rparr>"

definition sample_worker_db :: worker_db where
  "sample_worker_db = \<lparr>wdb_outbox = \<lparr>db_rows = [], db_recovery_epoch = 7, db_recovery_mode = ''NORMAL''\<rparr>,
     wdb_runs = [''R-1'' \<mapsto> sample_run], wdb_sessions = [''R-1'' \<mapsto> NewSession ''R-1'' 1],
     wdb_manifests = [\<lparr>man_digest = Digest (RunInputManifest_json sample_run_input), man_run_id = ''R-1'',
        man_task_digest = TaskContract_Digest worker_task, man_profile = ''wk'', man_json = Inr sample_run_input\<rparr>],
     wdb_tasks = [TaskContract_Digest worker_task \<mapsto> Some worker_task],
     wdb_inbox = [sample_inbox_row], wdb_workers = Map.empty, wdb_events = [], wdb_last_sequence = 0, wdb_last_digest = []\<rparr>"

definition sample_wenv :: "gotime \<Rightarrow> wenv" where
  "sample_wenv t = \<lparr>we_ctx = background, we_clock = (\<lambda>_. t), we_now = t, we_applied = False, we_rfc3339 = (\<lambda>_. ''t''),
     we_serial = 1, we_nonce = replicate 32 CHR ''n''\<rparr>"

lemma sample_wenv_simps [simp]:
  "undisturbed (sample_wenv t)" "we_clock (sample_wenv t) k = t" "we_ctx (sample_wenv t) k = None"
  by (simp_all add: undisturbed_def sample_wenv_def)

lemma sample_digests:
  "ValidDigest (TaskContract_Digest worker_task)" "Intent_Digest sample_intent = Inr (Digest (Intent_json sample_intent))"
  "RunInputManifest_Digest sample_run_input = Inr (Digest (RunInputManifest_json sample_run_input))"
  by (simp_all add: TaskContract_Digest_def Intent_Digest_def sample_intent_def RunInputManifest_Digest_def sample_run_input_def
      ValidateContextRefs_def continuation_error_def)

lemma sample_profile: "ValidProfile ''wk''"
  by (simp add: ValidProfile_def logicalName_def is_alnum_def is_digit_def byte_in_def)

lemma sample_commit: "fullCommit (replicate 40 CHR ''a'')"
  by (simp add: fullCommit_def match_exactly_def is_hex_def is_lower_hex_def is_digit_def byte_in_def list_all_iff)

definition sample_assignment :: "gotime \<Rightarrow> Assignment" where
  "sample_assignment t = \<lparr>asg_Token = \<lparr>tok_Profile = ''wk'', tok_InboxID = 1, tok_Generation = 1, tok_RecoveryEpoch = 7\<rparr>,
     asg_LeaseUntil = t, asg_Intent = sample_intent, asg_IntentDigest = Digest (Intent_json sample_intent),
     asg_Input = sample_run_input, asg_Task = worker_task\<rparr>"

lemma sample_fields [simp]:
  "int_RunID sample_intent = ''R-1''" "int_TaskDigest sample_intent = TaskContract_Digest worker_task"
  "int_InputDigest sample_intent = Digest (RunInputManifest_json sample_run_input)" "int_ExecutionEpoch sample_intent = 1"
  "input_RunID sample_run_input = ''R-1''" "input_TaskContractDigest sample_run_input = TaskContract_Digest worker_task"
  "input_RuntimeProfile sample_run_input = ''rt''" "input_ToolProfile sample_run_input = ''tool''"
  "input_WorkerProfile sample_run_input = ''wk''" "input_PolicyProfile sample_run_input = ''pol''"
  "input_ContextRefs sample_run_input = []"
  "task_ID worker_task = ''T-1''" "task_WorkItemID worker_task = ''W-1''" "task_BaseCommit worker_task = replicate 40 CHR ''a''"
  "task_AcceptanceCriteria worker_task = Slice [''builds'']"
  by (simp_all add: sample_intent_def sample_run_input_def worker_task_def del: replicate.simps)

lemma sample_validates:
  "Validate (sample_assignment t) = Inr \<lparr>val_Protocol = Protocol, val_IntentDigest = Digest (Intent_json sample_intent),
     val_InputDigest = Digest (RunInputManifest_json sample_run_input), val_TaskDigest = TaskContract_Digest worker_task,
     val_ContextCount = 0, val_ContextBytesVerified = False, val_ExecutionStarted = False\<rparr>"
  using sample_digests sample_profile sample_commit
  by (simp add: Validate_def sample_assignment_def Token_Valid_def Let_def)

definition sample_claimed :: worker_db where
  "sample_claimed = snd (claimInput (sample_wenv 5) (Map.empty, Map.empty) (\<lambda>_. False) ''w'' ''wk'' sample_worker_db)"

lemma sample_scan:
  "scanInbox (Some sample_inbox_row) = Inr (inbox_record sample_inbox_row sample_intent)"
  by (simp add: scanInbox_def sample_inbox_row_def sample_digests)

lemma sample_journal: "journal_room sample_worker_db"
  by (simp add: journal_room_def journal_ok_def sample_worker_db_def Verify_def root_def)

lemma sample_load:
  "worker_assignment (bumped ''w'' 7 (inbox_record sample_inbox_row sample_intent)) (Inr sample_run_input) (Some worker_task)
   = Inr (sample_assignment 0)"
proof -
  have "\<lparr>asg_Token = inbox_token (bumped ''w'' 7 (inbox_record sample_inbox_row sample_intent)), asg_LeaseUntil = 0,
      asg_Intent = sample_intent, asg_IntentDigest = Digest (Intent_json sample_intent), asg_Input = sample_run_input,
      asg_Task = worker_task\<rparr> = sample_assignment 0"
    by (simp add: sample_assignment_def inbox_token_def bumped_def inbox_record_def sample_inbox_row_def)
  moreover have "RunInputManifest_UnmarshalJSON (Inr sample_run_input) True = Inr sample_run_input"
    by (simp add: RunInputManifest_UnmarshalJSON_def ValidateContextRefs_def continuation_error_def sample_run_input_def)
  ultimately show ?thesis
    using sample_validates [of 0]
    by (simp add: worker_assignment_def Let_def) (simp add: bumped_def inbox_record_def sample_inbox_row_def)
qed

lemma sample_claim_run:
  "\<exists>ev. claimInput (sample_wenv 5) (Map.empty, Map.empty) (\<lambda>_. False) ''w'' ''wk'' sample_worker_db =
     (Inr (Some (sample_assignment (5 + 30 * second)), False),
      log_event ev (update_inbox (\<lambda>i. inb_id i = 1) (lease_row 5 ''w'' 1 7) (heartbeat ''w'' ''wk'' sample_worker_db)))"
proof -
  let ?v = "sample_wenv 5"
  let ?r = "inbox_record sample_inbox_row sample_intent"
  let ?h = "heartbeat ''w'' ''wk'' sample_worker_db"
  let ?u = "update_inbox (\<lambda>i. inb_id i = 1) (lease_row 5 ''w'' 1 7) ?h"
  have db [simp]: "wdb_inbox sample_worker_db = [sample_inbox_row]" "db_recovery_mode (wdb_outbox sample_worker_db) = ''NORMAL''"
    "db_recovery_epoch (wdb_outbox sample_worker_db) = 7" "wdb_runs sample_worker_db = [''R-1'' \<mapsto> sample_run]"
    "wdb_sessions sample_worker_db = [''R-1'' \<mapsto> NewSession ''R-1'' 1]"
    by (simp_all add: sample_worker_db_def)
  have row [simp]: "inb_id sample_inbox_row = 1" "irec_id ?r = 1" "irec_runID ?r = ''R-1''" "irec_generation ?r = 0"
    "irec_intent ?r = sample_intent"
    by (simp_all add: sample_inbox_row_def inbox_record_def)
  have "journal_room ?u" using sample_journal by (simp add: journal_room_def journal_ok_def)
  with workerAudit_ok [of ?v ?u "''worker.input.claimed''" "''R-1''"
      "worker_token_json ''w'' (asg_Token (sample_assignment 0))" 9] obtain ev where
    ev: "workerAudit ''worker.input.claimed'' ''R-1'' (worker_token_json ''w'' (asg_Token (sample_assignment 0))) ?v 9 ?u
      = (Inr ev, 12, log_event ev ?u)" by auto
  have load: "loadWorkerAssignment (bumped ''w'' 7 ?r) ?v 7 ?h = (Inr (sample_assignment 0), 8, ?h)"
    using sample_load
    by (subst loadWorkerAssignment_effect) (simp add: select_input_def select_row_def sample_worker_db_def heartbeat_def)
  have lease: "lease_intent ''w'' 7 ?r ?v 7 ?h = (Inr (Commit (Some (sample_assignment (5 + 30 * second)), False)), 12, log_event ev ?u)"
    using load ev unfolding lease_intent_def Let_def bumped_def [symmetric]
    by (simp add: tx_bind_def tx_write_def tx_return_def update_returning_def lease_row_def)
       (simp add: sample_assignment_def)
  have active: "workerRunActive ?r ?v 5 ?h = (Inr (), 7, ?h)"
    by (subst workerRunActive_effect) (simp add: run_active_def sample_run_def NewSession_def)
  have "claim_candidate 5 (Map.empty, Map.empty) (\<lambda>_. False) ''wk'' [sample_inbox_row] = Some sample_inbox_row"
    by (simp add: claim_candidate_def waiting_def seen_paused_def sample_inbox_row_def)
  moreover have "\<not> held_lease 5 ''w'' sample_inbox_row" by (simp add: held_lease_def sample_inbox_row_def)
  moreover have "lockWorkerPlatform ?v 1 sample_worker_db = (Inr (7, ''NORMAL''), 2, sample_worker_db)"
    by (subst lockWorkerPlatform_effect) simp
  ultimately have "claim_body (Map.empty, Map.empty) (\<lambda>_. False) ''w'' ''wk'' ?v 1 sample_worker_db =
      (Inr (Commit (Some (sample_assignment (5 + 30 * second)), False)), 12, log_event ev ?u)"
    using active lease sample_scan unfolding claim_body_def
    by (simp add: tx_bind_def tx_write_def tx_read_def tx_try_def heartbeat_def [symmetric] eval_nat_numeral)
  then have "claimInput ?v (Map.empty, Map.empty) (\<lambda>_. False) ''w'' ''wk'' sample_worker_db =
      (Inr (Some (sample_assignment (5 + 30 * second)), False), log_event ev ?u)"
    unfolding claimInput_def by (intro run_tx_commit) simp_all
  then show ?thesis by (rule exI [of _ ev])
qed

lemma sample_claim_ok:
  "claimInput (sample_wenv 5) (Map.empty, Map.empty) (\<lambda>_. False) ''w'' ''wk'' sample_worker_db =
     (Inr (Some (sample_assignment (5 + 30 * second)), False), sample_claimed)"
  using sample_claim_run by (auto simp: sample_claimed_def)

lemma sample_inbox_inv: "inbox_inv sample_worker_db"
  by (simp add: inbox_inv_def sample_worker_db_def row_ok_def sample_inbox_row_def Validated_def)

lemma sample_claimed_state:
  "wdb_inbox sample_claimed = [lease_row 5 ''w'' 1 7 sample_inbox_row]" "length (wdb_events sample_claimed) = 1"
  "wdb_outbox sample_claimed = wdb_outbox sample_worker_db"
  using sample_claim_run by (auto simp: sample_claimed_def sample_worker_db_def sample_inbox_row_def)

lemma sample_claimed_ok: "inbox_inv sample_claimed" "journal_room sample_claimed"
  using inbox_operations_kept(1) [OF sample_claim_ok] journal_operations_kept(1) [OF sample_claim_ok] sample_inbox_inv sample_journal
    sample_claimed_state(2)
  by (simp_all add: inbox_kept_def journal_kept_def journal_room_def)

lemma sample_report:
  "\<exists>report receipt s2. NewReport (sample_assignment (5 + 30 * second)) = Inr report
     \<and> ReportInput (sample_wenv 6) ''w'' report sample_claimed = (Inr receipt, s2) \<and> s2 \<noteq> sample_claimed"
proof -
  have "\<forall>k. we_clock (sample_wenv 6) k < asg_LeaseUntil (sample_assignment (5 + 30 * second)) \<and> we_clock (sample_wenv 6) k \<noteq> 0"
    by (simp add: sample_assignment_def second_def)
  from claim_report_ok [OF sample_claim_ok sample_inbox_inv _ sample_claimed_ok(2) sample_wenv_simps(1) this]
  obtain report receipt s2 where r: "NewReport (sample_assignment (5 + 30 * second)) = Inr report"
    "ReportInput (sample_wenv 6) ''w'' report sample_claimed = (Inr receipt, s2)" by auto
  from report_admitted [OF r(2) sample_claimed_ok(1)] have "\<exists>row \<in> set (wdb_inbox s2). inb_state row = Validated"
    by (auto simp: admitted_def)
  then have "s2 \<noteq> sample_claimed" by (auto simp: sample_claimed_state lease_row_def Validated_def)
  with r show ?thesis by blast
qed

theorem admission_is_fenced_witness:
  "\<exists>report answer s2 row. ReportInput (sample_wenv 6) ''w'' report sample_claimed = (answer, s2) \<and> s2 \<noteq> sample_claimed
     \<and> holds_token ''w'' (rep_Token report) sample_claimed row \<and> live_lease 6 sample_claimed row"
  using sample_report admission_is_fenced [of "sample_wenv 6" "''w''" _ sample_claimed] sample_claimed_ok(1)
  unfolding sample_wenv_simps by metis

theorem claimed_input_is_admitted_witness:
  "\<exists>report receipt s2. NewReport (sample_assignment (5 + 30 * second)) = Inr report
     \<and> ReportInput (sample_wenv 6) ''w'' report sample_claimed = (Inr receipt, s2)
     \<and> VerifyReceipt (sample_assignment (5 + 30 * second)) receipt = None"
  using claimed_input_is_admitted [OF sample_claim_ok sample_inbox_inv _ sample_claimed_ok(2) sample_wenv_simps(1), of 6]
  by (simp add: sample_assignment_def second_def)

end
