(* ===== verification/WorkerRelay.thy ===== *)
theory WorkerRelay
  imports WorkerLeases
begin

text \<open>
  The local relay (\<open>store/postgres/worker_relay.go\<close>): one transaction moves one \<open>run.started\<close> message
  of the outbox into the worker inbox, or gives it up as a dead letter. The decoder of the payload
  text is an argument.
\<close>

section \<open>Inserting an intent\<close>

definition inbox_conflict :: "int \<Rightarrow> string \<Rightarrow> string \<Rightarrow> inbox_row \<Rightarrow> bool" where
  "inbox_conflict serial key runID i \<longleftrightarrow> inb_id i = serial \<or> inb_outbox_key i = key \<or> inb_run_id i = runID"

definition pending_row :: "int \<Rightarrow> string \<Rightarrow> Intent \<Rightarrow> string \<Rightarrow> string \<Rightarrow> inbox_row" where
  "pending_row serial key intent digest profile =
     \<lparr>inb_id = serial, inb_outbox_key = key, inb_run_id = int_RunID intent, inb_intent_digest = digest,
      inb_intent = Some intent, inb_profile = profile, inb_state = ''PENDING'', inb_owner = None, inb_generation = 0,
      inb_epoch = None, inb_started = None, inb_until = None, inb_receipt = None\<rparr>"

definition insert_inbox :: "inbox_row \<Rightarrow> 'z worker_db_scheme \<Rightarrow> 'z worker_db_scheme" where
  "insert_inbox row s =
     (if list_ex (inbox_conflict (inb_id row) (inb_outbox_key row) (inb_run_id row)) (wdb_inbox s) then s
      else s\<lparr>wdb_inbox := wdb_inbox s @ [row]\<rparr>)"

definition intent_admitted :: "Run \<Rightarrow> Intent \<Rightarrow> err option" where
  "intent_admitted r i =
     (if run_TaskContractDigest r \<noteq> int_TaskDigest i \<or> run_RunInputManifestDigest r \<noteq> int_InputDigest i
         \<or> run_CurrentEpoch r \<noteq> int_ExecutionEpoch i
      then Some ErrIdentity
      else if run_ControlOwner r \<noteq> ''RUNTIME'' \<or> run_State r \<noteq> RunRunning \<and> run_State r \<noteq> RunPaused
      then Some ErrInactive else None)"

definition insertWorkerIntent :: "string \<Rightarrow> Intent \<Rightarrow> string \<Rightarrow> ('z worker_db_scheme, unit) tx" where
  "insertWorkerIntent key intent digest =
     tx_bind (tx_map_err (no_rows ErrIdentity) (tx_read (\<lambda>_ s. select_row (wdb_runs s) (int_RunID intent)))) (\<lambda>run.
     tx_bind (tx_lift (unless_err (intent_admitted run intent) (Inr ()))) (\<lambda>_.
     tx_bind (tx_read (\<lambda>_ s. select_where (\<lambda>m. man_digest m = run_RunInputManifestDigest run \<and> man_run_id m = int_RunID intent)
                                man_profile (wdb_manifests s))) (\<lambda>profile.
     tx_guard (\<not> ValidProfile profile) ErrIdentity
     (tx_bind (tx_env we_serial) (\<lambda>serial.
      tx_bind (tx_write (\<lambda>_ s. Inr ((), insert_inbox (pending_row serial key intent digest profile) s))) (\<lambda>_.
      tx_bind (tx_map_err (no_rows ErrIdentity)
                 (tx_read (\<lambda>_ s. select_where (\<lambda>i. inb_outbox_key i = key)
                                    (\<lambda>i. (inb_intent_digest i, inb_run_id i, inb_profile i)) (wdb_inbox s)))) (\<lambda>(storedDigest, storedRun, storedProfile).
      tx_guard (storedDigest \<noteq> digest \<or> storedRun \<noteq> int_RunID intent \<or> storedProfile \<noteq> profile) ErrIdentity
        (tx_return ()))))))))"

section \<open>The relay\<close>

definition relayable :: "gotime \<Rightarrow> outbox_row \<Rightarrow> bool" where
  "relayable now r \<longleftrightarrow>
     row_topic r = ''run.started'' \<and> row_next_attempt_at r \<le> now
     \<and> (row_state r = OutboxPending
        \<or> row_state r = OutboxLeased \<and> (case row_lease_until r of None \<Rightarrow> False | Some t \<Rightarrow> t \<le> now))"

definition relay_candidate :: "gotime \<Rightarrow> (int \<Rightarrow> bool) \<Rightarrow> outbox_row list \<Rightarrow> outbox_row option" where
  "relay_candidate now locked rows =
     (case sort_key row_id (filter (\<lambda>r. relayable now r \<and> \<not> locked (row_id r)) rows) of [] \<Rightarrow> None | r # _ \<Rightarrow> Some r)"

definition relay_lease :: "gotime \<Rightarrow> string \<Rightarrow> uint64 \<Rightarrow> uint64 \<Rightarrow> outbox_row \<Rightarrow> outbox_row" where
  "relay_lease now owner attmpt epoch r =
     r\<lparr>row_state := OutboxLeased, row_lease_owner := Some owner, row_attempt_count := unat attmpt,
       row_lease_until := Some (now + 30 * second), row_lease_recovery_epoch := Some epoch\<rparr>"

definition update_outbox :: "(outbox_row \<Rightarrow> bool) \<Rightarrow> (outbox_row \<Rightarrow> outbox_row) \<Rightarrow> 'z worker_db_scheme \<Rightarrow> 'z worker_db_scheme" where
  "update_outbox P f s =
     s\<lparr>wdb_outbox := (wdb_outbox s)\<lparr>db_rows := map (\<lambda>r. if P r then f r else r) (db_rows (wdb_outbox s))\<rparr>\<rparr>"

definition tx_settle :: "Lease \<Rightarrow> Resolution \<Rightarrow> ('z worker_db_scheme, unit) tx" where
  "tx_settle l r v n s =
     (case settleOutbox (ctx_from n (we_ctx v)) (we_clock v n) l r (wdb_outbox s) of
        Inl e \<Rightarrow> (Inl e, Suc n, s)
      | Inr db \<Rightarrow> (Inr (), Suc n, s\<lparr>wdb_outbox := db\<rparr>))"

definition relay_resolution :: "(string \<Rightarrow> Intent option) \<Rightarrow> Message \<Rightarrow> ('z worker_db_scheme, Resolution \<times> string) tx" where
  "relay_resolution decode m =
     (case decode (msg_Payload m) of
        None \<Rightarrow> tx_return (resolution OutboxDeadLetter ''invalid run intent'', [])
      | Some intent \<Rightarrow>
          if msg_AggregateType m \<noteq> ''Run'' \<or> msg_AggregateID m \<noteq> int_RunID intent
             \<or> msg_Key m \<noteq> ''run:'' @ int_RunID intent @ '':started''
          then tx_return (resolution OutboxDeadLetter ''invalid run intent'', [])
          else
            (case Intent_Digest intent of
               Inl e \<Rightarrow>
                 tx_guard (\<not> errors_Is e ErrIdentity \<and> \<not> errors_Is e ErrInactive) e
                   (tx_return (resolution OutboxDeadLetter ''run intent identity revoked or mismatched'', []))
             | Inr digest \<Rightarrow>
                 tx_bind (tx_try (insertWorkerIntent (msg_Key m) intent digest)) (\<lambda>q.
                   case q of
                     Inl e \<Rightarrow>
                       tx_guard (\<not> errors_Is e ErrIdentity \<and> \<not> errors_Is e ErrInactive) e
                         (tx_return (resolution OutboxDeadLetter ''run intent identity revoked or mismatched'', digest))
                   | Inr _ \<Rightarrow> tx_return (resolution OutboxDispatched [], digest))))"

definition transfer_json :: "string \<Rightarrow> string \<Rightarrow> OutboxState \<Rightarrow> json" where
  "transfer_json key digest st = JObj
     (str_field ''outbox_key'' key @ str_field ''intent_digest'' digest
      @ str_field ''outbox_state'' (OutboxState_string st))"

definition relay_message :: "(string \<Rightarrow> Intent option) \<Rightarrow> string \<Rightarrow> uint64 \<Rightarrow> Message \<Rightarrow> ('z worker_db_scheme, bool decision) tx" where
  "relay_message decode owner epoch m0 =
     (let m = m0\<lparr>msg_LeaseOwner := owner, msg_AttemptCount := msg_AttemptCount m0 + 1, msg_LeaseRecoveryEpoch := epoch\<rparr> in
      tx_bind (tx_write (\<lambda>now s. if unat (msg_AttemptCount m) \<ge> 2 ^ 63 then Inl (ErrText ''bigint out of range'')
                 else Inr ((), update_outbox (\<lambda>r. row_id r = msg_ID m) (relay_lease now owner (msg_AttemptCount m) epoch) s))) (\<lambda>_.
      tx_bind (relay_resolution decode m) (\<lambda>(res, digest).
      tx_bind (tx_settle (Message_Lease m) res) (\<lambda>_.
      tx_bind (workerAudit ''worker.inbox.transferred'' (msg_AggregateID m) (transfer_json (msg_Key m) digest (res_State res))) (\<lambda>_.
      tx_return (Commit True))))))"

definition relay_body :: "(string \<Rightarrow> Intent option) \<Rightarrow> (int \<Rightarrow> bool) \<Rightarrow> string \<Rightarrow> ('z worker_db_scheme, bool decision) tx" where
  "relay_body decode locked owner =
     tx_bind (tx_read (\<lambda>_ s. Inr (db_recovery_epoch (wdb_outbox s), db_recovery_mode (wdb_outbox s)))) (\<lambda>(epoch, mode).
     if mode \<noteq> ''NORMAL''
     then if mode = ''RECOVERY_RECONCILIATION'' then tx_return (Rollback False) else tx_fail ErrRecovery
     else
       tx_bind (tx_try (tx_read (\<lambda>now s. case relay_candidate now locked (db_rows (wdb_outbox s)) of
                                         None \<Rightarrow> Inl ErrNoRows | Some r \<Rightarrow> Inr (scanOutbox r)))) (\<lambda>found.
         case found of
           Inl e \<Rightarrow> if errors_Is e ErrNoRows then tx_return (Rollback False) else tx_fail e
         | Inr m \<Rightarrow> tx_guard (msg_RiskClass m \<noteq> ControlledMutation) OutboxErrRiskClass (relay_message decode owner epoch m)))"

definition relayRunStart ::
  "(string \<Rightarrow> Intent option) \<Rightarrow> wenv \<Rightarrow> (int \<Rightarrow> bool) \<Rightarrow> string \<Rightarrow> 'z worker_db_scheme \<Rightarrow> bool result \<times> 'z worker_db_scheme" where
  "relayRunStart decode v locked owner s = run_tx (relay_body decode locked owner) v s"

text \<open>The number transferred is reported together with the error that ended the loop.\<close>

fun relay_loop ::
  "(string \<Rightarrow> Intent option) \<Rightarrow> (wenv \<times> (int \<Rightarrow> bool)) list \<Rightarrow> string \<Rightarrow> int \<Rightarrow> 'z worker_db_scheme \<Rightarrow> int \<times> err option \<times> 'z worker_db_scheme" where
  "relay_loop decode [] owner transferred s = (transferred, None, s)"
| "relay_loop decode ((v, locked) # rest) owner transferred s =
     (case relayRunStart decode v locked owner s of (r, s') \<Rightarrow>
        (case r of
           Inl e \<Rightarrow> (transferred, Some e, s')
         | Inr found \<Rightarrow> if \<not> found then (transferred, None, s') else relay_loop decode rest owner (transferred + 1) s'))"

definition RelayRunStarts ::
  "(string \<Rightarrow> Intent option) \<Rightarrow> (nat \<Rightarrow> wenv \<times> (int \<Rightarrow> bool)) \<Rightarrow> string \<Rightarrow> int \<Rightarrow> 'z worker_db_scheme \<Rightarrow> int \<times> err option \<times> 'z worker_db_scheme" where
  "RelayRunStarts decode vs owner limit s =
     (if owner = [] \<or> limit < 1 \<or> limit > 64 then (0, Some (ErrText ''invalid local relay configuration''), s)
      else relay_loop decode (map vs [0..<nat limit]) owner 0 s)"

section \<open>What the relay keeps\<close>

lemma pending_row_ok: "row_ok (pending_row serial key intent digest profile)"
  by (simp add: row_ok_def pending_row_def Validated_def)

lemma insert_inbox_kept:
  assumes "row_ok row"
  shows "inbox_kept s (insert_inbox row s)"
proof (cases "list_ex (inbox_conflict (inb_id row) (inb_outbox_key row) (inb_run_id row)) (wdb_inbox s)")
  case True
  then show ?thesis by (simp add: insert_inbox_def inbox.refl)
next
  case False
  then have "inb_id row \<notin> inb_id ` set (wdb_inbox s)" "inb_outbox_key row \<notin> inb_outbox_key ` set (wdb_inbox s)"
    "inb_run_id row \<notin> inb_run_id ` set (wdb_inbox s)"
    by (fastforce simp: list_ex_iff inbox_conflict_def)+
  moreover from False have "wdb_inbox (insert_inbox row s) = wdb_inbox s @ [row]" by (simp add: insert_inbox_def)
  moreover have "\<forall>i \<in> set (wdb_inbox s). \<exists>i' \<in> set (wdb_inbox s @ [row]). row_kept i i'" using row_kept_refl by fastforce
  ultimately show ?thesis using assms unfolding inbox_kept_def inbox_inv_def by simp
qed

lemma insertWorkerIntent_done:
  assumes "insertWorkerIntent key intent digest v n s = (Inr u, n', s')"
  shows "\<exists>i \<in> set (wdb_inbox s'). inb_outbox_key i = key \<and> inb_intent_digest i = digest \<and> inb_run_id i = int_RunID intent"
  using assms by (auto simp: insertWorkerIntent_def dest!: find_member)

text \<open>A relation that the inbox may change under: everything else a relay relies on stays.\<close>

definition only_inbox :: "'z worker_db_scheme \<Rightarrow> 'z worker_db_scheme \<Rightarrow> bool" where
  "only_inbox s s' \<longleftrightarrow>
     wdb_outbox s' = wdb_outbox s \<and> wdb_events s' = wdb_events s \<and> wdb_last_sequence s' = wdb_last_sequence s
     \<and> wdb_last_digest s' = wdb_last_digest s \<and> inbox_kept s s'"

interpretation transfer: guarantee "only_inbox :: 'z worker_db_scheme \<Rightarrow> 'z worker_db_scheme \<Rightarrow> bool"
  by unfold_locales (auto simp: only_inbox_def inbox.refl intro: inbox.trans)

lemma insertWorkerIntent_frame: "always only_inbox (insertWorkerIntent key intent digest)"
proof -
  have "only_inbox s (insert_inbox (pending_row serial key intent digest profile) s)" for serial profile and s :: "'z worker_db_scheme"
    using insert_inbox_kept [OF pending_row_ok, of s serial key intent digest profile] by (auto simp: only_inbox_def insert_inbox_def)
  then show ?thesis unfolding insertWorkerIntent_def
    by (intro transfer.always_intros transfer.always_write) auto
qed

text \<open>What a relayed message leaves: its row is settled, and a dispatched one is in the inbox.\<close>

lemma relay_resolution_effect:
  assumes "relay_resolution decode m v n s = (Inr (res, digest), n', s')"
  shows "only_inbox s s'
     \<and> (res_State res = OutboxDispatched \<and> (\<exists>i \<in> set (wdb_inbox s'). inb_outbox_key i = msg_Key m \<and> inb_intent_digest i = digest)
        \<or> res_State res = OutboxDeadLetter)"
proof -
  from assms consider "s' = s" "res_State res = OutboxDeadLetter"
    | intent q n1 where "insertWorkerIntent (msg_Key m) intent digest v n s = (q, n1, s')"
      "res_State res = (case q of Inl _ \<Rightarrow> OutboxDeadLetter | Inr _ \<Rightarrow> OutboxDispatched)"
  proof -
    assume dead: "s' = s \<Longrightarrow> res_State res = OutboxDeadLetter \<Longrightarrow> thesis"
      and ins: "\<And>intent q n1. insertWorkerIntent (msg_Key m) intent digest v n s = (q, n1, s') \<Longrightarrow>
        res_State res = (case q of Inl _ \<Rightarrow> OutboxDeadLetter | Inr _ \<Rightarrow> OutboxDispatched) \<Longrightarrow> thesis"
    show thesis
    proof (cases "\<exists>intent d. decode (msg_Payload m) = Some intent \<and> Intent_Digest intent = Inr d
        \<and> \<not> (msg_AggregateType m \<noteq> ''Run'' \<or> msg_AggregateID m \<noteq> int_RunID intent
             \<or> msg_Key m \<noteq> ''run:'' @ int_RunID intent @ '':started'')")
      case True
      then obtain intent d where d: "decode (msg_Payload m) = Some intent" "Intent_Digest intent = Inr d"
        "msg_AggregateType m = ''Run''" "msg_AggregateID m = int_RunID intent" "msg_Key m = ''run:'' @ int_RunID intent @ '':started''"
        by auto
      with assms obtain q n1 s1 where q: "insertWorkerIntent (msg_Key m) intent d v n s = (q, n1, s1)"
        and r: "(case q of
                   Inl e \<Rightarrow> tx_guard (\<not> errors_Is e ErrIdentity \<and> \<not> errors_Is e ErrInactive) e
                     (tx_return (resolution OutboxDeadLetter ''run intent identity revoked or mismatched'', d))
                 | Inr _ \<Rightarrow> tx_return (resolution OutboxDispatched [], d)) v n1 s1 = (Inr (res, digest), n', s')"
        unfolding relay_resolution_def by auto
      from r have "s1 = s'" "d = digest" "res_State res = (case q of Inl _ \<Rightarrow> OutboxDeadLetter | Inr _ \<Rightarrow> OutboxDispatched)"
        by (cases q; simp add: resolution_def)+
      with q show thesis by (intro ins) auto
    next
      case False
      with assms have "s' = s \<and> res_State res = OutboxDeadLetter"
        by (auto simp: relay_resolution_def resolution_def split: option.splits sum.splits if_splits)
      then show thesis by (intro dead) auto
    qed
  qed
  then show ?thesis
  proof cases
    case 2
    show ?thesis
    proof (cases q)
      case (Inr u)
      with 2 insertWorkerIntent_done [of "msg_Key m" intent digest v n s u n1 s'] alwaysD [OF insertWorkerIntent_frame 2(1)]
      show ?thesis by auto
    qed (use 2 alwaysD [OF insertWorkerIntent_frame 2(1)] in simp)
  qed (simp add: transfer.refl)
qed

definition resolved :: "string \<Rightarrow> outbox_row \<Rightarrow> 'z worker_db_scheme \<Rightarrow> bool" where
  "resolved key row s \<longleftrightarrow>
     row_key row = key
     \<and> (row_state row = OutboxDispatched \<and> (\<exists>i \<in> set (wdb_inbox s). inb_outbox_key i = key)
        \<or> row_state row = OutboxDeadLetter)"

lemma relay_lease_simps [simp]:
  "row_id (relay_lease now owner a epoch r) = row_id r" "row_key (relay_lease now owner a epoch r) = row_key r"
  by (simp_all add: relay_lease_def)

lemma settled_row_simps [simp]:
  "row_id (settled_row now res r) = row_id r" "row_key (settled_row now res r) = row_key r"
  "row_state (settled_row now res r) = res_State res"
  by (simp_all add: settled_row_def Let_def)

lemma settle_effect:
  assumes "tx_settle l res v n s = (Inr u, n', s')"
  shows "\<exists>now. length (filter (held now l) (db_rows (wdb_outbox s))) = 1
     \<and> s' = update_outbox (held now l) (settled_row now res) s"
  using assms by (auto simp: tx_settle_def settleOutbox_def update_outbox_def split: sum.splits option.splits)

lemma relay_message_effect:
  assumes "relay_message decode owner epoch m v n s = (Inr d, n', s')"
  shows "\<exists>now attmpt s1 s2 res t l. d = Commit True
     \<and> only_inbox (update_outbox (\<lambda>r. row_id r = msg_ID m) (relay_lease now owner attmpt epoch) s) s1
     \<and> lease_ID l = msg_ID m \<and> length (filter (held t l) (db_rows (wdb_outbox s1))) = 1
     \<and> s2 = update_outbox (held t l) (settled_row t res) s1
     \<and> (\<exists>payload. audited ''worker.inbox.transferred'' (msg_AggregateID m) payload s2 s')
     \<and> (res_State res = OutboxDispatched \<and> (\<exists>i \<in> set (wdb_inbox s1). inb_outbox_key i = msg_Key m)
        \<or> res_State res = OutboxDeadLetter)"
proof -
  let ?m = "m\<lparr>msg_LeaseOwner := owner, msg_AttemptCount := msg_AttemptCount m + 1, msg_LeaseRecoveryEpoch := epoch\<rparr>"
  let ?s0 = "update_outbox (\<lambda>r. row_id r = msg_ID m) (relay_lease (we_clock v n) owner (msg_AttemptCount m + 1) epoch) s"
  from assms obtain res digest n1 s1 u n2 s2 ev n3 where
      r: "relay_resolution decode ?m v (Suc n) ?s0 = (Inr (res, digest), n1, s1)"
    and st: "tx_settle (Message_Lease ?m) res v n1 s1 = (Inr u, n2, s2)"
    and log: "workerAudit ''worker.inbox.transferred'' (msg_AggregateID m) (transfer_json (msg_Key m) digest (res_State res)) v n2 s2 = (Inr ev, n3, s')"
    and d: "d = Commit True"
    unfolding relay_message_def Let_def by (auto split: if_splits)
  from settle_effect [OF st] obtain t where t: "length (filter (held t (Message_Lease ?m)) (db_rows (wdb_outbox s1))) = 1"
    "s2 = update_outbox (held t (Message_Lease ?m)) (settled_row t res) s1" by blast
  have l: "lease_ID (Message_Lease ?m) = msg_ID m" by (simp add: Message_Lease_def)
  from relay_resolution_effect [OF r] have eff: "only_inbox ?s0 s1"
    "res_State res = OutboxDispatched \<and> (\<exists>i \<in> set (wdb_inbox s1). inb_outbox_key i = msg_Key m) \<or> res_State res = OutboxDeadLetter"
    by auto
  from workerAudit_audited [OF log] have "\<exists>payload. audited ''worker.inbox.transferred'' (msg_AggregateID m) payload s2 s'" by blast
  with d eff l t show ?thesis by blast
qed

lemma relay_effect:
  assumes "relay_body decode locked owner v n s = (Inr d, n', s')"
  shows "d = Rollback False
     \<or> (\<exists>k row n1. relay_candidate (we_clock v k) locked (db_rows (wdb_outbox s)) = Some row \<and> db_recovery_mode (wdb_outbox s) = ''NORMAL''
          \<and> row_risk_class row = ControlledMutation
          \<and> relay_message decode owner (db_recovery_epoch (wdb_outbox s)) (scanOutbox row) v n1 s = (Inr d, n', s'))"
proof (cases "db_recovery_mode (wdb_outbox s) = ''NORMAL''")
  case False
  with assms show ?thesis by (auto simp: relay_body_def split: if_splits)
next
  case True
  with assms obtain q n1 s1 where q: "tx_read (\<lambda>now s. case relay_candidate now locked (db_rows (wdb_outbox s)) of
        None \<Rightarrow> Inl ErrNoRows | Some r \<Rightarrow> Inr (scanOutbox r)) v (Suc n) s = (q, n1, s1)"
    and rest: "(case q of
           Inl e \<Rightarrow> if errors_Is e ErrNoRows then tx_return (Rollback False) else tx_fail e
         | Inr m \<Rightarrow> tx_guard (msg_RiskClass m \<noteq> ControlledMutation) OutboxErrRiskClass
                     (relay_message decode owner (db_recovery_epoch (wdb_outbox s)) m)) v n1 s1 = (Inr d, n', s')"
    by (auto simp: relay_body_def)
  show ?thesis
  proof (cases q)
    case (Inl e)
    with rest show ?thesis by (auto split: if_splits)
  next
    case (Inr m)
    with q obtain row where "relay_candidate (we_clock v (Suc n)) locked (db_rows (wdb_outbox s)) = Some row" "m = scanOutbox row"
      "s1 = s" by (auto split: option.splits)
    with rest Inr True show ?thesis by (intro disjI2 exI [of _ "Suc n"] exI [of _ row] exI [of _ n1]) (auto simp: scanOutbox_def)
  qed
qed

lemma relay_candidate_Some:
  assumes "relay_candidate now locked rows = Some r"
  shows "r \<in> set rows \<and> relayable now r \<and> \<not> locked (row_id r)"
proof -
  from assms have "r \<in> set (sort_key row_id (filter (\<lambda>r. relayable now r \<and> \<not> locked (row_id r)) rows))"
    by (auto simp: relay_candidate_def split: list.splits simp del: set_sort)
  then show ?thesis by simp
qed

lemma update_outbox_frame [simp]:
  "wdb_inbox (update_outbox P f s) = wdb_inbox s" "wdb_events (update_outbox P f s) = wdb_events s"
  "wdb_last_sequence (update_outbox P f s) = wdb_last_sequence s" "wdb_last_digest (update_outbox P f s) = wdb_last_digest s"
  "db_rows (wdb_outbox (update_outbox P f s)) = map (\<lambda>r. if P r then f r else r) (db_rows (wdb_outbox s))"
  by (simp_all add: update_outbox_def)

lemma relay_kept:
  assumes "relay_body decode locked owner v n s = (Inr (Commit x), n', s')"
  shows "inbox_kept s s' \<and> journal_kept s s'"
proof -
  from relay_effect [OF assms] obtain row n1 where
    "relay_message decode owner (db_recovery_epoch (wdb_outbox s)) (scanOutbox row) v n1 s = (Inr (Commit x), n', s')" by auto
  from relay_message_effect [OF this] obtain now attmpt s1 s2 res t l payload where
    o: "only_inbox (update_outbox (\<lambda>r. row_id r = msg_ID (scanOutbox row)) (relay_lease now owner attmpt (db_recovery_epoch (wdb_outbox s))) s) s1"
    and s2: "s2 = update_outbox (held t l) (settled_row t res) s1"
    and a: "audited ''worker.inbox.transferred'' (msg_AggregateID (scanOutbox row)) payload s2 s'" by blast
  have "inbox_kept s s1"
  proof (rule inbox.trans)
    show "inbox_kept s (update_outbox (\<lambda>r. row_id r = msg_ID (scanOutbox row))
        (relay_lease now owner attmpt (db_recovery_epoch (wdb_outbox s))) s)" by (simp add: same_inbox_kept)
  qed (use o in \<open>simp add: only_inbox_def\<close>)
  moreover have "inbox_kept s1 s2" using s2 by (simp add: same_inbox_kept)
  moreover have "journal_kept s s2" using o s2 by (auto simp: only_inbox_def intro: same_journal_kept)
  ultimately show ?thesis using audited_kept [OF a] audited_journal [OF a] inbox.trans journal.trans by blast
qed

lemma relay_operation_kept:
  "relayRunStart decode v locked owner s = (q, s') \<Longrightarrow> inbox_kept s s'"
  "relayRunStart decode v locked owner s = (q, s') \<Longrightarrow> journal_kept s s'"
  unfolding relayRunStart_def
  by (erule inbox.checked_run [rotated], use relay_kept in blast) (erule journal.checked_run [rotated], use relay_kept in blast)

section \<open>The transfer\<close>

text \<open>
  C10. The relay moves a message exactly together with its fate: when it reports a
  transfer, the platform was in NORMAL mode, a \<open>run.started\<close> message of the risk class it requires
  was waiting (at one reading of the database clock its next attempt was due, and it was PENDING or
  LEASED with a lease that had run out, and no other transaction had its row locked), and in the same transaction that message became DISPATCHED with an inbox row under
  its key, or a dead letter. It is never dispatched without the row.
\<close>

theorem relay_transfers_atomically:
  assumes "relayRunStart decode v locked owner s = (Inr True, s')"
    and "distinct (map row_id (db_rows (wdb_outbox s)))"
  shows "\<exists>row \<in> set (db_rows (wdb_outbox s)). \<exists>row' \<in> set (db_rows (wdb_outbox s')). \<exists>k.
     row_topic row = ''run.started'' \<and> row_risk_class row = ControlledMutation
     \<and> row_next_attempt_at row \<le> we_clock v k \<and> \<not> locked (row_id row)
     \<and> (row_state row = OutboxPending
        \<or> row_state row = OutboxLeased \<and> (\<exists>t. row_lease_until row = Some t \<and> t \<le> we_clock v k))
     \<and> db_recovery_mode (wdb_outbox s) = ''NORMAL''
     \<and> row_id row' = row_id row \<and> resolved (row_key row) row' s'"
proof -
  from assms(1) obtain n where b: "relay_body decode locked owner v 1 s = (Inr (Commit True), n, s')
      \<or> (\<exists>s1. relay_body decode locked owner v 1 s = (Inr (Rollback True), n, s1))"
    unfolding relayRunStart_def run_tx_Inr by blast
  then obtain k row n1 where c: "relay_candidate (we_clock v k) locked (db_rows (wdb_outbox s)) = Some row"
    "db_recovery_mode (wdb_outbox s) = ''NORMAL''" "row_risk_class row = ControlledMutation"
    and m: "relay_message decode owner (db_recovery_epoch (wdb_outbox s)) (scanOutbox row) v n1 s = (Inr (Commit True), n, s')"
    using relay_effect relay_message_effect by (metis decision.distinct(1) decision.inject(1))
  from relay_candidate_Some [OF c(1)] have row: "row \<in> set (db_rows (wdb_outbox s))" "row_topic row = ''run.started''"
    and due: "row_next_attempt_at row \<le> we_clock v k" "\<not> locked (row_id row)"
      "row_state row = OutboxPending
        \<or> row_state row = OutboxLeased \<and> (\<exists>t. row_lease_until row = Some t \<and> t \<le> we_clock v k)"
    by (auto simp: relayable_def split: option.splits)
  have msg: "msg_ID (scanOutbox row) = row_id row" "msg_Key (scanOutbox row) = row_key row" by (simp_all add: scanOutbox_def)
  from relay_message_effect [OF m, unfolded msg] obtain now1 attmpt s1 s2 res t l payload where
    o: "only_inbox (update_outbox (\<lambda>r. row_id r = row_id row) (relay_lease now1 owner attmpt (db_recovery_epoch (wdb_outbox s))) s) s1"
    and l: "lease_ID l = row_id row" "length (filter (held t l) (db_rows (wdb_outbox s1))) = 1"
    and s2: "s2 = update_outbox (held t l) (settled_row t res) s1"
    and a: "audited ''worker.inbox.transferred'' (msg_AggregateID (scanOutbox row)) payload s2 s'"
    and res: "res_State res = OutboxDispatched \<and> (\<exists>i \<in> set (wdb_inbox s1). inb_outbox_key i = row_key row) \<or> res_State res = OutboxDeadLetter"
    by blast
  from l(2) obtain r1 where r1: "r1 \<in> set (db_rows (wdb_outbox s1))" "held t l r1"
    by (metis One_nat_def filter_False list.size(3) zero_neq_one)
  with o obtain r0 where r0: "r0 \<in> set (db_rows (wdb_outbox s))" "row_id r0 = row_id r1" "row_key r0 = row_key r1"
    by (auto simp: only_inbox_def split: if_splits)
  from r1 l(1) r0 row(1) assms(2) have "r0 = row" by (metis held_def inj_onD distinct_map)
  with r0 have "row_id (settled_row t res r1) = row_id row" "row_key (settled_row t res r1) = row_key row" by simp_all
  moreover have "settled_row t res r1 \<in> set (db_rows (wdb_outbox s'))"
    using r1 audited_frame(4) [OF a] by (auto simp: s2 image_iff intro: bexI [of _ r1])
  moreover have "wdb_inbox s' = wdb_inbox s1" using audited_frame(1) [OF a] by (simp add: s2)
  moreover have "row_state (settled_row t res r1) = res_State res" by simp
  ultimately have "row_id (settled_row t res r1) = row_id row" "resolved (row_key row) (settled_row t res r1) s'"
    "settled_row t res r1 \<in> set (db_rows (wdb_outbox s'))"
    using res by (simp_all add: resolved_def del: settled_row_simps)
  with row c(2,3) due show ?thesis by blast
qed

definition sample_message_row :: outbox_row where
  "sample_message_row = \<lparr>row_id = 3, row_key = ''run:R-1:started'', row_topic = ''run.started'', row_aggregate_type = Some ''Run'',
     row_aggregate_id = Some ''R-1'', row_risk_class = ControlledMutation, row_payload = ''{}'', row_state = OutboxPending,
     row_attempt_count = 0, row_lease_owner = None, row_lease_until = None, row_next_attempt_at = 1, row_last_error = None,
     row_created_at = 1, row_dispatched_at = None, row_lease_recovery_epoch = None\<rparr>"

definition sample_outbox :: outbox_db where
  "sample_outbox = \<lparr>db_rows = [sample_message_row], db_recovery_epoch = 7, db_recovery_mode = ''NORMAL''\<rparr>"

definition sample_relay_db :: worker_db where
  "sample_relay_db = sample_worker_db\<lparr>wdb_outbox := sample_outbox, wdb_inbox := []\<rparr>"

lemma sample_insert_intent:
  "insertWorkerIntent ''run:R-1:started'' sample_intent (Digest (Intent_json sample_intent)) (sample_wenv 5) 4
     (sample_relay_db\<lparr>wdb_outbox := db\<rparr>) =
   (Inr (), 8, sample_relay_db\<lparr>wdb_outbox := db, wdb_inbox := [sample_inbox_row]\<rparr>)"
proof -
  have "pending_row 1 ''run:R-1:started'' sample_intent (Digest (Intent_json sample_intent)) ''wk'' = sample_inbox_row"
    by (simp add: pending_row_def sample_inbox_row_def)
  moreover have "intent_admitted sample_run sample_intent = None" by (simp add: intent_admitted_def sample_run_def)
  moreover have "wdb_runs sample_relay_db = [''R-1'' \<mapsto> sample_run]" "wdb_inbox sample_relay_db = []"
    "find (\<lambda>m. man_digest m = run_RunInputManifestDigest sample_run \<and> man_run_id m = ''R-1'') (wdb_manifests sample_relay_db)
     = Some (hd (wdb_manifests sample_relay_db))" "man_profile (hd (wdb_manifests sample_relay_db)) = ''wk''"
    by (simp_all add: sample_relay_db_def sample_worker_db_def sample_run_def)
  moreover have "we_serial (sample_wenv 5) = 1" by (simp add: sample_wenv_def)
  moreover have "inb_outbox_key sample_inbox_row = ''run:R-1:started''" "inb_intent_digest sample_inbox_row = Digest (Intent_json sample_intent)"
    "inb_run_id sample_inbox_row = ''R-1''" "inb_profile sample_inbox_row = ''wk''"
    by (simp_all add: sample_inbox_row_def)
  ultimately show ?thesis
    unfolding insertWorkerIntent_def
    by (simp add: tx_bind_def tx_read_def tx_map_err_def tx_lift_def tx_env_def tx_write_def tx_return_def select_row_def
        select_where_def insert_inbox_def sample_profile eval_nat_numeral)
qed

lemma sample_relay:
  "\<exists>s'. relayRunStart (\<lambda>_. Some sample_intent) (sample_wenv 5) (\<lambda>_. False) ''relay'' sample_relay_db = (Inr True, s')"
proof -
  let ?v = "sample_wenv 5"
  let ?m = "(scanOutbox sample_message_row)\<lparr>msg_LeaseOwner := ''relay'', msg_AttemptCount := 1, msg_LeaseRecoveryEpoch := 7\<rparr>"
  let ?r1 = "relay_lease 5 ''relay'' 1 7 sample_message_row"
  let ?s1 = "sample_relay_db\<lparr>wdb_outbox := sample_outbox\<lparr>db_rows := [?r1]\<rparr>\<rparr>"
  let ?s2 = "sample_relay_db\<lparr>wdb_outbox := sample_outbox\<lparr>db_rows := [?r1]\<rparr>, wdb_inbox := [sample_inbox_row]\<rparr>"
  let ?s3 = "?s2\<lparr>wdb_outbox := sample_outbox\<lparr>db_rows := [settled_row 5 (resolution OutboxDispatched []) ?r1]\<rparr>\<rparr>"
  have lease: "update_outbox (\<lambda>r. row_id r = 3) (relay_lease 5 ''relay'' 1 7) sample_relay_db = ?s1"
    by (simp add: update_outbox_def sample_relay_db_def sample_outbox_def sample_message_row_def)
  have res: "relay_resolution (\<lambda>_. Some sample_intent) ?m ?v 4 ?s1 = (Inr (resolution OutboxDispatched [], Digest (Intent_json sample_intent)), 8, ?s2)"
    using sample_insert_intent [of "sample_outbox\<lparr>db_rows := [?r1]\<rparr>"]
    by (simp add: relay_resolution_def scanOutbox_def sample_message_row_def COALESCE_def sample_digests tx_bind_def tx_try_def tx_return_def)
  have settle: "tx_settle (Message_Lease ?m) (resolution OutboxDispatched []) ?v 8 ?s2 = (Inr (), 9, ?s3)"
    by (simp add: tx_settle_def settleOutbox_def Message_Lease_def Lease_Valid_def scanOutbox_def sample_message_row_def
        resolution_def Resolution_Validate_def held_def relay_lease_def sample_outbox_def sample_relay_db_def second_def)
  have "journal_room ?s3" using sample_journal by (simp add: journal_room_def journal_ok_def sample_relay_db_def)
  with workerAudit_ok [of ?v ?s3 "''worker.inbox.transferred''" "''R-1''"
      "transfer_json ''run:R-1:started'' (Digest (Intent_json sample_intent)) OutboxDispatched" 9] obtain ev where
    ev: "workerAudit ''worker.inbox.transferred'' ''R-1'' (transfer_json ''run:R-1:started'' (Digest (Intent_json sample_intent)) OutboxDispatched)
      ?v 9 ?s3 = (Inr ev, 12, log_event ev ?s3)" by auto
  have ids: "msg_AttemptCount (scanOutbox sample_message_row) = 0" "msg_ID (scanOutbox sample_message_row) = 3"
    "msg_AggregateID (scanOutbox sample_message_row) = ''R-1''" "msg_Key (scanOutbox sample_message_row) = ''run:R-1:started''"
    "msg_RiskClass (scanOutbox sample_message_row) = ControlledMutation"
    by (simp_all add: scanOutbox_def sample_message_row_def COALESCE_def)
  have "relay_message (\<lambda>_. Some sample_intent) ''relay'' 7 (scanOutbox sample_message_row) ?v 3 sample_relay_db
      = (Inr (Commit True), 12, log_event ev ?s3)"
    using res settle ev lease ids unfolding relay_message_def Let_def
    by (simp add: tx_bind_def tx_write_def tx_return_def resolution_def)
  moreover have "relay_candidate 5 (\<lambda>_. False) [sample_message_row] = Some sample_message_row"
    by (simp add: relay_candidate_def relayable_def sample_message_row_def)
  moreover have "wdb_outbox sample_relay_db = sample_outbox" by (simp add: sample_relay_db_def)
  ultimately have "relay_body (\<lambda>_. Some sample_intent) (\<lambda>_. False) ''relay'' ?v 1 sample_relay_db = (Inr (Commit True), 12, log_event ev ?s3)"
    using ids unfolding relay_body_def
    by (simp add: tx_bind_def tx_read_def tx_try_def sample_outbox_def eval_nat_numeral)
  then have "relayRunStart (\<lambda>_. Some sample_intent) ?v (\<lambda>_. False) ''relay'' sample_relay_db = (Inr True, log_event ev ?s3)"
    unfolding relayRunStart_def by (intro run_tx_commit) simp_all
  then show ?thesis by (rule exI [of _ "log_event ev ?s3"])
qed

theorem relay_transfers_atomically_witness:
  "\<exists>s'. relayRunStart (\<lambda>_. Some sample_intent) (sample_wenv 5) (\<lambda>_. False) ''relay'' sample_relay_db = (Inr True, s')
     \<and> (\<exists>row' \<in> set (db_rows (wdb_outbox s')). row_id row' = 3 \<and> resolved ''run:R-1:started'' row' s')"
proof -
  obtain s' where s': "relayRunStart (\<lambda>_. Some sample_intent) (sample_wenv 5) (\<lambda>_. False) ''relay'' sample_relay_db = (Inr True, s')"
    using sample_relay by blast
  have rows: "db_rows (wdb_outbox sample_relay_db) = [sample_message_row]" by (simp add: sample_relay_db_def sample_outbox_def)
  from relay_transfers_atomically [OF s'] obtain row' where "row' \<in> set (db_rows (wdb_outbox s'))"
    "row_id row' = row_id sample_message_row" "resolved (row_key sample_message_row) row' s'" unfolding rows by auto
  with s' show ?thesis by (auto simp: sample_message_row_def)
qed

end
