(* ===== verification/Sandbox.thy ===== *)
theory Sandbox
  imports CoreModel
begin

text \<open>
  Offline commands: package \<open>sandbox\<close> (\<open>profile.go\<close>, the contract and the recorded outputs of
  \<open>build_outputs.go\<close>, and the independent inspection of the created container in \<open>inspect.go\<close>). Byte
  slices keep the difference between nil and empty, which their JSON text shows.
\<close>

section \<open>Byte slices and paths\<close>

definition b64_char :: "nat \<Rightarrow> char" where
  "b64_char k = ''ABCDEFGHIJKLMNOPQRSTUVWXYZabcdefghijklmnopqrstuvwxyz0123456789+/'' ! (k mod 64)"

fun EncodeToString :: "string \<Rightarrow> string" where
  "EncodeToString [] = []"
| "EncodeToString [a] = (let x = of_char a * 16 in [b64_char (x div 64), b64_char x, CHR ''='', CHR ''=''])"
| "EncodeToString [a, b] =
     (let x = (of_char a * 256 + of_char b) * 4 in [b64_char (x div 4096), b64_char (x div 64), b64_char x, CHR ''=''])"
| "EncodeToString (a # b # c # rest) =
     (let x = (of_char a * 256 + of_char b) * 256 + of_char c in
      [b64_char (x div 262144), b64_char (x div 4096), b64_char (x div 64), b64_char x] @ EncodeToString rest)"

definition bytes_field :: "string \<Rightarrow> char slice \<Rightarrow> (string \<times> json) list" where
  "bytes_field k b = [(k, case b of NilSlice \<Rightarrow> JNull | Slice cs \<Rightarrow> JStr (EncodeToString cs))]"

definition Hash :: "string \<Rightarrow> string" where
  "Hash data = BytesDigest data"

text \<open>\<open>path.IsAbs\<close>, and \<open>path.Clean\<close> of a rooted path.\<close>

fun path_segments :: "string \<Rightarrow> string \<Rightarrow> string list" where
  "path_segments acc [] = [rev acc]"
| "path_segments acc (c # cs) = (if c = CHR ''/'' then rev acc # path_segments [] cs else path_segments (c # acc) cs)"

fun clean_segments :: "string list \<Rightarrow> string list \<Rightarrow> string list" where
  "clean_segments out [] = rev out"
| "clean_segments out (seg # segs) =
     (if seg = [] \<or> seg = ''.'' then clean_segments out segs
      else if seg = ''..'' then clean_segments (tl out) segs
      else clean_segments (seg # out) segs)"

definition path_IsAbs :: "string \<Rightarrow> bool" where
  "path_IsAbs p = HasPrefix p ''/''"

definition clean_rooted :: "string \<Rightarrow> string" where
  "clean_rooted p =
     (case clean_segments [] (path_segments [] p) of [] \<Rightarrow> ''/'' | segs \<Rightarrow> concat (map (\<lambda>seg. CHR ''/'' # seg) segs))"

section \<open>Output contracts\<close>

definition BuildOutputLimit :: int where "BuildOutputLimit = 256 * 2 ^ 10"
definition BuildFileLimit :: int where "BuildFileLimit = 128 * 2 ^ 10"
definition BuildMemberLimit :: nat where "BuildMemberLimit = 8"
definition OutputLimit :: nat where "OutputLimit = 128 * 2 ^ 10"
definition SandboxRecipe :: string where "SandboxRecipe = ''docker-offline-readonly-v1''"
definition BuildGuardMode :: string where "BuildGuardMode = ''--build-output-v1''"

definition buildName :: "string \<Rightarrow> bool" where
  "buildName = match_class is_alnum (\<lambda>c. is_alnum c \<or> c \<in> set ''._-'') 63"

record OutputSpec =
  spec_Name :: string
  spec_MaxBytes :: int

definition OutputSpec_json :: "OutputSpec \<Rightarrow> json" where
  "OutputSpec_json o' = JObj (str_field ''name'' (spec_Name o') @ int_field ''max_bytes'' (spec_MaxBytes o'))"

text \<open>The loop over at most eight members; each accepted size is at most 128 KiB, so the sum cannot wrap.\<close>

fun check_contract :: "int \<Rightarrow> string \<Rightarrow> OutputSpec list \<Rightarrow> int option" where
  "check_contract acc previous [] = Some acc"
| "check_contract acc previous (spec # specs) =
     (if \<not> buildName (spec_Name spec) \<or> spec_Name spec \<le> previous \<or> spec_MaxBytes spec < 1 \<or> spec_MaxBytes spec > BuildFileLimit
      then None else check_contract (acc + spec_MaxBytes spec) (spec_Name spec) specs)"

definition ValidateOutputContract :: "OutputSpec list \<Rightarrow> err option" where
  "ValidateOutputContract contract =
     (if length contract < 1 \<or> length contract > BuildMemberLimit then Some ErrPolicy
      else case check_contract 0 [] contract of
             None \<Rightarrow> Some ErrPolicy
           | Some acc \<Rightarrow> if acc > BuildOutputLimit then Some ErrPolicy else None)"

definition contract_json :: "OutputSpec slice \<Rightarrow> json" where
  "contract_json c = (case c of NilSlice \<Rightarrow> JNull | Slice specs \<Rightarrow> JArr (map OutputSpec_json specs))"

definition OutputContractDigest :: "OutputSpec slice \<Rightarrow> string result" where
  "OutputContractDigest contract =
     unless_err (ValidateOutputContract (elems contract)) (Inr (Hash (json_encode (contract_json contract))))"

section \<open>Profiles\<close>

record Profile =
  pro_Image :: string
  pro_GuardDigest :: string
  pro_Argv :: "string slice"
  pro_Seconds :: int
  pro_Outputs :: "OutputSpec slice"

definition Profile_json :: "Profile \<Rightarrow> json" where
  "Profile_json p = JObj
     (str_field ''image_id'' (pro_Image p) @ str_field ''guard_digest'' (pro_GuardDigest p)
      @ slice_field ''argv'' JStr (pro_Argv p) @ int_field ''timeout_seconds'' (pro_Seconds p)
      @ list_opt ''outputs'' OutputSpec_json (elems (pro_Outputs p)))"

definition Profile_Validate :: "Profile \<Rightarrow> err option" where
  "Profile_Validate p =
     (let argv = elems (pro_Argv p) in
      if pro_Outputs p \<noteq> NilSlice \<and> ValidateOutputContract (elems (pro_Outputs p)) \<noteq> None then Some ErrPolicy
      else if \<not> ValidDigest (pro_Image p) \<or> \<not> ValidDigest (pro_GuardDigest p) \<or> pro_Seconds p < 1 \<or> pro_Seconds p > 45
           \<or> length argv < 1 \<or> length argv > 32 then Some ErrPolicy
      else if \<not> path_IsAbs (hd argv) \<or> clean_rooted (hd argv) \<noteq> hd argv \<or> hd argv = ''/ep-guard'' then Some ErrPolicy
      else if list_ex (\<lambda>arg. CHR 0x00 \<in> set arg) argv then Some ErrPolicy
      else if sum_list (map length argv) > 8192 then Some ErrPolicy
      else None)"

definition Profile_Digest :: "Profile \<Rightarrow> string result" where
  "Profile_Digest p = unless_err (Profile_Validate p) (Inr (Hash (json_encode (Profile_json p))))"

definition GuardArguments :: "Profile \<Rightarrow> string list" where
  "GuardArguments p =
     (if elems (pro_Outputs p) \<noteq> []
      then [BuildGuardMode, EncodeToString (json_encode (contract_json (pro_Outputs p))), ''--''] else [])
     @ elems (pro_Argv p)"

section \<open>Results\<close>

record OutputFile =
  ofile_Name :: string
  ofile_Size :: int
  ofile_Digest :: string
  ofile_Bytes :: "char slice"

definition OutputFile_json :: "OutputFile \<Rightarrow> json" where
  "OutputFile_json f = JObj
     (str_field ''name'' (ofile_Name f) @ int_field ''size'' (ofile_Size f) @ str_field ''digest'' (ofile_Digest f)
      @ bytes_field ''bytes'' (ofile_Bytes f))"

record BuildOutputs =
  bo_Contract :: "OutputSpec slice"
  bo_ContractDigest :: string
  bo_State :: string
  bo_ChildrenReaped :: bool
  bo_Files :: "OutputFile slice"

definition BuildOutputs_json :: "BuildOutputs \<Rightarrow> json" where
  "BuildOutputs_json b = JObj
     (slice_field ''contract'' OutputSpec_json (bo_Contract b) @ str_field ''contract_digest'' (bo_ContractDigest b)
      @ str_field ''state'' (bo_State b) @ bool_field ''children_reaped'' (bo_ChildrenReaped b)
      @ slice_field ''files'' OutputFile_json (bo_Files b))"

definition file_matches :: "OutputSpec \<Rightarrow> OutputFile \<Rightarrow> bool" where
  "file_matches spec f \<longleftrightarrow>
     ofile_Name f = spec_Name spec \<and> 0 \<le> ofile_Size f \<and> ofile_Size f \<le> spec_MaxBytes spec
     \<and> int (length (elems (ofile_Bytes f))) = ofile_Size f \<and> ofile_Digest f = Hash (elems (ofile_Bytes f))"

definition BuildOutputs_Validate :: "BuildOutputs option \<Rightarrow> int \<Rightarrow> err option" where
  "BuildOutputs_Validate bo exitCode =
     (case bo of
        None \<Rightarrow> None
      | Some b \<Rightarrow>
          (case OutputContractDigest (bo_Contract b) of
             Inl _ \<Rightarrow> Some ErrPolicy
           | Inr digest \<Rightarrow>
               if digest \<noteq> bo_ContractDigest b \<or> \<not> bo_ChildrenReaped b \<or> exitCode < 0 \<or> exitCode > 255 then Some ErrPolicy
               else if exitCode \<noteq> 0
               then if bo_State b \<noteq> ''NOT_COLLECTED_EXIT_NONZERO'' \<or> elems (bo_Files b) \<noteq> [] then Some ErrPolicy else None
               else if bo_State b \<noteq> ''COLLECTED'' \<or> length (elems (bo_Files b)) \<noteq> length (elems (bo_Contract b)) then Some ErrPolicy
               else if \<not> list_all2 file_matches (elems (bo_Contract b)) (elems (bo_Files b)) then Some ErrPolicy
               else None))"

record Result =
  rslt_Recipe :: string
  rslt_ProfileDigest :: string
  rslt_ContainerID :: string
  rslt_ExitCode :: int
  rslt_Stdout :: "char slice"
  rslt_Stderr :: "char slice"
  rslt_StdoutDigest :: string
  rslt_StderrDigest :: string
  rslt_UserID :: int
  rslt_BuildOutputs :: "BuildOutputs option"

definition Result_json :: "Result \<Rightarrow> json" where
  "Result_json r = JObj
     (str_field ''recipe'' (rslt_Recipe r) @ str_field ''profile_digest'' (rslt_ProfileDigest r)
      @ str_field ''container_id'' (rslt_ContainerID r) @ int_field ''exit_code'' (rslt_ExitCode r)
      @ bytes_field ''stdout'' (rslt_Stdout r) @ bytes_field ''stderr'' (rslt_Stderr r)
      @ str_field ''stdout_digest'' (rslt_StdoutDigest r) @ str_field ''stderr_digest'' (rslt_StderrDigest r)
      @ int_field ''user_id'' (rslt_UserID r)
      @ (case rslt_BuildOutputs r of None \<Rightarrow> [] | Some b \<Rightarrow> [(''build_outputs'', BuildOutputs_json b)]))"

definition hex64 :: "string \<Rightarrow> bool" where
  "hex64 = match_exactly is_lower_hex 64"

definition Result_Validate :: "Result \<Rightarrow> Profile \<Rightarrow> err option" where
  "Result_Validate r p =
     (if (elems (pro_Outputs p) \<noteq> []) \<noteq> (rslt_BuildOutputs r \<noteq> None)
         \<or> BuildOutputs_Validate (rslt_BuildOutputs r) (rslt_ExitCode r) \<noteq> None then Some ErrPolicy
      else if (case rslt_BuildOutputs r of None \<Rightarrow> False | Some b \<Rightarrow> bo_Contract b \<noteq> pro_Outputs p) then Some ErrPolicy
      else if Profile_Digest p \<noteq> Inr (rslt_ProfileDigest r) \<or> rslt_Recipe r \<noteq> SandboxRecipe \<or> \<not> hex64 (rslt_ContainerID r)
           \<or> rslt_ExitCode r < 0 \<or> rslt_ExitCode r > 255 \<or> rslt_ExitCode r = 122 \<or> rslt_UserID r < 1
           \<or> length (elems (rslt_Stdout r)) > OutputLimit \<or> length (elems (rslt_Stderr r)) > OutputLimit
           \<or> Hash (elems (rslt_Stdout r)) \<noteq> rslt_StdoutDigest r \<or> Hash (elems (rslt_Stderr r)) \<noteq> rslt_StderrDigest r
      then Some ErrPolicy
      else None)"

section \<open>What an accepted result says\<close>

lemma check_contract_Some:
  "check_contract acc previous specs = Some t \<Longrightarrow>
     t = acc + sum_list (map spec_MaxBytes specs) \<and> (\<forall>spec \<in> set specs. previous < spec_Name spec) \<and> distinct (map spec_Name specs)"
proof (induction specs arbitrary: acc previous)
  case (Cons spec specs)
  then have less: "previous < spec_Name spec" and rest: "check_contract (acc + spec_MaxBytes spec) (spec_Name spec) specs = Some t"
    by (auto split: if_splits)
  from Cons.IH [OF rest] less show ?case by force
qed simp

lemma ValidateOutputContract_None:
  assumes "ValidateOutputContract specs = None"
  shows "length specs \<le> BuildMemberLimit \<and> specs \<noteq> [] \<and> sum_list (map spec_MaxBytes specs) \<le> BuildOutputLimit \<and> distinct (map spec_Name specs)"
proof -
  from assms obtain t where "check_contract 0 [] specs = Some t" "t \<le> BuildOutputLimit" "\<not> length specs < 1" "length specs \<le> BuildMemberLimit"
    by (auto simp: ValidateOutputContract_def split: if_splits option.splits)
  with check_contract_Some [OF this(1)] show ?thesis by (cases specs) auto
qed

lemma files_bounded:
  "list_all2 file_matches specs files \<Longrightarrow>
     map ofile_Name files = map spec_Name specs
     \<and> int (sum_list (map (\<lambda>f. length (elems (ofile_Bytes f))) files)) \<le> sum_list (map spec_MaxBytes specs)"
  by (induction rule: list_all2_induct) (auto simp: file_matches_def)

text \<open>
  C22. A result that the platform accepts is small and complete: its standard output and error have
  at most 128 KiB each; it carries build outputs exactly when the profile declares some; after a
  successful command these are exactly the declared files, in order and under distinct names, at
  most eight of them with at most 256 KiB of content altogether; after a failed command there are
  none; and no result carries the exit code by which the guard reports a truncated transcript.
\<close>

theorem accepted_result_is_bounded:
  assumes "Result_Validate r p = None"
  shows "length (elems (rslt_Stdout r)) \<le> 128 * 2 ^ 10 \<and> length (elems (rslt_Stderr r)) \<le> 128 * 2 ^ 10
     \<and> rslt_ExitCode r \<noteq> 122
     \<and> (case rslt_BuildOutputs r of
          None \<Rightarrow> elems (pro_Outputs p) = []
        | Some b \<Rightarrow>
            length (elems (bo_Files b)) \<le> 8
            \<and> sum_list (map (\<lambda>f. length (elems (ofile_Bytes f))) (elems (bo_Files b))) \<le> 256 * 2 ^ 10
            \<and> map ofile_Name (elems (bo_Files b))
                = (if rslt_ExitCode r = 0 then map spec_Name (elems (pro_Outputs p)) else [])
            \<and> distinct (map spec_Name (elems (pro_Outputs p))))"
proof (cases "rslt_BuildOutputs r")
  case None
  with assms show ?thesis by (simp add: Result_Validate_def OutputLimit_def split: if_splits)
next
  case (Some b)
  with assms have b: "BuildOutputs_Validate (Some b) (rslt_ExitCode r) = None" "bo_Contract b = pro_Outputs p"
    and small: "length (elems (rslt_Stdout r)) \<le> 128 * 2 ^ 10" "length (elems (rslt_Stderr r)) \<le> 128 * 2 ^ 10" "rslt_ExitCode r \<noteq> 122"
    by (simp_all add: Result_Validate_def OutputLimit_def split: if_splits)
  from b have "ValidateOutputContract (elems (pro_Outputs p)) = None"
    by (auto simp: BuildOutputs_Validate_def OutputContractDigest_def split: sum.splits option.splits)
  note c = ValidateOutputContract_None [OF this]
  show ?thesis
  proof (cases "rslt_ExitCode r = 0")
    case True
    with b have "list_all2 file_matches (elems (pro_Outputs p)) (elems (bo_Files b))"
      by (auto simp: BuildOutputs_Validate_def split: sum.splits if_splits)
    from files_bounded [OF this] list_all2_lengthD [OF this] c small Some True show ?thesis
      by (simp add: BuildOutputLimit_def BuildMemberLimit_def)
  next
    case False
    with b have "elems (bo_Files b) = []" by (auto simp: BuildOutputs_Validate_def split: sum.splits if_splits)
    with c small Some False show ?thesis by simp
  qed
qed

section \<open>Inspection of the created container\<close>

text \<open>
  The engine's own description of the container, decoded. A decoded map is an association list with
  distinct keys; a missing key reads as the empty string.
\<close>

type_synonym gomap = "(string \<times> string) list"

definition gomap_get :: "gomap \<Rightarrow> string \<Rightarrow> string" where
  "gomap_get m k = (case map_of m k of None \<Rightarrow> [] | Some v \<Rightarrow> v)"

definition gomap_equal :: "gomap \<Rightarrow> gomap \<Rightarrow> bool" where
  "gomap_equal m lit \<longleftrightarrow> length m = length lit \<and> list_all (\<lambda>(k, v). map_of m k = Some v) lit"

record ContainerMount =
  mnt_Type :: string
  mnt_Source :: string
  mnt_Destination :: string
  mnt_Propagation :: string
  mnt_RW :: bool

record ContainerConfig =
  cfg_User :: string
  cfg_WorkingDir :: string
  cfg_Entrypoint :: "string slice"
  cfg_Cmd :: "string slice"
  cfg_Env :: "string list"
  cfg_Labels :: gomap
  cfg_Tty :: bool
  cfg_OpenStdin :: bool

record ContainerHost =
  hst_NetworkMode :: string
  hst_IpcMode :: string
  hst_PidMode :: string
  hst_ReadonlyRootfs :: bool
  hst_Privileged :: bool
  hst_CapDrop :: "string list"
  hst_CapAdd :: "string list"
  hst_SecurityOpt :: "string list"
  hst_Memory :: int
  hst_MemorySwap :: int
  hst_NanoCpus :: int
  hst_PidsLimit :: int
  hst_Tmpfs :: gomap
  hst_Devices :: "json list"
  hst_Binds :: "string list"
  hst_VolumesFrom :: "string list"
  hst_RestartPolicy :: string
  hst_LogType :: string
  hst_LogConfig :: gomap

record Container =
  ctr_Image :: string
  ctr_Config :: ContainerConfig
  ctr_HostConfig :: ContainerHost
  ctr_Mounts :: "ContainerMount list"

definition container_env :: "string list" where
  "container_env = [''PATH=/usr/bin:/bin'', ''HOME=/tmp'', ''LANG=C'', ''TMPDIR=/tmp'']"

definition host_confined :: "ContainerHost \<Rightarrow> bool" where
  "host_confined h \<longleftrightarrow>
     \<not> (hst_NetworkMode h \<noteq> ''none'' \<or> hst_IpcMode h \<noteq> ''private'' \<or> hst_PidMode h \<noteq> [] \<or> \<not> hst_ReadonlyRootfs h
        \<or> hst_Privileged h \<or> hst_CapAdd h \<noteq> [] \<or> hst_CapDrop h \<noteq> [''ALL''] \<or> hst_SecurityOpt h \<noteq> [''no-new-privileges:true'']
        \<or> hst_Memory h \<noteq> 256 * 2 ^ 20 \<or> hst_MemorySwap h \<noteq> 256 * 2 ^ 20 \<or> hst_NanoCpus h \<noteq> 1000000000 \<or> hst_PidsLimit h \<noteq> 64
        \<or> hst_RestartPolicy h \<noteq> ''no'' \<or> hst_LogType h \<noteq> ''local''
        \<or> \<not> gomap_equal (hst_LogConfig h) [(''max-size'', ''1m''), (''max-file'', ''1''), (''compress'', ''false'')]
        \<or> hst_Devices h \<noteq> [] \<or> hst_Binds h \<noteq> [] \<or> hst_VolumesFrom h \<noteq> [])"

text \<open>The loop over the mounts removes each one from the expected destinations.\<close>

fun check_mounts :: "gomap \<Rightarrow> ContainerMount list \<Rightarrow> bool" where
  "check_mounts expected [] = True"
| "check_mounts expected (m # ms) =
     (case map_of expected (mnt_Destination m) of
        None \<Rightarrow> False
      | Some src \<Rightarrow>
          if src \<noteq> mnt_Source m \<or> mnt_Type m \<noteq> ''bind'' \<or> mnt_RW m \<or> mnt_Propagation m \<noteq> ''rprivate'' then False
          else check_mounts (filter (\<lambda>(k, _). k \<noteq> mnt_Destination m) expected) ms)"

definition validateContainer ::
  "Container option \<Rightarrow> Profile \<Rightarrow> string \<Rightarrow> string \<Rightarrow> string \<Rightarrow> string \<Rightarrow> string \<Rightarrow> err option" where
  "validateContainer decoded p user owner source bundle guard =
     (case decoded of
        None \<Rightarrow> Some ErrPolicy
      | Some c \<Rightarrow>
          let cfg = ctr_Config c in
          if ctr_Image c \<noteq> pro_Image p \<or> cfg_User cfg \<noteq> user \<or> cfg_WorkingDir cfg \<noteq> ''/workspace''
             \<or> gomap_get (cfg_Labels cfg) ''engineering-platform.offline'' \<noteq> owner \<or> cfg_Tty cfg \<or> cfg_OpenStdin cfg
             \<or> cfg_Entrypoint cfg \<noteq> Slice [''/ep-guard''] \<or> cfg_Cmd cfg \<noteq> Slice (dec_int (pro_Seconds p) # GuardArguments p)
          then Some ErrPolicy
          else if \<not> host_confined (ctr_HostConfig c) then Some ErrPolicy
          else if length (cfg_Env cfg) \<noteq> 4 then Some ErrPolicy
          else if \<not> list_all (\<lambda>e. e \<in> set (cfg_Env cfg)) container_env then Some ErrPolicy
          else if length (ctr_Mounts c) \<noteq> 3 then Some ErrPolicy
          else if \<not> check_mounts [(''/workspace'', source), (''/context'', bundle), (''/ep-guard'', guard)] (ctr_Mounts c) then Some ErrPolicy
          else if length (hst_Tmpfs (ctr_HostConfig c)) \<noteq> 1
               \<or> gomap_get (hst_Tmpfs (ctr_HostConfig c)) ''/tmp'' \<noteq> ''rw,nosuid,nodev,noexec,size=67108864,mode=1777''
          then Some ErrPolicy
          else None)"

lemma check_mounts_sound:
  "check_mounts expected ms \<Longrightarrow>
     distinct (map mnt_Destination ms)
     \<and> (\<forall>m \<in> set ms. map_of expected (mnt_Destination m) = Some (mnt_Source m) \<and> mnt_Type m = ''bind'' \<and> \<not> mnt_RW m)"
proof (induction expected ms rule: check_mounts.induct)
  case (2 expected m ms)
  let ?rest = "filter (\<lambda>(k, _). k \<noteq> mnt_Destination m) expected"
  from "2.prems" obtain src where src: "map_of expected (mnt_Destination m) = Some src"
    "\<not> (src \<noteq> mnt_Source m \<or> mnt_Type m \<noteq> ''bind'' \<or> mnt_RW m \<or> mnt_Propagation m \<noteq> ''rprivate'')" "check_mounts ?rest ms"
    by (auto split: option.splits if_splits)
  have rest: "map_of ?rest k = (if k = mnt_Destination m then None else map_of expected k)" for k
    by (induction expected) auto
  from "2.IH" [OF src] have ih: "distinct (map mnt_Destination ms)"
    "\<forall>x \<in> set ms. map_of ?rest (mnt_Destination x) = Some (mnt_Source x) \<and> mnt_Type x = ''bind'' \<and> \<not> mnt_RW x" by auto
  then have "\<forall>x \<in> set ms. mnt_Destination x \<noteq> mnt_Destination m \<and> map_of expected (mnt_Destination x) = Some (mnt_Source x)"
    unfolding rest by (metis option.distinct(1))
  with ih src show ?case by fastforce
qed simp

lemma set_of_members:
  assumes "length xs \<le> length ys" and "set ys \<subseteq> set xs" and "distinct ys"
  shows "set xs = set ys"
proof -
  from assms(1,3) have "card (set xs) \<le> card (set ys)" by (metis card_length distinct_card order_trans)
  with assms(2) show ?thesis by (metis List.finite_set card_seteq)
qed

lemma check_mounts_exact:
  assumes "check_mounts expected ms" and "length expected \<le> length ms"
  shows "set expected = (\<lambda>m. (mnt_Destination m, mnt_Source m)) ` set ms \<and> (\<forall>m \<in> set ms. \<not> mnt_RW m)"
proof -
  let ?f = "\<lambda>m. (mnt_Destination m, mnt_Source m)"
  note ok = check_mounts_sound [OF assms(1)]
  then have "distinct (map fst (map ?f ms))" by (simp add: comp_def)
  then have d: "distinct (map ?f ms)" by (simp only: distinct_map)
  from ok map_of_SomeD have sub: "set (map ?f ms) \<subseteq> set expected" by fastforce
  from set_of_members [OF _ sub d] assms(2) ok show ?thesis by simp
qed

text \<open>
  C21. A container that passes the inspection is confined: it has no network, a read-only root,
  no privileges and no capabilities; it sees exactly the workspace, the context bundle and the guard,
  each mounted read-only from the expected host path and nothing else from the host; its environment
  holds exactly four fixed variables; and it runs the guard with the time limit and the command of
  the profile.
\<close>

theorem accepted_container_is_confined:
  assumes "validateContainer (Some c) p user owner source bundle guard = None"
  shows "hst_NetworkMode (ctr_HostConfig c) = ''none'' \<and> hst_ReadonlyRootfs (ctr_HostConfig c) \<and> \<not> hst_Privileged (ctr_HostConfig c)
     \<and> hst_CapDrop (ctr_HostConfig c) = [''ALL''] \<and> hst_CapAdd (ctr_HostConfig c) = []
     \<and> {(mnt_Destination m, mnt_Source m) |m. m \<in> set (ctr_Mounts c)}
         = {(''/workspace'', source), (''/context'', bundle), (''/ep-guard'', guard)}
     \<and> (\<forall>m \<in> set (ctr_Mounts c). \<not> mnt_RW m) \<and> hst_Binds (ctr_HostConfig c) = [] \<and> hst_VolumesFrom (ctr_HostConfig c) = []
     \<and> set (cfg_Env (ctr_Config c)) = set container_env
     \<and> elems (cfg_Entrypoint (ctr_Config c)) @ elems (cfg_Cmd (ctr_Config c)) = ''/ep-guard'' # dec_int (pro_Seconds p) # GuardArguments p"
proof -
  let ?exp = "[(''/workspace'', source), (''/context'', bundle), (''/ep-guard'', guard)]"
  let ?f = "\<lambda>m. (mnt_Destination m, mnt_Source m)"
  from assms have cfg: "cfg_Entrypoint (ctr_Config c) = Slice [''/ep-guard'']" "cfg_Cmd (ctr_Config c) = Slice (dec_int (pro_Seconds p) # GuardArguments p)"
    and host: "host_confined (ctr_HostConfig c)" and env: "length (cfg_Env (ctr_Config c)) = 4" "set container_env \<subseteq> set (cfg_Env (ctr_Config c))"
    and mounts: "length (ctr_Mounts c) = 3" "check_mounts ?exp (ctr_Mounts c)"
    unfolding validateContainer_def Let_def by (auto simp: list_all_iff simp del: check_mounts.simps split: if_splits)
  have "set (cfg_Env (ctr_Config c)) = set container_env"
    by (rule set_of_members [OF _ env(2)]) (simp_all add: env(1) container_env_def)
  moreover from check_mounts_exact [OF mounts(2)] mounts(1)
  have "set ?exp = ?f ` set (ctr_Mounts c)" and ro: "\<forall>m \<in> set (ctr_Mounts c). \<not> mnt_RW m" by simp_all
  moreover have "{?f m |m. m \<in> set (ctr_Mounts c)} = ?f ` set (ctr_Mounts c)" by blast
  ultimately show ?thesis using cfg host ro unfolding host_confined_def by simp
qed

section \<open>A sample profile\<close>

definition lab_profile :: Profile where
  "lab_profile = \<lparr>pro_Image = Hash ''image'', pro_GuardDigest = Hash ''guard'', pro_Argv = Slice [''/usr/bin/make'', ''all''],
     pro_Seconds = 30, pro_Outputs = Slice [\<lparr>spec_Name = ''fw.bin'', spec_MaxBytes = 64\<rparr>]\<rparr>"

definition lab_outputs :: BuildOutputs where
  "lab_outputs = \<lparr>bo_Contract = pro_Outputs lab_profile, bo_ContractDigest = Hash (json_encode (contract_json (pro_Outputs lab_profile))),
     bo_State = ''COLLECTED'', bo_ChildrenReaped = True,
     bo_Files = Slice [\<lparr>ofile_Name = ''fw.bin'', ofile_Size = 3, ofile_Digest = Hash ''abc'', ofile_Bytes = Slice ''abc''\<rparr>]\<rparr>"

definition lab_result :: Result where
  "lab_result = \<lparr>rslt_Recipe = SandboxRecipe, rslt_ProfileDigest = Hash (json_encode (Profile_json lab_profile)),
     rslt_ContainerID = replicate 64 CHR ''a'', rslt_ExitCode = 0, rslt_Stdout = Slice ''ok'', rslt_Stderr = NilSlice,
     rslt_StdoutDigest = Hash ''ok'', rslt_StderrDigest = Hash [], rslt_UserID = 1000, rslt_BuildOutputs = Some lab_outputs\<rparr>"

definition lab_container :: Container where
  "lab_container = \<lparr>ctr_Image = pro_Image lab_profile,
     ctr_Config = \<lparr>cfg_User = ''1000'', cfg_WorkingDir = ''/workspace'', cfg_Entrypoint = Slice [''/ep-guard''],
       cfg_Cmd = Slice (dec_int 30 # GuardArguments lab_profile), cfg_Env = container_env,
       cfg_Labels = [(''engineering-platform.offline'', ''o'')], cfg_Tty = False, cfg_OpenStdin = False\<rparr>,
     ctr_HostConfig = \<lparr>hst_NetworkMode = ''none'', hst_IpcMode = ''private'', hst_PidMode = [], hst_ReadonlyRootfs = True,
       hst_Privileged = False, hst_CapDrop = [''ALL''], hst_CapAdd = [], hst_SecurityOpt = [''no-new-privileges:true''],
       hst_Memory = 256 * 2 ^ 20, hst_MemorySwap = 256 * 2 ^ 20, hst_NanoCpus = 1000000000, hst_PidsLimit = 64,
       hst_Tmpfs = [(''/tmp'', ''rw,nosuid,nodev,noexec,size=67108864,mode=1777'')], hst_Devices = [], hst_Binds = [],
       hst_VolumesFrom = [], hst_RestartPolicy = ''no'', hst_LogType = ''local'',
       hst_LogConfig = [(''max-size'', ''1m''), (''max-file'', ''1''), (''compress'', ''false'')]\<rparr>,
     ctr_Mounts = map (\<lambda>(d, src). \<lparr>mnt_Type = ''bind'', mnt_Source = src, mnt_Destination = d, mnt_Propagation = ''rprivate'', mnt_RW = False\<rparr>)
       [(''/workspace'', ''/w''), (''/context'', ''/c''), (''/ep-guard'', ''/g'')]\<rparr>"

lemma lab_contract: "ValidateOutputContract [\<lparr>spec_Name = ''fw.bin'', spec_MaxBytes = 64\<rparr>] = None"
  by (simp add: ValidateOutputContract_def BuildMemberLimit_def BuildFileLimit_def BuildOutputLimit_def buildName_def is_alnum_def
      is_digit_def byte_in_def)

lemma lab_profile_ok: "Profile_Validate lab_profile = None"
proof -
  have "clean_rooted ''/usr/bin/make'' = ''/usr/bin/make''" by (simp add: clean_rooted_def)
  with lab_contract show ?thesis by (simp add: Profile_Validate_def lab_profile_def Hash_def path_IsAbs_def HasPrefix_def)
qed

lemma lab_profile_digest: "Profile_Digest lab_profile = Inr (Hash (json_encode (Profile_json lab_profile)))"
  by (simp add: Profile_Digest_def lab_profile_ok)

lemma lab_result_ok: "Result_Validate lab_result lab_profile = None"
proof -
  have "BuildOutputs_Validate (Some lab_outputs) 0 = None"
    by (simp add: BuildOutputs_Validate_def lab_outputs_def OutputContractDigest_def lab_profile_def lab_contract file_matches_def)
  moreover have "hex64 (replicate 64 CHR ''a'')"
    by (simp add: hex64_def match_exactly_def is_lower_hex_def is_digit_def byte_in_def list_all_iff)
  moreover have "elems (pro_Outputs lab_profile) \<noteq> []" "bo_Contract lab_outputs = pro_Outputs lab_profile"
    by (simp_all add: lab_profile_def lab_outputs_def)
  ultimately show ?thesis
    by (simp add: Result_Validate_def lab_result_def lab_profile_digest OutputLimit_def del: replicate.simps)
qed

theorem accepted_result_is_bounded_witness:
  "Result_Validate lab_result lab_profile = None
   \<and> map ofile_Name (elems (bo_Files lab_outputs)) = map spec_Name (elems (pro_Outputs lab_profile))"
  using accepted_result_is_bounded [OF lab_result_ok] lab_result_ok by (simp add: lab_result_def)

lemma lab_container_ok: "validateContainer (Some lab_container) lab_profile ''1000'' ''o'' ''/w'' ''/c'' ''/g'' = None"
proof -
  have "pro_Seconds lab_profile = 30" by (simp add: lab_profile_def)
  then show ?thesis
    by (simp add: validateContainer_def lab_container_def host_confined_def gomap_get_def gomap_equal_def container_env_def Let_def)
qed

theorem accepted_container_is_confined_witness:
  "validateContainer (Some lab_container) lab_profile ''1000'' ''o'' ''/w'' ''/c'' ''/g'' = None
   \<and> hst_NetworkMode (ctr_HostConfig lab_container) = ''none''"
  using accepted_container_is_confined [OF lab_container_ok] lab_container_ok by blast

end
