(* ===== verification/Preparation.thy ===== *)
theory Preparation
  imports WorkerRelay Sandbox
begin

text \<open>
  Preparation of a run's inputs on a worker: package \<open>preparation\<close> (\<open>model.go\<close>), the manifest of a
  context bundle (\<open>contextbundle\<close>), and the repository behind it
  (\<open>store/postgres/preparation_store.go\<close>). The preparation receipt and the admission receipt are
  recorded by one transaction.
\<close>

section \<open>Facts\<close>

record Entry =
  ent_Ref :: ContextRef
  ent_File :: string
  ent_Size :: int

record BundleManifest =
  bm_SchemaVersion :: int
  bm_RunInputDigest :: string
  bm_Entries :: "Entry slice"

definition Entry_json :: "Entry \<Rightarrow> json" where
  "Entry_json e = JObj
     ([(''ref'', ContextRef_json (ent_Ref e))] @ str_field ''file'' (ent_File e) @ int_field ''size'' (ent_Size e))"

definition BundleManifest_json :: "BundleManifest \<Rightarrow> json" where
  "BundleManifest_json m = JObj
     (int_field ''schema_version'' (bm_SchemaVersion m) @ str_field ''run_input_digest'' (bm_RunInputDigest m)
      @ slice_field ''entries'' Entry_json (bm_Entries m))"

text \<open>The file name \<open>%03d-<hash>.bin\<close> of an entry.\<close>

definition pad3 :: "nat \<Rightarrow> string" where
  "pad3 i = replicate (3 - length (dec_nat i)) CHR ''0'' @ dec_nat i"

definition TrimPrefix :: "string \<Rightarrow> string \<Rightarrow> string" where
  "TrimPrefix s prefix = (if HasPrefix s prefix then drop (length prefix) s else s)"

definition entryName :: "nat \<Rightarrow> ContextRef \<Rightarrow> string" where
  "entryName i ref = pad3 i @ ''-'' @ TrimPrefix (ref_Digest ref) ''sha256:'' @ ''.bin''"

definition PreparationKind :: string where "PreparationKind = ''WORKER_ATTESTED_PREPARATION''"
definition WorkspaceRecipe :: string where "WorkspaceRecipe = ''independent-git-snapshot-v1''"

definition gitSHA :: "string \<Rightarrow> bool" where
  "gitSHA = match_exactly is_lower_hex 40"

record Facts =
  fct_SeedSourceDigest :: string
  fct_SeedCheckpointDigest :: string
  fct_Version :: int
  fct_IntentDigest :: string
  fct_InputDigest :: string
  fct_TaskDigest :: string
  fct_ApprovalDigest :: string
  fct_BaseCommit :: string
  fct_TreeCommit :: string
  fct_WorkspaceRecipe :: string
  fct_SourceDigest :: string
  fct_ConfigDigest :: string
  fct_BundleDigest :: string
  fct_Context :: BundleManifest
  fct_ExecutionStarted :: bool
  fct_OSIsolated :: bool

definition Facts_json :: "Facts \<Rightarrow> json" where
  "Facts_json f = JObj
     (str_opt ''seed_source_digest'' (fct_SeedSourceDigest f)
      @ str_opt ''seed_checkpoint_digest'' (fct_SeedCheckpointDigest f)
      @ int_field ''version'' (fct_Version f)
      @ str_field ''intent_digest'' (fct_IntentDigest f)
      @ str_field ''run_input_manifest_digest'' (fct_InputDigest f)
      @ str_field ''task_contract_digest'' (fct_TaskDigest f)
      @ str_field ''approval_digest'' (fct_ApprovalDigest f)
      @ str_field ''base_commit'' (fct_BaseCommit f)
      @ str_field ''tree_commit'' (fct_TreeCommit f)
      @ str_field ''workspace_recipe'' (fct_WorkspaceRecipe f)
      @ str_field ''source_digest'' (fct_SourceDigest f)
      @ str_field ''git_config_digest'' (fct_ConfigDigest f)
      @ str_field ''bundle_digest'' (fct_BundleDigest f)
      @ [(''context_manifest'', BundleManifest_json (fct_Context f))]
      @ bool_field ''execution_started'' (fct_ExecutionStarted f)
      @ bool_field ''os_isolated'' (fct_OSIsolated f))"

text \<open>
  The loop over the context references, which are at most 64 where it runs; each accepted size is
  at most 4 MiB, so the running total of \<open>int64\<close> values cannot wrap.
\<close>

fun check_entries :: "nat \<Rightarrow> int \<Rightarrow> ContextRef list \<Rightarrow> Entry list \<Rightarrow> int option" where
  "check_entries i acc (ref # refs) (entry # entries) =
     (if ref_Trust ref \<noteq> ''APPROVED'' \<or> ent_Ref entry \<noteq> ref \<or> ent_File entry \<noteq> entryName i ref
         \<or> ent_Size entry < 0 \<or> ent_Size entry > 4 * 2 ^ 20
      then None else check_entries (Suc i) (acc + ent_Size entry) refs entries)"
| "check_entries i acc [] entries = Some acc"
| "check_entries i acc refs [] = None"

definition Facts_Check :: "Facts \<Rightarrow> Assignment \<Rightarrow> err option" where
  "Facts_Check f a =
     (case Validate a of
        Inl e \<Rightarrow> Some e
      | Inr _ \<Rightarrow>
          if fct_Version f \<noteq> 1 \<or> fct_ExecutionStarted f \<or> fct_OSIsolated f \<or> fct_WorkspaceRecipe f \<noteq> WorkspaceRecipe
             \<or> fct_BaseCommit f \<noteq> ToLower (task_BaseCommit (asg_Task a)) \<or> \<not> gitSHA (fct_TreeCommit f)
             \<or> fct_InputDigest f \<noteq> int_InputDigest (asg_Intent a) \<or> fct_TaskDigest f \<noteq> int_TaskDigest (asg_Intent a)
             \<or> fct_IntentDigest f \<noteq> asg_IntentDigest a
          then Some ErrIdentity
          else if (case input_Continuation (asg_Input a) of
                     None \<Rightarrow> fct_SeedSourceDigest f \<noteq> [] \<or> fct_SeedCheckpointDigest f \<noteq> []
                   | Some c \<Rightarrow> \<not> ValidDigest (fct_SeedSourceDigest f) \<or> fct_SeedCheckpointDigest f \<noteq> cont_CheckpointDigest c)
          then Some ErrIdentity
          else if \<not> list_all ValidDigest [fct_SourceDigest f, fct_ConfigDigest f, fct_BundleDigest f, fct_ApprovalDigest f]
          then Some ErrIdentity
          else if bm_SchemaVersion (fct_Context f) \<noteq> 1 \<or> bm_RunInputDigest (fct_Context f) \<noteq> int_InputDigest (asg_Intent a)
             \<or> length (elems (bm_Entries (fct_Context f))) \<noteq> length (input_ContextRefs (asg_Input a))
          then Some ErrIdentity
          else (case check_entries 0 0 (input_ContextRefs (asg_Input a)) (elems (bm_Entries (fct_Context f))) of
                  None \<Rightarrow> Some ErrIdentity
                | Some acc \<Rightarrow>
                    if acc > 32 * 2 ^ 20 then Some ErrIdentity
                    else if BytesDigest (json_encode (BundleManifest_json (fct_Context f))) \<noteq> fct_BundleDigest f
                    then Some ErrIdentity
                    else None))"

section \<open>Reports and receipts\<close>

record PreparationReport =
  prp_Input :: Report
  prp_Facts :: Facts

record PreparationReceipt =
  prc_Kind :: string
  prc_Admission :: AdmissionReceipt
  prc_Facts :: Facts
  prc_FactsDigest :: string
  prc_ReceivedAt :: gotime

definition PreparationReceipt_json :: "(gotime \<Rightarrow> string) \<Rightarrow> PreparationReceipt \<Rightarrow> json" where
  "PreparationReceipt_json rfc3339 r = JObj
     (str_field ''kind'' (prc_Kind r) @ [(''admission'', AdmissionReceipt_json rfc3339 (prc_Admission r))]
      @ [(''facts'', Facts_json (prc_Facts r))] @ str_field ''facts_digest'' (prc_FactsDigest r)
      @ str_field ''received_at'' (rfc3339 (prc_ReceivedAt r)))"

definition Preparation_Verify :: "Assignment \<Rightarrow> PreparationReceipt \<Rightarrow> Facts \<Rightarrow> string \<Rightarrow> err option" where
  "Preparation_Verify a r expected subject =
     (case VerifyReceipt a (prc_Admission r) of
        Some e \<Rightarrow> Some e
      | None \<Rightarrow>
          (let digest = Digest (Facts_json expected); actual = Digest (Facts_json (prc_Facts r)) in
           if digest \<noteq> actual \<or> prc_FactsDigest r \<noteq> digest \<or> prc_Kind r \<noteq> PreparationKind
              \<or> rct_Worker (prc_Admission r) \<noteq> subject \<or> IsZero (prc_ReceivedAt r)
           then Some ErrIdentity
           else Facts_Check (prc_Facts r) a))"

section \<open>The repository\<close>

record prep_row =
  prow_inbox_id :: int
  prow_run_id :: string
  prow_generation :: uint64
  prow_subject :: string
  prow_facts_digest :: string
  prow_receipt :: "PreparationReceipt option"

record prep_db = worker_db +
  pdb_schema :: "nat list"
  pdb_preparations :: "prep_row list"

definition still_leased :: "gotime \<Rightarrow> int \<Rightarrow> inbox_row \<Rightarrow> bool" where
  "still_leased now inbox i \<longleftrightarrow>
     inb_id i = inbox \<and> inb_state i = ''LEASED'' \<and> (case inb_until i of None \<Rightarrow> False | Some t \<Rightarrow> t > now)"

definition insert_preparation :: "prep_row \<Rightarrow> 'z prep_db_scheme \<Rightarrow> (unit \<times> 'z prep_db_scheme) result" where
  "insert_preparation p s =
     unless (list_ex (\<lambda>q. prow_inbox_id q = prow_inbox_id p \<or> prow_run_id q = prow_run_id p) (pdb_preparations s))
       (ErrText ''duplicate key value violates unique constraint'')
       (Inr ((), s\<lparr>pdb_preparations := pdb_preparations s @ [p]\<rparr>))"

definition prepared_receipt :: "Assignment \<Rightarrow> string \<Rightarrow> Validation \<Rightarrow> gotime \<Rightarrow> Facts \<Rightarrow> PreparationReceipt" where
  "prepared_receipt a subject validation now facts =
     \<lparr>prc_Kind = PreparationKind, prc_Admission = new_receipt (asg_Token a) subject validation now,
      prc_Facts = facts, prc_FactsDigest = Digest (Facts_json facts), prc_ReceivedAt = now\<rparr>"

definition record_preparation :: "string \<Rightarrow> inboxRecord \<Rightarrow> Assignment \<Rightarrow> Facts \<Rightarrow> ('z prep_db_scheme, PreparationReceipt decision) tx" where
  "record_preparation subject r a facts =
     tx_bind (tx_lift (Validate a)) (\<lambda>validation.
     tx_bind (tx_read (\<lambda>now _. Inr now)) (\<lambda>now.
       (let receipt = prepared_receipt a subject validation now facts in
        tx_bind (tx_env we_rfc3339) (\<lambda>rfc3339.
        tx_bind (workerAudit ''worker.preparation.recorded'' (irec_runID r) (PreparationReceipt_json rfc3339 receipt)) (\<lambda>_.
        tx_bind (tx_write (\<lambda>_. insert_preparation
                   \<lparr>prow_inbox_id = irec_id r, prow_run_id = irec_runID r, prow_generation = irec_generation r,
                    prow_subject = subject, prow_facts_digest = Digest (Facts_json facts), prow_receipt = Some receipt\<rparr>)) (\<lambda>_.
        tx_bind (tx_write (\<lambda>now s.
                   unless (length (filter (still_leased now (irec_id r)) (wdb_inbox s)) \<noteq> 1) ErrLease
                     (Inr ((), update_inbox (still_leased now (irec_id r)) (validated_row (prc_Admission receipt)) s)))) (\<lambda>_.
        tx_return (Commit receipt))))))))"

definition read_preparation :: "(err \<Rightarrow> err) \<Rightarrow> int \<Rightarrow> ('z prep_db_scheme, PreparationReceipt option) tx" where
  "read_preparation g inbox =
     tx_map_err g (tx_read (\<lambda>_ s. select_where (\<lambda>p. prow_inbox_id p = inbox) prow_receipt (pdb_preparations s)))"

definition prepared_body :: "string \<Rightarrow> PreparationReport \<Rightarrow> ('z prep_db_scheme, PreparationReceipt decision) tx" where
  "prepared_body subject report =
     tx_bind (lockWorkerLease subject (rep_Token (prp_Input report))) (\<lambda>(r, epoch, mode).
     tx_bind (loadWorkerAssignment r) (\<lambda>a.
     tx_guard (NewReport a \<noteq> Inr (prp_Input report) \<or> Facts_Check (prp_Facts report) a \<noteq> None) ErrIdentity
     (if irec_state r = Validated
      then
        tx_bind (read_preparation (no_rows ErrLease) (irec_id r)) (\<lambda>stored.
          case stored of
            None \<Rightarrow> tx_fail ErrIdentity
          | Some receipt \<Rightarrow>
              tx_guard (Preparation_Verify a receipt (prp_Facts report) subject \<noteq> None) ErrIdentity
                (tx_return (Rollback receipt)))
      else
        tx_bind (liveWorkerLease r epoch mode) (\<lambda>_. record_preparation subject r a (prp_Facts report)))))"

definition ReportPrepared :: "wenv \<Rightarrow> string \<Rightarrow> PreparationReport \<Rightarrow> 'z prep_db_scheme \<Rightarrow> PreparationReceipt result \<times> 'z prep_db_scheme" where
  "ReportPrepared v subject report s = run_tx (prepared_body subject report) v s"

definition GetPreparation :: "wenv \<Rightarrow> string \<Rightarrow> 'z prep_db_scheme \<Rightarrow> PreparationReceipt result" where
  "GetPreparation v runID s =
     rbind (run_query (tx_map_err (no_rows ErrNotFound)
              (tx_read (\<lambda>_ s. select_where (\<lambda>p. prow_run_id p = runID) prow_receipt (pdb_preparations s)))) v s) (\<lambda>stored.
       case stored of
         None \<Rightarrow> Inl (ErrText ''invalid receipt JSON'')
       | Some receipt \<Rightarrow>
           unless (prc_Kind receipt \<noteq> PreparationKind \<or> Digest (Facts_json (prc_Facts receipt)) \<noteq> prc_FactsDigest receipt)
             ErrIdentity (Inr receipt))"

text \<open>The migration that records a version creates its table in the same transaction.\<close>

definition PreparationReady :: "wenv \<Rightarrow> 'z prep_db_scheme \<Rightarrow> err option" where
  "PreparationReady v s =
     (case run_query (tx_read (\<lambda>_ s. Inr (4 \<in> set (pdb_schema s)))) v s of
        Inl e \<Rightarrow> Some e
      | Inr ready \<Rightarrow> if \<not> ready then Some ErrIdentity else None)"

section \<open>What accepted facts say\<close>

lemma check_entries_Some:
  assumes "check_entries i acc refs entries = Some t" and "length entries = length refs"
  shows "map ent_Ref entries = refs \<and> (\<forall>ref \<in> set refs. ref_Trust ref = ''APPROVED'')
     \<and> (\<forall>e \<in> set entries. 0 \<le> ent_Size e \<and> ent_Size e \<le> 4 * 2 ^ 20)
     \<and> (\<forall>k < length refs. ent_File (entries ! k) = entryName (i + k) (refs ! k))
     \<and> t = acc + sum_list (map ent_Size entries)"
  using assms
proof (induction i acc refs entries rule: check_entries.induct)
  case (1 i acc ref refs entry entries)
  then have ok: "ref_Trust ref = ''APPROVED''" "ent_Ref entry = ref" "ent_File entry = entryName i ref" "0 \<le> ent_Size entry"
    "ent_Size entry \<le> 4 * 2 ^ 20" and rest: "check_entries (Suc i) (acc + ent_Size entry) refs entries = Some t"
    by (auto split: if_splits)
  from "1.IH" [OF _ rest] "1.prems" ok show ?case by (auto simp: nth_Cons split: nat.split)
qed auto

text \<open>
  C14. Accepted preparation facts describe the frozen context completely: the bundle lists
  exactly the context references of the run input, in order and all approved, under the file names
  that index and digest determine; no entry is larger than 4 MiB and all together no larger than
  32 MiB; and the bundle digest is the digest of that list.
\<close>

theorem prepared_context_is_complete:
  assumes "Facts_Check f a = None"
  shows "(let refs = input_ContextRefs (asg_Input a); entries = elems (bm_Entries (fct_Context f)) in
     map ent_Ref entries = refs \<and> (\<forall>k < length refs. ent_File (entries ! k) = entryName k (refs ! k))
     \<and> (\<forall>ref \<in> set refs. ref_Trust ref = ''APPROVED'')
     \<and> (\<forall>e \<in> set entries. 0 \<le> ent_Size e \<and> ent_Size e \<le> 4 * 2 ^ 20) \<and> sum_list (map ent_Size entries) \<le> 32 * 2 ^ 20
     \<and> fct_BundleDigest f = Digest (BundleManifest_json (fct_Context f)))"
proof -
  from assms obtain t where "check_entries 0 0 (input_ContextRefs (asg_Input a)) (elems (bm_Entries (fct_Context f))) = Some t"
    and len: "length (elems (bm_Entries (fct_Context f))) = length (input_ContextRefs (asg_Input a))"
    and t: "t \<le> 32 * 2 ^ 20" "fct_BundleDigest f = Digest (BundleManifest_json (fct_Context f))"
    by (auto simp: Facts_Check_def Digest_def split: sum.splits if_splits option.splits)
  from check_entries_Some [OF this(1) len] t show ?thesis by (simp add: Let_def)
qed


section \<open>What a preparation report does\<close>

text \<open>A preparation and the admission it carries, recorded on a leased row.\<close>

definition prepares :: "string \<Rightarrow> PreparationReport \<Rightarrow> inbox_row \<Rightarrow> PreparationReceipt \<Rightarrow> 'z prep_db_scheme \<Rightarrow> 'z prep_db_scheme \<Rightarrow> bool" where
  "prepares subject report row receipt s s' \<longleftrightarrow>
     (\<exists>s1 s2 now rfc3339. audited ''worker.preparation.recorded'' (inb_run_id row) (PreparationReceipt_json rfc3339 receipt) s s1
        \<and> insert_preparation
            \<lparr>prow_inbox_id = inb_id row, prow_run_id = inb_run_id row, prow_generation = inb_generation row,
             prow_subject = subject, prow_facts_digest = prc_FactsDigest receipt, prow_receipt = Some receipt\<rparr> s1 = Inr ((), s2)
        \<and> (\<exists>t. inb_until row = Some t \<and> now < t)
        \<and> s' = update_inbox (still_leased now (inb_id row)) (validated_row (prc_Admission receipt)) s2)
     \<and> (\<exists>r input task a. scanned row r
          \<and> select_input (int_InputDigest (irec_intent r)) (irec_runID r) s = Inr (input, task)
          \<and> worker_assignment r input task = Inr a \<and> NewReport a = Inr (prp_Input report)
          \<and> Facts_Check (prp_Facts report) a = None
          \<and> (\<exists>validation now. Validate a = Inr validation \<and> receipt = prepared_receipt a subject validation now (prp_Facts report)))"

lemma insert_preparation_Inr:
  "insert_preparation p s = Inr (u, s') \<longleftrightarrow>
     \<not> list_ex (\<lambda>q. prow_inbox_id q = prow_inbox_id p \<or> prow_run_id q = prow_run_id p) (pdb_preparations s)
     \<and> s' = s\<lparr>pdb_preparations := pdb_preparations s @ [p]\<rparr>"
  by (auto simp: insert_preparation_def)

lemma audited_preparations:
  assumes "audited event runID payload s s'"
  shows "pdb_preparations s' = pdb_preparations s"
  using assms by (auto simp: audited_def log_event_def)

lemma still_leased_row:
  assumes "length (filter (still_leased now k) xs) = 1" and "find (\<lambda>i. inb_id i = k) xs = Some row" and "distinct (map inb_id xs)"
  shows "\<exists>t. inb_until row = Some t \<and> now < t"
proof -
  from assms(1) obtain i where i: "i \<in> set xs" "still_leased now k i"
    by (metis One_nat_def filter_False list.size(3) zero_neq_one)
  from find_member [OF assms(2)] i have "row \<in> set xs" "inb_id i = inb_id row" by (auto simp: still_leased_def)
  with i assms(3) by_id have "i = row" by blast
  with i show ?thesis by (auto simp: still_leased_def split: option.splits)
qed

lemma record_preparation_effect:
  assumes "record_preparation subject r a facts v n s = (Inr d, n', s')" and "scanned row r"
    and "find (\<lambda>i. inb_id i = inb_id row) (wdb_inbox s) = Some row" and "distinct (map inb_id (wdb_inbox s))"
    and sel: "select_input (int_InputDigest (irec_intent r)) (irec_runID r) s = Inr (input, task)" "worker_assignment r input task = Inr a"
    and rep: "NewReport a = Inr (prp_Input report)" "Facts_Check facts a = None" "facts = prp_Facts report"
  shows "\<exists>receipt k k' t. d = Commit receipt \<and> prepares subject report row receipt s s' \<and> prc_ReceivedAt receipt = we_clock v k
     \<and> n \<le> k' \<and> inb_until row = Some t \<and> we_clock v k' < t"
proof -
  from assms(1) obtain validation ev n2 s2 s3 where val: "Validate a = Inr validation"
    and log: "workerAudit ''worker.preparation.recorded'' (irec_runID r) (PreparationReceipt_json (we_rfc3339 v)
        (prepared_receipt a subject validation (we_clock v n) facts)) v (Suc n) s = (Inr ev, n2, s2)"
    and ins: "insert_preparation \<lparr>prow_inbox_id = irec_id r, prow_run_id = irec_runID r, prow_generation = irec_generation r,
        prow_subject = subject, prow_facts_digest = Digest (Facts_json facts),
        prow_receipt = Some (prepared_receipt a subject validation (we_clock v n) facts)\<rparr> s2 = Inr ((), s3)"
    and one: "length (filter (still_leased (we_clock v (Suc n2)) (irec_id r)) (wdb_inbox s3)) = 1"
    and s': "s' = update_inbox (still_leased (we_clock v (Suc n2)) (irec_id r))
        (validated_row (prc_Admission (prepared_receipt a subject validation (we_clock v n) facts))) s3"
    and d: "d = Commit (prepared_receipt a subject validation (we_clock v n) facts)"
    unfolding record_preparation_def Let_def by auto
  let ?rc = "prepared_receipt a subject validation (we_clock v n) facts"
  from assms(2) have ids: "irec_id r = inb_id row" "irec_runID r = inb_run_id row" "irec_generation r = inb_generation row"
    by (simp_all add: scanned_def)
  note aud = workerAudit_audited [OF log, unfolded ids]
  from ins have "wdb_inbox s3 = wdb_inbox s" using audited_frame(1) [OF aud] by (auto simp: insert_preparation_Inr)
  with still_leased_row [OF one] assms(3,4) ids have t: "\<exists>t. inb_until row = Some t \<and> we_clock v (Suc n2) < t" by simp
  have fd: "prc_FactsDigest ?rc = Digest (Facts_json facts)" "prc_ReceivedAt ?rc = we_clock v n" by (simp_all add: prepared_receipt_def)
  have "\<exists>r input task a. scanned row r
          \<and> select_input (int_InputDigest (irec_intent r)) (irec_runID r) s = Inr (input, task)
          \<and> worker_assignment r input task = Inr a \<and> NewReport a = Inr (prp_Input report)
          \<and> Facts_Check (prp_Facts report) a = None
          \<and> (\<exists>validation now. Validate a = Inr validation \<and> ?rc = prepared_receipt a subject validation now (prp_Facts report))"
    using sel rep val assms(2) by blast
  then have "prepares subject report row ?rc s s'"
    using aud ins [unfolded ids] t s' [unfolded ids] unfolding prepares_def fd by blast
  moreover have "n \<le> Suc n2" using log by (simp add: workerAudit_effect)
  ultimately show ?thesis using d fd(2) t by blast
qed

lemma prepared_effect:
  assumes "prepared_body subject report v n s = (Inr d, n', s')" and "distinct (map inb_id (wdb_inbox s))"
  shows "\<exists>row receipt. holds_token subject (rep_Token (prp_Input report)) s row \<and> (\<exists>r. scanned row r)
     \<and> (d = Rollback receipt \<and> s' = s \<and> inb_state row = Validated
        \<or> d = Commit receipt \<and> live_throughout v s row \<and> prepares subject report row receipt s s')"
proof -
  from assms(1) obtain r epoch mode n1 s1 a n2 s2
    where l: "lockWorkerLease subject (rep_Token (prp_Input report)) v n s = (Inr (r, epoch, mode), n1, s1)"
      and load: "loadWorkerAssignment r v n1 s1 = (Inr a, n2, s2)"
      and rep: "NewReport a = Inr (prp_Input report)" "Facts_Check (prp_Facts report) a = None"
      and rest: "(if irec_state r = Validated
        then tx_bind (read_preparation (no_rows ErrLease) (irec_id r)) (\<lambda>stored.
            case stored of
              None \<Rightarrow> tx_fail ErrIdentity
            | Some receipt \<Rightarrow>
                tx_guard (Preparation_Verify a receipt (prp_Facts report) subject \<noteq> None) ErrIdentity
                  (tx_return (Rollback receipt)))
        else tx_bind (liveWorkerLease r epoch mode) (\<lambda>_. record_preparation subject r a (prp_Facts report))) v n2 s2 = (Inr d, n', s')"
    unfolding prepared_body_def by auto
  from lockWorkerLease_effect [OF l] obtain row where h: "holds_token subject (rep_Token (prp_Input report)) s row" "scanned row r" "s1 = s"
    "epoch = db_recovery_epoch (wdb_outbox s)" "mode = db_recovery_mode (wdb_outbox s)" by blast
  from load [unfolded loadWorkerAssignment_effect] h(3) obtain input task where s2: "s2 = s"
    and sel: "select_input (int_InputDigest (irec_intent r)) (irec_runID r) s = Inr (input, task)" "worker_assignment r input task = Inr a"
    by blast
  show ?thesis
  proof (cases "irec_state r = Validated")
    case True
    with rest s2 h show ?thesis
      by (intro exI [of _ row]) (auto simp: read_preparation_def scanned_def split: option.splits)
  next
    case False
    with rest obtain u n3 s3 where live: "liveWorkerLease r epoch mode v n2 s2 = (Inr u, n3, s3)"
      and rec: "record_preparation subject r a (prp_Facts report) v n3 s3 = (Inr d, n', s')" by auto
    from liveWorkerLease_effect [OF live [unfolded s2] h(1,2,4,5)] obtain j
      where s3: "s3 = s" "live_lease (we_clock v j) s row" "j < n3" by blast
    from h(1) have "find (\<lambda>i. inb_id i = inb_id row) (wdb_inbox s) = Some row" using holds_token_find by blast
    from record_preparation_effect [OF rec [unfolded s3(1)] h(2) this assms(2) sel rep refl] h(1,2)
      live_throughoutI [OF s3(2)] s3(3)
    show ?thesis by (metis order_less_le_trans)
  qed
qed

section \<open>Tables of other components\<close>

text \<open>The inbox operations write only their own tables: every extension of the database stays.\<close>

definition same_extension :: "'z worker_db_scheme \<Rightarrow> 'z worker_db_scheme \<Rightarrow> bool" where
  "same_extension s s' \<longleftrightarrow> worker_db.more s' = worker_db.more s"

interpretation extension: guarantee "same_extension :: 'z worker_db_scheme \<Rightarrow> 'z worker_db_scheme \<Rightarrow> bool"
  by unfold_locales (simp_all add: same_extension_def)

lemma always_wrap: "always R m \<Longrightarrow> always R (tx_wrap t m)"
  by (auto intro!: alwaysI dest: alwaysD simp: tx_wrap_def split: prod.splits)

lemma always_try: "always R m \<Longrightarrow> always R (tx_try m)"
  by (auto intro!: alwaysI dest: alwaysD)

lemma always_cases:
  "(\<And>e. always R (f e)) \<Longrightarrow> (\<And>x. always R (g x)) \<Longrightarrow> always R (case q of Inl e \<Rightarrow> f e | Inr x \<Rightarrow> g x)"
  "always R m \<Longrightarrow> (\<And>x. always R (h x)) \<Longrightarrow> always R (case opt of None \<Rightarrow> m | Some x \<Rightarrow> h x)"
  "always R m \<Longrightarrow> always R m' \<Longrightarrow> always R (if b then m else m')"
  by (auto split: sum.split option.split)

lemma always_keeps: "always R m \<Longrightarrow> tx_keeps R m"
  by (auto intro!: tx_keepsI dest: alwaysD)

lemma extension_writes:
  "always same_extension (workerAudit event runID payload)"
  "always same_extension (tx_write (\<lambda>now s. Inr (x, update_inbox (P now) (f now) s)))"
  "always same_extension (tx_write (\<lambda>now s. update_returning (P now) (f now) g s))"
  "always same_extension (tx_write (\<lambda>now s. if B then Inl e else update_returning (P now) (f now) g s))"
  "always same_extension (tx_write (\<lambda>now s. unless (Q now s) e (Inr (x, update_inbox (P now) (f now) s))))"
  "always same_extension (tx_write (\<lambda>_ s. Inr (x, s\<lparr>wdb_workers := w s\<rparr>)))"
  "always same_extension (tx_write (\<lambda>_ s. Inr (x, insert_inbox row s)))"
  "always same_extension (tx_write (\<lambda>now s. if B then Inl e else Inr (x, update_outbox P2 (f2 now) s)))"
  "always same_extension (tx_settle l res)"
proof -
  show "always same_extension (workerAudit event runID payload)"
    unfolding workerAudit_def appendAudit_def
    by (intro extension.always_intros always_wrap extension.always_write) (auto simp: same_extension_def split: if_splits)
  show "always same_extension (tx_settle l res)"
    by (auto intro!: alwaysI simp: tx_settle_def same_extension_def split: sum.splits)
qed (auto intro!: extension.always_write simp: same_extension_def update_returning_Inr update_inbox_def insert_inbox_def update_outbox_def
    split: if_splits)


lemmas extension_reads = read_only_worker [THEN extension.always_read_only]

lemma extension_bodies:
  "always same_extension (claim_body seen locked subject profile)"
  "always same_extension (renew_body subject token)"
  "always same_extension (report_body subject report)"
  "always same_extension (relay_body decode locked2 owner)"
  unfolding claim_body_def renew_body_def report_body_def lease_intent_def revoke_intent_def record_receipt_def relay_body_def
    relay_message_def relay_resolution_def insertWorkerIntent_def Let_def
  by (intro extension.always_intros always_cases always_try extension_writes extension_reads)+

lemma extension_operations_kept:
  "claimInput v seen locked subject profile s = (q1, s') \<Longrightarrow> same_extension s s'"
  "RenewInput v subject token s = (q2, s') \<Longrightarrow> same_extension s s'"
  "ReportInput v subject report s = (q3, s') \<Longrightarrow> same_extension s s'"
  "relayRunStart decode v locked2 owner s = (q4, s') \<Longrightarrow> same_extension s s'"
  unfolding claimInput_def RenewInput_def ReportInput_def relayRunStart_def
  by (erule extension.keeps_run [rotated], rule always_keeps, rule extension_bodies)+

section \<open>The guarantee on preparations\<close>

text \<open>A recorded preparation belongs to an admitted row, which holds the admission it carries.\<close>

definition prep_ok :: "'z worker_db_scheme \<Rightarrow> prep_row \<Rightarrow> bool" where
  "prep_ok s p \<longleftrightarrow>
     (\<exists>row receipt. row \<in> set (wdb_inbox s) \<and> prow_receipt p = Some receipt
        \<and> inb_id row = prow_inbox_id p \<and> inb_run_id row = prow_run_id p \<and> inb_generation row = prow_generation p
        \<and> inb_owner row = Some (prow_subject p) \<and> inb_state row = Validated
        \<and> inb_receipt row = Some (Some (prc_Admission receipt))
        \<and> prow_facts_digest p = prc_FactsDigest receipt \<and> prc_FactsDigest receipt = Digest (Facts_json (prc_Facts receipt))
        \<and> prc_Kind receipt = PreparationKind)"

definition prep_inv :: "'z prep_db_scheme \<Rightarrow> bool" where
  "prep_inv s \<longleftrightarrow>
     inbox_inv s \<and> distinct (map prow_inbox_id (pdb_preparations s)) \<and> distinct (map prow_run_id (pdb_preparations s))
     \<and> (\<forall>p \<in> set (pdb_preparations s). prep_ok s p)"

definition prep_kept :: "'z prep_db_scheme \<Rightarrow> 'z prep_db_scheme \<Rightarrow> bool" where
  "prep_kept s s' \<longleftrightarrow>
     inbox_kept s s' \<and> (prep_inv s \<longrightarrow> prep_inv s') \<and> set (pdb_preparations s) \<subseteq> set (pdb_preparations s')"

interpretation preparations: guarantee "prep_kept :: 'z prep_db_scheme \<Rightarrow> 'z prep_db_scheme \<Rightarrow> bool"
  by unfold_locales (auto simp: prep_kept_def inbox.refl intro: inbox.trans)

lemma validated_stays:
  assumes "inbox_kept s s'" and "inbox_inv s" and "row \<in> set (wdb_inbox s)" and "inb_state row = Validated"
  shows "row \<in> set (wdb_inbox s')"
  using assms unfolding inbox_kept_def row_kept_def by metis

lemma prep_ok_stays:
  assumes "inbox_kept s s'" and "inbox_inv s" and "prep_ok s p"
  shows "prep_ok s' p"
  using assms(3) validated_stays [OF assms(1,2)] unfolding prep_ok_def by blast

lemma same_preparations_kept:
  assumes "inbox_kept s s'" and "pdb_preparations s' = pdb_preparations s"
  shows "prep_kept s s'"
proof -
  have "prep_inv s'" if "prep_inv s"
  proof -
    from that have inv: "inbox_inv s" by (simp add: prep_inv_def)
    with assms(1) have "inbox_inv s'" by (simp add: inbox_kept_def)
    with that prep_ok_stays [OF assms(1) inv] assms(2) show ?thesis unfolding prep_inv_def by simp
  qed
  with assms show ?thesis by (simp add: prep_kept_def)
qed

lemma same_extension_preparations: "same_extension s s' \<Longrightarrow> pdb_preparations s' = pdb_preparations s"
  by (cases s; cases s') (simp add: same_extension_def)

lemma inbox_operations_prep_kept:
  "claimInput v seen locked subject profile s = (q1, s') \<Longrightarrow> prep_kept s s'"
  "RenewInput v subject token s = (q2, s') \<Longrightarrow> prep_kept s s'"
  "ReportInput v subject report s = (q3, s') \<Longrightarrow> prep_kept s s'"
  "relayRunStart decode v locked2 owner s = (q4, s') \<Longrightarrow> prep_kept s s'"
  by (rule same_preparations_kept, erule inbox_operations_kept relay_operation_kept,
      rule same_extension_preparations, erule extension_operations_kept)+

lemma prepared_receipt_simps [simp]:
  "prc_Kind (prepared_receipt a subject validation now facts) = PreparationKind"
  "prc_Admission (prepared_receipt a subject validation now facts) = new_receipt (asg_Token a) subject validation now"
  "prc_Facts (prepared_receipt a subject validation now facts) = facts"
  "prc_FactsDigest (prepared_receipt a subject validation now facts) = Digest (Facts_json facts)"
  "prc_ReceivedAt (prepared_receipt a subject validation now facts) = now"
  by (simp_all add: prepared_receipt_def)

lemma new_receipt_simps [simp]:
  "rct_Token (new_receipt token subject validation now) = token"
  "rct_Worker (new_receipt token subject validation now) = subject"
  "rct_Kind (new_receipt token subject validation now) = Validated"
  "rct_Validation (new_receipt token subject validation now) = validation"
  "rct_ReceivedAt (new_receipt token subject validation now) = now"
  by (simp_all add: new_receipt_def)

lemma prepares_receipt:
  assumes "prepares subject report row receipt s s'"
  shows "rct_Token (prc_Admission receipt) = row_token row \<and> rct_Worker (prc_Admission receipt) = subject
     \<and> rct_Kind (prc_Admission receipt) = Validated \<and> prc_Kind receipt = PreparationKind
     \<and> prc_Facts receipt = prp_Facts report \<and> prc_FactsDigest receipt = Digest (Facts_json (prp_Facts report))"
proof -
  from assms obtain r input task a validation now where "scanned row r" "worker_assignment r input task = Inr a"
    "receipt = prepared_receipt a subject validation now (prp_Facts report)" unfolding prepares_def by blast
  with worker_assignment_token scanned_token show ?thesis by simp
qed

lemma prepares_inbox:
  assumes "prepares subject report row receipt s s'" and "holds_token subject token s row" and "live_lease t s row"
  shows "inbox_kept s s'" and "validated_row (prc_Admission receipt) row \<in> set (wdb_inbox s')"
proof -
  let ?rc = "prc_Admission receipt"
  from assms(1) obtain s1 s2 now rfc3339 p where
    aud: "audited ''worker.preparation.recorded'' (inb_run_id row) (PreparationReceipt_json rfc3339 receipt) s s1"
    and ins: "insert_preparation p s1 = Inr ((), s2)" and until: "\<exists>t. inb_until row = Some t \<and> now < t"
    and s': "s' = update_inbox (still_leased now (inb_id row)) (validated_row ?rc) s2"
    unfolding prepares_def by blast
  from ins aud have s2: "wdb_inbox s2 = wdb_inbox s" using audited_frame(1) by (auto simp: insert_preparation_Inr)
  from assms(2,3) have row: "row \<in> set (wdb_inbox s)" "inb_owner row = Some subject" "inb_state row = ''LEASED''"
    using holds_token_find by (auto simp: holds_token_def live_lease_def)
  have "inbox_kept s2 s'" unfolding s'
  proof (rule update_inbox_kept, intro ballI impI)
    fix i assume i: "inbox_inv s2" "i \<in> set (wdb_inbox s2)" "still_leased now (inb_id row) i"
    with by_id [of "wdb_inbox s" row i] s2 row(1) have "i = row" "row_ok i" by (auto simp: inbox_inv_def still_leased_def)
    with validated_row_ok [of i ?rc] prepares_receipt [OF assms(1)] row
    show "row_kept i (validated_row ?rc i) \<and> row_ok (validated_row ?rc i)" by simp
  qed
  moreover have "inbox_kept s s2" using s2 by (rule same_inbox_kept)
  ultimately show "inbox_kept s s'" using inbox.trans by blast
  from until row(3) have "still_leased now (inb_id row) row" by (auto simp: still_leased_def)
  then show "validated_row ?rc row \<in> set (wdb_inbox s')" using row(1) unfolding s' update_inbox_frame s2
    by (metis (mono_tags, lifting) image_eqI list.set_map)
qed

lemma prepares_preparations:
  assumes "prepares subject report row receipt s s'"
  shows "\<exists>p. pdb_preparations s' = pdb_preparations s @ [p] \<and> prow_receipt p = Some receipt \<and> prow_inbox_id p = inb_id row
     \<and> prow_run_id p = inb_run_id row \<and> prow_generation p = inb_generation row \<and> prow_subject p = subject
     \<and> prow_facts_digest p = prc_FactsDigest receipt
     \<and> (\<forall>q \<in> set (pdb_preparations s). prow_inbox_id q \<noteq> inb_id row \<and> prow_run_id q \<noteq> inb_run_id row)"
proof -
  let ?p = "\<lparr>prow_inbox_id = inb_id row, prow_run_id = inb_run_id row, prow_generation = inb_generation row,
             prow_subject = subject, prow_facts_digest = prc_FactsDigest receipt, prow_receipt = Some receipt\<rparr>"
  from assms obtain s1 s2 now rfc3339 where
    aud: "audited ''worker.preparation.recorded'' (inb_run_id row) (PreparationReceipt_json rfc3339 receipt) s s1"
    and ins: "insert_preparation ?p s1 = Inr ((), s2)"
    and s': "s' = update_inbox (still_leased now (inb_id row)) (validated_row (prc_Admission receipt)) s2"
    unfolding prepares_def by blast
  from s' have "pdb_preparations s' = pdb_preparations s2" by (simp add: update_inbox_def)
  with audited_preparations [OF aud] ins show ?thesis
    by (intro exI [of _ ?p]) (auto simp: insert_preparation_Inr list_ex_iff)
qed

lemma prepares_kept:
  assumes "prepares subject report row receipt s s'" and "holds_token subject token s row" and "live_lease t s row"
  shows "prep_kept s s'"
proof -
  note inb = prepares_inbox [OF assms]
  from prepares_preparations [OF assms(1)] obtain p where preps: "pdb_preparations s' = pdb_preparations s @ [p]"
    and p: "prow_receipt p = Some receipt" "prow_inbox_id p = inb_id row" "prow_run_id p = inb_run_id row"
      "prow_generation p = inb_generation row" "prow_subject p = subject" "prow_facts_digest p = prc_FactsDigest receipt"
    and new: "\<forall>q \<in> set (pdb_preparations s). prow_inbox_id q \<noteq> inb_id row \<and> prow_run_id q \<noteq> inb_run_id row" by blast
  have "prep_inv s'" if inv: "prep_inv s"
  proof -
    from inv inb(1) have "inbox_inv s'" "inbox_inv s" by (simp_all add: prep_inv_def inbox_kept_def)
    moreover have "prep_ok s' p" unfolding prep_ok_def
      using inb(2) prepares_receipt [OF assms(1)] assms(2) p
      by (intro exI [of _ "validated_row (prc_Admission receipt) row"] exI [of _ receipt]) (simp add: validated_row_def holds_token_def)
    ultimately show ?thesis using inv new prep_ok_stays [OF inb(1)] p unfolding prep_inv_def preps
      by auto
  qed
  with inb(1) preps show ?thesis by (simp add: prep_kept_def) blast
qed

lemma preparation_kept:
  assumes "ReportPrepared v subject report s = (answer, s')"
  shows "prep_inv s \<Longrightarrow> prep_kept s s'"
proof -
  assume "prep_inv s"
  then have ids: "distinct (map inb_id (wdb_inbox s))" by (simp add: prep_inv_def inbox_inv_def)
  have body: "prep_kept s s2" if "prepared_body subject report v 1 s = (Inr (Commit x), n, s2)" for x n s2
    using prepared_effect [OF that ids] prepares_kept unfolding live_throughout_def by blast
  show "prep_kept s s'" by (rule preparations.checked_run [OF body assms [unfolded ReportPrepared_def]])
qed

section \<open>Histories of the inbox\<close>

text \<open>
  What can happen to a database after an admission. The five operations are all that write the table
  \<open>worker_inbox\<close>, each run to its end whether it commits, rolls back or loses its connection; what
  the rest of the platform does (runs, sessions, recovery, executions, messages, migrations) is a
  step that may change everything else.
\<close>

inductive inbox_step :: "'z prep_db_scheme \<Rightarrow> 'z prep_db_scheme \<Rightarrow> bool" where
  claim_input_step: "claimInput v seen locked subject profile s = (q1, s') \<Longrightarrow> inbox_step s s'"
| renew_input_step: "RenewInput v subject token s = (q2, s') \<Longrightarrow> inbox_step s s'"
| report_input_step: "ReportInput v subject report s = (q3, s') \<Longrightarrow> inbox_step s s'"
| relay_input_step: "relayRunStart decode v locked owner s = (q4, s') \<Longrightarrow> inbox_step s s'"
| prepare_input_step: "ReportPrepared v subject preport s = (q5, s') \<Longrightarrow> inbox_step s s'"
| other_tables_step: "wdb_inbox s' = wdb_inbox s \<Longrightarrow> inbox_step s s'"

lemma prepared_inbox_kept:
  assumes "ReportPrepared v subject report s = (answer, s')"
  shows "inbox_kept s s'"
proof (cases "inbox_inv s")
  case True
  then have ids: "distinct (map inb_id (wdb_inbox s))" by (simp add: inbox_inv_def)
  have body: "inbox_kept s s2" if "prepared_body subject report v 1 s = (Inr (Commit x), n, s2)" for x n s2
    using prepared_effect [OF that ids] prepares_inbox(1) unfolding live_throughout_def by blast
  show ?thesis by (rule inbox.checked_run [OF body assms [unfolded ReportPrepared_def]])
qed (simp add: inbox_kept_def)

lemma inbox_step_kept: "inbox_step s s' \<Longrightarrow> inbox_kept s s'"
  by (erule inbox_step.cases)
     (auto dest: inbox_operations_kept relay_operation_kept(1) prepared_inbox_kept same_inbox_kept)

lemma inbox_history_kept: "inbox_step\<^sup>*\<^sup>* s s' \<Longrightarrow> inbox_kept s s'"
proof (induction rule: rtranclp_induct)
  case (step s1 s2)
  from step.IH inbox_step_kept [OF step.hyps(2)] show ?case by (rule inbox.trans)
qed (rule inbox.refl)

text \<open>
  C11. An admission can be read back for ever. Once a report has been answered with a receipt,
  the same report from the same worker gets the same receipt whatever claims, renewals, reports,
  relays and preparations by anyone have run since, in any order and with any outcome, and whatever
  else the platform has changed outside the inbox (it may have entered recovery, the run may have
  ended); and answering it changes nothing.
\<close>

theorem receipt_readback:
  assumes "ReportInput v subject report s = (Inr receipt, s1)" and "inbox_inv s" and "inbox_step\<^sup>*\<^sup>* s1 s2"
    and "undisturbed w" and "db_recovery_mode (wdb_outbox s2) \<in> {''NORMAL'', ''RECOVERY_RECONCILIATION''}"
  shows "ReportInput w subject report s2 = (Inr receipt, s2)"
proof (rule admitted_answer)
  have inv1: "inbox_inv s1" using inbox_operations_kept(3) [OF assms(1)] assms(2) by (simp add: inbox_kept_def)
  note kept = inbox_history_kept [OF assms(3)]
  with inv1 show "inbox_inv s2" by (simp add: inbox_kept_def)
  show "admitted subject report receipt s2" by (rule admitted_stays [OF report_admitted [OF assms(1,2)] inv1 kept])
qed (rule assms(4,5))+

section \<open>Undisturbed preparation\<close>

lemma record_preparation_ok:
  assumes "undisturbed v" and "journal_room s" and "scanned row r" and val: "Validate a = Inr validation"
    and row: "row \<in> set (wdb_inbox s)" "distinct (map inb_id (wdb_inbox s))" "inb_state row = ''LEASED''"
    and until: "inb_until row = Some t" "\<forall>k. we_clock v k < t"
    and new: "\<not> list_ex (\<lambda>q. prow_inbox_id q = inb_id row \<or> prow_run_id q = inb_run_id row) (pdb_preparations s)"
  shows "\<exists>m s'. record_preparation subject r a facts v n s =
     (Inr (Commit (prepared_receipt a subject validation (we_clock v n) facts)), m, s')"
proof -
  let ?rc = "prepared_receipt a subject validation (we_clock v n) facts"
  obtain ev where ev: "workerAudit ''worker.preparation.recorded'' (irec_runID r) (PreparationReceipt_json (we_rfc3339 v) ?rc) v (Suc n) s
      = (Inr ev, Suc n + 3, log_event ev s)"
    using workerAudit_ok [OF assms(1,2), of "''worker.preparation.recorded''"] by blast
  have leased: "filter (still_leased (we_clock v k) (inb_id row)) (wdb_inbox s) = [row]" for k
  proof -
    have "filter (\<lambda>i. i = row) (wdb_inbox s) = [row]" using filter_single [OF _ row(1)] row(2) by (simp add: distinct_map)
    moreover have "filter (still_leased (we_clock v k) (inb_id row)) (wdb_inbox s) = filter (\<lambda>i. i = row) (wdb_inbox s)"
      using until row by_id [OF row(2,1)] by (intro filter_cong) (auto simp: still_leased_def)
    ultimately show ?thesis by simp
  qed
  have preps: "pdb_preparations (log_event ev s) = pdb_preparations s" by (simp add: log_event_def)
  with assms(1,3) ev val leased new show ?thesis
    unfolding record_preparation_def Let_def
    by (simp add: tx_bind_def tx_read_def tx_lift_def tx_env_def tx_write_def tx_return_def scanned_def insert_preparation_def)
qed

lemma prepared_ok:
  assumes "undisturbed v" and "journal_room s" and h: "holds_token subject (rep_Token (prp_Input report)) s row" "scanned row r"
    and live: "\<forall>k. live_lease (we_clock v k) s row" and "distinct (map inb_id (wdb_inbox s))"
    and sel: "select_input (int_InputDigest (irec_intent r)) (irec_runID r) s = Inr (input, task)" "worker_assignment r input task = Inr a"
    and rep: "NewReport a = Inr (prp_Input report)" "Facts_Check (prp_Facts report) a = None" "Validate a = Inr validation"
    and new: "\<not> list_ex (\<lambda>q. prow_inbox_id q = inb_id row \<or> prow_run_id q = inb_run_id row) (pdb_preparations s)"
  shows "\<exists>s'. ReportPrepared v subject report s = (Inr (prepared_receipt a subject validation (we_clock v 7) (prp_Facts report)), s')"
proof -
  from live obtain t where t: "inb_state row = ''LEASED''" "db_recovery_mode (wdb_outbox s) = ''NORMAL''" "inb_until row = Some t"
    "\<forall>k. we_clock v k < t" unfolding live_lease_def by (metis option.inject)
  have mode: "db_recovery_mode (wdb_outbox s) \<in> {''NORMAL'', ''RECOVERY_RECONCILIATION''}" using t(2) by simp
  from holds_token_find [OF h(1)] have row: "row \<in> set (wdb_inbox s)" by blast
  from record_preparation_ok [OF assms(1,2) h(2) rep(3) row assms(6) t(1,3,4) new, of subject "prp_Facts report" 7]
  obtain m s' where rec: "record_preparation subject r a (prp_Facts report) v 7 s =
      (Inr (Commit (prepared_receipt a subject validation (we_clock v 7) (prp_Facts report))), m, s')" by blast
  have load: "loadWorkerAssignment r v 3 s = (Inr a, 4, s)"
    using assms(1) sel by (subst loadWorkerAssignment_effect) (simp add: eval_nat_numeral)
  have lock: "lockWorkerLease subject (rep_Token (prp_Input report)) v 1 s =
      (Inr (r, db_recovery_epoch (wdb_outbox s), db_recovery_mode (wdb_outbox s)), 3, s)"
    using lockWorkerLease_ok [OF assms(1) h mode, of 1] by simp
  have lease: "liveWorkerLease r (db_recovery_epoch (wdb_outbox s)) (db_recovery_mode (wdb_outbox s)) v 4 s = (Inr (), 7, s)"
    using liveWorkerLease_ok [OF assms(1) h, of 4] live by simp
  have "irec_state r \<noteq> Validated" using t(1) h(2) by (simp add: scanned_def Validated_def)
  with lock load lease rec rep(1,2) have "prepared_body subject report v 1 s =
      (Inr (Commit (prepared_receipt a subject validation (we_clock v 7) (prp_Facts report))), m, s')"
    unfolding prepared_body_def by (simp add: tx_bind_def)
  then show ?thesis using assms(1) unfolding ReportPrepared_def by (intro exI [of _ s']) (rule run_tx_commit, simp_all)
qed

section \<open>Recorded preparations\<close>

text \<open>
  C13. A preparation is recorded only under live authority and together with the admission it
  carries. When a preparation report changes the database, the reporting worker holds the
  lease of its token in the current recovery epoch on an active run, unexpired at the database clock
  reading with which the transaction checks it and at the later one with which it writes the row,
  and the same transaction has added exactly one preparation, admitted the leased row with the admission receipt that the
  preparation receipt contains, and kept all other preparations.
\<close>

theorem preparation_is_fenced_and_atomic:
  assumes "ReportPrepared v subject report s = (answer, s')" and "s' \<noteq> s" and "prep_inv s"
  shows "prep_inv s'
     \<and> (\<exists>row k k' p receipt. holds_token subject (rep_Token (prp_Input report)) s row
          \<and> k < k' \<and> live_lease (we_clock v k) s row \<and> live_lease (we_clock v k') s row
          \<and> pdb_preparations s' = pdb_preparations s @ [p] \<and> prow_receipt p = Some receipt \<and> prow_inbox_id p = inb_id row
          \<and> prc_Facts receipt = prp_Facts report
          \<and> validated_row (prc_Admission receipt) row \<in> set (wdb_inbox s'))"
proof -
  from assms(3) have ids: "distinct (map inb_id (wdb_inbox s))" by (simp add: prep_inv_def inbox_inv_def)
  from run_tx_cases [OF assms(1) [unfolded ReportPrepared_def]] assms(2)
  obtain x n where body: "prepared_body subject report v 1 s = (Inr (Commit x), n, s')" by blast
  from prepared_effect [OF body ids] obtain row receipt where
    live: "live_throughout v s row" and token: "holds_token subject (rep_Token (prp_Input report)) s row"
    and p: "prepares subject report row receipt s s'" by blast
  from live obtain k k' where k: "k < k'" "live_lease (we_clock v k') s row" and "live_lease (we_clock v k) s row"
    unfolding live_throughout_def by blast
  note h = token this(3)
  from prepares_preparations [OF p] obtain q where "pdb_preparations s' = pdb_preparations s @ [q]" "prow_receipt q = Some receipt"
    "prow_inbox_id q = inb_id row" by blast
  moreover from prepares_inbox(2) [OF p h] have "validated_row (prc_Admission receipt) row \<in> set (wdb_inbox s')" .
  moreover from prepares_kept [OF p h] assms(3) have "prep_inv s'" by (simp add: prep_kept_def)
  ultimately show ?thesis using h k prepares_receipt [OF p] by blast
qed

lemma find_unique:
  assumes "distinct (map f xs)" and "x \<in> set xs"
  shows "find (\<lambda>y. f y = f x) xs = Some x"
proof -
  obtain y where y: "find (\<lambda>y. f y = f x) xs = Some y"
    using assms(2) by (metis (mono_tags, lifting) find_None_iff not_Some_eq)
  from find_member [OF y] assms have "y = x" by (metis inj_onD distinct_map)
  with y show ?thesis by simp
qed

lemma preparation_readback:
  assumes "prep_inv s" and "p \<in> set (pdb_preparations s)" and "prow_receipt p = Some receipt" and "undisturbed w"
  shows "GetPreparation w (prow_run_id p) s = Inr receipt"
proof -
  from assms(1) have "distinct (map prow_run_id (pdb_preparations s))" and ok: "prep_ok s p" using assms(2) by (simp_all add: prep_inv_def)
  from find_unique [OF this(1) assms(2)] have f: "find (\<lambda>q. prow_run_id q = prow_run_id p) (pdb_preparations s) = Some p" .
  from ok assms(3) have "prc_Kind receipt = PreparationKind" "Digest (Facts_json (prc_Facts receipt)) = prc_FactsDigest receipt"
    by (auto simp: prep_ok_def)
  with f assms(3,4) show ?thesis
    by (simp add: GetPreparation_def run_query_def tx_map_err_def tx_read_def select_where_def)
qed

section \<open>A sample preparation\<close>

definition lab_ref :: ContextRef where
  "lab_ref = \<lparr>ref_Source = ''doc'', ref_Type = ''DOCUMENT'', ref_Version = ''1'', ref_Digest = Hash ''text'', ref_Trust = ''APPROVED''\<rparr>"

definition lab_input :: RunInputManifest where
  "lab_input = \<lparr>input_Continuation = None, input_RunID = ''R-1'', input_TaskContractDigest = TaskContract_Digest worker_task,
     input_ContextRefs = [lab_ref], input_RuntimeProfile = ''rt'',
     input_ToolProfile = ''offline/'' @ Hash (json_encode (Profile_json lab_profile)),
     input_WorkerProfile = ''wk'', input_PolicyProfile = ''pol''\<rparr>"

definition lab_intent :: Intent where
  "lab_intent = \<lparr>int_RunID = ''R-1'', int_TaskDigest = TaskContract_Digest worker_task,
     int_InputDigest = Digest (RunInputManifest_json lab_input), int_ExecutionEpoch = 1\<rparr>"

definition lab_row :: inbox_row where
  "lab_row = \<lparr>inb_id = 1, inb_outbox_key = ''run:R-1:started'', inb_run_id = ''R-1'',
     inb_intent_digest = Digest (Intent_json lab_intent), inb_intent = Some lab_intent, inb_profile = ''wk'',
     inb_state = ''LEASED'', inb_owner = Some ''w'', inb_generation = 1, inb_epoch = Some 7, inb_started = Some 5,
     inb_until = Some (5 + 30 * second), inb_receipt = None\<rparr>"

definition lab_token :: Token where
  "lab_token = \<lparr>tok_Profile = ''wk'', tok_InboxID = 1, tok_Generation = 1, tok_RecoveryEpoch = 7\<rparr>"

definition lab_assignment :: Assignment where
  "lab_assignment = \<lparr>asg_Token = lab_token, asg_LeaseUntil = 0, asg_Intent = lab_intent,
     asg_IntentDigest = Digest (Intent_json lab_intent), asg_Input = lab_input, asg_Task = worker_task\<rparr>"

definition lab_validation :: Validation where
  "lab_validation = \<lparr>val_Protocol = Protocol, val_IntentDigest = Digest (Intent_json lab_intent),
     val_InputDigest = Digest (RunInputManifest_json lab_input), val_TaskDigest = TaskContract_Digest worker_task,
     val_ContextCount = 1, val_ContextBytesVerified = False, val_ExecutionStarted = False\<rparr>"

definition lab_bundle :: BundleManifest where
  "lab_bundle = \<lparr>bm_SchemaVersion = 1, bm_RunInputDigest = Digest (RunInputManifest_json lab_input),
     bm_Entries = Slice [\<lparr>ent_Ref = lab_ref, ent_File = entryName 0 lab_ref, ent_Size = 4\<rparr>]\<rparr>"

definition lab_facts :: Facts where
  "lab_facts = \<lparr>fct_SeedSourceDigest = [], fct_SeedCheckpointDigest = [], fct_Version = 1,
     fct_IntentDigest = Digest (Intent_json lab_intent), fct_InputDigest = Digest (RunInputManifest_json lab_input),
     fct_TaskDigest = TaskContract_Digest worker_task, fct_ApprovalDigest = Hash ''ok'', fct_BaseCommit = ToLower (replicate 40 CHR ''a''),
     fct_TreeCommit = replicate 40 CHR ''b'', fct_WorkspaceRecipe = WorkspaceRecipe, fct_SourceDigest = Hash ''src'',
     fct_ConfigDigest = Hash ''cfg'', fct_BundleDigest = Digest (BundleManifest_json lab_bundle), fct_Context = lab_bundle,
     fct_ExecutionStarted = False, fct_OSIsolated = False\<rparr>"

definition lab_report :: PreparationReport where
  "lab_report = \<lparr>prp_Input = \<lparr>rep_Token = lab_token, rep_ValidationDigest = Digest (Validation_json lab_validation)\<rparr>, prp_Facts = lab_facts\<rparr>"

definition lab_run :: Run where
  "lab_run = sample_run\<lparr>run_RunInputManifestDigest := Digest (RunInputManifest_json lab_input)\<rparr>"

definition lab_db :: prep_db where
  "lab_db = \<lparr>wdb_outbox = \<lparr>db_rows = [], db_recovery_epoch = 7, db_recovery_mode = ''NORMAL''\<rparr>,
     wdb_runs = [''R-1'' \<mapsto> lab_run], wdb_sessions = [''R-1'' \<mapsto> NewSession ''R-1'' 1],
     wdb_manifests = [\<lparr>man_digest = Digest (RunInputManifest_json lab_input), man_run_id = ''R-1'',
        man_task_digest = TaskContract_Digest worker_task, man_profile = ''wk'', man_json = Inr lab_input\<rparr>],
     wdb_tasks = [TaskContract_Digest worker_task \<mapsto> Some worker_task],
     wdb_inbox = [lab_row], wdb_workers = [''w'' \<mapsto> ''wk''], wdb_events = [], wdb_last_sequence = 0, wdb_last_digest = [],
     pdb_schema = [1, 2, 3, 4, 5], pdb_preparations = []\<rparr>"

lemma lab_refs_ok: "ValidateContextRefs [lab_ref] = None"
  by (simp add: ValidateContextRefs_def lab_ref_def ContextRef_Validate_def contextSource_def contextVersion_def is_alnum_def
      is_digit_def byte_in_def Hash_def)

lemma lab_fields [simp]:
  "int_RunID lab_intent = ''R-1''" "int_TaskDigest lab_intent = TaskContract_Digest worker_task"
  "int_InputDigest lab_intent = Digest (RunInputManifest_json lab_input)" "int_ExecutionEpoch lab_intent = 1"
  "input_RunID lab_input = ''R-1''" "input_TaskContractDigest lab_input = TaskContract_Digest worker_task"
  "input_RuntimeProfile lab_input = ''rt''" "input_ToolProfile lab_input = ''offline/'' @ Hash (json_encode (Profile_json lab_profile))"
  "input_WorkerProfile lab_input = ''wk''" "input_PolicyProfile lab_input = ''pol''" "input_ContextRefs lab_input = [lab_ref]"
  "input_Continuation lab_input = None"
  by (simp_all add: lab_intent_def lab_input_def)

lemma lab_validates: "Validate lab_assignment = Inr lab_validation"
proof -
  have "Intent_Digest lab_intent = Inr (Digest (Intent_json lab_intent))"
    by (simp add: Intent_Digest_def TaskContract_Digest_def)
  moreover have "RunInputManifest_Digest lab_input = Inr (Digest (RunInputManifest_json lab_input))"
    by (simp add: RunInputManifest_Digest_def lab_refs_ok continuation_error_def)
  ultimately show ?thesis using sample_profile sample_commit
    by (simp add: Validate_def lab_assignment_def lab_token_def Token_Valid_def Let_def lab_validation_def)
qed

lemma lab_facts_ok: "Facts_Check lab_facts lab_assignment = None"
proof -
  have g: "gitSHA (replicate 40 CHR ''b'')"
    by (simp add: gitSHA_def match_exactly_def is_lower_hex_def is_digit_def byte_in_def list_all_iff)
  have c: "check_entries 0 0 [lab_ref] (elems (bm_Entries lab_bundle)) = Some 4"
    by (simp add: lab_bundle_def) (simp add: lab_ref_def)
  have f: "bm_SchemaVersion lab_bundle = 1" "bm_RunInputDigest lab_bundle = Digest (RunInputManifest_json lab_input)"
    "length (elems (bm_Entries lab_bundle)) = 1"
    by (simp_all add: lab_bundle_def)
  show ?thesis using lab_validates g c f
    by (simp add: Facts_Check_def lab_facts_def lab_assignment_def Hash_def Digest_def del: replicate.simps)
qed

theorem prepared_context_is_complete_witness:
  "Facts_Check lab_facts lab_assignment = None \<and> map ent_Ref (elems (bm_Entries (fct_Context lab_facts))) = [lab_ref]"
  using prepared_context_is_complete [OF lab_facts_ok] lab_facts_ok by (simp add: Let_def lab_assignment_def)

lemma lab_scan: "scanned lab_row (inbox_record lab_row lab_intent)"
  by (simp add: scanned_def inbox_record_def lab_row_def Intent_Digest_def TaskContract_Digest_def)

lemma lab_load:
  "worker_assignment (inbox_record lab_row lab_intent) (Inr lab_input) (Some worker_task) = Inr lab_assignment"
proof -
  have "\<lparr>asg_Token = inbox_token (inbox_record lab_row lab_intent), asg_LeaseUntil = 0, asg_Intent = lab_intent,
      asg_IntentDigest = Digest (Intent_json lab_intent), asg_Input = lab_input, asg_Task = worker_task\<rparr> = lab_assignment"
    by (simp add: lab_assignment_def lab_token_def inbox_token_def inbox_record_def lab_row_def COALESCE0_def)
  moreover have "RunInputManifest_UnmarshalJSON (Inr lab_input) True = Inr lab_input"
    by (simp add: RunInputManifest_UnmarshalJSON_def lab_refs_ok continuation_error_def)
  moreover have "irec_profile (inbox_record lab_row lab_intent) = ''wk''" "irec_intent (inbox_record lab_row lab_intent) = lab_intent"
    "irec_digest (inbox_record lab_row lab_intent) = Digest (Intent_json lab_intent)"
    by (simp_all add: inbox_record_def lab_row_def)
  ultimately show ?thesis using lab_validates by (simp add: worker_assignment_def Let_def)
qed

lemma lab_prep_inv: "prep_inv lab_db"
  by (simp add: prep_inv_def inbox_inv_def lab_db_def row_ok_def lab_row_def Validated_def second_def)

lemma lab_token_held: "holds_token ''w'' (rep_Token (prp_Input lab_report)) lab_db lab_row"
  using sample_profile
  by (simp add: lab_report_def holds_token_def lab_db_def lab_row_def lab_token_def row_token_def Token_Valid_def COALESCE0_def)

lemma lab_lease: "\<forall>k. live_lease (we_clock (sample_wenv 6) k) lab_db lab_row"
proof -
  have "run_active lab_run (NewSession ''R-1'' 1) lab_intent = None"
    by (simp add: run_active_def lab_run_def sample_run_def NewSession_def)
  then show ?thesis by (simp add: live_lease_def lab_db_def run_live_def lab_row_def COALESCE0_def second_def)
qed

lemma lab_select:
  "select_input (int_InputDigest (irec_intent (inbox_record lab_row lab_intent))) (irec_runID (inbox_record lab_row lab_intent)) lab_db
   = Inr (Inr lab_input, Some worker_task)"
proof -
  have r: "irec_intent (inbox_record lab_row lab_intent) = lab_intent" "irec_runID (inbox_record lab_row lab_intent) = ''R-1''"
    by (simp_all add: inbox_record_def lab_row_def)
  show ?thesis unfolding r by (simp add: select_input_def select_row_def lab_db_def)
qed

lemma lab_room: "journal_room lab_db"
  by (simp add: journal_room_def journal_ok_def lab_db_def Verify_def root_def)

lemma lab_new_report: "NewReport lab_assignment = Inr (prp_Input lab_report)"
  using lab_validates by (simp add: NewReport_Inr lab_report_def) (simp add: lab_assignment_def)

lemma lab_ids: "distinct (map inb_id (wdb_inbox lab_db))"
  by (simp add: lab_db_def)

lemma lab_prepared:
  "\<exists>s'. ReportPrepared (sample_wenv 6) ''w'' lab_report lab_db = (Inr (prepared_receipt lab_assignment ''w'' lab_validation 6 lab_facts), s')"
proof -
  have facts: "prp_Facts lab_report = lab_facts" by (simp add: lab_report_def)
  have new: "\<not> list_ex (\<lambda>q. prow_inbox_id q = inb_id lab_row \<or> prow_run_id q = inb_run_id lab_row) (pdb_preparations lab_db)"
    by (simp add: lab_db_def)
  from prepared_ok [OF sample_wenv_simps(1) lab_room lab_token_held lab_scan lab_lease lab_ids lab_select lab_load lab_new_report _ lab_validates new]
    lab_facts_ok
  show ?thesis by (simp add: facts)
qed

lemma lab_reported:
  "\<exists>receipt s'. ReportInput (sample_wenv 6) ''w'' (prp_Input lab_report) lab_db = (Inr receipt, s')"
  using report_ok [OF sample_wenv_simps(1) lab_room lab_token_held lab_scan lab_lease lab_ids lab_select lab_load lab_new_report lab_validates]
  by blast

text \<open>Another worker has claimed since, the run is gone, and the platform is in recovery.\<close>

definition lab_later :: "prep_db \<Rightarrow> prep_db" where
  "lab_later s = (snd (claimInput (sample_wenv 900) (Map.empty, Map.empty) (\<lambda>_. False) ''x'' ''wk'' s))
     \<lparr>wdb_runs := Map.empty, wdb_outbox := \<lparr>db_rows = [], db_recovery_epoch = 8, db_recovery_mode = ''RECOVERY_RECONCILIATION''\<rparr>\<rparr>"

lemma lab_later_history: "inbox_step\<^sup>*\<^sup>* s (lab_later s)"
proof -
  let ?c = "claimInput (sample_wenv 900) (Map.empty, Map.empty) (\<lambda>_. False) ''x'' ''wk'' s"
  have "?c = (fst ?c, snd ?c)" by simp
  then have "inbox_step s (snd ?c)" by (rule claim_input_step)
  moreover have "inbox_step (snd ?c) (lab_later s)" by (rule other_tables_step) (simp add: lab_later_def)
  ultimately show ?thesis by (meson rtranclp.simps)
qed

theorem receipt_readback_witness:
  "\<exists>receipt s. ReportInput (sample_wenv 6) ''w'' (prp_Input lab_report) lab_db = (Inr receipt, s)
     \<and> ReportInput (sample_wenv 950) ''w'' (prp_Input lab_report) (lab_later s) = (Inr receipt, lab_later s)"
proof -
  obtain receipt s where r: "ReportInput (sample_wenv 6) ''w'' (prp_Input lab_report) lab_db = (Inr receipt, s)"
    using lab_reported by blast
  have "inbox_inv lab_db" using lab_prep_inv by (simp add: prep_inv_def)
  from receipt_readback [OF r this lab_later_history sample_wenv_simps(1), of 950] r show ?thesis by (auto simp: lab_later_def)
qed

theorem preparation_is_fenced_and_atomic_witness:
  "\<exists>answer s' row p. ReportPrepared (sample_wenv 6) ''w'' lab_report lab_db = (answer, s') \<and> s' \<noteq> lab_db \<and> prep_inv s'
     \<and> live_lease 6 lab_db row \<and> pdb_preparations s' = [p]"
proof -
  obtain x s' where r: "ReportPrepared (sample_wenv 6) ''w'' lab_report lab_db = (Inr x, s')" using lab_prepared by blast
  have ids: "distinct (map inb_id (wdb_inbox lab_db))" by (simp add: lab_db_def)
  have "s' \<noteq> lab_db"
  proof
    assume "s' = lab_db"
    with r consider n s1 where "prepared_body ''w'' lab_report (sample_wenv 6) 1 lab_db = (Inr (Rollback x), n, s1)"
      | n where "prepared_body ''w'' lab_report (sample_wenv 6) 1 lab_db = (Inr (Commit x), n, lab_db)"
      unfolding ReportPrepared_def run_tx_Inr by blast
    then show False
    proof cases
      case 1
      from prepared_effect [OF 1 ids] obtain row where "row \<in> set (wdb_inbox lab_db)" "inb_state row = Validated"
        using holds_token_find by blast
      then show False by (simp add: lab_db_def lab_row_def Validated_def)
    next
      case 2
      from prepared_effect [OF 2 ids] obtain row receipt where "prepares ''w'' lab_report row receipt lab_db lab_db" by blast
      from prepares_preparations [OF this] show False by simp
    qed
  qed
  moreover have "pdb_preparations lab_db = []" by (simp add: lab_db_def)
  ultimately show ?thesis using preparation_is_fenced_and_atomic [OF r _ lab_prep_inv] r by fastforce
qed

end
