(* ===== verification/Executions.thy ===== *)
theory Executions
  imports Preparation Recovery
begin

text \<open>
  Execution reservations. The offline lane (\<open>offline/model.go\<close>, \<open>store/postgres/offline_store.go\<close>) and
  the Codex lane keep rows of the same shape and lock, renew, fail and reconcile them in the same way;
  that common part is defined once over the table it works on, and each lane's operations are
  instances. \<open>started_at\<close> and \<open>lease_until\<close> of a new row come from the one clock reading of its statement.
\<close>

section \<open>Tokens, rows and permits\<close>

record ExecToken =
  xtok_ID :: string
  xtok_RunID :: string
  xtok_WorkerProfile :: string
  xtok_ProfileDigest :: string
  xtok_RecoveryEpoch :: uint64

definition ExecToken_json :: "ExecToken \<Rightarrow> json" where
  "ExecToken_json t = JObj
     (str_field ''execution_id'' (xtok_ID t) @ str_field ''run_id'' (xtok_RunID t)
      @ str_field ''worker_profile'' (xtok_WorkerProfile t) @ str_field ''profile_digest'' (xtok_ProfileDigest t)
      @ u64_field ''recovery_epoch'' (xtok_RecoveryEpoch t))"

definition ExecToken_Valid :: "ExecToken \<Rightarrow> bool" where
  "ExecToken_Valid t \<longleftrightarrow>
     hex64 (xtok_ID t) \<and> xtok_RunID t \<noteq> [] \<and> length (xtok_RunID t) \<le> 256 \<and> ValidProfile (xtok_WorkerProfile t)
     \<and> ValidDigest (xtok_ProfileDigest t)"

definition HexEncodeToString :: "string \<Rightarrow> string" where
  "HexEncodeToString bs = concat (map (\<lambda>c. [hex_digit (of_char c div 16), hex_digit (of_char c mod 16)]) bs)"

definition Authorized :: string where "Authorized = ''AUTHORIZED''"
definition Finished :: string where "Finished = ''FINISHED''"
definition OutcomeUnknown :: string where "OutcomeUnknown = ''UNKNOWN''"
definition Stopped :: string where "Stopped = ''STOPPED_NO_DELIVERY''"
definition AbandonedReconciled :: string where "AbandonedReconciled = ''ABANDONED_RECONCILED''"

lemmas execution_states = Authorized_def Finished_def OutcomeUnknown_def Stopped_def AbandonedReconciled_def

record ('p, 'r) exec_row =
  exe_id :: string
  exe_run_id :: string
  exe_inbox_id :: int
  exe_worker :: string
  exe_token :: "ExecToken option"
  exe_profile :: "'p option"
  exe_preparation :: string
  exe_state :: string
  exe_started :: gotime
  exe_until :: gotime
  exe_receipt :: "'r option option"
  exe_reconciliation :: "ExecutionAbandonReceipt option option"

text \<open>The scanned row (\<open>offlineRow\<close>, \<open>codexRow\<close>).\<close>

record ('p, 'r) execution =
  xr_token :: ExecToken
  xr_profile :: 'p
  xr_worker :: string
  xr_preparation :: string
  xr_state :: string
  xr_until :: gotime
  xr_receipt :: "'r option"

record 'p Permit =
  perm_Token :: ExecToken
  perm_Assignment :: Assignment
  perm_Preparation :: PreparationReceipt
  perm_Profile :: 'p
  perm_LeaseUntil :: gotime

record 'p Start =
  start_RunID :: string
  start_WorkerProfile :: string
  start_Profile :: 'p

definition Permit_Check ::
  "('p \<Rightarrow> string result) \<Rightarrow> (Assignment \<Rightarrow> 'p \<Rightarrow> err option) \<Rightarrow> 'p Permit \<Rightarrow> string \<Rightarrow> 'p Start \<Rightarrow> err option" where
  "Permit_Check digestOf check p subject request =
     (case (digestOf (perm_Profile p), digestOf (start_Profile request)) of
        (Inr digest, Inr want) \<Rightarrow>
          if digest \<noteq> want \<or> \<not> ExecToken_Valid (perm_Token p) \<or> xtok_ProfileDigest (perm_Token p) \<noteq> digest
             \<or> xtok_WorkerProfile (perm_Token p) \<noteq> start_WorkerProfile request \<or> xtok_RunID (perm_Token p) \<noteq> start_RunID request
             \<or> int_RunID (asg_Intent (perm_Assignment p)) \<noteq> start_RunID request
             \<or> input_WorkerProfile (asg_Input (perm_Assignment p)) \<noteq> start_WorkerProfile request \<or> IsZero (perm_LeaseUntil p)
          then Some ErrIdentity
          else (case check (perm_Assignment p) (perm_Profile p) of
                  Some e \<Rightarrow> Some e
                | None \<Rightarrow> Preparation_Verify (perm_Assignment p) (perm_Preparation p) (prc_Facts (perm_Preparation p)) subject)
      | _ \<Rightarrow> Some ErrIdentity)"

text \<open>The immutable task and run input must name the exact profile and allow the lane's action.\<close>

definition check_assignment :: "string \<Rightarrow> string \<Rightarrow> ('p \<Rightarrow> string result) \<Rightarrow> Assignment \<Rightarrow> 'p \<Rightarrow> err option" where
  "check_assignment prefix action digestOf a p =
     (case digestOf p of
        Inl e \<Rightarrow> Some e
      | Inr d \<Rightarrow>
          (case Validate a of
             Inl e \<Rightarrow> Some e
           | Inr _ \<Rightarrow>
               if input_ToolProfile (asg_Input a) \<noteq> prefix @ d then Some ErrIdentity
               else if list_ex (\<lambda>allowed. allowed = action) (task_AllowedActions (asg_Task a)) then None
               else Some ErrIdentity))"

section \<open>Tables\<close>

record ('o, 'q, 'p, 'r) exec_db = prep_db +
  edb_offline :: "('o, 'q) exec_row list"
  edb_codex :: "('p, 'r) exec_row list"
  edb_deliveries :: "string list"

section \<open>Locking and scanning a reservation\<close>

definition execution_record :: "('p, 'r) exec_row \<Rightarrow> ExecToken \<Rightarrow> 'p \<Rightarrow> 'r option \<Rightarrow> ('p, 'r) execution" where
  "execution_record row t p receipt =
     \<lparr>xr_token = t, xr_profile = p, xr_worker = exe_worker row, xr_preparation = exe_preparation row, xr_state = exe_state row,
      xr_until = exe_until row, xr_receipt = receipt\<rparr>"

definition scan_execution :: "('p \<Rightarrow> string result) \<Rightarrow> ('p, 'r) exec_row option \<Rightarrow> ('p, 'r) execution result" where
  "scan_execution digestOf found =
     (case found of
        None \<Rightarrow> Inl ErrNoRows
      | Some row \<Rightarrow>
          (case (exe_token row, exe_profile row) of
             (Some t, Some p) \<Rightarrow>
               unless (\<not> ExecToken_Valid t) ErrIdentity
                 (unless (digestOf p \<noteq> Inr (xtok_ProfileDigest t)) ErrIdentity
                    (case exe_receipt row of
                       None \<Rightarrow> Inr (execution_record row t p None)
                     | Some None \<Rightarrow> Inl ErrIdentity
                     | Some (Some receipt) \<Rightarrow> Inr (execution_record row t p (Some receipt))))
           | _ \<Rightarrow> Inl ErrIdentity))"

definition live_execution :: "gotime \<Rightarrow> ('p, 'r) exec_row \<Rightarrow> bool" where
  "live_execution now x \<longleftrightarrow> exe_state x = Authorized \<and> exe_until x > now"

definition lock_execution ::
  "('z prep_db_scheme \<Rightarrow> ('p, 'r) exec_row list) \<Rightarrow> ('p \<Rightarrow> string result) \<Rightarrow> string \<Rightarrow> ExecToken \<Rightarrow> bool
   \<Rightarrow> ('z prep_db_scheme, ('p, 'r) execution \<times> inboxRecord) tx" where
  "lock_execution rows digestOf subject t live =
     tx_guard (subject = [] \<or> \<not> ExecToken_Valid t) ErrIdentity
     (tx_bind lockWorkerPlatform (\<lambda>(epoch, mode).
      tx_bind (tx_map_err (no_rows ErrNotFound)
                 (tx_read (\<lambda>_ s. scanInbox (find (\<lambda>i. inb_run_id i = xtok_RunID t) (wdb_inbox s))))) (\<lambda>inbox.
      tx_guard (irec_owner inbox \<noteq> subject \<or> irec_profile inbox \<noteq> xtok_WorkerProfile t) ErrIdentity
      (tx_bind (if live then tx_guard (mode \<noteq> ''NORMAL'' \<or> epoch \<noteq> xtok_RecoveryEpoch t) ErrRecovery (workerRunActive inbox)
                else tx_return ()) (\<lambda>_.
       tx_bind (tx_map_err (no_rows ErrNotFound)
                  (tx_read (\<lambda>_ s. scan_execution digestOf (find (\<lambda>x. exe_run_id x = xtok_RunID t) (rows s))))) (\<lambda>row.
       tx_guard (xr_token row \<noteq> t \<or> xr_worker row \<noteq> subject) ErrIdentity
       (if live
        then tx_bind (tx_read (\<lambda>now s. select_where (\<lambda>x. exe_id x = xtok_ID t) (live_execution now) (rows s))) (\<lambda>valid.
               tx_guard (\<not> valid) ErrLease (tx_return (row, inbox)))
        else tx_return (row, inbox))))))))"

section \<open>Authorizing\<close>

definition update_rows :: "('a \<Rightarrow> bool) \<Rightarrow> ('a \<Rightarrow> 'a) \<Rightarrow> 'a list \<Rightarrow> 'a list" where
  "update_rows P f xs = map (\<lambda>x. if P x then f x else x) xs"

definition authorized_row ::
  "gotime \<Rightarrow> int \<Rightarrow> ExecToken \<Rightarrow> int \<Rightarrow> string \<Rightarrow> 'p \<Rightarrow> string \<Rightarrow> ('p, 'r) exec_row" where
  "authorized_row now lease t inbox subject p preparation =
     \<lparr>exe_id = xtok_ID t, exe_run_id = xtok_RunID t, exe_inbox_id = inbox, exe_worker = subject, exe_token = Some t,
      exe_profile = Some p, exe_preparation = preparation, exe_state = Authorized, exe_started = now,
      exe_until = now + lease * second, exe_receipt = None, exe_reconciliation = None\<rparr>"

definition insert_execution ::
  "('s \<Rightarrow> ('p, 'r) exec_row list) \<Rightarrow> ((('p, 'r) exec_row list \<Rightarrow> ('p, 'r) exec_row list) \<Rightarrow> 's \<Rightarrow> 's)
   \<Rightarrow> ('p, 'r) exec_row \<Rightarrow> 's \<Rightarrow> (gotime \<times> 's) result" where
  "insert_execution rows upd x s =
     unless (list_ex (\<lambda>y. exe_id y = exe_id x \<or> exe_run_id y = exe_run_id x) (rows s)) ErrExists
       (Inr (exe_until x, upd (\<lambda>xs. xs @ [x]) s))"

text \<open>The stored preparation receipt, decoded and verified against the assignment.\<close>

definition verified_preparation :: "Assignment \<Rightarrow> string \<Rightarrow> PreparationReceipt option \<Rightarrow> PreparationReceipt result" where
  "verified_preparation a subject stored =
     (case stored of
        None \<Rightarrow> Inl ErrIdentity
      | Some prep \<Rightarrow> unless (Preparation_Verify a prep (prc_Facts prep) subject \<noteq> None) ErrIdentity (Inr prep))"

definition load_preparation :: "Assignment \<Rightarrow> string \<Rightarrow> inboxRecord \<Rightarrow> ('z prep_db_scheme, PreparationReceipt) tx" where
  "load_preparation a subject r =
     tx_bind (read_preparation (no_rows ErrNotFound) (irec_id r)) (\<lambda>stored. tx_lift (verified_preparation a subject stored))"

definition new_token :: "string \<Rightarrow> inboxRecord \<Rightarrow> string \<Rightarrow> uint64 \<Rightarrow> ExecToken" where
  "new_token nonce r pd epoch =
     \<lparr>xtok_ID = HexEncodeToString nonce, xtok_RunID = irec_runID r, xtok_WorkerProfile = irec_profile r,
      xtok_ProfileDigest = pd, xtok_RecoveryEpoch = epoch\<rparr>"

definition issue_execution ::
  "('z prep_db_scheme \<Rightarrow> ('p, 'r) exec_row list)
   \<Rightarrow> ((('p, 'r) exec_row list \<Rightarrow> ('p, 'r) exec_row list) \<Rightarrow> 'z prep_db_scheme \<Rightarrow> 'z prep_db_scheme)
   \<Rightarrow> string \<Rightarrow> int \<Rightarrow> string \<Rightarrow> 'p \<Rightarrow> string \<Rightarrow> uint64 \<Rightarrow> inboxRecord \<Rightarrow> Assignment \<Rightarrow> PreparationReceipt
   \<Rightarrow> ('z prep_db_scheme, 'p Permit decision) tx" where
  "issue_execution rows upd event lease subject profile pd epoch r a prep =
     tx_bind (tx_env we_nonce) (\<lambda>nonce.
       (let token = new_token nonce r pd epoch in
        tx_bind (workerAudit event (irec_runID r) (ExecToken_json token)) (\<lambda>_.
        tx_bind (tx_write (\<lambda>now. insert_execution rows upd
                   (authorized_row now lease token (irec_id r) subject profile (prc_FactsDigest prep)))) (\<lambda>until.
        tx_return (Commit \<lparr>perm_Token = token, perm_Assignment = a, perm_Preparation = prep,
                           perm_Profile = profile, perm_LeaseUntil = until\<rparr>)))))"

text \<open>From the inbox row to the permit: the part that both lanes share.\<close>

definition authorize_execution ::
  "('z prep_db_scheme \<Rightarrow> ('p, 'r) exec_row list)
   \<Rightarrow> ((('p, 'r) exec_row list \<Rightarrow> ('p, 'r) exec_row list) \<Rightarrow> 'z prep_db_scheme \<Rightarrow> 'z prep_db_scheme)
   \<Rightarrow> (Assignment \<Rightarrow> 'p \<Rightarrow> err option) \<Rightarrow> string \<Rightarrow> int \<Rightarrow> string \<Rightarrow> 'p Start \<Rightarrow> string \<Rightarrow> uint64
   \<Rightarrow> ('z prep_db_scheme, 'p Permit decision) tx" where
  "authorize_execution rows upd check event lease subject req pd epoch =
     tx_bind (tx_map_err (no_rows ErrNotFound)
                (tx_read (\<lambda>_ s. scanInbox (find (\<lambda>i. inb_run_id i = start_RunID req) (wdb_inbox s))))) (\<lambda>r.
     tx_guard (irec_owner r \<noteq> subject \<or> irec_profile r \<noteq> start_WorkerProfile req \<or> irec_state r \<noteq> Validated) ErrIdentity
     (tx_bind (workerRunActive r) (\<lambda>_.
      tx_bind (loadWorkerAssignment r) (\<lambda>a.
      tx_bind (tx_lift (unless_err (check a (start_Profile req)) (Inr ()))) (\<lambda>_.
      tx_bind (load_preparation a subject r) (\<lambda>prep.
      issue_execution rows upd event lease subject (start_Profile req) pd epoch r a prep))))))"

definition busy :: "string \<Rightarrow> ('p, 'r) exec_row list \<Rightarrow> bool" where
  "busy subject xs \<longleftrightarrow> list_ex (\<lambda>x. exe_worker x = subject \<and> exe_state x = Authorized) xs"

section \<open>Renewing, finishing and failing\<close>

definition renewable_execution :: "gotime \<Rightarrow> int \<Rightarrow> string \<Rightarrow> ('p, 'r) exec_row \<Rightarrow> bool" where
  "renewable_execution now limit k x \<longleftrightarrow> exe_id x = k \<and> exe_until x > now \<and> exe_started x + limit * second > now"

definition renewed_row :: "gotime \<Rightarrow> int \<Rightarrow> int \<Rightarrow> ('p, 'r) exec_row \<Rightarrow> ('p, 'r) exec_row" where
  "renewed_row now lease limit x = x\<lparr>exe_until := min (now + lease * second) (exe_started x + limit * second)\<rparr>"

definition renew_execution ::
  "('z prep_db_scheme \<Rightarrow> ('p, 'r) exec_row list)
   \<Rightarrow> ((('p, 'r) exec_row list \<Rightarrow> ('p, 'r) exec_row list) \<Rightarrow> 'z prep_db_scheme \<Rightarrow> 'z prep_db_scheme)
   \<Rightarrow> ('p \<Rightarrow> string result) \<Rightarrow> string \<Rightarrow> int \<Rightarrow> int \<Rightarrow> string \<Rightarrow> ExecToken \<Rightarrow> ('z prep_db_scheme, gotime decision) tx" where
  "renew_execution rows upd digestOf event lease limit subject t =
     tx_bind (lock_execution rows digestOf subject t True) (\<lambda>_.
     tx_bind (workerAudit event (xtok_RunID t) (ExecToken_json t)) (\<lambda>_.
     tx_bind (tx_map_err (no_rows ErrLease)
                (tx_write (\<lambda>now s.
                   case find (renewable_execution now limit (xtok_ID t)) (rows s) of
                     None \<Rightarrow> Inl ErrNoRows
                   | Some x \<Rightarrow> Inr (exe_until (renewed_row now lease limit x),
                       upd (update_rows (renewable_execution now limit (xtok_ID t)) (renewed_row now lease limit)) s)))) (\<lambda>until.
     tx_return (Commit until))))"

definition finished_row :: "'r \<Rightarrow> ('p, 'r) exec_row \<Rightarrow> ('p, 'r) exec_row" where
  "finished_row receipt x = x\<lparr>exe_state := Finished, exe_receipt := Some (Some receipt)\<rparr>"

text \<open>The last statement of a finish: it counts the rows it changed.\<close>

definition finish_execution ::
  "('s \<Rightarrow> ('p, 'r) exec_row list) \<Rightarrow> ((('p, 'r) exec_row list \<Rightarrow> ('p, 'r) exec_row list) \<Rightarrow> 's \<Rightarrow> 's)
   \<Rightarrow> string \<Rightarrow> 'r \<Rightarrow> ('s, unit) tx" where
  "finish_execution rows upd k receipt =
     tx_write (\<lambda>now s.
       unless (length (filter (\<lambda>x. exe_id x = k \<and> live_execution now x) (rows s)) \<noteq> 1) ErrLease
         (Inr ((), upd (update_rows (\<lambda>x. exe_id x = k \<and> live_execution now x) (finished_row receipt)) s)))"

definition fail_execution ::
  "('z prep_db_scheme \<Rightarrow> ('p, 'r) exec_row list)
   \<Rightarrow> ((('p, 'r) exec_row list \<Rightarrow> ('p, 'r) exec_row list) \<Rightarrow> 'z prep_db_scheme \<Rightarrow> 'z prep_db_scheme)
   \<Rightarrow> ('p \<Rightarrow> string result) \<Rightarrow> string \<Rightarrow> string \<Rightarrow> ExecToken \<Rightarrow> ('z prep_db_scheme, unit decision) tx" where
  "fail_execution rows upd digestOf event subject t =
     tx_bind (lock_execution rows digestOf subject t False) (\<lambda>(row, _).
     if xr_state row \<noteq> Authorized then tx_return (Rollback ())
     else
       tx_bind (workerAudit event (xtok_RunID t) (ExecToken_json t)) (\<lambda>_.
       tx_bind (tx_write (\<lambda>_ s. Inr ((), upd (update_rows (\<lambda>x. exe_id x = xtok_ID t) (\<lambda>x. x\<lparr>exe_state := OutcomeUnknown\<rparr>)) s))) (\<lambda>_.
       tx_return (Commit ()))))"

section \<open>Abandoning in recovery\<close>

definition ExecutionAbandonReceipt_json :: "(gotime \<Rightarrow> string) \<Rightarrow> ExecutionAbandonReceipt \<Rightarrow> json" where
  "ExecutionAbandonReceipt_json rfc3339 r = JObj
     (str_field ''kind'' (xrc_Kind r) @ [(''request'', ExecutionAbandonRequest_json (xrc_Request r))]
      @ str_field ''request_digest'' (xrc_RequestDigest r) @ str_field ''reconciler'' (xrc_Reconciler r)
      @ str_field ''previous_state'' (xrc_PreviousState r) @ str_field ''created_at'' (rfc3339 (xrc_CreatedAt r))
      @ bool_field ''execution_authorized'' (xrc_ExecutionAuthorized r) @ bool_field ''replay_authorized'' (xrc_ReplayAuthorized r)
      @ bool_field ''production_qualified'' (xrc_ProductionQualified r))"

definition abandoned_row :: "ExecutionAbandonReceipt \<Rightarrow> ('p, 'r) exec_row \<Rightarrow> ('p, 'r) exec_row" where
  "abandoned_row retained x = x\<lparr>exe_state := AbandonedReconciled, exe_reconciliation := Some (Some retained)\<rparr>"

definition abandon_receipt :: "ExecutionAbandonRequest \<Rightarrow> string \<Rightarrow> string \<Rightarrow> string \<Rightarrow> gotime \<Rightarrow> ExecutionAbandonReceipt" where
  "abandon_receipt request digest reconciler state now =
     \<lparr>xrc_Kind = ''RECOVERY_EXECUTION_ABANDONMENT_V1'', xrc_Request = request, xrc_RequestDigest = digest, xrc_Reconciler = reconciler,
      xrc_PreviousState = state, xrc_CreatedAt = now, xrc_ExecutionAuthorized = False, xrc_ReplayAuthorized = False,
      xrc_ProductionQualified = False\<rparr>"

definition retained_reconciliation ::
  "ExecutionAbandonRequest \<Rightarrow> string \<Rightarrow> ExecutionAbandonReceipt option option \<Rightarrow> ExecutionAbandonReceipt result" where
  "retained_reconciliation request reconciler stored =
     (case stored of
        Some (Some retained) \<Rightarrow>
          unless (ExecutionAbandonReceipt_Validate retained \<noteq> None) (ErrText ''invalid retained execution reconciliation'')
            (unless ((case ExecutionAbandonRequest_Digest request of Inl _ \<Rightarrow> [] | Inr d \<Rightarrow> d) \<noteq> xrc_RequestDigest retained
                     \<or> xrc_Reconciler retained \<noteq> reconciler) ErrConflict (Inr retained))
      | _ \<Rightarrow> Inl (ErrText ''invalid retained execution reconciliation''))"

definition abandonable :: "ExecutionAbandonRequest \<Rightarrow> string \<Rightarrow> ('p, 'r) exec_row \<Rightarrow> bool" where
  "abandonable request state x \<longleftrightarrow> exe_id x = xar_ExecutionID request \<and> exe_receipt x = None \<and> exe_state x = state"

definition retain_abandonment ::
  "('z prep_db_scheme \<Rightarrow> ('p, 'r) exec_row list)
   \<Rightarrow> ((('p, 'r) exec_row list \<Rightarrow> ('p, 'r) exec_row list) \<Rightarrow> 'z prep_db_scheme \<Rightarrow> 'z prep_db_scheme)
   \<Rightarrow> string \<Rightarrow> ExecutionAbandonRequest \<Rightarrow> string \<Rightarrow> gotime \<Rightarrow> ('z prep_db_scheme, ExecutionAbandonReceipt decision) tx" where
  "retain_abandonment rows upd reconciler request state now =
     tx_bind (tx_lift (ExecutionAbandonRequest_Digest request)) (\<lambda>digest.
       (let retained = abandon_receipt request digest reconciler state now in
        tx_bind (tx_lift (unless_err (ExecutionAbandonReceipt_Validate retained) (Inr ()))) (\<lambda>_.
        tx_bind (tx_env we_rfc3339) (\<lambda>rfc3339.
        tx_bind (appendAudit (auditInput ''recovery.execution.abandoned'' ''Run'' (xar_RunID request)
                                (ExecutionAbandonReceipt_json rfc3339 retained)) now) (\<lambda>_.
        tx_bind (tx_write (\<lambda>_ s.
           unless (length (filter (abandonable request state) (rows s)) \<noteq> 1) ErrConflict
             (Inr ((), upd (update_rows (abandonable request state) (abandoned_row retained)) s)))) (\<lambda>_.
        tx_return (Commit retained)))))))"

definition abandon_execution ::
  "('z prep_db_scheme \<Rightarrow> ('p, 'r) exec_row list)
   \<Rightarrow> ((('p, 'r) exec_row list \<Rightarrow> ('p, 'r) exec_row list) \<Rightarrow> 'z prep_db_scheme \<Rightarrow> 'z prep_db_scheme)
   \<Rightarrow> ('p \<Rightarrow> string result) \<Rightarrow> ('z prep_db_scheme \<Rightarrow> string list) \<Rightarrow> string \<Rightarrow> ExecutionAbandonRequest
   \<Rightarrow> ('z prep_db_scheme, ExecutionAbandonReceipt decision) tx" where
  "abandon_execution rows upd digestOf delivered reconciler request =
     tx_bind (tx_map_err (no_rows ErrNotFound) (tx_read (\<lambda>_ s.
                scan_execution digestOf (find (\<lambda>x. exe_run_id x = xar_RunID request \<and> exe_id x = xar_ExecutionID request) (rows s))))) (\<lambda>row.
     tx_guard (xtok_RunID (xr_token row) \<noteq> xar_RunID request \<or> xtok_ID (xr_token row) \<noteq> xar_ExecutionID request) ErrConflict
     (tx_bind (tx_read (\<lambda>_ s. select_where (\<lambda>x. exe_id x = xar_ExecutionID request) exe_reconciliation (rows s))) (\<lambda>stored.
      if xr_state row = AbandonedReconciled
      then tx_bind (tx_lift (retained_reconciliation request reconciler stored)) (\<lambda>retained. tx_return (Commit retained))
      else
        tx_guard (xr_receipt row \<noteq> None \<or> xr_state row \<noteq> Authorized \<and> xr_state row \<noteq> OutcomeUnknown) ErrConflict
        (tx_bind (tx_read (\<lambda>now _. Inr now)) (\<lambda>now.
         tx_guard (xr_until row > now) ErrConflict
         (tx_bind (tx_read (\<lambda>_ s. Inr (length (filter (\<lambda>d. d = xar_RunID request) (delivered s))))) (\<lambda>deliveries.
          tx_guard (deliveries \<noteq> 0) ErrConflict
          (retain_abandonment rows upd reconciler request (xr_state row) now))))))))"

end
