(* ===== verification/ExecutionLanes.thy ===== *)
theory ExecutionLanes
  imports Executions
begin

text \<open>
  What the common operations on reservations do, proved once for every table that satisfies the laws
  of the locale \<open>execution_lane\<close>.
\<close>

section \<open>Rows\<close>

definition exec_ok :: "('p \<Rightarrow> string result) \<Rightarrow> int \<Rightarrow> ('p, 'r) exec_row \<Rightarrow> bool" where
  "exec_ok digestOf limit x \<longleftrightarrow>
     exe_state x \<in> {Authorized, Finished, OutcomeUnknown, Stopped, AbandonedReconciled}
     \<and> (exe_state x = Finished \<longleftrightarrow> exe_receipt x \<noteq> None) \<and> exe_receipt x \<noteq> Some None
     \<and> exe_until x \<le> exe_started x + limit * second
     \<and> (\<exists>t p. exe_token x = Some t \<and> exe_profile x = Some p \<and> xtok_ID t = exe_id x \<and> xtok_RunID t = exe_run_id x
          \<and> digestOf p = Inr (xtok_ProfileDigest t))"

text \<open>A reservation never changes its identity, a decided one never changes at all, and one whose
  outcome is unknown is never authorized again and never gets a receipt.\<close>

definition exec_final :: "('p, 'r) exec_row \<Rightarrow> bool" where
  "exec_final x \<longleftrightarrow> exe_state x \<in> {Finished, Stopped, AbandonedReconciled}"

definition exec_identity :: "('p, 'r) exec_row \<Rightarrow> string \<times> string \<times> int \<times> string \<times> ExecToken option \<times> 'p option \<times> string \<times> gotime" where
  "exec_identity x = (exe_id x, exe_run_id x, exe_inbox_id x, exe_worker x, exe_token x, exe_profile x, exe_preparation x, exe_started x)"

definition exec_kept :: "('p, 'r) exec_row \<Rightarrow> ('p, 'r) exec_row \<Rightarrow> bool" where
  "exec_kept x x' \<longleftrightarrow>
     exec_identity x' = exec_identity x
     \<and> (exec_final x \<longrightarrow> x' = x)
     \<and> (exe_state x = OutcomeUnknown \<longrightarrow> exe_state x' \<in> {OutcomeUnknown, Stopped, AbandonedReconciled})"

lemma exec_kept_refl [simp]: "exec_kept x x"
  by (simp add: exec_kept_def)

lemma exec_kept_trans: "exec_kept x x' \<Longrightarrow> exec_kept x' x'' \<Longrightarrow> exec_kept x x''"
  by (auto simp: exec_kept_def exec_final_def)

definition lane_ok :: "('p \<Rightarrow> string result) \<Rightarrow> int \<Rightarrow> ('p, 'r) exec_row list \<Rightarrow> bool" where
  "lane_ok digestOf limit xs \<longleftrightarrow>
     distinct (map exe_id xs) \<and> distinct (map exe_run_id xs) \<and> (\<forall>x \<in> set xs. exec_ok digestOf limit x)"

definition lane_rows_kept :: "('p \<Rightarrow> string result) \<Rightarrow> int \<Rightarrow> ('p, 'r) exec_row list \<Rightarrow> ('p, 'r) exec_row list \<Rightarrow> bool" where
  "lane_rows_kept digestOf limit xs xs' \<longleftrightarrow>
     (lane_ok digestOf limit xs \<longrightarrow> lane_ok digestOf limit xs' \<and> (\<forall>x \<in> set xs. \<exists>x' \<in> set xs'. exec_kept x x'))"

lemma lane_rows_kept_refl [simp]: "lane_rows_kept digestOf limit xs xs"
  unfolding lane_rows_kept_def using exec_kept_refl by blast

lemma lane_rows_kept_trans:
  "lane_rows_kept digestOf limit xs ys \<Longrightarrow> lane_rows_kept digestOf limit ys zs \<Longrightarrow> lane_rows_kept digestOf limit xs zs"
  unfolding lane_rows_kept_def by (meson exec_kept_trans)

lemma update_rows_kept:
  assumes "lane_ok digestOf limit xs \<Longrightarrow> \<forall>x \<in> set xs. P x \<longrightarrow> exec_kept x (f x) \<and> exec_ok digestOf limit (f x)"
  shows "lane_rows_kept digestOf limit xs (update_rows P f xs)"
  unfolding lane_rows_kept_def
proof (intro impI conjI ballI)
  assume ok: "lane_ok digestOf limit xs"
  with assms have st: "\<forall>x \<in> set xs. P x \<longrightarrow> exec_kept x (f x) \<and> exec_ok digestOf limit (f x)" by blast
  have "exec_identity (f x) = exec_identity x" if "x \<in> set xs" "P x" for x using st that by (simp add: exec_kept_def)
  then have "map exe_id (update_rows P f xs) = map exe_id xs" "map exe_run_id (update_rows P f xs) = map exe_run_id xs"
    by (auto simp: update_rows_def exec_identity_def)
  moreover have "\<forall>x \<in> set (update_rows P f xs). exec_ok digestOf limit x" using ok st by (auto simp: lane_ok_def update_rows_def)
  ultimately show "lane_ok digestOf limit (update_rows P f xs)" using ok by (simp add: lane_ok_def)
next
  fix x assume "lane_ok digestOf limit xs" "x \<in> set xs"
  with assms show "\<exists>x' \<in> set (update_rows P f xs). exec_kept x x'"
    by (intro bexI [of _ "if P x then f x else x"]) (auto simp: update_rows_def)
qed

lemma update_rows_member: "x \<in> set xs \<Longrightarrow> P x \<Longrightarrow> f x \<in> set (update_rows P f xs)"
  by (auto simp: update_rows_def image_iff intro!: bexI [of _ x])

lemma append_row_kept:
  assumes "exec_ok digestOf limit x" and "\<not> list_ex (\<lambda>y. exe_id y = exe_id x \<or> exe_run_id y = exe_run_id x) xs"
  shows "lane_rows_kept digestOf limit xs (xs @ [x])"
proof -
  have "\<forall>y \<in> set xs. \<exists>y' \<in> set (xs @ [x]). exec_kept y y'" using exec_kept_refl by fastforce
  with assms show ?thesis by (auto simp: lane_rows_kept_def lane_ok_def list_ex_iff)
qed

lemma lane_by_id:
  "lane_ok digestOf limit xs \<Longrightarrow> x \<in> set xs \<Longrightarrow> y \<in> set xs \<Longrightarrow> exe_id x = exe_id y \<Longrightarrow> x = y"
  "lane_ok digestOf limit xs \<Longrightarrow> x \<in> set xs \<Longrightarrow> y \<in> set xs \<Longrightarrow> exe_run_id x = exe_run_id y \<Longrightarrow> x = y"
  by (metis lane_ok_def inj_onD distinct_map)+

section \<open>Effects of the common operations\<close>

text \<open>What a scanned record says about its row.\<close>

definition exec_scanned :: "('p \<Rightarrow> string result) \<Rightarrow> ('p, 'r) exec_row \<Rightarrow> ('p, 'r) execution \<Rightarrow> bool" where
  "exec_scanned digestOf x row \<longleftrightarrow>
     exe_token x = Some (xr_token row) \<and> exe_profile x = Some (xr_profile row) \<and> ExecToken_Valid (xr_token row)
     \<and> digestOf (xr_profile row) = Inr (xtok_ProfileDigest (xr_token row))
     \<and> xr_worker row = exe_worker x \<and> xr_preparation row = exe_preparation x \<and> xr_state row = exe_state x
     \<and> xr_until row = exe_until x \<and> exe_receipt x = map_option Some (xr_receipt row)"

lemma scan_execution_scanned: "scan_execution digestOf found = Inr row \<Longrightarrow> \<exists>x. found = Some x \<and> exec_scanned digestOf x row"
  by (auto simp: scan_execution_def exec_scanned_def execution_record_def split: option.splits prod.splits)

lemma exec_scanned_scan: "exec_scanned digestOf x row \<Longrightarrow> scan_execution digestOf (Some x) = Inr row"
  by (cases "xr_receipt row")
     (auto simp: exec_scanned_def scan_execution_def execution_record_def intro!: execution.equality)

text \<open>The reservation that a token names, held by the subject on its inbox row; and its authority.\<close>

definition holds_execution ::
  "('s \<Rightarrow> ('p, 'r) exec_row list) \<Rightarrow> ('s \<Rightarrow> inbox_row list) \<Rightarrow> string \<Rightarrow> ExecToken \<Rightarrow> 's \<Rightarrow> ('p, 'r) exec_row \<Rightarrow> inbox_row \<Rightarrow> bool" where
  "holds_execution rows inbox subject t s x i \<longleftrightarrow>
     find (\<lambda>x. exe_run_id x = xtok_RunID t) (rows s) = Some x \<and> exe_token x = Some t \<and> exe_worker x = subject
     \<and> find (\<lambda>i. inb_run_id i = xtok_RunID t) (inbox s) = Some i \<and> inb_owner i = Some subject
     \<and> inb_profile i = xtok_WorkerProfile t \<and> ExecToken_Valid t \<and> subject \<noteq> []"

definition live_authority :: "gotime \<Rightarrow> 'z worker_db_scheme \<Rightarrow> ExecToken \<Rightarrow> ('p, 'r) exec_row \<Rightarrow> inbox_row \<Rightarrow> bool" where
  "live_authority now s t x i \<longleftrightarrow>
     exe_state x = Authorized \<and> now < exe_until x
     \<and> db_recovery_mode (wdb_outbox s) = ''NORMAL'' \<and> db_recovery_epoch (wdb_outbox s) = xtok_RecoveryEpoch t \<and> run_live s i"

lemma live_authority_execution: "live_authority now s t x i \<Longrightarrow> live_execution now x"
  by (simp add: live_authority_def live_execution_def)

text \<open>
  An authority that was alive when its transaction checked it and at the later clock reading with
  which the transaction wrote the reservation.
\<close>

definition authority_throughout :: "wenv \<Rightarrow> 'z worker_db_scheme \<Rightarrow> ExecToken \<Rightarrow> ('p, 'r) exec_row \<Rightarrow> inbox_row \<Rightarrow> bool" where
  "authority_throughout v s t x i \<longleftrightarrow>
     (\<exists>k k'. k < k' \<and> live_authority (we_clock v k) s t x i \<and> live_authority (we_clock v k') s t x i)"

lemma owner_Some: "COALESCE own = subject \<Longrightarrow> subject \<noteq> [] \<Longrightarrow> own = Some subject"
  by (cases own) (auto simp: COALESCE_def)

definition lane_kept :: "('z prep_db_scheme \<Rightarrow> ('p, 'r) exec_row list) \<Rightarrow> ('p \<Rightarrow> string result) \<Rightarrow> int
   \<Rightarrow> 'z prep_db_scheme \<Rightarrow> 'z prep_db_scheme \<Rightarrow> bool" where
  "lane_kept rows digestOf limit s s' \<longleftrightarrow>
     lane_rows_kept digestOf limit (rows s) (rows s') \<and> prep_kept s s' \<and> journal_kept s s'"

lemma renewed_row_ok:
  assumes "exec_ok digestOf limit x" and "exe_state x = Authorized"
  shows "exec_kept x (renewed_row now lease limit x) \<and> exec_ok digestOf limit (renewed_row now lease limit x)"
  using assms by (simp add: exec_kept_def exec_ok_def exec_identity_def exec_final_def renewed_row_def execution_states)

lemma finished_row_ok:
  assumes "exec_ok digestOf limit x" and "exe_state x = Authorized"
  shows "exec_kept x (finished_row receipt x) \<and> exec_ok digestOf limit (finished_row receipt x)"
  using assms by (simp add: exec_kept_def exec_ok_def exec_identity_def exec_final_def finished_row_def execution_states)

lemma failed_row_ok:
  assumes "exec_ok digestOf limit x" and "exe_state x = Authorized"
  shows "exec_kept x (x\<lparr>exe_state := OutcomeUnknown\<rparr>) \<and> exec_ok digestOf limit (x\<lparr>exe_state := OutcomeUnknown\<rparr>)"
  using assms by (simp add: exec_kept_def exec_ok_def exec_identity_def exec_final_def execution_states)

lemma abandoned_row_ok:
  assumes "exec_ok digestOf limit x" and "exe_state x = Authorized \<or> exe_state x = OutcomeUnknown"
  shows "exec_kept x (abandoned_row rc x) \<and> exec_ok digestOf limit (abandoned_row rc x)"
  using assms(2) assms(1) by (elim disjE) (simp_all add: exec_kept_def exec_ok_def exec_identity_def exec_final_def abandoned_row_def execution_states)

lemma authorized_row_ok:
  assumes "digestOf p = Inr (xtok_ProfileDigest t)" and "lease \<le> limit"
  shows "exec_ok digestOf limit (authorized_row now lease t inbox subject p prep)"
  using assms by (simp add: exec_ok_def authorized_row_def execution_states second_def)

text \<open>Operations that leave another table alone.\<close>

definition same_of :: "('s \<Rightarrow> 'a) \<Rightarrow> 's \<Rightarrow> 's \<Rightarrow> bool" where
  "same_of g s s' \<longleftrightarrow> g s' = g s"

interpretation same_of: guarantee "same_of g" for g
  by unfold_locales (simp_all add: same_of_def)

lemma read_only_lock [intro!]: "read_only (lock_execution rows digestOf subject t live)"
  by (cases live) (auto simp: lock_execution_def split: prod.splits)

lemma read_only_load_preparation [intro!]: "read_only (load_preparation a subject r)"
  unfolding load_preparation_def read_preparation_def by auto

text \<open>An authorization: the admitted and prepared row it rests on, and the reservation it adds.\<close>

definition authorizes ::
  "('z prep_db_scheme \<Rightarrow> ('p, 'r) exec_row list)
   \<Rightarrow> ((('p, 'r) exec_row list \<Rightarrow> ('p, 'r) exec_row list) \<Rightarrow> 'z prep_db_scheme \<Rightarrow> 'z prep_db_scheme)
   \<Rightarrow> (Assignment \<Rightarrow> 'p \<Rightarrow> err option) \<Rightarrow> string \<Rightarrow> int \<Rightarrow> string \<Rightarrow> 'p Start \<Rightarrow> string \<Rightarrow> uint64 \<Rightarrow> string \<Rightarrow> gotime
   \<Rightarrow> inbox_row \<Rightarrow> 'p Permit \<Rightarrow> 'z prep_db_scheme \<Rightarrow> 'z prep_db_scheme \<Rightarrow> bool" where
  "authorizes rows upd check event lease subject req pd epoch nonce now i permit s s' \<longleftrightarrow>
     find (\<lambda>i. inb_run_id i = start_RunID req) (wdb_inbox s) = Some i \<and> inb_owner i = Some subject
     \<and> inb_profile i = start_WorkerProfile req \<and> inb_state i = Validated \<and> run_live s i
     \<and> check (perm_Assignment permit) (start_Profile req) = None
     \<and> Preparation_Verify (perm_Assignment permit) (perm_Preparation permit) (prc_Facts (perm_Preparation permit)) subject = None
     \<and> (\<exists>p \<in> set (pdb_preparations s). prow_inbox_id p = inb_id i \<and> prow_receipt p = Some (perm_Preparation permit))
     \<and> perm_Token permit = \<lparr>xtok_ID = HexEncodeToString nonce, xtok_RunID = start_RunID req, xtok_WorkerProfile = start_WorkerProfile req,
          xtok_ProfileDigest = pd, xtok_RecoveryEpoch = epoch\<rparr>
     \<and> perm_Profile permit = start_Profile req
     \<and> int_RunID (asg_Intent (perm_Assignment permit)) = start_RunID req
     \<and> input_WorkerProfile (asg_Input (perm_Assignment permit)) = start_WorkerProfile req
     \<and> (\<exists>s1. audited event (start_RunID req) (ExecToken_json (perm_Token permit)) s s1
          \<and> insert_execution rows upd (authorized_row now lease (perm_Token permit) (inb_id i) subject (start_Profile req)
               (prc_FactsDigest (perm_Preparation permit))) s1 = Inr (perm_LeaseUntil permit, s'))"

lemma insert_execution_Inr:
  "insert_execution rows upd x s = Inr (until, s') \<longleftrightarrow>
     \<not> list_ex (\<lambda>y. exe_id y = exe_id x \<or> exe_run_id y = exe_run_id x) (rows s) \<and> until = exe_until x \<and> s' = upd (\<lambda>xs. xs @ [x]) s"
  by (auto simp: insert_execution_def)

lemma load_preparation_Inr:
  "load_preparation a subject r v n s = (Inr prep, n', s') \<longleftrightarrow>
     we_ctx v n = None \<and> n' = Suc n \<and> s' = s
     \<and> (\<exists>p. find (\<lambda>p. prow_inbox_id p = irec_id r) (pdb_preparations s) = Some p \<and> prow_receipt p = Some prep)
     \<and> Preparation_Verify a prep (prc_Facts prep) subject = None"
  by (auto simp: load_preparation_def read_preparation_def verified_preparation_def split: option.splits)

locale execution_lane =
  fixes rows :: "'z prep_db_scheme \<Rightarrow> ('p, 'r) exec_row list"
    and upd :: "(('p, 'r) exec_row list \<Rightarrow> ('p, 'r) exec_row list) \<Rightarrow> 'z prep_db_scheme \<Rightarrow> 'z prep_db_scheme"
    and digestOf :: "'p \<Rightarrow> string result"
    and limit :: int
  assumes rows_upd [simp]: "rows (upd f s) = f (rows s)"
    and worker_upd [simp]: "worker_db.truncate (upd f s) = worker_db.truncate s"
    and prep_upd [simp]: "pdb_preparations (upd f s) = pdb_preparations s"
    and rows_frame: "same_extension s s' \<Longrightarrow> rows s' = rows s"
begin

lemma upd_frame [simp]:
  "wdb_inbox (upd f s) = wdb_inbox s" "wdb_events (upd f s) = wdb_events s" "wdb_last_sequence (upd f s) = wdb_last_sequence s"
  "wdb_last_digest (upd f s) = wdb_last_digest s" "wdb_outbox (upd f s) = wdb_outbox s"
  using worker_upd [of f s] by (simp_all add: worker_db.defs)

lemma upd_prep_kept: "prep_kept s (upd f s)"
  by (rule same_preparations_kept) (simp_all add: same_inbox_kept)

lemma upd_journal_kept: "journal_kept s (upd f s)"
  by (rule same_journal_kept) simp_all

lemma audit_rows: "workerAudit event runID payload v n s = (r, n', s') \<Longrightarrow> rows s' = rows s"
  by (rule rows_frame) (rule alwaysD [OF extension_writes(1)])

lemma audited_extension: "audited event runID payload s s' \<Longrightarrow> same_extension s s'"
  by (auto simp: audited_def log_event_def same_extension_def)

lemma lock_effect:
  assumes "lock_execution rows digestOf subject t live v n s = (Inr (row, inbox), n', s')"
  shows "s' = s \<and> (\<exists>x i. holds_execution rows wdb_inbox subject t s x i \<and> exec_scanned digestOf x row \<and> scanned i inbox
     \<and> (live \<longrightarrow> db_recovery_mode (wdb_outbox s) = ''NORMAL'' \<and> db_recovery_epoch (wdb_outbox s) = xtok_RecoveryEpoch t \<and> run_live s i
          \<and> (\<exists>k y. k < n' \<and> find (\<lambda>y. exe_id y = xtok_ID t) (rows s) = Some y \<and> live_execution (we_clock v k) y)))"
proof -
  from assms obtain n1 n2 s3 where ne: "subject \<noteq> []" "ExecToken_Valid t"
    and inb: "scanInbox (find (\<lambda>i. inb_run_id i = xtok_RunID t) (wdb_inbox s)) = Inr inbox"
    and own: "irec_owner inbox = subject" "irec_profile inbox = xtok_WorkerProfile t"
    and act: "(if live then tx_guard (db_recovery_mode (wdb_outbox s) \<noteq> ''NORMAL'' \<or> db_recovery_epoch (wdb_outbox s) \<noteq> xtok_RecoveryEpoch t)
                 ErrRecovery (workerRunActive inbox) else tx_return ()) v n1 s = (Inr (), n2, s3)"
    and row: "scan_execution digestOf (find (\<lambda>x. exe_run_id x = xtok_RunID t) (rows s3)) = Inr row"
    and tok: "xr_token row = t" "xr_worker row = subject"
    and last: "s' = s3" "live \<longrightarrow> (\<exists>y. find (\<lambda>y. exe_id y = xtok_ID t) (rows s3) = Some y \<and> live_execution (we_clock v (n' - 1)) y \<and> n' - 1 < n')"
    unfolding lock_execution_def by (auto simp: lockWorkerPlatform_effect split: if_splits)
  from act have s3: "s3 = s" using read_onlyD [OF read_only_worker(2)] by (auto split: if_splits)
  from scanInbox_scanned [OF inb] obtain i where i: "find (\<lambda>i. inb_run_id i = xtok_RunID t) (wdb_inbox s) = Some i" "scanned i inbox" by blast
  from scan_execution_scanned [OF row] s3 obtain x where x: "find (\<lambda>x. exe_run_id x = xtok_RunID t) (rows s) = Some x" "exec_scanned digestOf x row"
    by auto
  have "inb_owner i = Some subject" "inb_profile i = xtok_WorkerProfile t"
    using i(2) own ne(1) owner_Some by (auto simp: scanned_def)
  with x i tok ne have "holds_execution rows wdb_inbox subject t s x i"
    by (auto simp: holds_execution_def exec_scanned_def)
  moreover have "db_recovery_mode (wdb_outbox s) = ''NORMAL'' \<and> db_recovery_epoch (wdb_outbox s) = xtok_RecoveryEpoch t \<and> run_live s i" if live
  proof -
    from that act s3 have w: "workerRunActive inbox v n1 s = (Inr (), n2, s)" by simp
    from run_active_live [OF i(2) w] that act show ?thesis by simp
  qed
  ultimately show ?thesis using x i last s3 by blast
qed

lemma held_row:
  assumes "holds_execution rows wdb_inbox subject t s x i" and "lane_ok digestOf limit (rows s)"
  shows "x \<in> set (rows s) \<and> exe_id x = xtok_ID t \<and> exe_run_id x = xtok_RunID t
     \<and> (\<forall>y \<in> set (rows s). exe_id y = xtok_ID t \<longrightarrow> y = x)"
proof -
  from assms(1) have f: "find (\<lambda>x. exe_run_id x = xtok_RunID t) (rows s) = Some x" "exe_token x = Some t" by (auto simp: holds_execution_def)
  from find_member [OF f(1)] have x: "x \<in> set (rows s)" "exe_run_id x = xtok_RunID t" by auto
  with assms(2) f(2) have "exe_id x = xtok_ID t" by (auto simp: lane_ok_def exec_ok_def)
  with x assms(2) lane_by_id(1) show ?thesis by metis
qed

lemma lock_live:
  assumes "lock_execution rows digestOf subject t True v n s = (Inr (row, inbox), n', s')" and "lane_ok digestOf limit (rows s)"
  shows "s' = s \<and> (\<exists>x i k. holds_execution rows wdb_inbox subject t s x i \<and> exec_scanned digestOf x row \<and> scanned i inbox
     \<and> k < n' \<and> live_authority (we_clock v k) s t x i)"
proof -
  from lock_effect [OF assms(1)] obtain x i k y where s': "s' = s" and h: "holds_execution rows wdb_inbox subject t s x i"
    and sc: "exec_scanned digestOf x row" "scanned i inbox"
    and p: "db_recovery_mode (wdb_outbox s) = ''NORMAL''" "db_recovery_epoch (wdb_outbox s) = xtok_RecoveryEpoch t" "run_live s i"
    and y: "find (\<lambda>y. exe_id y = xtok_ID t) (rows s) = Some y" "live_execution (we_clock v k) y" "k < n'" by blast
  from find_member [OF y(1)] held_row [OF h assms(2)] have "y = x" by blast
  with h sc p y(2,3) s' show ?thesis unfolding live_authority_def live_execution_def by blast
qed

sublocale lane: guarantee "lane_kept rows digestOf limit"
  by unfold_locales (auto simp: lane_kept_def preparations.refl journal.refl
      intro: lane_rows_kept_trans preparations.trans journal.trans)

lemma upd_kept:
  assumes "lane_rows_kept digestOf limit (rows s) (f (rows s))"
  shows "lane_kept rows digestOf limit s (upd f s)"
  using assms upd_prep_kept upd_journal_kept by (simp add: lane_kept_def)

lemma same_rows_kept:
  assumes "rows s' = rows s" and "prep_kept s s'" and "journal_kept s s'"
  shows "lane_kept rows digestOf limit s s'"
  using assms by (simp add: lane_kept_def)

lemma audit_kept:
  assumes "audited event runID payload s s'"
  shows "lane_kept rows digestOf limit s s'"
proof (rule same_rows_kept)
  show "rows s' = rows s" by (rule rows_frame [OF audited_extension [OF assms]])
  show "prep_kept s s'" by (rule same_preparations_kept [OF audited_kept [OF assms] audited_preparations [OF assms]])
  show "journal_kept s s'" by (rule audited_journal [OF assms])
qed

lemma renewal_effect:
  assumes "renew_execution rows upd digestOf event lease limit subject t v n s = (Inr d, n', s')" and "lane_ok digestOf limit (rows s)"
  shows "\<exists>x i now tick s1. holds_execution rows wdb_inbox subject t s x i \<and> live_authority now s t x i
     \<and> audited event (xtok_RunID t) (ExecToken_json t) s s1
     \<and> s' = upd (update_rows (renewable_execution tick limit (xtok_ID t)) (renewed_row tick lease limit)) s1"
proof -
  from assms(1) obtain row inbox n1 s1 ev n2 s2 until n3 where
      l: "lock_execution rows digestOf subject t True v n s = (Inr (row, inbox), n1, s1)"
    and log: "workerAudit event (xtok_RunID t) (ExecToken_json t) v n1 s1 = (Inr ev, n2, s2)"
    and w: "(case find (renewable_execution (we_clock v n2) limit (xtok_ID t)) (rows s2) of
                     None \<Rightarrow> Inl ErrNoRows
                   | Some x \<Rightarrow> Inr (exe_until (renewed_row (we_clock v n2) lease limit x),
                       upd (update_rows (renewable_execution (we_clock v n2) limit (xtok_ID t)) (renewed_row (we_clock v n2) lease limit)) s2))
            = Inr (until, s')"
    unfolding renew_execution_def by auto
  from w have s': "s' = upd (update_rows (renewable_execution (we_clock v n2) limit (xtok_ID t)) (renewed_row (we_clock v n2) lease limit)) s2"
    by (auto split: option.splits)
  from lock_live [OF l assms(2)] have "s1 = s" by blast
  with workerAudit_audited [OF log] lock_live [OF l assms(2)] s' show ?thesis by blast
qed

lemma held_update_kept:
  assumes "holds_execution rows wdb_inbox subject t s x i" and "rows s1 = rows s"
    and "\<And>y. P y \<Longrightarrow> exe_id y = xtok_ID t"
    and "exec_ok digestOf limit x \<Longrightarrow> exec_kept x (f x) \<and> exec_ok digestOf limit (f x)"
  shows "lane_kept rows digestOf limit s1 (upd (update_rows P f) s1)"
proof (rule upd_kept, rule update_rows_kept, intro ballI impI)
  fix y assume ok: "lane_ok digestOf limit (rows s1)" "y \<in> set (rows s1)" "P y"
  with assms(2) have lane: "lane_ok digestOf limit (rows s)" "y \<in> set (rows s)" by simp_all
  from held_row [OF assms(1) lane(1)] lane(2) assms(3) [OF ok(3)] have "y = x" by blast
  with lane assms(4) show "exec_kept y (f y) \<and> exec_ok digestOf limit (f y)" by (auto simp: lane_ok_def)
qed

lemma renewal_kept:
  assumes "renew_execution rows upd digestOf event lease limit subject t v n s = (Inr d, n', s')" and "lane_ok digestOf limit (rows s)"
  shows "lane_kept rows digestOf limit s s'"
proof -
  from renewal_effect [OF assms] obtain x i now tick s1 where h: "holds_execution rows wdb_inbox subject t s x i"
    and l: "live_authority now s t x i" and a: "audited event (xtok_RunID t) (ExecToken_json t) s s1"
    and s': "s' = upd (update_rows (renewable_execution tick limit (xtok_ID t)) (renewed_row tick lease limit)) s1" by blast
  have same: "rows s1 = rows s" by (rule rows_frame [OF audited_extension [OF a]])
  from l have auth: "exe_state x = Authorized" by (simp add: live_authority_def live_execution_def)
  have "lane_kept rows digestOf limit s1 s'" unfolding s'
    by (rule held_update_kept [OF h same]) (simp add: renewable_execution_def, rule renewed_row_ok [OF _ auth])
  with audit_kept [OF a] lane.trans show ?thesis by blast
qed

lemma fail_effect:
  assumes "fail_execution rows upd digestOf event subject t v n s = (Inr d, n', s')"
  shows "\<exists>x i. holds_execution rows wdb_inbox subject t s x i
     \<and> (d = Rollback () \<and> exe_state x \<noteq> Authorized \<and> s' = s
        \<or> d = Commit () \<and> exe_state x = Authorized
          \<and> (\<exists>s1. audited event (xtok_RunID t) (ExecToken_json t) s s1
               \<and> s' = upd (update_rows (\<lambda>x. exe_id x = xtok_ID t) (\<lambda>x. x\<lparr>exe_state := OutcomeUnknown\<rparr>)) s1))"
proof -
  from assms obtain row inbox n1 s1 where
      l: "lock_execution rows digestOf subject t False v n s = (Inr (row, inbox), n1, s1)"
    and rest: "(if xr_state row \<noteq> Authorized then tx_return (Rollback ())
       else tx_bind (workerAudit event (xtok_RunID t) (ExecToken_json t)) (\<lambda>_.
         tx_bind (tx_write (\<lambda>_ s. Inr ((), upd (update_rows (\<lambda>x. exe_id x = xtok_ID t) (\<lambda>x. x\<lparr>exe_state := OutcomeUnknown\<rparr>)) s))) (\<lambda>_.
         tx_return (Commit ())))) v n1 s1 = (Inr d, n', s')"
    unfolding fail_execution_def by auto
  from lock_effect [OF l] obtain x i where s1: "s1 = s" and h: "holds_execution rows wdb_inbox subject t s x i" "exec_scanned digestOf x row"
    by blast
  show ?thesis
  proof (cases "exe_state x = Authorized")
    case True
    with rest s1 h(2) show ?thesis by (intro exI [of _ x] exI [of _ i]) (auto simp: exec_scanned_def h(1) dest: workerAudit_audited)
  next
    case False
    with rest s1 h(2) show ?thesis by (intro exI [of _ x] exI [of _ i]) (simp add: exec_scanned_def h(1))
  qed
qed

lemma fail_kept:
  assumes "fail_execution rows upd digestOf event subject t v n s = (Inr d, n', s')"
  shows "lane_kept rows digestOf limit s s'"
proof -
  from fail_effect [OF assms] consider "s' = s"
    | x i s1 where "holds_execution rows wdb_inbox subject t s x i" "exe_state x = Authorized"
      "audited event (xtok_RunID t) (ExecToken_json t) s s1"
      "s' = upd (update_rows (\<lambda>x. exe_id x = xtok_ID t) (\<lambda>x. x\<lparr>exe_state := OutcomeUnknown\<rparr>)) s1" by blast
  then show ?thesis
  proof cases
    case 2
    have "rows s1 = rows s" by (rule rows_frame [OF audited_extension [OF 2(3)]])
    from held_update_kept [OF 2(1) this, of "\<lambda>x. exe_id x = xtok_ID t" "\<lambda>x. x\<lparr>exe_state := OutcomeUnknown\<rparr>"] failed_row_ok 2(2)
    have "lane_kept rows digestOf limit s1 s'" unfolding 2(4) by blast
    with audit_kept [OF 2(3)] lane.trans show ?thesis by blast
  qed (simp add: lane.refl)
qed

lemma issue_effect:
  assumes "issue_execution rows upd event lease subject profile pd epoch r a prep v n s = (Inr d, n', s')"
  shows "\<exists>permit k s1. d = Commit permit \<and> perm_Token permit = new_token (we_nonce v) r pd epoch \<and> perm_Assignment permit = a
     \<and> perm_Preparation permit = prep \<and> perm_Profile permit = profile
     \<and> audited event (irec_runID r) (ExecToken_json (perm_Token permit)) s s1
     \<and> insert_execution rows upd (authorized_row (we_clock v k) lease (perm_Token permit) (irec_id r) subject profile (prc_FactsDigest prep)) s1
          = Inr (perm_LeaseUntil permit, s')"
proof -
  let ?t = "new_token (we_nonce v) r pd epoch"
  from assms obtain ev n1 s1 until where log: "workerAudit event (irec_runID r) (ExecToken_json ?t) v n s = (Inr ev, n1, s1)"
    and ins: "insert_execution rows upd (authorized_row (we_clock v n1) lease ?t (irec_id r) subject profile (prc_FactsDigest prep)) s1 = Inr (until, s')"
    and d: "d = Commit \<lparr>perm_Token = ?t, perm_Assignment = a, perm_Preparation = prep, perm_Profile = profile, perm_LeaseUntil = until\<rparr>"
    unfolding issue_execution_def Let_def by auto
  show ?thesis using workerAudit_audited [OF log] ins
    by (intro exI [of _ "\<lparr>perm_Token = ?t, perm_Assignment = a, perm_Preparation = prep, perm_Profile = profile, perm_LeaseUntil = until\<rparr>"]
        exI [of _ n1] exI [of _ s1]) (simp add: d)
qed

lemma authorize_effect:
  assumes "authorize_execution rows upd check event lease subject req pd epoch v n s = (Inr d, n', s')" and "subject \<noteq> []"
  shows "\<exists>permit i k. d = Commit permit \<and> authorizes rows upd check event lease subject req pd epoch (we_nonce v) (we_clock v k) i permit s s'"
proof -
  from assms(1) obtain r u n2 s2 a n3 s3 prep n4 s4 where
      inb: "scanInbox (find (\<lambda>i. inb_run_id i = start_RunID req) (wdb_inbox s)) = Inr r"
    and own: "irec_owner r = subject" "irec_profile r = start_WorkerProfile req" "irec_state r = Validated"
    and act: "workerRunActive r v (Suc n) s = (Inr u, n2, s2)"
    and load: "loadWorkerAssignment r v n2 s2 = (Inr a, n3, s3)"
    and check: "check a (start_Profile req) = None"
    and prep: "load_preparation a subject r v n3 s3 = (Inr prep, n4, s4)"
    and rest: "issue_execution rows upd event lease subject (start_Profile req) pd epoch r a prep v n4 s4 = (Inr d, n', s')"
    unfolding authorize_execution_def by auto
  from act have s2: "s2 = s" using read_onlyD [OF read_only_worker(2)] by blast
  from load s2 obtain input task where s3: "s3 = s" and asg: "worker_assignment r input task = Inr a"
    by (auto simp: loadWorkerAssignment_effect)
  from prep s3 obtain p where s4: "s4 = s" and p: "find (\<lambda>p. prow_inbox_id p = irec_id r) (pdb_preparations s) = Some p" "prow_receipt p = Some prep"
    and ver: "Preparation_Verify a prep (prc_Facts prep) subject = None"
    by (auto simp: load_preparation_Inr)
  from scanInbox_scanned [OF inb] obtain i where i: "find (\<lambda>i. inb_run_id i = start_RunID req) (wdb_inbox s) = Some i" "scanned i r" by blast
  from run_active_live [OF i(2) act [unfolded s2]] have live: "run_live s i" by blast
  from find_member [OF i(1)] i(2) own have ids: "irec_runID r = start_RunID req" "irec_id r = inb_id i" "inb_state i = Validated"
    "inb_profile i = start_WorkerProfile req" "int_RunID (irec_intent r) = start_RunID req" by (simp_all add: scanned_def)
  have owner: "inb_owner i = Some subject" using owner_Some [of "inb_owner i" subject] i(2) own(1) assms(2) by (simp add: scanned_def)
  from issue_effect [OF rest [unfolded s4]] obtain permit k s1 where d: "d = Commit permit"
    and pm: "perm_Token permit = new_token (we_nonce v) r pd epoch" "perm_Assignment permit = a" "perm_Preparation permit = prep"
      "perm_Profile permit = start_Profile req"
    and log: "audited event (start_RunID req) (ExecToken_json (perm_Token permit)) s s1"
    and ins: "insert_execution rows upd (authorized_row (we_clock v k) lease (perm_Token permit) (inb_id i) subject (start_Profile req)
        (prc_FactsDigest prep)) s1 = Inr (perm_LeaseUntil permit, s')" unfolding ids by blast
  from asg ids own have asg': "int_RunID (asg_Intent a) = start_RunID req" "input_WorkerProfile (asg_Input a) = start_WorkerProfile req"
    by (auto simp: worker_assignment_Inr)
  have tok: "perm_Token permit = \<lparr>xtok_ID = HexEncodeToString (we_nonce v), xtok_RunID = start_RunID req,
      xtok_WorkerProfile = start_WorkerProfile req, xtok_ProfileDigest = pd, xtok_RecoveryEpoch = epoch\<rparr>"
    by (simp add: pm new_token_def ids own)
  have mem: "\<exists>p \<in> set (pdb_preparations s). prow_inbox_id p = inb_id i \<and> prow_receipt p = Some prep"
    using find_member [OF p(1)] p(2) ids by auto
  have last: "\<exists>s1. audited event (start_RunID req) (ExecToken_json (perm_Token permit)) s s1
      \<and> insert_execution rows upd (authorized_row (we_clock v k) lease (perm_Token permit) (inb_id i) subject (start_Profile req)
        (prc_FactsDigest prep)) s1 = Inr (perm_LeaseUntil permit, s')" by (rule exI [of _ s1]) (rule conjI [OF log ins])
  have "authorizes rows upd check event lease subject req pd epoch (we_nonce v) (we_clock v k) i permit s s'"
    unfolding authorizes_def pm(2-4) by (intro conjI i(1) owner ids(3,4) live check ver mem tok refl asg' last)
  with d show ?thesis by blast
qed

lemma authorizes_inserts:
  assumes "authorizes rows upd check event lease subject req pd epoch nonce now i permit s s'"
  obtains s1 where "audited event (start_RunID req) (ExecToken_json (perm_Token permit)) s s1" "rows s1 = rows s"
    "insert_execution rows upd (authorized_row now lease (perm_Token permit) (inb_id i) subject (start_Profile req)
       (prc_FactsDigest (perm_Preparation permit))) s1 = Inr (perm_LeaseUntil permit, s')"
    "xtok_ProfileDigest (perm_Token permit) = pd" "xtok_RunID (perm_Token permit) = start_RunID req"
proof -
  from assms obtain s1 where a: "audited event (start_RunID req) (ExecToken_json (perm_Token permit)) s s1"
    and ins: "insert_execution rows upd (authorized_row now lease (perm_Token permit) (inb_id i) subject (start_Profile req)
       (prc_FactsDigest (perm_Preparation permit))) s1 = Inr (perm_LeaseUntil permit, s')"
    unfolding authorizes_def by blast
  have same: "rows s1 = rows s" by (rule rows_frame [OF audited_extension [OF a]])
  from assms have t: "perm_Token permit = \<lparr>xtok_ID = HexEncodeToString nonce, xtok_RunID = start_RunID req,
      xtok_WorkerProfile = start_WorkerProfile req, xtok_ProfileDigest = pd, xtok_RecoveryEpoch = epoch\<rparr>"
    unfolding authorizes_def by blast
  show thesis by (rule that [OF a same ins]) (simp_all only: t ExecToken.select_convs)
qed

lemma authorizes_kept:
  assumes "authorizes rows upd check event lease subject req pd epoch nonce now i permit s s'"
    and "digestOf (start_Profile req) = Inr pd" and "lease \<le> limit"
  shows "lane_kept rows digestOf limit s s'"
proof (rule authorizes_inserts [OF assms(1)])
  fix s1
  let ?x = "authorized_row now lease (perm_Token permit) (inb_id i) subject (start_Profile req) (prc_FactsDigest (perm_Preparation permit)) :: ('p, 'r) exec_row"
  assume a: "audited event (start_RunID req) (ExecToken_json (perm_Token permit)) s s1"
    and ins: "insert_execution rows upd ?x s1 = Inr (perm_LeaseUntil permit, s')" and t: "xtok_ProfileDigest (perm_Token permit) = pd"
  have ok: "exec_ok digestOf limit ?x" by (rule authorized_row_ok [OF _ assms(3)]) (simp only: assms(2) t)
  from ins have new: "\<not> list_ex (\<lambda>y. exe_id y = exe_id ?x \<or> exe_run_id y = exe_run_id ?x) (rows s1)" and s': "s' = upd (\<lambda>xs. xs @ [?x]) s1"
    unfolding insert_execution_Inr by blast+
  have "lane_kept rows digestOf limit s1 s'" unfolding s' by (rule upd_kept) (rule append_row_kept [OF ok new])
  with audit_kept [OF a] show ?thesis by (rule lane.trans)
qed

text \<open>A new reservation never takes the place of an old one of its run.\<close>

lemma authorizes_fresh:
  assumes "authorizes rows upd check event lease subject req pd epoch nonce now i permit s s'"
  shows "rows s' = rows s @ [authorized_row now lease (perm_Token permit) (inb_id i) subject (start_Profile req) (prc_FactsDigest (perm_Preparation permit))]"
    and "\<forall>y \<in> set (rows s). exe_run_id y \<noteq> start_RunID req \<and> exe_id y \<noteq> xtok_ID (perm_Token permit)"
    and "perm_LeaseUntil permit = now + lease * second"
proof -
  let ?x = "authorized_row now lease (perm_Token permit) (inb_id i) subject (start_Profile req) (prc_FactsDigest (perm_Preparation permit)) :: ('p, 'r) exec_row"
  obtain s1 where same: "rows s1 = rows s" and ins: "insert_execution rows upd ?x s1 = Inr (perm_LeaseUntil permit, s')"
    and t: "xtok_RunID (perm_Token permit) = start_RunID req" by (rule authorizes_inserts [OF assms])
  have x: "exe_id ?x = xtok_ID (perm_Token permit)" "exe_run_id ?x = start_RunID req" "exe_until ?x = now + lease * second"
    by (simp_all add: authorized_row_def t)
  note eff = ins [unfolded insert_execution_Inr same x]
  then have new: "\<not> list_ex (\<lambda>y. exe_id y = xtok_ID (perm_Token permit) \<or> exe_run_id y = start_RunID req) (rows s)"
    and u: "perm_LeaseUntil permit = now + lease * second" and s': "s' = upd (\<lambda>xs. xs @ [?x]) s1" by blast+
  show "rows s' = rows s @ [?x]" unfolding s' rows_upd same by (rule refl)
  show "\<forall>y \<in> set (rows s). exe_run_id y \<noteq> start_RunID req \<and> exe_id y \<noteq> xtok_ID (perm_Token permit)"
    using new by (auto simp: list_ex_iff)
  show "perm_LeaseUntil permit = now + lease * second" by (rule u)
qed

lemma finish_effect:
  assumes "finish_execution rows upd k receipt v n s = (Inr u, n', s')"
  shows "length (filter (\<lambda>x. exe_id x = k \<and> live_execution (we_clock v n) x) (rows s)) = 1
     \<and> s' = upd (update_rows (\<lambda>x. exe_id x = k \<and> live_execution (we_clock v n) x) (finished_row receipt)) s"
  using assms by (auto simp: finish_execution_def)

lemma finish_kept:
  assumes "finish_execution rows upd k receipt v n s = (Inr u, n', s')"
  shows "lane_kept rows digestOf limit s s'"
proof -
  let ?now = "we_clock v n"
  from finish_effect [OF assms] have
    s': "s' = upd (update_rows (\<lambda>x. exe_id x = k \<and> live_execution ?now x) (finished_row receipt)) s" by blast
  show ?thesis unfolding s'
  proof (rule upd_kept, rule update_rows_kept, intro ballI impI)
    fix x assume "lane_ok digestOf limit (rows s)" "x \<in> set (rows s)" "exe_id x = k \<and> live_execution ?now x"
    then have "exec_ok digestOf limit x" "exe_state x = Authorized" by (simp_all add: lane_ok_def live_execution_def)
    then show "exec_kept x (finished_row receipt x) \<and> exec_ok digestOf limit (finished_row receipt x)" by (rule finished_row_ok)
  qed
qed

lemma finished_member:
  assumes "finish_execution rows upd (exe_id x) receipt v n s = (Inr u, n', s')" and "lane_ok digestOf limit (rows s)" and "x \<in> set (rows s)"
  shows "finished_row receipt x \<in> set (rows s') \<and> exe_state x = Authorized \<and> live_execution (we_clock v n) x"
proof -
  let ?now = "we_clock v n"
  from finish_effect [OF assms(1)] have one: "length (filter (\<lambda>y. exe_id y = exe_id x \<and> live_execution ?now y) (rows s)) = 1"
    and s': "s' = upd (update_rows (\<lambda>y. exe_id y = exe_id x \<and> live_execution ?now y) (finished_row receipt)) s" by blast+
  from one have "filter (\<lambda>y. exe_id y = exe_id x \<and> live_execution ?now y) (rows s) \<noteq> []" by auto
  then obtain y where y: "y \<in> set (rows s)" "exe_id y = exe_id x" "live_execution ?now y" by (auto simp: filter_empty_conv)
  from lane_by_id(1) [OF assms(2) y(1) assms(3) y(2)] y(3) have x: "live_execution ?now x" by simp
  then have "finished_row receipt x \<in> set (rows s')" using assms(3) unfolding s' rows_upd by (intro update_rows_member) simp_all
  with x show ?thesis by (simp add: live_execution_def)
qed

lemma finish_throughout:
  assumes "audited event (xtok_RunID t) payload s s1"
    and "finish_execution rows upd (xtok_ID t) receipt v n s1 = (Inr u, n', s')" and "lane_ok digestOf limit (rows s)"
    and "holds_execution rows wdb_inbox subject t s x i" and "live_authority (we_clock v k) s t x i" and "k < n"
  shows "authority_throughout v s t x i"
proof -
  have same: "rows s1 = rows s" by (rule rows_frame [OF audited_extension [OF assms(1)]])
  from held_row [OF assms(4,3)] have x: "x \<in> set (rows s1)" "exe_id x = xtok_ID t" by (simp_all add: same)
  from finished_member [OF assms(2) [folded x(2)] _ x(1)] assms(3) have "live_execution (we_clock v n) x" by (simp add: same)
  with assms(5,6) show ?thesis unfolding authority_throughout_def live_authority_def live_execution_def by blast
qed

lemma finish_changes:
  assumes "finish_execution rows upd (exe_id x) receipt v n s = (Inr u, n', s')" and "lane_ok digestOf limit (rows s)" and "x \<in> set (rows s)"
  shows "rows s' \<noteq> rows s"
proof
  assume "rows s' = rows s"
  with finished_member [OF assms] have "finished_row receipt x \<in> set (rows s)" "exe_state x = Authorized" by simp_all
  from lane_by_id(1) [OF assms(2) this(1) assms(3)] have "finished_row receipt x = x" by (simp add: finished_row_def)
  then have "exe_state x = exe_state (finished_row receipt x)" by simp
  with \<open>exe_state x = Authorized\<close> show False by (simp add: finished_row_def execution_states)
qed

lemma retain_effect:
  assumes "retain_abandonment rows upd reconciler request state now v n s = (Inr d, n', s')"
  shows "\<exists>retained s1 ev. d = Commit retained \<and> audited ''recovery.execution.abandoned'' (xar_RunID request) ev s s1
     \<and> s' = upd (update_rows (abandonable request state) (abandoned_row retained)) s1"
proof -
  from assms obtain digest n1 ev n2 s1 where
      log: "appendAudit (auditInput ''recovery.execution.abandoned'' ''Run'' (xar_RunID request)
          (ExecutionAbandonReceipt_json (we_rfc3339 v) (abandon_receipt request digest reconciler state now))) now v n1 s = (Inr ev, n2, s1)"
    and s': "s' = upd (update_rows (abandonable request state) (abandoned_row (abandon_receipt request digest reconciler state now))) s1"
    and d: "d = Commit (abandon_receipt request digest reconciler state now)"
    unfolding retain_abandonment_def Let_def by auto
  from log have "audited ''recovery.execution.abandoned'' (xar_RunID request)
      (ExecutionAbandonReceipt_json (we_rfc3339 v) (abandon_receipt request digest reconciler state now)) s s1"
    unfolding appendAudit_effect audited_def by blast
  with s' d show ?thesis by blast
qed

lemma abandon_effect:
  assumes "abandon_execution rows upd digestOf delivered reconciler request v n s = (Inr d, n', s')"
  shows "s' = s
        \<or> (\<exists>x now s1 ev retained. find (\<lambda>x. exe_run_id x = xar_RunID request \<and> exe_id x = xar_ExecutionID request) (rows s) = Some x
             \<and> (exe_state x = Authorized \<or> exe_state x = OutcomeUnknown) \<and> exe_receipt x = None \<and> exe_until x \<le> now
             \<and> xar_RunID request \<notin> set (delivered s)
             \<and> audited ''recovery.execution.abandoned'' (xar_RunID request) ev s s1
             \<and> s' = upd (update_rows (abandonable request (exe_state x)) (abandoned_row retained)) s1)"
proof -
  from assms obtain row stored n1 where
      row: "scan_execution digestOf (find (\<lambda>x. exe_run_id x = xar_RunID request \<and> exe_id x = xar_ExecutionID request) (rows s)) = Inr row"
    and rest: "(if xr_state row = AbandonedReconciled
      then tx_bind (tx_lift (retained_reconciliation request reconciler stored)) (\<lambda>retained. tx_return (Commit retained))
      else
        tx_guard (xr_receipt row \<noteq> None \<or> xr_state row \<noteq> Authorized \<and> xr_state row \<noteq> OutcomeUnknown) ErrConflict
        (tx_bind (tx_read (\<lambda>now _. Inr now)) (\<lambda>now.
         tx_guard (xr_until row > now) ErrConflict
         (tx_bind (tx_read (\<lambda>_ s. Inr (length (filter (\<lambda>d. d = xar_RunID request) (delivered s))))) (\<lambda>deliveries.
          tx_guard (deliveries \<noteq> 0) ErrConflict
          (retain_abandonment rows upd reconciler request (xr_state row) now)))))) v n1 s = (Inr d, n', s')"
    unfolding abandon_execution_def by auto
  from scan_execution_scanned [OF row] obtain x where
    x: "find (\<lambda>x. exe_run_id x = xar_RunID request \<and> exe_id x = xar_ExecutionID request) (rows s) = Some x" "exec_scanned digestOf x row" by blast
  show ?thesis
  proof (cases "xr_state row = AbandonedReconciled")
    case True
    with rest show ?thesis by auto
  next
    case False
    with rest obtain now k where st: "xr_receipt row = None" "xr_state row = Authorized \<or> xr_state row = OutcomeUnknown" "\<not> xr_until row > now"
      "xar_RunID request \<notin> set (delivered s)"
      and tail: "retain_abandonment rows upd reconciler request (xr_state row) now v k s = (Inr d, n', s')"
      by (auto simp: filter_empty_conv)
    from x(2) st have y: "exe_receipt x = None" "xr_state row = exe_state x" "exe_until x \<le> now" by (simp_all add: exec_scanned_def)
    from retain_effect [OF tail] obtain retained s1 ev where
      "audited ''recovery.execution.abandoned'' (xar_RunID request) ev s s1"
      "s' = upd (update_rows (abandonable request (exe_state x)) (abandoned_row retained)) s1" unfolding y(2) by blast
    then show ?thesis using x(1) st(2,4) [unfolded y(2)] y(1,3)
      by (intro disjI2 exI [of _ x] exI [of _ now] exI [of _ s1] exI [of _ ev] exI [of _ retained]) (intro conjI, assumption+)
  qed
qed

lemma abandon_kept:
  assumes "abandon_execution rows upd digestOf delivered reconciler request v n s = (Inr d, n', s')"
  shows "lane_kept rows digestOf limit s s'"
proof -
  from abandon_effect [OF assms] consider "s' = s"
    | retained s1 ev and x :: "('p, 'r) exec_row" where "exe_state x = Authorized \<or> exe_state x = OutcomeUnknown"
      "audited ''recovery.execution.abandoned'' (xar_RunID request) ev s s1"
      "s' = upd (update_rows (abandonable request (exe_state x)) (abandoned_row retained)) s1" by blast
  then show ?thesis
  proof cases
    case 2
    have "lane_kept rows digestOf limit s1 s'" unfolding 2(3)
    proof (rule upd_kept, rule update_rows_kept, intro ballI impI)
      fix y assume "lane_ok digestOf limit (rows s1)" "y \<in> set (rows s1)" "abandonable request (exe_state x) y"
      with 2(1) have "exec_ok digestOf limit y" "exe_state y = Authorized \<or> exe_state y = OutcomeUnknown"
        by (simp_all add: lane_ok_def abandonable_def)
      then show "exec_kept y (abandoned_row retained y) \<and> exec_ok digestOf limit (abandoned_row retained y)" by (rule abandoned_row_ok)
    qed
    with audit_kept [OF 2(2)] show ?thesis by (rule lane.trans)
  qed (simp add: lane.refl)
qed

text \<open>What lies outside the lane's table and the audit journal does not change.\<close>

lemma lane_frame:
  assumes upd: "\<And>f s. g (upd f s) = g s" and ext: "\<And>s s'. same_extension s s' \<Longrightarrow> g s' = g s"
  shows "tx_keeps (same_of g) (authorize_execution rows upd check event lease subject req pd epoch)"
    and "tx_keeps (same_of g) (renew_execution rows upd digestOf event lease lim subject t)"
    and "tx_keeps (same_of g) (finish_execution rows upd k receipt)"
    and "tx_keeps (same_of g) (fail_execution rows upd digestOf event subject t)"
    and "tx_keeps (same_of g) (abandon_execution rows upd digestOf delivered reconciler request)"
proof -
  have audit: "tx_keeps (same_of g) (workerAudit event' run payload)" for event' run payload
    using ext alwaysD [OF extension_writes(1)] by (fastforce intro!: tx_keepsI simp: same_of_def)
  have append: "tx_keeps (same_of g) (appendAudit inp now)" for inp now
    by (rule tx_keepsI) (auto simp: appendAudit_effect same_of_def log_event_def same_extension_def intro!: ext)
  have ins: "tx_keeps (same_of g) (tx_write (\<lambda>now. insert_execution rows upd (x now)))" for x
    by (rule same_of.keeps_write) (auto simp: insert_execution_Inr same_of_def upd)
  note reads = same_of.keeps_read_only [OF read_only_worker(2)] same_of.keeps_read_only [OF read_only_worker(3)]
    same_of.keeps_read_only [OF read_only_lock] same_of.keeps_read_only [OF read_only_load_preparation]
  show "tx_keeps (same_of g) (authorize_execution rows upd check event lease subject req pd epoch)"
    unfolding authorize_execution_def issue_execution_def Let_def
    by (intro same_of.keeps_intros reads audit ins)
  show "tx_keeps (same_of g) (renew_execution rows upd digestOf event lease lim subject t)"
    unfolding renew_execution_def
    by (intro same_of.keeps_intros reads audit same_of.keeps_write) (auto simp: same_of_def upd split: option.splits)
  show "tx_keeps (same_of g) (finish_execution rows upd k receipt)"
    unfolding finish_execution_def by (intro same_of.keeps_write) (auto simp: same_of_def upd)
  show "tx_keeps (same_of g) (fail_execution rows upd digestOf event subject t)"
    unfolding fail_execution_def
    by (intro same_of.keeps_intros reads audit same_of.keeps_write) (auto simp: same_of_def upd)
  show "tx_keeps (same_of g) (abandon_execution rows upd digestOf delivered reconciler request)"
    unfolding abandon_execution_def retain_abandonment_def Let_def
    by (intro same_of.keeps_intros reads append same_of.keeps_write) (auto simp: same_of_def upd)
qed

text \<open>Undisturbed operations succeed.\<close>

lemma lock_ok:
  assumes "undisturbed v" and h: "holds_execution rows wdb_inbox subject t s x i" "exec_scanned digestOf x row" "scanned i inbox"
    and lane: "lane_ok digestOf limit (rows s)"
    and mode: "db_recovery_mode (wdb_outbox s) \<in> {''NORMAL'', ''RECOVERY_RECONCILIATION''}"
    and live: "live \<Longrightarrow> \<forall>k. live_authority (we_clock v k) s t x i"
  shows "lock_execution rows digestOf subject t live v n s = (Inr (row, inbox), (if live then n + 6 else n + 3), s)"
proof -
  have platform: "lockWorkerPlatform v n s = (Inr (db_recovery_epoch (wdb_outbox s), db_recovery_mode (wdb_outbox s)), Suc n, s)"
    using assms(1) mode by (subst lockWorkerPlatform_effect) auto
  have inb: "scanInbox (find (\<lambda>i. inb_run_id i = xtok_RunID t) (wdb_inbox s)) = Inr inbox" "irec_owner inbox = subject"
    "irec_profile inbox = xtok_WorkerProfile t"
    using h(1,3) scanned_scanInbox [OF h(3)] by (auto simp: holds_execution_def scanned_def COALESCE_def)
  have exe: "scan_execution digestOf (find (\<lambda>x. exe_run_id x = xtok_RunID t) (rows s)) = Inr row" "xr_token row = t" "xr_worker row = subject"
    using h(1,2) exec_scanned_scan [OF h(2)] by (auto simp: holds_execution_def exec_scanned_def)
  from held_row [OF h(1) lane] have x: "x \<in> set (rows s)" "exe_id x = xtok_ID t" by auto
  from lane find_unique [OF _ x(1), of exe_id] x(2) have byid: "find (\<lambda>y. exe_id y = xtok_ID t) (rows s) = Some x" by (simp add: lane_ok_def)
  have ne: "subject \<noteq> []" "ExecToken_Valid t" using h(1) by (simp_all add: holds_execution_def)
  show ?thesis
  proof (cases live)
    case True
    from live [OF True] have l: "\<forall>k. live_execution (we_clock v k) x" "db_recovery_mode (wdb_outbox s) = ''NORMAL''"
      "db_recovery_epoch (wdb_outbox s) = xtok_RecoveryEpoch t" "run_live s i" by (simp_all add: live_authority_def live_execution_def)
    from l(4) h(3) obtain run sess where "wdb_runs s (irec_runID inbox) = Some run" "wdb_sessions s (irec_runID inbox) = Some sess"
      "run_active run sess (irec_intent inbox) = None" by (auto simp: run_live_def scanned_def)
    with assms(1) have act: "workerRunActive inbox v (Suc (Suc n)) s = (Inr (), Suc (Suc n) + 2, s)" by (subst workerRunActive_effect) auto
    show ?thesis using platform inb exe byid ne l(1,2,3) act assms(1) True
      unfolding lock_execution_def by (simp add: tx_bind_def tx_map_err_def tx_read_def tx_return_def select_where_def)
  next
    case False
    then show ?thesis using platform inb exe ne assms(1)
      unfolding lock_execution_def by (simp add: tx_bind_def tx_map_err_def tx_read_def tx_return_def)
  qed
qed

lemma authorize_ok:
  assumes "undisturbed v" and "journal_room s" and "event \<noteq> []"
    and i: "find (\<lambda>i. inb_run_id i = start_RunID req) (wdb_inbox s) = Some i" "scanned i r"
    and own: "inb_owner i = Some subject" "inb_profile i = start_WorkerProfile req" "inb_state i = Validated"
    and live: "run_live s i"
    and sel: "select_input (int_InputDigest (irec_intent r)) (irec_runID r) s = Inr (input, task)" "worker_assignment r input task = Inr a"
    and check: "check a (start_Profile req) = None"
    and prep: "find (\<lambda>p. prow_inbox_id p = inb_id i) (pdb_preparations s) = Some p" "prow_receipt p = Some prep"
      "Preparation_Verify a prep (prc_Facts prep) subject = None"
    and new: "\<forall>y \<in> set (rows s). exe_run_id y \<noteq> start_RunID req \<and> exe_id y \<noteq> HexEncodeToString (we_nonce v)"
  shows "\<exists>permit m s'. authorize_execution rows upd check event lease subject req pd epoch v n s = (Inr (Commit permit), m, s')"
proof -
  from i own have r: "scanInbox (find (\<lambda>i. inb_run_id i = start_RunID req) (wdb_inbox s)) = Inr r" "irec_owner r = subject"
    "irec_profile r = start_WorkerProfile req" "irec_state r = Validated" "irec_id r = inb_id i" "irec_runID r = start_RunID req"
    using scanned_scanInbox [OF i(2)] find_member [OF i(1)] by (auto simp: scanned_def COALESCE_def)
  from live i(2) obtain run sess where "wdb_runs s (irec_runID r) = Some run" "wdb_sessions s (irec_runID r) = Some sess"
    "run_active run sess (irec_intent r) = None" by (auto simp: run_live_def scanned_def)
  with assms(1) have act: "workerRunActive r v (Suc n) s = (Inr (), Suc n + 2, s)" by (subst workerRunActive_effect) auto
  have load: "loadWorkerAssignment r v (Suc n + 2) s = (Inr a, Suc (Suc n + 2), s)"
    using assms(1) sel by (subst loadWorkerAssignment_effect) auto
  have lp: "load_preparation a subject r v (Suc (Suc n + 2)) s = (Inr prep, Suc (Suc (Suc n + 2)), s)"
    using assms(1) prep r(5) by (subst load_preparation_Inr) auto
  let ?t = "new_token (we_nonce v) r pd epoch"
  obtain ev where ev: "workerAudit event (irec_runID r) (ExecToken_json ?t) v (Suc (Suc (Suc n + 2))) s
      = (Inr ev, Suc (Suc (Suc n + 2)) + 3, log_event ev s)"
    using workerAudit_ok [OF assms(1,2,3)] by blast
  have "rows (log_event ev s) = rows s" by (rule rows_frame) (simp add: same_extension_def log_event_def)
  with new r(6) have fresh: "\<not> list_ex (\<lambda>y. exe_id y = xtok_ID ?t \<or> exe_run_id y = xtok_RunID ?t) (rows (log_event ev s))"
    by (auto simp: list_ex_iff new_token_def)
  show ?thesis using r(1-4) act load check lp ev fresh assms(1)
    unfolding authorize_execution_def issue_execution_def Let_def
    by (simp add: tx_bind_def tx_map_err_def tx_read_def tx_lift_def tx_env_def tx_write_def tx_return_def insert_execution_def authorized_row_def)
qed

lemma finish_ok:
  assumes "undisturbed v" and "lane_ok digestOf limit (rows s)" and "x \<in> set (rows s)" and "live_execution (we_clock v n) x"
  shows "\<exists>s'. finish_execution rows upd (exe_id x) receipt v n s = (Inr (), Suc n, s')"
proof -
  have "filter (\<lambda>y. exe_id y = exe_id x \<and> live_execution (we_clock v n) y) (rows s) = filter (\<lambda>y. y = x) (rows s)"
    using lane_by_id(1) [OF assms(2) _ assms(3)] assms(4) by (intro filter_cong) auto
  also have "\<dots> = [x]" using assms(2,3) by (intro filter_single) (simp_all add: lane_ok_def distinct_map)
  finally show ?thesis using assms(1) by (simp add: finish_execution_def tx_write_def)
qed

end

end
