(* ===== verification/OfflineLane.thy ===== *)
theory OfflineLane
  imports ExecutionLanes
begin

text \<open>
  The offline lane: package \<open>offline\<close> (\<open>model.go\<close>) and its repository
  (\<open>store/postgres/offline_store.go\<close>), with leases of 20 seconds and at most 120 seconds in all.
\<close>

section \<open>Receipts\<close>

definition OfflineAction :: string where "OfflineAction = ''worker.offline-execute''"
definition OfflineKind :: string where "OfflineKind = ''WORKER_ATTESTED_OFFLINE_EXECUTION''"

record OfflineReport =
  orep_Token :: ExecToken
  orep_Result :: Result

record OfflineReceipt =
  orc_Kind :: string
  orc_Token :: ExecToken
  orc_Worker :: string
  orc_PreparationDigest :: string
  orc_Result :: Result
  orc_ResultDigest :: string
  orc_ReceivedAt :: gotime

definition OfflineReceipt_json :: "(gotime \<Rightarrow> string) \<Rightarrow> OfflineReceipt \<Rightarrow> json" where
  "OfflineReceipt_json rfc3339 r = JObj
     (str_field ''kind'' (orc_Kind r) @ [(''token'', ExecToken_json (orc_Token r))] @ str_field ''worker_subject'' (orc_Worker r)
      @ str_field ''preparation_digest'' (orc_PreparationDigest r) @ [(''result'', Result_json (orc_Result r))]
      @ str_field ''result_digest'' (orc_ResultDigest r) @ str_field ''received_at'' (rfc3339 (orc_ReceivedAt r)))"

definition Offline_CheckAssignment :: "Assignment \<Rightarrow> Profile \<Rightarrow> err option" where
  "Offline_CheckAssignment = check_assignment ''offline/'' OfflineAction Profile_Digest"

definition OfflinePermit_Check :: "Profile Permit \<Rightarrow> string \<Rightarrow> Profile Start \<Rightarrow> err option" where
  "OfflinePermit_Check = Permit_Check Profile_Digest Offline_CheckAssignment"

definition OfflineReceipt_Verify :: "OfflineReceipt \<Rightarrow> string \<Rightarrow> Profile Permit \<Rightarrow> Result \<Rightarrow> err option" where
  "OfflineReceipt_Verify r subject p result =
     (let digest = Digest (Result_json result); actual = Digest (Result_json (orc_Result r)) in
      if digest \<noteq> actual \<or> orc_ResultDigest r \<noteq> digest \<or> orc_Kind r \<noteq> OfflineKind \<or> orc_Worker r \<noteq> subject
         \<or> orc_Token r \<noteq> perm_Token p \<or> orc_PreparationDigest r \<noteq> prc_FactsDigest (perm_Preparation p)
         \<or> IsZero (orc_ReceivedAt r) \<or> Result_Validate (orc_Result r) (perm_Profile p) \<noteq> None
      then Some (ErrWrap ErrIdentity (ErrText ''offline receipt mismatch''))
      else None)"

record OfflineStatus =
  osts_Token :: ExecToken
  osts_State :: string
  osts_LeaseUntil :: gotime
  osts_Receipt :: "OfflineReceipt option"

type_synonym ('p, 'r, 'z) lanes = "(Profile, OfflineReceipt, 'p, 'r, 'z) exec_db_scheme"

section \<open>Operations\<close>

definition scanOffline :: "(Profile, OfflineReceipt) exec_row option \<Rightarrow> (Profile, OfflineReceipt) execution result" where
  "scanOffline = scan_execution Profile_Digest"

text \<open>The migration that records a version creates its tables in the same transaction.\<close>

definition start_offline :: "string \<Rightarrow> Profile Start \<Rightarrow> string \<Rightarrow> (('p, 'r, 'z) lanes, Profile Permit decision) tx" where
  "start_offline subject req pd =
     tx_bind (tx_map_err (\<lambda>_. ErrText ''offline schema version 5 is unavailable'')
                (tx_read (\<lambda>_ s. Inr (5 \<in> set (pdb_schema s))))) (\<lambda>ready.
     tx_guard (\<not> ready) (ErrText ''offline schema version 5 is unavailable'')
     (tx_bind lockWorkerPlatform (\<lambda>(epoch, mode).
      tx_guard (mode \<noteq> ''NORMAL'') ErrRecovery
      (tx_bind (tx_read (\<lambda>_ s. Inr (wdb_workers s subject))) (\<lambda>_.
       tx_bind (tx_read (\<lambda>_ s. Inr (busy subject (edb_offline s)))) (\<lambda>taken.
       tx_guard taken ErrConflict
       (tx_bind (tx_read (\<lambda>_ s. Inr (8 \<in> set (pdb_schema s)))) (\<lambda>codexReady.
        tx_bind (if codexReady
                 then tx_bind (tx_read (\<lambda>_ s. Inr (busy subject (edb_codex s)))) (\<lambda>taken. tx_guard taken ErrConflict (tx_return ()))
                 else tx_return ()) (\<lambda>_.
        authorize_execution edb_offline edb_offline_update Offline_CheckAssignment ''worker.offline.authorized'' 20 subject req pd epoch)))))))))"

definition StartOffline ::
  "wenv \<Rightarrow> string \<Rightarrow> Profile Start \<Rightarrow> ('p, 'r, 'z) lanes \<Rightarrow> Profile Permit result \<times> ('p, 'r, 'z) lanes" where
  "StartOffline v subject req s =
     (case Profile_Digest (start_Profile req) of
        Inl _ \<Rightarrow> (Inl ErrIdentity, s)
      | Inr pd \<Rightarrow>
          if subject = [] \<or> start_RunID req = [] \<or> \<not> ValidProfile (start_WorkerProfile req) then (Inl ErrIdentity, s)
          else run_tx (start_offline subject req pd) v s)"

definition lockOffline ::
  "string \<Rightarrow> ExecToken \<Rightarrow> bool \<Rightarrow> (('p, 'r, 'z) lanes, (Profile, OfflineReceipt) execution \<times> inboxRecord) tx" where
  "lockOffline = lock_execution edb_offline Profile_Digest"

definition RenewOffline :: "wenv \<Rightarrow> string \<Rightarrow> ExecToken \<Rightarrow> ('p, 'r, 'z) lanes \<Rightarrow> gotime result \<times> ('p, 'r, 'z) lanes" where
  "RenewOffline v subject t s =
     run_tx (renew_execution edb_offline edb_offline_update Profile_Digest ''worker.offline.renewed'' 20 120 subject t) v s"

definition offline_receipt :: "OfflineReport \<Rightarrow> string \<Rightarrow> string \<Rightarrow> gotime \<Rightarrow> OfflineReceipt" where
  "offline_receipt report subject preparation now =
     \<lparr>orc_Kind = OfflineKind, orc_Token = orep_Token report, orc_Worker = subject, orc_PreparationDigest = preparation,
      orc_Result = orep_Result report, orc_ResultDigest = Digest (Result_json (orep_Result report)), orc_ReceivedAt = now\<rparr>"

definition finish_offline :: "string \<Rightarrow> OfflineReport \<Rightarrow> (('p, 'r, 'z) lanes, OfflineReceipt decision) tx" where
  "finish_offline subject report =
     tx_bind (lockOffline subject (orep_Token report) False) (\<lambda>(row, _).
     tx_guard (Result_Validate (orep_Result report) (xr_profile row) \<noteq> None) ErrIdentity
     (let digest = Digest (Result_json (orep_Result report)) in
      case (if xr_state row = Finished then xr_receipt row else None) of
        Some receipt \<Rightarrow>
          tx_guard (Digest (Result_json (orc_Result receipt)) \<noteq> digest \<or> orc_ResultDigest receipt \<noteq> digest
                    \<or> orc_Token receipt \<noteq> orep_Token report \<or> orc_Worker receipt \<noteq> subject \<or> orc_Kind receipt \<noteq> OfflineKind) ErrIdentity
            (tx_return (Rollback receipt))
      | None \<Rightarrow>
          tx_bind (lockOffline subject (orep_Token report) True) (\<lambda>_.
          tx_bind (tx_read (\<lambda>now _. Inr now)) (\<lambda>now.
            (let receipt = offline_receipt report subject (xr_preparation row) now in
             tx_bind (tx_env we_rfc3339) (\<lambda>rfc3339.
             tx_bind (workerAudit ''worker.offline.finished'' (xtok_RunID (orep_Token report)) (OfflineReceipt_json rfc3339 receipt)) (\<lambda>_.
             tx_bind (finish_execution edb_offline edb_offline_update (xtok_ID (orep_Token report)) receipt) (\<lambda>_.
             tx_return (Commit receipt)))))))))"

definition FinishOffline ::
  "wenv \<Rightarrow> string \<Rightarrow> OfflineReport \<Rightarrow> ('p, 'r, 'z) lanes \<Rightarrow> OfflineReceipt result \<times> ('p, 'r, 'z) lanes" where
  "FinishOffline v subject report s = run_tx (finish_offline subject report) v s"

definition FailOffline :: "wenv \<Rightarrow> string \<Rightarrow> ExecToken \<Rightarrow> ('p, 'r, 'z) lanes \<Rightarrow> unit result \<times> ('p, 'r, 'z) lanes" where
  "FailOffline v subject t s =
     run_tx (fail_execution edb_offline edb_offline_update Profile_Digest ''worker.offline.unknown'' subject t) v s"

text \<open>Two queries outside any transaction, which may see different databases.\<close>

definition GetOffline :: "wenv \<Rightarrow> string \<Rightarrow> ('p, 'r, 'z) lanes \<Rightarrow> ('p, 'r, 'z) lanes \<Rightarrow> OfflineStatus result" where
  "GetOffline v runID s s2 =
     rbind (run_query (tx_map_err (no_rows ErrNotFound)
              (tx_read (\<lambda>_ s. scanOffline (find (\<lambda>x. exe_run_id x = runID) (edb_offline s))))) v s) (\<lambda>r.
     rbind (if xr_state r = Authorized
            then rbind (run_query (tx_read (\<lambda>now s. select_where (\<lambda>x. exe_run_id x = runID) (\<lambda>x. exe_until x \<le> now) (edb_offline s))) v s2)
                   (\<lambda>expired. Inr (if expired then ''EXPIRED_UNRECONCILED'' else xr_state r))
            else Inr (xr_state r)) (\<lambda>state.
     Inr \<lparr>osts_Token = xr_token r, osts_State = state, osts_LeaseUntil = xr_until r, osts_Receipt = xr_receipt r\<rparr>))"

section \<open>What the operations do\<close>

interpretation offline: execution_lane "edb_offline :: ('p, 'r, 'z) lanes \<Rightarrow> _" edb_offline_update Profile_Digest 120
proof
  fix s s' :: "('p, 'r, 'z) lanes" and f
  show "edb_offline (edb_offline_update f s) = f (edb_offline s)" by simp
  show "worker_db.truncate (edb_offline_update f s) = worker_db.truncate s" by (simp add: worker_db.defs)
  show "pdb_preparations (edb_offline_update f s) = pdb_preparations s" by simp
  show "same_extension s s' \<Longrightarrow> edb_offline s' = edb_offline s" by (cases s; cases s') (simp add: same_extension_def)
qed

lemma start_offline_effect:
  assumes "start_offline subject req pd v n s = (Inr d, n', s')" and "subject \<noteq> []"
  shows "\<exists>permit i k. d = Commit permit \<and> db_recovery_mode (wdb_outbox s) = ''NORMAL''
     \<and> \<not> busy subject (edb_offline s) \<and> (8 \<in> set (pdb_schema s) \<longrightarrow> \<not> busy subject (edb_codex s))
     \<and> authorizes edb_offline edb_offline_update Offline_CheckAssignment ''worker.offline.authorized'' 20 subject req pd
          (db_recovery_epoch (wdb_outbox s)) (we_nonce v) (we_clock v k) i permit s s'"
proof -
  from assms(1) obtain m where mode: "db_recovery_mode (wdb_outbox s) = ''NORMAL''" and b: "\<not> busy subject (edb_offline s)"
    and c: "8 \<in> set (pdb_schema s) \<longrightarrow> \<not> busy subject (edb_codex s)"
    and auth: "authorize_execution edb_offline edb_offline_update Offline_CheckAssignment ''worker.offline.authorized'' 20 subject req pd
        (db_recovery_epoch (wdb_outbox s)) v m s = (Inr d, n', s')"
    unfolding start_offline_def by (cases "8 \<in> set (pdb_schema s)") (auto simp: lockWorkerPlatform_effect)
  from offline.authorize_effect [OF auth assms(2)] mode b c show ?thesis by blast
qed

definition finishes :: "string \<Rightarrow> OfflineReport \<Rightarrow> (Profile, OfflineReceipt) exec_row \<Rightarrow> OfflineReceipt
   \<Rightarrow> ('p, 'r, 'z) lanes \<Rightarrow> ('p, 'r, 'z) lanes \<Rightarrow> bool" where
  "finishes subject report x receipt s s' \<longleftrightarrow>
     (\<exists>now. receipt = offline_receipt report subject (exe_preparation x) now)
     \<and> (\<exists>s1 payload v n u n'. audited ''worker.offline.finished'' (xtok_RunID (orep_Token report)) payload s s1
          \<and> finish_execution edb_offline edb_offline_update (xtok_ID (orep_Token report)) receipt v n s1 = (Inr u, n', s'))"

lemma finish_offline_effect:
  assumes "finish_offline subject report v n s = (Inr d, n', s')" and "lane_ok Profile_Digest 120 (edb_offline s)"
  shows "\<exists>x i p receipt. holds_execution edb_offline wdb_inbox subject (orep_Token report) s x i
     \<and> exe_profile x = Some p \<and> Result_Validate (orep_Result report) p = None
     \<and> (d = Rollback receipt \<and> s' = s \<and> exe_state x = Finished \<and> exe_receipt x = Some (Some receipt)
          \<and> orc_Token receipt = orep_Token report \<and> orc_Worker receipt = subject \<and> orc_Kind receipt = OfflineKind
          \<and> orc_ResultDigest receipt = Digest (Result_json (orep_Result report))
        \<or> d = Commit receipt \<and> authority_throughout v s (orep_Token report) x i \<and> finishes subject report x receipt s s'
          \<and> (\<exists>k. orc_ReceivedAt receipt = we_clock v k))"
proof -
  from assms(1) obtain row inbox n1 s1 where
      l: "lockOffline subject (orep_Token report) False v n s = (Inr (row, inbox), n1, s1)"
    and val: "Result_Validate (orep_Result report) (xr_profile row) = None"
    and rest: "(case (if xr_state row = Finished then xr_receipt row else None) of
        Some receipt \<Rightarrow>
          tx_guard (Digest (Result_json (orc_Result receipt)) \<noteq> Digest (Result_json (orep_Result report))
                    \<or> orc_ResultDigest receipt \<noteq> Digest (Result_json (orep_Result report))
                    \<or> orc_Token receipt \<noteq> orep_Token report \<or> orc_Worker receipt \<noteq> subject \<or> orc_Kind receipt \<noteq> OfflineKind) ErrIdentity
            (tx_return (Rollback receipt))
      | None \<Rightarrow>
          tx_bind (lockOffline subject (orep_Token report) True) (\<lambda>_.
          tx_bind (tx_read (\<lambda>now _. Inr now)) (\<lambda>now.
            (let receipt = offline_receipt report subject (xr_preparation row) now in
             tx_bind (tx_env we_rfc3339) (\<lambda>rfc3339.
             tx_bind (workerAudit ''worker.offline.finished'' (xtok_RunID (orep_Token report)) (OfflineReceipt_json rfc3339 receipt)) (\<lambda>_.
             tx_bind (finish_execution edb_offline edb_offline_update (xtok_ID (orep_Token report)) receipt) (\<lambda>_.
             tx_return (Commit receipt)))))))) v n1 s1 = (Inr d, n', s')"
    unfolding finish_offline_def Let_def by auto
  from offline.lock_effect [OF l [unfolded lockOffline_def]] obtain x i where s1: "s1 = s"
    and h: "holds_execution edb_offline wdb_inbox subject (orep_Token report) s x i" and sc: "exec_scanned Profile_Digest x row" by blast
  from sc have p: "exe_profile x = Some (xr_profile row)" "xr_preparation row = exe_preparation x" "exe_state x = xr_state row"
    "exe_receipt x = map_option Some (xr_receipt row)" by (simp_all add: exec_scanned_def)
  show ?thesis
  proof (cases "if xr_state row = Finished then xr_receipt row else None")
    case (Some receipt)
    with rest s1 p h val show ?thesis by (intro exI [of _ x] exI [of _ i] exI [of _ "xr_profile row"] exI [of _ receipt]) (auto split: if_splits)
  next
    case None
    with rest obtain row2 inbox2 n2 s2 ev n3 s3 u n4 where
        l2: "lockOffline subject (orep_Token report) True v n1 s1 = (Inr (row2, inbox2), n2, s2)"
      and log: "workerAudit ''worker.offline.finished'' (xtok_RunID (orep_Token report))
          (OfflineReceipt_json (we_rfc3339 v) (offline_receipt report subject (xr_preparation row) (we_clock v n2))) v (Suc n2) s2 = (Inr ev, n3, s3)"
      and fin: "finish_execution edb_offline edb_offline_update (xtok_ID (orep_Token report))
          (offline_receipt report subject (xr_preparation row) (we_clock v n2)) v n3 s3 = (Inr u, n4, s')"
      and d: "d = Commit (offline_receipt report subject (xr_preparation row) (we_clock v n2))"
      unfolding Let_def by auto
    from offline.lock_live [OF l2 [unfolded lockOffline_def s1] assms(2)] obtain x2 i2 j where s2: "s2 = s"
      and h2: "holds_execution edb_offline wdb_inbox subject (orep_Token report) s x2 i2"
      and live: "live_authority (we_clock v j) s (orep_Token report) x2 i2" "j < n2" by blast
    from h h2 have "x2 = x" "i2 = i" by (simp_all add: holds_execution_def)
    with live have live1: "live_authority (we_clock v j) s (orep_Token report) x i" by simp
    from workerAudit_audited [OF log] s2
    have aud: "audited ''worker.offline.finished'' (xtok_RunID (orep_Token report))
        (OfflineReceipt_json (we_rfc3339 v) (offline_receipt report subject (xr_preparation row) (we_clock v n2))) s s3" by simp
    have later: "j < n3" using live(2) log by (simp add: workerAudit_effect)
    note live' = offline.finish_throughout [OF aud fin assms(2) h live1 later]
    from aud fin
    have "finishes subject report x (offline_receipt report subject (exe_preparation x) (we_clock v n2)) s s'"
      unfolding finishes_def p(2) by blast
    moreover have "\<exists>k. orc_ReceivedAt (offline_receipt report subject (exe_preparation x) (we_clock v n2)) = we_clock v k"
      by (auto simp: offline_receipt_def)
    ultimately show ?thesis using d h val p live' by auto
  qed
qed

section \<open>Guarantees\<close>

lemma StartOffline_cases:
  assumes "StartOffline v subject req s = (answer, s')"
  obtains "s' = s" "\<And>permit. answer \<noteq> Inr permit"
    | permit i k pd where "Profile_Digest (start_Profile req) = Inr pd" "subject \<noteq> []" "start_RunID req \<noteq> []" "ValidProfile (start_WorkerProfile req)"
      "db_recovery_mode (wdb_outbox s) = ''NORMAL''" "\<not> busy subject (edb_offline s)" "8 \<in> set (pdb_schema s) \<longrightarrow> \<not> busy subject (edb_codex s)"
      "authorizes edb_offline edb_offline_update Offline_CheckAssignment ''worker.offline.authorized'' 20 subject req pd
          (db_recovery_epoch (wdb_outbox s)) (we_nonce v) (we_clock v k) i permit s s'" "answer = Inr permit \<or> (\<exists>e. answer = Inl e)"
    | "s' = s" "\<exists>e. answer = Inl e"
proof (cases "\<exists>pd. Profile_Digest (start_Profile req) = Inr pd \<and> \<not> (subject = [] \<or> start_RunID req = [] \<or> \<not> ValidProfile (start_WorkerProfile req))")
  case False
  with assms have "s' = s \<and> (\<exists>e. answer = Inl e)" by (auto simp: StartOffline_def split: sum.splits if_splits)
  then show thesis using that(3) by blast
next
  case True
  then obtain pd where pd: "Profile_Digest (start_Profile req) = Inr pd" "subject \<noteq> []" "start_RunID req \<noteq> []" "ValidProfile (start_WorkerProfile req)" by blast
  with assms have run: "run_tx (start_offline subject req pd) v s = (answer, s')" by (simp add: StartOffline_def)
  show thesis
  proof (cases "\<exists>d n s1. start_offline subject req pd v 1 s = (Inr d, n, s1)")
    case False
    with run have "s' = s \<and> (\<exists>e. answer = Inl e)" by (auto simp: run_tx_def split: option.splits sum.splits prod.splits)
    then show thesis using that(3) by blast
  next
    case True
    then obtain d n s1 where body: "start_offline subject req pd v 1 s = (Inr d, n, s1)" by blast
    from start_offline_effect [OF body pd(2)] obtain permit i k where d: "d = Commit permit" and eff: "db_recovery_mode (wdb_outbox s) = ''NORMAL''"
      "\<not> busy subject (edb_offline s)" "8 \<in> set (pdb_schema s) \<longrightarrow> \<not> busy subject (edb_codex s)"
      "authorizes edb_offline edb_offline_update Offline_CheckAssignment ''worker.offline.authorized'' 20 subject req pd
          (db_recovery_epoch (wdb_outbox s)) (we_nonce v) (we_clock v k) i permit s s1" by blast
    from run body d have "s' = s \<and> (\<exists>e. answer = Inl e) \<or> s' = s1 \<and> (answer = Inr permit \<or> (\<exists>e. answer = Inl e))"
      by (auto simp: run_tx_def commitAuthority_def split: option.splits if_splits)
    then show thesis using that(2) [OF pd eff(1-3)] that(3) eff(4) by blast
  qed
qed

lemma offline_operations_kept:
  "StartOffline v subject req s = (q1, s') \<Longrightarrow> lane_kept edb_offline Profile_Digest 120 s s'"
  "lane_ok Profile_Digest 120 (edb_offline s) \<Longrightarrow> RenewOffline v subject t s = (q2, s') \<Longrightarrow> lane_kept edb_offline Profile_Digest 120 s s'"
  "lane_ok Profile_Digest 120 (edb_offline s) \<Longrightarrow> FinishOffline v subject report s = (q3, s') \<Longrightarrow> lane_kept edb_offline Profile_Digest 120 s s'"
  "FailOffline v subject t s = (q4, s') \<Longrightarrow> lane_kept edb_offline Profile_Digest 120 s s'"
proof -
  show "StartOffline v subject req s = (q1, s') \<Longrightarrow> lane_kept edb_offline Profile_Digest 120 s s'"
    by (erule StartOffline_cases) (simp_all add: offline.lane.refl offline.authorizes_kept)
  show "RenewOffline v subject t s = (q2, s') \<Longrightarrow> lane_kept edb_offline Profile_Digest 120 s s'" if "lane_ok Profile_Digest 120 (edb_offline s)"
    unfolding RenewOffline_def by (erule offline.lane.checked_run [rotated]) (erule offline.renewal_kept [OF _ that])
  show "FinishOffline v subject report s = (q3, s') \<Longrightarrow> lane_kept edb_offline Profile_Digest 120 s s'"
    if ok: "lane_ok Profile_Digest 120 (edb_offline s)"
    unfolding FinishOffline_def
  proof (erule offline.lane.checked_run [rotated])
    fix x n s2 assume "finish_offline subject report v 1 s = (Inr (Commit x), n, s2)"
    from finish_offline_effect [OF this ok] obtain y receipt where "finishes subject report y receipt s s2" by blast
    then obtain s1 payload w m u m' where a: "audited ''worker.offline.finished'' (xtok_RunID (orep_Token report)) payload s s1"
      and f: "finish_execution edb_offline edb_offline_update (xtok_ID (orep_Token report)) receipt w m s1 = (Inr u, m', s2)"
      unfolding finishes_def by blast
    from offline.audit_kept [OF a] offline.finish_kept [OF f] show "lane_kept edb_offline Profile_Digest 120 s s2" by (rule offline.lane.trans)
  qed
  show "FailOffline v subject t s = (q4, s') \<Longrightarrow> lane_kept edb_offline Profile_Digest 120 s s'"
    unfolding FailOffline_def by (erule offline.lane.checked_run [rotated]) (erule offline.fail_kept)
qed

section \<open>Fenced results\<close>

lemma finishes_row:
  assumes "finishes subject report x receipt s s'" and "lane_ok Profile_Digest 120 (edb_offline s)"
    and "holds_execution edb_offline wdb_inbox subject (orep_Token report) s x i"
  shows "finished_row receipt x \<in> set (edb_offline s')"
proof -
  from assms(1) obtain s1 payload v n u n' where a: "audited ''worker.offline.finished'' (xtok_RunID (orep_Token report)) payload s s1"
    and f: "finish_execution edb_offline edb_offline_update (xtok_ID (orep_Token report)) receipt v n s1 = (Inr u, n', s')"
    unfolding finishes_def by blast
  have same: "edb_offline s1 = edb_offline s" by (rule offline.rows_frame [OF offline.audited_extension [OF a]])
  from offline.held_row [OF assms(3,2)] have x: "x \<in> set (edb_offline s1)" "exe_id x = xtok_ID (orep_Token report)" by (simp_all add: same)
  from offline.finished_member [OF f [folded x(2)] _ x(1)] assms(2) show ?thesis by (simp add: same)
qed

text \<open>
  C15. An offline result is accepted only under live authority. When a result report changes the
  database, the reporting worker holds the reservation its token names, on an inbox row it owns; that
  reservation is authorized and unexpired, at the database clock reading with which the transaction
  checks it and at the later one with which it writes the row; the platform is in NORMAL mode and in the recovery epoch of
  the token; run and session are active in the execution epoch of the intent; the result is valid for
  the frozen profile; and the reservation is now finished with a receipt of that result.
\<close>

theorem offline_result_is_fenced:
  assumes "FinishOffline v subject report s = (answer, s')" and "s' \<noteq> s" and "lane_ok Profile_Digest 120 (edb_offline s)"
  shows "\<exists>x i p k k' receipt. holds_execution edb_offline wdb_inbox subject (orep_Token report) s x i
     \<and> k < k' \<and> live_authority (we_clock v k) s (orep_Token report) x i \<and> live_authority (we_clock v k') s (orep_Token report) x i
     \<and> exe_profile x = Some p \<and> Result_Validate (orep_Result report) p = None
     \<and> finished_row receipt x \<in> set (edb_offline s') \<and> orc_Result receipt = orep_Result report \<and> orc_Token receipt = orep_Token report
     \<and> orc_PreparationDigest receipt = exe_preparation x"
proof -
  from run_tx_cases [OF assms(1) [unfolded FinishOffline_def]] assms(2)
  obtain y n where "finish_offline subject report v 1 s = (Inr (Commit y), n, s')" by blast
  from finish_offline_effect [OF this assms(3)] obtain x i p receipt where
    h: "holds_execution edb_offline wdb_inbox subject (orep_Token report) s x i" "exe_profile x = Some p"
      "Result_Validate (orep_Result report) p = None"
    and live: "authority_throughout v s (orep_Token report) x i"
    and f: "finishes subject report x receipt s s'" by blast
  from f obtain t where "receipt = offline_receipt report subject (exe_preparation x) t" unfolding finishes_def by blast
  then have "orc_Result receipt = orep_Result report" "orc_Token receipt = orep_Token report" "orc_PreparationDigest receipt = exe_preparation x"
    by (simp_all add: offline_receipt_def)
  with h finishes_row [OF f assms(3) h(1)] live show ?thesis unfolding authority_throughout_def by blast
qed

section \<open>What the server issues, the worker accepts\<close>

lemma hex64_nonce: "length nonce = 32 \<Longrightarrow> hex64 (HexEncodeToString nonce)"
proof -
  have len: "length (HexEncodeToString bs) = 2 * length bs" for bs by (induction bs) (simp_all add: HexEncodeToString_def)
  have "of_char c div 16 < (16 :: nat)" for c :: char using nat_of_char_less_256 [of c] by (simp del: nat_of_char_less_256)
  then have "list_all is_lower_hex (HexEncodeToString bs)" for bs
    by (induction bs) (auto simp: HexEncodeToString_def hex_digit_lower)
  with len show "length nonce = 32 \<Longrightarrow> hex64 (HexEncodeToString nonce)" by (simp add: hex64_def match_exactly_def)
qed

lemma check_assignment_None:
  assumes "check_assignment prefix action digestOf a p = None"
  shows "(\<exists>v. Validate a = Inr v) \<and> (\<exists>d. digestOf p = Inr d \<and> input_ToolProfile (asg_Input a) = prefix @ d) \<and> action \<in> set (task_AllowedActions (asg_Task a))"
  using assms by (auto simp: check_assignment_def list_ex_iff split: sum.splits if_splits)

lemma authorizes_permit_checks:
  assumes "authorizes rows upd check event lease subject req pd epoch nonce now i permit s s'"
    and "digestOf (start_Profile req) = Inr pd" and "ValidDigest pd" and "ValidProfile (start_WorkerProfile req)" and "start_RunID req \<noteq> []"
    and "check = check_assignment prefix action digestOf" and "length nonce = 32" and "\<not> IsZero (perm_LeaseUntil permit)"
  shows "Permit_Check digestOf check permit subject req = None"
proof -
  from assms(1) have t: "perm_Token permit = \<lparr>xtok_ID = HexEncodeToString nonce, xtok_RunID = start_RunID req,
      xtok_WorkerProfile = start_WorkerProfile req, xtok_ProfileDigest = pd, xtok_RecoveryEpoch = epoch\<rparr>"
    and p: "perm_Profile permit = start_Profile req" "check (perm_Assignment permit) (start_Profile req) = None"
      "int_RunID (asg_Intent (perm_Assignment permit)) = start_RunID req"
      "input_WorkerProfile (asg_Input (perm_Assignment permit)) = start_WorkerProfile req"
      "Preparation_Verify (perm_Assignment permit) (perm_Preparation permit) (prc_Facts (perm_Preparation permit)) subject = None"
    unfolding authorizes_def by blast+
  from check_assignment_None [OF p(2) [unfolded assms(6)]] obtain v where "Validate (perm_Assignment permit) = Inr v" by blast
  from Validate_one_identity [OF this] p(3) have "length (start_RunID req) \<le> 256"
    by (auto simp: one_identity_def Intent_Digest_Inr)
  with assms(3,4,5,7) have "ExecToken_Valid (perm_Token permit)" by (simp add: t ExecToken_Valid_def hex64_nonce)
  then show ?thesis using p assms(2,8) by (simp add: Permit_Check_def) (simp add: t)
qed

lemma Profile_Digest_valid: "Profile_Digest p = Inr d \<Longrightarrow> ValidDigest d"
  by (auto simp: Profile_Digest_def Hash_def)

lemma started_permit_checks:
  assumes "StartOffline v subject req s = (Inr permit, s')" and "length (we_nonce v) = 32" and "\<forall>k. we_clock v k > 0"
  shows "OfflinePermit_Check permit subject req = None"
  using assms(1)
proof (cases rule: StartOffline_cases)
  case (2 permit' i k pd)
  then have "permit' = permit" by simp
  note a = 2(8) [unfolded this]
  have "perm_LeaseUntil permit = we_clock v k + 20 * second" by (rule offline.authorizes_fresh(3) [OF a])
  moreover have "we_clock v k > 0" using assms(3) by blast
  ultimately have "perm_LeaseUntil permit > 0" by (simp add: second_def)
  then have nz: "\<not> IsZero (perm_LeaseUntil permit)" by (simp add: IsZero_def)
  show ?thesis unfolding OfflinePermit_Check_def
    by (rule authorizes_permit_checks [OF a 2(1) Profile_Digest_valid [OF 2(1)] 2(4,3) Offline_CheckAssignment_def assms(2) nz])
qed (use assms(1) in auto)

lemma started_row:
  assumes "StartOffline v subject req s = (Inr permit, s')"
  shows "\<exists>x \<in> set (edb_offline s'). exe_run_id x = xtok_RunID (perm_Token permit) \<and> exe_profile x = Some (perm_Profile permit)
     \<and> exe_preparation x = prc_FactsDigest (perm_Preparation permit) \<and> exe_worker x = subject \<and> exe_token x = Some (perm_Token permit)"
  using assms
proof (cases rule: StartOffline_cases)
  case (2 permit' i k pd)
  then have "permit' = permit" by simp
  note a = 2(8) [unfolded this]
  from a have p: "perm_Profile permit = start_Profile req" unfolding authorizes_def by blast
  from offline.authorizes_fresh(1) [OF a] show ?thesis by (simp add: authorized_row_def p)
qed (use assms in auto)

lemma finished_receipt_verifies:
  assumes "x \<in> set (edb_offline s)" and "lane_ok Profile_Digest 120 (edb_offline s)" and "exe_run_id x = xtok_RunID (perm_Token permit)"
    and "exe_profile x = Some (perm_Profile permit)" and "exe_preparation x = prc_FactsDigest (perm_Preparation permit)"
    and "FinishOffline w subject report s = (Inr receipt, s')" and "s' \<noteq> s" and "orep_Token report = perm_Token permit"
    and "\<forall>k. we_clock w k > 0"
  shows "OfflineReceipt_Verify receipt subject permit (orep_Result report) = None"
proof -
  from run_tx_cases [OF assms(6) [unfolded FinishOffline_def]] assms(7)
  obtain n where "finish_offline subject report w 1 s = (Inr (Commit receipt), n, s')" by auto
  from finish_offline_effect [OF this assms(2)] obtain y i p k now where
    h: "holds_execution edb_offline wdb_inbox subject (orep_Token report) s y i" and p: "exe_profile y = Some p"
    and val: "Result_Validate (orep_Result report) p = None" and rc: "receipt = offline_receipt report subject (exe_preparation y) now"
    and k: "orc_ReceivedAt receipt = we_clock w k" unfolding finishes_def by blast
  from offline.held_row [OF h assms(2)] assms(3,8) have "exe_run_id y = exe_run_id x" "y \<in> set (edb_offline s)" by simp_all
  with lane_by_id(2) [OF assms(2) _ assms(1)] have "y = x" by blast
  moreover have "\<not> IsZero (orc_ReceivedAt receipt)" using k assms(9) by (simp add: IsZero_def less_le)
  ultimately show ?thesis using rc p val assms(4,5,8) by (simp add: OfflineReceipt_Verify_def offline_receipt_def)
qed

text \<open>
  C16. The worker accepts what the server issues. The permit that answers a start request passes the
  worker's own check of it, for that worker and that request; and when, in any later state of the
  offline table, a report of a result under that permit finishes the execution, the receipt of that
  report passes the worker's own verification against the permit and the result.
\<close>

theorem issued_permits_and_receipts_verify:
  assumes "StartOffline v subject req s = (Inr permit, s1)" and "lane_ok Profile_Digest 120 (edb_offline s)"
    and "length (we_nonce v) = 32" and "\<forall>k. we_clock v k > 0"
    and "lane_kept edb_offline Profile_Digest 120 s1 s2"
    and "FinishOffline w subject \<lparr>orep_Token = perm_Token permit, orep_Result = result\<rparr> s2 = (Inr receipt, s3)" and "s3 \<noteq> s2"
    and "\<forall>k. we_clock w k > 0"
  shows "OfflinePermit_Check permit subject req = None \<and> OfflineReceipt_Verify receipt subject permit result = None"
proof
  show "OfflinePermit_Check permit subject req = None" by (rule started_permit_checks [OF assms(1,3,4)])
  from offline_operations_kept(1) [OF assms(1)] assms(2,5) have ok: "lane_ok Profile_Digest 120 (edb_offline s1)"
    "lane_ok Profile_Digest 120 (edb_offline s2)" by (simp_all add: lane_kept_def lane_rows_kept_def)
  from started_row [OF assms(1)] obtain x where x: "x \<in> set (edb_offline s1)" "exe_run_id x = xtok_RunID (perm_Token permit)"
    "exe_profile x = Some (perm_Profile permit)" "exe_preparation x = prc_FactsDigest (perm_Preparation permit)" by blast
  with assms(5) ok(1) obtain y where y: "y \<in> set (edb_offline s2)" "exec_kept x y" unfolding lane_kept_def lane_rows_kept_def by blast
  from y(2) x have "exe_run_id y = xtok_RunID (perm_Token permit)" "exe_profile y = Some (perm_Profile permit)"
    "exe_preparation y = prc_FactsDigest (perm_Preparation permit)" by (auto simp: exec_kept_def exec_identity_def)
  from finished_receipt_verifies [OF y(1) ok(2) this assms(6,7) _ assms(8)]
  show "OfflineReceipt_Verify receipt subject permit result = None" by simp
qed

section \<open>Undisturbed execution\<close>

lemma finish_offline_ok:
  assumes "undisturbed w" and "journal_room s" and h: "holds_execution edb_offline wdb_inbox subject (orep_Token report) s x i"
    and sc: "exec_scanned Profile_Digest x row" "scanned i inbox" and ok: "lane_ok Profile_Digest 120 (edb_offline s)"
    and live: "\<forall>k. live_authority (we_clock w k) s (orep_Token report) x i"
    and val: "Result_Validate (orep_Result report) (xr_profile row) = None"
  shows "\<exists>receipt s'. FinishOffline w subject report s = (Inr receipt, s') \<and> s' \<noteq> s"
proof -
  let ?rc = "offline_receipt report subject (xr_preparation row) (we_clock w 10)"
  from live have mode: "db_recovery_mode (wdb_outbox s) \<in> {''NORMAL'', ''RECOVERY_RECONCILIATION''}"
    and auth: "\<forall>k. live_execution (we_clock w k) x" by (simp_all add: live_authority_def live_execution_def)
  from offline.lock_ok [OF assms(1) h sc ok mode, of False 1] have l1: "lockOffline subject (orep_Token report) False w 1 s = (Inr (row, inbox), 4, s)"
    by (simp add: lockOffline_def)
  from offline.lock_ok [OF assms(1) h sc ok mode, of True 4] live have l2: "lockOffline subject (orep_Token report) True w 4 s = (Inr (row, inbox), 10, s)"
    by (simp add: lockOffline_def)
  obtain ev where ev: "workerAudit ''worker.offline.finished'' (xtok_RunID (orep_Token report)) (OfflineReceipt_json (we_rfc3339 w) ?rc) w 11 s
      = (Inr ev, 14, log_event ev s)" using workerAudit_ok [OF assms(1,2), of "''worker.offline.finished''" _ _ 11] by auto
  have same: "edb_offline (log_event ev s) = edb_offline s" by (simp add: log_event_def)
  from offline.held_row [OF h ok] have x: "x \<in> set (edb_offline (log_event ev s))" "exe_id x = xtok_ID (orep_Token report)" by (simp_all add: same)
  from offline.finish_ok [OF assms(1) _ x(1), of 14 ?rc] ok auth same x(2) obtain s' where
    fin: "finish_execution edb_offline edb_offline_update (xtok_ID (orep_Token report)) ?rc w 14 (log_event ev s) = (Inr (), 15, s')" by auto
  have st: "xr_state row \<noteq> Finished" using auth sc(1) by (simp add: live_execution_def exec_scanned_def execution_states)
  have "finish_offline subject report w 1 s = (Inr (Commit ?rc), 15, s')"
    using l1 l2 ev fin st val assms(1) unfolding finish_offline_def Let_def
    by (simp add: tx_bind_def tx_read_def tx_env_def tx_return_def eval_nat_numeral)
  then have "FinishOffline w subject report s = (Inr ?rc, s')" unfolding FinishOffline_def using assms(1) by (intro run_tx_commit) simp_all
  moreover have "s' \<noteq> s" using offline.finish_changes [OF fin [folded x(2)] _ x(1)] ok same by auto
  ultimately show ?thesis by blast
qed

section \<open>A sample execution\<close>

type_synonym lab_lanes = "(Profile, OfflineReceipt, unit, unit) exec_db"

definition lab_receipt :: PreparationReceipt where
  "lab_receipt = prepared_receipt lab_assignment ''w'' lab_validation 6 lab_facts"

definition lab_ready_row :: inbox_row where
  "lab_ready_row = validated_row (prc_Admission lab_receipt) lab_row"

definition lab_prep_row :: prep_row where
  "lab_prep_row = \<lparr>prow_inbox_id = 1, prow_run_id = ''R-1'', prow_generation = 1, prow_subject = ''w'',
     prow_facts_digest = prc_FactsDigest lab_receipt, prow_receipt = Some lab_receipt\<rparr>"

definition lab_exec_db :: lab_lanes where
  "lab_exec_db = \<lparr>wdb_outbox = \<lparr>db_rows = [], db_recovery_epoch = 7, db_recovery_mode = ''NORMAL''\<rparr>,
     wdb_runs = [''R-1'' \<mapsto> lab_run], wdb_sessions = [''R-1'' \<mapsto> NewSession ''R-1'' 1],
     wdb_manifests = [\<lparr>man_digest = Digest (RunInputManifest_json lab_input), man_run_id = ''R-1'',
        man_task_digest = TaskContract_Digest worker_task, man_profile = ''wk'', man_json = Inr lab_input\<rparr>],
     wdb_tasks = [TaskContract_Digest worker_task \<mapsto> Some worker_task],
     wdb_inbox = [lab_ready_row], wdb_workers = [''w'' \<mapsto> ''wk''], wdb_events = [], wdb_last_sequence = 0, wdb_last_digest = [],
     pdb_schema = [4, 5], pdb_preparations = [lab_prep_row], edb_offline = [], edb_codex = [], edb_deliveries = []\<rparr>"

definition lab_start :: "Profile Start" where
  "lab_start = \<lparr>start_RunID = ''R-1'', start_WorkerProfile = ''wk'', start_Profile = lab_profile\<rparr>"

text \<open>A database with this run, its input and its preparation, whatever else it holds.\<close>

definition lab_base :: "'z prep_db_scheme \<Rightarrow> bool" where
  "lab_base s \<longleftrightarrow>
     wdb_outbox s = wdb_outbox lab_exec_db \<and> wdb_runs s = wdb_runs lab_exec_db \<and> wdb_sessions s = wdb_sessions lab_exec_db
     \<and> wdb_manifests s = wdb_manifests lab_exec_db \<and> wdb_tasks s = wdb_tasks lab_exec_db \<and> wdb_inbox s = wdb_inbox lab_exec_db
     \<and> pdb_preparations s = pdb_preparations lab_exec_db"

lemma lab_verify: "Preparation_Verify lab_assignment lab_receipt (prc_Facts lab_receipt) ''w'' = None"
proof -
  have "asg_Token lab_assignment = lab_token" by (simp add: lab_assignment_def)
  then have "VerifyReceipt lab_assignment (prc_Admission lab_receipt) = None"
    by (simp add: VerifyReceipt_None lab_receipt_def lab_validates)
  then show ?thesis by (simp add: Preparation_Verify_def Let_def lab_receipt_def lab_facts_ok IsZero_def)
qed

lemma lab_ready_scan:
  "scanned lab_ready_row ((inbox_record lab_row lab_intent)\<lparr>irec_state := Validated, irec_receipt := Some (prc_Admission lab_receipt)\<rparr>)"
  unfolding lab_ready_row_def by (rule validated_scanned [OF lab_scan])

lemma worker_assignment_receipt [simp]:
  "worker_assignment (r\<lparr>irec_receipt := x\<rparr>) input task = worker_assignment r input task"
  by (simp add: worker_assignment_def inbox_token_def Let_def split: sum.split option.split)

lemma lab_check: "Offline_CheckAssignment lab_assignment lab_profile = None"
proof -
  have "input_ToolProfile (asg_Input lab_assignment) = ''offline/'' @ Hash (json_encode (Profile_json lab_profile))"
    "task_AllowedActions (asg_Task lab_assignment) = [OfflineAction]"
    by (simp_all add: lab_assignment_def worker_task_def OfflineAction_def)
  then show ?thesis by (simp add: Offline_CheckAssignment_def check_assignment_def lab_profile_digest lab_validates)
qed

lemma lab_row_fields:
  "inb_run_id lab_ready_row = ''R-1''" "inb_owner lab_ready_row = Some ''w''" "inb_profile lab_ready_row = ''wk''"
  "inb_state lab_ready_row = Validated" "inb_id lab_ready_row = 1" "inb_intent lab_ready_row = inb_intent lab_row"
  by (simp_all add: lab_ready_row_def validated_row_def lab_row_def)

lemma lab_base_live: "lab_base s \<Longrightarrow> run_live s lab_ready_row"
proof -
  have "run_active lab_run (NewSession ''R-1'' 1) lab_intent = None"
    by (simp add: run_active_def lab_run_def sample_run_def NewSession_def)
  then show "lab_base s \<Longrightarrow> run_live s lab_ready_row"
    by (simp add: run_live_def lab_base_def lab_exec_db_def lab_ready_row_def validated_row_def lab_row_def)
qed

lemma lab_base_input: "lab_base s \<Longrightarrow> select_input (int_InputDigest lab_intent) ''R-1'' s = Inr (Inr lab_input, Some worker_task)"
  by (simp add: select_input_def select_row_def lab_base_def lab_exec_db_def)

lemma lab_base_preparation:
  "lab_base s \<Longrightarrow> find (\<lambda>p. prow_inbox_id p = 1) (pdb_preparations s) = Some lab_prep_row" "prow_receipt lab_prep_row = Some lab_receipt"
  by (simp_all add: lab_base_def lab_exec_db_def lab_prep_row_def)

lemma lab_base_started:
  fixes s :: "(Profile, OfflineReceipt, 'p, 'r, 'z) exec_db_scheme"
  assumes base: "lab_base s" and room: "journal_room s" and none: "edb_offline s = []" and schema: "pdb_schema s = [4, 5]"
  shows "\<exists>permit s1. StartOffline (sample_wenv 10) ''w'' lab_start s = (Inr permit, s1)"
proof -
  let ?r = "(inbox_record lab_row lab_intent)\<lparr>irec_state := Validated, irec_receipt := Some (prc_Admission lab_receipt)\<rparr>"
  have db: "wdb_inbox s = [lab_ready_row]" "db_recovery_mode (wdb_outbox s) = ''NORMAL''"
    using base by (simp_all add: lab_base_def lab_exec_db_def)
  have r: "irec_intent ?r = lab_intent" "irec_runID ?r = ''R-1''" by (simp_all add: inbox_record_def lab_row_def)
  have st: "start_RunID lab_start = ''R-1''" "start_WorkerProfile lab_start = ''wk''" "start_Profile lab_start = lab_profile" by (simp_all add: lab_start_def)
  have i: "find (\<lambda>i. inb_run_id i = start_RunID lab_start) (wdb_inbox s) = Some lab_ready_row" by (simp add: db lab_row_fields st)
  have sel: "select_input (int_InputDigest (irec_intent ?r)) (irec_runID ?r) s = Inr (Inr lab_input, Some worker_task)"
    unfolding r by (rule lab_base_input [OF base])
  have asg: "worker_assignment ?r (Inr lab_input) (Some worker_task) = Inr lab_assignment" using lab_load by simp
  have prep: "find (\<lambda>p. prow_inbox_id p = inb_id lab_ready_row) (pdb_preparations s) = Some lab_prep_row"
    using lab_base_preparation(1) [OF base] by (simp add: lab_row_fields)
  obtain permit m s1 where a: "authorize_execution edb_offline edb_offline_update Offline_CheckAssignment ''worker.offline.authorized'' 20 ''w'' lab_start
      (Hash (json_encode (Profile_json lab_profile))) (db_recovery_epoch (wdb_outbox s)) (sample_wenv 10) 6 s = (Inr (Commit permit), m, s1)"
    using offline.authorize_ok [where n = 6 and lease = 20 and pd = "Hash (json_encode (Profile_json lab_profile))"
        and epoch = "db_recovery_epoch (wdb_outbox s)" and check = Offline_CheckAssignment and event = "''worker.offline.authorized''",
        OF sample_wenv_simps(1) [of 10] room _ i lab_ready_scan _ _ _ lab_base_live [OF base] sel asg _ prep lab_base_preparation(2) lab_verify]
      lab_row_fields st none lab_check by auto
  have "start_offline ''w'' lab_start (Hash (json_encode (Profile_json lab_profile))) (sample_wenv 10) 1 s = (Inr (Commit permit), m, s1)"
    using a db none schema unfolding start_offline_def
    by (simp add: tx_bind_def tx_map_err_def tx_read_def tx_return_def lockWorkerPlatform_def busy_def eval_nat_numeral)
  then have "run_tx (start_offline ''w'' lab_start (Hash (json_encode (Profile_json lab_profile)))) (sample_wenv 10) s = (Inr permit, s1)"
    by (intro run_tx_commit) simp_all
  with lab_profile_digest sample_profile st show ?thesis by (auto simp: StartOffline_def)
qed

lemma lab_started: "\<exists>permit s1. StartOffline (sample_wenv 10) ''w'' lab_start lab_exec_db = (Inr permit, s1)"
  by (rule lab_base_started) (simp_all add: lab_base_def, simp_all add: lab_exec_db_def journal_room_def journal_ok_def Verify_def root_def)

text \<open>The state that follows the start: the reservation is the only row of the table, and it is live.\<close>

lemma lab_started_state:
  assumes "StartOffline (sample_wenv 10) ''w'' lab_start lab_exec_db = (Inr permit, s1)"
  shows "journal_room s1" and "wdb_inbox s1 = [lab_ready_row]" and "run_live s1 lab_ready_row"
    and "wdb_outbox s1 = wdb_outbox lab_exec_db" and "lane_ok Profile_Digest 120 (edb_offline s1)"
    and "edb_offline s1 = [authorized_row 10 20 (perm_Token permit) 1 ''w'' lab_profile (prc_FactsDigest (perm_Preparation permit))]"
    and "xtok_RunID (perm_Token permit) = ''R-1''" and "xtok_WorkerProfile (perm_Token permit) = ''wk''"
    and "xtok_RecoveryEpoch (perm_Token permit) = 7" and "Inr (xtok_ProfileDigest (perm_Token permit)) = Profile_Digest lab_profile"
    and "ExecToken_Valid (perm_Token permit)"
proof -
  have start: "start_Profile lab_start = lab_profile" "start_RunID lab_start = ''R-1''" "start_WorkerProfile lab_start = ''wk''"
    by (simp_all add: lab_start_def)
  have none: "edb_offline lab_exec_db = []" by (simp add: lab_exec_db_def)
  from assms obtain i k pd where pd: "Profile_Digest lab_profile = Inr pd"
    and a: "authorizes edb_offline edb_offline_update Offline_CheckAssignment ''worker.offline.authorized'' 20 ''w'' lab_start pd
          (db_recovery_epoch (wdb_outbox lab_exec_db)) (we_nonce (sample_wenv 10)) (we_clock (sample_wenv 10) k) i permit lab_exec_db s1"
    by (cases rule: StartOffline_cases) (auto simp: start)
  from a have i: "i = lab_ready_row" unfolding authorizes_def by (simp add: lab_exec_db_def split: if_splits)
  from offline.authorizes_fresh(1) [OF a] none i
  show "edb_offline s1 = [authorized_row 10 20 (perm_Token permit) 1 ''w'' lab_profile (prc_FactsDigest (perm_Preparation permit))]"
    by (simp add: start) (simp add: lab_ready_row_def validated_row_def lab_row_def)
  from a obtain s0 where aud: "audited ''worker.offline.authorized'' ''R-1'' (ExecToken_json (perm_Token permit)) lab_exec_db s0"
    and s1: "\<exists>x. s1 = edb_offline_update (\<lambda>xs. xs @ [x]) s0" and live: "run_live lab_exec_db i"
    and t: "perm_Token permit = \<lparr>xtok_ID = HexEncodeToString (we_nonce (sample_wenv 10)), xtok_RunID = ''R-1'', xtok_WorkerProfile = ''wk'',
          xtok_ProfileDigest = pd, xtok_RecoveryEpoch = db_recovery_epoch (wdb_outbox lab_exec_db)\<rparr>"
    unfolding authorizes_def start insert_execution_Inr by blast
  from aud have ev: "length (wdb_events s0) = 1" by (auto simp: audited_def log_event_def lab_exec_db_def)
  have "journal_ok lab_exec_db" by (simp add: journal_ok_def lab_exec_db_def Verify_def root_def)
  with audited_journal [OF aud] have "journal_ok s0" by (simp add: journal_kept_def)
  with s1 ev show "journal_room s1" by (auto simp: journal_room_def journal_ok_def)
  from s1 audited_frame [OF aud] show "wdb_inbox s1 = [lab_ready_row]" "wdb_outbox s1 = wdb_outbox lab_exec_db"
    by (auto simp: lab_exec_db_def)
  from s1 live i audited_frame [OF aud] show "run_live s1 lab_ready_row" by (auto simp: run_live_def)
  from offline_operations_kept(1) [OF assms] show "lane_ok Profile_Digest 120 (edb_offline s1)"
    by (simp add: lane_kept_def lane_rows_kept_def none lane_ok_def)
  from t pd show "xtok_RunID (perm_Token permit) = ''R-1''" "xtok_WorkerProfile (perm_Token permit) = ''wk''"
    "Inr (xtok_ProfileDigest (perm_Token permit)) = Profile_Digest lab_profile" by simp_all
  from t show "xtok_RecoveryEpoch (perm_Token permit) = 7" by (simp add: lab_exec_db_def)
  show "ExecToken_Valid (perm_Token permit)" using Profile_Digest_valid [OF pd] sample_profile
    by (simp add: t ExecToken_Valid_def hex64_nonce sample_wenv_def)
qed

lemma lab_finished:
  "\<exists>permit s1 receipt s2. StartOffline (sample_wenv 10) ''w'' lab_start lab_exec_db = (Inr permit, s1)
     \<and> FinishOffline (sample_wenv 11) ''w'' \<lparr>orep_Token = perm_Token permit, orep_Result = lab_result\<rparr> s1 = (Inr receipt, s2) \<and> s2 \<noteq> s1"
proof -
  from lab_started obtain permit s1 where st: "StartOffline (sample_wenv 10) ''w'' lab_start lab_exec_db = (Inr permit, s1)" by blast
  note s1 = lab_started_state [OF st]
  let ?t = "perm_Token permit"
  let ?x = "authorized_row 10 20 ?t 1 ''w'' lab_profile (prc_FactsDigest (perm_Preparation permit)) :: (Profile, OfflineReceipt) exec_row"
  let ?row = "\<lparr>xr_token = ?t, xr_profile = lab_profile, xr_worker = ''w'', xr_preparation = prc_FactsDigest (perm_Preparation permit),
     xr_state = Authorized, xr_until = 10 + 20 * second, xr_receipt = None\<rparr> :: (Profile, OfflineReceipt) execution"
  let ?report = "\<lparr>orep_Token = ?t, orep_Result = lab_result\<rparr>"
  have h: "holds_execution edb_offline wdb_inbox ''w'' (orep_Token ?report) s1 ?x lab_ready_row"
    unfolding holds_execution_def s1(2,6) by (simp add: s1 lab_row_fields) (simp add: authorized_row_def s1)
  have sc: "exec_scanned Profile_Digest ?x ?row" by (simp add: exec_scanned_def authorized_row_def s1)
  have live: "\<forall>k. live_authority (we_clock (sample_wenv 11) k) s1 (orep_Token ?report) ?x lab_ready_row"
    using s1(3) by (simp add: live_authority_def s1(4,9) live_execution_def authorized_row_def second_def)
      (simp add: lab_exec_db_def)
  have val: "Result_Validate (orep_Result ?report) (xr_profile ?row) = None" using lab_result_ok by simp
  from finish_offline_ok [OF sample_wenv_simps(1) s1(1) h sc lab_ready_scan s1(5) live val] st show ?thesis by blast
qed

theorem offline_result_is_fenced_witness:
  "\<exists>permit s1 answer s2 x i receipt. StartOffline (sample_wenv 10) ''w'' lab_start lab_exec_db = (Inr permit, s1)
     \<and> FinishOffline (sample_wenv 11) ''w'' \<lparr>orep_Token = perm_Token permit, orep_Result = lab_result\<rparr> s1 = (answer, s2)
     \<and> holds_execution edb_offline wdb_inbox ''w'' (perm_Token permit) s1 x i \<and> live_authority 11 s1 (perm_Token permit) x i
     \<and> finished_row receipt x \<in> set (edb_offline s2) \<and> orc_Result receipt = lab_result"
proof -
  from lab_finished obtain permit s1 receipt s2 where st: "StartOffline (sample_wenv 10) ''w'' lab_start lab_exec_db = (Inr permit, s1)"
    and fin: "FinishOffline (sample_wenv 11) ''w'' \<lparr>orep_Token = perm_Token permit, orep_Result = lab_result\<rparr> s1 = (Inr receipt, s2)" "s2 \<noteq> s1" by blast
  from offline_result_is_fenced [OF fin lab_started_state(5) [OF st], simplified] st fin(1) show ?thesis by blast
qed

theorem issued_permits_and_receipts_verify_witness:
  "\<exists>permit receipt. OfflinePermit_Check permit ''w'' lab_start = None \<and> OfflineReceipt_Verify receipt ''w'' permit lab_result = None"
proof -
  from lab_finished obtain permit s1 receipt s2 where st: "StartOffline (sample_wenv 10) ''w'' lab_start lab_exec_db = (Inr permit, s1)"
    and fin: "FinishOffline (sample_wenv 11) ''w'' \<lparr>orep_Token = perm_Token permit, orep_Result = lab_result\<rparr> s1 = (Inr receipt, s2)" "s2 \<noteq> s1" by blast
  have "lane_ok Profile_Digest 120 (edb_offline lab_exec_db)" by (simp add: lab_exec_db_def lane_ok_def)
  moreover have "lane_kept edb_offline Profile_Digest 120 s1 s1" by (rule offline.lane.refl)
  moreover have "length (we_nonce (sample_wenv 10)) = 32" by (simp add: sample_wenv_def)
  ultimately have "OfflinePermit_Check permit ''w'' lab_start = None \<and> OfflineReceipt_Verify receipt ''w'' permit lab_result = None"
    by (intro issued_permits_and_receipts_verify [OF st _ _ _ _ fin]) simp_all
  then show ?thesis by blast
qed

end
