(* ===== verification/CodexModel.thy ===== *)
theory CodexModel
  imports OfflineLane
begin

text \<open>
  The records of a Codex execution and their validation: package \<open>codexexec\<close> (\<open>model.go\<close>, \<open>control.go\<close>,
  \<open>checkpoint.go\<close>, the interruption rule of \<open>continuation.go\<close>, \<open>prompt_binding.go\<close>) with the types it
  embeds from \<open>provideridentity\<close>, \<open>processscope\<close>, \<open>runtime/codexapp\<close> and \<open>workspace\<close>. Tokens, permits and
  start requests have the shape of the offline lane and are shared with it. Digested records that
  carry timestamps take their rendering as an argument.
\<close>

section \<open>Strings\<close>

fun ValidString :: "string \<Rightarrow> bool" where
  "ValidString [] = True"
| "ValidString (a # s) = (case rune_len (a # s) of 0 \<Rightarrow> False | Suc n \<Rightarrow> ValidString (drop n s))"

definition control_free :: "string \<Rightarrow> bool" where
  "control_free s \<longleftrightarrow> \<not> list_ex (\<lambda>c. byte c < 0x20 \<or> byte c = 0x7F) s"

definition boundedID :: "string \<Rightarrow> bool" where
  "boundedID s \<longleftrightarrow> \<not> (s = [] \<or> length s > 256 \<or> TrimSpace s \<noteq> s \<or> \<not> ValidString s) \<and> control_free s"

definition remoteID :: "string \<Rightarrow> bool" where
  "remoteID i \<longleftrightarrow> i \<noteq> [] \<and> length i \<le> 256 \<and> TrimSpace i = i"

definition validFederationRuleID :: "string \<Rightarrow> bool" where
  "validFederationRuleID s \<longleftrightarrow> \<not> (s = [] \<or> length s > 256 \<or> TrimSpace s \<noteq> s) \<and> control_free s"

text \<open>\<open>^[0-9]+\.[0-9]+\.[0-9]+(?:[-+][0-9A-Za-z.-]+)?$\<close>, read from the left.\<close>

definition after_number :: "string \<Rightarrow> string option" where
  "after_number s = (if s \<noteq> [] \<and> is_digit (hd s) then Some (dropWhile is_digit s) else None)"

definition after_dot :: "string \<Rightarrow> string option" where
  "after_dot s = (if s \<noteq> [] \<and> hd s = CHR ''.'' then Some (tl s) else None)"

definition codexVersionPattern :: "string \<Rightarrow> bool" where
  "codexVersionPattern s =
     (case Option.bind (Option.bind (Option.bind (Option.bind (after_number s) after_dot) after_number) after_dot) after_number of
        None \<Rightarrow> False
      | Some rest \<Rightarrow>
          rest = [] \<or> hd rest \<in> {CHR ''-'', CHR ''+''} \<and> tl rest \<noteq> []
            \<and> list_all (\<lambda>c. is_alnum c \<or> c = CHR ''.'' \<or> c = CHR ''-'') (tl rest))"

definition ValidCodexVersion :: "string \<Rightarrow> bool" where
  "ValidCodexVersion version \<longleftrightarrow> length version \<le> 64 \<and> codexVersionPattern version"

section \<open>Provider identity\<close>

definition ProviderOpenAICodex :: string where "ProviderOpenAICodex = ''openai-codex''"
definition CredentialChatGPTSession :: string where "CredentialChatGPTSession = ''chatgpt-session''"
definition CredentialWorkloadIdentity :: string where "CredentialWorkloadIdentity = ''workload-identity''"
definition ExecutionTrustedSelfHosted :: string where "ExecutionTrustedSelfHosted = ''trusted-self-hosted''"
definition ExecutionUnattended :: string where "ExecutionUnattended = ''unattended''"

definition text_lines :: "string list \<Rightarrow> string" where
  "text_lines ls = concat (map (\<lambda>l. l @ [CHR 0x0A]) ls)"

definition openAICodexProviderContract :: string where
  "openAICodexProviderContract =
     text_lines [''version=1'', ''provider=openai-codex'', ''transport=codex-app-server'', ''endpoint=builtin'']"

record ProviderIdentity =
  pid_Version :: int
  pid_ProviderID :: string
  pid_CredentialMode :: string
  pid_ExecutionMode :: string
  pid_ProviderConfigDigest :: string

definition ProviderIdentity_json :: "ProviderIdentity \<Rightarrow> json" where
  "ProviderIdentity_json i = JObj
     (int_field ''version'' (pid_Version i) @ str_field ''provider_id'' (pid_ProviderID i)
      @ str_field ''credential_mode'' (pid_CredentialMode i) @ str_field ''execution_mode'' (pid_ExecutionMode i)
      @ str_field ''provider_config_digest'' (pid_ProviderConfigDigest i))"

definition OpenAICodexConfigDigest :: string where
  "OpenAICodexConfigDigest = BytesDigest openAICodexProviderContract"

definition trimmed128 :: "string \<Rightarrow> bool" where
  "trimmed128 s \<longleftrightarrow> \<not> (TrimSpace s \<noteq> s \<or> s = [] \<or> length s > 128)"

definition ProviderIdentity_Validate :: "ProviderIdentity \<Rightarrow> err option" where
  "ProviderIdentity_Validate i =
     (if pid_Version i \<noteq> 1 \<or> \<not> trimmed128 (pid_ProviderID i) \<or> \<not> trimmed128 (pid_CredentialMode i)
         \<or> \<not> trimmed128 (pid_ExecutionMode i) \<or> \<not> ValidDigest (pid_ProviderConfigDigest i)
      then Some (ErrText ''invalid provider identity'')
      else if pid_ProviderID i \<noteq> ProviderOpenAICodex \<or> pid_ProviderConfigDigest i \<noteq> OpenAICodexConfigDigest
      then Some (ErrText ''provider is not qualified for Codex execution'')
      else if pid_CredentialMode i = CredentialChatGPTSession \<and> pid_ExecutionMode i = ExecutionTrustedSelfHosted then None
      else if pid_CredentialMode i = CredentialWorkloadIdentity \<and> pid_ExecutionMode i = ExecutionUnattended then None
      else Some (ErrText ''provider credential/execution combination is not admitted''))"

definition providerConfigDigest :: "string \<Rightarrow> string" where
  "providerConfigDigest providerID = (if providerID = ProviderOpenAICodex then OpenAICodexConfigDigest else [])"

definition NewProviderIdentity :: "string \<Rightarrow> string \<Rightarrow> string \<Rightarrow> ProviderIdentity result" where
  "NewProviderIdentity providerID credentialMode executionMode =
     (let identity = \<lparr>pid_Version = 1, pid_ProviderID = providerID, pid_CredentialMode = credentialMode,
                      pid_ExecutionMode = executionMode, pid_ProviderConfigDigest = providerConfigDigest providerID\<rparr> in
      unless_err (ProviderIdentity_Validate identity) (Inr identity))"

section \<open>Process scopes\<close>

record ScopeProof =
  scp_Version :: int
  scp_Mechanism :: string
  scp_HostPID :: int
  scp_NamespaceID :: uint64
  scp_ParentNamespaceID :: uint64
  scp_StartedAt :: gotime
  scp_ReapedAt :: gotime
  scp_InitReaped :: bool

definition ScopeProof_json :: "(gotime \<Rightarrow> string) \<Rightarrow> ScopeProof \<Rightarrow> json" where
  "ScopeProof_json rfc3339 p = JObj
     (int_field ''version'' (scp_Version p) @ str_field ''mechanism'' (scp_Mechanism p) @ int_field ''host_pid'' (scp_HostPID p)
      @ u64_field ''pid_namespace_inode'' (scp_NamespaceID p) @ u64_field ''parent_pid_namespace_inode'' (scp_ParentNamespaceID p)
      @ str_field ''started_at'' (rfc3339 (scp_StartedAt p)) @ str_field ''reaped_at'' (rfc3339 (scp_ReapedAt p))
      @ bool_field ''namespace_init_reaped'' (scp_InitReaped p))"

definition Mechanism :: string where "Mechanism = ''linux-user-pid-namespace-init-v1''"

definition ScopeProof_Validate :: "ScopeProof \<Rightarrow> err option" where
  "ScopeProof_Validate p =
     (if scp_Version p \<noteq> 1 \<or> scp_Mechanism p \<noteq> Mechanism \<or> scp_HostPID p \<le> 0 \<or> scp_NamespaceID p = 0
         \<or> scp_ParentNamespaceID p = 0 \<or> scp_NamespaceID p = scp_ParentNamespaceID p \<or> IsZero (scp_StartedAt p)
      then Some (ErrText ''dedicated PID namespace identity required'')
      else if scp_InitReaped p
      then (if IsZero (scp_ReapedAt p) \<or> scp_ReapedAt p < scp_StartedAt p
            then Some (ErrText ''invalid namespace reap observation'') else None)
      else if \<not> IsZero (scp_ReapedAt p) then Some (ErrText ''unconfirmed namespace carries reap time'')
      else None)"

definition Quiescent :: "ScopeProof \<Rightarrow> bool" where
  "Quiescent p \<longleftrightarrow> ScopeProof_Validate p = None \<and> scp_InitReaped p"

text \<open>The zero value of the type, which a closure without an observation carries.\<close>

definition no_scope :: ScopeProof where
  "no_scope = \<lparr>scp_Version = 0, scp_Mechanism = [], scp_HostPID = 0, scp_NamespaceID = 0, scp_ParentNamespaceID = 0,
     scp_StartedAt = 0, scp_ReapedAt = 0, scp_InitReaped = False\<rparr>"

section \<open>Engineering receipts\<close>

definition engineeringConfig :: string where
  "engineeringConfig = text_lines
     [''cli_auth_credentials_store = \"file\"'', '''', ''approval_policy = \"never\"'', ''sandbox_mode = \"workspace-write\"'',
      ''web_search = \"disabled\"'', ''allow_login_shell = false'', '''', ''[sandbox_workspace_write]'', ''network_access = false'', '''',
      ''[features]'', ''shell_tool = true'', ''view_image = false'', ''standalone_web_search = false'', ''web_search_request = false'',
      '''', ''[shell_environment_policy]'', ''inherit = \"none\"'', '''', ''[shell_environment_policy.set]'',
      ''PATH = \"/usr/local/bin:/usr/bin:/bin\"'', ''LANG = \"C.UTF-8\"'', ''LC_ALL = \"C.UTF-8\"'', ''TZ = \"UTC\"'']"

definition EngineeringConfigDigest :: string where
  "EngineeringConfigDigest = BytesDigest engineeringConfig"

record EngineeringReceipt =
  eng_ProcessScope :: ScopeProof
  eng_SchemaVersion :: int
  eng_CLI :: string
  eng_Version :: string
  eng_BinaryDigest :: string
  eng_QualificationDigest :: string
  eng_EngineeringConfigDigest :: string
  eng_Provider :: ProviderIdentity
  eng_FederationRuleID :: string
  eng_Model :: string
  eng_PromptDigest :: string
  eng_ItemHistoryDigest :: string
  eng_ItemHistoryCount :: int
  eng_ThreadID :: string
  eng_TurnID :: string
  eng_TurnStatus :: string
  eng_Output :: string
  eng_OutputDigest :: string
  eng_CommandCount :: int
  eng_FailedCommands :: int
  eng_FileChangeCount :: int
  eng_ApprovalRequests :: int
  eng_AssertionRemovedBeforeTurn :: bool
  eng_CredentialBootstrapRemovedBeforeTurn :: bool

definition EngineeringReceipt_json :: "(gotime \<Rightarrow> string) \<Rightarrow> EngineeringReceipt \<Rightarrow> json" where
  "EngineeringReceipt_json rfc3339 r = JObj
     ([(''process_scope'', ScopeProof_json rfc3339 (eng_ProcessScope r))] @ int_field ''schema_version'' (eng_SchemaVersion r)
      @ str_field ''cli'' (eng_CLI r) @ str_field ''version'' (eng_Version r) @ str_field ''binary_digest'' (eng_BinaryDigest r)
      @ str_field ''qualification_digest'' (eng_QualificationDigest r)
      @ str_field ''engineering_config_digest'' (eng_EngineeringConfigDigest r)
      @ [(''provider'', ProviderIdentity_json (eng_Provider r))] @ str_field ''federation_rule_id'' (eng_FederationRuleID r)
      @ str_field ''model'' (eng_Model r) @ str_field ''prompt_digest'' (eng_PromptDigest r)
      @ str_field ''item_history_digest'' (eng_ItemHistoryDigest r) @ int_field ''item_history_count'' (eng_ItemHistoryCount r)
      @ str_field ''thread_id'' (eng_ThreadID r) @ str_field ''turn_id'' (eng_TurnID r) @ str_field ''turn_status'' (eng_TurnStatus r)
      @ str_field ''output'' (eng_Output r) @ str_field ''output_digest'' (eng_OutputDigest r)
      @ int_field ''command_count'' (eng_CommandCount r) @ int_field ''failed_commands'' (eng_FailedCommands r)
      @ int_field ''file_change_count'' (eng_FileChangeCount r) @ int_field ''approval_requests'' (eng_ApprovalRequests r)
      @ bool_field ''assertion_removed_before_turn'' (eng_AssertionRemovedBeforeTurn r)
      @ bool_field ''credential_bootstrap_removed_before_turn'' (eng_CredentialBootstrapRemovedBeforeTurn r))"

definition EngineeringReceipt_Validate :: "EngineeringReceipt \<Rightarrow> err option" where
  "EngineeringReceipt_Validate r =
     (if eng_SchemaVersion r \<noteq> 5 \<or> \<not> Quiescent (eng_ProcessScope r) \<or> eng_CLI r \<noteq> ''codex-cli''
         \<or> \<not> ValidCodexVersion (eng_Version r) \<or> \<not> ValidDigest (eng_BinaryDigest r) \<or> \<not> ValidDigest (eng_QualificationDigest r)
         \<or> eng_EngineeringConfigDigest r \<noteq> EngineeringConfigDigest \<or> ProviderIdentity_Validate (eng_Provider r) \<noteq> None
         \<or> TrimSpace (eng_Model r) = [] \<or> length (eng_Model r) > 128 \<or> \<not> ValidDigest (eng_PromptDigest r)
         \<or> \<not> ValidDigest (eng_ItemHistoryDigest r) \<or> eng_ItemHistoryCount r \<le> 0 \<or> eng_ItemHistoryCount r > 2048
         \<or> \<not> remoteID (eng_ThreadID r) \<or> \<not> remoteID (eng_TurnID r) \<or> eng_TurnStatus r \<noteq> ''completed''
         \<or> TrimSpace (eng_Output r) = [] \<or> length (eng_Output r) > 64 * 2 ^ 10
         \<or> eng_OutputDigest r \<noteq> BytesDigest (eng_Output r) \<or> eng_CommandCount r < 0
         \<or> eng_FailedCommands r < 0 \<or> eng_FailedCommands r > eng_CommandCount r \<or> eng_FileChangeCount r < 0
         \<or> eng_ApprovalRequests r \<noteq> 0
      then Some (ErrText ''invalid engineering Codex receipt'')
      else if pid_CredentialMode (eng_Provider r) = CredentialWorkloadIdentity
      then (if \<not> validFederationRuleID (eng_FederationRuleID r) \<or> \<not> eng_AssertionRemovedBeforeTurn r
               \<or> eng_CredentialBootstrapRemovedBeforeTurn r
            then Some (ErrText ''invalid engineering workload-identity receipt'') else None)
      else if pid_CredentialMode (eng_Provider r) = CredentialChatGPTSession
      then (if eng_FederationRuleID r \<noteq> [] \<or> eng_AssertionRemovedBeforeTurn r \<or> \<not> eng_CredentialBootstrapRemovedBeforeTurn r
            then Some (ErrText ''invalid engineering saved-login receipt'') else None)
      else Some (ErrText ''invalid engineering provider credential mode''))"

section \<open>Workspace changes\<close>

definition FinalizeRecipe :: string where "FinalizeRecipe = ''independent-git-finalize-v2-self-contained''"

record ChangeFacts =
  chg_Recipe :: string
  chg_BaseCommit :: string
  chg_BaseTree :: string
  chg_BaseSourceDigest :: string
  chg_ResultCommit :: string
  chg_ResultTree :: string
  chg_ResultSourceDigest :: string
  chg_BundleDigest :: string
  chg_BundleSize :: int

definition ChangeFacts_json :: "ChangeFacts \<Rightarrow> json" where
  "ChangeFacts_json c = JObj
     (str_field ''recipe'' (chg_Recipe c) @ str_field ''base_commit'' (chg_BaseCommit c) @ str_field ''base_tree'' (chg_BaseTree c)
      @ str_field ''base_source_digest'' (chg_BaseSourceDigest c) @ str_field ''result_commit'' (chg_ResultCommit c)
      @ str_field ''result_tree'' (chg_ResultTree c) @ str_field ''result_source_digest'' (chg_ResultSourceDigest c)
      @ str_field ''bundle_digest'' (chg_BundleDigest c) @ int_field ''bundle_size'' (chg_BundleSize c))"

section \<open>Profiles\<close>

record CodexProfile =
  cpf_Version :: int
  cpf_Provider :: ProviderIdentity
  cpf_CodexVersion :: string
  cpf_BinaryDigest :: string
  cpf_QualificationDigest :: string
  cpf_EngineeringConfigDigest :: string
  cpf_Model :: string
  cpf_Sandbox :: string
  cpf_ApprovalPolicy :: string
  cpf_ToolNetwork :: bool

definition CodexProfile_json :: "CodexProfile \<Rightarrow> json" where
  "CodexProfile_json p = JObj
     (int_field ''version'' (cpf_Version p) @ [(''provider'', ProviderIdentity_json (cpf_Provider p))]
      @ str_field ''codex_version'' (cpf_CodexVersion p) @ str_field ''binary_digest'' (cpf_BinaryDigest p)
      @ str_field ''qualification_digest'' (cpf_QualificationDigest p)
      @ str_field ''engineering_config_digest'' (cpf_EngineeringConfigDigest p) @ str_field ''model'' (cpf_Model p)
      @ str_field ''sandbox'' (cpf_Sandbox p) @ str_field ''approval_policy'' (cpf_ApprovalPolicy p)
      @ bool_field ''tool_network'' (cpf_ToolNetwork p))"

definition CodexProfile_Validate :: "CodexProfile \<Rightarrow> err option" where
  "CodexProfile_Validate p =
     (if cpf_Version p \<noteq> 3 \<or> ProviderIdentity_Validate (cpf_Provider p) \<noteq> None \<or> \<not> ValidCodexVersion (cpf_CodexVersion p)
         \<or> \<not> ValidDigest (cpf_BinaryDigest p) \<or> \<not> ValidDigest (cpf_QualificationDigest p)
         \<or> cpf_EngineeringConfigDigest p \<noteq> EngineeringConfigDigest
         \<or> TrimSpace (cpf_Model p) = [] \<or> length (cpf_Model p) > 128
         \<or> cpf_Sandbox p \<noteq> ''workspace-write'' \<or> cpf_ApprovalPolicy p \<noteq> ''never'' \<or> cpf_ToolNetwork p
      then Some ErrIdentity else None)"

definition CodexProfile_Digest :: "CodexProfile \<Rightarrow> string result" where
  "CodexProfile_Digest p = unless_err (CodexProfile_Validate p) (Inr (Digest (CodexProfile_json p)))"

definition CodexAction :: string where "CodexAction = ''worker.codex-execute''"
definition CodexKind :: string where "CodexKind = ''WORKER_ATTESTED_CODEX_EXECUTION''"

definition Codex_CheckAssignment :: "Assignment \<Rightarrow> CodexProfile \<Rightarrow> err option" where
  "Codex_CheckAssignment = check_assignment ''codex/'' CodexAction CodexProfile_Digest"

definition CodexPermit_Check :: "CodexProfile Permit \<Rightarrow> string \<Rightarrow> CodexProfile Start \<Rightarrow> err option" where
  "CodexPermit_Check = Permit_Check CodexProfile_Digest Codex_CheckAssignment"

section \<open>Prompt identity\<close>

record PromptIdentity =
  pri_Continuation :: "ContinuationRef option"
  pri_Version :: int
  pri_RunID :: string
  pri_TaskContractDigest :: string
  pri_RunInputDigest :: string
  pri_TaskType :: string
  pri_Repository :: string
  pri_BaseCommit :: string
  pri_TargetID :: string
  pri_CapabilityIDs :: "string list"
  pri_SkillIDs :: "string list"
  pri_SkillContractDigest :: string
  pri_SkillGuidanceVersion :: int
  pri_AcceptanceCriteria :: "string slice"
  pri_ExpectedOutputs :: "string list"
  pri_BundleDigest :: string

definition PromptIdentity_json :: "PromptIdentity \<Rightarrow> json" where
  "PromptIdentity_json i = JObj
     ((case pri_Continuation i of None \<Rightarrow> [] | Some c \<Rightarrow> [(''continuation'', ContinuationRef_json c)])
      @ int_field ''version'' (pri_Version i) @ str_field ''run_id'' (pri_RunID i)
      @ str_field ''task_contract_digest'' (pri_TaskContractDigest i) @ str_field ''run_input_manifest_digest'' (pri_RunInputDigest i)
      @ str_field ''task_type'' (pri_TaskType i) @ str_field ''repository'' (pri_Repository i) @ str_field ''base_commit'' (pri_BaseCommit i)
      @ str_opt ''target_id'' (pri_TargetID i) @ list_opt ''capability_ids'' JStr (pri_CapabilityIDs i)
      @ list_opt ''skill_ids'' JStr (pri_SkillIDs i) @ str_opt ''skill_contract_digest'' (pri_SkillContractDigest i)
      @ int_opt ''skill_guidance_version'' (pri_SkillGuidanceVersion i)
      @ slice_field ''acceptance_criteria'' JStr (pri_AcceptanceCriteria i)
      @ list_opt ''expected_outputs'' JStr (pri_ExpectedOutputs i) @ str_field ''context_bundle_digest'' (pri_BundleDigest i))"

text \<open>\<open>append([]string(nil), xs...)\<close>\<close>

definition copied :: "string list \<Rightarrow> string slice" where
  "copied xs = (if xs = [] then NilSlice else Slice xs)"

definition promptIdentity :: "Assignment \<Rightarrow> PreparationReceipt \<Rightarrow> (PromptIdentity \<times> string) result" where
  "promptIdentity a prep =
     (case Validate a of
        Inl e \<Rightarrow> Inl e
      | Inr _ \<Rightarrow>
          if Preparation_Verify a prep (prc_Facts prep) (rct_Worker (prc_Admission prep)) \<noteq> None
             \<or> \<not> ValidDigest (fct_BundleDigest (prc_Facts prep))
          then Inl ErrIdentity
          else
            (let task = asg_Task a; guided = (task_SkillGuidanceVersion task = 1);
                 identity = \<lparr>pri_Continuation = input_Continuation (asg_Input a), pri_Version = 1, pri_RunID = int_RunID (asg_Intent a),
                   pri_TaskContractDigest = int_TaskDigest (asg_Intent a), pri_RunInputDigest = int_InputDigest (asg_Intent a),
                   pri_TaskType = task_TaskType task, pri_Repository = task_Repository task,
                   pri_BaseCommit = ToLower (task_BaseCommit task), pri_TargetID = task_TargetID task,
                   pri_CapabilityIDs = elems (task_CapabilityIDs task), pri_SkillIDs = elems (task_SkillIDs task),
                   pri_SkillContractDigest = (if guided then task_SkillContractDigest task else []),
                   pri_SkillGuidanceVersion = (if guided then task_SkillGuidanceVersion task else 0),
                   pri_AcceptanceCriteria = copied (elems (task_AcceptanceCriteria task)),
                   pri_ExpectedOutputs = task_ExpectedOutputs task, pri_BundleDigest = fct_BundleDigest (prc_Facts prep)\<rparr>
             in Inr (identity, Digest (PromptIdentity_json identity))))"

definition PromptIdentityDigest :: "Assignment \<Rightarrow> PreparationReceipt \<Rightarrow> string result" where
  "PromptIdentityDigest a prep = (case promptIdentity a prep of Inl e \<Rightarrow> Inl e | Inr (_, digest) \<Rightarrow> Inr digest)"

definition VerifyTurnPromptBinding :: "Assignment \<Rightarrow> PreparationReceipt \<Rightarrow> string \<Rightarrow> string \<Rightarrow> string \<Rightarrow> err option" where
  "VerifyTurnPromptBinding a prep rendered promptIdentityDigest observedPromptDigest =
     (if rendered = [] \<or> length rendered > 64 * 2 ^ 10 \<or> \<not> ValidString rendered \<or> \<not> ValidDigest observedPromptDigest
      then Some (ErrWrap ErrIdentity (ErrText ''bounded rendered Codex prompt and observed digest required''))
      else if PromptIdentityDigest a prep \<noteq> Inr promptIdentityDigest \<or> observedPromptDigest \<noteq> BytesDigest rendered
      then Some (ErrWrap ErrIdentity (ErrText ''Codex turn prompt bytes/identity disagree with frozen Task''))
      else None)"

section \<open>Results and receipts\<close>

record CodexResult =
  crs_ControlTranscriptDigest :: string
  crs_PromptIdentityDigest :: string
  crs_Codex :: EngineeringReceipt
  crs_Change :: ChangeFacts

definition CodexResult_json :: "(gotime \<Rightarrow> string) \<Rightarrow> CodexResult \<Rightarrow> json" where
  "CodexResult_json rfc3339 r = JObj
     (str_opt ''control_transcript_digest'' (crs_ControlTranscriptDigest r)
      @ str_field ''prompt_identity_digest'' (crs_PromptIdentityDigest r)
      @ [(''codex'', EngineeringReceipt_json rfc3339 (crs_Codex r)), (''change'', ChangeFacts_json (crs_Change r))])"

definition change_matches :: "ChangeFacts \<Rightarrow> Preparation.Facts \<Rightarrow> bool" where
  "change_matches c f \<longleftrightarrow>
     \<not> (chg_Recipe c \<noteq> FinalizeRecipe \<or> chg_BaseCommit c \<noteq> fct_BaseCommit f \<or> chg_BaseTree c \<noteq> fct_TreeCommit f
        \<or> chg_BaseSourceDigest c \<noteq> fct_SourceDigest f \<or> chg_ResultCommit c = chg_BaseCommit c \<or> chg_ResultTree c = chg_BaseTree c
        \<or> chg_ResultSourceDigest c = chg_BaseSourceDigest c \<or> \<not> ValidDigest (chg_ResultSourceDigest c)
        \<or> \<not> ValidDigest (chg_BundleDigest c) \<or> chg_BundleSize c \<le> 0)"

definition CodexResult_Validate :: "CodexResult \<Rightarrow> CodexProfile \<Rightarrow> CodexProfile Permit \<Rightarrow> err option" where
  "CodexResult_Validate r p permit =
     (let codex = crs_Codex r in
      if \<not> ValidDigest (crs_ControlTranscriptDigest r) \<or> CodexProfile_Digest p \<noteq> Inr (xtok_ProfileDigest (perm_Token permit))
         \<or> PromptIdentityDigest (perm_Assignment permit) (perm_Preparation permit) \<noteq> Inr (crs_PromptIdentityDigest r)
         \<or> EngineeringReceipt_Validate codex \<noteq> None \<or> eng_Provider codex \<noteq> cpf_Provider p
         \<or> eng_Version codex \<noteq> cpf_CodexVersion p \<or> eng_BinaryDigest codex \<noteq> cpf_BinaryDigest p
         \<or> eng_QualificationDigest codex \<noteq> cpf_QualificationDigest p
         \<or> eng_EngineeringConfigDigest codex \<noteq> cpf_EngineeringConfigDigest p \<or> eng_Model codex \<noteq> cpf_Model p
         \<or> \<not> change_matches (crs_Change r) (prc_Facts (perm_Preparation permit))
      then Some ErrIdentity else None)"

record CodexReport =
  crep_Token :: ExecToken
  crep_Result :: CodexResult

record CodexReceipt =
  crc_Kind :: string
  crc_Token :: ExecToken
  crc_Worker :: string
  crc_PreparationDigest :: string
  crc_Result :: CodexResult
  crc_ResultDigest :: string
  crc_ReceivedAt :: gotime

definition CodexReceipt_json :: "(gotime \<Rightarrow> string) \<Rightarrow> CodexReceipt \<Rightarrow> json" where
  "CodexReceipt_json rfc3339 r = JObj
     (str_field ''kind'' (crc_Kind r) @ [(''token'', ExecToken_json (crc_Token r))] @ str_field ''worker_subject'' (crc_Worker r)
      @ str_field ''preparation_digest'' (crc_PreparationDigest r) @ [(''result'', CodexResult_json rfc3339 (crc_Result r))]
      @ str_field ''result_digest'' (crc_ResultDigest r) @ str_field ''received_at'' (rfc3339 (crc_ReceivedAt r)))"

definition CodexReceipt_Verify ::
  "(gotime \<Rightarrow> string) \<Rightarrow> CodexReceipt \<Rightarrow> string \<Rightarrow> CodexProfile Permit \<Rightarrow> CodexResult \<Rightarrow> err option" where
  "CodexReceipt_Verify rfc3339 r subject p result =
     (let digest = Digest (CodexResult_json rfc3339 result); actual = Digest (CodexResult_json rfc3339 (crc_Result r)) in
      if digest \<noteq> actual \<or> crc_ResultDigest r \<noteq> digest \<or> crc_Kind r \<noteq> CodexKind \<or> crc_Worker r \<noteq> subject
         \<or> crc_Token r \<noteq> perm_Token p \<or> crc_PreparationDigest r \<noteq> prc_FactsDigest (perm_Preparation p)
         \<or> IsZero (crc_ReceivedAt r) \<or> CodexResult_Validate (crc_Result r) (perm_Profile p) p \<noteq> None
      then Some (ErrWrap ErrIdentity (ErrText ''Codex receipt mismatch''))
      else None)"

end
