(* ===== verification/CodexControl.thy ===== *)
theory CodexControl
  imports CodexModel
begin

text \<open>
  Live controls of a Codex turn: commands, their delivery, the sealed transcript
  (\<open>codexexec/control.go\<close>), source checkpoints (\<open>checkpoint.go\<close>) and the decision whether an
  interrupted turn may be continued (\<open>continuation.go\<close>).
\<close>

section \<open>Commands and bindings\<close>

definition ControlSteer :: string where "ControlSteer = ''STEER''"
definition ControlInterrupt :: string where "ControlInterrupt = ''INTERRUPT''"
definition ControlQueued :: string where "ControlQueued = ''QUEUED''"
definition ControlDispatching :: string where "ControlDispatching = ''DISPATCHING''"
definition ControlAccepted :: string where "ControlAccepted = ''STEER_ACCEPTED''"
definition ControlInterruptACK :: string where "ControlInterruptACK = ''INTERRUPT_ACKNOWLEDGED''"
definition ControlInterrupted :: string where "ControlInterrupted = ''TURN_INTERRUPTED''"
definition ControlNotApplied :: string where "ControlNotApplied = ''NOT_APPLIED''"
definition ControlUnknown :: string where "ControlUnknown = ''UNKNOWN''"
definition MaxControls :: nat where "MaxControls = 64"

lemmas control_names = ControlSteer_def ControlInterrupt_def ControlQueued_def ControlDispatching_def ControlAccepted_def
  ControlInterruptACK_def ControlInterrupted_def ControlNotApplied_def ControlUnknown_def

record ControlInput =
  cin_ID :: string
  cin_ExecutionEpoch :: uint64
  cin_Sequence :: uint64
  cin_Actor :: string
  cin_ThreadID :: string
  cin_TurnID :: string
  cin_Text :: string

definition ControlInput_Validate :: "ControlInput \<Rightarrow> string \<Rightarrow> err option" where
  "ControlInput_Validate i kind =
     (if \<not> boundedID (cin_ID i) \<or> \<not> boundedID (cin_Actor i) \<or> \<not> boundedID (cin_ThreadID i) \<or> \<not> boundedID (cin_TurnID i)
         \<or> cin_ExecutionEpoch i = 0 \<or> cin_ExecutionEpoch i > 2 ^ 62 \<or> cin_Sequence i = 0 \<or> cin_Sequence i > 2 ^ 62
      then Some (ErrText ''invalid control identity'')
      else if kind = ControlSteer
      then (if TrimSpace (cin_Text i) = [] \<or> length (cin_Text i) > 8192 \<or> \<not> ValidString (cin_Text i) \<or> CHR 0x00 \<in> set (cin_Text i)
            then Some (ErrText ''bounded nonempty UTF-8 steering text required'') else None)
      else if kind = ControlInterrupt
      then (if cin_Text i \<noteq> [] then Some (ErrText ''interrupt must not carry model input'') else None)
      else Some (ErrText ''unsupported live control''))"

record ControlBinding =
  cbn_Token :: ExecToken
  cbn_ExecutionEpoch :: uint64
  cbn_ThreadID :: string
  cbn_TurnID :: string

definition ControlBinding_json :: "ControlBinding \<Rightarrow> json" where
  "ControlBinding_json b = JObj
     ([(''token'', ExecToken_json (cbn_Token b))] @ u64_field ''execution_epoch'' (cbn_ExecutionEpoch b)
      @ str_field ''thread_id'' (cbn_ThreadID b) @ str_field ''turn_id'' (cbn_TurnID b))"

definition ControlBinding_Validate :: "ControlBinding \<Rightarrow> err option" where
  "ControlBinding_Validate b =
     (if \<not> ExecToken_Valid (cbn_Token b) \<or> cbn_ExecutionEpoch b = 0 \<or> cbn_ExecutionEpoch b > 2 ^ 62
         \<or> \<not> boundedID (cbn_ThreadID b) \<or> \<not> boundedID (cbn_TurnID b)
      then Some (ErrText ''invalid live Runtime binding'') else None)"

record ControlPayload =
  cpl_Binding :: ControlBinding
  cpl_Kind :: string
  cpl_Text :: string

definition ControlPayload_json :: "ControlPayload \<Rightarrow> json" where
  "ControlPayload_json p = JObj
     ([(''binding'', ControlBinding_json (cpl_Binding p))] @ str_field ''kind'' (cpl_Kind p) @ str_opt ''text'' (cpl_Text p))"

section \<open>Deliveries\<close>

record ControlDelivery =
  cdl_Command :: SteeringCommand
  cdl_Payload :: ControlPayload
  cdl_State :: string
  cdl_DispatchedAt :: "gotime option"
  cdl_ResolvedAt :: "gotime option"

definition SteeringCommand_json :: "(gotime \<Rightarrow> string) \<Rightarrow> SteeringCommand \<Rightarrow> json" where
  "SteeringCommand_json rfc3339 c = JObj
     (str_field ''steering_command_id'' (cmd_ID c) @ str_field ''run_id'' (cmd_RunID c)
      @ u64_field ''execution_epoch'' (cmd_ExecutionEpoch c) @ u64_field ''sequence'' (cmd_Sequence c)
      @ str_field ''actor'' (cmd_Actor c) @ str_field ''content_digest'' (cmd_ContentDigest c)
      @ str_field ''created_at'' (rfc3339 (cmd_CreatedAt c)))"

definition time_opt :: "(gotime \<Rightarrow> string) \<Rightarrow> string \<Rightarrow> gotime option \<Rightarrow> (string \<times> json) list" where
  "time_opt rfc3339 name t = (case t of None \<Rightarrow> [] | Some x \<Rightarrow> str_field name (rfc3339 x))"

definition ControlDelivery_json :: "(gotime \<Rightarrow> string) \<Rightarrow> ControlDelivery \<Rightarrow> json" where
  "ControlDelivery_json rfc3339 d = JObj
     ([(''command'', SteeringCommand_json rfc3339 (cdl_Command d)), (''payload'', ControlPayload_json (cdl_Payload d))]
      @ str_field ''delivery_state'' (cdl_State d) @ time_opt rfc3339 ''dispatched_at'' (cdl_DispatchedAt d)
      @ time_opt rfc3339 ''resolved_at'' (cdl_ResolvedAt d))"

definition delivered_input :: "ControlDelivery \<Rightarrow> ControlInput" where
  "delivered_input d =
     (let c = cdl_Command d; b = cpl_Binding (cdl_Payload d) in
      \<lparr>cin_ID = cmd_ID c, cin_ExecutionEpoch = cmd_ExecutionEpoch c, cin_Sequence = cmd_Sequence c, cin_Actor = cmd_Actor c,
       cin_ThreadID = cbn_ThreadID b, cin_TurnID = cbn_TurnID b, cin_Text = cpl_Text (cdl_Payload d)\<rparr>)"

definition delivery_outcome :: "ControlDelivery \<Rightarrow> err option" where
  "delivery_outcome d =
     (let sent = cdl_DispatchedAt d; done = cdl_ResolvedAt d; kind = cpl_Kind (cdl_Payload d) in
      if cdl_State d = ControlQueued
      then (if sent \<noteq> None \<or> done \<noteq> None then Some (ErrText ''queued command carries outcome'') else None)
      else if cdl_State d = ControlDispatching
      then (if sent = None \<or> done \<noteq> None then Some (ErrText ''invalid dispatch state'') else None)
      else if cdl_State d \<in> {ControlAccepted, ControlInterruptACK, ControlInterrupted, ControlUnknown}
      then (if sent = None \<or> done = None then Some (ErrText ''missing delivery observations'')
            else if cdl_State d = ControlAccepted \<and> kind \<noteq> ControlSteer
                 \<or> cdl_State d \<in> {ControlInterruptACK, ControlInterrupted} \<and> kind \<noteq> ControlInterrupt
            then Some (ErrText ''outcome kind mismatch'') else None)
      else if cdl_State d = ControlNotApplied
      then (if done = None then Some (ErrText ''missing not-applied observation'') else None)
      else Some (ErrText ''invalid delivery outcome''))"

definition ControlDelivery_Validate :: "ControlDelivery \<Rightarrow> err option" where
  "ControlDelivery_Validate d =
     (let c = cdl_Command d; b = cpl_Binding (cdl_Payload d) in
      if ControlBinding_Validate b \<noteq> None \<or> ControlInput_Validate (delivered_input d) (cpl_Kind (cdl_Payload d)) \<noteq> None
         \<or> cmd_RunID c \<noteq> xtok_RunID (cbn_Token b) \<or> cmd_ExecutionEpoch c \<noteq> cbn_ExecutionEpoch b
         \<or> cmd_ContentDigest c \<noteq> Digest (ControlPayload_json (cdl_Payload d)) \<or> IsZero (cmd_CreatedAt c)
      then Some (ErrText ''control payload/authority mismatch'')
      else if (case cdl_DispatchedAt d of None \<Rightarrow> False | Some t \<Rightarrow> IsZero t \<or> t < cmd_CreatedAt c)
      then Some (ErrText ''invalid dispatch observation'')
      else if (case cdl_ResolvedAt d of None \<Rightarrow> False
               | Some t \<Rightarrow> IsZero t \<or> t < cmd_CreatedAt c \<or> (case cdl_DispatchedAt d of None \<Rightarrow> False | Some sent \<Rightarrow> t < sent))
      then Some (ErrText ''invalid resolution observation'')
      else delivery_outcome d)"

record ControlSettlement =
  cst_Binding :: ControlBinding
  cst_ID :: string
  cst_Outcome :: string

section \<open>The sealed transcript\<close>

record ControlClose =
  ccl_Binding :: ControlBinding
  ccl_TurnStatus :: string
  ccl_ProcessScope :: ScopeProof

definition ControlClose_json :: "(gotime \<Rightarrow> string) \<Rightarrow> ControlClose \<Rightarrow> json" where
  "ControlClose_json rfc3339 c = JObj
     ([(''binding'', ControlBinding_json (ccl_Binding c))] @ str_field ''turn_status'' (ccl_TurnStatus c)
      @ [(''process_scope'', ScopeProof_json rfc3339 (ccl_ProcessScope c))])"

definition ControlClose_Validate :: "ControlClose \<Rightarrow> err option" where
  "ControlClose_Validate c =
     (if ControlBinding_Validate (ccl_Binding c) \<noteq> None
         \<or> ccl_ProcessScope c \<noteq> no_scope \<and> ScopeProof_Validate (ccl_ProcessScope c) \<noteq> None
      then Some (ErrText ''invalid closure binding'')
      else if ccl_TurnStatus c \<in> {''completed'', ''interrupted'', ''failed'', ''unknown''} then None
      else Some (ErrText ''invalid terminal turn observation''))"

record ControlTranscript =
  ctr_Version :: int
  ctr_Close :: ControlClose
  ctr_Deliveries :: "ControlDelivery slice"

definition ControlTranscript_json :: "(gotime \<Rightarrow> string) \<Rightarrow> ControlTranscript \<Rightarrow> json" where
  "ControlTranscript_json rfc3339 t = JObj
     (int_field ''version'' (ctr_Version t) @ [(''close'', ControlClose_json rfc3339 (ctr_Close t))]
      @ slice_field ''deliveries'' (ControlDelivery_json rfc3339) (ctr_Deliveries t))"

fun check_deliveries :: "ControlBinding \<Rightarrow> uint64 \<Rightarrow> string set \<Rightarrow> ControlDelivery list \<Rightarrow> bool" where
  "check_deliveries b prev seen [] = True"
| "check_deliveries b prev seen (d # ds) =
     (if ControlDelivery_Validate d \<noteq> None \<or> cpl_Binding (cdl_Payload d) \<noteq> b \<or> cmd_Sequence (cdl_Command d) \<le> prev
         \<or> cmd_ID (cdl_Command d) \<in> seen \<or> cdl_State d = ControlQueued \<or> cdl_State d = ControlDispatching
      then False
      else check_deliveries b (cmd_Sequence (cdl_Command d)) (insert (cmd_ID (cdl_Command d)) seen) ds)"

definition ControlTranscript_Digest :: "(gotime \<Rightarrow> string) \<Rightarrow> ControlTranscript \<Rightarrow> string result" where
  "ControlTranscript_Digest rfc3339 t =
     unless (ctr_Version t \<noteq> 2 \<or> ControlClose_Validate (ctr_Close t) \<noteq> None \<or> length (elems (ctr_Deliveries t)) > MaxControls)
       (ErrText ''invalid control transcript'')
       (unless (\<not> check_deliveries (ccl_Binding (ctr_Close t)) 0 {} (elems (ctr_Deliveries t))) (ErrText ''control transcript drift'')
          (Inr (Digest (ControlTranscript_json rfc3339 t))))"

definition AllowsDelivery :: "(gotime \<Rightarrow> string) \<Rightarrow> ControlTranscript \<Rightarrow> bool" where
  "AllowsDelivery rfc3339 t =
     (case ControlTranscript_Digest rfc3339 t of
        Inl _ \<Rightarrow> False
      | Inr _ \<Rightarrow>
          if ccl_TurnStatus (ctr_Close t) \<noteq> ''completed'' \<or> \<not> Quiescent (ccl_ProcessScope (ctr_Close t)) then False
          else list_all (\<lambda>d. cpl_Kind (cdl_Payload d) = ControlSteer \<and> cdl_State d = ControlAccepted) (elems (ctr_Deliveries t)))"

text \<open>The loop of \<open>Continuable\<close>: every command has a definite fate and an interruption was observed.\<close>

fun continuable_deliveries :: "bool \<Rightarrow> ControlDelivery list \<Rightarrow> bool" where
  "continuable_deliveries interrupted [] = interrupted"
| "continuable_deliveries interrupted (d # ds) =
     (if cdl_State d = ControlAccepted then continuable_deliveries interrupted ds
      else if cdl_State d = ControlInterrupted then continuable_deliveries True ds
      else if cdl_State d = ControlNotApplied
      then (if cdl_DispatchedAt d \<noteq> None then False else continuable_deliveries interrupted ds)
      else False)"

definition Continuable :: "(gotime \<Rightarrow> string) \<Rightarrow> ControlTranscript \<Rightarrow> bool" where
  "Continuable rfc3339 t =
     (case ControlTranscript_Digest rfc3339 t of
        Inl _ \<Rightarrow> False
      | Inr _ \<Rightarrow>
          if ccl_TurnStatus (ctr_Close t) \<noteq> ''interrupted'' \<or> \<not> Quiescent (ccl_ProcessScope (ctr_Close t)) then False
          else continuable_deliveries False (elems (ctr_Deliveries t)))"

record ControlRuntime =
  crt_Binding :: ControlBinding
  crt_State :: string
  crt_Transcript :: "ControlTranscript option"
  crt_Digest :: string

section \<open>Source checkpoints\<close>

record SourceCheckpoint =
  scc_Version :: int
  scc_Binding :: ControlBinding
  scc_TaskDigest :: string
  scc_InputDigest :: string
  scc_BaseCommit :: string
  scc_BaselineDigest :: string
  scc_TranscriptDigest :: string
  scc_SnapshotDigest :: string
  scc_ArchiveDigest :: string
  scc_ArchiveSize :: int

definition SourceCheckpoint_json :: "SourceCheckpoint \<Rightarrow> json" where
  "SourceCheckpoint_json c = JObj
     (int_field ''version'' (scc_Version c) @ [(''binding'', ControlBinding_json (scc_Binding c))]
      @ str_field ''task_contract_digest'' (scc_TaskDigest c) @ str_field ''run_input_manifest_digest'' (scc_InputDigest c)
      @ str_field ''base_commit'' (scc_BaseCommit c) @ str_field ''baseline_source_digest'' (scc_BaselineDigest c)
      @ str_field ''control_transcript_digest'' (scc_TranscriptDigest c) @ str_field ''snapshot_digest'' (scc_SnapshotDigest c)
      @ str_field ''archive_digest'' (scc_ArchiveDigest c) @ int_field ''archive_size'' (scc_ArchiveSize c))"

definition SourceCheckpoint_Validate :: "SourceCheckpoint \<Rightarrow> err option" where
  "SourceCheckpoint_Validate c =
     (if scc_Version c \<noteq> 1 \<or> ControlBinding_Validate (scc_Binding c) \<noteq> None \<or> length (scc_BaseCommit c) \<noteq> 40
         \<or> scc_ArchiveSize c \<le> 0 \<or> scc_ArchiveSize c > MaxSourceCheckpointArchiveSize
      then Some (ErrText ''invalid source checkpoint'')
      else if \<not> list_all is_lower_hex (scc_BaseCommit c) then Some (ErrText ''invalid checkpoint base'')
      else if \<not> list_all ValidDigest [scc_TaskDigest c, scc_InputDigest c, scc_BaselineDigest c, scc_TranscriptDigest c,
                                     scc_SnapshotDigest c, scc_ArchiveDigest c]
      then Some (ErrText ''invalid checkpoint identity'')
      else None)"

definition SourceCheckpoint_Digest :: "SourceCheckpoint \<Rightarrow> string result" where
  "SourceCheckpoint_Digest c = unless_err (SourceCheckpoint_Validate c) (Inr (Digest (SourceCheckpoint_json c)))"

definition SourceCheckpoint_ContinuationRef :: "SourceCheckpoint \<Rightarrow> ContinuationRef result" where
  "SourceCheckpoint_ContinuationRef c =
     (case SourceCheckpoint_Digest c of
        Inl e \<Rightarrow> Inl e
      | Inr d \<Rightarrow> Inr \<lparr>cont_SourceRunID = xtok_RunID (cbn_Token (scc_Binding c)), cont_CheckpointDigest = d,
          cont_ArchiveDigest = scc_ArchiveDigest c, cont_ArchiveSize = scc_ArchiveSize c, cont_SnapshotDigest = scc_SnapshotDigest c\<rparr>)"

section \<open>Finished executions\<close>

record CodexStatus =
  csts_SourceCheckpoint :: "SourceCheckpoint option"
  csts_Runtime :: "ControlRuntime option"
  csts_Token :: ExecToken
  csts_State :: string
  csts_LeaseUntil :: gotime
  csts_Receipt :: "CodexReceipt option"

definition VerifyFinishedControls :: "(gotime \<Rightarrow> string) \<Rightarrow> CodexStatus \<Rightarrow> err option" where
  "VerifyFinishedControls rfc3339 s =
     (case (csts_Receipt s, csts_Runtime s) of
        (Some receipt, Some runtime) \<Rightarrow>
          (case crt_Transcript runtime of
             None \<Rightarrow> Some (ErrText ''finished execution with sealed controls required'')
           | Some t \<Rightarrow>
               if csts_State s \<noteq> Finished \<or> crc_Token receipt \<noteq> csts_Token s \<or> crt_State runtime \<noteq> ''SEALED''
               then Some (ErrText ''finished execution with sealed controls required'')
               else
                 (let codex = crs_Codex (crc_Result receipt) in
                  case ControlTranscript_Digest rfc3339 t of
                    Inl _ \<Rightarrow> Some (ErrText ''finished result/control transcript mismatch'')
                  | Inr digest \<Rightarrow>
                      if \<not> AllowsDelivery rfc3339 t \<or> ccl_Binding (ctr_Close t) \<noteq> crt_Binding runtime
                         \<or> cbn_Token (crt_Binding runtime) \<noteq> csts_Token s \<or> cbn_ThreadID (crt_Binding runtime) \<noteq> eng_ThreadID codex
                         \<or> cbn_TurnID (crt_Binding runtime) \<noteq> eng_TurnID codex
                         \<or> ccl_ProcessScope (ctr_Close t) \<noteq> eng_ProcessScope codex
                         \<or> digest \<noteq> crt_Digest runtime \<or> digest \<noteq> crs_ControlTranscriptDigest (crc_Result receipt)
                      then Some (ErrText ''finished result/control transcript mismatch'')
                      else None))
      | _ \<Rightarrow> Some (ErrText ''finished execution with sealed controls required''))"

end
