(* ===== verification/CodexStore.thy ===== *)
theory CodexStore
  imports CodexControl
begin

text \<open>
  The repository of Codex executions (\<open>store/postgres/codex_store.go\<close>), of their live controls
  (\<open>codex_controls.go\<close>) and source checkpoints (\<open>codex_checkpoint.go\<close>), and the abandonment of
  executions of both lanes in recovery (\<open>execution_reconcile.go\<close>). Leases last 30 seconds and at most 15
  minutes in all.
\<close>

section \<open>Tables\<close>

record runtime_row =
  rtr_execution :: string
  rtr_binding :: "ControlBinding option"
  rtr_state :: string
  rtr_transcript :: "ControlTranscript option option"
  rtr_digest :: "string option"

record control_row =
  ctl_id :: string
  ctl_run_id :: string
  ctl_epoch :: uint64
  ctl_sequence :: uint64
  ctl_actor :: string
  ctl_content :: string
  ctl_created :: gotime
  ctl_execution :: "string option"
  ctl_payload :: "ControlPayload option"
  ctl_state :: string
  ctl_dispatched :: "gotime option"
  ctl_resolved :: "gotime option"

record checkpoint_row =
  ckr_execution :: string
  ckr_json :: "SourceCheckpoint option"
  ckr_digest :: string

record codex_db = "(Profile, OfflineReceipt, CodexProfile, CodexReceipt) exec_db" +
  cdb_runtime :: "runtime_row list"
  cdb_controls :: "control_row list"
  cdb_checkpoints :: "checkpoint_row list"

section \<open>Executions\<close>

definition scanCodex :: "(CodexProfile, CodexReceipt) exec_row option \<Rightarrow> (CodexProfile, CodexReceipt) execution result" where
  "scanCodex = scan_execution CodexProfile_Digest"

definition start_codex :: "string \<Rightarrow> CodexProfile Start \<Rightarrow> string \<Rightarrow> ('z codex_db_scheme, CodexProfile Permit decision) tx" where
  "start_codex subject req pd =
     tx_bind (tx_map_err (\<lambda>_. ErrText ''Codex execution schema version 9 is unavailable'')
                (tx_read (\<lambda>_ s. Inr (9 \<in> set (pdb_schema s))))) (\<lambda>ready.
     tx_guard (\<not> ready) (ErrText ''Codex execution schema version 9 is unavailable'')
     (tx_bind lockWorkerPlatform (\<lambda>(epoch, mode).
      tx_guard (mode \<noteq> ''NORMAL'') ErrRecovery
      (tx_bind (tx_read (\<lambda>_ s. Inr (wdb_workers s subject))) (\<lambda>_.
       tx_bind (tx_read (\<lambda>_ s. Inr (busy subject (edb_codex s) \<or> busy subject (edb_offline s)))) (\<lambda>taken.
       tx_guard taken ErrConflict
       (authorize_execution edb_codex edb_codex_update Codex_CheckAssignment ''worker.codex.authorized'' 30 subject req pd epoch)))))))"

definition StartCodex ::
  "wenv \<Rightarrow> string \<Rightarrow> CodexProfile Start \<Rightarrow> 'z codex_db_scheme \<Rightarrow> CodexProfile Permit result \<times> 'z codex_db_scheme" where
  "StartCodex v subject req s =
     (case CodexProfile_Digest (start_Profile req) of
        Inl _ \<Rightarrow> (Inl ErrIdentity, s)
      | Inr pd \<Rightarrow>
          if subject = [] \<or> start_RunID req = [] \<or> \<not> ValidProfile (start_WorkerProfile req) then (Inl ErrIdentity, s)
          else run_tx (start_codex subject req pd) v s)"

definition lockCodex ::
  "string \<Rightarrow> ExecToken \<Rightarrow> bool \<Rightarrow> ('z codex_db_scheme, (CodexProfile, CodexReceipt) execution \<times> inboxRecord) tx" where
  "lockCodex = lock_execution edb_codex CodexProfile_Digest"

definition RenewCodex :: "wenv \<Rightarrow> string \<Rightarrow> ExecToken \<Rightarrow> 'z codex_db_scheme \<Rightarrow> gotime result \<times> 'z codex_db_scheme" where
  "RenewCodex v subject t s =
     run_tx (renew_execution edb_codex edb_codex_update CodexProfile_Digest ''worker.codex.renewed'' 30 900 subject t) v s"

definition FailCodex :: "wenv \<Rightarrow> string \<Rightarrow> ExecToken \<Rightarrow> 'z codex_db_scheme \<Rightarrow> unit result \<times> 'z codex_db_scheme" where
  "FailCodex v subject t s =
     run_tx (fail_execution edb_codex edb_codex_update CodexProfile_Digest ''worker.codex.unknown'' subject t) v s"

section \<open>The control runtime of an execution\<close>

definition sealed_runtime :: "(gotime \<Rightarrow> string) \<Rightarrow> ControlBinding \<Rightarrow> runtime_row \<Rightarrow> ControlRuntime result" where
  "sealed_runtime rfc3339 b row =
     (case (rtr_transcript row, rtr_digest row) of
        (Some (Some t), Some digest) \<Rightarrow>
          (case ControlTranscript_Digest rfc3339 t of
             Inl _ \<Rightarrow> Inl ErrIdentity
           | Inr actual \<Rightarrow>
               unless (actual \<noteq> digest \<or> ccl_Binding (ctr_Close t) \<noteq> b) ErrIdentity
                 (Inr \<lparr>crt_Binding = b, crt_State = rtr_state row, crt_Transcript = Some t, crt_Digest = actual\<rparr>))
      | _ \<Rightarrow> Inl ErrIdentity)"

definition controlRuntime :: "(gotime \<Rightarrow> string) \<Rightarrow> runtime_row option \<Rightarrow> ControlRuntime result" where
  "controlRuntime rfc3339 found =
     (case found of
        None \<Rightarrow> Inl ErrNotFound
      | Some row \<Rightarrow>
          (case rtr_binding row of
             None \<Rightarrow> Inl ErrIdentity
           | Some b \<Rightarrow>
               unless (ControlBinding_Validate b \<noteq> None) ErrIdentity
                 (if rtr_state row = ''SEALED'' then sealed_runtime rfc3339 b row
                  else unless (rtr_state row \<noteq> ''ACTIVE'' \<or> rtr_transcript row \<noteq> None \<or> rtr_digest row \<noteq> None) ErrIdentity
                         (Inr \<lparr>crt_Binding = b, crt_State = rtr_state row, crt_Transcript = None, crt_Digest = []\<rparr>))))"

definition read_runtime :: "string \<Rightarrow> ('z codex_db_scheme, ControlRuntime) tx" where
  "read_runtime k =
     tx_bind (tx_env we_rfc3339) (\<lambda>rfc3339.
       tx_read (\<lambda>_ s. controlRuntime rfc3339 (find (\<lambda>r. rtr_execution r = k) (cdb_runtime s))))"

definition lockControlRuntime :: "ControlBinding \<Rightarrow> ('z codex_db_scheme, ControlRuntime) tx" where
  "lockControlRuntime b =
     tx_bind (read_runtime (xtok_ID (cbn_Token b))) (\<lambda>r. tx_guard (crt_Binding r \<noteq> b) ErrIdentity (tx_return r))"

definition GetCodexControlRuntime :: "wenv \<Rightarrow> string \<Rightarrow> 'z codex_db_scheme \<Rightarrow> ControlRuntime option result" where
  "GetCodexControlRuntime v runID s =
     (case run_query (tx_read (\<lambda>_ s. controlRuntime (we_rfc3339 v)
              (Option.bind (find (\<lambda>x. exe_run_id x = runID) (edb_codex s)) (\<lambda>x. find (\<lambda>r. rtr_execution r = exe_id x) (cdb_runtime s))))) v s of
        Inl e \<Rightarrow> if errors_Is e ErrNotFound then Inr None else Inl e
      | Inr r \<Rightarrow> Inr (Some r))"

section \<open>Finishing\<close>

text \<open>What the sealed controls must say before a result is delivered.\<close>

definition controls_allow :: "(gotime \<Rightarrow> string) \<Rightarrow> ControlRuntime \<Rightarrow> CodexResult \<Rightarrow> bool" where
  "controls_allow rfc3339 runtime result \<longleftrightarrow>
     (case crt_Transcript runtime of
        None \<Rightarrow> False
      | Some t \<Rightarrow>
          crt_State runtime = ''SEALED'' \<and> crt_Digest runtime = crs_ControlTranscriptDigest result \<and> AllowsDelivery rfc3339 t
          \<and> ccl_ProcessScope (ctr_Close t) = eng_ProcessScope (crs_Codex result)
          \<and> cbn_ThreadID (crt_Binding runtime) = eng_ThreadID (crs_Codex result)
          \<and> cbn_TurnID (crt_Binding runtime) = eng_TurnID (crs_Codex result))"

definition codex_receipt :: "(gotime \<Rightarrow> string) \<Rightarrow> CodexReport \<Rightarrow> string \<Rightarrow> string \<Rightarrow> gotime \<Rightarrow> CodexReceipt" where
  "codex_receipt rfc3339 report subject preparation now =
     \<lparr>crc_Kind = CodexKind, crc_Token = crep_Token report, crc_Worker = subject, crc_PreparationDigest = preparation,
      crc_Result = crep_Result report, crc_ResultDigest = Digest (CodexResult_json rfc3339 (crep_Result report)), crc_ReceivedAt = now\<rparr>"

definition codex_permit ::
  "(CodexProfile, CodexReceipt) execution \<Rightarrow> Assignment \<Rightarrow> PreparationReceipt \<Rightarrow> CodexProfile Permit" where
  "codex_permit row a prep =
     \<lparr>perm_Token = xr_token row, perm_Assignment = a, perm_Preparation = prep, perm_Profile = xr_profile row, perm_LeaseUntil = xr_until row\<rparr>"

definition retained_codex ::
  "(gotime \<Rightarrow> string) \<Rightarrow> string \<Rightarrow> CodexReport \<Rightarrow> CodexReceipt \<Rightarrow> ('z codex_db_scheme, CodexReceipt decision) tx" where
  "retained_codex rfc3339 subject report receipt =
     (let digest = Digest (CodexResult_json rfc3339 (crep_Result report)) in
      tx_guard (Digest (CodexResult_json rfc3339 (crc_Result receipt)) \<noteq> digest \<or> crc_ResultDigest receipt \<noteq> digest
                \<or> crc_Token receipt \<noteq> crep_Token report \<or> crc_Worker receipt \<noteq> subject \<or> crc_Kind receipt \<noteq> CodexKind) ErrIdentity
        (tx_return (Rollback receipt)))"

definition deliver_codex ::
  "(gotime \<Rightarrow> string) \<Rightarrow> string \<Rightarrow> CodexReport \<Rightarrow> string \<Rightarrow> CodexProfile Permit \<Rightarrow> ('z codex_db_scheme, CodexReceipt decision) tx" where
  "deliver_codex rfc3339 subject report preparation permit =
     tx_bind (lockCodex subject (crep_Token report) True) (\<lambda>_.
     tx_bind (tx_read (\<lambda>now _. Inr now)) (\<lambda>now.
       (let receipt = codex_receipt rfc3339 report subject preparation now in
        tx_bind (tx_lift (unless_err (CodexReceipt_Verify rfc3339 receipt subject permit (crep_Result report)) (Inr ()))) (\<lambda>_.
        tx_bind (workerAudit ''worker.codex.finished'' (xtok_RunID (crep_Token report)) (CodexReceipt_json rfc3339 receipt)) (\<lambda>_.
        tx_bind (finish_execution edb_codex edb_codex_update (xtok_ID (crep_Token report)) receipt) (\<lambda>_.
        tx_return (Commit receipt)))))))"

definition finish_codex :: "string \<Rightarrow> CodexReport \<Rightarrow> ('z codex_db_scheme, CodexReceipt decision) tx" where
  "finish_codex subject report =
     tx_bind (lockCodex subject (crep_Token report) False) (\<lambda>(row, inbox).
     tx_bind (loadWorkerAssignment inbox) (\<lambda>a.
     tx_bind (load_preparation a subject inbox) (\<lambda>prep.
     (let permit = codex_permit row a prep in
      tx_guard (CodexResult_Validate (crep_Result report) (xr_profile row) permit \<noteq> None) ErrIdentity
      (tx_bind (tx_map_err (\<lambda>_. ErrIdentity) (read_runtime (xtok_ID (crep_Token report)))) (\<lambda>runtime.
       tx_bind (tx_env we_rfc3339) (\<lambda>rfc3339.
       tx_guard (\<not> controls_allow rfc3339 runtime (crep_Result report)) ErrIdentity
       (case (if xr_state row = Finished then xr_receipt row else None) of
          Some receipt \<Rightarrow> retained_codex rfc3339 subject report receipt
        | None \<Rightarrow> deliver_codex rfc3339 subject report (xr_preparation row) permit))))))))"

definition FinishCodex :: "wenv \<Rightarrow> string \<Rightarrow> CodexReport \<Rightarrow> 'z codex_db_scheme \<Rightarrow> CodexReceipt result \<times> 'z codex_db_scheme" where
  "FinishCodex v subject report s = run_tx (finish_codex subject report) v s"

section \<open>Controls\<close>

definition update_controls :: "(control_row \<Rightarrow> bool) \<Rightarrow> (control_row \<Rightarrow> control_row) \<Rightarrow> 'z codex_db_scheme \<Rightarrow> 'z codex_db_scheme" where
  "update_controls P f s = s\<lparr>cdb_controls := update_rows P f (cdb_controls s)\<rparr>"

definition bind_body :: "string \<Rightarrow> ControlBinding \<Rightarrow> ('z codex_db_scheme, unit decision) tx" where
  "bind_body subject b =
     tx_bind (lockCodex subject (cbn_Token b) True) (\<lambda>(_, inbox).
     tx_guard (cbn_ExecutionEpoch b \<noteq> int_ExecutionEpoch (irec_intent inbox)) ErrIdentity
     (tx_bind (tx_try (read_runtime (xtok_ID (cbn_Token b)))) (\<lambda>old.
      case old of
        Inr r \<Rightarrow> tx_guard (crt_Binding r \<noteq> b \<or> crt_State r \<noteq> ''ACTIVE'') ErrConflict (tx_return (Rollback ()))
      | Inl e \<Rightarrow>
          tx_guard (\<not> errors_Is e ErrNotFound) e
          (tx_bind (tx_write (\<lambda>_ s.
              unless (list_ex (\<lambda>r. rtr_execution r = xtok_ID (cbn_Token b)) (cdb_runtime s)) ErrExists
                (Inr ((), s\<lparr>cdb_runtime := cdb_runtime s @ [\<lparr>rtr_execution = xtok_ID (cbn_Token b), rtr_binding = Some b,
                   rtr_state = ''ACTIVE'', rtr_transcript = None, rtr_digest = None\<rparr>]\<rparr>)))) (\<lambda>_.
           tx_bind (workerAudit ''worker.codex.control-bound'' (xtok_RunID (cbn_Token b)) (ControlBinding_json b)) (\<lambda>_.
           tx_return (Commit ())))))))"

definition BindCodexControl :: "wenv \<Rightarrow> string \<Rightarrow> ControlBinding \<Rightarrow> 'z codex_db_scheme \<Rightarrow> unit result \<times> 'z codex_db_scheme" where
  "BindCodexControl v subject b s =
     (if ControlBinding_Validate b \<noteq> None then (Inl ErrIdentity, s) else run_tx (bind_body subject b) v s)"

definition control_command :: "control_row \<Rightarrow> SteeringCommand" where
  "control_command r =
     \<lparr>cmd_ID = ctl_id r, cmd_RunID = ctl_run_id r, cmd_ExecutionEpoch = ctl_epoch r, cmd_Sequence = ctl_sequence r,
      cmd_Actor = ctl_actor r, cmd_ContentDigest = ctl_content r, cmd_CreatedAt = ctl_created r\<rparr>"

definition scanControl :: "control_row option \<Rightarrow> ControlDelivery result" where
  "scanControl found =
     (case found of
        None \<Rightarrow> Inl ErrNotFound
      | Some r \<Rightarrow>
          (case ctl_payload r of
             None \<Rightarrow> Inl ErrIdentity
           | Some p \<Rightarrow>
               (let d = \<lparr>cdl_Command = control_command r, cdl_Payload = p, cdl_State = ctl_state r,
                         cdl_DispatchedAt = ctl_dispatched r, cdl_ResolvedAt = ctl_resolved r\<rparr> in
                unless (ControlDelivery_Validate d \<noteq> None) ErrIdentity (Inr d))))"

definition find_control :: "string \<Rightarrow> ('z codex_db_scheme, ControlDelivery) tx" where
  "find_control k = tx_read (\<lambda>_ s. scanControl (find (\<lambda>r. ctl_id r = k \<and> ctl_execution r \<noteq> None) (cdb_controls s)))"

definition GetCodexControl :: "wenv \<Rightarrow> string \<Rightarrow> 'z codex_db_scheme \<Rightarrow> ControlDelivery result" where
  "GetCodexControl v k s = run_query (find_control k) v s"

definition matchesControl :: "ControlDelivery \<Rightarrow> string \<Rightarrow> string \<Rightarrow> ControlInput \<Rightarrow> bool" where
  "matchesControl d runID kind i \<longleftrightarrow>
     (let c = cdl_Command d; p = cdl_Payload d; b = cpl_Binding p in
      cmd_RunID c = runID \<and> cmd_ID c = cin_ID i \<and> cmd_ExecutionEpoch c = cin_ExecutionEpoch i \<and> cmd_Sequence c = cin_Sequence i
      \<and> cmd_Actor c = cin_Actor i \<and> cpl_Kind p = kind \<and> cpl_Text p = cin_Text i \<and> cbn_ThreadID b = cin_ThreadID i
      \<and> cbn_TurnID b = cin_TurnID i)"

definition queued_row :: "string \<Rightarrow> string \<Rightarrow> ControlBinding \<Rightarrow> ControlInput \<Rightarrow> gotime \<Rightarrow> control_row" where
  "queued_row runID kind b i now =
     (let p = \<lparr>cpl_Binding = b, cpl_Kind = kind, cpl_Text = cin_Text i\<rparr> in
      \<lparr>ctl_id = cin_ID i, ctl_run_id = runID, ctl_epoch = cin_ExecutionEpoch i, ctl_sequence = cin_Sequence i, ctl_actor = cin_Actor i,
       ctl_content = Digest (ControlPayload_json p), ctl_created = now, ctl_execution = Some (xtok_ID (cbn_Token b)),
       ctl_payload = Some p, ctl_state = ControlQueued, ctl_dispatched = None, ctl_resolved = None\<rparr>)"

definition queued_delivery :: "string \<Rightarrow> string \<Rightarrow> ControlBinding \<Rightarrow> ControlInput \<Rightarrow> gotime \<Rightarrow> ControlDelivery" where
  "queued_delivery runID kind b i now =
     \<lparr>cdl_Command = control_command (queued_row runID kind b i now),
      cdl_Payload = \<lparr>cpl_Binding = b, cpl_Kind = kind, cpl_Text = cin_Text i\<rparr>,
      cdl_State = ControlQueued, cdl_DispatchedAt = None, cdl_ResolvedAt = None\<rparr>"

definition insert_control :: "control_row \<Rightarrow> 'z codex_db_scheme \<Rightarrow> (unit \<times> 'z codex_db_scheme) result" where
  "insert_control r s =
     unless (list_ex (\<lambda>y. ctl_id y = ctl_id r
               \<or> ctl_run_id y = ctl_run_id r \<and> ctl_epoch y = ctl_epoch r \<and> ctl_sequence y = ctl_sequence r) (cdb_controls s)) ErrExists
       (Inr ((), s\<lparr>cdb_controls := cdb_controls s @ [r]\<rparr>))"

definition steer_session :: "string \<Rightarrow> ControlInput \<Rightarrow> 'z codex_db_scheme \<Rightarrow> (unit \<times> 'z codex_db_scheme) result" where
  "steer_session runID i s =
     (case wdb_sessions s runID of
        None \<Rightarrow> Inl ErrConflict
      | Some sess \<Rightarrow>
          unless (\<not> (sess_ExecutionEpoch sess = cin_ExecutionEpoch i \<and> sess_Owner sess = OwnerRuntime \<and> \<not> sess_Paused sess
                    \<and> sess_LastSequence sess < cin_Sequence i)) ErrConflict
            (Inr ((), s\<lparr>wdb_sessions := (wdb_sessions s)(runID \<mapsto> sess\<lparr>sess_LastSequence := cin_Sequence i\<rparr>)\<rparr>)))"

definition bump_run :: "string \<Rightarrow> 'z codex_db_scheme \<Rightarrow> (unit \<times> 'z codex_db_scheme) result" where
  "bump_run runID s =
     Inr ((), case wdb_runs s runID of
        None \<Rightarrow> s
      | Some r \<Rightarrow> s\<lparr>wdb_runs := (wdb_runs s)(runID \<mapsto> r\<lparr>run_Version := run_Version r + 1\<rparr>)\<rparr>)"

definition of_execution :: "string \<Rightarrow> control_row \<Rightarrow> bool" where
  "of_execution k r \<longleftrightarrow> ctl_execution r = Some k"

definition is_interrupt :: "control_row \<Rightarrow> bool" where
  "is_interrupt r \<longleftrightarrow> (case ctl_payload r of None \<Rightarrow> False | Some p \<Rightarrow> cpl_Kind p = ControlInterrupt)"

definition record_control :: "string \<Rightarrow> string \<Rightarrow> ControlBinding \<Rightarrow> ControlInput \<Rightarrow> ('z codex_db_scheme, ControlDelivery decision) tx" where
  "record_control runID kind b i =
     tx_bind (tx_read (\<lambda>now _. Inr now)) (\<lambda>now.
     tx_bind (tx_write (\<lambda>_. insert_control (queued_row runID kind b i now))) (\<lambda>_.
     tx_bind (tx_write (\<lambda>_. steer_session runID i)) (\<lambda>_.
     tx_bind (tx_write (\<lambda>_. bump_run runID)) (\<lambda>_.
     tx_bind (tx_env we_rfc3339) (\<lambda>rfc3339.
     tx_bind (workerAudit ''steering.queued'' runID (ControlDelivery_json rfc3339 (queued_delivery runID kind b i now))) (\<lambda>_.
     tx_return (Commit (queued_delivery runID kind b i now))))))))"

definition queue_new :: "string \<Rightarrow> string \<Rightarrow> ControlInput \<Rightarrow> ('z codex_db_scheme, ControlDelivery decision) tx" where
  "queue_new runID kind i =
     tx_bind (tx_map_err (no_rows ErrNotFound) (tx_read (\<lambda>_ s. scanCodex (find (\<lambda>x. exe_run_id x = runID) (edb_codex s))))) (\<lambda>row.
     tx_bind (lockCodex (xr_worker row) (xr_token row) True) (\<lambda>(_, inbox).
       (let b = \<lparr>cbn_Token = xr_token row, cbn_ExecutionEpoch = cin_ExecutionEpoch i, cbn_ThreadID = cin_ThreadID i, cbn_TurnID = cin_TurnID i\<rparr> in
        tx_bind (lockControlRuntime b) (\<lambda>runtime.
        tx_guard (crt_State runtime \<noteq> ''ACTIVE'' \<or> int_ExecutionEpoch (irec_intent inbox) \<noteq> cin_ExecutionEpoch i) ErrConflict
        (tx_bind (tx_read (\<lambda>_ s.
            (let rows = filter (of_execution (xtok_ID (xr_token row))) (cdb_controls s) in Inr (length rows, list_ex is_interrupt rows))))
           (\<lambda>(count, stopping).
         tx_guard (count \<ge> MaxControls \<or> kind = ControlSteer \<and> count \<ge> MaxControls - 1 \<or> stopping) ErrConflict
           (record_control runID kind b i)))))))"

definition queue_body :: "string \<Rightarrow> string \<Rightarrow> ControlInput \<Rightarrow> ('z codex_db_scheme, ControlDelivery decision) tx" where
  "queue_body runID kind i =
     tx_bind (tx_try (find_control (cin_ID i))) (\<lambda>old.
     case old of
       Inr d \<Rightarrow> tx_guard (\<not> matchesControl d runID kind i) ErrConflict (tx_return (Rollback d))
     | Inl e \<Rightarrow> tx_guard (\<not> errors_Is e ErrNotFound) e (queue_new runID kind i))"

definition QueueCodexControl ::
  "wenv \<Rightarrow> string \<Rightarrow> string \<Rightarrow> ControlInput \<Rightarrow> 'z codex_db_scheme \<Rightarrow> ControlDelivery result \<times> 'z codex_db_scheme" where
  "QueueCodexControl v runID kind i s =
     (if ControlInput_Validate i kind \<noteq> None then (Inl ErrIdentity, s) else run_tx (queue_body runID kind i) v s)"

definition pending_control :: "control_row \<Rightarrow> bool" where
  "pending_control r \<longleftrightarrow> ctl_state r \<in> {ControlDispatching, ControlInterruptACK, ControlUnknown}"

definition next_queued :: "string \<Rightarrow> control_row list \<Rightarrow> control_row option" where
  "next_queued k rows =
     (case sort_key ctl_sequence (filter (\<lambda>r. of_execution k r \<and> ctl_state r = ControlQueued) rows) of [] \<Rightarrow> None | r # _ \<Rightarrow> Some r)"

definition dispatched_row :: "gotime \<Rightarrow> control_row \<Rightarrow> control_row" where
  "dispatched_row now r = r\<lparr>ctl_state := ControlDispatching, ctl_dispatched := Some now\<rparr>"

definition settled_control :: "string \<Rightarrow> gotime \<Rightarrow> control_row \<Rightarrow> control_row" where
  "settled_control outcome now r = r\<lparr>ctl_state := outcome, ctl_resolved := Some now\<rparr>"

text \<open>\<open>UPDATE ... WHERE steering_command_id=$1 RETURNING ...\<close>\<close>

definition update_control :: "string \<Rightarrow> (gotime \<Rightarrow> control_row \<Rightarrow> control_row) \<Rightarrow> ('z codex_db_scheme, ControlDelivery) tx" where
  "update_control k f =
     tx_write (\<lambda>now s.
       (case scanControl (map_option (f now) (find (\<lambda>r. ctl_id r = k) (cdb_controls s))) of
          Inl e \<Rightarrow> Inl e
        | Inr d \<Rightarrow> Inr (d, update_controls (\<lambda>r. ctl_id r = k) (f now) s)))"

definition dispatch_control :: "ControlBinding \<Rightarrow> ControlDelivery \<Rightarrow> ('z codex_db_scheme, ControlDelivery option decision) tx" where
  "dispatch_control b d0 =
     tx_bind (update_control (cmd_ID (cdl_Command d0)) dispatched_row) (\<lambda>d.
     tx_bind (tx_env we_rfc3339) (\<lambda>rfc3339.
     tx_bind (workerAudit ''steering.dispatching'' (xtok_RunID (cbn_Token b)) (ControlDelivery_json rfc3339 d)) (\<lambda>_.
     tx_return (Commit (Some d)))))"

definition claim_control :: "string \<Rightarrow> ControlBinding \<Rightarrow> ('z codex_db_scheme, ControlDelivery option decision) tx" where
  "claim_control subject b =
     tx_bind (lockCodex subject (cbn_Token b) True) (\<lambda>_.
     tx_bind (lockControlRuntime b) (\<lambda>runtime.
     tx_guard (crt_State runtime \<noteq> ''ACTIVE'') ErrConflict
     (tx_bind (tx_read (\<lambda>_ s. Inr (list_ex (\<lambda>r. of_execution (xtok_ID (cbn_Token b)) r \<and> pending_control r) (cdb_controls s)))) (\<lambda>pending.
      tx_guard pending ErrConflict
      (tx_bind (tx_try (tx_read (\<lambda>_ s. scanControl (next_queued (xtok_ID (cbn_Token b)) (cdb_controls s))))) (\<lambda>found.
       case found of
         Inl e \<Rightarrow> if errors_Is e ErrNotFound then tx_return (Rollback None) else tx_fail e
       | Inr d \<Rightarrow> dispatch_control b d))))))"

definition ClaimCodexControl ::
  "wenv \<Rightarrow> string \<Rightarrow> ControlBinding \<Rightarrow> 'z codex_db_scheme \<Rightarrow> ControlDelivery option result \<times> 'z codex_db_scheme" where
  "ClaimCodexControl v subject b s = run_tx (claim_control subject b) v s"

definition outcome_allowed :: "string \<Rightarrow> string \<Rightarrow> bool" where
  "outcome_allowed outcome kind \<longleftrightarrow>
     outcome = ControlNotApplied \<or> outcome = ControlUnknown \<or> outcome = ControlAccepted \<and> kind = ControlSteer
     \<or> outcome = ControlInterruptACK \<and> kind = ControlInterrupt"

definition settle_control :: "string \<Rightarrow> ControlSettlement \<Rightarrow> ('z codex_db_scheme, ControlDelivery decision) tx" where
  "settle_control subject r =
     (let k = xtok_ID (cbn_Token (cst_Binding r)) in
      tx_bind (lockCodex subject (cbn_Token (cst_Binding r)) False) (\<lambda>_.
      tx_bind (lockControlRuntime (cst_Binding r)) (\<lambda>runtime.
      tx_bind (tx_read (\<lambda>_ s. scanControl (find (\<lambda>y. ctl_id y = cst_ID r \<and> of_execution k y) (cdb_controls s)))) (\<lambda>d0.
      tx_guard (cpl_Binding (cdl_Payload d0) \<noteq> cst_Binding r) ErrIdentity
      (tx_guard (\<not> outcome_allowed (cst_Outcome r) (cpl_Kind (cdl_Payload d0))) ErrIdentity
      (if cdl_State d0 = cst_Outcome r then tx_return (Rollback d0)
       else
         tx_guard (crt_State runtime \<noteq> ''ACTIVE'' \<or> cdl_State d0 \<noteq> ControlDispatching) ErrConflict
         (tx_bind (update_control (cst_ID r) (settled_control (cst_Outcome r))) (\<lambda>d.
          tx_bind (tx_env we_rfc3339) (\<lambda>rfc3339.
          tx_bind (workerAudit ''steering.observed'' (xtok_RunID (cbn_Token (cst_Binding r))) (ControlDelivery_json rfc3339 d)) (\<lambda>_.
          tx_return (Commit d)))))))))))"

definition SettleCodexControl ::
  "wenv \<Rightarrow> string \<Rightarrow> ControlSettlement \<Rightarrow> 'z codex_db_scheme \<Rightarrow> ControlDelivery result \<times> 'z codex_db_scheme" where
  "SettleCodexControl v subject r s = run_tx (settle_control subject r) v s"

section \<open>Sealing\<close>

definition open_control :: "string \<Rightarrow> control_row \<Rightarrow> bool" where
  "open_control k r \<longleftrightarrow> of_execution k r \<and> ctl_state r \<in> {ControlQueued, ControlDispatching, ControlInterruptACK}"

definition closed_row :: "string \<Rightarrow> gotime \<Rightarrow> control_row \<Rightarrow> control_row" where
  "closed_row status now r =
     r\<lparr>ctl_state := (if ctl_state r = ControlQueued then ControlNotApplied
                     else if ctl_state r = ControlDispatching then ControlUnknown
                     else if ctl_state r = ControlInterruptACK \<and> status = ''interrupted'' then ControlInterrupted
                     else ctl_state r),
        ctl_resolved := Some now\<rparr>"

fun scan_controls :: "control_row list \<Rightarrow> ControlDelivery list result" where
  "scan_controls [] = Inr []"
| "scan_controls (r # rs) =
     (case scanControl (Some r) of
        Inl e \<Rightarrow> Inl e
      | Inr d \<Rightarrow> (case scan_controls rs of Inl e \<Rightarrow> Inl e | Inr ds \<Rightarrow> Inr (d # ds)))"

definition seal_row :: "ControlTranscript \<Rightarrow> string \<Rightarrow> runtime_row \<Rightarrow> runtime_row" where
  "seal_row t digest r = r\<lparr>rtr_state := ''SEALED'', rtr_transcript := Some (Some t), rtr_digest := Some digest\<rparr>"

definition seal_controls :: "ControlClose \<Rightarrow> ('z codex_db_scheme, ControlTranscript decision) tx" where
  "seal_controls c =
     (let k = xtok_ID (cbn_Token (ccl_Binding c)) in
      tx_bind (tx_write (\<lambda>now s. Inr ((), update_controls (open_control k) (closed_row (ccl_TurnStatus c) now) s))) (\<lambda>_.
      tx_bind (tx_read (\<lambda>_ s. scan_controls (sort_key ctl_sequence (filter (of_execution k) (cdb_controls s))))) (\<lambda>ds.
      tx_bind (tx_env we_rfc3339) (\<lambda>rfc3339.
        (let t = \<lparr>ctr_Version = 2, ctr_Close = c, ctr_Deliveries = Slice ds\<rparr> in
         tx_bind (tx_lift (ControlTranscript_Digest rfc3339 t)) (\<lambda>digest.
         tx_bind (tx_write (\<lambda>_ s. Inr ((), s\<lparr>cdb_runtime := update_rows (\<lambda>r. rtr_execution r = k) (seal_row t digest) (cdb_runtime s)\<rparr>))) (\<lambda>_.
         tx_bind (workerAudit ''worker.codex.controls-sealed'' (xtok_RunID (cbn_Token (ccl_Binding c))) (ControlTranscript_json rfc3339 t)) (\<lambda>_.
         tx_return (Commit t)))))))))"

definition close_control :: "string \<Rightarrow> ControlClose \<Rightarrow> ('z codex_db_scheme, ControlTranscript decision) tx" where
  "close_control subject c =
     tx_bind (lockCodex subject (cbn_Token (ccl_Binding c)) False) (\<lambda>_.
     tx_bind (lockControlRuntime (ccl_Binding c)) (\<lambda>runtime.
     case (if crt_State runtime = ''SEALED'' then crt_Transcript runtime else None) of
       Some t \<Rightarrow> tx_guard (ctr_Close t \<noteq> c) ErrConflict (tx_return (Rollback t))
     | None \<Rightarrow> seal_controls c))"

definition CloseCodexControl ::
  "wenv \<Rightarrow> string \<Rightarrow> ControlClose \<Rightarrow> 'z codex_db_scheme \<Rightarrow> ControlTranscript result \<times> 'z codex_db_scheme" where
  "CloseCodexControl v subject c s =
     (if ControlClose_Validate c \<noteq> None then (Inl ErrIdentity, s) else run_tx (close_control subject c) v s)"

section \<open>Source checkpoints\<close>

definition checkpointRow :: "checkpoint_row option \<Rightarrow> SourceCheckpoint option result" where
  "checkpointRow found =
     (case found of
        None \<Rightarrow> Inr None
      | Some r \<Rightarrow>
          (case ckr_json r of
             None \<Rightarrow> Inl ErrIdentity
           | Some c \<Rightarrow> unless (SourceCheckpoint_Digest c \<noteq> Inr (ckr_digest r)) ErrIdentity (Inr (Some c))))"

definition read_checkpoint :: "string \<Rightarrow> ('z codex_db_scheme, SourceCheckpoint option) tx" where
  "read_checkpoint k = tx_read (\<lambda>_ s. checkpointRow (find (\<lambda>r. ckr_execution r = k) (cdb_checkpoints s)))"

definition retain_checkpoint :: "SourceCheckpoint \<Rightarrow> string \<Rightarrow> ('z codex_db_scheme, SourceCheckpoint decision) tx" where
  "retain_checkpoint c digest =
     (let k = xtok_ID (cbn_Token (scc_Binding c)) in
      tx_bind (read_checkpoint k) (\<lambda>old.
      case old of
        Some c' \<Rightarrow> tx_guard (c' \<noteq> c) ErrConflict (tx_return (Rollback c'))
      | None \<Rightarrow>
          tx_bind (tx_write (\<lambda>_ s.
             unless (list_ex (\<lambda>r. ckr_execution r = k) (cdb_checkpoints s)) ErrExists
               (Inr ((), s\<lparr>cdb_checkpoints := cdb_checkpoints s @ [\<lparr>ckr_execution = k, ckr_json = Some c, ckr_digest = digest\<rparr>]\<rparr>)))) (\<lambda>_.
          tx_bind (workerAudit ''worker.codex.source-checkpoint-retained'' (xtok_RunID (cbn_Token (scc_Binding c))) (SourceCheckpoint_json c)) (\<lambda>_.
          tx_return (Commit c)))))"

definition checkpoint_body :: "string \<Rightarrow> SourceCheckpoint \<Rightarrow> string \<Rightarrow> ('z codex_db_scheme, SourceCheckpoint decision) tx" where
  "checkpoint_body subject c digest =
     tx_bind (lockCodex subject (cbn_Token (scc_Binding c)) False) (\<lambda>(row, inbox).
     tx_bind (lockControlRuntime (scc_Binding c)) (\<lambda>runtime.
       (let intent = irec_intent inbox in
        tx_guard (crt_State runtime \<noteq> ''SEALED''
                  \<or> (case crt_Transcript runtime of None \<Rightarrow> True | Some t \<Rightarrow> \<not> Quiescent (ccl_ProcessScope (ctr_Close t)))
                  \<or> crt_Digest runtime \<noteq> scc_TranscriptDigest c \<or> cbn_ExecutionEpoch (scc_Binding c) \<noteq> int_ExecutionEpoch intent
                  \<or> scc_TaskDigest c \<noteq> int_TaskDigest intent \<or> scc_InputDigest c \<noteq> int_InputDigest intent) ErrIdentity
        (tx_bind (loadWorkerAssignment inbox) (\<lambda>a.
         tx_bind (load_preparation a subject inbox) (\<lambda>prep.
         tx_guard (scc_BaseCommit c \<noteq> fct_BaseCommit (prc_Facts prep) \<or> scc_BaselineDigest c \<noteq> fct_SourceDigest (prc_Facts prep)
                   \<or> xr_preparation row \<noteq> prc_FactsDigest prep) ErrIdentity
           (retain_checkpoint c digest)))))))"

definition SaveCodexCheckpoint ::
  "wenv \<Rightarrow> string \<Rightarrow> SourceCheckpoint \<Rightarrow> 'z codex_db_scheme \<Rightarrow> SourceCheckpoint result \<times> 'z codex_db_scheme" where
  "SaveCodexCheckpoint v subject c s =
     (case SourceCheckpoint_Digest c of Inl e \<Rightarrow> (Inl e, s) | Inr digest \<Rightarrow> run_tx (checkpoint_body subject c digest) v s)"

definition getCodexCheckpoint :: "wenv \<Rightarrow> string \<Rightarrow> 'z codex_db_scheme \<Rightarrow> SourceCheckpoint option result" where
  "getCodexCheckpoint v k s = run_query (read_checkpoint k) v s"

section \<open>Reading an execution\<close>

text \<open>Four queries outside any transaction, which may see different databases.\<close>

definition checkpoint_fits :: "ExecToken \<Rightarrow> ControlRuntime option \<Rightarrow> SourceCheckpoint \<Rightarrow> bool" where
  "checkpoint_fits t runtime c \<longleftrightarrow>
     cbn_Token (scc_Binding c) = t
     \<and> (case runtime of
          None \<Rightarrow> False
        | Some r \<Rightarrow> crt_State r = ''SEALED'' \<and> crt_Binding r = scc_Binding c \<and> crt_Digest r = scc_TranscriptDigest c
            \<and> (case crt_Transcript r of None \<Rightarrow> False | Some tr \<Rightarrow> Quiescent (ccl_ProcessScope (ctr_Close tr))))"

definition GetCodex ::
  "wenv \<Rightarrow> string \<Rightarrow> 'z codex_db_scheme \<Rightarrow> 'z codex_db_scheme \<Rightarrow> 'z codex_db_scheme \<Rightarrow> 'z codex_db_scheme \<Rightarrow> CodexStatus result" where
  "GetCodex v runID s s2 s3 s4 =
     rbind (run_query (tx_map_err (no_rows ErrNotFound)
              (tx_read (\<lambda>_ s. scanCodex (find (\<lambda>x. exe_run_id x = runID) (edb_codex s))))) v s) (\<lambda>row.
     rbind (if xr_state row = Authorized
            then rbind (run_query (tx_read (\<lambda>now s. select_where (\<lambda>x. exe_run_id x = runID) (\<lambda>x. exe_until x \<le> now) (edb_codex s))) v s2)
                   (\<lambda>expired. Inr (if expired then ''EXPIRED_UNRECONCILED'' else xr_state row))
            else Inr (xr_state row)) (\<lambda>state.
     rbind (GetCodexControlRuntime v runID s3) (\<lambda>runtime.
     rbind (getCodexCheckpoint v (xtok_ID (xr_token row)) s4) (\<lambda>checkpoint.
     unless (case checkpoint of None \<Rightarrow> False | Some c \<Rightarrow> \<not> checkpoint_fits (xr_token row) runtime c) ErrIdentity
       (Inr \<lparr>csts_SourceCheckpoint = checkpoint, csts_Runtime = runtime, csts_Token = xr_token row, csts_State = state,
             csts_LeaseUntil = xr_until row, csts_Receipt = xr_receipt row\<rparr>)))))"

section \<open>Abandoning an execution in recovery\<close>

definition reconcile_body :: "string \<Rightarrow> ExecutionAbandonRequest \<Rightarrow> ('z codex_db_scheme, ExecutionAbandonReceipt decision) tx" where
  "reconcile_body reconciler request =
     tx_bind (tx_read (\<lambda>_ s. Inr (db_recovery_epoch (wdb_outbox s), db_recovery_mode (wdb_outbox s)))) (\<lambda>(epoch, mode).
     tx_guard (epoch \<noteq> xar_RecoveryEpoch request) RecoveryErrStaleEpoch
     (tx_guard (mode \<noteq> ''RECOVERY_RECONCILIATION'') RecoveryErrReconciliationRequired
     (if xar_ExecutionKind request = ''OFFLINE''
      then abandon_execution edb_offline edb_offline_update Profile_Digest edb_deliveries reconciler request
      else if xar_ExecutionKind request = ''CODEX''
      then abandon_execution edb_codex edb_codex_update CodexProfile_Digest edb_deliveries reconciler request
      else tx_fail (ErrText ''unsupported execution reconciliation kind''))))"

definition ReconcileExecutionAbandoned ::
  "wenv \<Rightarrow> string \<Rightarrow> ExecutionAbandonRequest \<Rightarrow> 'z codex_db_scheme \<Rightarrow> ExecutionAbandonReceipt result \<times> 'z codex_db_scheme" where
  "ReconcileExecutionAbandoned v reconciler request s =
     (if ExecutionAbandonRequest_Validate request \<noteq> None \<or> reconciler = []
      then (Inl (ErrText ''valid recovery execution reconciliation required''), s)
      else run_tx (reconcile_body reconciler request) v s)"

end
