(* ===== verification/CodexLane.thy ===== *)
theory CodexLane
  imports CodexStore
begin

text \<open>
  What the operations on Codex executions do: the lane is an instance of the laws of reservations,
  and a result is delivered only with the sealed controls of a quiescent, completed turn.
\<close>

section \<open>The lane\<close>

interpretation codex: execution_lane "edb_codex :: 'z codex_db_scheme \<Rightarrow> _" edb_codex_update CodexProfile_Digest 900
proof
  fix s s' :: "'z codex_db_scheme" and f
  show "edb_codex (edb_codex_update f s) = f (edb_codex s)" by simp
  show "worker_db.truncate (edb_codex_update f s) = worker_db.truncate s" by (simp add: worker_db.defs)
  show "pdb_preparations (edb_codex_update f s) = pdb_preparations s" by simp
  show "same_extension s s' \<Longrightarrow> edb_codex s' = edb_codex s" by (cases s; cases s') (simp add: same_extension_def)
qed

lemma start_codex_effect:
  assumes "start_codex subject req pd v n s = (Inr d, n', s')" and "subject \<noteq> []"
  shows "\<exists>permit i k. d = Commit permit \<and> db_recovery_mode (wdb_outbox s) = ''NORMAL'' \<and> 9 \<in> set (pdb_schema s)
     \<and> \<not> busy subject (edb_codex s) \<and> \<not> busy subject (edb_offline s)
     \<and> authorizes edb_codex edb_codex_update Codex_CheckAssignment ''worker.codex.authorized'' 30 subject req pd
          (db_recovery_epoch (wdb_outbox s)) (we_nonce v) (we_clock v k) i permit s s'"
proof -
  from assms(1) obtain m where eff: "db_recovery_mode (wdb_outbox s) = ''NORMAL''" "9 \<in> set (pdb_schema s)"
    "\<not> busy subject (edb_codex s)" "\<not> busy subject (edb_offline s)"
    and auth: "authorize_execution edb_codex edb_codex_update Codex_CheckAssignment ''worker.codex.authorized'' 30 subject req pd
        (db_recovery_epoch (wdb_outbox s)) v m s = (Inr d, n', s')"
    unfolding start_codex_def by (auto simp: lockWorkerPlatform_effect)
  from codex.authorize_effect [OF auth assms(2)] eff show ?thesis by blast
qed

lemma StartCodex_cases:
  assumes "StartCodex v subject req s = (answer, s')"
  obtains "s' = s"
    | permit i k pd where "CodexProfile_Digest (start_Profile req) = Inr pd" "subject \<noteq> []" "9 \<in> set (pdb_schema s)"
      "\<not> busy subject (edb_codex s)" "\<not> busy subject (edb_offline s)"
      "authorizes edb_codex edb_codex_update Codex_CheckAssignment ''worker.codex.authorized'' 30 subject req pd
          (db_recovery_epoch (wdb_outbox s)) (we_nonce v) (we_clock v k) i permit s s'"
proof (cases "s' = s")
  case False
  with assms obtain pd where pd: "CodexProfile_Digest (start_Profile req) = Inr pd" "subject \<noteq> []"
    and run: "run_tx (start_codex subject req pd) v s = (answer, s')" by (auto simp: StartCodex_def split: sum.splits if_splits)
  from run_tx_cases [OF run] False obtain permit n where "start_codex subject req pd v 1 s = (Inr (Commit permit), n, s')" by auto
  from start_codex_effect [OF this pd(2)] pd that(2) show thesis by blast
qed (use that(1) in blast)

section \<open>Delivery\<close>

lemma read_only_runtime [intro!]: "read_only (read_runtime k)"
  unfolding read_runtime_def by auto

lemma read_runtime_Inr:
  "read_runtime k v n s = (Inr r, n', s') \<longleftrightarrow>
     we_ctx v n = None \<and> n' = Suc n \<and> s' = s
     \<and> controlRuntime (we_rfc3339 v) (find (\<lambda>r. rtr_execution r = k) (cdb_runtime s)) = Inr r"
  by (auto simp: read_runtime_def)

lemma controlRuntime_Inr:
  "controlRuntime rfc3339 found = Inr r \<longleftrightarrow>
     (\<exists>row b. found = Some row \<and> rtr_binding row = Some b \<and> ControlBinding_Validate b = None \<and> crt_Binding r = b
        \<and> crt_State r = rtr_state row
        \<and> (rtr_state row = ''SEALED'' \<and> (\<exists>t digest. rtr_transcript row = Some (Some t) \<and> rtr_digest row = Some digest
              \<and> ControlTranscript_Digest rfc3339 t = Inr digest \<and> ccl_Binding (ctr_Close t) = b
              \<and> crt_Transcript r = Some t \<and> crt_Digest r = digest)
           \<or> rtr_state row = ''ACTIVE'' \<and> rtr_transcript row = None \<and> rtr_digest row = None
              \<and> crt_Transcript r = None \<and> crt_Digest r = []))"
  (is "?l \<longleftrightarrow> ?r")
proof
  assume ?l
  then show ?r by (auto simp: controlRuntime_def sealed_runtime_def split: option.splits sum.splits if_splits)
next
  assume ?r
  then show ?l by (auto simp: controlRuntime_def sealed_runtime_def intro!: ControlRuntime.equality)
qed

definition delivers :: "(gotime \<Rightarrow> string) \<Rightarrow> string \<Rightarrow> CodexReport \<Rightarrow> (CodexProfile, CodexReceipt) exec_row \<Rightarrow> CodexReceipt
   \<Rightarrow> 'z codex_db_scheme \<Rightarrow> 'z codex_db_scheme \<Rightarrow> bool" where
  "delivers rfc3339 subject report x receipt s s' \<longleftrightarrow>
     (\<exists>now. receipt = codex_receipt rfc3339 report subject (exe_preparation x) now)
     \<and> (\<exists>s1 payload v n u n'. audited ''worker.codex.finished'' (xtok_RunID (crep_Token report)) payload s s1
          \<and> finish_execution edb_codex edb_codex_update (xtok_ID (crep_Token report)) receipt v n s1 = (Inr u, n', s'))"

lemma deliver_codex_effect:
  assumes "deliver_codex rfc3339 subject report preparation permit v n s = (Inr d, n', s')"
    and "lane_ok CodexProfile_Digest 900 (edb_codex s)" and "holds_execution edb_codex wdb_inbox subject (crep_Token report) s x i"
    and "preparation = exe_preparation x"
  shows "\<exists>receipt. d = Commit receipt \<and> authority_throughout v s (crep_Token report) x i \<and> delivers rfc3339 subject report x receipt s s'"
proof -
  from assms(1) obtain row inbox n1 s1 ev n2 s2 u n3 where
      l: "lockCodex subject (crep_Token report) True v n s = (Inr (row, inbox), n1, s1)"
    and log: "workerAudit ''worker.codex.finished'' (xtok_RunID (crep_Token report))
        (CodexReceipt_json rfc3339 (codex_receipt rfc3339 report subject preparation (we_clock v n1))) v (Suc n1) s1 = (Inr ev, n2, s2)"
    and fin: "finish_execution edb_codex edb_codex_update (xtok_ID (crep_Token report))
        (codex_receipt rfc3339 report subject preparation (we_clock v n1)) v n2 s2 = (Inr u, n3, s')"
    and d: "d = Commit (codex_receipt rfc3339 report subject preparation (we_clock v n1))"
    unfolding deliver_codex_def Let_def by auto
  from codex.lock_live [OF l [unfolded lockCodex_def] assms(2)] obtain x2 i2 j where s1: "s1 = s"
    and h: "holds_execution edb_codex wdb_inbox subject (crep_Token report) s x2 i2"
    and live: "live_authority (we_clock v j) s (crep_Token report) x2 i2" "j < n1" by blast
  from h assms(3) have "x2 = x" "i2 = i" by (simp_all add: holds_execution_def)
  with live have live1: "live_authority (we_clock v j) s (crep_Token report) x i" by simp
  from workerAudit_audited [OF log] s1
  have aud: "audited ''worker.codex.finished'' (xtok_RunID (crep_Token report))
      (CodexReceipt_json rfc3339 (codex_receipt rfc3339 report subject preparation (we_clock v n1))) s s2" by simp
  have later: "j < n2" using live(2) log by (simp add: workerAudit_effect)
  from codex.finish_throughout [OF aud fin assms(2,3) live1 later] aud fin d assms(4) show ?thesis unfolding delivers_def by blast
qed

definition vouched :: "(gotime \<Rightarrow> string) \<Rightarrow> CodexReport \<Rightarrow> (CodexProfile, CodexReceipt) exec_row \<Rightarrow> ControlTranscript \<Rightarrow> 'z codex_db_scheme \<Rightarrow> bool" where
  "vouched rfc3339 report x t s \<longleftrightarrow>
     (\<exists>rt \<in> set (cdb_runtime s). rtr_execution rt = xtok_ID (crep_Token report) \<and> rtr_state rt = ''SEALED'' \<and> rtr_transcript rt = Some (Some t))
     \<and> ControlTranscript_Digest rfc3339 t = Inr (crs_ControlTranscriptDigest (crep_Result report)) \<and> AllowsDelivery rfc3339 t
     \<and> ccl_ProcessScope (ctr_Close t) = eng_ProcessScope (crs_Codex (crep_Result report))
     \<and> (\<exists>a prep p. exe_profile x = Some p \<and> Preparation_Verify a prep (prc_Facts prep) (exe_worker x) = None
          \<and> PromptIdentityDigest a prep = Inr (crs_PromptIdentityDigest (crep_Result report))
          \<and> eng_Provider (crs_Codex (crep_Result report)) = cpf_Provider p \<and> eng_Model (crs_Codex (crep_Result report)) = cpf_Model p
          \<and> change_matches (crs_Change (crep_Result report)) (prc_Facts prep))"

lemma controls_vouch:
  assumes "controlRuntime rfc3339 (find (\<lambda>r. rtr_execution r = k) (cdb_runtime s)) = Inr runtime"
    and "controls_allow rfc3339 runtime result"
  shows "\<exists>rt t. rt \<in> set (cdb_runtime s) \<and> rtr_execution rt = k \<and> rtr_state rt = ''SEALED'' \<and> rtr_transcript rt = Some (Some t)
     \<and> ControlTranscript_Digest rfc3339 t = Inr (crs_ControlTranscriptDigest result) \<and> AllowsDelivery rfc3339 t
     \<and> ccl_ProcessScope (ctr_Close t) = eng_ProcessScope (crs_Codex result)"
proof -
  from assms(2) obtain t where t: "crt_Transcript runtime = Some t" "crt_State runtime = ''SEALED''"
    "crt_Digest runtime = crs_ControlTranscriptDigest result" "AllowsDelivery rfc3339 t"
    "ccl_ProcessScope (ctr_Close t) = eng_ProcessScope (crs_Codex result)" by (auto simp: controls_allow_def split: option.splits)
  from assms(1) obtain row where row: "find (\<lambda>r. rtr_execution r = k) (cdb_runtime s) = Some row" "rtr_state row = ''SEALED''"
    "rtr_transcript row = Some (Some t)" "ControlTranscript_Digest rfc3339 t = Inr (crs_ControlTranscriptDigest result)"
    using t(1,2,3) unfolding controlRuntime_Inr by auto
  from find_member [OF row(1)] row t show ?thesis by blast
qed

lemma finish_codex_effect:
  assumes "finish_codex subject report v n s = (Inr d, n', s')" and "lane_ok CodexProfile_Digest 900 (edb_codex s)"
  shows "\<exists>x i t. holds_execution edb_codex wdb_inbox subject (crep_Token report) s x i \<and> vouched (we_rfc3339 v) report x t s
     \<and> ((\<exists>receipt. d = Rollback receipt \<and> s' = s \<and> exe_receipt x = Some (Some receipt))
        \<or> (\<exists>receipt. d = Commit receipt \<and> authority_throughout v s (crep_Token report) x i
             \<and> delivers (we_rfc3339 v) subject report x receipt s s'))"
proof -
  from assms(1) obtain row inbox n1 s1 a n2 s2 prep n3 s3 runtime n4 s4 where
      l: "lockCodex subject (crep_Token report) False v n s = (Inr (row, inbox), n1, s1)"
    and load: "loadWorkerAssignment inbox v n1 s1 = (Inr a, n2, s2)"
    and prep: "load_preparation a subject inbox v n2 s2 = (Inr prep, n3, s3)"
    and val: "CodexResult_Validate (crep_Result report) (xr_profile row) (codex_permit row a prep) = None"
    and rt: "read_runtime (xtok_ID (crep_Token report)) v n3 s3 = (Inr runtime, n4, s4)"
    and ok: "controls_allow (we_rfc3339 v) runtime (crep_Result report)"
    and rest: "(case (if xr_state row = Finished then xr_receipt row else None) of
          Some receipt \<Rightarrow> retained_codex (we_rfc3339 v) subject report receipt
        | None \<Rightarrow> deliver_codex (we_rfc3339 v) subject report (xr_preparation row) (codex_permit row a prep)) v n4 s4 = (Inr d, n', s')"
    unfolding finish_codex_def Let_def by auto
  from codex.lock_effect [OF l [unfolded lockCodex_def]] obtain x i where s1: "s1 = s"
    and h: "holds_execution edb_codex wdb_inbox subject (crep_Token report) s x i" and sc: "exec_scanned CodexProfile_Digest x row" by blast
  have same: "s2 = s" "s3 = s" "s4 = s"
    using read_onlyD [OF read_only_worker(3) load] prep rt s1 by (auto simp: load_preparation_Inr read_runtime_Inr)
  from sc have p: "exe_profile x = Some (xr_profile row)" "xr_preparation row = exe_preparation x" "exe_state x = xr_state row"
    "exe_receipt x = map_option Some (xr_receipt row)" by (simp_all add: exec_scanned_def)
  from h have w: "exe_worker x = subject" by (simp add: holds_execution_def)
  from controls_vouch [OF _ ok] rt same obtain r t where t: "r \<in> set (cdb_runtime s)" "rtr_execution r = xtok_ID (crep_Token report)"
    "rtr_state r = ''SEALED''" "rtr_transcript r = Some (Some t)"
    "ControlTranscript_Digest (we_rfc3339 v) t = Inr (crs_ControlTranscriptDigest (crep_Result report))" "AllowsDelivery (we_rfc3339 v) t"
    "ccl_ProcessScope (ctr_Close t) = eng_ProcessScope (crs_Codex (crep_Result report))" unfolding read_runtime_Inr by blast
  have "Preparation_Verify a prep (prc_Facts prep) subject = None" using prep by (simp add: load_preparation_Inr)
  with val t p(1) w have v: "vouched (we_rfc3339 v) report x t s"
    unfolding vouched_def CodexResult_Validate_def codex_permit_def Let_def by (auto split: if_splits)
  show ?thesis
  proof (cases "if xr_state row = Finished then xr_receipt row else None")
    case (Some receipt)
    with rest same p h v show ?thesis
      by (intro exI [of _ x] exI [of _ i] exI [of _ t]) (auto simp: retained_codex_def Let_def split: if_splits)
  next
    case None
    with rest same have "deliver_codex (we_rfc3339 v) subject report (xr_preparation row) (codex_permit row a prep) v n4 s = (Inr d, n', s')" by simp
    from deliver_codex_effect [OF this assms(2) h p(2)] h v show ?thesis by blast
  qed
qed

lemma delivers_row:
  assumes "delivers rfc3339 subject report x receipt s s'" and "lane_ok CodexProfile_Digest 900 (edb_codex s)"
    and "holds_execution edb_codex wdb_inbox subject (crep_Token report) s x i"
  shows "finished_row receipt x \<in> set (edb_codex s') \<and> lane_kept edb_codex CodexProfile_Digest 900 s s'"
proof -
  from assms(1) obtain s1 payload v n u n' where a: "audited ''worker.codex.finished'' (xtok_RunID (crep_Token report)) payload s s1"
    and f: "finish_execution edb_codex edb_codex_update (xtok_ID (crep_Token report)) receipt v n s1 = (Inr u, n', s')"
    unfolding delivers_def by blast
  have same: "edb_codex s1 = edb_codex s" by (rule codex.rows_frame [OF codex.audited_extension [OF a]])
  from codex.held_row [OF assms(3,2)] have x: "x \<in> set (edb_codex s1)" "exe_id x = xtok_ID (crep_Token report)" by (simp_all add: same)
  from codex.finished_member [OF f [folded x(2)] _ x(1)] assms(2) have "finished_row receipt x \<in> set (edb_codex s')" by (simp add: same)
  with codex.lane.trans [OF codex.audit_kept [OF a] codex.finish_kept [OF f]] show ?thesis by blast
qed

section \<open>Operations that leave the lanes alone\<close>

text \<open>Reservations, inputs and preparations as before, and at most more events in the journal.\<close>

definition beside :: "'z codex_db_scheme \<Rightarrow> 'z codex_db_scheme \<Rightarrow> bool" where
  "beside s s' \<longleftrightarrow>
     edb_offline s' = edb_offline s \<and> edb_codex s' = edb_codex s \<and> pdb_preparations s' = pdb_preparations s \<and> pdb_schema s' = pdb_schema s
     \<and> wdb_inbox s' = wdb_inbox s \<and> wdb_outbox s' = wdb_outbox s \<and> journal_kept s s'"

interpretation beside: guarantee "beside :: 'z codex_db_scheme \<Rightarrow> _"
  by unfold_locales (auto simp: beside_def journal.refl intro: journal.trans)

lemma beside_audit: "tx_keeps beside (workerAudit event runID payload)"
proof (rule tx_keepsI)
  fix v n x n' and s s' :: "'z codex_db_scheme"
  assume "workerAudit event runID payload v n s = (Inr x, n', s')"
  then have a: "audited event runID payload s s'" by (rule workerAudit_audited)
  then have "edb_offline s' = edb_offline s \<and> edb_codex s' = edb_codex s \<and> pdb_preparations s' = pdb_preparations s \<and> pdb_schema s' = pdb_schema s
     \<and> wdb_inbox s' = wdb_inbox s \<and> wdb_outbox s' = wdb_outbox s" by (auto simp: audited_def log_event_def)
  with audited_journal [OF a] show "beside s s'" by (simp add: beside_def)
qed

lemma beside_same:
  assumes "edb_offline s' = edb_offline s" "edb_codex s' = edb_codex s" "pdb_preparations s' = pdb_preparations s" "pdb_schema s' = pdb_schema s"
    "wdb_inbox s' = wdb_inbox s" "wdb_outbox s' = wdb_outbox s" "wdb_events s' = wdb_events s" "wdb_last_sequence s' = wdb_last_sequence s"
    "wdb_last_digest s' = wdb_last_digest s"
  shows "beside s s'"
  unfolding beside_def using assms same_journal_kept [OF assms(7-9)] by (intro conjI)

lemma read_only_codex [intro!]: "read_only (lockCodex subject t live)" "read_only (lockControlRuntime b)" "read_only (find_control k)" "read_only (read_checkpoint k)"
  by (auto simp: lockCodex_def lockControlRuntime_def find_control_def read_checkpoint_def)

lemma steer_session_Inr: "steer_session runID i s = Inr (u, s') \<Longrightarrow> \<exists>f. s' = wdb_sessions_update f s"
  by (auto simp: steer_session_def split: option.splits)

lemma bump_run_Inr: "bump_run runID s = Inr (u, s') \<Longrightarrow> \<exists>f. s' = wdb_runs_update f s"
  by (cases "wdb_runs s runID") (auto simp: bump_run_def intro: exI [of _ "\<lambda>x. x"])

lemma control_bodies_beside:
  "tx_keeps beside (bind_body subject b)" "tx_keeps beside (queue_body runID kind i)" "tx_keeps beside (claim_control subject b)"
  "tx_keeps beside (settle_control subject r)" "tx_keeps beside (close_control subject c)" "tx_keeps beside (checkpoint_body subject k digest)"
proof -
  note reads = read_only_codex [THEN beside.keeps_read_only] read_only_runtime [THEN beside.keeps_read_only]
    read_only_worker [THEN beside.keeps_read_only] read_only_load_preparation [THEN beside.keeps_read_only]
    read_only_try [THEN beside.keeps_read_only, OF read_only_runtime] read_only_try [THEN beside.keeps_read_only, OF read_only_codex(3)]
    read_only_try [THEN beside.keeps_read_only, OF read_only_intros(5)]
  note steps = beside.keeps_intros reads beside_audit
  have upd: "tx_keeps beside (update_control k f)" for k f
    unfolding update_control_def by (intro beside.keeps_write) (auto simp: update_controls_def split: sum.splits intro!: beside_same)
  have session: "tx_keeps beside (tx_write (\<lambda>_. steer_session runID i))" for runID i
    by (intro beside.keeps_write) (auto dest!: steer_session_Inr intro!: beside_same)
  have run: "tx_keeps beside (tx_write (\<lambda>_. bump_run runID))" for runID
    by (intro beside.keeps_write) (auto dest!: bump_run_Inr intro!: beside_same)
  have ins: "tx_keeps beside (tx_write (\<lambda>_. insert_control r))" for r
    by (intro beside.keeps_write) (auto simp: insert_control_def intro!: beside_same)
  show "tx_keeps beside (bind_body subject b)" unfolding bind_body_def
    by (intro steps beside.keeps_write) (auto intro!: beside_same)
  show "tx_keeps beside (queue_body runID kind i)" unfolding queue_body_def queue_new_def record_control_def Let_def
    by (intro steps ins session run)
  show "tx_keeps beside (claim_control subject b)" unfolding claim_control_def dispatch_control_def
    by (intro steps upd)
  show "tx_keeps beside (settle_control subject r)" unfolding settle_control_def Let_def
    by (intro steps upd)
  show "tx_keeps beside (close_control subject c)" unfolding close_control_def seal_controls_def Let_def
    by (intro steps beside.keeps_write) (auto simp: update_controls_def intro!: beside_same)
  show "tx_keeps beside (checkpoint_body subject k digest)" unfolding checkpoint_body_def retain_checkpoint_def Let_def
    by (intro steps beside.keeps_write) (auto intro!: beside_same)
qed

lemma control_operations_beside:
  "BindCodexControl v subject b s = (q1, s') \<Longrightarrow> beside s s'" "QueueCodexControl v runID kind i s = (q2, s') \<Longrightarrow> beside s s'"
  "ClaimCodexControl v subject b s = (q3, s') \<Longrightarrow> beside s s'" "SettleCodexControl v subject r s = (q4, s') \<Longrightarrow> beside s s'"
  "CloseCodexControl v subject c s = (q5, s') \<Longrightarrow> beside s s'" "SaveCodexCheckpoint v subject k s = (q6, s') \<Longrightarrow> beside s s'"
  using beside.keeps_run [OF control_bodies_beside(1)] beside.keeps_run [OF control_bodies_beside(2)]
    beside.keeps_run [OF control_bodies_beside(3)] beside.keeps_run [OF control_bodies_beside(4)]
    beside.keeps_run [OF control_bodies_beside(5)] beside.keeps_run [OF control_bodies_beside(6)]
  by (auto simp: BindCodexControl_def QueueCodexControl_def ClaimCodexControl_def SettleCodexControl_def CloseCodexControl_def
      SaveCodexCheckpoint_def beside.refl split: if_splits sum.splits)

lemma beside_lanes:
  assumes "beside s s'"
  shows "lane_kept edb_codex CodexProfile_Digest 900 s s'" and "lane_kept edb_offline Profile_Digest 120 s s'"
proof -
  have "prep_kept s s'" using assms by (intro same_preparations_kept same_inbox_kept) (simp_all add: beside_def)
  with assms show "lane_kept edb_codex CodexProfile_Digest 900 s s'" "lane_kept edb_offline Profile_Digest 120 s s'"
    by (simp_all add: beside_def lane_kept_def)
qed

lemma codex_operations_kept:
  "StartCodex v subject req s = (q1, s') \<Longrightarrow> lane_kept edb_codex CodexProfile_Digest 900 s s'"
  "lane_ok CodexProfile_Digest 900 (edb_codex s) \<Longrightarrow> RenewCodex v subject t s = (q2, s') \<Longrightarrow> lane_kept edb_codex CodexProfile_Digest 900 s s'"
  "lane_ok CodexProfile_Digest 900 (edb_codex s) \<Longrightarrow> FinishCodex v subject report s = (q3, s') \<Longrightarrow> lane_kept edb_codex CodexProfile_Digest 900 s s'"
  "FailCodex v subject t s = (q4, s') \<Longrightarrow> lane_kept edb_codex CodexProfile_Digest 900 s s'"
proof -
  show "StartCodex v subject req s = (q1, s') \<Longrightarrow> lane_kept edb_codex CodexProfile_Digest 900 s s'"
    by (erule StartCodex_cases) (simp_all add: codex.lane.refl codex.authorizes_kept)
  show "RenewCodex v subject t s = (q2, s') \<Longrightarrow> lane_kept edb_codex CodexProfile_Digest 900 s s'" if "lane_ok CodexProfile_Digest 900 (edb_codex s)"
    unfolding RenewCodex_def by (erule codex.lane.checked_run [rotated]) (erule codex.renewal_kept [OF _ that])
  show "FinishCodex v subject report s = (q3, s') \<Longrightarrow> lane_kept edb_codex CodexProfile_Digest 900 s s'"
    if ok: "lane_ok CodexProfile_Digest 900 (edb_codex s)"
    unfolding FinishCodex_def
  proof (erule codex.lane.checked_run [rotated])
    fix x n s2 assume "finish_codex subject report v 1 s = (Inr (Commit x), n, s2)"
    from finish_codex_effect [OF this ok] delivers_row [OF _ ok] show "lane_kept edb_codex CodexProfile_Digest 900 s s2" by blast
  qed
  show "FailCodex v subject t s = (q4, s') \<Longrightarrow> lane_kept edb_codex CodexProfile_Digest 900 s s'"
    unfolding FailCodex_def by (erule codex.lane.checked_run [rotated]) (erule codex.fail_kept)
qed

section \<open>Delivered results\<close>


end
