(* ===== verification/ExecutionHistory.thy ===== *)
theory ExecutionHistory
  imports CodexLane
begin

text \<open>
  Histories of executions: every operation on both lanes and on the controls is one step, in any
  order and by any number of workers, operators and reconcilers. The continuation of an interrupted
  execution (\<open>store/postgres/codex_continuation.go\<close>, not modelled) is a step described by what it does
  to these tables; what the rest of the platform does (runs, sessions, inputs, recovery, migrations,
  recorded steering commands) is a step that leaves them alone, except that it may record commands
  that belong to no execution.
\<close>

section \<open>Who holds a reservation\<close>

definition held_by :: "string \<Rightarrow> ('p, 'r) exec_row list \<Rightarrow> nat" where
  "held_by w xs = length (filter (\<lambda>x. exe_worker x = w \<and> exe_state x = Authorized) xs)"

lemma held_by_append [simp]: "held_by w (xs @ ys) = held_by w xs + held_by w ys"
  by (simp add: held_by_def)

lemma not_busy_held: "\<not> busy w xs \<longleftrightarrow> held_by w xs = 0"
  by (auto simp: busy_def held_by_def list_ex_iff filter_empty_conv)

text \<open>An update of rows that authorizes none.\<close>

definition tame :: "(('p, 'r) exec_row \<Rightarrow> ('p, 'r) exec_row) \<Rightarrow> bool" where
  "tame f \<longleftrightarrow> (\<forall>x. exe_worker (f x) = exe_worker x \<and> (exe_state (f x) = Authorized \<longrightarrow> exe_state x = Authorized))"

lemma tame_updates:
  "tame (renewed_row now lease limit)" "tame (finished_row receipt)" "tame (\<lambda>x. x\<lparr>exe_state := OutcomeUnknown\<rparr>)" "tame (abandoned_row retained)"
  by (simp_all add: tame_def renewed_row_def finished_row_def abandoned_row_def execution_states)

lemma held_by_update: "tame f \<Longrightarrow> held_by w (update_rows P f xs) \<le> held_by w xs"
  by (induction xs) (auto simp: held_by_def update_rows_def tame_def)

lemma length_update_rows [simp]: "length (update_rows P f xs) = length xs"
  by (simp add: update_rows_def)

context execution_lane
begin

lemma lane_tame:
  fixes R :: "'z prep_db_scheme \<Rightarrow> 'z prep_db_scheme \<Rightarrow> bool"
  assumes g: "guarantee R" and upd: "\<And>P f s. tame f \<Longrightarrow> R s (upd (update_rows P f) s)" and ext: "\<And>s s'. same_extension s s' \<Longrightarrow> R s s'"
  shows "tx_keeps R (renew_execution rows upd digestOf event lease lim subject t)"
    and "tx_keeps R (finish_execution rows upd k receipt)"
    and "tx_keeps R (fail_execution rows upd digestOf event subject t)"
    and "tx_keeps R (abandon_execution rows upd digestOf delivered reconciler request)"
proof -
  have audit: "tx_keeps R (workerAudit event' run payload)" for event' run payload
    using ext alwaysD [OF extension_writes(1)] by (fastforce intro!: tx_keepsI)
  have append: "tx_keeps R (appendAudit inp now)" for inp now
    by (rule tx_keepsI) (auto simp: appendAudit_effect log_event_def same_extension_def intro!: ext)
  note lock = guarantee.keeps_read_only [OF g read_only_lock]
  note intros = guarantee.keeps_intros [OF g]
  show "tx_keeps R (renew_execution rows upd digestOf event lease lim subject t)"
    unfolding renew_execution_def
    by (intro intros lock audit guarantee.keeps_write [OF g]) (auto simp: upd tame_updates split: option.splits)
  show "tx_keeps R (finish_execution rows upd k receipt)"
    unfolding finish_execution_def by (intro guarantee.keeps_write [OF g]) (auto simp: upd tame_updates)
  show "tx_keeps R (fail_execution rows upd digestOf event subject t)"
    unfolding fail_execution_def
    by (intro intros lock audit guarantee.keeps_write [OF g]) (auto simp: upd tame_updates)
  show "tx_keeps R (abandon_execution rows upd digestOf delivered reconciler request)"
    unfolding abandon_execution_def retain_abandonment_def Let_def
    by (intro intros append guarantee.keeps_write [OF g]) (auto simp: upd tame_updates)
qed

end

section \<open>Calm operations\<close>

text \<open>Operations that authorize nothing.\<close>

definition calm :: "'z codex_db_scheme \<Rightarrow> 'z codex_db_scheme \<Rightarrow> bool" where
  "calm s s' \<longleftrightarrow>
     (\<forall>w. held_by w (edb_offline s') \<le> held_by w (edb_offline s)) \<and> (\<forall>w. held_by w (edb_codex s') \<le> held_by w (edb_codex s))
     \<and> length (edb_codex s') = length (edb_codex s) \<and> pdb_schema s' = pdb_schema s"

interpretation calm: guarantee "calm :: 'z codex_db_scheme \<Rightarrow> _"
  by unfold_locales (auto simp: calm_def intro: le_trans)

lemma calm_extension: "same_extension s s' \<Longrightarrow> calm s s'"
  by (cases s; cases s') (simp add: same_extension_def calm_def)

lemma calm_updates:
  "tame f \<Longrightarrow> calm s (edb_offline_update (update_rows P f) s)" "tame g \<Longrightarrow> calm s (edb_codex_update (update_rows Q g) s)"
  by (simp_all add: calm_def held_by_update)

lemmas offline_calm = offline.lane_tame [OF calm.guarantee_axioms calm_updates(1) calm_extension]
lemmas codex_calm = codex.lane_tame [OF calm.guarantee_axioms calm_updates(2) calm_extension]

lemma calm_beside: "beside s s' \<Longrightarrow> calm s s'"
  by (simp add: beside_def calm_def)

lemma calm_audit: "tx_keeps calm (workerAudit event runID payload)"
  using calm_beside beside_audit by (fastforce intro!: tx_keepsI dest: tx_keepsD)

lemma calm_operations:
  fixes s s' :: "'z codex_db_scheme"
  shows "RenewOffline v subject t s = (q1, s') \<Longrightarrow> calm s s'" "FinishOffline v subject report s = (q2, s') \<Longrightarrow> calm s s'"
    "FailOffline v subject t s = (q3, s') \<Longrightarrow> calm s s'" "RenewCodex v subject t s = (q4, s') \<Longrightarrow> calm s s'"
    "FinishCodex v subject creport s = (q5, s') \<Longrightarrow> calm s s'" "FailCodex v subject t s = (q6, s') \<Longrightarrow> calm s s'"
    "ReconcileExecutionAbandoned v reconciler request s = (q7, s') \<Longrightarrow> calm s s'"
proof -
  note reads = read_only_lock [THEN calm.keeps_read_only] read_only_codex [THEN calm.keeps_read_only] read_only_runtime [THEN calm.keeps_read_only]
    read_only_worker [THEN calm.keeps_read_only] read_only_load_preparation [THEN calm.keeps_read_only]
  have fo: "tx_keeps calm (finish_offline subject report)" unfolding finish_offline_def lockOffline_def Let_def
    by (intro calm.keeps_intros reads calm_audit offline_calm)
  have fc: "tx_keeps calm (finish_codex subject creport)" unfolding finish_codex_def retained_codex_def deliver_codex_def Let_def
    by (intro calm.keeps_intros reads calm_audit codex_calm)
  have rc: "tx_keeps calm (reconcile_body reconciler request)" unfolding reconcile_body_def
    by (intro calm.keeps_intros offline_calm codex_calm)
  show "RenewOffline v subject t s = (q1, s') \<Longrightarrow> calm s s'" unfolding RenewOffline_def by (rule calm.keeps_run [OF offline_calm(1)])
  show "FinishOffline v subject report s = (q2, s') \<Longrightarrow> calm s s'" unfolding FinishOffline_def by (rule calm.keeps_run [OF fo])
  show "FailOffline v subject t s = (q3, s') \<Longrightarrow> calm s s'" unfolding FailOffline_def by (rule calm.keeps_run [OF offline_calm(3)])
  show "RenewCodex v subject t s = (q4, s') \<Longrightarrow> calm s s'" unfolding RenewCodex_def by (rule calm.keeps_run [OF codex_calm(1)])
  show "FinishCodex v subject creport s = (q5, s') \<Longrightarrow> calm s s'" unfolding FinishCodex_def by (rule calm.keeps_run [OF fc])
  show "FailCodex v subject t s = (q6, s') \<Longrightarrow> calm s s'" unfolding FailCodex_def by (rule calm.keeps_run [OF codex_calm(3)])
  show "ReconcileExecutionAbandoned v reconciler request s = (q7, s') \<Longrightarrow> calm s s'"
    using calm.keeps_run [OF rc] by (auto simp: ReconcileExecutionAbandoned_def calm.refl split: if_splits)
qed

section \<open>Lanes that an operation does not touch\<close>

text \<open>What neither the lane's table nor the audit journal holds is not changed by the operations of that lane.\<close>

lemma audit_frame:
  assumes "\<And>s s'. same_extension s s' \<Longrightarrow> g s' = g s"
  shows "tx_keeps (same_of g) (workerAudit event runID payload)"
  using assms alwaysD [OF extension_writes(1)] by (fastforce intro!: tx_keepsI simp: same_of_def)

lemma offline_frame:
  fixes g :: "'z codex_db_scheme \<Rightarrow> 'a"
  assumes upd: "\<And>f s. g (edb_offline_update f s) = g s" and ext: "\<forall>s s'. same_extension s s' \<longrightarrow> g s' = g s"
  shows "StartOffline v subject req s = (q1, s') \<Longrightarrow> g s' = g s" "RenewOffline v subject t s = (q2, s') \<Longrightarrow> g s' = g s"
    "FinishOffline v subject report s = (q3, s') \<Longrightarrow> g s' = g s" "FailOffline v subject t s = (q4, s') \<Longrightarrow> g s' = g s"
proof -
  note frame = offline.lane_frame [where g = g, OF upd ext [rule_format], simplified]
  note reads = read_only_lock [THEN same_of.keeps_read_only] read_only_worker [THEN same_of.keeps_read_only]
  have so: "tx_keeps (same_of g) (start_offline subject req pd)" for pd unfolding start_offline_def
    by (intro same_of.keeps_intros reads frame)
  have fo: "tx_keeps (same_of g) (finish_offline subject report)" unfolding finish_offline_def lockOffline_def Let_def
    by (intro same_of.keeps_intros reads frame audit_frame ext [rule_format])
  show "StartOffline v subject req s = (q1, s') \<Longrightarrow> g s' = g s"
    using same_of.keeps_run [OF so] by (auto simp: StartOffline_def same_of_def split: sum.splits if_splits)
  show "RenewOffline v subject t s = (q2, s') \<Longrightarrow> g s' = g s"
    using same_of.keeps_run [OF frame(2)] by (fastforce simp: RenewOffline_def same_of_def)
  show "FinishOffline v subject report s = (q3, s') \<Longrightarrow> g s' = g s"
    using same_of.keeps_run [OF fo] by (fastforce simp: FinishOffline_def same_of_def)
  show "FailOffline v subject t s = (q4, s') \<Longrightarrow> g s' = g s"
    using same_of.keeps_run [OF frame(4)] by (fastforce simp: FailOffline_def same_of_def)
qed

lemma codex_frame:
  fixes g :: "'z codex_db_scheme \<Rightarrow> 'a"
  assumes upd: "\<And>f s. g (edb_codex_update f s) = g s" and ext: "\<forall>s s'. same_extension s s' \<longrightarrow> g s' = g s"
  shows "StartCodex v subject req s = (q1, s') \<Longrightarrow> g s' = g s" "RenewCodex v subject t s = (q2, s') \<Longrightarrow> g s' = g s"
    "FinishCodex v subject report s = (q3, s') \<Longrightarrow> g s' = g s" "FailCodex v subject t s = (q4, s') \<Longrightarrow> g s' = g s"
proof -
  note frame = codex.lane_frame [where g = g, OF upd ext [rule_format], simplified]
  note reads = read_only_lock [THEN same_of.keeps_read_only] read_only_worker [THEN same_of.keeps_read_only]
    read_only_codex [THEN same_of.keeps_read_only] read_only_runtime [THEN same_of.keeps_read_only] read_only_load_preparation [THEN same_of.keeps_read_only]
  have sc: "tx_keeps (same_of g) (start_codex subject req pd)" for pd unfolding start_codex_def
    by (intro same_of.keeps_intros reads frame)
  have fc: "tx_keeps (same_of g) (finish_codex subject report)" unfolding finish_codex_def retained_codex_def deliver_codex_def Let_def
    by (intro same_of.keeps_intros reads frame audit_frame ext [rule_format])
  show "StartCodex v subject req s = (q1, s') \<Longrightarrow> g s' = g s"
    using same_of.keeps_run [OF sc] by (auto simp: StartCodex_def same_of_def split: sum.splits if_splits)
  show "RenewCodex v subject t s = (q2, s') \<Longrightarrow> g s' = g s"
    using same_of.keeps_run [OF frame(2)] by (fastforce simp: RenewCodex_def same_of_def)
  show "FinishCodex v subject report s = (q3, s') \<Longrightarrow> g s' = g s"
    using same_of.keeps_run [OF fc] by (fastforce simp: FinishCodex_def same_of_def)
  show "FailCodex v subject t s = (q4, s') \<Longrightarrow> g s' = g s"
    using same_of.keeps_run [OF frame(4)] by (fastforce simp: FailCodex_def same_of_def)
qed

lemma reconcile_frame:
  fixes g :: "'z codex_db_scheme \<Rightarrow> 'a"
  assumes "\<And>f s. g (edb_offline_update f s) = g s" and "\<And>f s. g (edb_codex_update f s) = g s" and ext: "\<forall>s s'. same_extension s s' \<longrightarrow> g s' = g s"
    and "ReconcileExecutionAbandoned v reconciler request s = (q, s')"
  shows "g s' = g s"
proof -
  have "tx_keeps (same_of g) (reconcile_body reconciler request)" unfolding reconcile_body_def
    by (intro same_of.keeps_intros offline.lane_frame [where g = g, OF assms(1) ext [rule_format], simplified] codex.lane_frame [where g = g, OF assms(2) ext [rule_format], simplified])
  from same_of.keeps_run [OF this] assms(4) show ?thesis by (auto simp: ReconcileExecutionAbandoned_def same_of_def split: if_splits)
qed

lemma extension_tables:
  fixes s s' :: "'z codex_db_scheme"
  assumes "same_extension s s'"
  shows "edb_codex s' = edb_codex s" "edb_offline s' = edb_offline s" "pdb_schema s' = pdb_schema s"
    "cdb_controls s' = cdb_controls s" "cdb_runtime s' = cdb_runtime s"
  using assms by (cases s; cases s'; simp add: same_extension_def)+

lemma table_frame:
  "\<forall>s s' :: 'z codex_db_scheme. same_extension s s' \<longrightarrow> edb_codex s' = edb_codex s"
  "\<forall>s s' :: 'z codex_db_scheme. same_extension s s' \<longrightarrow> edb_offline s' = edb_offline s"
  "\<forall>s s' :: 'z codex_db_scheme. same_extension s s' \<longrightarrow> pdb_schema s' = pdb_schema s"
  by (auto simp: extension_tables)

lemma lane_updates_apart:
  fixes s :: "'z codex_db_scheme"
  shows "edb_codex (edb_offline_update f s) = edb_codex s" "pdb_schema (edb_offline_update f s) = pdb_schema s"
    "edb_offline (edb_codex_update h s) = edb_offline s" "pdb_schema (edb_codex_update h s) = pdb_schema s"
  by simp_all

lemmas offline_keeps_codex = offline_frame [OF lane_updates_apart(1) table_frame(1)] offline_frame(1) [OF lane_updates_apart(2) table_frame(3)]
lemmas codex_keeps_offline = codex_frame [OF lane_updates_apart(3) table_frame(2)] codex_frame(1) [OF lane_updates_apart(4) table_frame(3)]

definition both_kept :: "'z codex_db_scheme \<Rightarrow> 'z codex_db_scheme \<Rightarrow> bool" where
  "both_kept s s' \<longleftrightarrow>
     lane_rows_kept Profile_Digest 120 (edb_offline s) (edb_offline s') \<and> lane_rows_kept CodexProfile_Digest 900 (edb_codex s) (edb_codex s')"

interpretation both: guarantee "both_kept :: 'z codex_db_scheme \<Rightarrow> _"
  by unfold_locales (auto simp: both_kept_def intro: lane_rows_kept_trans)

lemma both_kept_offline: "lane_kept edb_offline Profile_Digest 120 s s' \<Longrightarrow> edb_codex s' = edb_codex s \<Longrightarrow> both_kept s s'"
  by (simp add: both_kept_def lane_kept_def)

lemma both_kept_codex: "lane_kept edb_codex CodexProfile_Digest 900 s s' \<Longrightarrow> edb_offline s' = edb_offline s \<Longrightarrow> both_kept s s'"
  by (simp add: both_kept_def lane_kept_def)

lemma reconcile_kept:
  fixes s s' :: "'z codex_db_scheme"
  assumes "ReconcileExecutionAbandoned v reconciler request s = (answer, s')"
  shows "both_kept s s'"
proof (cases "s' = s")
  case False
  with assms have "run_tx (reconcile_body reconciler request) v s = (answer, s')"
    by (auto simp: ReconcileExecutionAbandoned_def split: if_splits)
  from run_tx_cases [OF this] False obtain d n where "reconcile_body reconciler request v 1 s = (Inr (Commit d), n, s')" by blast
  then consider m d where "abandon_execution edb_offline edb_offline_update Profile_Digest edb_deliveries reconciler request v m s = (Inr d, n, s')"
    | m d where "abandon_execution edb_codex edb_codex_update CodexProfile_Digest edb_deliveries reconciler request v m s = (Inr d, n, s')"
    unfolding reconcile_body_def by (auto split: if_splits)
  then show ?thesis
  proof cases
    case 1
    have "tx_keeps (same_of edb_codex) (abandon_execution edb_offline edb_offline_update Profile_Digest
        (edb_deliveries :: 'z codex_db_scheme \<Rightarrow> _) reconciler request)"
      by (rule offline.lane_frame(5)) (simp, rule codex.rows_frame)
    from tx_keepsD [OF this 1] offline.abandon_kept [OF 1] show ?thesis by (intro both_kept_offline) (simp_all add: same_of_def)
  next
    case 2
    have "tx_keeps (same_of edb_offline) (abandon_execution edb_codex edb_codex_update CodexProfile_Digest
        (edb_deliveries :: 'z codex_db_scheme \<Rightarrow> _) reconciler request)"
      by (rule codex.lane_frame(5)) (simp, rule offline.rows_frame)
    from tx_keepsD [OF this 2] codex.abandon_kept [OF 2] show ?thesis by (intro both_kept_codex) (simp_all add: same_of_def)
  qed
qed (simp add: both.refl)

section \<open>Histories\<close>

text \<open>\<open>INSERT INTO steering_commands\<close> of the core store: new keys, state RECORDED, no execution.\<close>

definition records_steering :: "control_row list \<Rightarrow> codex_db \<Rightarrow> codex_db \<Rightarrow> bool" where
  "records_steering new s s' \<longleftrightarrow>
     cdb_controls s' = cdb_controls s @ new \<and> distinct (map ctl_id new)
     \<and> (\<forall>r \<in> set new. ctl_execution r = None \<and> ctl_id r \<notin> ctl_id ` set (cdb_controls s))"

definition elsewhere :: "codex_db \<Rightarrow> codex_db \<Rightarrow> bool" where
  "elsewhere s s' \<longleftrightarrow>
     edb_offline s' = edb_offline s \<and> edb_codex s' = edb_codex s \<and> cdb_runtime s' = cdb_runtime s \<and> (\<exists>new. records_steering new s s')
     \<and> cdb_checkpoints s' = cdb_checkpoints s \<and> set (pdb_schema s) \<subseteq> set (pdb_schema s')
     \<and> (9 \<in> set (pdb_schema s') \<longrightarrow> 8 \<in> set (pdb_schema s'))"

text \<open>A continuation stops the execution whose outcome is unknown; it authorizes nothing.\<close>

definition continues :: "string \<Rightarrow> codex_db \<Rightarrow> codex_db \<Rightarrow> bool" where
  "continues k s s' \<longleftrightarrow>
     edb_codex s' = update_rows (\<lambda>x. exe_id x = k \<and> exe_state x = OutcomeUnknown) (\<lambda>x. x\<lparr>exe_state := Stopped\<rparr>) (edb_codex s)
     \<and> edb_offline s' = edb_offline s \<and> cdb_runtime s' = cdb_runtime s \<and> cdb_controls s' = cdb_controls s
     \<and> cdb_checkpoints s' = cdb_checkpoints s \<and> pdb_schema s' = pdb_schema s"

inductive exec_step :: "codex_db \<Rightarrow> codex_db \<Rightarrow> bool" where
  start_offline_step: "StartOffline v subject oreq s = (qo, s') \<Longrightarrow> exec_step s s'"
| renew_offline_step: "RenewOffline v subject t s = (qt, s') \<Longrightarrow> exec_step s s'"
| finish_offline_step: "FinishOffline v subject oreport s = (qr, s') \<Longrightarrow> exec_step s s'"
| fail_offline_step: "FailOffline v subject t s = (qu, s') \<Longrightarrow> exec_step s s'"
| start_codex_step: "StartCodex v subject creq s = (qc, s') \<Longrightarrow> exec_step s s'"
| renew_codex_step: "RenewCodex v subject t s = (qt, s') \<Longrightarrow> exec_step s s'"
| finish_codex_step: "FinishCodex v subject creport s = (qe, s') \<Longrightarrow> exec_step s s'"
| fail_codex_step: "FailCodex v subject t s = (qu, s') \<Longrightarrow> exec_step s s'"
| reconcile_step: "ReconcileExecutionAbandoned v reconciler request s = (qa, s') \<Longrightarrow> exec_step s s'"
| bind_step: "BindCodexControl v subject b s = (qu, s') \<Longrightarrow> exec_step s s'"
| queue_step: "QueueCodexControl v runID kind i s = (qd, s') \<Longrightarrow> exec_step s s'"
| claim_step: "ClaimCodexControl v subject b s = (qk, s') \<Longrightarrow> exec_step s s'"
| settle_step: "SettleCodexControl v subject r s = (qd, s') \<Longrightarrow> exec_step s s'"
| close_step: "CloseCodexControl v subject c s = (ql, s') \<Longrightarrow> exec_step s s'"
| checkpoint_step: "SaveCodexCheckpoint v subject k s = (qs, s') \<Longrightarrow> exec_step s s'"
| continue_step: "continues k s s' \<Longrightarrow> exec_step s s'"
| elsewhere_step: "elsewhere s s' \<Longrightarrow> exec_step s s'"

inductive exec_steps :: "codex_db \<Rightarrow> codex_db \<Rightarrow> bool" where
  none: "exec_steps s s"
| more: "exec_steps s s' \<Longrightarrow> exec_step s' s'' \<Longrightarrow> exec_steps s s''"

definition lanes_ok :: "codex_db \<Rightarrow> bool" where
  "lanes_ok s \<longleftrightarrow> lane_ok Profile_Digest 120 (edb_offline s) \<and> lane_ok CodexProfile_Digest 900 (edb_codex s)"

definition exclusive :: "codex_db \<Rightarrow> bool" where
  "exclusive s \<longleftrightarrow>
     (\<forall>w. held_by w (edb_offline s) + held_by w (edb_codex s) \<le> 1)
     \<and> (9 \<in> set (pdb_schema s) \<longrightarrow> 8 \<in> set (pdb_schema s)) \<and> (edb_codex s \<noteq> [] \<longrightarrow> 9 \<in> set (pdb_schema s))"

lemma continues_kept:
  assumes "continues k s s'"
  shows "both_kept s s'" and "calm s s'"
proof -
  have "lane_rows_kept CodexProfile_Digest 900 (edb_codex s)
      (update_rows (\<lambda>x. exe_id x = k \<and> exe_state x = OutcomeUnknown) (\<lambda>x. x\<lparr>exe_state := Stopped\<rparr>) (edb_codex s))"
    by (rule update_rows_kept)
       (auto simp: lane_ok_def exec_ok_def exec_kept_def exec_identity_def exec_final_def execution_states)
  with assms show "both_kept s s'" by (simp add: continues_def both_kept_def)
  have "tame (\<lambda>x :: (CodexProfile, CodexReceipt) exec_row. x\<lparr>exe_state := Stopped\<rparr>)" by (simp add: tame_def execution_states)
  with assms show "calm s s'" by (simp add: continues_def calm_def held_by_update)
qed

lemma step_kept:
  assumes "exec_step s s'" and "lanes_ok s"
  shows "both_kept s s'"
proof -
  from assms(2) have ok: "lane_ok Profile_Digest 120 (edb_offline s)" "lane_ok CodexProfile_Digest 900 (edb_codex s)" by (simp_all add: lanes_ok_def)
  have beside: "both_kept s s'" if "beside s s'"
    using beside_lanes [OF that] by (simp add: both_kept_def lane_kept_def)
  from assms(1) show ?thesis
  proof cases
    case elsewhere_step
    then show ?thesis by (simp add: elsewhere_def both_kept_def)
  next
    case continue_step
    then show ?thesis by (rule continues_kept)
  next
    case start_offline_step
    then show ?thesis using both_kept_offline [OF offline_operations_kept(1)] offline_keeps_codex(1) by blast
  next
    case renew_offline_step
    show ?thesis by (rule both_kept_offline [OF offline_operations_kept(2) [OF ok(1) renew_offline_step] offline_keeps_codex(2) [OF renew_offline_step]])
  next
    case finish_offline_step
    show ?thesis by (rule both_kept_offline [OF offline_operations_kept(3) [OF ok(1) finish_offline_step] offline_keeps_codex(3) [OF finish_offline_step]])
  next
    case fail_offline_step
    show ?thesis by (rule both_kept_offline [OF offline_operations_kept(4) [OF fail_offline_step] offline_keeps_codex(4) [OF fail_offline_step]])
  next
    case start_codex_step
    then show ?thesis using both_kept_codex [OF codex_operations_kept(1)] codex_keeps_offline(1) by blast
  next
    case renew_codex_step
    show ?thesis by (rule both_kept_codex [OF codex_operations_kept(2) [OF ok(2) renew_codex_step] codex_keeps_offline(2) [OF renew_codex_step]])
  next
    case finish_codex_step
    show ?thesis by (rule both_kept_codex [OF codex_operations_kept(3) [OF ok(2) finish_codex_step] codex_keeps_offline(3) [OF finish_codex_step]])
  next
    case fail_codex_step
    show ?thesis by (rule both_kept_codex [OF codex_operations_kept(4) [OF fail_codex_step] codex_keeps_offline(4) [OF fail_codex_step]])
  next
    case reconcile_step
    then show ?thesis by (rule reconcile_kept)
  qed (erule control_operations_beside [THEN beside])+
qed

lemma calm_exclusive: "calm s s' \<Longrightarrow> exclusive s \<Longrightarrow> exclusive s'"
proof -
  assume c: "calm s s'" and e: "exclusive s"
  have "held_by w (edb_offline s') + held_by w (edb_codex s') \<le> 1" for w
  proof -
    from c have "held_by w (edb_offline s') \<le> held_by w (edb_offline s)" "held_by w (edb_codex s') \<le> held_by w (edb_codex s)" by (simp_all add: calm_def)
    moreover from e have "held_by w (edb_offline s) + held_by w (edb_codex s) \<le> 1" by (simp add: exclusive_def)
    ultimately show ?thesis by linarith
  qed
  moreover have "edb_codex s' \<noteq> [] \<longrightarrow> edb_codex s \<noteq> []" using c by (auto simp: calm_def)
  ultimately show ?thesis using c e by (simp add: calm_def exclusive_def)
qed

lemma start_offline_exclusive:
  assumes "StartOffline v subject req s = (answer, s')" and "exclusive s"
  shows "exclusive s'"
  using assms(1)
proof (cases rule: StartOffline_cases)
  case (2 permit i k pd)
  have same: "edb_codex s' = edb_codex s" "pdb_schema s' = pdb_schema s" using offline_keeps_codex(1,5) [OF assms(1)] by simp_all
  have "held_by subject (edb_offline s) = 0" "held_by subject (edb_codex s) = 0"
    using 2(6,7) assms(2) not_busy_held [of subject "edb_offline s"] not_busy_held [of subject "edb_codex s"]
    by (auto simp: exclusive_def held_by_def)
  with offline.authorizes_fresh(1) [OF 2(8)] assms(2) show ?thesis
    by (auto simp: exclusive_def same held_by_def authorized_row_def)
qed (use assms(2) in simp_all)

lemma start_codex_exclusive:
  assumes "StartCodex v subject req s = (answer, s')" and "exclusive s"
  shows "exclusive s'"
  using assms(1)
proof (cases rule: StartCodex_cases)
  case (2 permit i k pd)
  have same: "edb_offline s' = edb_offline s" "pdb_schema s' = pdb_schema s" using codex_keeps_offline(1,5) [OF assms(1)] by simp_all
  have "held_by subject (edb_offline s) = 0" "held_by subject (edb_codex s) = 0"
    using 2(4,5) not_busy_held [of subject "edb_offline s"] not_busy_held [of subject "edb_codex s"] by simp_all
  with codex.authorizes_fresh(1) [OF 2(6)] 2(3) assms(2) show ?thesis
    by (auto simp: exclusive_def same held_by_def authorized_row_def)
qed (use assms(2) in simp)

lemma step_exclusive:
  assumes "exec_step s s'" and "exclusive s"
  shows "exclusive s'"
  using assms(1)
proof cases
  case elsewhere_step
  with assms(2) show ?thesis by (auto simp: elsewhere_def exclusive_def)
next
  case start_offline_step
  then show ?thesis using assms(2) by (rule start_offline_exclusive)
next
  case start_codex_step
  then show ?thesis using assms(2) by (rule start_codex_exclusive)
next
  case continue_step
  show ?thesis by (rule calm_exclusive [OF continues_kept(2) [OF continue_step] assms(2)])
qed (erule calm_operations [THEN calm_exclusive, OF _ assms(2)] control_operations_beside [THEN calm_beside, THEN calm_exclusive, OF _ assms(2)])+

lemma steps_invariant:
  assumes "exec_steps s s'" and "lanes_ok s"
  shows "lanes_ok s' \<and> both_kept s s' \<and> (exclusive s \<longrightarrow> exclusive s')"
  using assms
proof (induction rule: exec_steps.induct)
  case (more s s' s'')
  then have ih: "lanes_ok s'" "both_kept s s'" "exclusive s \<longrightarrow> exclusive s'" by blast+
  from step_kept [OF more.hyps(2) ih(1)] have k: "both_kept s' s''" .
  with ih(1) have "lanes_ok s''" by (simp add: both_kept_def lanes_ok_def lane_rows_kept_def)
  with both.trans [OF ih(2) k] ih(3) step_exclusive [OF more.hyps(2)] show ?case by blast
qed (simp add: both.refl)

text \<open>
  C18. A worker never holds two executions. However the operations of workers, operators and
  reconcilers on both lanes interleave with each other, with lost commits and with the rest of the
  platform, at every moment each worker has at most one authorized reservation over both lanes
  together, and each run has at most one reservation in each lane.
\<close>

theorem worker_holds_one_execution:
  assumes "exec_steps s s'" and "edb_offline s = []" and "edb_codex s = []" and "9 \<in> set (pdb_schema s) \<longrightarrow> 8 \<in> set (pdb_schema s)"
  shows "(\<forall>w. length (filter (\<lambda>x. exe_worker x = w \<and> exe_state x = Authorized) (edb_offline s'))
            + length (filter (\<lambda>x. exe_worker x = w \<and> exe_state x = Authorized) (edb_codex s')) \<le> 1)
     \<and> distinct (map exe_run_id (edb_offline s')) \<and> distinct (map exe_run_id (edb_codex s'))"
proof -
  have "lanes_ok s" "exclusive s" using assms(2-4) by (simp_all add: lanes_ok_def lane_ok_def exclusive_def held_by_def)
  with steps_invariant [OF assms(1)] have "lanes_ok s'" "exclusive s'" by blast+
  then show ?thesis by (auto simp: lanes_ok_def lane_ok_def exclusive_def held_by_def)
qed

text \<open>
  An execution is never repeated. Once a run has a reservation, no start in any later state
  makes another one in that lane, whatever happened to the first; and the first keeps its identity:
  when it was finished, stopped or abandoned it does not change any more, and when its outcome was
  unknown it is never authorized again and never gets a receipt.
\<close>

theorem execution_is_never_repeated:
  assumes "exec_steps s s'" and "lanes_ok s"
  shows "(\<forall>x \<in> set (edb_offline s). (\<exists>x' \<in> set (edb_offline s'). exec_kept x x')
            \<and> (\<forall>v subject req answer s''. start_RunID req = exe_run_id x \<longrightarrow> StartOffline v subject req s' = (answer, s'') \<longrightarrow> s'' = s'))
     \<and> (\<forall>x \<in> set (edb_codex s). (\<exists>x' \<in> set (edb_codex s'). exec_kept x x')
            \<and> (\<forall>v subject req answer s''. start_RunID req = exe_run_id x \<longrightarrow> StartCodex v subject req s' = (answer, s'') \<longrightarrow> s'' = s'))"
proof -
  from steps_invariant [OF assms] have k: "both_kept s s'" by blast
  from k assms(2) have rows: "\<forall>x \<in> set (edb_offline s). \<exists>x' \<in> set (edb_offline s'). exec_kept x x'"
    "\<forall>x \<in> set (edb_codex s). \<exists>x' \<in> set (edb_codex s'). exec_kept x x'" by (simp_all add: both_kept_def lanes_ok_def lane_rows_kept_def)
  have off: "s'' = s'" if x: "x \<in> set (edb_offline s)" "start_RunID req = exe_run_id x" "StartOffline v subject req s' = (answer, s'')"
    for x v subject req answer s'' using x(3)
  proof (cases rule: StartOffline_cases)
    case (2 permit i k pd)
    from rows(1) x(1) obtain x' where "x' \<in> set (edb_offline s')" "exec_kept x x'" by blast
    with offline.authorizes_fresh(2) [OF 2(8)] x(2) show ?thesis by (auto simp: exec_kept_def exec_identity_def)
  qed simp_all
  have cod: "s'' = s'" if x: "x \<in> set (edb_codex s)" "start_RunID req = exe_run_id x" "StartCodex v subject req s' = (answer, s'')"
    for x v subject req answer s'' using x(3)
  proof (cases rule: StartCodex_cases)
    case (2 permit i k pd)
    from rows(2) x(1) obtain x' where "x' \<in> set (edb_codex s')" "exec_kept x x'" by blast
    with codex.authorizes_fresh(2) [OF 2(6)] x(2) show ?thesis by (auto simp: exec_kept_def exec_identity_def)
  qed simp
  show ?thesis by (intro conjI ballI allI impI rows [rule_format] off cod)
qed

end
