(* ===== verification/ControlHistory.thy ===== *)
theory ControlHistory
  imports ExecutionHistory
begin

text \<open>
  Histories of live controls: a command is handed to its worker at most once, commands only advance,
  and the transcript that seals an execution is what its commands are for ever after.
\<close>

section \<open>How commands advance\<close>

definition control_future :: "string \<Rightarrow> string set" where
  "control_future st =
     (if st = ControlQueued then UNIV
      else if st = ControlDispatching then - {ControlQueued}
      else if st = ControlInterruptACK then {ControlInterruptACK, ControlInterrupted}
      else {st})"

definition control_identity :: "control_row \<Rightarrow> control_row" where
  "control_identity r = r\<lparr>ctl_state := [], ctl_dispatched := None, ctl_resolved := None\<rparr>"

definition control_kept :: "control_row \<Rightarrow> control_row \<Rightarrow> bool" where
  "control_kept r r' \<longleftrightarrow>
     control_identity r' = control_identity r \<and> ctl_state r' \<in> control_future (ctl_state r)
     \<and> (ctl_dispatched r \<noteq> None \<longrightarrow> ctl_dispatched r' = ctl_dispatched r)"

lemma control_kept_refl [simp]: "control_kept r r"
  by (simp add: control_kept_def control_future_def)

lemma control_kept_trans: "control_kept r r' \<Longrightarrow> control_kept r' r'' \<Longrightarrow> control_kept r r''"
  by (auto simp: control_kept_def control_future_def control_names split: if_splits)

lemma control_identity_eq:
  "control_identity r' = control_identity r \<longleftrightarrow>
     ctl_id r' = ctl_id r \<and> ctl_run_id r' = ctl_run_id r \<and> ctl_epoch r' = ctl_epoch r \<and> ctl_sequence r' = ctl_sequence r
     \<and> ctl_actor r' = ctl_actor r \<and> ctl_content r' = ctl_content r \<and> ctl_created r' = ctl_created r
     \<and> ctl_execution r' = ctl_execution r \<and> ctl_payload r' = ctl_payload r"
  by (cases r; cases r') (auto simp: control_identity_def)

section \<open>The tables of controls\<close>

definition transcribed :: "control_row list \<Rightarrow> runtime_row \<Rightarrow> ControlTranscript \<Rightarrow> bool" where
  "transcribed rows rt t \<longleftrightarrow>
     rtr_transcript rt = Some (Some t)
     \<and> scan_controls (sort_key ctl_sequence (filter (of_execution (rtr_execution rt)) rows)) = Inr (elems (ctr_Deliveries t))"

definition controls_ok :: "'z codex_db_scheme \<Rightarrow> bool" where
  "controls_ok s \<longleftrightarrow>
     distinct (map ctl_id (cdb_controls s)) \<and> distinct (map rtr_execution (cdb_runtime s))
     \<and> (\<forall>rt \<in> set (cdb_runtime s). rtr_state rt = ''SEALED'' \<longrightarrow> (\<exists>t. transcribed (cdb_controls s) rt t))"

definition controls_kept :: "'z codex_db_scheme \<Rightarrow> 'z codex_db_scheme \<Rightarrow> bool" where
  "controls_kept s s' \<longleftrightarrow>
     (controls_ok s \<longrightarrow>
        controls_ok s' \<and> (\<forall>r \<in> set (cdb_controls s). \<exists>r' \<in> set (cdb_controls s'). control_kept r r')
        \<and> (\<forall>rt \<in> set (cdb_runtime s). rtr_state rt = ''SEALED'' \<longrightarrow> rt \<in> set (cdb_runtime s')))"

interpretation controls: guarantee "controls_kept :: 'z codex_db_scheme \<Rightarrow> _"
proof
  show "controls_kept s s" for s :: "'z codex_db_scheme" unfolding controls_kept_def using control_kept_refl by blast
  show "controls_kept s s' \<Longrightarrow> controls_kept s' s'' \<Longrightarrow> controls_kept s s''" for s s' s'' :: "'z codex_db_scheme"
    unfolding controls_kept_def by (meson control_kept_trans)
qed

text \<open>The controls of an active execution may change; those of a sealed one are other rows.\<close>

definition active_runtime :: "string \<Rightarrow> 'z codex_db_scheme \<Rightarrow> bool" where
  "active_runtime k s \<longleftrightarrow> (\<exists>rt \<in> set (cdb_runtime s). rtr_execution rt = k \<and> rtr_state rt = ''ACTIVE'')"

lemma sealed_other:
  assumes "controls_ok s" and "active_runtime k s" and "rt \<in> set (cdb_runtime s)" and "rtr_state rt = ''SEALED''"
  shows "rtr_execution rt \<noteq> k"
proof
  assume "rtr_execution rt = k"
  with assms(2) obtain rt' where "rt' \<in> set (cdb_runtime s)" "rtr_execution rt' = rtr_execution rt" "rtr_state rt' = ''ACTIVE''"
    by (auto simp: active_runtime_def)
  with assms(1,3) have "rt' = rt" unfolding controls_ok_def by (metis distinct_map inj_onD)
  with \<open>rtr_state rt' = ''ACTIVE''\<close> assms(4) show False by simp
qed

lemma filter_update_other:
  assumes "\<And>r. r \<in> set rows \<Longrightarrow> P r \<Longrightarrow> \<not> Q r \<and> \<not> Q (f r)"
  shows "filter Q (update_rows P f rows) = filter Q rows"
  using assms by (induction rows) (auto simp: update_rows_def)

lemma active_change_kept:
  fixes s s' :: "'z codex_db_scheme"
  assumes "cdb_runtime s' = cdb_runtime s" and "active_runtime k s"
    and "controls_ok s \<Longrightarrow> distinct (map ctl_id (cdb_controls s'))"
    and "controls_ok s \<Longrightarrow> \<forall>r \<in> set (cdb_controls s). \<exists>r' \<in> set (cdb_controls s'). control_kept r r'"
    and "\<And>k'. controls_ok s \<Longrightarrow> k' \<noteq> k \<Longrightarrow> filter (of_execution k') (cdb_controls s') = filter (of_execution k') (cdb_controls s)"
  shows "controls_kept s s'"
  unfolding controls_kept_def
proof (intro impI conjI)
  assume ok: "controls_ok s"
  have "transcribed (cdb_controls s') rt t" if "rt \<in> set (cdb_runtime s)" "rtr_state rt = ''SEALED''" "transcribed (cdb_controls s) rt t" for rt t
    using that(3) assms(5) [OF ok sealed_other [OF ok assms(2) that(1,2)]] by (simp add: transcribed_def)
  with ok assms(1) assms(3) [OF ok] show "controls_ok s'" unfolding controls_ok_def by metis
qed (use assms in \<open>simp_all\<close>)

lemma update_by_id_kept:
  fixes s s' :: "'z codex_db_scheme"
  assumes "cdb_runtime s' = cdb_runtime s" and "active_runtime k s" and "r \<in> set (cdb_controls s)" and "of_execution k r"
    and "cdb_controls s' = update_rows (\<lambda>y. ctl_id y = ctl_id r) f (cdb_controls s)" and "control_kept r (f r)"
  shows "controls_kept s s'"
proof (rule active_change_kept [OF assms(1,2)])
  assume ok: "controls_ok s"
  then have uniq: "y = r" if "y \<in> set (cdb_controls s)" "ctl_id y = ctl_id r" for y
    using that assms(3) unfolding controls_ok_def by (metis distinct_map inj_onD)
  have fid: "ctl_id (f r) = ctl_id r" "ctl_execution (f r) = ctl_execution r" using assms(6) by (simp_all add: control_kept_def control_identity_eq)
  have "map ctl_id (cdb_controls s') = map ctl_id (cdb_controls s)" unfolding assms(5)
    using uniq fid by (auto simp: update_rows_def)
  with ok show "distinct (map ctl_id (cdb_controls s'))" by (simp add: controls_ok_def)
  show "\<forall>y \<in> set (cdb_controls s). \<exists>y' \<in> set (cdb_controls s'). control_kept y y'"
  proof
    fix y assume y: "y \<in> set (cdb_controls s)"
    show "\<exists>y' \<in> set (cdb_controls s'). control_kept y y'"
      using y uniq [OF y] assms(6) unfolding assms(5)
      by (intro bexI [of _ "if ctl_id y = ctl_id r then f y else y"]) (auto simp: update_rows_def)
  qed
  show "filter (of_execution k') (cdb_controls s') = filter (of_execution k') (cdb_controls s)" if "k' \<noteq> k" for k'
    unfolding assms(5)
  proof (rule filter_update_other)
    fix y assume "y \<in> set (cdb_controls s)" and "ctl_id y = ctl_id r"
    then have "y = r" by (rule uniq)
    with fid assms(4) that show "\<not> of_execution k' y \<and> \<not> of_execution k' (f y)" by (simp add: of_execution_def)
  qed
qed

section \<open>What the operations do to the controls\<close>

lemma lockControlRuntime_effect:
  assumes "lockControlRuntime b v n s = (Inr rt, n', s')"
  shows "s' = s \<and> n' = Suc n \<and> (\<exists>row \<in> set (cdb_runtime s). rtr_execution row = xtok_ID (cbn_Token b) \<and> rtr_binding row = Some b
     \<and> rtr_state row = crt_State rt \<and> rtr_transcript row = map_option Some (crt_Transcript rt)
     \<and> (crt_State rt = ''SEALED'' \<longleftrightarrow> crt_Transcript rt \<noteq> None) \<and> crt_State rt \<in> {''ACTIVE'', ''SEALED''})"
proof -
  from assms have r: "read_runtime (xtok_ID (cbn_Token b)) v n s = (Inr rt, n', s')" "crt_Binding rt = b"
    unfolding lockControlRuntime_def by auto
  from r(1) have s': "s' = s" "n' = Suc n"
    and c: "controlRuntime (we_rfc3339 v) (find (\<lambda>r. rtr_execution r = xtok_ID (cbn_Token b)) (cdb_runtime s)) = Inr rt"
    unfolding read_runtime_Inr by blast+
  from c [unfolded controlRuntime_Inr] r(2) obtain row where row: "find (\<lambda>r. rtr_execution r = xtok_ID (cbn_Token b)) (cdb_runtime s) = Some row"
    "rtr_binding row = Some b" "rtr_state row = crt_State rt" "rtr_transcript row = map_option Some (crt_Transcript rt)"
    "crt_State rt = ''SEALED'' \<longleftrightarrow> crt_Transcript rt \<noteq> None" "crt_State rt \<in> {''ACTIVE'', ''SEALED''}" by auto
  from find_member [OF row(1)] row s' show ?thesis by blast
qed

lemma scanControl_Inr:
  "scanControl found = Inr d \<longleftrightarrow>
     (\<exists>r p. found = Some r \<and> ctl_payload r = Some p \<and> ControlDelivery_Validate d = None
        \<and> d = \<lparr>cdl_Command = control_command r, cdl_Payload = p, cdl_State = ctl_state r,
               cdl_DispatchedAt = ctl_dispatched r, cdl_ResolvedAt = ctl_resolved r\<rparr>)"
  by (auto simp: scanControl_def Let_def split: option.splits)

lemma update_control_Inr:
  "update_control k f v n s = (Inr d, n', s') \<longleftrightarrow>
     we_ctx v n = None \<and> n' = Suc n \<and> scanControl (map_option (f (we_clock v n)) (find (\<lambda>r. ctl_id r = k) (cdb_controls s))) = Inr d
     \<and> s' = update_controls (\<lambda>r. ctl_id r = k) (f (we_clock v n)) s"
  by (auto simp: update_control_def split: sum.splits)

lemma next_queued_Some:
  assumes "next_queued k rows = Some r"
  shows "r \<in> set rows" "of_execution k r" "ctl_state r = ControlQueued"
    "\<forall>y \<in> set rows. of_execution k y \<longrightarrow> ctl_state y = ControlQueued \<longrightarrow> ctl_sequence r \<le> ctl_sequence y"
proof -
  let ?qs = "filter (\<lambda>r. of_execution k r \<and> ctl_state r = ControlQueued) rows"
  from assms obtain rs where sorted: "sort_key ctl_sequence ?qs = r # rs" by (auto simp: next_queued_def split: list.splits)
  then have mem: "set ?qs = set (r # rs)" by (metis set_sort)
  then show "r \<in> set rows" "of_execution k r" "ctl_state r = ControlQueued" by auto
  have "sorted (map ctl_sequence (r # rs))" using sorted by (metis sorted_sort_key)
  then have "ctl_sequence r \<le> ctl_sequence y" if "y \<in> set ?qs" for y using that unfolding mem by auto
  then show "\<forall>y \<in> set rows. of_execution k y \<longrightarrow> ctl_state y = ControlQueued \<longrightarrow> ctl_sequence r \<le> ctl_sequence y" by simp
qed

lemma audited_controls: "audited event runID payload s s' \<Longrightarrow> cdb_controls s' = cdb_controls s \<and> cdb_runtime s' = cdb_runtime s"
  by (auto simp: audited_def log_event_def)

text \<open>A claimed command: queued before, first of its execution, alone in flight, dispatched now.\<close>

definition dispatches :: "ControlBinding \<Rightarrow> control_row \<Rightarrow> gotime \<Rightarrow> 'z codex_db_scheme \<Rightarrow> 'z codex_db_scheme \<Rightarrow> bool" where
  "dispatches b r now s s' \<longleftrightarrow>
     (let k = xtok_ID (cbn_Token b) in
      active_runtime k s \<and> next_queued k (cdb_controls s) = Some r \<and> ctl_dispatched r = None
      \<and> \<not> list_ex (\<lambda>r. of_execution k r \<and> pending_control r) (cdb_controls s)
      \<and> cdb_controls s' = update_rows (\<lambda>y. ctl_id y = ctl_id r) (dispatched_row now) (cdb_controls s) \<and> cdb_runtime s' = cdb_runtime s)"

lemma claim_control_effect:
  assumes "claim_control subject b v n s = (Inr d, n', s')"
  shows "d = Rollback None \<and> s' = s
     \<or> (\<exists>r now c. d = Commit (Some c) \<and> dispatches b r now s s' \<and> cmd_ID (cdl_Command c) = ctl_id r
          \<and> (\<exists>n1 row inbox. lockCodex subject (cbn_Token b) True v n s = (Inr (row, inbox), n1, s)))"
proof -
  let ?k = "xtok_ID (cbn_Token b)"
  from assms obtain row inbox n1 s1 rt n2 s2 where
      l: "lockCodex subject (cbn_Token b) True v n s = (Inr (row, inbox), n1, s1)"
    and r: "lockControlRuntime b v n1 s1 = (Inr rt, n2, s2)" "crt_State rt = ''ACTIVE''"
    and idle: "\<not> list_ex (\<lambda>r. of_execution ?k r \<and> pending_control r) (cdb_controls s2)"
    and rest: "(case scanControl (next_queued ?k (cdb_controls s2)) of
         Inl e \<Rightarrow> if errors_Is e ErrNotFound then tx_return (Rollback None) else tx_fail e
       | Inr d \<Rightarrow> dispatch_control b d) v (Suc (Suc n2)) s2 = (Inr d, n', s') \<or> s' = s2 \<and> d = Rollback None"
    unfolding claim_control_def by (auto simp: tx_try_eq tx_read_def split: option.splits sum.splits if_splits)
  have s1: "s1 = s" using read_onlyD [OF read_only_codex(1) l] .
  from lockControlRuntime_effect [OF r(1)] r(2) s1 have s2: "s2 = s" and act: "active_runtime ?k s" unfolding active_runtime_def by auto
  show ?thesis
  proof (cases "scanControl (next_queued ?k (cdb_controls s2))")
    case (Inl e)
    with rest s2 show ?thesis by (auto split: if_splits)
  next
    case (Inr d0)
    with rest s2 consider "s' = s" "d = Rollback None" | "dispatch_control b d0 v (Suc (Suc n2)) s = (Inr d, n', s')" by auto
    then show ?thesis
    proof cases
      case 2
      then obtain c n3 s3 ev n4 where upd: "update_control (cmd_ID (cdl_Command d0)) dispatched_row v (Suc (Suc n2)) s = (Inr c, n3, s3)"
        and log: "workerAudit ''steering.dispatching'' (xtok_RunID (cbn_Token b)) (ControlDelivery_json (we_rfc3339 v) c) v n3 s3 = (Inr ev, n4, s')"
        and d: "d = Commit (Some c)" unfolding dispatch_control_def by auto
      from Inr s2 obtain q where q: "next_queued ?k (cdb_controls s) = Some q" "cmd_ID (cdl_Command d0) = ctl_id q"
        "ControlDelivery_Validate d0 = None" "cdl_State d0 = ctl_state q" "cdl_DispatchedAt d0 = ctl_dispatched q"
        unfolding scanControl_Inr by (auto simp: control_command_def)
      from q(3-5) next_queued_Some(3) [OF q(1)] have none: "ctl_dispatched q = None"
        by (auto simp: ControlDelivery_Validate_def delivery_outcome_def Let_def split: if_splits)
      from upd q(2) have s3: "s3 = update_controls (\<lambda>y. ctl_id y = ctl_id q) (dispatched_row (we_clock v (Suc (Suc n2)))) s"
        and sc: "scanControl (map_option (dispatched_row (we_clock v (Suc (Suc n2)))) (find (\<lambda>r. ctl_id r = ctl_id q) (cdb_controls s))) = Inr c"
        unfolding update_control_Inr by simp_all
      from sc have cid: "cmd_ID (cdl_Command c) = ctl_id q" unfolding scanControl_Inr
        using find_member by (fastforce simp: control_command_def dispatched_row_def)
      from audited_controls [OF workerAudit_audited [OF log]] s3 act q(1) none idle s2
      have "dispatches b q (we_clock v (Suc (Suc n2))) s s'" by (simp add: dispatches_def Let_def update_controls_def)
      with d cid l s1 show ?thesis by (intro disjI2 exI [of _ q] exI [of _ "we_clock v (Suc (Suc n2))"] exI [of _ c]) auto
    qed simp
  qed
qed

lemma dispatches_kept:
  assumes "dispatches b r now s s'"
  shows "controls_kept s s'"
proof -
  from assms have a: "active_runtime (xtok_ID (cbn_Token b)) s" "next_queued (xtok_ID (cbn_Token b)) (cdb_controls s) = Some r"
    "cdb_controls s' = update_rows (\<lambda>y. ctl_id y = ctl_id r) (dispatched_row now) (cdb_controls s)" "cdb_runtime s' = cdb_runtime s"
    "ctl_dispatched r = None" by (simp_all add: dispatches_def Let_def)
  have "control_kept r (dispatched_row now r)" using next_queued_Some(3) [OF a(2)] a(5)
    by (simp add: control_kept_def control_identity_eq dispatched_row_def control_future_def)
  then show ?thesis by (rule update_by_id_kept [OF a(4,1) next_queued_Some(1,2) [OF a(2)] a(3)])
qed

lemma settle_kept:
  assumes "settle_control subject r v n s = (Inr d, n', s')"
  shows "controls_kept s s'"
proof -
  let ?k = "xtok_ID (cbn_Token (cst_Binding r))"
  from assms obtain row inbox n1 s1 rt n2 s2 d0 where
      l: "lockCodex subject (cbn_Token (cst_Binding r)) False v n s = (Inr (row, inbox), n1, s1)"
    and rt: "lockControlRuntime (cst_Binding r) v n1 s1 = (Inr rt, n2, s2)"
    and d0: "scanControl (find (\<lambda>y. ctl_id y = cst_ID r \<and> of_execution ?k y) (cdb_controls s2)) = Inr d0"
    and out: "outcome_allowed (cst_Outcome r) (cpl_Kind (cdl_Payload d0))"
    and rest: "s' = s2 \<or> crt_State rt = ''ACTIVE'' \<and> cdl_State d0 = ControlDispatching
       \<and> (\<exists>c n3 s3 ev n4. update_control (cst_ID r) (settled_control (cst_Outcome r)) v (Suc n2) s2 = (Inr c, n3, s3)
            \<and> workerAudit ''steering.observed'' (xtok_RunID (cbn_Token (cst_Binding r))) (ControlDelivery_json (we_rfc3339 v) c) v n3 s3 = (Inr ev, n4, s'))"
    unfolding settle_control_def Let_def by (auto split: if_splits)
  have s1: "s1 = s" using read_onlyD [OF read_only_codex(1) l] .
  from lockControlRuntime_effect [OF rt] s1 have s2: "s2 = s" and act: "crt_State rt = ''ACTIVE'' \<Longrightarrow> active_runtime ?k s"
    unfolding active_runtime_def by auto
  from rest s2 consider "s' = s" | c n3 s3 ev n4 where "crt_State rt = ''ACTIVE''" "cdl_State d0 = ControlDispatching"
    "update_control (cst_ID r) (settled_control (cst_Outcome r)) v (Suc n2) s = (Inr c, n3, s3)"
    "workerAudit ''steering.observed'' (xtok_RunID (cbn_Token (cst_Binding r))) (ControlDelivery_json (we_rfc3339 v) c) v n3 s3 = (Inr ev, n4, s')"
    by blast
  then show ?thesis
  proof cases
    case 2
    from d0 s2 obtain y where y: "find (\<lambda>y. ctl_id y = cst_ID r \<and> of_execution ?k y) (cdb_controls s) = Some y" "ctl_state y = cdl_State d0"
      unfolding scanControl_Inr by auto
    from find_member [OF y(1)] have m: "y \<in> set (cdb_controls s)" "ctl_id y = cst_ID r" "of_execution ?k y" by blast+
    have same: "cdb_controls s' = update_rows (\<lambda>z. ctl_id z = ctl_id y) (settled_control (cst_Outcome r) (we_clock v (Suc n2))) (cdb_controls s)"
      "cdb_runtime s' = cdb_runtime s"
      using audited_controls [OF workerAudit_audited [OF 2(4)]] 2(3) m(2) unfolding update_control_Inr by (auto simp: update_controls_def)
    have "control_kept y (settled_control (cst_Outcome r) (we_clock v (Suc n2)) y)"
      using out y(2) 2(2) by (auto simp: control_kept_def control_identity_eq settled_control_def control_future_def outcome_allowed_def control_names)
    then show ?thesis by (rule update_by_id_kept [OF same(2) act [OF 2(1)] m(1,3) same(1)])
  qed (simp add: controls.refl)
qed

lemma same_controls_kept: "cdb_controls s' = cdb_controls s \<Longrightarrow> cdb_runtime s' = cdb_runtime s \<Longrightarrow> controls_kept s s'"
  unfolding controls_kept_def controls_ok_def by (auto intro: control_kept_refl)

lemma recorded_steering_kept:
  assumes "records_steering new s s'" and "cdb_runtime s' = cdb_runtime s"
  shows "controls_kept s s'"
proof -
  have "filter (of_execution k) (cdb_controls s') = filter (of_execution k) (cdb_controls s)" for k
    using assms(1) by (auto simp: records_steering_def of_execution_def filter_empty_conv)
  then have same: "transcribed (cdb_controls s') rt t \<longleftrightarrow> transcribed (cdb_controls s) rt t" for rt t by (simp add: transcribed_def)
  have ids: "distinct (map ctl_id (cdb_controls s))" if "controls_ok s" using that by (simp add: controls_ok_def)
  have "distinct (map ctl_id (cdb_controls s'))" if "controls_ok s"
    using ids [OF that] assms(1) by (auto simp: records_steering_def) (metis imageI)
  moreover have "\<forall>r \<in> set (cdb_controls s). \<exists>r' \<in> set (cdb_controls s'). control_kept r r'"
    using assms(1) by (auto simp: records_steering_def intro: control_kept_refl)
  ultimately show ?thesis unfolding controls_kept_def using assms(2) same by (simp add: controls_ok_def)
qed

lemma audit_controls_kept: "tx_keeps controls_kept (workerAudit event runID payload)"
  using audited_controls [OF workerAudit_audited] by (blast intro: tx_keepsI same_controls_kept)

lemma bound_kept:
  assumes "\<forall>r \<in> set (cdb_runtime s). rtr_execution r \<noteq> rtr_execution new" and "rtr_state new = ''ACTIVE''"
  shows "controls_kept s (s\<lparr>cdb_runtime := cdb_runtime s @ [new]\<rparr>)"
  using assms unfolding controls_kept_def controls_ok_def by (auto intro: control_kept_refl)

lemma bind_kept: "tx_keeps controls_kept (bind_body subject b)"
proof -
  note reads = read_only_codex [THEN controls.keeps_read_only] read_only_try [THEN controls.keeps_read_only, OF read_only_runtime]
  show ?thesis unfolding bind_body_def
    by (intro controls.keeps_intros reads audit_controls_kept controls.keeps_write) (auto simp: list_ex_iff intro!: bound_kept)
qed

lemma inserted_kept:
  assumes "insert_control r s = Inr (u, s')" and "ctl_execution r = Some k" and "active_runtime k s"
  shows "controls_kept s s'"
proof -
  from assms(1) have s': "s' = s\<lparr>cdb_controls := cdb_controls s @ [r]\<rparr>" and new: "\<forall>y \<in> set (cdb_controls s). ctl_id y \<noteq> ctl_id r"
    by (auto simp: insert_control_def list_ex_iff)
  show ?thesis
  proof (rule active_change_kept [OF _ assms(3)])
    show "controls_ok s \<Longrightarrow> distinct (map ctl_id (cdb_controls s'))" using new by (auto simp: s' controls_ok_def)
    show "\<forall>r \<in> set (cdb_controls s). \<exists>r' \<in> set (cdb_controls s'). control_kept r r'" by (auto simp: s' intro: control_kept_refl)
    show "k' \<noteq> k \<Longrightarrow> filter (of_execution k') (cdb_controls s') = filter (of_execution k') (cdb_controls s)" for k'
      using assms(2) by (simp add: s' of_execution_def)
  qed (simp add: s')
qed

lemma session_kept: "tx_keeps controls_kept (tx_write (\<lambda>_. steer_session runID i))" "tx_keeps controls_kept (tx_write (\<lambda>_. bump_run runID))"
  by (rule controls.keeps_write; auto dest!: steer_session_Inr bump_run_Inr intro!: same_controls_kept)+

lemma queue_new_kept:
  fixes s s' :: "'z codex_db_scheme"
  assumes "queue_new runID kind i v n s = (Inr d, n', s')"
  shows "controls_kept s s'"
proof -
  let ?b = "\<lambda>row :: (CodexProfile, CodexReceipt) execution.
     \<lparr>cbn_Token = xr_token row, cbn_ExecutionEpoch = cin_ExecutionEpoch i, cbn_ThreadID = cin_ThreadID i, cbn_TurnID = cin_TurnID i\<rparr>"
  from assms obtain row x inbox n1 s1 n2 rt n3 s3 where
      l: "lockCodex (xr_worker row) (xr_token row) True v n1 s = (Inr (x, inbox), n2, s1)"
    and rt': "lockControlRuntime (?b row) v n2 s1 = (Inr rt, n3, s3)" "crt_State rt = ''ACTIVE''"
    and rec': "record_control runID kind (?b row) i v (Suc n3) s3 = (Inr d, n', s')"
    unfolding queue_new_def Let_def by auto
  define b where "b = ?b row"
  note rt = rt' [folded b_def] and rec = rec' [folded b_def]
  from read_onlyD [OF read_only_codex(1) l] lockControlRuntime_effect [OF rt(1)] rt(2)
  have s3: "s3 = s" and act: "active_runtime (xtok_ID (cbn_Token b)) s" unfolding active_runtime_def by auto
  let ?tail = "\<lambda>now. tx_bind (tx_write (\<lambda>_. steer_session runID i)) (\<lambda>_. tx_bind (tx_write (\<lambda>_. bump_run runID)) (\<lambda>_.
     tx_bind (tx_env we_rfc3339) (\<lambda>rfc3339.
     tx_bind (workerAudit ''steering.queued'' runID (ControlDelivery_json rfc3339 (queued_delivery runID kind b i now))) (\<lambda>_.
     tx_return (Commit (queued_delivery runID kind b i now))))))"
  from iffD1 [OF tx_bind_Inr rec [unfolded s3 record_control_def]] obtain now n4 where
    t: "tx_bind (tx_write (\<lambda>_. insert_control (queued_row runID kind b i now))) (\<lambda>_. ?tail now) v n4 s = (Inr d, n', s')"
    unfolding tx_read_Inr by blast
  from iffD1 [OF tx_bind_Inr t] obtain u s4 n5 where ins: "insert_control (queued_row runID kind b i now) s = Inr (u, s4)"
    and rest: "?tail now v n5 s4 = (Inr d, n', s')" unfolding tx_write_Inr by blast
  have "controls_kept s4 s'" by (rule tx_keepsD [where m = "?tail now", OF _ rest]) (intro controls.keeps_intros audit_controls_kept session_kept)
  moreover have "controls_kept s s4" by (rule inserted_kept [OF ins _ act]) (simp add: queued_row_def Let_def)
  ultimately show ?thesis by (metis controls.trans)
qed

lemma queue_kept: "tx_keeps controls_kept (queue_body runID kind i)"
proof -
  have new: "tx_keeps controls_kept (queue_new runID kind i)" by (rule tx_keepsI) (rule queue_new_kept)
  show ?thesis unfolding queue_body_def
    by (intro controls.keeps_intros new read_only_try [THEN controls.keeps_read_only, OF read_only_codex(3)])
qed

lemma scan_controls_length: "scan_controls rows = Inr ds \<Longrightarrow> length ds = length rows"
  by (induction rows arbitrary: ds) (auto split: sum.splits)

text \<open>Closing: the open commands of the execution are resolved and the transcript lists them all.\<close>

definition seals :: "ControlClose \<Rightarrow> ControlTranscript \<Rightarrow> 'z codex_db_scheme \<Rightarrow> 'z codex_db_scheme \<Rightarrow> bool" where
  "seals c t s s' \<longleftrightarrow>
     (let k = xtok_ID (cbn_Token (ccl_Binding c)) in
      active_runtime k s \<and> ctr_Close t = c
      \<and> (\<exists>now. cdb_controls s' = update_rows (open_control k) (closed_row (ccl_TurnStatus c) now) (cdb_controls s))
      \<and> (\<exists>digest. cdb_runtime s' = update_rows (\<lambda>r. rtr_execution r = k) (seal_row t digest) (cdb_runtime s))
      \<and> scan_controls (sort_key ctl_sequence (filter (of_execution k) (cdb_controls s'))) = Inr (elems (ctr_Deliveries t)))"

lemma closed_row_kept: "open_control k r \<Longrightarrow> control_kept r (closed_row status now r)"
  by (auto simp: open_control_def control_kept_def control_identity_eq closed_row_def control_future_def control_names)

lemma seals_kept:
  fixes s s' :: "'z codex_db_scheme"
  assumes "seals c t s s'"
  shows "controls_kept s s'"
proof -
  let ?k = "xtok_ID (cbn_Token (ccl_Binding c))"
  from assms obtain now digest where act: "active_runtime ?k s"
    and ctl: "cdb_controls s' = update_rows (open_control ?k) (closed_row (ccl_TurnStatus c) now) (cdb_controls s)"
    and rt: "cdb_runtime s' = update_rows (\<lambda>r. rtr_execution r = ?k) (seal_row t digest) (cdb_runtime s)"
    and scan: "scan_controls (sort_key ctl_sequence (filter (of_execution ?k) (cdb_controls s'))) = Inr (elems (ctr_Deliveries t))"
    by (auto simp: seals_def Let_def)
  let ?mid = "s\<lparr>cdb_controls := cdb_controls s'\<rparr>"
  have ids: "map ctl_id (cdb_controls s') = map ctl_id (cdb_controls s)" by (simp add: ctl update_rows_def closed_row_def)
  have mid: "controls_kept s ?mid"
  proof (rule active_change_kept [OF _ act])
    show "controls_ok s \<Longrightarrow> distinct (map ctl_id (cdb_controls ?mid))" using ids by (simp add: controls_ok_def)
    show "\<forall>r \<in> set (cdb_controls s). \<exists>r' \<in> set (cdb_controls ?mid). control_kept r r'"
    proof
      fix r assume "r \<in> set (cdb_controls s)"
      then show "\<exists>r' \<in> set (cdb_controls ?mid). control_kept r r'"
        by (intro bexI [of _ "if open_control ?k r then closed_row (ccl_TurnStatus c) now r else r"]) (auto simp: ctl update_rows_def closed_row_kept)
    qed
    show "k' \<noteq> ?k \<Longrightarrow> filter (of_execution k') (cdb_controls ?mid) = filter (of_execution k') (cdb_controls s)" for k'
      by (simp add: ctl) (rule filter_update_other, auto simp: open_control_def of_execution_def closed_row_def)
  qed simp
  have "controls_kept ?mid s'" unfolding controls_kept_def
  proof (intro impI conjI)
    assume ok: "controls_ok ?mid"
    have act': "active_runtime ?k ?mid" using act by (simp add: active_runtime_def)
    have other: "rt' \<in> set (cdb_runtime s')" if "rt' \<in> set (cdb_runtime ?mid)" "rtr_state rt' = ''SEALED''" for rt'
      using sealed_other [OF ok act' that] that(1) by (auto simp: rt update_rows_def)
    then show "\<forall>rt' \<in> set (cdb_runtime ?mid). rtr_state rt' = ''SEALED'' \<longrightarrow> rt' \<in> set (cdb_runtime s')" by blast
    have "\<exists>t. transcribed (cdb_controls s') rt' t" if m: "rt' \<in> set (cdb_runtime s')" "rtr_state rt' = ''SEALED''" for rt'
    proof (cases "rtr_execution rt' = ?k")
      case True
      with m have "rtr_transcript rt' = Some (Some t)" by (auto simp: rt update_rows_def seal_row_def)
      with scan True show ?thesis by (auto simp: transcribed_def)
    next
      case False
      with m have "rt' \<in> set (cdb_runtime ?mid)" by (auto simp: rt update_rows_def seal_row_def split: if_splits)
      with ok m(2) show ?thesis by (auto simp: controls_ok_def)
    qed
    moreover have "map rtr_execution (cdb_runtime s') = map rtr_execution (cdb_runtime s)" by (simp add: rt update_rows_def seal_row_def)
    ultimately show "controls_ok s'" using ok unfolding controls_ok_def by simp
  qed (auto intro: control_kept_refl)
  with mid show ?thesis by (rule controls.trans)
qed

lemma close_control_effect:
  assumes "close_control subject c v n s = (Inr d, n', s')"
  shows "(\<exists>t. d = Rollback t \<and> s' = s \<and> ctr_Close t = c
            \<and> (\<exists>rt \<in> set (cdb_runtime s). rtr_execution rt = xtok_ID (cbn_Token (ccl_Binding c)) \<and> rtr_state rt = ''SEALED''
                 \<and> rtr_transcript rt = Some (Some t)))
     \<or> (\<exists>t. d = Commit t \<and> seals c t s s')"
proof -
  let ?k = "xtok_ID (cbn_Token (ccl_Binding c))"
  from assms obtain row inbox n1 s1 rt n2 s2 where
      l: "lockCodex subject (cbn_Token (ccl_Binding c)) False v n s = (Inr (row, inbox), n1, s1)"
    and rt: "lockControlRuntime (ccl_Binding c) v n1 s1 = (Inr rt, n2, s2)"
    and rest: "(case (if crt_State rt = ''SEALED'' then crt_Transcript rt else None) of
       Some t \<Rightarrow> tx_guard (ctr_Close t \<noteq> c) ErrConflict (tx_return (Rollback t))
     | None \<Rightarrow> seal_controls c) v n2 s2 = (Inr d, n', s')"
    unfolding close_control_def by auto
  have s1: "s1 = s" using read_onlyD [OF read_only_codex(1) l] .
  from lockControlRuntime_effect [OF rt] s1 obtain r where s2: "s2 = s" and r: "r \<in> set (cdb_runtime s)" "rtr_execution r = ?k"
    "rtr_state r = crt_State rt" "rtr_transcript r = map_option Some (crt_Transcript rt)"
    "crt_State rt = ''SEALED'' \<longleftrightarrow> crt_Transcript rt \<noteq> None" "crt_State rt \<in> {''ACTIVE'', ''SEALED''}" by blast
  show ?thesis
  proof (cases "crt_Transcript rt")
    case (Some t)
    with r rest s2 show ?thesis by (auto split: if_splits)
  next
    case None
    with r have act: "active_runtime ?k s" by (auto simp: active_runtime_def)
    have "seal_controls c v n2 s = (Inr d, n', s')" using rest unfolding None s2 by (simp split: if_splits)
    then obtain ds digest ev m where
        scan: "scan_controls (sort_key ctl_sequence (filter (of_execution ?k)
          (cdb_controls (update_controls (open_control ?k) (closed_row (ccl_TurnStatus c) (we_clock v n2)) s)))) = Inr ds"
      and log: "workerAudit ''worker.codex.controls-sealed'' (xtok_RunID (cbn_Token (ccl_Binding c)))
          (ControlTranscript_json (we_rfc3339 v) \<lparr>ctr_Version = 2, ctr_Close = c, ctr_Deliveries = Slice ds\<rparr>) v m
          ((update_controls (open_control ?k) (closed_row (ccl_TurnStatus c) (we_clock v n2)) s)\<lparr>cdb_runtime :=
             update_rows (\<lambda>r. rtr_execution r = ?k) (seal_row \<lparr>ctr_Version = 2, ctr_Close = c, ctr_Deliveries = Slice ds\<rparr> digest) (cdb_runtime s)\<rparr>)
          = (Inr ev, n', s')" and d: "d = Commit \<lparr>ctr_Version = 2, ctr_Close = c, ctr_Deliveries = Slice ds\<rparr>"
      unfolding seal_controls_def Let_def by (auto simp: update_controls_def)
    from audited_controls [OF workerAudit_audited [OF log]] scan act d show ?thesis
      by (auto simp: seals_def Let_def update_controls_def)
  qed
qed

section \<open>Histories of controls\<close>

definition control_tables :: "'z codex_db_scheme \<Rightarrow> control_row list \<times> runtime_row list" where
  "control_tables s = (cdb_controls s, cdb_runtime s)"

lemma control_tables_frame:
  "control_tables (edb_offline_update f s) = control_tables s" "control_tables (edb_codex_update g s) = control_tables s"
  "\<forall>s s' :: 'z codex_db_scheme. same_extension s s' \<longrightarrow> control_tables s' = control_tables s"
  by (auto simp: control_tables_def extension_tables)

lemma checkpoint_controls: "tx_keeps (same_of control_tables) (checkpoint_body subject k digest)"
proof -
  note reads = read_only_codex [THEN same_of.keeps_read_only] read_only_worker [THEN same_of.keeps_read_only] read_only_load_preparation [THEN same_of.keeps_read_only]
  show ?thesis unfolding checkpoint_body_def retain_checkpoint_def Let_def
    by (intro same_of.keeps_intros reads audit_frame control_tables_frame(3) [rule_format] same_of.keeps_write) (auto simp: same_of_def control_tables_def)
qed

lemma step_controls_kept:
  assumes "exec_step s s'"
  shows "controls_kept s s'"
proof -
  have same: "control_tables s' = control_tables s \<Longrightarrow> controls_kept s s'" by (auto simp: control_tables_def intro: same_controls_kept)
  note off = offline_frame [where g = control_tables, OF control_tables_frame(1,3), THEN same]
  note cod = codex_frame [where g = control_tables, OF control_tables_frame(2,3), THEN same]
  from assms show ?thesis
  proof cases
    case elsewhere_step
    then show ?thesis using recorded_steering_kept by (auto simp: elsewhere_def)
  next
    case continue_step
    then show ?thesis by (simp add: continues_def same_controls_kept)
  next
    case bind_step
    then show ?thesis using controls.keeps_run [OF bind_kept] by (auto simp: BindCodexControl_def controls.refl split: if_splits)
  next
    case queue_step
    then show ?thesis using controls.keeps_run [OF queue_kept] by (auto simp: QueueCodexControl_def controls.refl split: if_splits)
  next
    case (claim_step v subject b qk)
    then show ?thesis unfolding ClaimCodexControl_def
      by (rule controls.checked_run [rotated]) (use claim_control_effect dispatches_kept in blast)
  next
    case settle_step
    then show ?thesis unfolding SettleCodexControl_def by (rule controls.checked_run [rotated]) (rule settle_kept)
  next
    case (close_step v subject c ql)
    have body: "controls_kept s s2" if "close_control subject c v 1 s = (Inr (Commit t), n, s2)" for t n s2
      using close_control_effect [OF that] seals_kept by auto
    from close_step show ?thesis using controls.checked_run [OF body] by (auto simp: CloseCodexControl_def controls.refl split: if_splits)
  next
    case (checkpoint_step v subject k qs)
    then consider "s' = s" | digest where "run_tx (checkpoint_body subject k digest) v s = (qs, s')"
      by (auto simp: SaveCodexCheckpoint_def split: sum.splits)
    then show ?thesis
    proof cases
      case 2
      from same_of.keeps_run [OF checkpoint_controls 2] show ?thesis by (intro same) (simp add: same_of_def)
    qed (simp add: controls.refl)
  next
    case reconcile_step
    then show ?thesis by (intro same reconcile_frame [OF control_tables_frame])
  qed (erule off cod)+
qed

lemma steps_controls_kept: "exec_steps s s' \<Longrightarrow> controls_kept s s'"
  by (induction rule: exec_steps.induct) (auto intro: controls.refl controls.trans step_controls_kept)

text \<open>From empty tables every history keeps the controls well-formed.\<close>

lemma history_controls_ok:
  assumes "exec_steps s0 s" and "cdb_controls s0 = []" and "cdb_runtime s0 = []"
  shows "controls_ok s"
proof -
  have "controls_ok s0" using assms(2,3) by (simp add: controls_ok_def)
  with steps_controls_kept [OF assms(1)] show ?thesis by (simp add: controls_kept_def)
qed



text \<open>
  C20. Sealed controls are final. In every history from empty tables, once closing the controls of an execution answered with a transcript,
  the transcript is of the closure that was asked for, and in every later state the execution is sealed with exactly that transcript and
  its commands in sequence order are exactly the deliveries the transcript lists: none is added,
  changed or lost.
\<close>

theorem sealed_controls_are_final:
  assumes "exec_steps s0 s" and "cdb_controls s0 = []" and "cdb_runtime s0 = []"
    and "CloseCodexControl v subject c s = (Inr t, s1)" and "exec_steps s1 s2"
  shows "ctr_Close t = c
     \<and> (\<exists>rt \<in> set (cdb_runtime s2). rtr_execution rt = xtok_ID (cbn_Token (ccl_Binding c)) \<and> rtr_state rt = ''SEALED'' \<and> rtr_transcript rt = Some (Some t))
     \<and> scan_controls (sort_key ctl_sequence (filter (\<lambda>r. ctl_execution r = Some (xtok_ID (cbn_Token (ccl_Binding c)))) (cdb_controls s2)))
         = Inr (elems (ctr_Deliveries t))"
proof -
  let ?k = "xtok_ID (cbn_Token (ccl_Binding c))"
  note ok0 = history_controls_ok [OF assms(1-3)]
  from assms(4) have "run_tx (close_control subject c) v s = (Inr t, s1)" by (auto simp: CloseCodexControl_def split: if_splits)
  then consider n s' where "close_control subject c v 1 s = (Inr (Rollback t), n, s')" "s1 = s"
    | n where "close_control subject c v 1 s = (Inr (Commit t), n, s1)" unfolding run_tx_Inr by blast
  then obtain rt where c: "ctr_Close t = c" and rt: "rt \<in> set (cdb_runtime s1)" "rtr_execution rt = ?k" "rtr_state rt = ''SEALED''" "rtr_transcript rt = Some (Some t)"
    and ok: "controls_ok s1"
  proof cases
    case 1
    from close_control_effect [OF 1(1)] 1(2) ok0 that show ?thesis by auto
  next
    case 2
    from close_control_effect [OF 2] have se: "seals c t s s1" by auto
    then obtain r digest where r: "r \<in> set (cdb_runtime s)" "rtr_execution r = ?k"
      and upd: "cdb_runtime s1 = update_rows (\<lambda>r. rtr_execution r = ?k) (seal_row t digest) (cdb_runtime s)" and cl: "ctr_Close t = c"
      by (auto simp: seals_def Let_def active_runtime_def)
    have "seal_row t digest r \<in> set (cdb_runtime s1)" using r unfolding upd by (rule update_rows_member)
    moreover have "controls_ok s1" using seals_kept [OF se] ok0 by (simp add: controls_kept_def)
    ultimately show ?thesis using cl r(2) by (intro that [of "seal_row t digest r"]) (simp_all add: seal_row_def)
  qed
  from steps_controls_kept [OF assms(5)] ok rt(1,3) have later: "controls_ok s2" "rt \<in> set (cdb_runtime s2)" by (simp_all add: controls_kept_def)
  from later rt(3) obtain t' where "transcribed (cdb_controls s2) rt t'" by (auto simp: controls_ok_def)
  then have "scan_controls (sort_key ctl_sequence (filter (of_execution ?k) (cdb_controls s2))) = Inr (elems (ctr_Deliveries t))"
    using rt(2,4) by (auto simp: transcribed_def)
  moreover have "of_execution ?k = (\<lambda>r. ctl_execution r = Some ?k)" by (auto simp: of_execution_def)
  ultimately show ?thesis using c rt later(2) by auto
qed

end
