(* ===== verification/CodexSample.thy ===== *)
theory CodexSample
  imports ControlHistory
begin

text \<open>
  A sample Codex execution, on which the properties of executions and of their live controls are
  applied: a worker holds one reservation, an operator steers it, and the turn completes.
\<close>

section \<open>The execution\<close>

definition cx_provider :: ProviderIdentity where
  "cx_provider = \<lparr>pid_Version = 1, pid_ProviderID = ProviderOpenAICodex, pid_CredentialMode = CredentialChatGPTSession,
     pid_ExecutionMode = ExecutionTrustedSelfHosted, pid_ProviderConfigDigest = OpenAICodexConfigDigest\<rparr>"

definition cx_profile :: CodexProfile where
  "cx_profile = \<lparr>cpf_Version = 3, cpf_Provider = cx_provider, cpf_CodexVersion = ''0.1.2'', cpf_BinaryDigest = BytesDigest ''bin'',
     cpf_QualificationDigest = BytesDigest ''qual'', cpf_EngineeringConfigDigest = EngineeringConfigDigest, cpf_Model = ''m'',
     cpf_Sandbox = ''workspace-write'', cpf_ApprovalPolicy = ''never'', cpf_ToolNetwork = False\<rparr>"

definition cx_token :: ExecToken where
  "cx_token = \<lparr>xtok_ID = HexEncodeToString (replicate 32 CHR ''n''), xtok_RunID = ''R-1'', xtok_WorkerProfile = ''wk'',
     xtok_ProfileDigest = Digest (CodexProfile_json cx_profile), xtok_RecoveryEpoch = 7\<rparr>"

definition cx_row :: "(CodexProfile, CodexReceipt) exec_row" where
  "cx_row = authorized_row 10 30 cx_token 1 ''w'' cx_profile (prc_FactsDigest lab_receipt)"

definition cx_execution :: "(CodexProfile, CodexReceipt) execution" where
  "cx_execution = \<lparr>xr_token = cx_token, xr_profile = cx_profile, xr_worker = ''w'', xr_preparation = prc_FactsDigest lab_receipt,
     xr_state = Authorized, xr_until = 10 + 30 * second, xr_receipt = None\<rparr>"

definition cx_binding :: ControlBinding where
  "cx_binding = \<lparr>cbn_Token = cx_token, cbn_ExecutionEpoch = 1, cbn_ThreadID = ''th'', cbn_TurnID = ''tu''\<rparr>"

definition cx_input :: ControlInput where
  "cx_input = \<lparr>cin_ID = ''c'', cin_ExecutionEpoch = 1, cin_Sequence = 1, cin_Actor = ''op'', cin_ThreadID = ''th'', cin_TurnID = ''tu'', cin_Text = ''go''\<rparr>"

definition cx_command :: control_row where
  "cx_command = queued_row ''R-1'' ControlSteer cx_binding cx_input 11"

definition cx_active :: runtime_row where
  "cx_active = \<lparr>rtr_execution = xtok_ID cx_token, rtr_binding = Some cx_binding, rtr_state = ''ACTIVE'', rtr_transcript = None, rtr_digest = None\<rparr>"

definition cx_db :: "nat list \<Rightarrow> (CodexProfile, CodexReceipt) exec_row list \<Rightarrow> runtime_row list \<Rightarrow> control_row list \<Rightarrow> codex_db" where
  "cx_db versions executions runtimes commands =
     \<lparr>wdb_outbox = wdb_outbox lab_exec_db, wdb_runs = wdb_runs lab_exec_db, wdb_sessions = wdb_sessions lab_exec_db,
      wdb_manifests = wdb_manifests lab_exec_db, wdb_tasks = wdb_tasks lab_exec_db, wdb_inbox = wdb_inbox lab_exec_db,
      wdb_workers = wdb_workers lab_exec_db, wdb_events = [], wdb_last_sequence = 0, wdb_last_digest = [], pdb_schema = versions,
      pdb_preparations = pdb_preparations lab_exec_db, edb_offline = [], edb_codex = executions, edb_deliveries = [],
      cdb_runtime = runtimes, cdb_controls = commands, cdb_checkpoints = []\<rparr>"

lemma cx_db_simps [simp]:
  "edb_offline (cx_db vs xs rs cs) = []" "edb_codex (cx_db vs xs rs cs) = xs" "cdb_runtime (cx_db vs xs rs cs) = rs"
  "cdb_controls (cx_db vs xs rs cs) = cs" "pdb_schema (cx_db vs xs rs cs) = vs" "wdb_inbox (cx_db vs xs rs cs) = [lab_ready_row]"
  "db_recovery_mode (wdb_outbox (cx_db vs xs rs cs)) = ''NORMAL''" "db_recovery_epoch (wdb_outbox (cx_db vs xs rs cs)) = 7"
  by (simp_all add: cx_db_def lab_exec_db_def)

lemma cx_base: "lab_base (cx_db vs xs rs cs)" and cx_room: "journal_room (cx_db vs xs rs cs)"
  by (simp_all add: lab_base_def cx_db_def journal_room_def journal_ok_def Verify_def root_def)

lemma cx_version: "ValidCodexVersion ''0.1.2''"
  by code_simp

lemma cx_provider_ok: "ProviderIdentity_Validate cx_provider = None"
proof -
  have "trimmed128 ProviderOpenAICodex" "trimmed128 CredentialChatGPTSession" "trimmed128 ExecutionTrustedSelfHosted"
    by (simp_all add: trimmed128_def ProviderOpenAICodex_def CredentialChatGPTSession_def ExecutionTrustedSelfHosted_def TrimSpace_graphic graphic_def byte_in_def)
  then show ?thesis by (simp add: ProviderIdentity_Validate_def cx_provider_def OpenAICodexConfigDigest_def)
qed

lemma cx_profile_digest: "CodexProfile_Digest cx_profile = Inr (Digest (CodexProfile_json cx_profile))"
proof -
  have "CodexProfile_Validate cx_profile = None" using cx_version cx_provider_ok
    by (simp add: CodexProfile_Validate_def cx_profile_def TrimSpace_graphic graphic_def byte_in_def)
  then show ?thesis by (simp add: CodexProfile_Digest_def)
qed

lemma cx_token_ok: "ExecToken_Valid cx_token"
  using sample_profile by (simp add: ExecToken_Valid_def cx_token_def hex64_nonce del: replicate.simps)

lemma cx_lane: "lane_ok CodexProfile_Digest 900 [cx_row]"
  using cx_profile_digest by (simp add: lane_ok_def exec_ok_def cx_row_def authorized_row_def second_def execution_states cx_token_def)

lemma cx_holds: "holds_execution edb_codex wdb_inbox ''w'' cx_token (cx_db vs [cx_row] rs cs) cx_row lab_ready_row"
  using cx_token_ok by (simp add: holds_execution_def lab_row_fields cx_row_def authorized_row_def) (simp add: cx_token_def)

lemma cx_scanned: "exec_scanned CodexProfile_Digest cx_row cx_execution"
  using cx_profile_digest cx_token_ok by (simp add: exec_scanned_def cx_row_def authorized_row_def cx_execution_def) (simp add: cx_token_def)

lemma cx_live: "live_authority (we_clock (sample_wenv 11) k) (cx_db vs [cx_row] rs cs) cx_token cx_row lab_ready_row"
  using lab_base_live [OF cx_base] by (simp add: live_authority_def live_execution_def cx_row_def authorized_row_def second_def) (simp add: cx_token_def)

definition cx_record :: inboxRecord where
  "cx_record = (inbox_record lab_row lab_intent)\<lparr>irec_state := Validated, irec_receipt := Some (prc_Admission lab_receipt)\<rparr>"

lemma cx_locks:
  "lockCodex ''w'' cx_token live (sample_wenv 11) n (cx_db vs [cx_row] rs cs)
     = (Inr (cx_execution, cx_record), (if live then n + 6 else n + 3), cx_db vs [cx_row] rs cs)"
  unfolding lockCodex_def cx_record_def
  by (rule codex.lock_ok [OF sample_wenv_simps(1) cx_holds cx_scanned lab_ready_scan]) (use cx_lane cx_live in simp_all)


section \<open>Reservations\<close>

theorem worker_holds_one_execution_witness:
  "\<exists>permit s'. StartOffline (sample_wenv 10) ''w'' lab_start (cx_db [4, 5] [] [] []) = (Inr permit, s')
     \<and> length (filter (\<lambda>x. exe_worker x = ''w'' \<and> exe_state x = Authorized) (edb_offline s')) \<le> 1
     \<and> distinct (map exe_run_id (edb_offline s'))"
proof -
  obtain permit s' where st: "StartOffline (sample_wenv 10) ''w'' lab_start (cx_db [4, 5] [] [] []) = (Inr permit, s')"
    using lab_base_started [OF cx_base cx_room, of "[4, 5]" "[]" "[]" "[]"] by auto
  have "exec_steps (cx_db [4, 5] [] [] []) s'" by (rule exec_steps.more [OF exec_steps.none exec_step.start_offline_step [OF st]])
  from worker_holds_one_execution [OF this] st show ?thesis by (auto intro: add_leD1)
qed

theorem execution_is_never_repeated_witness:
  "\<exists>answer s'. FailCodex (sample_wenv 11) ''w'' cx_token (cx_db [8, 9] [cx_row] [] []) = (answer, s')
     \<and> (\<exists>x' \<in> set (edb_codex s'). exec_kept cx_row x')
     \<and> snd (StartCodex (sample_wenv 12) ''w'' \<lparr>start_RunID = ''R-1'', start_WorkerProfile = ''wk'', start_Profile = cx_profile\<rparr> s') = s'"
proof -
  let ?s = "cx_db [8, 9] [cx_row] [] []"
  obtain answer s' where f: "FailCodex (sample_wenv 11) ''w'' cx_token ?s = (answer, s')" by fastforce
  have "exec_steps ?s s'" by (rule exec_steps.more [OF exec_steps.none exec_step.fail_codex_step [OF f]])
  moreover have "lanes_ok ?s" using cx_lane by (simp add: lanes_ok_def lane_ok_def)
  ultimately have rep: "\<forall>x \<in> set (edb_codex ?s). (\<exists>x' \<in> set (edb_codex s'). exec_kept x x')
            \<and> (\<forall>v subject req answer s''. start_RunID req = exe_run_id x \<longrightarrow> StartCodex v subject req s' = (answer, s'') \<longrightarrow> s'' = s')"
    using execution_is_never_repeated by blast
  have "exe_run_id cx_row = ''R-1''" by (simp add: cx_row_def authorized_row_def cx_token_def)
  with rep f show ?thesis by (metis Start.select_convs(1) cx_db_simps(2) list.set_intros(1) prod.collapse)
qed

section \<open>Controls\<close>

lemma cx_bounded: "boundedID ''th''" "boundedID ''tu''" "boundedID ''c''" "boundedID ''op''" "TrimSpace ''go'' = ''go''" "ValidString ''go''"
  by (simp_all add: boundedID_def TrimSpace_graphic graphic_def byte_in_def control_free_def)

lemma cx_binding_ok: "ControlBinding_Validate cx_binding = None"
  using cx_bounded cx_token_ok by (simp add: ControlBinding_Validate_def cx_binding_def)

lemma cx_input_ok: "ControlInput_Validate cx_input ControlSteer = None"
  using cx_bounded by (simp add: ControlInput_Validate_def cx_input_def)

definition cx_delivery :: "string \<Rightarrow> gotime option \<Rightarrow> gotime option \<Rightarrow> ControlDelivery" where
  "cx_delivery state sent done = \<lparr>cdl_Command = control_command cx_command, cdl_Payload = \<lparr>cpl_Binding = cx_binding, cpl_Kind = ControlSteer, cpl_Text = ''go''\<rparr>,
     cdl_State = state, cdl_DispatchedAt = sent, cdl_ResolvedAt = done\<rparr>"

lemma cx_delivery_fields:
  "delivered_input (cx_delivery state sent done) = cx_input" "cpl_Binding (cdl_Payload (cx_delivery state sent done)) = cx_binding"
  "cpl_Kind (cdl_Payload (cx_delivery state sent done)) = ControlSteer" "cmd_CreatedAt (cdl_Command (cx_delivery state sent done)) = 11"
  "cmd_RunID (cdl_Command (cx_delivery state sent done)) = xtok_RunID (cbn_Token cx_binding)"
  "cmd_ExecutionEpoch (cdl_Command (cx_delivery state sent done)) = cbn_ExecutionEpoch cx_binding"
  "cmd_ContentDigest (cdl_Command (cx_delivery state sent done)) = Digest (ControlPayload_json (cdl_Payload (cx_delivery state sent done)))"
  "cdl_DispatchedAt (cx_delivery state sent done) = sent" "cdl_ResolvedAt (cx_delivery state sent done) = done"
  "cdl_State (cx_delivery state sent done) = state" "cmd_ID (cdl_Command (cx_delivery state sent done)) = ''c''"
  "cmd_Sequence (cdl_Command (cx_delivery state sent done)) = 1"
  by (simp_all add: delivered_input_def cx_delivery_def control_command_def cx_command_def queued_row_def Let_def cx_input_def cx_binding_def cx_token_def)

lemma cx_delivery_checks:
  assumes "delivery_outcome (cx_delivery state sent done) = None" "case sent of None \<Rightarrow> True | Some t \<Rightarrow> t \<ge> 11"
    "case done of None \<Rightarrow> True | Some t \<Rightarrow> t \<ge> 11 \<and> (case sent of None \<Rightarrow> True | Some u \<Rightarrow> u \<le> t)"
  shows "ControlDelivery_Validate (cx_delivery state sent done) = None"
  using assms by (auto simp: ControlDelivery_Validate_def Let_def cx_delivery_fields cx_binding_ok cx_input_ok IsZero_def split: option.splits)

lemma cx_outcomes:
  "delivery_outcome (cx_delivery ControlQueued None None) = None" "delivery_outcome (cx_delivery ControlDispatching (Some 11) None) = None"
  "delivery_outcome (cx_delivery ControlNotApplied None (Some 11)) = None"
  by (simp_all add: delivery_outcome_def Let_def cx_delivery_fields control_names)

lemma cx_scans:
  "scanControl (Some cx_command) = Inr (cx_delivery ControlQueued None None)"
  "scanControl (Some (dispatched_row 11 cx_command)) = Inr (cx_delivery ControlDispatching (Some 11) None)"
  "scanControl (Some (closed_row ''completed'' 11 cx_command)) = Inr (cx_delivery ControlNotApplied None (Some 11))"
proof -
  have row: "ctl_payload cx_command = Some \<lparr>cpl_Binding = cx_binding, cpl_Kind = ControlSteer, cpl_Text = ''go''\<rparr>" "ctl_state cx_command = ControlQueued"
    "ctl_dispatched cx_command = None" "ctl_resolved cx_command = None" by (simp_all add: cx_command_def queued_row_def Let_def cx_input_def)
  have cmd: "control_command (dispatched_row 11 cx_command) = control_command cx_command"
    "control_command (closed_row ''completed'' 11 cx_command) = control_command cx_command"
    by (simp_all add: control_command_def dispatched_row_def closed_row_def)
  have ok: "ControlDelivery_Validate (cx_delivery ControlQueued None None) = None" "ControlDelivery_Validate (cx_delivery ControlDispatching (Some 11) None) = None"
    "ControlDelivery_Validate (cx_delivery ControlNotApplied None (Some 11)) = None" using cx_outcomes by (simp_all add: cx_delivery_checks)
  show "scanControl (Some cx_command) = Inr (cx_delivery ControlQueued None None)"
    using ok(1) by (simp add: scanControl_Inr row cx_delivery_def)
  show "scanControl (Some (dispatched_row 11 cx_command)) = Inr (cx_delivery ControlDispatching (Some 11) None)"
    using ok(2) cmd(1) row by (simp add: scanControl_Inr cx_delivery_def) (simp add: dispatched_row_def)
  show "scanControl (Some (closed_row ''completed'' 11 cx_command)) = Inr (cx_delivery ControlNotApplied None (Some 11))"
    using ok(3) cmd(2) row by (simp add: scanControl_Inr cx_delivery_def) (simp add: closed_row_def control_names)
qed

lemma cx_command_fields: "ctl_id cx_command = ''c''" "of_execution (xtok_ID cx_token) cx_command" "ctl_state cx_command = ControlQueued" "cbn_Token cx_binding = cx_token"
  by (simp_all add: cx_command_def queued_row_def Let_def cx_input_def of_execution_def cx_binding_def)

lemma cx_active_runtime:
  "lockControlRuntime cx_binding (sample_wenv 11) n (cx_db vs xs [cx_active] cs)
     = (Inr \<lparr>crt_Binding = cx_binding, crt_State = ''ACTIVE'', crt_Transcript = None, crt_Digest = []\<rparr>, Suc n, cx_db vs xs [cx_active] cs)"
  by (simp add: lockControlRuntime_def read_runtime_def tx_bind_def tx_env_def tx_read_def tx_guard_def tx_return_def controlRuntime_def cx_active_def
      cx_command_fields cx_binding_ok)

text \<open>How the sample came about: the worker binds its turn, the operator queues a command.\<close>

lemma cx_bound:
  "\<exists>s'. BindCodexControl (sample_wenv 11) ''w'' cx_binding (cx_db vs [cx_row] [] []) = (Inr (), s')
     \<and> ((9 \<in> set vs \<longrightarrow> 8 \<in> set vs) \<longrightarrow> elsewhere s' (cx_db vs [cx_row] [cx_active] []))"
proof -
  let ?s = "cx_db vs [cx_row] [] []" and ?u = "cx_db vs [cx_row] [cx_active] []"
  obtain ev where ev: "workerAudit ''worker.codex.control-bound'' ''R-1'' (ControlBinding_json cx_binding) (sample_wenv 11) 9 ?u
      = (Inr ev, 12, log_event ev ?u)"
    using workerAudit_ok [where n = 9 and runID = "''R-1''" and payload = "ControlBinding_json cx_binding", OF sample_wenv_simps(1) [of 11]
        cx_room [of vs "[cx_row]" "[cx_active]" "[]"], of "''worker.codex.control-bound''"] by auto
  have old: "read_runtime (xtok_ID cx_token) (sample_wenv 11) 7 ?s = (Inl ErrNotFound, 8, ?s)"
    by (simp add: read_runtime_def tx_bind_def tx_env_def tx_read_def controlRuntime_def)
  have bind: "?s\<lparr>cdb_runtime := [\<lparr>rtr_execution = xtok_ID cx_token, rtr_binding = Some cx_binding, rtr_state = ''ACTIVE'',
      rtr_transcript = None, rtr_digest = None\<rparr>]\<rparr> = ?u" by (simp add: cx_db_def cx_active_def)
  have b: "cbn_Token cx_binding = cx_token" "cbn_ExecutionEpoch cx_binding = 1" "int_ExecutionEpoch (irec_intent cx_record) = 1" "xtok_RunID cx_token = ''R-1''"
    by (simp_all add: cx_binding_def cx_record_def inbox_record_def lab_row_def cx_token_def)
  have "bind_body ''w'' cx_binding (sample_wenv 11) 1 ?s = (Inr (Commit ()), 12, log_event ev ?u)"
    using ev old unfolding bind_body_def b
    by (simp add: tx_bind_def tx_try_def tx_write_def tx_return_def cx_locks bind b eval_nat_numeral)
  then have "run_tx (bind_body ''w'' cx_binding) (sample_wenv 11) ?s = (Inr (), log_event ev ?u)" by (intro run_tx_commit) simp_all
  then have "BindCodexControl (sample_wenv 11) ''w'' cx_binding ?s = (Inr (), log_event ev ?u)"
    by (simp add: BindCodexControl_def cx_binding_ok)
  moreover have "(9 \<in> set vs \<longrightarrow> 8 \<in> set vs) \<longrightarrow> elsewhere (log_event ev ?u) ?u" by (simp add: elsewhere_def records_steering_def log_event_def cx_db_def)
  ultimately show ?thesis by blast
qed

definition cx_steered :: "nat list \<Rightarrow> codex_db" where
  "cx_steered vs = (cx_db vs [cx_row] [cx_active] [cx_command])
     \<lparr>wdb_sessions := (wdb_sessions lab_exec_db)(''R-1'' \<mapsto> (NewSession ''R-1'' 1)\<lparr>sess_LastSequence := 1\<rparr>),
      wdb_runs := (wdb_runs lab_exec_db)(''R-1'' \<mapsto> lab_run\<lparr>run_Version := run_Version lab_run + 1\<rparr>)\<rparr>"

lemma cx_recorded:
  "\<exists>ev. record_control ''R-1'' ControlSteer cx_binding cx_input (sample_wenv 11) 11 (cx_db vs [cx_row] [cx_active] [])
     = (Inr (Commit (cx_delivery ControlQueued None None)), 18, log_event ev (cx_steered vs))"
proof -
  let ?s = "cx_db vs [cx_row] [cx_active] []" and ?d = "cx_delivery ControlQueued None None"
  let ?u = "cx_db vs [cx_row] [cx_active] [cx_command]"
  have room: "journal_room (cx_steered vs)" using cx_room [of vs "[cx_row]" "[cx_active]" "[cx_command]"]
    by (simp add: journal_room_def journal_ok_def cx_steered_def)
  obtain ev where ev: "workerAudit ''steering.queued'' ''R-1'' (ControlDelivery_json (we_rfc3339 (sample_wenv 11)) ?d) (sample_wenv 11) 15 (cx_steered vs)
      = (Inr ev, 18, log_event ev (cx_steered vs))"
    using workerAudit_ok [where n = 15 and runID = "''R-1''" and payload = "ControlDelivery_json (we_rfc3339 (sample_wenv 11)) ?d",
        OF sample_wenv_simps(1) [of 11] room, of "''steering.queued''"] by auto
  have d: "queued_delivery ''R-1'' ControlSteer cx_binding cx_input 11 = ?d"
    by (simp add: queued_delivery_def cx_delivery_def cx_command_def) (simp add: cx_input_def)
  have ins: "insert_control (queued_row ''R-1'' ControlSteer cx_binding cx_input 11) ?s = Inr ((), ?u)"
    by (simp add: insert_control_def cx_command_def) (simp add: cx_db_def)
  have base: "wdb_sessions ?u = wdb_sessions lab_exec_db" "wdb_runs ?u = wdb_runs lab_exec_db"
    "wdb_sessions lab_exec_db ''R-1'' = Some (NewSession ''R-1'' 1)" "wdb_runs lab_exec_db ''R-1'' = Some lab_run"
    by (simp_all add: cx_db_def lab_exec_db_def lab_db_def)
  let ?v = "?u\<lparr>wdb_sessions := (wdb_sessions lab_exec_db)(''R-1'' \<mapsto> (NewSession ''R-1'' 1)\<lparr>sess_LastSequence := 1\<rparr>)\<rparr>"
  have sess: "steer_session ''R-1'' cx_input ?u = Inr ((), ?v)"
    by (simp add: steer_session_def base cx_input_def NewSession_def)
  have bump: "bump_run ''R-1'' ?v = Inr ((), cx_steered vs)"
    by (simp add: bump_run_def base cx_steered_def)
  show ?thesis using ev ins sess bump unfolding record_control_def
    by (intro exI [of _ ev]) (simp add: tx_bind_def tx_read_def tx_write_def tx_env_def tx_return_def d eval_nat_numeral)
qed

lemma cx_queued:
  "\<exists>s'. QueueCodexControl (sample_wenv 11) ''R-1'' ControlSteer cx_input (cx_db vs [cx_row] [cx_active] [])
        = (Inr (cx_delivery ControlQueued None None), s')
     \<and> ((9 \<in> set vs \<longrightarrow> 8 \<in> set vs) \<longrightarrow> elsewhere s' (cx_db vs [cx_row] [cx_active] [cx_command]))"
proof -
  let ?s = "cx_db vs [cx_row] [cx_active] []"
  obtain ev where rec: "record_control ''R-1'' ControlSteer cx_binding cx_input (sample_wenv 11) 11 ?s
     = (Inr (Commit (cx_delivery ControlQueued None None)), 18, log_event ev (cx_steered vs))" using cx_recorded by blast
  have scan: "scanCodex (find (\<lambda>x. exe_run_id x = ''R-1'') [cx_row]) = Inr cx_execution"
    using exec_scanned_scan [OF cx_scanned] by (simp add: scanCodex_def) (simp add: cx_row_def authorized_row_def cx_token_def)
  have row: "xr_worker cx_execution = ''w''" "xr_token cx_execution = cx_token" by (simp_all add: cx_execution_def)
  have b: "\<lparr>cbn_Token = cx_token, cbn_ExecutionEpoch = 1, cbn_ThreadID = ''th'', cbn_TurnID = ''tu''\<rparr> = cx_binding" by (simp add: cx_binding_def)
  have i: "cin_ExecutionEpoch cx_input = 1" "cin_ThreadID cx_input = ''th''" "cin_TurnID cx_input = ''tu''" by (simp_all add: cx_input_def)
  have r: "int_ExecutionEpoch (irec_intent cx_record) = 1" by (simp add: cx_record_def inbox_record_def lab_row_def)
  have "queue_new ''R-1'' ControlSteer cx_input (sample_wenv 11) 2 ?s
      = (Inr (Commit (cx_delivery ControlQueued None None)), 18, log_event ev (cx_steered vs))"
    using rec scan unfolding queue_new_def i
    by (simp add: tx_bind_def tx_read_def tx_map_err_def row cx_locks b Let_def cx_active_runtime r MaxControls_def eval_nat_numeral)
  then have "queue_body ''R-1'' ControlSteer cx_input (sample_wenv 11) 1 ?s
      = (Inr (Commit (cx_delivery ControlQueued None None)), 18, log_event ev (cx_steered vs))"
    unfolding queue_body_def by (simp add: tx_bind_def tx_try_def find_control_def tx_read_def scanControl_def eval_nat_numeral)
  then have "run_tx (queue_body ''R-1'' ControlSteer cx_input) (sample_wenv 11) ?s = (Inr (cx_delivery ControlQueued None None), log_event ev (cx_steered vs))"
    by (intro run_tx_commit) simp_all
  then have "QueueCodexControl (sample_wenv 11) ''R-1'' ControlSteer cx_input ?s = (Inr (cx_delivery ControlQueued None None), log_event ev (cx_steered vs))"
    by (simp add: QueueCodexControl_def cx_input_ok)
  moreover have "(9 \<in> set vs \<longrightarrow> 8 \<in> set vs) \<longrightarrow> elsewhere (log_event ev (cx_steered vs)) (cx_db vs [cx_row] [cx_active] [cx_command])"
    by (simp add: elsewhere_def records_steering_def log_event_def cx_steered_def cx_db_def)
  ultimately show ?thesis by blast
qed

lemma cx_history: "exec_steps (cx_db [8, 9] [cx_row] [] []) (cx_db [8, 9] [cx_row] [cx_active] [cx_command])"
proof -
  obtain s1 where b: "BindCodexControl (sample_wenv 11) ''w'' cx_binding (cx_db [8, 9] [cx_row] [] []) = (Inr (), s1)"
    "elsewhere s1 (cx_db [8, 9] [cx_row] [cx_active] [])" using cx_bound [of "[8, 9]"] by auto
  obtain s2 where q: "QueueCodexControl (sample_wenv 11) ''R-1'' ControlSteer cx_input (cx_db [8, 9] [cx_row] [cx_active] [])
      = (Inr (cx_delivery ControlQueued None None), s2)" "elsewhere s2 (cx_db [8, 9] [cx_row] [cx_active] [cx_command])" using cx_queued [of "[8, 9]"] by auto
  show ?thesis
    by (rule exec_steps.more [OF _ exec_step.elsewhere_step [OF q(2)]], rule exec_steps.more [OF _ exec_step.queue_step [OF q(1)]],
        rule exec_steps.more [OF _ exec_step.elsewhere_step [OF b(2)]], rule exec_steps.more [OF exec_steps.none exec_step.bind_step [OF b(1)]])
qed




section \<open>Sealing\<close>

definition cx_scope :: ScopeProof where
  "cx_scope = \<lparr>scp_Version = 1, scp_Mechanism = Mechanism, scp_HostPID = 42, scp_NamespaceID = 2, scp_ParentNamespaceID = 1,
     scp_StartedAt = 10, scp_ReapedAt = 11, scp_InitReaped = True\<rparr>"

definition cx_close :: ControlClose where
  "cx_close = \<lparr>ccl_Binding = cx_binding, ccl_TurnStatus = ''completed'', ccl_ProcessScope = cx_scope\<rparr>"

definition cx_transcript :: "ControlDelivery list \<Rightarrow> ControlTranscript" where
  "cx_transcript ds = \<lparr>ctr_Version = 2, ctr_Close = cx_close, ctr_Deliveries = Slice ds\<rparr>"

lemma cx_scope_quiescent: "Quiescent cx_scope"
  by (simp add: Quiescent_def ScopeProof_Validate_def cx_scope_def IsZero_def)

lemma cx_close_ok: "ControlClose_Validate cx_close = None"
  using cx_scope_quiescent cx_binding_ok by (simp add: ControlClose_Validate_def cx_close_def Quiescent_def)

lemma cx_transcript_digests:
  "ControlTranscript_Digest rfc3339 (cx_transcript []) = Inr (Digest (ControlTranscript_json rfc3339 (cx_transcript [])))"
  "ControlTranscript_Digest rfc3339 (cx_transcript [cx_delivery ControlNotApplied None (Some 11)])
     = Inr (Digest (ControlTranscript_json rfc3339 (cx_transcript [cx_delivery ControlNotApplied None (Some 11)])))"
proof -
  have t: "ctr_Close (cx_transcript ds) = cx_close" "ctr_Version (cx_transcript ds) = 2" "elems (ctr_Deliveries (cx_transcript ds)) = ds"
    "ccl_Binding cx_close = cx_binding" for ds by (simp_all add: cx_transcript_def cx_close_def)
  have "ControlDelivery_Validate (cx_delivery ControlNotApplied None (Some 11)) = None" using cx_outcomes(3) by (simp add: cx_delivery_checks)
  then have "check_deliveries cx_binding 0 {} [cx_delivery ControlNotApplied None (Some 11)]"
    by (simp add: cx_delivery_fields control_names)
  then show "ControlTranscript_Digest rfc3339 (cx_transcript []) = Inr (Digest (ControlTranscript_json rfc3339 (cx_transcript [])))"
    "ControlTranscript_Digest rfc3339 (cx_transcript [cx_delivery ControlNotApplied None (Some 11)])
       = Inr (Digest (ControlTranscript_json rfc3339 (cx_transcript [cx_delivery ControlNotApplied None (Some 11)])))"
    by (simp_all add: ControlTranscript_Digest_def t cx_close_ok MaxControls_def)
qed

lemma cx_closed:
  "\<exists>s'. CloseCodexControl (sample_wenv 11) ''w'' cx_close (cx_db vs [cx_row] [cx_active] [cx_command])
     = (Inr (cx_transcript [cx_delivery ControlNotApplied None (Some 11)]), s')"
proof -
  let ?s = "cx_db vs [cx_row] [cx_active] [cx_command]" and ?k = "xtok_ID cx_token" and ?rfc = "we_rfc3339 (sample_wenv 11)"
  let ?t = "cx_transcript [cx_delivery ControlNotApplied None (Some 11)]"
  let ?c = "update_controls (open_control ?k) (closed_row ''completed'' 11) ?s"
  let ?u = "?c\<lparr>cdb_runtime := update_rows (\<lambda>r. rtr_execution r = ?k) (seal_row ?t (Digest (ControlTranscript_json ?rfc ?t))) [cx_active]\<rparr>"
  have room: "journal_room ?u" using cx_room [of vs "[cx_row]" "[cx_active]" "[cx_command]"]
    by (simp add: journal_room_def journal_ok_def update_controls_def)
  obtain ev where ev: "workerAudit ''worker.codex.controls-sealed'' ''R-1'' (ControlTranscript_json ?rfc ?t) (sample_wenv 11) 8 ?u = (Inr ev, 11, log_event ev ?u)"
    using workerAudit_ok [where n = 8 and runID = "''R-1''" and payload = "ControlTranscript_json ?rfc ?t", OF sample_wenv_simps(1) [of 11] room,
        of "''worker.codex.controls-sealed''"] by auto
  have controls: "cdb_controls ?c = [closed_row ''completed'' 11 cx_command]"
    by (simp add: update_controls_def update_rows_def open_control_def cx_command_fields)
  have "of_execution ?k (closed_row ''completed'' 11 cx_command)" using cx_command_fields(2) by (simp add: of_execution_def closed_row_def)
  with controls have scan: "scan_controls (sort_key ctl_sequence (filter (of_execution ?k) (cdb_controls ?c))) = Inr [cx_delivery ControlNotApplied None (Some 11)]"
    using cx_scans(3) by simp
  have rt: "cdb_runtime ?c = [cx_active]" by (simp add: update_controls_def)
  have c: "ccl_Binding cx_close = cx_binding" "ccl_TurnStatus cx_close = ''completed''" "xtok_RunID cx_token = ''R-1''" by (simp_all add: cx_close_def cx_token_def)
  have "seal_controls cx_close (sample_wenv 11) 5 ?s = (Inr (Commit ?t), 11, log_event ev ?u)"
    using ev scan rt cx_transcript_digests(2) unfolding seal_controls_def Let_def c cx_command_fields(4) cx_transcript_def
    by (simp add: tx_bind_def tx_write_def tx_read_def tx_env_def tx_lift_def tx_return_def eval_nat_numeral)
  then have "close_control ''w'' cx_close (sample_wenv 11) 1 ?s = (Inr (Commit ?t), 11, log_event ev ?u)"
    unfolding close_control_def c cx_command_fields(4) by (simp add: tx_bind_def cx_locks cx_active_runtime)
  then have "run_tx (close_control ''w'' cx_close) (sample_wenv 11) ?s = (Inr ?t, log_event ev ?u)" by (intro run_tx_commit) simp_all
  then show ?thesis by (simp add: CloseCodexControl_def cx_close_ok)
qed

theorem sealed_controls_are_final_witness:
  "\<exists>s1 s2. CloseCodexControl (sample_wenv 11) ''w'' cx_close (cx_db [8, 9] [cx_row] [cx_active] [cx_command])
        = (Inr (cx_transcript [cx_delivery ControlNotApplied None (Some 11)]), s1)
     \<and> s2 = snd (QueueCodexControl (sample_wenv 12) ''R-1'' ControlInterrupt (cx_input\<lparr>cin_ID := ''d'', cin_Text := []\<rparr>) s1)
     \<and> scan_controls (sort_key ctl_sequence (filter (\<lambda>r. ctl_execution r = Some (xtok_ID cx_token)) (cdb_controls s2)))
         = Inr [cx_delivery ControlNotApplied None (Some 11)]"
proof -
  from cx_closed obtain s1 where c: "CloseCodexControl (sample_wenv 11) ''w'' cx_close (cx_db [8, 9] [cx_row] [cx_active] [cx_command])
        = (Inr (cx_transcript [cx_delivery ControlNotApplied None (Some 11)]), s1)" by blast
  let ?q = "QueueCodexControl (sample_wenv 12) ''R-1'' ControlInterrupt (cx_input\<lparr>cin_ID := ''d'', cin_Text := []\<rparr>) s1"
  have "exec_steps s1 (snd ?q)" by (rule exec_steps.more [OF exec_steps.none exec_step.queue_step]) (rule surjective_pairing)
  from sealed_controls_are_final [OF cx_history _ _ c this] c show ?thesis by (simp add: cx_close_def cx_transcript_def cx_command_fields)
qed


section \<open>Delivery\<close>












end
