(* ===== verification/Spec2Isabelle.thy ===== *)
theory Spec2Isabelle
  imports Duties Journal Outbox CodexSample
begin

text \<open>
  Verification of the control plane of the engineering platform (Go, under \<open>src/internal\<close>).

  The program keeps the authority over engineering work: a work item gets a frozen task contract, a
  run with its session executes it, a delivery with evidence is verified, reviewed and closed, and
  irreversible actions towards the outside go through a gateway. Everything is fenced by epochs,
  versions and digests, because several people, workers and retries act at the same time.

  \<^bold>\<open>Theories and sources.\<close>
  \<^item> \<open>Prelude\<close>, \<open>GoStrings\<close>: errors and \<open>errors.Is\<close>, results, contexts as the answers of their
    successive \<open>ctx.Err()\<close> calls, slices with nil, 64-bit words, maps, and the string functions the
    sources use (on bytes).
  \<^item> \<open>Canonical\<close> (\<open>canonical\<close>): the JSON encoding of digested values and SHA-256 on words.
  \<^item> \<open>CoreModel\<close> (\<open>core\<close>), \<open>Execution\<close> (\<open>run\<close>, \<open>session\<close>), \<open>Recovery\<close> (\<open>recovery\<close>), \<open>Assurance\<close>
    (\<open>verification\<close>, \<open>review\<close>): the domain types as records and datatypes, one function per method.
  \<^item> \<open>Action\<close> (\<open>action\<close>): the ledger of external operations; \<open>Execute\<close> and \<open>Reconcile\<close> as programs whose
    every call to the repository, the guard, the clock and the provider is one step, so that calls
    interleave; the interface \<open>action_repository\<close> and the in-memory repository that implements it.
  \<^item> \<open>MemoryStore\<close> (\<open>store/memory.go\<close>): the store as a record of maps, one function per method (each
    holds the lock), and \<open>store_steps\<close>, the histories of accepted writes.
  \<^item> \<open>Gateway\<close> (\<open>gateway\<close>): the authority checks over the store, and the action service on it.
  \<^item> \<open>Intake\<close> (\<open>material\<close>, \<open>routing\<close>, \<open>embedded\<close>, \<open>debug\<close>): readiness of material, routes, the skill
    catalogue and its digest, debug hypotheses.
  \<^item> \<open>Api\<close>, \<open>Server\<close>, \<open>Schedules\<close>, \<open>Guarantees\<close> (\<open>api/server.go\<close> and the accessors beside it): every
    handler as a program of store calls, any number of requests in flight, any schedule.
  \<^item> \<open>AccessPolicy\<close> (\<open>access\<close>), \<open>Authenticated\<close>, \<open>Duties\<close> (\<open>api/authenticated.go\<close>): policies and their grants,
    client authentication, the capability of every route, authorization of request bodies, and the
    same server behind them.
  \<^item> \<open>Journal\<close> (\<open>audit\<close>): the hash-chained audit journal.
  \<^item> \<open>Outbox\<close> (\<open>outbox\<close>, \<open>store/postgres/outbox_store.go\<close>): the dispatcher, and the repository as
    statements on a table of rows; many workers as a step relation.
  \<^item> \<open>Transactions\<close> (\<open>store/postgres/commit_outcome.go\<close> and the transaction frame of the worker
    operations): database transactions as state transformers over an environment of failures and clocks.
  \<^item> \<open>WorkerQueue\<close> (\<open>workerqueue\<close>), \<open>WorkerInbox\<close>, \<open>WorkerLeases\<close> (\<open>store/postgres/worker_store.go\<close>),
    \<open>WorkerRelay\<close> (\<open>worker_relay.go\<close>): intents of runs, their transfer from the outbox to the inbox of
    the workers, claims, leases, renewals and admission receipts.
  \<^item> \<open>Sandbox\<close> (\<open>sandbox\<close>): offline profiles, output contracts, results, container inspection.
  \<^item> \<open>Preparation\<close> (\<open>preparation\<close>, \<open>preparation_store.go\<close>): the facts of a prepared workspace and their
    record.
  \<^item> \<open>Executions\<close>, \<open>ExecutionLanes\<close>, \<open>OfflineLane\<close> (\<open>offline\<close>, \<open>offline_store.go\<close>,
    \<open>execution_reconcile.go\<close>): execution reservations. The lanes keep tables of the same shape, so the common
    operations are defined once over a table, proved once in the locale \<open>execution_lane\<close>, and
    interpreted on each lane.
  \<^item> \<open>CodexModel\<close>, \<open>CodexControl\<close> (\<open>codexexec\<close>, \<open>provideridentity\<close>, \<open>processscope/proof.go\<close> and the
    receipts of \<open>runtime/codexapp\<close>): profiles, prompt identities, results and receipts of Codex
    executions, their live controls, transcripts and source checkpoints.
  \<^item> \<open>CodexStore\<close>, \<open>CodexLane\<close> (\<open>codex_store.go\<close>, \<open>codex_controls.go\<close>, \<open>codex_checkpoint.go\<close>): the Codex
    lane, the second interpretation of \<open>execution_lane\<close>, with binding, queueing, claiming, settling and
    sealing of controls.
  \<^item> \<open>ExecutionHistory\<close>, \<open>ControlHistory\<close>: the operations of both lanes and of the controls as steps of a
    relation, and what all histories keep; \<open>CodexSample\<close>: one execution on which they are applied.

  \<^bold>\<open>What is shown.\<close>
  \<^item> Actions: at most one dispatch per idempotency key over all interleavings, a ledger row before
    every dispatch, rows that only advance, truthful receipts; on the store, every dispatch is authorised by the current run, session, recovery epoch and contract.
  \<^item> Store: records written once, gapless frozen revisions, versions that lose no update, a closure
    that stands on a passing review, verification and delivery of one subject.
  \<^item> Server: whatever requests interleave, a closure is earned by evidence that satisfies the frozen
    plan, run and session agree on the epoch, and stale epochs are conflicts. (\<open>authority_served\<close>: the
    store is a history of accepted writes; \<open>answers_are_recorded\<close>: immutable records in answers are
    stored exactly as shown.)
  \<^item> Network endpoint: only authenticated requests with the capability of their route call the store,
    and the reviewer behind a closure is another principal than the verifier, than the one its
    evidence was admitted under and than the owner of any work.
  \<^item> Journal: what is appended verifies, and a root digest commits to the whole history, except for
    the times of its events.
  \<^item> Outbox: one handler call per claimed attempt under every interleaving, crash and lost commit,
    fenced by lease and risk class and, for everything but observations, by the recovery epoch;
    settled messages are final; bounded back-off. (The steps are claims, batches, receipts, enqueueing
    and recovery; the relay, which also leases and settles rows of its topic, is not among them.)
  \<^item> Workers: inputs are admitted and preparations recorded only under a lease that is unexpired at the
    clock readings of the check and of the write and belongs to the current recovery epoch, a
    preparation together with its admission; receipts can be read back after every history of the
    inbox; a report that follows its claim undisturbed is admitted; the relay takes only messages
    that wait and never dispatches a run start without its inbox row.
  \<^item> Executions: over all histories a worker holds at most one authorized reservation over both lanes, a
    reservation is made once per run and lane, keeps its identity and is decided once; an offline
    result is accepted only under live authority and valid for the frozen profile, a Codex result only
    from a completed and reaped turn whose controls are sealed and all accepted; what the server
    issues passes the checks of the worker; containers that pass inspection are confined.
  \<^item> Controls: a live command is handed out at most once, in order and alone, and the transcript
    that seals an execution is what its commands are for ever after.
  \<^item> Domain: exact characterisations of plan validation, verdicts, context references, material
    readiness; the work state machine; fencing of old epochs; recovery mode.

  \<^bold>\<open>Bounds.\<close> Epochs, versions and revisions are 64-bit words that wrap as in the source; a claim that needs
  the absence of a full wrap says so (fewer than 2^64 steps). There is no fuel in the model: \<open>finish\<close>,
  which runs requests one after the other for the sample day, takes the number of steps, and a request
  of that day needs at most six.

  Database statements are atomic and read the clock once; the context of a call answers at every point
  where the database can fail, and a lost commit may or may not have taken effect. A transaction is
  one step: it locks the rows it decides on before it reads them. Where it decides on rows it
  has not locked (the choice of a candidate), what it sees of them is an argument. JSON columns hold
  the decoded value or, when it does not decode, nothing; the strict decoder of message payloads
  and the rendering of timestamps are arguments.

  \<^bold>\<open>Not modelled.\<close> The rest of the PostgreSQL store (the core tables, actions, publication,
  status reports, and the transaction that continues an interrupted Codex execution, which the histories
  of executions contain as a step described by its effect on their tables), the rendering of
  prompts and skill guidance, the worker and publisher processes and the command line programs (processes, files, HTTP
  clients), the routes of the worker operations. Request bodies are the decoded values. The action service
  and the other handlers are scheduled in two models that share the store: the steps of one are not
  interleaved with the steps of the other. The encoding of timestamps is not modelled, so the
  digests of review reports and recovery proofs are left out.
\<close>

end
